(* ===== verification/GoPrelude.thy ===== *)
theory GoPrelude
  imports Complex_Main "HOL-Library.List_Lexorder" "HOL-Library.Char_ord"
begin

text \<open>
  Shared vocabulary of the development: the parts of Go and of its standard library that the
  modelled packages use (64-bit integers, instants, hexadecimal text, string helpers), SQL text
  conventions, and the lemmas about them that the component theories share.

  \<^item> A Go \<open>string\<close> is a \<^typ>\<open>string\<close> whose characters are its bytes, so
    \<^const>\<open>length\<close> is Go's \<open>len\<close>.
  \<^item> A \<open>time.Time\<close> is an instant, counted in nanoseconds from Go's zero time: the zero value
    is \<open>0\<close>, \<open>IsZero\<close> is \<open>t = 0\<close>, \<open>Before\<close> is \<open><\<close>, and \<open>UTC()\<close> (which only changes
    the printed location) is the identity.
  \<^item> An \<open>int64\<close> is an \<^typ>\<open>int\<close>; every increment that could leave the 64-bit range goes
    through \<open>i64\<close>, which writes the wrap-around out.
\<close>

named_theorems guard_simps \<open>definitions of the validation guards\<close>
named_theorems row_simps \<open>definitions of stored-row constraints\<close>

section \<open>Integers and instants\<close>

type_synonym time = int
type_synonym duration = int
type_synonym ID = string

definition i64 :: "int \<Rightarrow> int" where
  "i64 x = (x + 2 ^ 63) mod 2 ^ 64 - 2 ^ 63"

lemma i64_id: "- (2 ^ 63) \<le> x \<Longrightarrow> x < 2 ^ 63 \<Longrightarrow> i64 x = x"
  by (simp add: i64_def)

lemma i64_range: "- (2 ^ 63) \<le> i64 x \<and> i64 x < 2 ^ 63"
proof -
  have "(x + 2 ^ 63) mod 2 ^ 64 < (2 ^ 64 :: int)" "0 \<le> (x + 2 ^ 63) mod (2 ^ 64 :: int)"
    by simp_all
  then show ?thesis by (simp add: i64_def)
qed

lemma i64_succ: "0 \<le> x \<Longrightarrow> x < 2 ^ 63 - 1 \<Longrightarrow> i64 (x + 1) = x + 1"
  by (rule i64_id) auto

lemma i64_succ_neq: "- (2 ^ 63) \<le> x \<Longrightarrow> x < 2 ^ 63 \<Longrightarrow> i64 (x + 1) \<noteq> x"
proof (cases "x = 2 ^ 63 - 1")
  case True
  then show ?thesis by (simp add: i64_def)
next
  case False
  assume "- (2 ^ 63) \<le> x" "x < 2 ^ 63"
  with False have "i64 (x + 1) = x + 1" by (intro i64_id) auto
  then show ?thesis by simp
qed

definition second :: duration where
  "second = 1000000000"

section \<open>Strings\<close>

definition has_prefix :: "string \<Rightarrow> string \<Rightarrow> bool" where
  "has_prefix s p = (take (length p) s = p)"

definition trim_prefix :: "string \<Rightarrow> string \<Rightarrow> string" where
  "trim_prefix s p = (if has_prefix s p then drop (length p) s else s)"

lemma has_prefix_append [simp]: "has_prefix (p @ s) p"
  by (simp add: has_prefix_def)

lemma trim_prefix_append [simp]: "trim_prefix (p @ s) p = s"
  by (simp add: trim_prefix_def)

text \<open>\<open>strings.LastIndexByte\<close>: the index of the last occurrence, or \<open>-1\<close>.\<close>

definition last_index_byte :: "string \<Rightarrow> char \<Rightarrow> int" where
  "last_index_byte s c =
     (if c \<in> set s then int (length s) - 1 - int (length (takeWhile (\<lambda>x. x \<noteq> c) (rev s)))
      else - 1)"

lemma last_index_byte_append:
  assumes "c \<notin> set r"
  shows "last_index_byte (p @ c # r) c = int (length p)"
proof -
  have "takeWhile (\<lambda>x. x \<noteq> c) (rev (p @ c # r)) = rev r"
    using assms by (simp add: takeWhile_append takeWhile_tail)
  then show ?thesis by (simp add: last_index_byte_def)
qed

lemma split_last_occurrence:
  assumes "c \<in> set s"
  obtains p r where "s = p @ c # r" "c \<notin> set r"
  using split_list_last [OF assms] by blast

section \<open>Hexadecimal text\<close>

text \<open>\<open>hex.DecodeString\<close>: both letter cases are accepted, an odd length is an error.\<close>

definition hex_val :: "char \<Rightarrow> nat option" where
  "hex_val c = (let n = (of_char c :: nat) in
     if 48 \<le> n \<and> n \<le> 57 then Some (n - 48)
     else if 97 \<le> n \<and> n \<le> 102 then Some (n - 87)
     else if 65 \<le> n \<and> n \<le> 70 then Some (n - 55)
     else None)"

fun hex_decode :: "string \<Rightarrow> nat list option" where
  "hex_decode [] = Some []"
| "hex_decode [c] = None"
| "hex_decode (c # d # cs) =
     (case (hex_val c, hex_val d, hex_decode cs) of
        (Some h, Some l, Some bs) \<Rightarrow> Some ((16 * h + l) # bs)
      | _ \<Rightarrow> None)"

definition hex_digit :: "nat \<Rightarrow> char" where
  "hex_digit n = ''0123456789abcdef'' ! n"

definition hex_encode :: "nat list \<Rightarrow> string" where
  "hex_encode bs = concat (map (\<lambda>b. [hex_digit (b div 16), hex_digit (b mod 16)]) bs)"

lemma hex_val_digit: "n < 16 \<Longrightarrow> hex_val (hex_digit n) = Some n"
proof -
  have "\<forall>n \<in> {..<16}. hex_val (hex_digit n) = Some n"
    by (simp add: lessThan_nat_numeral lessThan_Suc hex_val_def hex_digit_def)
  then show "n < 16 \<Longrightarrow> ?thesis" by simp
qed

lemma hex_decode_encode: "\<forall>b \<in> set bs. b < 256 \<Longrightarrow> hex_decode (hex_encode bs) = Some bs"
proof (induction bs)
  case Nil
  then show ?case by (simp add: hex_encode_def)
next
  case (Cons b bs)
  then have "b div 16 < 16" "b mod 16 < 16" by auto
  moreover from Cons have "hex_decode (hex_encode bs) = Some bs" by simp
  ultimately show ?case by (simp add: hex_encode_def hex_val_digit)
qed

lemma length_hex_encode [simp]: "length (hex_encode bs) = 2 * length bs"
  by (induction bs) (simp_all add: hex_encode_def)

lemma hex_decode_length: "hex_decode s = Some bs \<Longrightarrow> length s = 2 * length bs"
  by (induction s arbitrary: bs rule: hex_decode.induct) (auto split: option.splits)

lemma hex_decode_iff:
  "(\<exists>bs. hex_decode s = Some bs) \<longleftrightarrow> even (length s) \<and> (\<forall>c \<in> set s. hex_val c \<noteq> None)"
  by (induction s rule: hex_decode.induct) (auto split: option.splits)

lemma hex_val_underscore [simp]: "hex_val CHR ''_'' = None"
  by (simp add: hex_val_def)

definition is_hex_text :: "string \<Rightarrow> bool" where
  "is_hex_text s = (hex_decode s \<noteq> None)"

section \<open>Text stored by SQLite\<close>

text \<open>
  SQLite's \<open>length\<close> of a TEXT value counts characters up to the first NUL, not bytes: a byte
  \<open>10xxxxxx\<close> continues a UTF-8 character.
\<close>

definition sql_length :: "string \<Rightarrow> nat" where
  "sql_length s = length (filter (\<lambda>c. \<not> (128 \<le> (of_char c :: nat) \<and> (of_char c :: nat) < 192))
                            (takeWhile (\<lambda>c. c \<noteq> CHR 0x00) s))"

lemma sql_length_le: "sql_length s \<le> length s"
proof -
  have "sql_length s \<le> length (takeWhile (\<lambda>c. c \<noteq> CHR 0x00) s)"
    by (simp add: sql_length_def)
  also have "\<dots> \<le> length s" by (rule length_takeWhile_le)
  finally show ?thesis .
qed

text \<open>
  \<open>storage.formatTime\<close> writes an instant as RFC 3339 text with the fraction's trailing zeros
  removed. All timestamps of one table have the same fixed-width part down to the second, so the
  SQL comparison of two such texts compares the seconds first and then the rest as text: the
  fraction (with its leading dot, absent when it is zero) followed by \<open>Z\<close>.
\<close>

fun digits_fixed :: "nat \<Rightarrow> nat \<Rightarrow> string" where
  "digits_fixed 0 n = []"
| "digits_fixed (Suc w) n = digits_fixed w (n div 10) @ [''0123456789'' ! (n mod 10)]"

lemma digits_fixed_numeral [simp]:
  "digits_fixed (numeral k) n = digits_fixed (pred_numeral k) (n div 10) @ [''0123456789'' ! (n mod 10)]"
  unfolding numeral_eq_Suc [of k] by (rule digits_fixed.simps(2))

definition frac_text :: "nat \<Rightarrow> string" where
  "frac_text n =
     (let ds = rev (dropWhile (\<lambda>c. c = CHR ''0'') (rev (digits_fixed 9 n)))
      in if ds = [] then ''Z'' else CHR ''.'' # ds @ ''Z'')"

definition text_before :: "time \<Rightarrow> time \<Rightarrow> bool" where
  "text_before a b =
     (let sa = a div second; sb = b div second in
      sa < sb \<or> (sa = sb \<and> frac_text (nat (a mod second)) < frac_text (nat (b mod second))))"

definition text_le :: "time \<Rightarrow> time \<Rightarrow> bool" where
  "text_le a b = (\<not> text_before b a)"

lemma text_before_irrefl [simp]: "\<not> text_before a a"
  by (simp add: text_before_def)

lemma text_le_refl [simp]: "text_le a a"
  by (simp add: text_le_def)

lemma text_before_seconds: "a div second < b div second \<Longrightarrow> text_before a b"
  by (simp add: text_before_def)

lemma text_before_trans: "text_before a b \<Longrightarrow> text_before b c \<Longrightarrow> text_before a c"
  by (auto simp: text_before_def Let_def)

lemma text_le_total: "text_le a b \<or> text_le b a"
  by (auto simp: text_le_def text_before_def Let_def)

text \<open>Whole-second instants compare as the instants do.\<close>

lemma text_before_whole:
  assumes "a mod second = 0" "b mod second = 0"
  shows "text_before a b \<longleftrightarrow> a < b"
proof -
  have "a = a div second * second" "b = b div second * second"
    using assms by (metis add.right_neutral div_mult_mod_eq)+
  moreover have "0 < second" by (simp add: second_def)
  ultimately have "a div second < b div second \<longleftrightarrow> a < b"
    by (metis mult_less_cancel_right_pos)
  then show ?thesis using assms by (simp add: text_before_def Let_def)
qed

section \<open>Results\<close>

text \<open>Sequencing of fallible steps, as Go's \<open>if err != nil { return err }\<close>.\<close>

definition bindE :: "'e + 'a \<Rightarrow> ('a \<Rightarrow> 'e + 'b) \<Rightarrow> 'e + 'b" where
  "bindE x f = (case x of Inl e \<Rightarrow> Inl e | Inr a \<Rightarrow> f a)"

lemma bindE_simps [simp]: "bindE (Inl e) f = Inl e" "bindE (Inr a) f = f a"
  by (simp_all add: bindE_def)

lemma bindE_Inr: "bindE x f = Inr b \<longleftrightarrow> (\<exists>a. x = Inr a \<and> f a = Inr b)"
  by (cases x) simp_all

lemma bindE_Inl: "bindE x f = Inl e \<longleftrightarrow> x = Inl e \<or> (\<exists>a. x = Inr a \<and> f a = Inl e)"
  by (cases x) simp_all

fun is_ok :: "'e + 'a \<Rightarrow> bool" where
  "is_ok (Inl e) = False"
| "is_ok (Inr a) = True"

lemma is_ok_iff: "is_ok x \<longleftrightarrow> (\<exists>a. x = Inr a)"
  by (cases x) simp_all

lemma if_Inl_eq_Inr [simp]: "((if c then Inl e else x) = Inr y) \<longleftrightarrow> \<not> c \<and> x = Inr y"
  by simp

text \<open>The \<open>for \<dots> range\<close> loops that return the first error.\<close>

fun check_all :: "('a \<Rightarrow> 'e + unit) \<Rightarrow> 'a list \<Rightarrow> 'e + unit" where
  "check_all f [] = Inr ()"
| "check_all f (x # xs) = bindE (f x) (\<lambda>_. check_all f xs)"

lemma check_all_ok: "check_all f xs = Inr u \<longleftrightarrow> (\<forall>x \<in> set xs. f x = Inr ())"
  by (induction xs) (auto simp: bindE_Inr)

text \<open>Following the branches of an equation without keeping their conditions.\<close>

lemma if_branch: "(if b then x else y) = z \<Longrightarrow> (x = z \<Longrightarrow> P) \<Longrightarrow> (y = z \<Longrightarrow> P) \<Longrightarrow> P"
  by (simp split: if_splits)

lemma sum_branch: "(case v of Inl e \<Rightarrow> f e | Inr r \<Rightarrow> g r) = z \<Longrightarrow>
    (\<And>e. v = Inl e \<Longrightarrow> f e = z \<Longrightarrow> P) \<Longrightarrow> (\<And>r. v = Inr r \<Longrightarrow> g r = z \<Longrightarrow> P) \<Longrightarrow> P"
  by (cases v) simp_all

lemma prod_branch: "(case v of (a, b) \<Rightarrow> f a b) = z \<Longrightarrow> (\<And>a b. v = (a, b) \<Longrightarrow> f a b = z \<Longrightarrow> P) \<Longrightarrow> P"
  by (cases v) simp

lemma option_branch: "(case v of None \<Rightarrow> x | Some r \<Rightarrow> g r) = z \<Longrightarrow>
    (v = None \<Longrightarrow> x = z \<Longrightarrow> P) \<Longrightarrow> (\<And>r. v = Some r \<Longrightarrow> g r = z \<Longrightarrow> P) \<Longrightarrow> P"
  by (cases v) simp_all

lemma bind_branch: "bindE v g = Inr z \<Longrightarrow> (\<And>r. v = Inr r \<Longrightarrow> g r = Inr z \<Longrightarrow> P) \<Longrightarrow> P"
  by (cases v) simp_all

lemmas branches = if_branch sum_branch option_branch prod_branch bind_branch

end
