(* ===== verification/Errors.thy ===== *)
theory Errors
  imports GoPrelude
begin

text \<open>
  \<open>src/internal/domain/errors.go\<close>: the stable error codes, the error value that crosses the
  command boundary, and \<open>CodeOf\<close>. Two Go constants, \<open>CodeProviderUnavailable\<close> and
  \<open>CodeProviderCapabilityUnavailable\<close>, hold the same text and so are the same value; the
  model has one constructor for it and an abbreviation for the other name.
\<close>

datatype (plugins only: code size) ErrorCode =
    CodeInvalidArgument
  | CodeNotFound
  | CodeAlreadyExists
  | CodeConflict
  | CodeUnauthenticated
  | CodePermissionDenied
  | CodeUnsupportedVersion
  | CodeMethodNotFound
  | CodeFrameTooLarge
  | CodeDeadlineExceeded
  | CodeResourceExhausted
  | CodeDaemonUnavailable
  | CodeSchemaIncompatible
  | CodeInvalidTransition
  | CodeLeaseRequired
  | CodeLeaseHeld
  | CodeStaleLease
  | CodeReplayUnavailable
  | CodeVaultLocked
  | CodeVaultAlreadyInitialized
  | CodeVaultCorrupt
  | CodeVaultUnlockFailed
  | CodeProviderFailed
  | CodeUnsupportedPlatform
  | CodeMaterializationConflict
  | CodeQuarantined
  | CodeProviderUnsupported
  | CodeProviderControlUnsupported
  | CodeProviderResumeUnsupported
  | CodeProviderVersionUnsupported
  | CodeProviderProtocolError
  | CodeUsageUnavailable
  | CodeApprovalUnknown
  | CodeApprovalLeaseRequired
  | CodeApprovalDispatchAmbiguous
  | CodeCredentialWriterConflict
  | CodeCredentialRevisionConflict
  | CodeCredentialRecoveryRequired
  | CodeAliasInvalid
  | CodeAliasConflict
  | CodeAccountNotFound
  | CodeAccountDisabled
  | CodeProfileNotFound
  | CodeProfileDisabled
  | CodeProfileBindingChanged
  | CodeProfileInUse
  | CodeActiveSessions
  | CodeProviderCleanupRequired
  | CodeUsageNotObservedYet
  | CodeUsageStale
  | CodeSyncConflict
  | CodeIdentityConfirmationRequired
  | CodeIdentityConfirmationMismatch
  | CodeConfirmationExpired
  | CodeProviderCapabilityUnavailable
  | CodeProviderPlatformUnsupported
  | CodeProviderIdentityPending

abbreviation CodeProviderUnavailable :: ErrorCode where
  "CodeProviderUnavailable \<equiv> CodeProviderCapabilityUnavailable"

primrec code_text :: "ErrorCode \<Rightarrow> string" where
  "code_text CodeInvalidArgument = ''invalid_argument''"
| "code_text CodeNotFound = ''not_found''"
| "code_text CodeAlreadyExists = ''already_exists''"
| "code_text CodeConflict = ''conflict''"
| "code_text CodeUnauthenticated = ''unauthenticated''"
| "code_text CodePermissionDenied = ''permission_denied''"
| "code_text CodeUnsupportedVersion = ''unsupported_version''"
| "code_text CodeMethodNotFound = ''method_not_found''"
| "code_text CodeFrameTooLarge = ''frame_too_large''"
| "code_text CodeDeadlineExceeded = ''deadline_exceeded''"
| "code_text CodeResourceExhausted = ''resource_exhausted''"
| "code_text CodeDaemonUnavailable = ''daemon_unavailable''"
| "code_text CodeSchemaIncompatible = ''schema_incompatible''"
| "code_text CodeInvalidTransition = ''invalid_transition''"
| "code_text CodeLeaseRequired = ''lease_required''"
| "code_text CodeLeaseHeld = ''lease_held''"
| "code_text CodeStaleLease = ''stale_lease''"
| "code_text CodeReplayUnavailable = ''replay_unavailable''"
| "code_text CodeVaultLocked = ''vault_locked''"
| "code_text CodeVaultAlreadyInitialized = ''vault_already_initialized''"
| "code_text CodeVaultCorrupt = ''vault_corrupt''"
| "code_text CodeVaultUnlockFailed = ''vault_unlock_failed''"
| "code_text CodeProviderFailed = ''provider_failed''"
| "code_text CodeUnsupportedPlatform = ''unsupported_platform''"
| "code_text CodeMaterializationConflict = ''materialization_conflict''"
| "code_text CodeQuarantined = ''quarantined''"
| "code_text CodeProviderUnsupported = ''provider_unsupported''"
| "code_text CodeProviderControlUnsupported = ''provider_control_unsupported''"
| "code_text CodeProviderResumeUnsupported = ''provider_resume_unsupported''"
| "code_text CodeProviderVersionUnsupported = ''provider_version_unsupported''"
| "code_text CodeProviderProtocolError = ''provider_protocol_error''"
| "code_text CodeUsageUnavailable = ''usage_unavailable''"
| "code_text CodeApprovalUnknown = ''approval_request_unknown''"
| "code_text CodeApprovalLeaseRequired = ''approval_lease_required''"
| "code_text CodeApprovalDispatchAmbiguous = ''approval_dispatch_ambiguous''"
| "code_text CodeCredentialWriterConflict = ''credential_writer_conflict''"
| "code_text CodeCredentialRevisionConflict = ''credential_revision_conflict''"
| "code_text CodeCredentialRecoveryRequired = ''credential_recovery_required''"
| "code_text CodeAliasInvalid = ''alias_invalid''"
| "code_text CodeAliasConflict = ''alias_conflict''"
| "code_text CodeAccountNotFound = ''account_not_found''"
| "code_text CodeAccountDisabled = ''account_disabled''"
| "code_text CodeProfileNotFound = ''profile_not_found''"
| "code_text CodeProfileDisabled = ''profile_disabled''"
| "code_text CodeProfileBindingChanged = ''profile_binding_changed''"
| "code_text CodeProfileInUse = ''profile_in_use''"
| "code_text CodeActiveSessions = ''active_sessions''"
| "code_text CodeProviderCleanupRequired = ''provider_cleanup_required''"
| "code_text CodeUsageNotObservedYet = ''usage_not_observed_yet''"
| "code_text CodeUsageStale = ''usage_stale''"
| "code_text CodeSyncConflict = ''sync_conflict''"
| "code_text CodeIdentityConfirmationRequired = ''identity_confirmation_required''"
| "code_text CodeIdentityConfirmationMismatch = ''identity_confirmation_mismatch''"
| "code_text CodeConfirmationExpired = ''confirmation_expired''"
| "code_text CodeProviderCapabilityUnavailable = ''provider_capability_unavailable''"
| "code_text CodeProviderPlatformUnsupported = ''provider_platform_unsupported''"
| "code_text CodeProviderIdentityPending = ''schema_compatible_identity_acceptance_pending''"

text \<open>
  A Go \<open>error\<close>: either the application's \<open>*Error\<close> with its code, public message and hidden
  cause, or any other error value (of which only its text is known).
\<close>

datatype error = AppError ErrorCode string "error option" | OtherError string

definition NewError :: "ErrorCode \<Rightarrow> string \<Rightarrow> error" where
  "NewError code message = AppError code message None"

definition WrapError :: "ErrorCode \<Rightarrow> string \<Rightarrow> error \<Rightarrow> error" where
  "WrapError code message cause = AppError code message (Some cause)"

fun Error_text :: "error \<Rightarrow> string" where
  "Error_text (AppError code message cause) = code_text code @ '': '' @ message"
| "Error_text (OtherError text) = text"

fun Unwrap :: "error \<Rightarrow> error option" where
  "Unwrap (AppError code message cause) = cause"
| "Unwrap (OtherError text) = None"

text \<open>\<open>CodeOf\<close> of no error, and of an error that is not an \<open>*Error\<close>, is the empty code.\<close>

fun CodeOf :: "error option \<Rightarrow> ErrorCode option" where
  "CodeOf (Some (AppError code message cause)) = Some code"
| "CodeOf (Some (OtherError text)) = None"
| "CodeOf None = None"

abbreviation fail :: "ErrorCode \<Rightarrow> string \<Rightarrow> error + 'a" where
  "fail code message \<equiv> Inl (NewError code message)"

text \<open>The code of a fallible call's error, \<open>None\<close> when the call succeeded.\<close>

definition result_code :: "error + 'a \<Rightarrow> ErrorCode option" where
  "result_code r = (case r of Inl e \<Rightarrow> CodeOf (Some e) | Inr _ \<Rightarrow> CodeOf None)"

lemma result_code_simps [simp]:
  "result_code (Inr a) = None"
  "result_code (fail c m) = Some c"
  "result_code (Inl (WrapError c m e)) = Some c"
  "result_code (Inl (OtherError t)) = None"
  by (simp_all add: result_code_def NewError_def WrapError_def)

lemma NewError_inject [simp]: "NewError c m = NewError c' m' \<longleftrightarrow> c = c' \<and> m = m'"
  by (simp add: NewError_def)

lemma NewError_neq_WrapError [simp]:
  "NewError c m \<noteq> WrapError c' m' e" "WrapError c' m' e \<noteq> NewError c m"
  by (simp_all add: NewError_def WrapError_def)

lemma WrapError_inject [simp]:
  "WrapError c m e = WrapError c' m' e' \<longleftrightarrow> c = c' \<and> m = m' \<and> e = e'"
  by (simp add: WrapError_def)

lemma Error_text_simps [simp]:
  "Error_text (NewError c m) = code_text c @ '': '' @ m"
  "Error_text (WrapError c m e) = code_text c @ '': '' @ m"
  by (simp_all add: NewError_def WrapError_def)

end
