(* ===== verification/Identifiers.thy ===== *)
theory Identifiers
  imports Errors
begin

text \<open>
  \<open>src/internal/domain/types.go\<close>, identifiers and capabilities: an identifier is a prefix over
  \<open>[a-z0-9_]\<close>, an underscore and 32 hexadecimal digits; a capability list is canonical when
  it is validated, free of duplicates and sorted. The lemmas show that \<open>ValidateID\<close> decides
  exactly that grammar, that generated identifiers are valid, and that canonicalisation is a
  normal form.
\<close>

section \<open>Identifiers\<close>

definition id_rune :: "char \<Rightarrow> bool" where
  "id_rune c = (let n = (of_char c :: nat) in
     (97 \<le> n \<and> n \<le> 122) \<or> (48 \<le> n \<and> n \<le> 57) \<or> c = CHR ''_'')"

definition validIDPrefix :: "string \<Rightarrow> bool" where
  "validIDPrefix prefix =
     (if prefix = '''' \<or> 24 < length prefix then False else list_all id_rune prefix)"

text \<open>
  \<open>crypto/rand\<close> supplies the random bytes: \<open>None\<close> is a failed read, \<open>Some bs\<close> a full one.
\<close>

definition NewID :: "string \<Rightarrow> nat list option \<Rightarrow> error + ID" where
  "NewID prefix random =
     (if \<not> validIDPrefix prefix then fail CodeInvalidArgument ''invalid identifier prefix''
      else case random of
             None \<Rightarrow> Inl (WrapError CodeConflict ''identifier generation failed'' (OtherError ''rand''))
           | Some b \<Rightarrow> Inr (prefix @ ''_'' @ hex_encode b))"

definition ValidateID :: "ID \<Rightarrow> error + unit" where
  "ValidateID value =
     (let separator = last_index_byte value CHR ''_'' in
      if separator \<le> 0 \<or> \<not> validIDPrefix (take (nat separator) value)
      then fail CodeInvalidArgument ''invalid identifier''
      else let randomPart = drop (nat (separator + 1)) value in
      if length randomPart \<noteq> 32 then fail CodeInvalidArgument ''invalid identifier''
      else case hex_decode randomPart of
             None \<Rightarrow> fail CodeInvalidArgument ''invalid identifier''
           | Some decoded \<Rightarrow>
               if length decoded \<noteq> 16 then fail CodeInvalidArgument ''invalid identifier''
               else Inr ())"

abbreviation valid_id :: "ID \<Rightarrow> bool" where
  "valid_id i \<equiv> ValidateID i = Inr ()"

lemma hex_text_no_underscore: "hex_decode r = Some bs \<Longrightarrow> CHR ''_'' \<notin> set r"
  using hex_decode_iff [of r] by auto

lemma ValidateID_code: "ValidateID i = Inl e \<Longrightarrow> e = NewError CodeInvalidArgument ''invalid identifier''"
  by (auto simp: ValidateID_def Let_def split: if_splits option.splits)

lemma ValidateID_neg: "ValidateID i \<noteq> Inr () \<longleftrightarrow> ValidateID i = fail CodeInvalidArgument ''invalid identifier''"
  by (cases "ValidateID i") (auto dest: ValidateID_code)

lemma ValidateID_parts:
  assumes "CHR ''_'' \<notin> set r"
  shows "ValidateID (p @ CHR ''_'' # r) = Inr () \<longleftrightarrow>
           validIDPrefix p \<and> length r = 32 \<and> hex_decode r \<noteq> None"
  using hex_decode_length [of r] last_index_byte_append [OF assms, of p]
  by (auto simp: ValidateID_def Let_def validIDPrefix_def nat_add_distrib split: option.splits)

lemma ValidateID_iff:
  "ValidateID i = Inr () \<longleftrightarrow>
     (\<exists>p r. i = p @ CHR ''_'' # r \<and> validIDPrefix p \<and> length r = 32 \<and> (\<exists>bs. hex_decode r = Some bs))"
proof (cases "CHR ''_'' \<in> set i")
  case True
  then obtain p r where i: "i = p @ CHR ''_'' # r" "CHR ''_'' \<notin> set r"
    by (rule split_last_occurrence)
  show ?thesis
  proof
    assume "ValidateID i = Inr ()"
    then show "\<exists>p r. i = p @ CHR ''_'' # r \<and> validIDPrefix p \<and> length r = 32 \<and> (\<exists>bs. hex_decode r = Some bs)"
      using ValidateID_parts [OF i(2), of p] i(1) by auto
  next
    assume "\<exists>p r. i = p @ CHR ''_'' # r \<and> validIDPrefix p \<and> length r = 32 \<and> (\<exists>bs. hex_decode r = Some bs)"
    then show "ValidateID i = Inr ()"
      by (metis ValidateID_parts hex_text_no_underscore option.simps(3))
  qed
next
  case False
  then show ?thesis
    by (auto simp: ValidateID_def last_index_byte_def)
qed

lemma NewID_valid:
  assumes "NewID p (Some b) = Inr i" "length b = 16" "\<forall>x \<in> set b. x < 256"
  shows "valid_id i"
proof -
  have "validIDPrefix p" and i: "i = p @ CHR ''_'' # hex_encode b"
    using assms(1) by (auto simp: NewID_def split: if_splits)
  moreover have "hex_decode (hex_encode b) = Some b"
    using assms(3) by (rule hex_decode_encode)
  ultimately show ?thesis
    using assms(2) ValidateID_iff [of i] by fastforce
qed

lemma NewID_inj:
  assumes "NewID p (Some b) = Inr i" "NewID p (Some b') = Inr i" "\<forall>x \<in> set b. x < 256" "\<forall>x \<in> set b'. x < 256"
  shows "b = b'"
proof -
  have "i = p @ ''_'' @ hex_encode b" "i = p @ ''_'' @ hex_encode b'"
    using assms(1,2) by (simp_all add: NewID_def split: if_split_asm)
  then have "hex_encode b = hex_encode b'" by simp
  then have "Some b = hex_decode (hex_encode b')"
    using hex_decode_encode [OF assms(3)] by metis
  also have "\<dots> = Some b'" using assms(4) by (rule hex_decode_encode)
  finally show ?thesis by blast
qed

lemma valid_id_nonempty [simp]: "\<not> valid_id ''''"
  by (simp add: ValidateID_def last_index_byte_def)

section \<open>Capabilities\<close>

type_synonym Capability = string

abbreviation CapabilityMetadataRead :: Capability where
  "CapabilityMetadataRead \<equiv> ''metadata.read''"
abbreviation CapabilityProviderMetadataRead :: Capability where
  "CapabilityProviderMetadataRead \<equiv> ''provider.metadata.read''"
abbreviation CapabilityProviderAuth :: Capability where
  "CapabilityProviderAuth \<equiv> ''provider.auth''"
abbreviation CapabilityProviderUsageRead :: Capability where
  "CapabilityProviderUsageRead \<equiv> ''provider.usage.read''"
abbreviation CapabilityApprovalRead :: Capability where
  "CapabilityApprovalRead \<equiv> ''approval.read''"
abbreviation CapabilityApprovalRespond :: Capability where
  "CapabilityApprovalRespond \<equiv> ''approval.respond''"
abbreviation CapabilitySessionObserve :: Capability where
  "CapabilitySessionObserve \<equiv> ''session.observe''"
abbreviation CapabilityVaultControl :: Capability where
  "CapabilityVaultControl \<equiv> ''vault.control''"
abbreviation CapabilitySessionStart :: Capability where
  "CapabilitySessionStart \<equiv> ''session.start''"
abbreviation CapabilitySessionControlAcquire :: Capability where
  "CapabilitySessionControlAcquire \<equiv> ''session.control.acquire''"
abbreviation CapabilitySessionControl :: Capability where
  "CapabilitySessionControl \<equiv> ''session.control''"
abbreviation CapabilityTerminalControl :: Capability where
  "CapabilityTerminalControl \<equiv> ''terminal.control''"
abbreviation CapabilitySessionResume :: Capability where
  "CapabilitySessionResume \<equiv> ''session.resume''"
abbreviation CapabilityClientAdmin :: Capability where
  "CapabilityClientAdmin \<equiv> ''client.admin''"

definition validCapabilities :: "Capability list" where
  "validCapabilities =
     [CapabilityMetadataRead, CapabilityProviderMetadataRead, CapabilityProviderAuth,
      CapabilityProviderUsageRead, CapabilityApprovalRead, CapabilityApprovalRespond,
      CapabilitySessionObserve, CapabilityVaultControl, CapabilitySessionStart,
      CapabilitySessionControlAcquire, CapabilitySessionControl, CapabilityTerminalControl,
      CapabilitySessionResume, CapabilityClientAdmin]"

text \<open>
  The loop fills the set \<open>seen\<close>; Go then copies the set in an unspecified order and sorts the
  copy, so the result does not depend on that order.
\<close>

fun collect_capabilities :: "Capability list \<Rightarrow> Capability list \<Rightarrow> error + Capability list" where
  "collect_capabilities seen [] = Inr seen"
| "collect_capabilities seen (c # cs) =
     (if c \<notin> set validCapabilities then fail CodeInvalidArgument ''unknown capability''
      else collect_capabilities (List.insert c seen) cs)"

definition CanonicalCapabilities :: "Capability list \<Rightarrow> error + Capability list" where
  "CanonicalCapabilities values = bindE (collect_capabilities [] values) (\<lambda>seen. Inr (sort seen))"

definition HasCapability :: "Capability list \<Rightarrow> Capability \<Rightarrow> bool" where
  "HasCapability values target = (target \<in> set values)"

lemma collect_capabilities_ok:
  "collect_capabilities seen cs = Inr ys \<Longrightarrow> distinct seen \<Longrightarrow>
     distinct ys \<and> set ys = set seen \<union> set cs \<and> set cs \<subseteq> set validCapabilities"
  by (induction seen cs rule: collect_capabilities.induct) auto

lemma collect_capabilities_total:
  "set cs \<subseteq> set validCapabilities \<Longrightarrow> \<exists>ys. collect_capabilities seen cs = Inr ys"
  by (induction seen cs rule: collect_capabilities.induct) auto

lemma CanonicalCapabilities_ok:
  assumes "CanonicalCapabilities cs = Inr ys"
  shows "sorted ys" "distinct ys" "set ys = set cs" "set cs \<subseteq> set validCapabilities"
  using assms collect_capabilities_ok [of "[]" cs]
  by (auto simp: CanonicalCapabilities_def bindE_Inr)

lemma CanonicalCapabilities_defined:
  "(\<exists>ys. CanonicalCapabilities cs = Inr ys) \<longleftrightarrow> set cs \<subseteq> set validCapabilities"
  using CanonicalCapabilities_ok(4) collect_capabilities_total [of cs "[]"]
  by (auto simp: CanonicalCapabilities_def bindE_Inr)

lemma CanonicalCapabilities_unique:
  "CanonicalCapabilities cs = Inr ys \<Longrightarrow> CanonicalCapabilities cs' = Inr ys' \<Longrightarrow>
     set cs = set cs' \<Longrightarrow> ys = ys'"
  by (metis CanonicalCapabilities_ok(1-3) sorted_distinct_set_unique)

lemma CanonicalCapabilities_fix:
  "CanonicalCapabilities cs = Inr ys \<Longrightarrow> CanonicalCapabilities ys = Inr ys"
  by (metis CanonicalCapabilities_defined CanonicalCapabilities_ok(3,4) CanonicalCapabilities_unique)

lemma CanonicalCapabilities_Has:
  "CanonicalCapabilities cs = Inr ys \<Longrightarrow> HasCapability ys c \<longleftrightarrow> HasCapability cs c"
  by (simp add: HasCapability_def CanonicalCapabilities_ok)

end
