(* ===== verification/SessionDomain.thy ===== *)
theory SessionDomain
  imports Identifiers
begin

text \<open>
  \<open>src/internal/domain/session.go\<close>: the Session record, its state machine and resumption. A Go
  \<open>SessionStatus\<close> is a string; the model has one constructor per declared status and
  \<open>OtherSessionStatus\<close> for any other text, the empty zero value included. \<open>Transition\<close>
  mutates its receiver only when it returns no error, so the model returns the new Session or the
  error. The receiver is not nil.
\<close>

abbreviation ProviderFake :: string where "ProviderFake \<equiv> ''fake''"
abbreviation ProviderCodex :: string where "ProviderCodex \<equiv> ''codex''"
abbreviation ProviderClaude :: string where "ProviderClaude \<equiv> ''claude''"

definition ProviderKnown :: "string \<Rightarrow> bool" where
  "ProviderKnown provider =
     (provider = ProviderFake \<or> provider = ProviderCodex \<or> provider = ProviderClaude)"

datatype SessionStatus =
    SessionStarting
  | SessionRunning
  | SessionStopping
  | SessionExited
  | SessionFailed
  | SessionKilled
  | OtherSessionStatus string

record Session =
  ses_ID :: ID
  ses_DeviceID :: ID
  ses_AccountID :: ID
  ses_Provider :: string
  ses_CredentialInstanceID :: ID
  ses_RuntimeProfileID :: ID
  ses_WorkspaceID :: ID
  ses_ProviderSessionID :: string
  ses_ResumedFromSessionID :: ID
  ses_Status :: SessionStatus
  ses_StartedAt :: time
  ses_EndedAt :: "time option"
  ses_ExitCode :: "int option"
  ses_CapabilitySnapshot :: "Capability list"
  ses_FailureCode :: string

text \<open>The map \<open>sessionTransitions\<close>: \<open>None\<close> where a status is not a key.\<close>

fun sessionTransitions :: "SessionStatus \<Rightarrow> SessionStatus list option" where
  "sessionTransitions SessionStarting = Some [SessionRunning, SessionFailed, SessionKilled]"
| "sessionTransitions SessionRunning = Some [SessionStopping, SessionFailed, SessionKilled]"
| "sessionTransitions SessionStopping = Some [SessionExited, SessionFailed, SessionKilled]"
| "sessionTransitions _ = None"

definition Terminal :: "SessionStatus \<Rightarrow> bool" where
  "Terminal s = (s = SessionExited \<or> s = SessionFailed \<or> s = SessionKilled)"

definition NewSession :: "Session \<Rightarrow> error + Session" where
  "NewSession session =
     bindE (check_all ValidateID [ses_ID session, ses_DeviceID session,
              ses_CredentialInstanceID session, ses_RuntimeProfileID session, ses_WorkspaceID session]) (\<lambda>_.
     bindE (if ses_AccountID session \<noteq> '''' then ValidateID (ses_AccountID session) else Inr ()) (\<lambda>_.
     if ses_Provider session = '''' \<or> ses_StartedAt session = 0
     then fail CodeInvalidArgument ''session requires provider and start time''
     else if 256 < length (ses_ProviderSessionID session)
     then fail CodeInvalidArgument ''provider session identity is too large''
     else if ses_Provider session = ProviderCodex \<and> ses_AccountID session = ''''
     then fail CodeInvalidArgument ''codex session requires an account''
     else if \<not> ProviderKnown (ses_Provider session)
     then fail CodeInvalidArgument ''session provider is unsupported''
     else
     bindE (if ses_ResumedFromSessionID session \<noteq> ''''
            then ValidateID (ses_ResumedFromSessionID session) else Inr ()) (\<lambda>_.
     let status = (if ses_Status session = OtherSessionStatus '''' then SessionStarting
                   else ses_Status session) in
     if status \<noteq> SessionStarting
     then fail CodeInvalidTransition ''new session must start in starting state''
     else
     bindE (CanonicalCapabilities (ses_CapabilitySnapshot session)) (\<lambda>capabilities.
     if ses_ResumedFromSessionID session \<noteq> '''' \<and> \<not> HasCapability capabilities CapabilitySessionResume
     then fail CodePermissionDenied ''session resume capability is required''
     else Inr (session\<lparr>ses_Status := status, ses_CapabilitySnapshot := capabilities,
                       ses_EndedAt := None, ses_ExitCode := None, ses_FailureCode := ''''\<rparr>)))))"

definition Transition ::
    "Session \<Rightarrow> SessionStatus \<Rightarrow> time \<Rightarrow> int option \<Rightarrow> string \<Rightarrow> error + Session" where
  "Transition s next now exitCode failureCode =
     (if now = 0 then fail CodeInvalidArgument ''session transition requires a timestamp''
      else case sessionTransitions (ses_Status s) of
        None \<Rightarrow> fail CodeInvalidTransition ''terminal session cannot transition''
      | Some allowed \<Rightarrow>
          if next \<notin> set allowed then fail CodeInvalidTransition ''illegal session transition''
          else if now < ses_StartedAt s
          then fail CodeInvalidArgument ''session transition precedes start''
          else if next = SessionFailed \<and> failureCode = ''''
          then fail CodeInvalidArgument ''failed session requires a safe failure code''
          else if \<not> Terminal next \<and> (exitCode \<noteq> None \<or> failureCode \<noteq> '''')
          then fail CodeInvalidArgument ''non-terminal session cannot contain exit metadata''
          else Inr (if Terminal next
                    then s\<lparr>ses_Status := next, ses_EndedAt := Some now,
                           ses_ExitCode := exitCode, ses_FailureCode := failureCode\<rparr>
                    else s\<lparr>ses_Status := next\<rparr>))"

definition Resume :: "Session \<Rightarrow> ID \<Rightarrow> time \<Rightarrow> error + Session" where
  "Resume s newID now =
     (if \<not> Terminal (ses_Status s)
      then fail CodeInvalidTransition ''only a terminal session can be resumed''
      else if \<not> HasCapability (ses_CapabilitySnapshot s) CapabilitySessionResume
      then fail CodePermissionDenied ''session resume capability is required''
      else bindE (ValidateID newID) (\<lambda>_.
      if newID = ses_ID s then fail CodeConflict ''resume requires a new session identifier''
      else if (case ses_EndedAt s of None \<Rightarrow> True | Some ended \<Rightarrow> now < ended)
      then fail CodeInvalidArgument ''resumed session cannot precede source end''
      else NewSession
             \<lparr>ses_ID = newID, ses_DeviceID = ses_DeviceID s, ses_AccountID = ses_AccountID s,
              ses_Provider = ses_Provider s, ses_CredentialInstanceID = ses_CredentialInstanceID s,
              ses_RuntimeProfileID = ses_RuntimeProfileID s, ses_WorkspaceID = ses_WorkspaceID s,
              ses_ProviderSessionID = ses_ProviderSessionID s, ses_ResumedFromSessionID = ses_ID s,
              ses_Status = SessionStarting, ses_StartedAt = now, ses_EndedAt = None,
              ses_ExitCode = None, ses_CapabilitySnapshot = ses_CapabilitySnapshot s,
              ses_FailureCode = ''''\<rparr>))"

section \<open>The state machine\<close>

lemma Terminal_simps [simp]:
  "Terminal SessionExited" "Terminal SessionFailed" "Terminal SessionKilled"
  "\<not> Terminal SessionStarting" "\<not> Terminal SessionRunning" "\<not> Terminal SessionStopping"
  "\<not> Terminal (OtherSessionStatus x)"
  by (simp_all add: Terminal_def)

lemma sessionTransitions_terminal: "Terminal s \<Longrightarrow> sessionTransitions s = None"
  by (cases s) simp_all

text \<open>One legal move of a Session, with the time and the exit metadata left open.\<close>

inductive session_step :: "Session \<Rightarrow> Session \<Rightarrow> bool" where
  session_move: "Transition s next now exitCode failureCode = Inr s' \<Longrightarrow> session_step s s'"

inductive_simps session_step_iff: "session_step s s'"

lemma Transition_ok:
  "Transition s n now ec fc = Inr s' \<longleftrightarrow>
     now \<noteq> 0 \<and> (\<exists>allowed. sessionTransitions (ses_Status s) = Some allowed \<and> n \<in> set allowed) \<and>
     ses_StartedAt s \<le> now \<and> (n = SessionFailed \<longrightarrow> fc \<noteq> '''') \<and>
     (Terminal n \<or> (ec = None \<and> fc = '''')) \<and>
     s' = (if Terminal n then s\<lparr>ses_Status := n, ses_EndedAt := Some now,
                                ses_ExitCode := ec, ses_FailureCode := fc\<rparr>
           else s\<lparr>ses_Status := n\<rparr>)"
  by (auto simp: Transition_def split: option.splits)

lemma Transition_status: "Transition s n now ec fc = Inr s' \<Longrightarrow> ses_Status s' = n"
  by (auto simp: Transition_ok)

lemma Transition_frozen:
  assumes "Transition s n now ec fc = Inr s'"
  shows "ses_ID s' = ses_ID s" "ses_DeviceID s' = ses_DeviceID s" "ses_AccountID s' = ses_AccountID s"
    "ses_Provider s' = ses_Provider s" "ses_CredentialInstanceID s' = ses_CredentialInstanceID s"
    "ses_RuntimeProfileID s' = ses_RuntimeProfileID s" "ses_WorkspaceID s' = ses_WorkspaceID s"
    "ses_ProviderSessionID s' = ses_ProviderSessionID s"
    "ses_ResumedFromSessionID s' = ses_ResumedFromSessionID s" "ses_StartedAt s' = ses_StartedAt s"
    "ses_CapabilitySnapshot s' = ses_CapabilitySnapshot s"
  using assms by (auto simp: Transition_ok)

lemma Transition_terminal: "Terminal (ses_Status s) \<Longrightarrow> \<exists>e. Transition s n now ec fc = Inl e"
  by (auto simp: Transition_def sessionTransitions_terminal)

lemma session_step_terminal: "session_step s s' \<Longrightarrow> \<not> Terminal (ses_Status s)"
  by (metis Inl_Inr_False Transition_terminal session_step_iff)

text \<open>Distance to the end: every move strictly decreases it.\<close>

fun session_rank :: "SessionStatus \<Rightarrow> nat" where
  "session_rank SessionStarting = 3"
| "session_rank SessionRunning = 2"
| "session_rank SessionStopping = 1"
| "session_rank _ = 0"

lemma Transition_rank:
  assumes "Transition s n now ec fc = Inr s'"
  shows "session_rank (ses_Status s') < session_rank (ses_Status s)"
proof -
  obtain allowed where "sessionTransitions (ses_Status s) = Some allowed" "n \<in> set allowed"
    using assms by (auto simp: Transition_ok)
  then have "session_rank n < session_rank (ses_Status s)"
    by (cases "ses_Status s") auto
  then show ?thesis using Transition_status [OF assms] by simp
qed

lemma session_steps_bound: "(session_step ^^ n) s s' \<Longrightarrow> n + session_rank (ses_Status s') \<le> session_rank (ses_Status s)"
proof (induction n arbitrary: s')
  case 0
  then show ?case by simp
next
  case (Suc n)
  then obtain t where "(session_step ^^ n) s t" "session_step t s'" by auto
  with Suc.IH [of t] Transition_rank show ?case by (fastforce simp: session_step_iff)
qed

lemma session_rank_le: "session_rank x \<le> 3"
  by (cases x) simp_all

section \<open>Well-formed Sessions\<close>

definition session_wf :: "Session \<Rightarrow> bool" where
  "session_wf s =
     (valid_id (ses_ID s) \<and> valid_id (ses_DeviceID s) \<and> valid_id (ses_CredentialInstanceID s) \<and>
      valid_id (ses_RuntimeProfileID s) \<and> valid_id (ses_WorkspaceID s) \<and>
      (ses_AccountID s \<noteq> '''' \<longrightarrow> valid_id (ses_AccountID s)) \<and>
      (ses_Provider s = ProviderCodex \<longrightarrow> ses_AccountID s \<noteq> '''') \<and>
      ProviderKnown (ses_Provider s) \<and> ses_StartedAt s \<noteq> 0 \<and>
      length (ses_ProviderSessionID s) \<le> 256 \<and>
      CanonicalCapabilities (ses_CapabilitySnapshot s) = Inr (ses_CapabilitySnapshot s) \<and>
      (ses_ResumedFromSessionID s \<noteq> '''' \<longrightarrow> valid_id (ses_ResumedFromSessionID s) \<and>
         HasCapability (ses_CapabilitySnapshot s) CapabilitySessionResume) \<and>
      (\<forall>x. ses_Status s \<noteq> OtherSessionStatus x) \<and>
      (if Terminal (ses_Status s)
       then (\<exists>e. ses_EndedAt s = Some e \<and> ses_StartedAt s \<le> e) \<and>
            (ses_Status s = SessionFailed \<longrightarrow> ses_FailureCode s \<noteq> '''')
       else ses_EndedAt s = None \<and> ses_ExitCode s = None \<and> ses_FailureCode s = ''''))"

definition session_input_ok :: "Session \<Rightarrow> bool" where
  "session_input_ok s =
     (valid_id (ses_ID s) \<and> valid_id (ses_DeviceID s) \<and> valid_id (ses_CredentialInstanceID s) \<and>
      valid_id (ses_RuntimeProfileID s) \<and> valid_id (ses_WorkspaceID s) \<and>
      (ses_AccountID s \<noteq> '''' \<longrightarrow> valid_id (ses_AccountID s)) \<and>
      ses_StartedAt s \<noteq> 0 \<and> length (ses_ProviderSessionID s) \<le> 256 \<and>
      (ses_Provider s = ProviderCodex \<longrightarrow> ses_AccountID s \<noteq> '''') \<and> ProviderKnown (ses_Provider s) \<and>
      (ses_ResumedFromSessionID s \<noteq> '''' \<longrightarrow> valid_id (ses_ResumedFromSessionID s)) \<and>
      (ses_Status s = SessionStarting \<or> ses_Status s = OtherSessionStatus ''''))"

lemma bindE_opt_check:
  "bindE (if c then f else Inr ()) g = Inr y \<longleftrightarrow> (c \<longrightarrow> f = Inr ()) \<and> g () = Inr y"
  for f :: "'e + unit"
  by (cases f) auto

lemma bindE_unit: "bindE f g = Inr y \<longleftrightarrow> f = Inr () \<and> g () = Inr y"
  for f :: "'e + unit"
  by (cases f) auto

lemma NewSession_iff:
  "NewSession s = Inr s' \<longleftrightarrow>
     session_input_ok s \<and>
     (\<exists>caps. CanonicalCapabilities (ses_CapabilitySnapshot s) = Inr caps \<and>
        (ses_ResumedFromSessionID s \<noteq> '''' \<longrightarrow> HasCapability caps CapabilitySessionResume) \<and>
        s' = s\<lparr>ses_Status := SessionStarting, ses_CapabilitySnapshot := caps,
               ses_EndedAt := None, ses_ExitCode := None, ses_FailureCode := ''''\<rparr>)"
proof -
  have p: "ProviderKnown (ses_Provider s) \<Longrightarrow> ses_Provider s \<noteq> ''''" by (auto simp: ProviderKnown_def)
  show ?thesis
    unfolding NewSession_def bindE_opt_check bindE_unit check_all_ok Let_def if_Inl_eq_Inr
      session_input_ok_def bindE_Inr
    using p by (simp add: not_less eq_commute [of s'] cong: conj_cong) blast
qed

lemma NewSession_ok:
  assumes "NewSession s = Inr s'"
  shows "session_wf s'" "ses_Status s' = SessionStarting"
proof -
  obtain caps where s': "session_input_ok s" "CanonicalCapabilities (ses_CapabilitySnapshot s) = Inr caps"
    "ses_ResumedFromSessionID s \<noteq> '''' \<longrightarrow> HasCapability caps CapabilitySessionResume"
    "s' = s\<lparr>ses_Status := SessionStarting, ses_CapabilitySnapshot := caps,
            ses_EndedAt := None, ses_ExitCode := None, ses_FailureCode := ''''\<rparr>"
    using assms unfolding NewSession_iff by blast
  show "ses_Status s' = SessionStarting" by (simp add: s'(4))
  show "session_wf s'"
    using s'(1-3) CanonicalCapabilities_fix [OF s'(2)]
    by (simp add: s'(4) session_wf_def session_input_ok_def)
qed

lemma Transition_wf:
  assumes "session_wf s" "Transition s n now ec fc = Inr s'"
  shows "session_wf s'"
proof -
  obtain allowed where a: "sessionTransitions (ses_Status s) = Some allowed" "n \<in> set allowed"
    using assms(2) by (auto simp: Transition_ok)
  then have "\<forall>x. n \<noteq> OtherSessionStatus x" by (cases "ses_Status s") auto
  moreover have "\<not> Terminal (ses_Status s)"
    using a(1) by (cases "ses_Status s") auto
  ultimately show ?thesis
    using assms by (auto simp: session_wf_def Transition_ok)
qed


lemma NewSession_idem:
  assumes "NewSession s = Inr s'"
  shows "NewSession s' = Inr s'"
proof -
  obtain caps where s': "session_input_ok s" "CanonicalCapabilities (ses_CapabilitySnapshot s) = Inr caps"
    "ses_ResumedFromSessionID s \<noteq> '''' \<longrightarrow> HasCapability caps CapabilitySessionResume"
    "s' = s\<lparr>ses_Status := SessionStarting, ses_CapabilitySnapshot := caps,
            ses_EndedAt := None, ses_ExitCode := None, ses_FailureCode := ''''\<rparr>"
    using assms unfolding NewSession_iff by blast
  then show ?thesis
    using CanonicalCapabilities_fix [OF s'(2)] by (simp add: NewSession_iff session_input_ok_def)
qed

lemma Resume_iff:
  "Resume s i now = Inr r \<longleftrightarrow>
     Terminal (ses_Status s) \<and> HasCapability (ses_CapabilitySnapshot s) CapabilitySessionResume \<and>
     valid_id i \<and> i \<noteq> ses_ID s \<and> (\<exists>e. ses_EndedAt s = Some e \<and> e \<le> now) \<and>
     NewSession (s\<lparr>ses_ID := i, ses_ResumedFromSessionID := ses_ID s, ses_Status := SessionStarting,
                   ses_StartedAt := now, ses_EndedAt := None, ses_ExitCode := None,
                   ses_FailureCode := ''''\<rparr>) = Inr r"
  by (cases s) (auto simp: Resume_def bindE_Inr split: option.splits)

lemma Resume_ok:
  assumes "Resume s i now = Inr r"
  shows "Terminal (ses_Status s)" "ses_ID r = i" "i \<noteq> ses_ID s" "ses_ResumedFromSessionID r = ses_ID s"
    "ses_Status r = SessionStarting" "ses_StartedAt r = now" "session_wf r"
    "\<exists>e. ses_EndedAt s = Some e \<and> e \<le> now"
    "ses_DeviceID r = ses_DeviceID s" "ses_AccountID r = ses_AccountID s" "ses_Provider r = ses_Provider s"
    "ses_CredentialInstanceID r = ses_CredentialInstanceID s" "ses_RuntimeProfileID r = ses_RuntimeProfileID s"
    "ses_WorkspaceID r = ses_WorkspaceID s" "ses_ProviderSessionID r = ses_ProviderSessionID s"
    "CanonicalCapabilities (ses_CapabilitySnapshot s) = Inr (ses_CapabilitySnapshot r)"
    "HasCapability (ses_CapabilitySnapshot s) CapabilitySessionResume"
proof -
  note new = assms [unfolded Resume_iff]
  show "session_wf r" using new NewSession_ok(1) by blast
  show "Terminal (ses_Status s)" "i \<noteq> ses_ID s" "\<exists>e. ses_EndedAt s = Some e \<and> e \<le> now"
    "HasCapability (ses_CapabilitySnapshot s) CapabilitySessionResume"
    using new by simp_all
  show "ses_ID r = i" "ses_ResumedFromSessionID r = ses_ID s" "ses_Status r = SessionStarting"
    "ses_StartedAt r = now" "ses_DeviceID r = ses_DeviceID s" "ses_AccountID r = ses_AccountID s"
    "ses_Provider r = ses_Provider s" "ses_CredentialInstanceID r = ses_CredentialInstanceID s"
    "ses_RuntimeProfileID r = ses_RuntimeProfileID s" "ses_WorkspaceID r = ses_WorkspaceID s"
    "ses_ProviderSessionID r = ses_ProviderSessionID s"
    "CanonicalCapabilities (ses_CapabilitySnapshot s) = Inr (ses_CapabilitySnapshot r)"
    using new unfolding NewSession_iff by auto
qed

end
