(* ===== verification/JsonText.thy ===== *)
theory JsonText
  imports GoPrelude
begin

text \<open>
  \<open>encoding/json\<close>'s \<open>json.Valid\<close>, which the domain and the store call on settings and metadata.
  The library checks the text byte by byte with a scanner that keeps a stack of the open brackets,
  and so does the model: \<open>json_step\<close> is one byte, \<open>json_valid\<close> the whole text with its end.
\<close>

datatype json_context = ObjectKey | ObjectValue | ArrayValue

datatype json_state =
    BeginValue | BeginValueOrEmpty | BeginStringOrEmpty | BeginString
  | EndValue | EndTop | InString | InStringEsc | InStringEscU nat
  | NumNeg | Num1 | Num0 | NumDot | NumDot0 | NumE | NumESign | NumE0
  | InLiteral string

definition json_space :: "char \<Rightarrow> bool" where
  "json_space c = (c = CHR '' '' \<or> c = CHR 0x09 \<or> c = CHR 0x0A \<or> c = CHR 0x0D)"

definition is_digit :: "char \<Rightarrow> bool" where
  "is_digit c = (48 \<le> (of_char c :: nat) \<and> (of_char c :: nat) \<le> 57)"

definition json_max_depth :: nat where
  "json_max_depth = 10000"

definition json_push ::
    "json_context \<Rightarrow> json_state \<Rightarrow> json_context list \<Rightarrow> (json_state \<times> json_context list) option" where
  "json_push x st stack = (if length stack < json_max_depth then Some (st, x # stack) else None)"

definition json_pop :: "json_context list \<Rightarrow> (json_state \<times> json_context list) option" where
  "json_pop stack = (if stack = [] then Some (EndTop, []) else Some (EndValue, stack))"

fun json_end_value :: "char \<Rightarrow> json_context list \<Rightarrow> (json_state \<times> json_context list) option" where
  "json_end_value c [] = (if json_space c then Some (EndTop, []) else None)"
| "json_end_value c (x # xs) =
     (if json_space c then Some (EndValue, x # xs)
      else case x of
        ObjectKey \<Rightarrow> if c = CHR '':'' then Some (BeginValue, ObjectValue # xs) else None
      | ObjectValue \<Rightarrow>
          if c = CHR '','' then Some (BeginString, ObjectKey # xs)
          else if c = CHR ''}'' then json_pop xs else None
      | ArrayValue \<Rightarrow>
          if c = CHR '','' then Some (BeginValue, ArrayValue # xs)
          else if c = CHR '']'' then json_pop xs else None)"

definition json_begin_value :: "char \<Rightarrow> json_context list \<Rightarrow> (json_state \<times> json_context list) option" where
  "json_begin_value c stack =
     (if json_space c then Some (BeginValue, stack)
      else if c = CHR ''{'' then json_push ObjectKey BeginStringOrEmpty stack
      else if c = CHR ''['' then json_push ArrayValue BeginValueOrEmpty stack
      else if c = CHR 0x22 then Some (InString, stack)
      else if c = CHR ''-'' then Some (NumNeg, stack)
      else if c = CHR ''0'' then Some (Num0, stack)
      else if c = CHR ''t'' then Some (InLiteral ''rue'', stack)
      else if c = CHR ''f'' then Some (InLiteral ''alse'', stack)
      else if c = CHR ''n'' then Some (InLiteral ''ull'', stack)
      else if is_digit c then Some (Num1, stack)
      else None)"

definition json_begin_string :: "char \<Rightarrow> json_context list \<Rightarrow> (json_state \<times> json_context list) option" where
  "json_begin_string c stack =
     (if json_space c then Some (BeginString, stack)
      else if c = CHR 0x22 then Some (InString, stack) else None)"

definition json_after_int :: "char \<Rightarrow> json_context list \<Rightarrow> (json_state \<times> json_context list) option" where
  "json_after_int c stack =
     (if c = CHR ''.'' then Some (NumDot, stack)
      else if c = CHR ''e'' \<or> c = CHR ''E'' then Some (NumE, stack)
      else json_end_value c stack)"

fun json_step ::
    "char \<Rightarrow> json_state \<times> json_context list \<Rightarrow> (json_state \<times> json_context list) option" where
  "json_step c (BeginValue, stack) = json_begin_value c stack"
| "json_step c (BeginValueOrEmpty, stack) =
     (if json_space c then Some (BeginValueOrEmpty, stack)
      else if c = CHR '']'' then json_end_value c stack
      else json_begin_value c stack)"
| "json_step c (BeginStringOrEmpty, stack) =
     (if json_space c then Some (BeginStringOrEmpty, stack)
      else if c = CHR ''}'' then json_end_value c (ObjectValue # tl stack)
      else json_begin_string c stack)"
| "json_step c (BeginString, stack) = json_begin_string c stack"
| "json_step c (EndValue, stack) = json_end_value c stack"
| "json_step c (EndTop, stack) = (if json_space c then Some (EndTop, stack) else None)"
| "json_step c (InString, stack) =
     (if c = CHR 0x22 then Some (EndValue, stack)
      else if c = CHR 0x5C then Some (InStringEsc, stack)
      else if (of_char c :: nat) < 32 then None
      else Some (InString, stack))"
| "json_step c (InStringEsc, stack) =
     (if c \<in> {CHR ''b'', CHR ''f'', CHR ''n'', CHR ''r'', CHR ''t'', CHR 0x5C, CHR ''/'', CHR 0x22}
      then Some (InString, stack)
      else if c = CHR ''u'' then Some (InStringEscU 3, stack)
      else None)"
| "json_step c (InStringEscU k, stack) =
     (if hex_val c = None then None
      else if k = 0 then Some (InString, stack)
      else Some (InStringEscU (k - 1), stack))"
| "json_step c (NumNeg, stack) =
     (if c = CHR ''0'' then Some (Num0, stack)
      else if is_digit c then Some (Num1, stack) else None)"
| "json_step c (Num1, stack) =
     (if is_digit c then Some (Num1, stack) else json_after_int c stack)"
| "json_step c (Num0, stack) = json_after_int c stack"
| "json_step c (NumDot, stack) = (if is_digit c then Some (NumDot0, stack) else None)"
| "json_step c (NumDot0, stack) =
     (if is_digit c then Some (NumDot0, stack)
      else if c = CHR ''e'' \<or> c = CHR ''E'' then Some (NumE, stack)
      else json_end_value c stack)"
| "json_step c (NumE, stack) =
     (if c = CHR ''+'' \<or> c = CHR ''-'' then Some (NumESign, stack)
      else if is_digit c then Some (NumE0, stack) else None)"
| "json_step c (NumESign, stack) = (if is_digit c then Some (NumE0, stack) else None)"
| "json_step c (NumE0, stack) =
     (if is_digit c then Some (NumE0, stack) else json_end_value c stack)"
| "json_step c (InLiteral lit, stack) =
     (case lit of
        [] \<Rightarrow> None
      | x # xs \<Rightarrow> if c \<noteq> x then None
                  else if xs = [] then Some (EndValue, stack) else Some (InLiteral xs, stack))"

fun json_scan :: "string \<Rightarrow> json_state \<times> json_context list \<Rightarrow> (json_state \<times> json_context list) option" where
  "json_scan [] p = Some p"
| "json_scan (c # cs) p = (case json_step c p of None \<Rightarrow> None | Some q \<Rightarrow> json_scan cs q)"

text \<open>At the end of the text the scanner is complete, or a space would complete it.\<close>

definition json_valid :: "string \<Rightarrow> bool" where
  "json_valid s =
     (case json_scan s (BeginValue, []) of
        None \<Rightarrow> False
      | Some (st, stack) \<Rightarrow> st = EndTop \<or> json_step CHR '' '' (st, stack) = Some (EndTop, []))"

lemma json_scan_append:
  "json_scan (s @ t) p = (case json_scan s p of None \<Rightarrow> None | Some q \<Rightarrow> json_scan t q)"
  by (induction s p rule: json_scan.induct) (auto split: option.splits)

lemma json_valid_nonempty: "json_valid s \<Longrightarrow> s \<noteq> ''''"
  by (auto simp: json_valid_def json_begin_value_def json_space_def)

lemmas json_eval = json_valid_def json_begin_value_def json_begin_string_def json_space_def is_digit_def
  json_push_def json_pop_def json_after_int_def json_max_depth_def

lemma json_valid_examples:
  "json_valid ''{}''" "json_valid ''[1,-2.5e+3,true,null]''" "\<not> json_valid ''{''"
  "\<not> json_valid ''01''" "\<not> json_valid ''[1,]''"
  by (simp_all add: json_eval)

end
