(* ===== verification/Entities.thy ===== *)
theory Entities
  imports SessionDomain JsonText
begin

text \<open>
  The records and enumerations of \<open>src/internal/domain/types.go\<close> and the usage types of
  \<open>account.go\<close>. Each Go string enumeration is a datatype with one constructor per declared
  constant and an \<open>Other\<close> constructor for any other text, the empty zero value included. An
  optional field (a pointer, a nullable column) is an \<open>option\<close>.
\<close>

text \<open>
  A \<open>float64\<close>, as far as the validators look at it: comparisons with NaN are false.
\<close>

datatype gofloat = NaN | NegInf | Finite rat | PosInf

fun flt_less :: "gofloat \<Rightarrow> gofloat \<Rightarrow> bool" where
  "flt_less NaN y = False"
| "flt_less x NaN = False"
| "flt_less x NegInf = False"
| "flt_less NegInf y = True"
| "flt_less PosInf y = False"
| "flt_less (Finite a) PosInf = True"
| "flt_less (Finite a) (Finite b) = (a < b)"

datatype DeviceKind = DeviceKindDaemon | OtherDeviceKind string

record Device =
  dev_ID :: ID
  dev_Kind :: DeviceKind
  dev_DisplayName :: string
  dev_SigningPublicKey :: "nat list"
  dev_CreatedAt :: time
  dev_UpdatedAt :: time

datatype ClientIdentityStatus = ClientIdentityActive | ClientIdentityRevoked | OtherClientIdentityStatus string

record ClientIdentity =
  cli_ID :: ID
  cli_Name :: string
  cli_PublicKey :: "nat list"
  cli_Revision :: int
  cli_Status :: ClientIdentityStatus
  cli_Caps :: "Capability list"
  cli_CreatedAt :: time
  cli_UpdatedAt :: time

record Workspace =
  ws_ID :: ID
  ws_DeviceID :: ID
  ws_Path :: string
  ws_Label :: string
  ws_Tags :: "string list"
  ws_CreatedAt :: time
  ws_UpdatedAt :: time

record RuntimeProfile =
  prof_ID :: ID
  prof_DeviceID :: ID
  prof_AccountID :: ID
  prof_CredentialInstanceID :: ID
  prof_Name :: string
  prof_Provider :: string
  prof_SelectorAlias :: string
  prof_SelectorKey :: string
  prof_Settings :: string
  prof_Internal :: bool
  prof_Enabled :: bool
  prof_Revision :: int
  prof_CreatedAt :: time
  prof_UpdatedAt :: time

datatype CredentialStatus =
    CredentialHealthy | CredentialExpired | CredentialRevoked | CredentialUnknown
  | OtherCredentialStatus string

datatype Availability =
    AvailabilityAvailable | AvailabilityLimited | AvailabilityUnavailable | AvailabilityUnknown
  | OtherAvailability string

abbreviation AuthMethodFake :: string where "AuthMethodFake \<equiv> ''fake''"
abbreviation AuthMethodInteractive :: string where "AuthMethodInteractive \<equiv> ''interactive''"
abbreviation AuthMethodDeviceCode :: string where "AuthMethodDeviceCode \<equiv> ''device_code''"

record CredentialInstance =
  cred_ID :: ID
  cred_DeviceID :: ID
  cred_AccountID :: ID
  cred_Provider :: string
  cred_AuthMethod :: string
  cred_SecretRef :: string
  cred_Status :: CredentialStatus
  cred_CredentialRevision :: int
  cred_SecretDigest :: string
  cred_Availability :: Availability
  cred_LastValidatedAt :: "time option"
  cred_CreatedAt :: time
  cred_UpdatedAt :: time

record Account =
  acc_ID :: ID
  acc_Provider :: string
  acc_DisplayName :: string
  acc_ProviderSubjectDigest :: string
  acc_SubscriptionHint :: string
  acc_Internal :: bool
  acc_Enabled :: bool
  acc_Revision :: int
  acc_CreatedAt :: time
  acc_UpdatedAt :: time

datatype ApprovalStatus =
    ApprovalPending | ApprovalApproved | ApprovalDenied | ApprovalExpired | ApprovalCancelled
  | OtherApprovalStatus string

datatype ApprovalResponseState =
    ApprovalResponseIdle | ApprovalResponseDispatching | ApprovalResponseWritten
  | ApprovalResponseAmbiguous | OtherApprovalResponseState string

datatype ApprovalDecision =
    ApprovalDecisionApprove | ApprovalDecisionDeny | ApprovalDecisionCancel
  | OtherApprovalDecision string

abbreviation NoDecision :: ApprovalDecision where "NoDecision \<equiv> OtherApprovalDecision ''''"

record Approval =
  app_ID :: ID
  app_SessionID :: ID
  app_ProviderApprovalID :: string
  app_Kind :: string
  app_PayloadDigest :: string
  app_Summary :: string
  app_Status :: ApprovalStatus
  app_ResponseState :: ApprovalResponseState
  app_RequestedDecision :: ApprovalDecision
  app_RespondedByDeviceID :: ID
  app_IdempotencyKey :: string
  app_DispatchDigest :: string
  app_RequestedAt :: time
  app_DispatchStartedAt :: "time option"
  app_RespondedAt :: "time option"
  app_DispatchErrorCode :: string

datatype UsageSource =
    UsageSourceOfficial | UsageSourceCLIDerived | UsageSourceLocalEstimate
  | UsageSourceUnofficial | UsageSourceUnavailable | OtherUsageSource string

datatype UsageConfidence =
    UsageConfidenceHigh | UsageConfidenceMedium | UsageConfidenceLow | UsageConfidenceNone
  | OtherUsageConfidence string

datatype UsageCapabilityStatus =
    UsageSupported | UsageUnavailable | UsageSchemaChanged | UsageError
  | OtherUsageCapabilityStatus string

datatype UsageWindowKind =
    UsageWindowRolling | UsageWindowCalendar | UsageWindowSpendControl | UsageWindowSDKCredit
  | UsageWindowUnknown | OtherUsageWindowKind string

record UsageWindow =
  win_ProviderLimitID :: string
  win_Kind :: UsageWindowKind
  win_Label :: string
  win_DurationSeconds :: "int option"
  win_UsedValue :: "gofloat option"
  win_LimitValue :: "gofloat option"
  win_UsedPercent :: "gofloat option"
  win_RemainingPercent :: "gofloat option"
  win_ResetsAt :: "time option"

record UsageSnapshot =
  use_ID :: ID
  use_Provider :: string
  use_AccountID :: ID
  use_CredentialInstanceID :: ID
  use_DeviceID :: ID
  use_Source :: UsageSource
  use_Confidence :: UsageConfidence
  use_WindowKind :: string
  use_UsedValue :: "gofloat option"
  use_LimitValue :: "gofloat option"
  use_UsedPercent :: "gofloat option"
  use_ResetsAt :: "time option"
  use_ObservedAt :: time
  use_RawReferenceHash :: string
  use_SourceVersion :: string
  use_CapabilityStatus :: UsageCapabilityStatus
  use_ErrorCode :: string
  use_ProviderVersion :: string
  use_Availability :: Availability
  use_StaleAt :: time
  use_Windows :: "UsageWindow list"

datatype AttachmentMode = AttachmentObserver | AttachmentController | OtherAttachmentMode string

record SessionAttachment =
  att_ID :: ID
  att_SessionID :: ID
  att_ClientDeviceID :: ID
  att_Mode :: AttachmentMode
  att_ConnectedAt :: time
  att_LastSeenAt :: time

record RuntimeEvent =
  evt_ID :: ID
  evt_SessionID :: ID
  evt_Sequence :: int
  evt_Kind :: string
  evt_Metadata :: string
  evt_CreatedAt :: time

record AuditEvent =
  aud_ID :: ID
  aud_ActorID :: ID
  aud_Action :: string
  aud_TargetType :: string
  aud_TargetID :: ID
  aud_Decision :: string
  aud_ErrorCode :: string
  aud_Metadata :: string
  aud_CreatedAt :: time

datatype MaterializationState =
    MaterializationPending | MaterializationActive | MaterializationQuarantined
  | MaterializationReleased | OtherMaterializationState string

record CredentialMaterialization =
  mat_LeaseID :: ID
  mat_CredentialInstanceID :: ID
  mat_CredentialRevision :: int
  mat_ManifestVersion :: int
  mat_ManifestDigest :: string
  mat_State :: MaterializationState
  mat_RefCount :: int
  mat_CreatedAt :: time
  mat_UpdatedAt :: time

end
