(* ===== verification/Validation.thy ===== *)
theory Validation
  imports Entities
begin

text \<open>
  The validators of \<open>src/internal/domain/provider.go\<close> and \<open>account.go\<close>: accounts, approvals,
  usage snapshots and their windows, profile selectors and profile settings. A validator that
  returns only an error is an \<^typ>\<open>error + unit\<close>; the order of the checks is the code's.
\<close>

section \<open>Text helpers\<close>

text \<open>
  \<open>strings.TrimSpace(s) == ""\<close>: every rune of \<open>s\<close> is Unicode white space. The bytes are the
  UTF-8 forms of the white-space runes.
\<close>

fun space_bytes :: "nat list \<Rightarrow> bool" where
  "space_bytes [] = True"
| "space_bytes (a # bs) =
     (if a \<in> {9, 10, 11, 12, 13, 32} then space_bytes bs
      else case bs of
             [] \<Rightarrow> False
           | b # cs \<Rightarrow>
               if a = 194 \<and> b \<in> {133, 160} then space_bytes cs
               else case cs of
                      [] \<Rightarrow> False
                    | c # ds \<Rightarrow>
                        if (a, b, c) = (225, 154, 128) \<or>
                           (a, b) = (226, 128) \<and> (128 \<le> c \<and> c \<le> 138 \<or> c \<in> {168, 169, 175}) \<or>
                           (a, b, c) = (226, 129, 159) \<or> (a, b, c) = (227, 128, 128)
                        then space_bytes ds else False)"

definition blank :: "string \<Rightarrow> bool" where
  "blank s = space_bytes (map of_char s)"

definition isHexDigest :: "string \<Rightarrow> bool" where
  "isHexDigest value = (if length value \<noteq> 64 then False else hex_decode value \<noteq> None)"

lemma isHexDigest_iff:
  "isHexDigest v \<longleftrightarrow> length v = 64 \<and> (\<forall>c \<in> set v. hex_val c \<noteq> None)"
  using hex_decode_iff [of v] by (auto simp: isHexDigest_def)

definition validCreatedUpdated :: "time \<Rightarrow> time \<Rightarrow> bool" where
  "validCreatedUpdated createdAt updatedAt =
     (createdAt \<noteq> 0 \<and> updatedAt \<noteq> 0 \<and> \<not> updatedAt < createdAt)"

section \<open>Providers and accounts\<close>

definition AuthMethodKnown :: "string \<Rightarrow> bool" where
  "AuthMethodKnown m = (m = AuthMethodFake \<or> m = AuthMethodInteractive \<or> m = AuthMethodDeviceCode)"

definition ValidProvider :: "string \<Rightarrow> bool" where
  "ValidProvider p = ProviderKnown p"

definition PublicProvider :: "string \<Rightarrow> bool" where
  "PublicProvider p = (p = ProviderCodex \<or> p = ProviderClaude)"

definition NewAccount :: "Account \<Rightarrow> error + Account" where
  "NewAccount a =
     (if ValidateID (acc_ID a) \<noteq> Inr () \<or> \<not> ValidProvider (acc_Provider a) \<or>
         length (acc_DisplayName a) < 1 \<or> 128 < length (acc_DisplayName a) \<or>
         128 < length (acc_ProviderSubjectDigest a) \<or> 64 < length (acc_SubscriptionHint a) \<or>
         acc_Revision a < 1 \<or> acc_CreatedAt a = 0 \<or> acc_UpdatedAt a < acc_CreatedAt a
      then fail CodeInvalidArgument ''invalid account''
      else if acc_Internal a \<noteq> (acc_Provider a = ProviderFake)
      then fail CodeInvalidArgument ''invalid account visibility''
      else Inr a)"

definition ValidateAccount :: "Account \<Rightarrow> error + unit" where
  "ValidateAccount a =
     bindE (ValidateID (acc_ID a)) (\<lambda>_.
     if \<not> PublicProvider (acc_Provider a) \<or> acc_Internal a \<or> blank (acc_DisplayName a) \<or>
        128 < length (acc_DisplayName a) \<or> 64 < length (acc_SubscriptionHint a) \<or>
        acc_Revision a < 1 \<or> \<not> validCreatedUpdated (acc_CreatedAt a) (acc_UpdatedAt a)
     then fail CodeInvalidArgument ''invalid account''
     else if acc_ProviderSubjectDigest a \<noteq> ''''
     then case hex_decode (acc_ProviderSubjectDigest a) of
            None \<Rightarrow> fail CodeInvalidArgument ''account subject digest is invalid''
          | Some decoded \<Rightarrow>
              if length decoded \<noteq> 32
              then fail CodeInvalidArgument ''account subject digest is invalid''
              else Inr ()
     else Inr ())"

text \<open>Every account \<open>ValidateAccount\<close> accepts is one \<open>NewAccount\<close> accepts, but not conversely.\<close>

lemma ValidateAccount_ok:
  "ValidateAccount a = Inr () \<longleftrightarrow>
     valid_id (acc_ID a) \<and> PublicProvider (acc_Provider a) \<and> \<not> acc_Internal a \<and>
     \<not> blank (acc_DisplayName a) \<and> length (acc_DisplayName a) \<le> 128 \<and>
     length (acc_SubscriptionHint a) \<le> 64 \<and> 1 \<le> acc_Revision a \<and>
     validCreatedUpdated (acc_CreatedAt a) (acc_UpdatedAt a) \<and>
     (acc_ProviderSubjectDigest a = '''' \<or> isHexDigest (acc_ProviderSubjectDigest a))"
proof -
  have "isHexDigest s = (case hex_decode s of None \<Rightarrow> False | Some bs \<Rightarrow> length bs = 32)" for s
    using hex_decode_length [of s] by (auto simp: isHexDigest_def split: option.splits)
  then show ?thesis
    by (auto simp: ValidateAccount_def bindE_Inr not_less split: option.splits if_splits)
qed

section \<open>Approvals\<close>

definition ApprovalStatusKnown :: "ApprovalStatus \<Rightarrow> bool" where
  "ApprovalStatusKnown s =
     (s \<in> {ApprovalPending, ApprovalApproved, ApprovalDenied, ApprovalExpired, ApprovalCancelled})"

definition ValidateApproval :: "Approval \<Rightarrow> error + unit" where
  "ValidateApproval a =
     bindE (check_all ValidateID [app_ID a, app_SessionID a]) (\<lambda>_.
     if app_ProviderApprovalID a = '''' \<or> 256 < length (app_ProviderApprovalID a) \<or>
        app_Kind a = '''' \<or> 64 < length (app_Kind a) \<or>
        length (app_PayloadDigest a) \<noteq> 64 \<or> \<not> isHexDigest (app_PayloadDigest a) \<or>
        2048 < length (app_Summary a) \<or> \<not> ApprovalStatusKnown (app_Status a) \<or>
        app_IdempotencyKey a = '''' \<or> 128 < length (app_IdempotencyKey a) \<or> app_RequestedAt a = 0
     then fail CodeInvalidArgument ''invalid approval''
     else bindE (if app_RespondedByDeviceID a \<noteq> '''' then ValidateID (app_RespondedByDeviceID a) else Inr ())
     (\<lambda>_.
     if (case app_RespondedAt a of None \<Rightarrow> False | Some t \<Rightarrow> t < app_RequestedAt a)
     then fail CodeInvalidArgument ''approval response precedes request''
     else
     let response = (if app_ResponseState a = OtherApprovalResponseState '''' then ApprovalResponseIdle
                     else app_ResponseState a)
     in
     if response \<noteq> ApprovalResponseIdle \<and> response \<noteq> ApprovalResponseDispatching \<and>
        response \<noteq> ApprovalResponseWritten \<and> response \<noteq> ApprovalResponseAmbiguous
     then fail CodeInvalidArgument ''approval response state is invalid''
     else if app_RequestedDecision a \<noteq> NoDecision \<and> app_RequestedDecision a \<noteq> ApprovalDecisionApprove \<and>
        app_RequestedDecision a \<noteq> ApprovalDecisionDeny \<and> app_RequestedDecision a \<noteq> ApprovalDecisionCancel
     then fail CodeInvalidArgument ''approval decision is invalid''
     else if app_Status a = ApprovalPending \<and> (app_RespondedByDeviceID a \<noteq> '''' \<or> app_RespondedAt a \<noteq> None)
     then fail CodeInvalidArgument ''pending approval cannot have a response''
     else if app_Status a \<noteq> ApprovalPending \<and> app_RespondedAt a = None
     then fail CodeInvalidArgument ''terminal approval requires a response time''
     else if (app_Status a = ApprovalApproved \<or> app_Status a = ApprovalDenied \<or>
              app_Status a = ApprovalCancelled) \<and> app_RespondedByDeviceID a = ''''
     then fail CodeInvalidArgument ''operator approval requires a responder''
     else Inr ()))"

lemma ValidateApproval_ids:
  "ValidateApproval a = Inr u \<Longrightarrow> valid_id (app_ID a) \<and> valid_id (app_SessionID a)"
  by (auto simp: ValidateApproval_def bindE_Inr)

lemma ValidateApproval_fields:
  assumes "ValidateApproval a = Inr u"
  shows "app_ProviderApprovalID a \<noteq> '''' \<and> length (app_ProviderApprovalID a) \<le> 256 \<and>
     app_Kind a \<noteq> '''' \<and> length (app_Kind a) \<le> 64 \<and> isHexDigest (app_PayloadDigest a) \<and>
     length (app_Summary a) \<le> 2048 \<and> ApprovalStatusKnown (app_Status a) \<and>
     app_IdempotencyKey a \<noteq> '''' \<and> length (app_IdempotencyKey a) \<le> 128 \<and> app_RequestedAt a \<noteq> 0"
  using assms by (simp add: ValidateApproval_def bindE_Inr not_less)

lemma ValidateApproval_response:
  assumes "ValidateApproval a = Inr u"
  shows "(app_Status a = ApprovalPending \<longleftrightarrow> app_RespondedAt a = None) \<and>
     (app_Status a = ApprovalPending \<longrightarrow> app_RespondedByDeviceID a = '''') \<and>
     (app_Status a \<in> {ApprovalApproved, ApprovalDenied, ApprovalCancelled} \<longrightarrow>
        app_RespondedByDeviceID a \<noteq> '''' \<and> valid_id (app_RespondedByDeviceID a)) \<and>
     (\<forall>t. app_RespondedAt a = Some t \<longrightarrow> app_RequestedAt a \<le> t)"
  using assms by (auto simp: ValidateApproval_def bindE_Inr not_less Let_def split: if_splits)

section \<open>Usage snapshots\<close>

definition UsageSourceKnown :: "UsageSource \<Rightarrow> bool" where
  "UsageSourceKnown s =
     (s \<in> {UsageSourceOfficial, UsageSourceCLIDerived, UsageSourceLocalEstimate, UsageSourceUnofficial})"

definition UsageConfidenceKnown :: "UsageConfidence \<Rightarrow> bool" where
  "UsageConfidenceKnown c = (c \<in> {UsageConfidenceHigh, UsageConfidenceMedium, UsageConfidenceLow})"

definition UsageCapabilityStatusKnown :: "UsageCapabilityStatus \<Rightarrow> bool" where
  "UsageCapabilityStatusKnown s =
     (s \<in> {UsageSupported, UsageUnavailable, UsageSchemaChanged, UsageError})"

text \<open>\<open>value != nil && *value < 0\<close>, and the percentage test. A NaN passes both.\<close>

definition negative_value :: "gofloat option \<Rightarrow> bool" where
  "negative_value v = (case v of None \<Rightarrow> False | Some x \<Rightarrow> flt_less x (Finite 0))"

definition bad_percent :: "gofloat option \<Rightarrow> bool" where
  "bad_percent v =
     (case v of None \<Rightarrow> False | Some x \<Rightarrow> flt_less x (Finite 0) \<or> flt_less (Finite 100) x)"

definition ValidateUsageSnapshot :: "UsageSnapshot \<Rightarrow> error + unit" where
  "ValidateUsageSnapshot u =
     bindE (check_all ValidateID [use_ID u, use_AccountID u, use_DeviceID u]) (\<lambda>_.
     if use_Provider u \<noteq> ProviderCodex \<or> use_WindowKind u = '''' \<or> 64 < length (use_WindowKind u) \<or>
        use_ObservedAt u = 0 \<or> use_SourceVersion u = '''' \<or> 128 < length (use_SourceVersion u) \<or>
        \<not> UsageSourceKnown (use_Source u) \<or> \<not> UsageConfidenceKnown (use_Confidence u) \<or>
        \<not> UsageCapabilityStatusKnown (use_CapabilityStatus u) \<or> 64 < length (use_ErrorCode u)
     then fail CodeInvalidArgument ''invalid usage snapshot''
     else bindE (check_all (\<lambda>v. if negative_value v
                                then fail CodeInvalidArgument ''usage value cannot be negative''
                                else Inr ()) [use_UsedValue u, use_LimitValue u]) (\<lambda>_.
     if bad_percent (use_UsedPercent u)
     then fail CodeInvalidArgument ''usage percent is invalid''
     else if (case use_ResetsAt u of None \<Rightarrow> False | Some t \<Rightarrow> t < use_ObservedAt u)
     then fail CodeInvalidArgument ''usage reset precedes observation''
     else if use_RawReferenceHash u \<noteq> '''' \<and> \<not> isHexDigest (use_RawReferenceHash u)
     then fail CodeInvalidArgument ''usage reference hash is invalid''
     else Inr ()))"

definition validAvailability :: "Availability \<Rightarrow> bool" where
  "validAvailability v =
     (v \<in> {AvailabilityAvailable, AvailabilityLimited, AvailabilityUnavailable, AvailabilityUnknown})"

definition validUsageSource :: "UsageSource \<Rightarrow> bool" where
  "validUsageSource s =
     (s \<in> {UsageSourceOfficial, UsageSourceCLIDerived, UsageSourceLocalEstimate, UsageSourceUnavailable})"

definition validUsageConfidence :: "UsageConfidence \<Rightarrow> bool" where
  "validUsageConfidence c =
     (c \<in> {UsageConfidenceHigh, UsageConfidenceMedium, UsageConfidenceLow, UsageConfidenceNone})"

definition validUsageWindowKind :: "UsageWindowKind \<Rightarrow> bool" where
  "validUsageWindowKind k =
     (k \<in> {UsageWindowRolling, UsageWindowCalendar, UsageWindowSpendControl, UsageWindowSDKCredit,
           UsageWindowUnknown})"

definition validateUsageWindow :: "UsageWindow \<Rightarrow> error + unit" where
  "validateUsageWindow w =
     (if length (win_Label w) < 1 \<or> 128 < length (win_Label w) \<or> 128 < length (win_ProviderLimitID w) \<or>
         \<not> validUsageWindowKind (win_Kind w)
      then fail CodeInvalidArgument ''invalid usage window''
      else if (case win_DurationSeconds w of None \<Rightarrow> False | Some d \<Rightarrow> d \<le> 0)
      then fail CodeInvalidArgument ''invalid usage duration''
      else bindE (check_all (\<lambda>v. if bad_percent v
                                 then fail CodeInvalidArgument ''invalid usage percentage''
                                 else Inr ()) [win_UsedPercent w, win_RemainingPercent w]) (\<lambda>_.
      check_all (\<lambda>v. if negative_value v
                     then fail CodeInvalidArgument ''invalid usage value''
                     else Inr ()) [win_UsedValue w, win_LimitValue w]))"

definition NewUsageSnapshot :: "UsageSnapshot \<Rightarrow> error + UsageSnapshot" where
  "NewUsageSnapshot u =
     (if ValidateID (use_ID u) \<noteq> Inr () \<or> ValidateID (use_AccountID u) \<noteq> Inr () \<or>
         ValidateID (use_DeviceID u) \<noteq> Inr () \<or> \<not> ValidProvider (use_Provider u) \<or>
         use_Provider u = ProviderFake \<or> use_ProviderVersion u = '''' \<or>
         \<not> validUsageSource (use_Source u) \<or> \<not> validUsageConfidence (use_Confidence u) \<or>
         \<not> validAvailability (use_Availability u) \<or> use_ObservedAt u = 0 \<or>
         use_StaleAt u < use_ObservedAt u \<or> 128 < length (use_RawReferenceHash u)
      then fail CodeInvalidArgument ''invalid usage snapshot''
      else if use_CredentialInstanceID u \<noteq> '''' \<and> ValidateID (use_CredentialInstanceID u) \<noteq> Inr ()
      then fail CodeInvalidArgument ''invalid usage credential''
      else bindE (check_all validateUsageWindow (use_Windows u)) (\<lambda>_. Inr u))"

lemma NewUsageSnapshot_ok:
  "NewUsageSnapshot u = Inr u' \<Longrightarrow> u' = u \<and> (\<forall>w \<in> set (use_Windows u). validateUsageWindow w = Inr ())"
  by (auto simp: NewUsageSnapshot_def bindE_Inr check_all_ok)

section \<open>Profile selectors and settings\<close>

definition ascii_letter :: "char \<Rightarrow> bool" where
  "ascii_letter c = (let n = (of_char c :: nat) in (65 \<le> n \<and> n \<le> 90) \<or> (97 \<le> n \<and> n \<le> 122))"

definition alias_char :: "char \<Rightarrow> bool" where
  "alias_char c =
     (let n = (of_char c :: nat) in ascii_letter c \<or> (48 \<le> n \<and> n \<le> 57) \<or> c = CHR ''_'' \<or> c = CHR ''-'')"

definition selectorAliasPattern :: "string \<Rightarrow> bool" where
  "selectorAliasPattern s =
     (case s of [] \<Rightarrow> False | c # cs \<Rightarrow> ascii_letter c \<and> length cs \<le> 31 \<and> list_all alias_char cs)"

text \<open>\<open>strings.ToLower\<close> on the ASCII text the pattern admits.\<close>

definition lower_char :: "char \<Rightarrow> char" where
  "lower_char c = (let n = (of_char c :: nat) in if 65 \<le> n \<and> n \<le> 90 then char_of (n + 32) else c)"

definition CanonicalSelectorAlias :: "string \<Rightarrow> error + string" where
  "CanonicalSelectorAlias a =
     (if \<not> selectorAliasPattern a then fail CodeAliasInvalid ''profile alias is invalid''
      else Inr (map lower_char a))"

definition ParseProfileSelector :: "string \<Rightarrow> error + string" where
  "ParseProfileSelector selector =
     (if has_prefix selector ''@@'' then fail CodeAliasInvalid ''profile selector is invalid''
      else CanonicalSelectorAlias (trim_prefix selector ''@''))"

definition CanonicalSettings :: "string \<Rightarrow> error + string" where
  "CanonicalSettings settings =
     (if length settings = 0 then Inr ''{}''
      else if \<not> json_valid settings \<or> 64 * 1024 < length settings
      then fail CodeInvalidArgument ''invalid profile settings''
      else Inr settings)"

lemma ascii_letter_lower: "ascii_letter (lower_char c) = ascii_letter c"
  by (auto simp: ascii_letter_def lower_char_def Let_def)

lemma lower_char_idem [simp]: "lower_char (lower_char c) = lower_char c"
  by (auto simp: lower_char_def Let_def)

lemma alias_char_lower: "alias_char (lower_char c) = alias_char c"
proof (cases "65 \<le> (of_char c :: nat) \<and> (of_char c :: nat) \<le> 90")
  case True
  then have "ascii_letter c" by (simp add: ascii_letter_def)
  then show ?thesis by (simp add: alias_char_def ascii_letter_lower)
next
  case False
  then have "lower_char c = c" by (auto simp: lower_char_def Let_def)
  then show ?thesis by simp
qed

lemma selectorAliasPattern_lower: "selectorAliasPattern (map lower_char s) = selectorAliasPattern s"
  by (cases s) (simp_all add: selectorAliasPattern_def ascii_letter_lower list_all_iff alias_char_lower)

lemma alias_no_at: "selectorAliasPattern (c # s) \<Longrightarrow> c \<noteq> CHR ''@''"
  by (auto simp: selectorAliasPattern_def ascii_letter_def)

lemma CanonicalSelectorAlias_ok:
  "CanonicalSelectorAlias a = Inr k \<longleftrightarrow> selectorAliasPattern a \<and> k = map lower_char a"
  by (auto simp: CanonicalSelectorAlias_def)

lemma ParseProfileSelector_ok:
  "ParseProfileSelector s = Inr k \<longleftrightarrow>
     (\<exists>a. (s = a \<or> s = CHR ''@'' # a) \<and> selectorAliasPattern a \<and> k = map lower_char a)"
proof (cases s)
  case Nil
  then show ?thesis
    by (auto simp: ParseProfileSelector_def has_prefix_def trim_prefix_def CanonicalSelectorAlias_ok
        selectorAliasPattern_def)
next
  case (Cons c cs)
  show ?thesis
  proof (cases "c = CHR ''@''")
    case True
    have "has_prefix s ''@@'' \<longleftrightarrow> (\<exists>ds. cs = CHR ''@'' # ds)"
      using Cons True by (cases cs) (auto simp: has_prefix_def)
    then show ?thesis using Cons True alias_no_at [of "CHR ''@''"]
      by (auto simp: ParseProfileSelector_def trim_prefix_def has_prefix_def CanonicalSelectorAlias_ok)
  next
    case False
    then show ?thesis using Cons
      by (auto simp: ParseProfileSelector_def trim_prefix_def has_prefix_def CanonicalSelectorAlias_ok)
  qed
qed

end
