(* ===== verification/LeaseDomain.thy ===== *)
theory LeaseDomain
  imports Identifiers
begin

text \<open>
  \<open>src/internal/domain/lease.go\<close>: the controller lease of a Session. A lease has a revision that
  grows whenever the holder may change; an operation names the revision it was given, so a client
  that lost the lease cannot act on it. \<open>Revision++\<close> is 64-bit arithmetic, written with \<open>i64\<close>.
\<close>

definition DefaultLeaseDuration :: duration where
  "DefaultLeaseDuration = 30 * second"

definition DefaultLeaseHeartbeat :: duration where
  "DefaultLeaseHeartbeat = 10 * second"

record ControllerLease =
  lease_SessionID :: ID
  lease_HolderDeviceID :: ID
  lease_Revision :: int
  lease_ExpiresAt :: time
  lease_LastHeartbeat :: time
  lease_ReleasedAt :: "time option"

definition Active :: "ControllerLease \<Rightarrow> time \<Rightarrow> bool" where
  "Active l now = (lease_ReleasedAt l = None \<and> 0 < lease_Revision l \<and> now < lease_ExpiresAt l)"

definition AcquireControllerLease ::
    "ControllerLease option \<Rightarrow> ID \<Rightarrow> ID \<Rightarrow> time \<Rightarrow> duration \<Rightarrow> error + ControllerLease" where
  "AcquireControllerLease current sessionID holderID now duration =
     bindE (ValidateID sessionID) (\<lambda>_.
     bindE (ValidateID holderID) (\<lambda>_.
     if now = 0 \<or> duration \<le> 0
     then fail CodeInvalidArgument ''lease requires a valid time and duration''
     else
     bindE (case current of
              None \<Rightarrow> Inr 1
            | Some c \<Rightarrow>
                if lease_SessionID c \<noteq> sessionID
                then fail CodeConflict ''lease belongs to another session''
                else if lease_Revision c < 1 \<or> now < lease_LastHeartbeat c
                then fail CodeInvalidArgument ''lease acquisition time is invalid''
                else if Active c now
                then fail CodeLeaseHeld ''controller lease is already held''
                else Inr (i64 (lease_Revision c + 1))) (\<lambda>revision.
     Inr \<lparr>lease_SessionID = sessionID, lease_HolderDeviceID = holderID, lease_Revision = revision,
          lease_ExpiresAt = now + duration, lease_LastHeartbeat = now, lease_ReleasedAt = None\<rparr>)))"

definition lease_require :: "ControllerLease \<Rightarrow> ID \<Rightarrow> int \<Rightarrow> time \<Rightarrow> error + unit" where
  "lease_require l holderID revision now =
     (if lease_Revision l = 0 then fail CodeLeaseRequired ''controller lease is required''
      else if revision \<noteq> lease_Revision l
      then fail CodeStaleLease ''controller lease revision is stale''
      else if lease_HolderDeviceID l \<noteq> holderID
      then fail CodePermissionDenied ''controller lease belongs to another client''
      else if now = 0 \<or> now < lease_LastHeartbeat l
      then fail CodeInvalidArgument ''lease operation time is invalid''
      else if \<not> Active l now
      then fail CodeLeaseRequired ''controller lease is expired or released''
      else Inr ())"

definition Heartbeat ::
    "ControllerLease \<Rightarrow> ID \<Rightarrow> int \<Rightarrow> time \<Rightarrow> duration \<Rightarrow> error + ControllerLease" where
  "Heartbeat l holderID revision now duration =
     bindE (lease_require l holderID revision now) (\<lambda>_.
     if duration \<le> 0 then fail CodeInvalidArgument ''lease heartbeat requires a duration''
     else Inr (l\<lparr>lease_LastHeartbeat := now, lease_ExpiresAt := now + duration\<rparr>))"

definition Release :: "ControllerLease \<Rightarrow> ID \<Rightarrow> int \<Rightarrow> time \<Rightarrow> error + ControllerLease" where
  "Release l holderID revision now =
     bindE (lease_require l holderID revision now) (\<lambda>_.
     Inr (l\<lparr>lease_Revision := i64 (lease_Revision l + 1), lease_ExpiresAt := now,
            lease_LastHeartbeat := now, lease_ReleasedAt := Some now\<rparr>))"

definition RequireControl :: "ControllerLease \<Rightarrow> ID \<Rightarrow> int \<Rightarrow> time \<Rightarrow> error + unit" where
  "RequireControl l holderID revision now = lease_require l holderID revision now"

section \<open>Facts about single operations\<close>

lemma lease_require_ok:
  "lease_require l h r now = Inr () \<longleftrightarrow>
     lease_Revision l \<noteq> 0 \<and> r = lease_Revision l \<and> lease_HolderDeviceID l = h \<and> now \<noteq> 0 \<and>
     lease_LastHeartbeat l \<le> now \<and> Active l now"
  by (auto simp: lease_require_def)

lemma AcquireControllerLease_ok:
  "AcquireControllerLease cur sid h now d = Inr l \<longleftrightarrow>
     valid_id sid \<and> valid_id h \<and> now \<noteq> 0 \<and> 0 < d \<and>
     (case cur of None \<Rightarrow> True
      | Some c \<Rightarrow> lease_SessionID c = sid \<and> 1 \<le> lease_Revision c \<and>
                  lease_LastHeartbeat c \<le> now \<and> \<not> Active c now) \<and>
     l = \<lparr>lease_SessionID = sid, lease_HolderDeviceID = h,
          lease_Revision = (case cur of None \<Rightarrow> 1 | Some c \<Rightarrow> i64 (lease_Revision c + 1)),
          lease_ExpiresAt = now + d, lease_LastHeartbeat = now, lease_ReleasedAt = None\<rparr>"
  by (auto simp: AcquireControllerLease_def bindE_Inr split: option.splits)

lemma Heartbeat_ok:
  "Heartbeat l h r now d = Inr l' \<longleftrightarrow>
     lease_require l h r now = Inr () \<and> 0 < d \<and>
     l' = l\<lparr>lease_LastHeartbeat := now, lease_ExpiresAt := now + d\<rparr>"
  by (auto simp: Heartbeat_def bindE_Inr)

lemma Release_ok:
  "Release l h r now = Inr l' \<longleftrightarrow>
     lease_require l h r now = Inr () \<and>
     l' = l\<lparr>lease_Revision := i64 (lease_Revision l + 1), lease_ExpiresAt := now,
            lease_LastHeartbeat := now, lease_ReleasedAt := Some now\<rparr>"
  by (auto simp: Release_def bindE_Inr)

section \<open>Lease histories\<close>

text \<open>
  A well-formed stored lease, and the history of one Session's lease under the operations of the
  package: the state is the current lease (if any) and the time of the last operation.
\<close>

definition lease_wf :: "ControllerLease \<Rightarrow> bool" where
  "lease_wf l =
     (1 \<le> lease_Revision l \<and> lease_Revision l < 2 ^ 63 \<and> lease_LastHeartbeat l \<le> lease_ExpiresAt l \<and>
      (case lease_ReleasedAt l of None \<Rightarrow> lease_LastHeartbeat l < lease_ExpiresAt l
       | Some t \<Rightarrow> t = lease_ExpiresAt l \<and> t = lease_LastHeartbeat l))"

inductive lease_step :: "ID \<Rightarrow> ControllerLease option \<Rightarrow> ControllerLease option \<Rightarrow> bool" for sid where
  acquire: "AcquireControllerLease cur sid h now d = Inr l \<Longrightarrow> lease_step sid cur (Some l)"
| heartbeat: "Heartbeat l h r now d = Inr l' \<Longrightarrow> lease_step sid (Some l) (Some l')"
| release: "Release l h r now = Inr l' \<Longrightarrow> lease_step sid (Some l) (Some l')"

inductive_cases lease_stepE: "lease_step sid cur nxt"

definition lease_revision :: "ControllerLease option \<Rightarrow> int" where
  "lease_revision cur = (case cur of None \<Rightarrow> 0 | Some l \<Rightarrow> lease_Revision l)"

definition lease_heartbeat :: "ControllerLease option \<Rightarrow> time option" where
  "lease_heartbeat cur = map_option lease_LastHeartbeat cur"

text \<open>
  The revisions of a history stay below \<open>2 ^ 63\<close> as long as fewer operations than that happen;
  the bound is the hypothesis \<open>lease_revision cur < 2 ^ 63 - 1\<close> of the step lemma.
\<close>

lemma lease_step_wf:
  assumes "lease_step sid cur nxt" "\<forall>l. cur = Some l \<longrightarrow> lease_wf l" "lease_revision cur < 2 ^ 63 - 1"
  shows "\<forall>l. nxt = Some l \<longrightarrow> lease_wf l"
  using assms(1)
proof cases
  case (acquire h now d l)
  then show ?thesis using assms(2,3)
    by (auto simp: AcquireControllerLease_ok lease_wf_def lease_revision_def i64_succ split: option.splits)
next
  case (heartbeat l h r now d l')
  then show ?thesis using assms(2)
    by (auto simp: Heartbeat_ok lease_require_ok lease_wf_def Active_def)
next
  case (release l h r now l')
  then show ?thesis using assms(2,3)
    by (auto simp: Release_ok lease_wf_def lease_revision_def i64_succ)
qed

lemma lease_step_revision:
  assumes "lease_step sid cur nxt" "\<forall>l. cur = Some l \<longrightarrow> lease_wf l" "lease_revision cur < 2 ^ 63 - 1"
  shows "lease_revision cur \<le> lease_revision nxt \<and> lease_revision nxt \<le> lease_revision cur + 1 \<and>
         (lease_revision nxt = lease_revision cur \<longrightarrow>
            map_option lease_HolderDeviceID nxt = map_option lease_HolderDeviceID cur)"
  using assms(1)
proof cases
  case (acquire h now d l)
  then show ?thesis using assms(2,3)
    by (auto simp: AcquireControllerLease_ok lease_wf_def lease_revision_def i64_succ split: option.splits)
next
  case (heartbeat l h r now d l')
  then show ?thesis by (auto simp: Heartbeat_ok lease_revision_def)
next
  case (release l h r now l')
  then show ?thesis using assms(2,3) by (auto simp: Release_ok lease_wf_def lease_revision_def i64_succ)
qed

text \<open>Any number of steps: the lease stays well-formed and its revision never falls.\<close>

lemma lease_steps:
  assumes "(lease_step sid ^^ n) cur nxt" "\<forall>l. cur = Some l \<longrightarrow> lease_wf l"
    "lease_revision cur + int n < 2 ^ 63"
  shows "(\<forall>l. nxt = Some l \<longrightarrow> lease_wf l) \<and> lease_revision cur \<le> lease_revision nxt \<and>
         lease_revision nxt \<le> lease_revision cur + int n \<and>
         (lease_revision nxt = lease_revision cur \<longrightarrow>
            map_option lease_HolderDeviceID nxt = map_option lease_HolderDeviceID cur)"
  using assms(1,3)
proof (induction n arbitrary: nxt)
  case 0
  then show ?case using assms(2) by simp
next
  case (Suc n)
  then obtain m where m: "(lease_step sid ^^ n) cur m" "lease_step sid m nxt" by auto
  with Suc have IH: "(\<forall>l. m = Some l \<longrightarrow> lease_wf l)" "lease_revision cur \<le> lease_revision m"
    "lease_revision m \<le> lease_revision cur + int n"
    "lease_revision m = lease_revision cur \<longrightarrow>
       map_option lease_HolderDeviceID m = map_option lease_HolderDeviceID cur"
    by auto
  from IH(3) Suc.prems(2) have "lease_revision m < 2 ^ 63 - 1" by simp
  then show ?case
    using lease_step_revision [OF m(2) IH(1)] lease_step_wf [OF m(2) IH(1)] IH by auto
qed

end
