(* ===== verification/RingBuffer.thy ===== *)
theory RingBuffer
  imports Errors
begin

text \<open>
  The replay buffer of \<open>src/internal/runtime/ring.go\<close>: output is cut into numbered chunks of at
  most \<open>chunkSize\<close> bytes, and the oldest chunks are evicted while more than \<open>capacity\<close> bytes are
  retained. Bytes are \<^typ>\<open>nat\<close> values; a nil receiver is \<^const>\<open>None\<close>. The copies the code
  takes (\<open>cloneChunk\<close>) are the identity on values. The mutex makes each operation atomic.
\<close>

definition DefaultRingBytes :: int where "DefaultRingBytes = 4 * 1024 * 1024"
definition DefaultChunkSize :: int where "DefaultChunkSize = 4 * 1024"

record Chunk =
  chunk_Sequence :: int
  chunk_Data :: "nat list"
  chunk_Truncated :: bool

record Replay =
  rep_Chunks :: "Chunk list"
  rep_Truncated :: bool
  rep_NextSequence :: int

record RingBuffer =
  ring_capacity :: int
  ring_chunkSize :: int
  ring_chunks :: "Chunk list"
  ring_bytes :: int
  ring_next :: int

definition NewRingBuffer :: "int \<Rightarrow> int \<Rightarrow> error + RingBuffer" where
  "NewRingBuffer capacity chunkSize =
     (if capacity \<le> 0 \<or> chunkSize \<le> 0 \<or> capacity < chunkSize
      then fail CodeInvalidArgument ''ring buffer bounds are invalid''
      else Inr \<lparr>ring_capacity = capacity, ring_chunkSize = chunkSize, ring_chunks = [],
                ring_bytes = 0, ring_next = 0\<rparr>)"

definition NewDefaultRingBuffer :: "RingBuffer option" where
  "NewDefaultRingBuffer =
     (case NewRingBuffer DefaultRingBytes DefaultChunkSize of Inl e \<Rightarrow> None | Inr r \<Rightarrow> Some r)"

definition cloneChunk :: "Chunk \<Rightarrow> Chunk" where
  "cloneChunk c = c\<lparr>chunk_Data := [] @ chunk_Data c\<rparr>"

definition cloneChunks :: "Chunk list \<Rightarrow> Chunk list" where
  "cloneChunks cs = map cloneChunk cs"

text \<open>
  The loop of \<open>Append\<close> has no bound of its own: with a chunk size of zero it would not end. So
  it is a partial function, and that it returns is a property of the buffers the constructor
  makes.
\<close>

partial_function (option) append_loop ::
  "RingBuffer \<Rightarrow> nat list \<Rightarrow> Chunk list \<Rightarrow> (RingBuffer \<times> Chunk list) option" where
  "append_loop r data added =
     (if data = [] then Some (r, added) else
      let n = (if int (length data) < ring_chunkSize r then int (length data) else ring_chunkSize r);
          chunk = \<lparr>chunk_Sequence = i64 (ring_next r + 1), chunk_Data = take (nat n) data,
                   chunk_Truncated = False\<rparr>
      in append_loop
           (r\<lparr>ring_next := chunk_Sequence chunk, ring_chunks := ring_chunks r @ [chunk],
              ring_bytes := ring_bytes r + int (length (chunk_Data chunk))\<rparr>)
           (drop (nat n) data) (added @ [cloneChunk chunk]))"

fun evict_loop :: "int \<Rightarrow> int \<Rightarrow> Chunk list \<Rightarrow> int \<times> Chunk list" where
  "evict_loop capacity bytes [] = (bytes, [])"
| "evict_loop capacity bytes (c # cs) =
     (if capacity < bytes then evict_loop capacity (bytes - int (length (chunk_Data c))) cs
      else (bytes, c # cs))"

definition Append :: "RingBuffer \<Rightarrow> nat list \<Rightarrow> (RingBuffer \<times> Chunk list) option" where
  "Append r data =
     (if data = [] then Some (r, [])
      else case append_loop r data [] of
             None \<Rightarrow> None
           | Some (r', added) \<Rightarrow>
               (case evict_loop (ring_capacity r') (ring_bytes r') (ring_chunks r') of
                  (b, cs) \<Rightarrow> Some (r'\<lparr>ring_bytes := b, ring_chunks := cs\<rparr>, added)))"

text \<open>
  \<open>Replay\<close> returns a result beside its error, so the model returns the pair of an optional error
  and the result; \<open>ReplayFrom\<close> is the method, \<^typ>\<open>Replay\<close> the result type.
\<close>

definition ReplayFrom :: "RingBuffer option \<Rightarrow> int \<Rightarrow> error option \<times> Replay" where
  "ReplayFrom ro from =
     (case ro of
        None \<Rightarrow> (Some (NewError CodeInvalidArgument ''replay sequence is invalid''),
                 \<lparr>rep_Chunks = [], rep_Truncated = False, rep_NextSequence = 0\<rparr>)
      | Some r \<Rightarrow>
          if from < 0
          then (Some (NewError CodeInvalidArgument ''replay sequence is invalid''),
                \<lparr>rep_Chunks = [], rep_Truncated = False, rep_NextSequence = 0\<rparr>)
          else
            let result = \<lparr>rep_Chunks = [], rep_Truncated = False,
                          rep_NextSequence = i64 (ring_next r + 1)\<rparr>
            in case ring_chunks r of
                 [] \<Rightarrow> (None, result)
               | c # _ \<Rightarrow>
                   let oldest = chunk_Sequence c;
                       start = (if from = 0 then oldest else from)
                   in if start < oldest
                      then (Some (NewError CodeReplayUnavailable ''requested replay is no longer retained''),
                            result\<lparr>rep_Truncated := True, rep_Chunks := cloneChunks (ring_chunks r)\<rparr>)
                      else (None, result\<lparr>rep_Chunks :=
                              map cloneChunk (filter (\<lambda>c. start \<le> chunk_Sequence c) (ring_chunks r))\<rparr>))"

definition Snapshot :: "RingBuffer option \<Rightarrow> Replay" where
  "Snapshot ro = snd (ReplayFrom ro 0)"

section \<open>The invariant\<close>

definition chunk_bytes :: "Chunk list \<Rightarrow> nat list" where
  "chunk_bytes cs = concat (map chunk_Data cs)"

definition seq_range :: "int \<Rightarrow> Chunk list \<Rightarrow> bool" where
  "seq_range last_seq cs = (map chunk_Sequence cs = [last_seq - int (length cs) + 1 .. last_seq])"

definition chunk_ok :: "int \<Rightarrow> Chunk \<Rightarrow> bool" where
  "chunk_ok sz c = (chunk_Data c \<noteq> [] \<and> int (length (chunk_Data c)) \<le> sz \<and> \<not> chunk_Truncated c)"

definition ring_wf :: "RingBuffer \<Rightarrow> bool" where
  "ring_wf r \<longleftrightarrow>
     0 < ring_chunkSize r \<and> ring_chunkSize r \<le> ring_capacity r \<and>
     ring_bytes r = int (length (chunk_bytes (ring_chunks r))) \<and> ring_bytes r \<le> ring_capacity r \<and>
     list_all (chunk_ok (ring_chunkSize r)) (ring_chunks r) \<and>
     seq_range (ring_next r) (ring_chunks r) \<and>
     int (length (ring_chunks r)) \<le> ring_next r \<and> ring_next r < 2 ^ 63 \<and>
     (0 < ring_next r \<longrightarrow> ring_chunks r \<noteq> [])"

lemma cloneChunk_id [simp]: "cloneChunk c = c"
  by (simp add: cloneChunk_def)

lemma cloneChunks_id [simp]: "cloneChunks cs = cs"
  by (simp add: cloneChunks_def map_idI)

lemma map_cloneChunk [simp]: "map cloneChunk cs = cs"
  by (simp add: map_idI)

lemma chunk_bytes_append [simp]: "chunk_bytes (xs @ ys) = chunk_bytes xs @ chunk_bytes ys"
  by (simp add: chunk_bytes_def)

lemma chunk_bytes_Cons [simp]: "chunk_bytes (c # cs) = chunk_Data c @ chunk_bytes cs"
  by (simp add: chunk_bytes_def)

lemma chunk_bytes_Nil [simp]: "chunk_bytes [] = []"
  by (simp add: chunk_bytes_def)

lemma seq_range_snoc:
  assumes "seq_range s cs" "chunk_Sequence c = s + 1"
  shows "seq_range (s + 1) (cs @ [c])"
proof -
  have "[s - int (length cs) + 1 .. s + 1] = [s - int (length cs) + 1 .. s] @ [s + 1]"
    by (rule upto_rec2 [of "s - int (length cs) + 1" "s + 1", simplified])
  then show ?thesis using assms by (simp add: seq_range_def algebra_simps)
qed

lemma drop_upto: "drop k [i..j] = [i + int k..j]"
proof (induction k arbitrary: i)
  case (Suc k)
  then show ?case by (cases "i \<le> j") (simp_all add: upto_rec1 algebra_simps)
qed simp

lemma seq_range_drop:
  "seq_range s cs \<Longrightarrow> k \<le> length cs \<Longrightarrow> seq_range s (drop k cs)"
  by (simp add: seq_range_def drop_map [symmetric] drop_upto of_nat_diff algebra_simps)

lemma seq_range_Cons:
  assumes "seq_range s (c # cs)"
  shows "chunk_Sequence c = s - int (length cs)"
proof -
  have "chunk_Sequence c # map chunk_Sequence cs = [s - int (length cs) .. s]"
    using assms by (simp add: seq_range_def)
  then show ?thesis by (simp add: upto_rec1)
qed

lemma filter_seq_range:
  assumes "seq_range s cs" "s - int (length cs) + 1 \<le> a" "a \<le> s + 1"
  shows "filter (\<lambda>c. a \<le> chunk_Sequence c) cs = drop (nat (a - (s - int (length cs) + 1))) cs"
  using assms
proof (induction cs)
  case (Cons c cs)
  have c: "chunk_Sequence c = s - int (length cs)" using Cons.prems(1) by (rule seq_range_Cons)
  have cs: "seq_range s cs" using seq_range_drop [OF Cons.prems(1), of 1] by simp
  show ?case
  proof (cases "a \<le> s - int (length cs)")
    case True
    have "\<forall>x \<in> set cs. a \<le> chunk_Sequence x"
    proof
      fix x assume "x \<in> set cs"
      then have "chunk_Sequence x \<in> set (map chunk_Sequence cs)" by simp
      also have "\<dots> = set [s - int (length cs) + 1 .. s]" using cs by (simp only: seq_range_def)
      finally show "a \<le> chunk_Sequence x" using True by simp
    qed
    then show ?thesis using True c Cons.prems by simp
  next
    case False
    then have "nat (a - (s - int (length (c # cs)) + 1)) = Suc (nat (a - (s - int (length cs) + 1)))"
      by simp
    then show ?thesis using False c Cons.IH [OF cs] Cons.prems by simp
  qed
qed simp

section \<open>Append\<close>

lemma append_loop_spec:
  assumes "0 < ring_chunkSize r" "0 \<le> ring_next r"
    "ring_next r + int (length data) < 2 ^ 63"
  shows "\<exists>cs. append_loop r data added =
           Some (r\<lparr>ring_next := ring_next r + int (length cs), ring_chunks := ring_chunks r @ cs,
                   ring_bytes := ring_bytes r + int (length data)\<rparr>, added @ cs) \<and>
         chunk_bytes cs = data \<and> list_all (chunk_ok (ring_chunkSize r)) cs \<and>
         length cs \<le> length data \<and>
         (\<forall>xs. seq_range (ring_next r) xs \<longrightarrow> seq_range (ring_next r + int (length cs)) (xs @ cs))"
  using assms
proof (induction "length data" arbitrary: r data added rule: less_induct)
  case less
  show ?case
  proof (cases "data = []")
    case True
    then show ?thesis by (intro exI [of _ "[]"]) (simp add: append_loop.simps)
  next
    case False
    define n where "n = (if int (length data) < ring_chunkSize r then int (length data) else ring_chunkSize r)"
    define c where "c = \<lparr>chunk_Sequence = i64 (ring_next r + 1), chunk_Data = take (nat n) data,
                         chunk_Truncated = False\<rparr>"
    define r' where "r' = r\<lparr>ring_next := chunk_Sequence c, ring_chunks := ring_chunks r @ [c],
              ring_bytes := ring_bytes r + int (length (chunk_Data c))\<rparr>"
    have len: "0 < length data" using False by simp
    have n: "0 < n" "n \<le> int (length data)" "n \<le> ring_chunkSize r" using less.prems(1) len by (simp_all add: n_def)
    have "1 \<le> int (length data)" using len by linarith
    then have "ring_next r < 2 ^ 63 - 1" using less.prems(3) by linarith
    then have seq: "chunk_Sequence c = ring_next r + 1"
      using less.prems(2) i64_succ by (simp add: c_def)
    have cd: "chunk_Data c = take (nat n) data" "chunk_Data c \<noteq> []"
      "int (length (chunk_Data c)) = n"
      using n False by (simp_all add: c_def)
    have unfold: "append_loop r data added = append_loop r' (drop (nat n) data) (added @ [c])"
      using False by (subst append_loop.simps) (simp add: n_def c_def r'_def Let_def)
    have r': "ring_next r' = ring_next r + 1" "ring_chunkSize r' = ring_chunkSize r"
      by (simp_all add: r'_def seq)
    have "length (drop (nat n) data) < length data" using n len by simp
    from less.hyps [OF this, of r' "added @ [c]"]
    obtain cs where cs: "append_loop r' (drop (nat n) data) (added @ [c]) =
           Some (r'\<lparr>ring_next := ring_next r' + int (length cs), ring_chunks := ring_chunks r' @ cs,
                   ring_bytes := ring_bytes r' + int (length (drop (nat n) data))\<rparr>, (added @ [c]) @ cs)"
      "chunk_bytes cs = drop (nat n) data" "list_all (chunk_ok (ring_chunkSize r')) cs"
      "length cs \<le> length (drop (nat n) data)"
      "\<And>xs. seq_range (ring_next r') xs \<Longrightarrow> seq_range (ring_next r' + int (length cs)) (xs @ cs)"
      using less.prems n by (auto simp: r')
    have "chunk_ok (ring_chunkSize r) c" using cd n by (simp add: chunk_ok_def c_def)
    moreover have "seq_range (ring_next r + int (length (c # cs))) (xs @ c # cs)"
      if "seq_range (ring_next r) xs" for xs
      using cs(5) [of "xs @ [c]"] seq_range_snoc [OF that seq] by (simp add: r' add.assoc)
    ultimately show ?thesis using cs cd n
      by (intro exI [of _ "c # cs"]) (auto simp: unfold r' r'_def seq of_nat_diff)
  qed
qed

lemma evict_loop_spec:
  assumes "evict_loop cap b cs = (b', cs')" "b = int (length (chunk_bytes cs))" "0 \<le> cap"
  shows "\<exists>k \<le> length cs. cs' = drop k cs \<and> b' = int (length (chunk_bytes cs')) \<and> b' \<le> cap \<and>
           (\<forall>j < k. cap < int (length (chunk_bytes (drop j cs))))"
  using assms
proof (induction cap b cs arbitrary: b' cs' rule: evict_loop.induct)
  case (2 cap b c cs)
  show ?case
  proof (cases "cap < b")
    case True
    with 2 obtain k where k: "k \<le> length cs" "cs' = drop k cs" "b' = int (length (chunk_bytes cs'))"
      "b' \<le> cap" "\<forall>j < k. cap < int (length (chunk_bytes (drop j cs)))" by auto
    have "\<forall>j < Suc k. cap < int (length (chunk_bytes (drop j (c # cs))))"
      using k(5) True 2(3) by (auto simp: less_Suc_eq_0_disj)
    with k show ?thesis by (intro exI [of _ "Suc k"]) simp
  next
    case False
    with 2 show ?thesis by (intro exI [of _ 0]) auto
  qed
qed auto

text \<open>
  What one \<open>Append\<close> does to a well-formed buffer: it returns, the new chunks spell the data, and
  the retained chunks are the old and new ones less the shortest prefix that has to go.
\<close>

lemma Append_spec:
  assumes wf: "ring_wf r" and bound: "ring_next r + int (length data) < 2 ^ 63"
  shows "\<exists>r' added k.
     Append r data = Some (r', added) \<and> chunk_bytes added = data \<and>
     list_all (chunk_ok (ring_chunkSize r)) added \<and>
     k \<le> length (ring_chunks r @ added) \<and>
     ring_chunks r' = drop k (ring_chunks r @ added) \<and>
     (\<forall>j < k. ring_capacity r < int (length (chunk_bytes (drop j (ring_chunks r @ added))))) \<and>
     ring_next r' = ring_next r + int (length added) \<and>
     seq_range (ring_next r') (ring_chunks r @ added) \<and> length added \<le> length data \<and>
     ring_capacity r' = ring_capacity r \<and> ring_chunkSize r' = ring_chunkSize r \<and> ring_wf r'"
proof (cases "data = []")
  case True
  then show ?thesis using wf
    by (intro exI [of _ r] exI [of _ "[]"] exI [of _ 0]) (simp add: Append_def ring_wf_def)
next
  case False
  from wf have wf': "0 < ring_chunkSize r" "ring_chunkSize r \<le> ring_capacity r" "0 \<le> ring_next r"
    "ring_bytes r = int (length (chunk_bytes (ring_chunks r)))" "seq_range (ring_next r) (ring_chunks r)"
    "int (length (ring_chunks r)) \<le> ring_next r"
    "list_all (chunk_ok (ring_chunkSize r)) (ring_chunks r)"
    unfolding ring_wf_def by simp_all
  from append_loop_spec [OF wf'(1,3) bound, of "[]"]
  obtain cs where cs: "append_loop r data [] =
        Some (r\<lparr>ring_next := ring_next r + int (length cs), ring_chunks := ring_chunks r @ cs,
                ring_bytes := ring_bytes r + int (length data)\<rparr>, cs)"
    "chunk_bytes cs = data" "list_all (chunk_ok (ring_chunkSize r)) cs" "length cs \<le> length data"
    "seq_range (ring_next r + int (length cs)) (ring_chunks r @ cs)"
    using wf'(5) by auto
  obtain b' cs' where ev: "evict_loop (ring_capacity r) (ring_bytes r + int (length data))
      (ring_chunks r @ cs) = (b', cs')" by fastforce
  have "0 \<le> ring_capacity r" using wf' by simp
  with evict_loop_spec [OF ev] cs(2) wf'(4)
  obtain k where k: "k \<le> length (ring_chunks r @ cs)" "cs' = drop k (ring_chunks r @ cs)"
    "b' = int (length (chunk_bytes cs'))" "b' \<le> ring_capacity r"
    "\<forall>j < k. ring_capacity r < int (length (chunk_bytes (drop j (ring_chunks r @ cs))))"
    by auto
  define r' where "r' = r\<lparr>ring_next := ring_next r + int (length cs), ring_chunks := cs', ring_bytes := b'\<rparr>"
  have app: "Append r data = Some (r', cs)"
    using False cs(1) ev by (simp add: Append_def r'_def)
  have nonempty: "cs' \<noteq> []"
  proof
    assume "cs' = []"
    have "cs \<noteq> []" using cs(2) False by auto
    then obtain cs0 c where c: "cs = cs0 @ [c]" by (metis append_butlast_last_id)
    have "k = length (ring_chunks r @ cs)" using \<open>cs' = []\<close> k(1,2) by auto
    then have "ring_capacity r < int (length (chunk_bytes (drop (length (ring_chunks r @ cs0)) (ring_chunks r @ cs))))"
      by (intro k(5) [rule_format]) (simp add: c)
    moreover have "chunk_ok (ring_chunkSize r) c" using cs(3) c by simp
    ultimately show False using c wf'(2) by (simp add: chunk_ok_def)
  qed
  have "list_all (chunk_ok (ring_chunkSize r)) cs'"
    using cs(3) wf'(7) k(2) by (auto simp: list_all_iff dest: in_set_dropD)
  moreover have "seq_range (ring_next r + int (length cs)) cs'"
    using seq_range_drop [OF cs(5) k(1)] k(2) by simp
  moreover have "int (length cs') \<le> ring_next r + int (length cs)" using wf'(6) k(2) by auto
  moreover have "ring_next r + int (length cs) < 2 ^ 63" using bound cs(4) by simp
  ultimately have "ring_wf r'"
    using wf' k(3,4) nonempty by (simp add: ring_wf_def r'_def)
  with app cs k show ?thesis
    by (intro exI [of _ r'] exI [of _ cs] exI [of _ k]) (simp add: r'_def)
qed

lemma NewRingBuffer_wf: "NewRingBuffer capacity chunkSize = Inr r \<Longrightarrow> ring_wf r"
  by (auto simp: NewRingBuffer_def ring_wf_def seq_range_def split: if_splits)

section \<open>Replay\<close>

text \<open>The oldest sequence number a non-empty buffer retains.\<close>

definition ring_oldest :: "RingBuffer \<Rightarrow> int" where
  "ring_oldest r = ring_next r - int (length (ring_chunks r)) + 1"

lemma ReplayFrom_retained:
  assumes "ring_wf r" "ring_oldest r \<le> from" "from \<le> ring_next r + 1" "0 < from"
    "ring_next r < 2 ^ 63 - 1"
  shows "ReplayFrom (Some r) from =
           (None, \<lparr>rep_Chunks = drop (nat (from - ring_oldest r)) (ring_chunks r),
                   rep_Truncated = False, rep_NextSequence = ring_next r + 1\<rparr>)"
proof -
  from assms(1) have wf: "seq_range (ring_next r) (ring_chunks r)" "0 \<le> ring_next r"
    by (simp_all add: ring_wf_def)
  show ?thesis
  proof (cases "ring_chunks r")
    case Nil
    then show ?thesis using assms wf by (simp add: ReplayFrom_def i64_succ)
  next
    case (Cons c cs)
    then have "chunk_Sequence c = ring_oldest r"
      using seq_range_Cons [of "ring_next r" c cs] wf by (simp add: ring_oldest_def)
    then show ?thesis using assms wf Cons filter_seq_range [OF wf(1), of "from"]
      by (simp add: ReplayFrom_def ring_oldest_def i64_succ del: filter.simps)
  qed
qed

lemma ReplayFrom_evicted:
  assumes "ring_wf r" "0 < from" "from < ring_oldest r" "ring_chunks r \<noteq> []"
  shows "\<exists>rep. ReplayFrom (Some r) from =
           (Some (NewError CodeReplayUnavailable ''requested replay is no longer retained''), rep) \<and>
         rep_Truncated rep \<and> rep_Chunks rep = ring_chunks r"
proof -
  from assms(1) have wf: "seq_range (ring_next r) (ring_chunks r)"
    by (simp add: ring_wf_def)
  obtain c cs where c: "ring_chunks r = c # cs" using assms(4) by (cases "ring_chunks r") auto
  then have "chunk_Sequence c = ring_oldest r"
    using seq_range_Cons [of "ring_next r" c cs] wf by (simp add: ring_oldest_def)
  then show ?thesis using assms c by (simp add: ReplayFrom_def)
qed

lemma Snapshot_all: "ring_wf r \<Longrightarrow> rep_Chunks (Snapshot (Some r)) = ring_chunks r"
proof (cases "ring_chunks r")
  case (Cons c cs)
  assume "ring_wf r"
  then have sr: "seq_range (ring_next r) (c # cs)" using Cons by (simp add: ring_wf_def)
  have "filter (\<lambda>x. chunk_Sequence c \<le> chunk_Sequence x) (c # cs) = c # cs"
    using filter_seq_range [OF sr, of "chunk_Sequence c"] seq_range_Cons [OF sr] by simp
  then show ?thesis using Cons by (simp add: Snapshot_def ReplayFrom_def)
qed (simp add: Snapshot_def ReplayFrom_def)

text \<open>
  What any reader gets after an append. With everything written as the list of the chunks retained
  before and those added, numbered consecutively, the answer to a request is what this list holds
  from the requested number on, or the error \<open>replay_unavailable\<close> with all that is retained; the
  error comes exactly when the number lies before the oldest retained one.
\<close>

lemma seq_range_sorted: "seq_range s cs \<Longrightarrow> sorted_wrt (<) (map chunk_Sequence cs)"
  by (simp only: seq_range_def sorted_wrt_upto)

lemma filter_evicted:
  assumes "seq_range s cs" "drop k cs \<noteq> []" "chunk_Sequence (hd (drop k cs)) \<le> a"
  shows "filter (\<lambda>c. a \<le> chunk_Sequence c) (drop k cs) = filter (\<lambda>c. a \<le> chunk_Sequence c) cs"
proof -
  have "sorted_wrt (<) (map chunk_Sequence (take k cs @ drop k cs))"
    using seq_range_sorted [OF assms(1)] by simp
  then have "\<forall>x \<in> set (take k cs). chunk_Sequence x < chunk_Sequence (hd (drop k cs))"
    using hd_in_set [OF assms(2)] by (simp only: map_append sorted_wrt_append set_map) blast
  then have "filter (\<lambda>c. a \<le> chunk_Sequence c) (take k cs) = []"
    using assms(3) by (force simp: filter_empty_conv)
  then have "filter (\<lambda>c. a \<le> chunk_Sequence c) (take k cs @ drop k cs) = filter (\<lambda>c. a \<le> chunk_Sequence c) (drop k cs)"
    by (simp only: filter_append append_Nil)
  then show ?thesis by simp
qed

lemma ReplayFrom_spec:
  assumes "ring_wf r" "ring_chunks r \<noteq> []" "0 \<le> from" "ring_next r < 2 ^ 63 - 1"
  shows "ReplayFrom (Some r) from =
     (if 0 < from \<and> from < chunk_Sequence (hd (ring_chunks r))
      then (Some (NewError CodeReplayUnavailable ''requested replay is no longer retained''),
            \<lparr>rep_Chunks = ring_chunks r, rep_Truncated = True, rep_NextSequence = ring_next r + 1\<rparr>)
      else (None, \<lparr>rep_Chunks = (if from = 0 then ring_chunks r
                                 else filter (\<lambda>c. from \<le> chunk_Sequence c) (ring_chunks r)),
                   rep_Truncated = False, rep_NextSequence = ring_next r + 1\<rparr>))"
proof -
  from assms(2) obtain c cs where c: "ring_chunks r = c # cs" by (cases "ring_chunks r") auto
  have nx: "i64 (ring_next r + 1) = ring_next r + 1" using assms by (simp add: ring_wf_def i64_succ)
  have "seq_range (ring_next r) (c # cs)" using assms(1) c by (simp add: ring_wf_def)
  from seq_range_sorted [OF this] have "filter (\<lambda>x. chunk_Sequence c \<le> chunk_Sequence x) (c # cs) = c # cs"
    by (auto simp: filter_id_conv)
  then show ?thesis using assms(3) c nx by (auto simp: ReplayFrom_def Let_def)
qed

lemma Append_then_replay:
  assumes "ring_wf r" "ring_next r + int (length data) < 2 ^ 63 - 1" "data \<noteq> []" "0 \<le> from"
  shows "\<exists>r' added k. Append r data = Some (r', added) \<and> chunk_bytes added = data \<and>
     map chunk_Sequence (ring_chunks r @ added) =
       [ring_next r - int (length (ring_chunks r)) + 1 .. ring_next r'] \<and>
     ring_next r' = ring_next r + int (length added) \<and>
     ring_chunks r' = drop k (ring_chunks r @ added) \<and> ring_chunks r' \<noteq> [] \<and>
     (\<forall>j < k. ring_capacity r < int (length (chunk_bytes (drop j (ring_chunks r @ added))))) \<and>
     int (length (chunk_bytes (ring_chunks r'))) \<le> ring_capacity r \<and>
     ReplayFrom (Some r') from =
       (if 0 < from \<and> from < chunk_Sequence (hd (ring_chunks r'))
        then (Some (NewError CodeReplayUnavailable ''requested replay is no longer retained''),
              \<lparr>rep_Chunks = ring_chunks r', rep_Truncated = True, rep_NextSequence = ring_next r' + 1\<rparr>)
        else (None, \<lparr>rep_Chunks = (if from = 0 then ring_chunks r'
                                   else filter (\<lambda>c. from \<le> chunk_Sequence c) (ring_chunks r @ added)),
                     rep_Truncated = False, rep_NextSequence = ring_next r' + 1\<rparr>))"
proof -
  have "ring_next r + int (length data) < 2 ^ 63" using assms(2) by simp
  from Append_spec [OF assms(1) this] obtain r' added k where
    a: "Append r data = Some (r', added)" "chunk_bytes added = data"
      "ring_chunks r' = drop k (ring_chunks r @ added)"
      "\<forall>j < k. ring_capacity r < int (length (chunk_bytes (drop j (ring_chunks r @ added))))"
      "ring_next r' = ring_next r + int (length added)" "seq_range (ring_next r') (ring_chunks r @ added)"
      "length added \<le> length data" "ring_capacity r' = ring_capacity r" "ring_wf r'" by blast
  have "0 < ring_next r'" using assms(1,3) a(2,5) by (cases added) (simp_all add: ring_wf_def)
  then have ne: "ring_chunks r' \<noteq> []" using a(9) by (simp add: ring_wf_def)
  have "ring_next r' < 2 ^ 63 - 1" using a(5,7) assms(2) by simp
  note spec = ReplayFrom_spec [OF a(9) ne assms(4) this]
  have "filter (\<lambda>c. from \<le> chunk_Sequence c) (ring_chunks r') = filter (\<lambda>c. from \<le> chunk_Sequence c) (ring_chunks r @ added)"
    if "chunk_Sequence (hd (ring_chunks r')) \<le> from"
    using filter_evicted [OF a(6), of k "from"] that ne unfolding a(3) by blast
  with spec have "ReplayFrom (Some r') from =
       (if 0 < from \<and> from < chunk_Sequence (hd (ring_chunks r'))
        then (Some (NewError CodeReplayUnavailable ''requested replay is no longer retained''),
              \<lparr>rep_Chunks = ring_chunks r', rep_Truncated = True, rep_NextSequence = ring_next r' + 1\<rparr>)
        else (None, \<lparr>rep_Chunks = (if from = 0 then ring_chunks r'
                                   else filter (\<lambda>c. from \<le> chunk_Sequence c) (ring_chunks r @ added)),
                     rep_Truncated = False, rep_NextSequence = ring_next r' + 1\<rparr>))"
    using assms(4) by (cases "from = 0") (auto simp: not_less)
  moreover have "map chunk_Sequence (ring_chunks r @ added) = [ring_next r - int (length (ring_chunks r)) + 1 .. ring_next r']"
    using a(5,6) by (simp add: seq_range_def algebra_simps)
  moreover have "int (length (chunk_bytes (ring_chunks r'))) \<le> ring_capacity r"
    using a(8,9) by (simp add: ring_wf_def)
  ultimately show ?thesis using a(1-5) ne by blast
qed

text \<open>A reader that holds everything so far misses something exactly when the append exceeds the capacity.\<close>

lemma evicted_sequences:
  assumes "map chunk_Sequence (ring_chunks r @ added) = [ring_next r - int (length (ring_chunks r)) + 1 .. ring_next r']"
    and "ring_next r' = ring_next r + int (length added)"
    and "ring_chunks r' = drop k (ring_chunks r @ added)" "ring_chunks r' \<noteq> []"
  shows "seq_range (ring_next r') (ring_chunks r @ added)"
    and "chunk_Sequence (hd (ring_chunks r')) = ring_next r + 1 + int k - int (length (ring_chunks r))"
proof -
  show sr: "seq_range (ring_next r') (ring_chunks r @ added)" using assms(1,2) by (simp add: seq_range_def algebra_simps)
  have k: "k < length (ring_chunks r @ added)" using assms(3,4) by (simp only: drop_eq_Nil not_le)
  show "chunk_Sequence (hd (ring_chunks r')) = ring_next r + 1 + int k - int (length (ring_chunks r))"
    using seq_range_drop [OF sr, of k] k assms(2,4) seq_range_Cons [of "ring_next r'" "hd (ring_chunks r')" "tl (ring_chunks r')"]
    by (simp add: assms(3) of_nat_diff)
qed

lemma caught_up_fits:
  assumes "map chunk_Sequence (ring_chunks r @ added) = [ring_next r - int (length (ring_chunks r)) + 1 .. ring_next r']"
    and "ring_next r' = ring_next r + int (length added)"
    and "ring_chunks r' = drop k (ring_chunks r @ added)" "ring_chunks r' \<noteq> []"
    and "\<forall>j < k. ring_capacity r < int (length (chunk_bytes (drop j (ring_chunks r @ added))))"
    and "int (length (chunk_bytes (ring_chunks r'))) \<le> ring_capacity r"
  shows "ring_next r + 1 < chunk_Sequence (hd (ring_chunks r')) \<longleftrightarrow> ring_capacity r < int (length (chunk_bytes added))"
proof -
  have "k \<le> length (ring_chunks r) \<longleftrightarrow> int (length (chunk_bytes added)) \<le> ring_capacity r"
  proof
    assume "k \<le> length (ring_chunks r)"
    then have "ring_chunks r' = drop k (ring_chunks r) @ added" by (simp add: assms(3))
    then show "int (length (chunk_bytes added)) \<le> ring_capacity r" using assms(6) by simp
  next
    assume "int (length (chunk_bytes added)) \<le> ring_capacity r"
    then show "k \<le> length (ring_chunks r)"
      using assms(5) [rule_format, of "length (ring_chunks r)"] by (cases "length (ring_chunks r) < k") simp_all
  qed
  then show ?thesis using evicted_sequences(2) [OF assms(1-4)] by auto
qed

text \<open>A reader that holds everything so far gets all of the append, unless it alone exceeds the capacity.\<close>

lemma Append_caught_up:
  assumes "ring_wf r" "ring_next r + int (length data) < 2 ^ 63 - 1" "data \<noteq> []"
  shows "\<exists>r' added. Append r data = Some (r', added) \<and> chunk_bytes added = data \<and>
     map chunk_Sequence added = [ring_next r + 1 .. ring_next r'] \<and> ring_next r' = ring_next r + int (length added) \<and>
     (if int (length data) \<le> ring_capacity r
      then ReplayFrom (Some r') (ring_next r + 1) =
        (None, \<lparr>rep_Chunks = added, rep_Truncated = False, rep_NextSequence = ring_next r' + 1\<rparr>)
      else \<exists>k > 0. ReplayFrom (Some r') (ring_next r + 1) =
        (Some (NewError CodeReplayUnavailable ''requested replay is no longer retained''),
         \<lparr>rep_Chunks = drop k added, rep_Truncated = True, rep_NextSequence = ring_next r' + 1\<rparr>))"
proof -
  have nonneg: "0 \<le> ring_next r + 1" using assms(1) by (simp add: ring_wf_def)
  from Append_then_replay [OF assms nonneg] obtain r' added k where
    a: "Append r data = Some (r', added)" "chunk_bytes added = data"
      "map chunk_Sequence (ring_chunks r @ added) = [ring_next r - int (length (ring_chunks r)) + 1 .. ring_next r']"
      "ring_next r' = ring_next r + int (length added)"
      "ring_chunks r' = drop k (ring_chunks r @ added)" "ring_chunks r' \<noteq> []"
      "\<forall>j < k. ring_capacity r < int (length (chunk_bytes (drop j (ring_chunks r @ added))))"
      "int (length (chunk_bytes (ring_chunks r'))) \<le> ring_capacity r"
      "ReplayFrom (Some r') (ring_next r + 1) =
       (if 0 < ring_next r + 1 \<and> ring_next r + 1 < chunk_Sequence (hd (ring_chunks r'))
        then (Some (NewError CodeReplayUnavailable ''requested replay is no longer retained''),
              \<lparr>rep_Chunks = ring_chunks r', rep_Truncated = True, rep_NextSequence = ring_next r' + 1\<rparr>)
        else (None, \<lparr>rep_Chunks = (if ring_next r + 1 = 0 then ring_chunks r'
                                   else filter (\<lambda>c. ring_next r + 1 \<le> chunk_Sequence c) (ring_chunks r @ added)),
                     rep_Truncated = False, rep_NextSequence = ring_next r' + 1\<rparr>))"
    by blast
  let ?n = "length (ring_chunks r)"
  note sr = evicted_sequences(1) [OF a(3-6)] and hd = evicted_sequences(2) [OF a(3-6)]
  have fits: "ring_next r + 1 < chunk_Sequence (hd (ring_chunks r')) \<longleftrightarrow> ring_capacity r < int (length data)"
    using caught_up_fits [OF a(3-8)] a(2) by simp
  have "seq_range (ring_next r') added" using seq_range_drop [OF sr, of ?n] by simp
  then have seqs: "map chunk_Sequence added = [ring_next r + 1 .. ring_next r']"
    using a(4) by (simp add: seq_range_def algebra_simps)
  have "filter (\<lambda>c. ring_next r + 1 \<le> chunk_Sequence c) (ring_chunks r @ added) = added"
    using filter_seq_range [OF sr, of "ring_next r + 1"] a(4) by simp
  then have "if int (length data) \<le> ring_capacity r
      then ReplayFrom (Some r') (ring_next r + 1) =
        (None, \<lparr>rep_Chunks = added, rep_Truncated = False, rep_NextSequence = ring_next r' + 1\<rparr>)
      else \<exists>k > 0. ReplayFrom (Some r') (ring_next r + 1) =
        (Some (NewError CodeReplayUnavailable ''requested replay is no longer retained''),
         \<lparr>rep_Chunks = drop k added, rep_Truncated = True, rep_NextSequence = ring_next r' + 1\<rparr>)"
    using a(9) nonneg hd fits assms(1) by (auto simp: a(5) ring_wf_def intro!: exI [of _ "k - ?n"])
  with a(1,2,4) seqs show ?thesis by blast
qed

end
