(* ===== verification/DomainProperties.thy ===== *)
theory DomainProperties
  imports Validation LeaseDomain RingBuffer
begin

text \<open>
  What the domain package and the replay buffer promise: identifiers and capability lists, the
  Session state machine, the controller lease, profile selectors and the ring buffer. Each
  property with hypotheses is followed by its witness.
\<close>

section \<open>Identifiers, capabilities and selectors\<close>

text \<open>\<open>NewID\<close> with a valid prefix and 16 random bytes yields an identifier that \<open>ValidateID\<close>
  accepts and from which the random bytes can be read back, so two draws never collide unless their
  bytes do.\<close>

theorem NewID_roundtrip:
  assumes "validIDPrefix p" "length b = 16" "\<forall>x \<in> set b. x < 256"
  shows "\<exists>i. NewID p (Some b) = Inr i \<and> ValidateID i = Inr () \<and>
             hex_decode (drop (nat (last_index_byte i CHR ''_'' + 1)) i) = Some b"
proof -
  let ?i = "p @ CHR ''_'' # hex_encode b"
  have dec: "hex_decode (hex_encode b) = Some b" using assms(3) by (rule hex_decode_encode)
  have new: "NewID p (Some b) = Inr ?i" using assms(1) by (simp add: NewID_def)
  moreover have "last_index_byte ?i CHR ''_'' = int (length p)"
    by (rule last_index_byte_append) (rule hex_text_no_underscore [OF dec])
  ultimately show ?thesis using NewID_valid [OF new assms(2,3)] dec by (simp add: nat_add_distrib)
qed

theorem NewID_roundtrip_witness:
  "\<exists>i. NewID ''client'' (Some (replicate 16 7)) = Inr i \<and> ValidateID i = Inr () \<and>
       hex_decode (drop (nat (last_index_byte i CHR ''_'' + 1)) i) = Some (replicate 16 7)"
  by (rule NewID_roundtrip) (simp_all add: validIDPrefix_def id_rune_def)

text \<open>\<open>ValidateID\<close> decides exactly the grammar of identifiers: a prefix of 1 to 24 characters of
  \<open>[a-z0-9_]\<close>, an underscore, and 32 hexadecimal digits; every other text is an invalid argument.\<close>

theorem ValidateID_grammar:
  "ValidateID i =
     (if \<exists>p r. i = p @ CHR ''_'' # r \<and> p \<noteq> '''' \<and> length p \<le> 24 \<and> (\<forall>c \<in> set p. id_rune c) \<and>
               length r = 32 \<and> (\<forall>c \<in> set r. hex_val c \<noteq> None)
      then Inr () else fail CodeInvalidArgument ''invalid identifier'')"
proof -
  have "validIDPrefix p \<longleftrightarrow> p \<noteq> '''' \<and> length p \<le> 24 \<and> (\<forall>c \<in> set p. id_rune c)" for p
    by (auto simp: validIDPrefix_def list_all_iff)
  then have "(\<exists>p r. i = p @ CHR ''_'' # r \<and> p \<noteq> '''' \<and> length p \<le> 24 \<and> (\<forall>c \<in> set p. id_rune c) \<and>
      length r = 32 \<and> (\<forall>c \<in> set r. hex_val c \<noteq> None)) \<longleftrightarrow> ValidateID i = Inr ()"
    unfolding ValidateID_iff by (simp add: hex_decode_iff cong: conj_cong)
  then show ?thesis using ValidateID_neg [of i] by auto
qed

theorem ValidateID_grammar_witness:
  "ValidateID (''client_'' @ replicate 32 CHR ''a'') = Inr ()"
proof -
  have "\<exists>p r. ''client_'' @ replicate 32 CHR ''a'' = p @ CHR ''_'' # r \<and> p \<noteq> '''' \<and> length p \<le> 24 \<and>
      (\<forall>c \<in> set p. id_rune c) \<and> length r = 32 \<and> (\<forall>c \<in> set r. hex_val c \<noteq> None)"
    by (rule exI [of _ "''client''"], rule exI [of _ "replicate 32 CHR ''a''"])
       (simp add: id_rune_def hex_val_def)
  then show ?thesis unfolding ValidateID_grammar by (rule if_P)
qed

text \<open>\<open>CanonicalCapabilities\<close> is a normal form: it accepts a list exactly when all its entries are
  known, and its result is the sorted list of the set of the entries, so neither the order nor
  repetitions in the input matter.\<close>

theorem CanonicalCapabilities_normal_form:
  "CanonicalCapabilities cs =
     (if set cs \<subseteq> set validCapabilities then Inr (sorted_list_of_set (set cs))
      else fail CodeInvalidArgument ''unknown capability'')"
proof (cases "CanonicalCapabilities cs")
  case (Inr ys)
  note ok = CanonicalCapabilities_ok [OF Inr]
  have "ys = sorted_list_of_set (set cs)"
    using ok sorted_list_of_set.idem_if_sorted_distinct by metis
  then show ?thesis using Inr ok(4) by simp
next
  case (Inl e)
  have err: "collect_capabilities seen cs = Inl e \<Longrightarrow> e = NewError CodeInvalidArgument ''unknown capability''" for seen
    by (induction seen cs rule: collect_capabilities.induct) (auto split: if_splits)
  have "\<not> set cs \<subseteq> set validCapabilities"
    using Inl CanonicalCapabilities_defined [of cs] by auto
  then show ?thesis using Inl err by (auto simp: CanonicalCapabilities_def bindE_Inl)
qed

text \<open>A profile selector names the same profile with or without its leading \<open>@\<close> and in any letter
  case, and the canonical key selects itself: parsing is idempotent on what it returns.\<close>

theorem ParseProfileSelector_canonical:
  assumes "CanonicalSelectorAlias a = Inr k"
  shows "ParseProfileSelector a = Inr k \<and> ParseProfileSelector (CHR ''@'' # a) = Inr k \<and>
         ParseProfileSelector k = Inr k \<and>
         (\<forall>b. map lower_char b = map lower_char a \<longrightarrow> ParseProfileSelector b = Inr k) \<and>
         (\<exists>e. ParseProfileSelector (CHR ''@'' # CHR ''@'' # a) = Inl e)"
proof -
  have a: "selectorAliasPattern a" "k = map lower_char a" using assms by (auto simp: CanonicalSelectorAlias_ok)
  have k: "selectorAliasPattern k" "map lower_char k = k"
    using a by (simp_all add: selectorAliasPattern_lower)
  have "ParseProfileSelector b = Inr k" if "map lower_char b = map lower_char a" for b
    using that a selectorAliasPattern_lower [of b] selectorAliasPattern_lower [of a]
    by (auto simp: ParseProfileSelector_ok)
  moreover have "ParseProfileSelector (CHR ''@'' # a) = Inr k" "ParseProfileSelector k = Inr k"
    using a k by (auto simp: ParseProfileSelector_ok)
  ultimately show ?thesis by (simp add: ParseProfileSelector_def has_prefix_def)
qed

theorem ParseProfileSelector_canonical_witness:
  "ParseProfileSelector ''@Work-1'' = Inr ''work-1'' \<and> ParseProfileSelector ''WORK-1'' = Inr ''work-1''"
proof -
  have "CanonicalSelectorAlias ''Work-1'' = Inr ''work-1''"
    by code_simp
  note c = ParseProfileSelector_canonical [OF this]
  have "map lower_char ''WORK-1'' = map lower_char ''Work-1''" by code_simp
  then show ?thesis using c by blast
qed

section \<open>Sessions\<close>

text \<open>\<open>Resume\<close> makes a new starting Session only from a terminal one that holds the resume
  capability, never before the source ended, and copies every frozen field of its source; the
  result is itself a well-formed Session that names its source.\<close>

theorem Resume_copies:
  assumes "session_wf s" "Resume s i now = Inr r"
  shows "Terminal (ses_Status s) \<and> HasCapability (ses_CapabilitySnapshot s) CapabilitySessionResume \<and>
         (\<exists>e. ses_EndedAt s = Some e \<and> e \<le> now) \<and>
         i \<noteq> ses_ID s \<and> session_wf r \<and>
         r = s\<lparr>ses_ID := i, ses_ResumedFromSessionID := ses_ID s, ses_Status := SessionStarting,
               ses_StartedAt := now, ses_EndedAt := None, ses_ExitCode := None, ses_FailureCode := ''''\<rparr>"
proof -
  note ok = Resume_ok [OF assms(2)]
  from assms(2) [unfolded Resume_iff NewSession_iff] obtain caps where
    caps: "CanonicalCapabilities (ses_CapabilitySnapshot s) = Inr caps" and
    r: "r = s\<lparr>ses_ID := i, ses_ResumedFromSessionID := ses_ID s, ses_Status := SessionStarting,
               ses_StartedAt := now, ses_EndedAt := None, ses_ExitCode := None, ses_FailureCode := '''',
               ses_CapabilitySnapshot := caps\<rparr>" by auto
  have "caps = ses_CapabilitySnapshot s" using caps assms(1) by (simp add: session_wf_def)
  then show ?thesis using ok(1,3,7,8,17) r by simp
qed

text \<open>C2. The Session state machine ends: from a well-formed Session at most three transitions follow one
  another, none from a terminal Session, every Session on the way is well-formed (its end time and
  failure code fit its status), and the fields that identify it never change. A resume is no
  transition of it: wherever the history stands, a resume succeeds only when the Session is terminal
  and holds the resume capability, and then makes a new well-formed starting Session of another
  identifier, started no earlier than the source ended, that copies its source in every other field
  and names it.\<close>

theorem session_run:
  assumes "session_wf s" "(session_step ^^ n) s s'"
  shows "n \<le> 3 \<and> (Terminal (ses_Status s) \<longrightarrow> n = 0) \<and> session_wf s' \<and>
         ses_ID s' = ses_ID s \<and> ses_DeviceID s' = ses_DeviceID s \<and> ses_AccountID s' = ses_AccountID s \<and>
         ses_Provider s' = ses_Provider s \<and> ses_CredentialInstanceID s' = ses_CredentialInstanceID s \<and>
         ses_RuntimeProfileID s' = ses_RuntimeProfileID s \<and> ses_WorkspaceID s' = ses_WorkspaceID s \<and>
         ses_StartedAt s' = ses_StartedAt s \<and> ses_CapabilitySnapshot s' = ses_CapabilitySnapshot s \<and>
         (\<forall>i now r. Resume s' i now = Inr r \<longrightarrow>
            Terminal (ses_Status s') \<and> HasCapability (ses_CapabilitySnapshot s) CapabilitySessionResume \<and>
            (\<exists>e. ses_EndedAt s' = Some e \<and> e \<le> now) \<and> i \<noteq> ses_ID s \<and> session_wf r \<and>
            r = s'\<lparr>ses_ID := i, ses_ResumedFromSessionID := ses_ID s, ses_Status := SessionStarting,
                   ses_StartedAt := now, ses_EndedAt := None, ses_ExitCode := None, ses_FailureCode := ''''\<rparr>)"
proof -
  have "n \<le> 3" using session_steps_bound [OF assms(2)] session_rank_le [of "ses_Status s"] by simp
  moreover have "Terminal (ses_Status s) \<longrightarrow> n = 0"
    using assms(2) session_step_terminal by (cases n) (auto dest!: relpowp_Suc_D2 simp del: relpowp.simps)
  moreover from assms have kept: "session_wf s' \<and>
         ses_ID s' = ses_ID s \<and> ses_DeviceID s' = ses_DeviceID s \<and> ses_AccountID s' = ses_AccountID s \<and>
         ses_Provider s' = ses_Provider s \<and> ses_CredentialInstanceID s' = ses_CredentialInstanceID s \<and>
         ses_RuntimeProfileID s' = ses_RuntimeProfileID s \<and> ses_WorkspaceID s' = ses_WorkspaceID s \<and>
         ses_StartedAt s' = ses_StartedAt s \<and> ses_CapabilitySnapshot s' = ses_CapabilitySnapshot s"
  proof (induction n arbitrary: s')
    case (Suc n)
    then obtain t where "(session_step ^^ n) s t" "session_step t s'" by auto
    moreover from this(2) obtain next_s now ec fc where "Transition t next_s now ec fc = Inr s'"
      by (auto simp: session_step_iff)
    ultimately show ?case using Suc Transition_wf [of t next_s now ec fc s'] Transition_frozen [of t next_s now ec fc s']
      by simp
  qed simp
  moreover have "Terminal (ses_Status s') \<and> HasCapability (ses_CapabilitySnapshot s) CapabilitySessionResume \<and>
            (\<exists>e. ses_EndedAt s' = Some e \<and> e \<le> now) \<and> i \<noteq> ses_ID s \<and> session_wf r \<and>
            r = s'\<lparr>ses_ID := i, ses_ResumedFromSessionID := ses_ID s, ses_Status := SessionStarting,
                   ses_StartedAt := now, ses_EndedAt := None, ses_ExitCode := None, ses_FailureCode := ''''\<rparr>"
    if "Resume s' i now = Inr r" for i now r
  proof -
    have e: "ses_ID s' = ses_ID s" "ses_CapabilitySnapshot s' = ses_CapabilitySnapshot s" using kept by simp_all
    show ?thesis using Resume_copies [OF conjunct1 [OF kept] that] unfolding e .
  qed
  ultimately show ?thesis by blast
qed

definition demo_session :: Session where
  "demo_session = \<lparr>ses_ID = ''session_00000000000000000000000000000001'',
     ses_DeviceID = ''device_00000000000000000000000000000001'', ses_AccountID = '''', ses_Provider = ProviderFake,
     ses_CredentialInstanceID = ''credential_00000000000000000000000000000001'',
     ses_RuntimeProfileID = ''profile_00000000000000000000000000000001'',
     ses_WorkspaceID = ''workspace_00000000000000000000000000000001'', ses_ProviderSessionID = '''',
     ses_ResumedFromSessionID = '''', ses_Status = SessionStarting, ses_StartedAt = 10, ses_EndedAt = None,
     ses_ExitCode = None, ses_CapabilitySnapshot = [CapabilitySessionResume], ses_FailureCode = ''''\<rparr>"

lemma demo_ids:
  "valid_id ''session_00000000000000000000000000000001''" "valid_id ''session_00000000000000000000000000000002''"
  "valid_id ''device_00000000000000000000000000000001''" "valid_id ''credential_00000000000000000000000000000001''"
  "valid_id ''profile_00000000000000000000000000000001''" "valid_id ''workspace_00000000000000000000000000000001''"
  "valid_id ''client_00000000000000000000000000000001''" "valid_id ''client_00000000000000000000000000000002''"
  by code_simp+

lemma demo_caps: "CanonicalCapabilities [CapabilitySessionResume] = Inr [CapabilitySessionResume]"
  by (simp add: CanonicalCapabilities_def validCapabilities_def List.insert_def)

lemma demo_session_wf: "session_wf demo_session"
  by (simp add: session_wf_def demo_session_def demo_ids ProviderKnown_def demo_caps)

theorem session_run_witness:
  "\<exists>r. Resume (demo_session\<lparr>ses_Status := SessionKilled, ses_EndedAt := Some 12\<rparr>)
            ''session_00000000000000000000000000000002'' 13 = Inr r \<and>
       r = demo_session\<lparr>ses_ID := ''session_00000000000000000000000000000002'',
             ses_ResumedFromSessionID := ses_ID demo_session, ses_StartedAt := 13\<rparr>"
proof -
  let ?k = "demo_session\<lparr>ses_Status := SessionKilled, ses_EndedAt := Some 12\<rparr>"
  have "Transition demo_session SessionKilled 12 None '''' = Inr ?k"
    by (simp add: Transition_def demo_session_def)
  then have "(session_step ^^ 1) demo_session ?k"
    by (auto simp: session_step_iff simp del: relpowp.simps)
  note run = session_run [OF demo_session_wf this]
  have "\<exists>r. Resume ?k ''session_00000000000000000000000000000002'' 13 = Inr r"
    by (simp add: Resume_def HasCapability_def NewSession_def demo_session_def demo_ids ProviderKnown_def demo_caps)
  then obtain r where "Resume ?k ''session_00000000000000000000000000000002'' 13 = Inr r" ..
  moreover from this run have "r = demo_session\<lparr>ses_ID := ''session_00000000000000000000000000000002'',
             ses_ResumedFromSessionID := ses_ID demo_session, ses_StartedAt := 13\<rparr>"
    by (simp add: demo_session_def)
  ultimately show ?thesis by blast
qed

text \<open>The nine documented edges.\<close>

definition session_edges :: "(SessionStatus \<times> SessionStatus) set" where
  "session_edges =
     {(SessionStarting, SessionRunning), (SessionStarting, SessionFailed), (SessionStarting, SessionKilled),
      (SessionRunning, SessionStopping), (SessionRunning, SessionFailed), (SessionRunning, SessionKilled),
      (SessionStopping, SessionExited), (SessionStopping, SessionFailed), (SessionStopping, SessionKilled)}"

text \<open>\<open>Transition\<close> succeeds on exactly the nine documented edges with a time not before the start,
  a failure code when the target is \<open>failed\<close>, and exit metadata only for a terminal target; a wrong
  edge is an invalid transition whatever the other arguments are.\<close>

theorem Transition_edges:
  "((\<exists>s'. Transition s next_s now ec fc = Inr s') \<longleftrightarrow>
      now \<noteq> 0 \<and> (ses_Status s, next_s) \<in> session_edges \<and> ses_StartedAt s \<le> now \<and>
      (next_s = SessionFailed \<longrightarrow> fc \<noteq> '''') \<and> (Terminal next_s \<or> (ec = None \<and> fc = ''''))) \<and>
   (result_code (Transition s next_s now ec fc) = Some CodeInvalidTransition \<longleftrightarrow>
      now \<noteq> 0 \<and> (ses_Status s, next_s) \<notin> session_edges)"
proof -
  have edge: "(ses_Status s, next_s) \<in> session_edges \<longleftrightarrow>
      (\<exists>allowed. sessionTransitions (ses_Status s) = Some allowed \<and> next_s \<in> set allowed)"
    by (cases "ses_Status s") (auto simp: session_edges_def)
  have "(\<exists>s'. Transition s next_s now ec fc = Inr s') \<longleftrightarrow>
      now \<noteq> 0 \<and> (ses_Status s, next_s) \<in> session_edges \<and> ses_StartedAt s \<le> now \<and>
      (next_s = SessionFailed \<longrightarrow> fc \<noteq> '''') \<and> (Terminal next_s \<or> (ec = None \<and> fc = ''''))"
    unfolding edge by (auto simp: Transition_ok)
  moreover have "result_code (Transition s next_s now ec fc) = Some CodeInvalidTransition \<longleftrightarrow>
      now \<noteq> 0 \<and> (ses_Status s, next_s) \<notin> session_edges"
    unfolding edge by (auto simp: Transition_def split: option.splits)
  ultimately show ?thesis by blast
qed

theorem Transition_edges_witness:
  "\<exists>s'. Transition demo_session SessionFailed 12 None ''crash'' = Inr s'"
  using Transition_edges [of demo_session SessionFailed 12 None "''crash''"]
  by (simp add: demo_session_def session_edges_def)

theorem Resume_copies_witness:
  "\<exists>r. Resume (demo_session\<lparr>ses_Status := SessionExited, ses_EndedAt := Some 12\<rparr>)
            ''session_00000000000000000000000000000002'' 13 = Inr r \<and> session_wf r"
proof -
  let ?s = "demo_session\<lparr>ses_Status := SessionExited, ses_EndedAt := Some 12\<rparr>"
  have "session_wf ?s"
    by (simp add: session_wf_def demo_session_def demo_ids ProviderKnown_def demo_caps)
  moreover have "\<exists>r. Resume ?s ''session_00000000000000000000000000000002'' 13 = Inr r"
    by (simp add: Resume_def HasCapability_def NewSession_def demo_session_def demo_ids ProviderKnown_def demo_caps)
  ultimately show ?thesis using Resume_copies by blast
qed

section \<open>Controller leases\<close>

text \<open>C1. Fencing: along any history of acquisitions, heartbeats and releases of a lease, if one client
  controls the Session with a revision and later another client does, the later revision is greater
  and the first client's revision no longer passes \<open>RequireControl\<close> at any time.\<close>

theorem lease_fencing:
  assumes "lease_wf l" "(lease_step sid ^^ n) (Some l) (Some l')" "lease_Revision l + int n < 2 ^ 63"
    and "RequireControl l h r t = Inr ()" "RequireControl l' h' r' t' = Inr ()" "h' \<noteq> h"
  shows "r < r' \<and> (\<forall>t''. RequireControl l' h r t'' \<noteq> Inr ())"
proof -
  have steps: "lease_Revision l \<le> lease_Revision l'"
    "lease_Revision l' = lease_Revision l \<longrightarrow> lease_HolderDeviceID l' = lease_HolderDeviceID l"
    using lease_steps [OF assms(2)] assms(1,3) by (auto simp: lease_revision_def)
  have "r = lease_Revision l" "lease_HolderDeviceID l = h" "r' = lease_Revision l'" "lease_HolderDeviceID l' = h'"
    using assms(4,5) by (auto simp: RequireControl_def lease_require_ok)
  then show ?thesis using steps assms(6) by (auto simp: RequireControl_def lease_require_ok)
qed

definition demo_lease :: ControllerLease where
  "demo_lease = \<lparr>lease_SessionID = ''session_00000000000000000000000000000001'',
     lease_HolderDeviceID = ''client_00000000000000000000000000000001'', lease_Revision = 1,
     lease_ExpiresAt = 40, lease_LastHeartbeat = 10, lease_ReleasedAt = None\<rparr>"

lemma demo_lease_wf: "lease_wf demo_lease"
  by (simp add: lease_wf_def demo_lease_def)

definition demo_lease_2 :: ControllerLease where
  "demo_lease_2 = demo_lease\<lparr>lease_HolderDeviceID := ''client_00000000000000000000000000000002'',
     lease_Revision := 2, lease_ExpiresAt := 80, lease_LastHeartbeat := 50\<rparr>"

lemma demo_handover:
  "lease_step ''session_00000000000000000000000000000001'' (Some demo_lease) (Some demo_lease_2)"
proof (rule lease_step.acquire)
  show "AcquireControllerLease (Some demo_lease) ''session_00000000000000000000000000000001''
      ''client_00000000000000000000000000000002'' 50 30 = Inr demo_lease_2"
    by (simp add: AcquireControllerLease_ok demo_ids demo_lease_def demo_lease_2_def Active_def i64_def)
qed

theorem lease_fencing_witness:
  "RequireControl demo_lease_2 ''client_00000000000000000000000000000001'' 1 60 \<noteq> Inr ()"
proof -
  have step: "(lease_step ''session_00000000000000000000000000000001'' ^^ 1) (Some demo_lease) (Some demo_lease_2)"
    using demo_handover by (simp only: relpowp_1)
  have ctrl: "RequireControl demo_lease ''client_00000000000000000000000000000001'' 1 20 = Inr ()"
    "RequireControl demo_lease_2 ''client_00000000000000000000000000000002'' 2 60 = Inr ()"
    by (simp_all add: RequireControl_def lease_require_ok demo_lease_def demo_lease_2_def Active_def)
  have bound: "lease_Revision demo_lease + int 1 < 2 ^ 63" by (simp add: demo_lease_def)
  have "''client_00000000000000000000000000000002'' \<noteq> ''client_00000000000000000000000000000001''"
    by simp
  from lease_fencing [OF demo_lease_wf step bound ctrl this] show ?thesis by simp
qed

text \<open>An active lease is never taken: while it is active no acquisition for its Session succeeds, by
  its holder or by anyone else, and one that is otherwise well-formed is told the lease is held.\<close>

theorem active_lease_held:
  assumes "Active l now"
  shows "(\<forall>sid h d l'. AcquireControllerLease (Some l) sid h now d \<noteq> Inr l') \<and>
         (\<forall>h d. valid_id (lease_SessionID l) \<and> valid_id h \<and> now \<noteq> 0 \<and> 0 < d \<and> lease_LastHeartbeat l \<le> now \<longrightarrow>
            AcquireControllerLease (Some l) (lease_SessionID l) h now d =
              fail CodeLeaseHeld ''controller lease is already held'')"
proof
  show "\<forall>sid h d l'. AcquireControllerLease (Some l) sid h now d \<noteq> Inr l'"
    using assms by (simp add: AcquireControllerLease_ok)
  show "\<forall>h d. valid_id (lease_SessionID l) \<and> valid_id h \<and> now \<noteq> 0 \<and> 0 < d \<and> lease_LastHeartbeat l \<le> now \<longrightarrow>
      AcquireControllerLease (Some l) (lease_SessionID l) h now d =
        fail CodeLeaseHeld ''controller lease is already held''"
    using assms by (simp add: AcquireControllerLease_def Active_def not_less)
qed

theorem active_lease_held_witness:
  "AcquireControllerLease (Some demo_lease) ''session_00000000000000000000000000000001''
     ''client_00000000000000000000000000000002'' 20 30 = fail CodeLeaseHeld ''controller lease is already held''"
proof -
  have "Active demo_lease 20" by (simp add: Active_def demo_lease_def)
  from active_lease_held [OF this] show ?thesis
    using demo_ids(1,8) by (auto simp: demo_lease_def)
qed

text \<open>Handover: after the holder releases its lease, another client acquires it at once, with a
  revision two above the released one, and every operation the old holder still sends with its own
  revision is refused as stale.\<close>

theorem lease_handover:
  assumes "lease_wf l" "lease_Revision l < 2 ^ 63 - 2" "Release l h r now = Inr l1"
    "valid_id (lease_SessionID l)" "valid_id h'" "0 < d"
  shows "\<exists>l2. AcquireControllerLease (Some l1) (lease_SessionID l) h' now d = Inr l2 \<and>
              lease_Revision l2 = r + 2 \<and> RequireControl l2 h' (r + 2) now = Inr () \<and>
              (\<forall>t. RequireControl l2 h r t = fail CodeStaleLease ''controller lease revision is stale'')"
proof -
  have r: "r = lease_Revision l" "now \<noteq> 0" "1 \<le> lease_Revision l"
    and l1: "l1 = l\<lparr>lease_Revision := lease_Revision l + 1, lease_ExpiresAt := now,
            lease_LastHeartbeat := now, lease_ReleasedAt := Some now\<rparr>"
    using assms(1-3) by (auto simp: Release_ok lease_require_ok lease_wf_def i64_succ)
  let ?l2 = "\<lparr>lease_SessionID = lease_SessionID l, lease_HolderDeviceID = h', lease_Revision = lease_Revision l + 2,
              lease_ExpiresAt = now + d, lease_LastHeartbeat = now, lease_ReleasedAt = None\<rparr>"
  have "AcquireControllerLease (Some l1) (lease_SessionID l) h' now d = Inr ?l2"
    using assms(2,4-6) r i64_succ [of "lease_Revision l + 1"] by (simp add: AcquireControllerLease_ok l1 Active_def)
  then show ?thesis
    using r assms(6) by (intro exI [of _ ?l2]) (simp add: RequireControl_def lease_require_def Active_def)
qed

theorem lease_handover_witness:
  "\<exists>l1 l2. Release demo_lease ''client_00000000000000000000000000000001'' 1 20 = Inr l1 \<and>
     AcquireControllerLease (Some l1) (lease_SessionID demo_lease) ''client_00000000000000000000000000000002'' 20 30 = Inr l2 \<and>
     lease_Revision l2 = 1 + 2"
proof -
  have rel: "\<exists>l1. Release demo_lease ''client_00000000000000000000000000000001'' 1 20 = Inr l1"
    by (simp add: Release_ok lease_require_ok demo_lease_def Active_def)
  then obtain l1 where l1: "Release demo_lease ''client_00000000000000000000000000000001'' 1 20 = Inr l1" ..
  have "lease_Revision demo_lease < 2 ^ 63 - 2" "valid_id (lease_SessionID demo_lease)"
    using demo_ids(1) by (simp_all add: demo_lease_def)
  from lease_handover [OF demo_lease_wf this(1) l1 this(2) demo_ids(8), of 30] l1 show ?thesis by auto
qed

section \<open>The replay buffer\<close>

text \<open>Any number of appends; \<^const>\<open>None\<close> when one of them does not return.\<close>

fun ring_run :: "RingBuffer \<Rightarrow> nat list list \<Rightarrow> RingBuffer option" where
  "ring_run r [] = Some r"
| "ring_run r (d # ds) = (case Append r d of None \<Rightarrow> None | Some (r', added) \<Rightarrow> ring_run r' ds)"

lemma ring_run_spec:
  assumes "ring_wf r" "ring_next r + int (length (concat ds)) < 2 ^ 63"
  shows "\<exists>r' lost. ring_run r ds = Some r' \<and> ring_wf r' \<and> ring_capacity r' = ring_capacity r \<and>
     chunk_bytes (ring_chunks r) @ concat ds = lost @ chunk_bytes (ring_chunks r')"
  using assms
proof (induction ds arbitrary: r)
  case (Cons d ds)
  then have "ring_next r + int (length d) < 2 ^ 63" by simp
  from Append_spec [OF Cons.prems(1) this] obtain r1 added k where
    r1: "Append r d = Some (r1, added)" "chunk_bytes added = d" "k \<le> length (ring_chunks r @ added)"
      "ring_chunks r1 = drop k (ring_chunks r @ added)" "ring_next r1 = ring_next r + int (length added)"
      "ring_capacity r1 = ring_capacity r" "ring_wf r1" "list_all (chunk_ok (ring_chunkSize r)) added" by blast
  have "length added \<le> length (chunk_bytes added)"
    using r1(8) by (induction added) (auto simp: chunk_ok_def Suc_le_eq simp flip: length_greater_0_conv)
  then have "ring_next r1 + int (length (concat ds)) < 2 ^ 63" using Cons.prems(2) r1(2,5) by simp
  from Cons.IH [OF r1(7) this] obtain r' lost where
    r': "ring_run r1 ds = Some r'" "ring_wf r'" "ring_capacity r' = ring_capacity r1"
      "chunk_bytes (ring_chunks r1) @ concat ds = lost @ chunk_bytes (ring_chunks r')" by blast
  have "chunk_bytes (ring_chunks r) @ d = chunk_bytes (take k (ring_chunks r @ added)) @ chunk_bytes (ring_chunks r1)"
    using r1(2,4) by (metis append_take_drop_id chunk_bytes_append)
  then have "(chunk_bytes (ring_chunks r) @ d) @ concat ds =
      chunk_bytes (take k (ring_chunks r @ added)) @ chunk_bytes (ring_chunks r1) @ concat ds" by (simp only: append_assoc)
  then have "chunk_bytes (ring_chunks r) @ concat (d # ds) =
      (chunk_bytes (take k (ring_chunks r @ added)) @ lost) @ chunk_bytes (ring_chunks r')"
    by (simp only: r'(4) concat.simps append_assoc)
  then show ?case using r1(1,6) r' by auto
qed auto

text \<open>C37. A buffer made by \<open>NewRingBuffer\<close> takes any sequence of writes: every \<open>Append\<close> returns, the
  bytes it retains never exceed its capacity whatever the size of a write, they are exactly the
  last bytes written, and the retained chunks are numbered consecutively up to the next sequence.\<close>

theorem ring_bounded:
  assumes "NewRingBuffer capacity chunkSize = Inr r0" "int (length (concat ds)) < 2 ^ 63"
  shows "\<exists>r. ring_run r0 ds = Some r \<and> int (length (chunk_bytes (ring_chunks r))) \<le> capacity \<and>
     (\<exists>lost. concat ds = lost @ chunk_bytes (ring_chunks r)) \<and>
     map chunk_Sequence (ring_chunks r) = [ring_next r - int (length (ring_chunks r)) + 1 .. ring_next r]"
proof -
  have r0: "ring_wf r0" "ring_capacity r0 = capacity" "ring_next r0 = 0" "ring_chunks r0 = []"
    using assms(1) NewRingBuffer_wf by (auto simp: NewRingBuffer_def split: if_splits)
  from ring_run_spec [OF r0(1), of ds] obtain r lost where
    r: "ring_run r0 ds = Some r" "ring_wf r" "ring_capacity r = capacity" "concat ds = lost @ chunk_bytes (ring_chunks r)"
    using assms(2) r0 by auto
  then show ?thesis by (auto simp: ring_wf_def seq_range_def)
qed

theorem ring_bounded_witness:
  "\<exists>r0 r. NewRingBuffer 4 2 = Inr r0 \<and> ring_run r0 [[1, 2, 3], [4, 5]] = Some r \<and>
     int (length (chunk_bytes (ring_chunks r))) \<le> 4"
proof -
  have "\<exists>r0. NewRingBuffer 4 2 = Inr r0" by (simp add: NewRingBuffer_def)
  then obtain r0 where "NewRingBuffer 4 2 = Inr r0" ..
  from ring_bounded [OF this, of "[[1, 2, 3], [4, 5]]"] this show ?thesis by auto
qed

text \<open>C3. Replay has no silent gap, whichever sequence number a reader asks for. After an \<open>Append\<close>,
  which always returns, the chunks written are numbered consecutively and the buffer retains those
  that are left when the oldest have made room, evicting no more of them than needed. A reader who
  asks for a number at or after the oldest retained one gets every chunk written from that number on;
  a reader who asks for an earlier one gets the error \<open>replay_unavailable\<close>, marked as truncated,
  with all retained chunks, so that the first of them tells the oldest retained number; zero asks for
  all that is retained. A reader who holds everything up to the append gets the error exactly when
  the append alone exceeds the capacity.\<close>

theorem replay_no_gap:
  assumes "ring_wf r" "ring_next r + int (length data) < 2 ^ 63 - 1" "data \<noteq> []" "0 \<le> from"
  shows "\<exists>r' added k. Append r data = Some (r', added) \<and> chunk_bytes added = data \<and>
     map chunk_Sequence (ring_chunks r @ added) =
       [ring_next r - int (length (ring_chunks r)) + 1 .. ring_next r'] \<and>
     ring_chunks r' = drop k (ring_chunks r @ added) \<and> ring_chunks r' \<noteq> [] \<and>
     (\<forall>j < k. ring_capacity r < int (length (chunk_bytes (drop j (ring_chunks r @ added))))) \<and>
     ReplayFrom (Some r') from =
       (if 0 < from \<and> from < chunk_Sequence (hd (ring_chunks r'))
        then (Some (NewError CodeReplayUnavailable ''requested replay is no longer retained''),
              \<lparr>rep_Chunks = ring_chunks r', rep_Truncated = True, rep_NextSequence = ring_next r' + 1\<rparr>)
        else (None, \<lparr>rep_Chunks = (if from = 0 then ring_chunks r'
                                   else filter (\<lambda>c. from \<le> chunk_Sequence c) (ring_chunks r @ added)),
                     rep_Truncated = False, rep_NextSequence = ring_next r' + 1\<rparr>)) \<and>
     (ring_next r + 1 < chunk_Sequence (hd (ring_chunks r')) \<longleftrightarrow> ring_capacity r < int (length data))"
proof -
  from Append_then_replay [OF assms] obtain r' added k where
    a: "Append r data = Some (r', added)" "chunk_bytes added = data"
      "map chunk_Sequence (ring_chunks r @ added) = [ring_next r - int (length (ring_chunks r)) + 1 .. ring_next r']"
      "ring_next r' = ring_next r + int (length added)"
      "ring_chunks r' = drop k (ring_chunks r @ added)" "ring_chunks r' \<noteq> []"
      "\<forall>j < k. ring_capacity r < int (length (chunk_bytes (drop j (ring_chunks r @ added))))"
      "int (length (chunk_bytes (ring_chunks r'))) \<le> ring_capacity r"
      "ReplayFrom (Some r') from =
       (if 0 < from \<and> from < chunk_Sequence (hd (ring_chunks r'))
        then (Some (NewError CodeReplayUnavailable ''requested replay is no longer retained''),
              \<lparr>rep_Chunks = ring_chunks r', rep_Truncated = True, rep_NextSequence = ring_next r' + 1\<rparr>)
        else (None, \<lparr>rep_Chunks = (if from = 0 then ring_chunks r'
                                   else filter (\<lambda>c. from \<le> chunk_Sequence c) (ring_chunks r @ added)),
                     rep_Truncated = False, rep_NextSequence = ring_next r' + 1\<rparr>))"
    by blast
  have "ring_next r + 1 < chunk_Sequence (hd (ring_chunks r')) \<longleftrightarrow> ring_capacity r < int (length data)"
    using caught_up_fits [OF a(3-8)] a(2) by simp
  with a show ?thesis by blast
qed

theorem replay_no_gap_witness:
  "\<exists>r0 r' added. NewRingBuffer 4 2 = Inr r0 \<and> Append r0 [1, 2, 3, 4, 5] = Some (r', added) \<and>
     fst (ReplayFrom (Some r') 1) = Some (NewError CodeReplayUnavailable ''requested replay is no longer retained'') \<and>
     rep_Chunks (snd (ReplayFrom (Some r') 1)) = ring_chunks r'"
proof -
  have "\<exists>r0. NewRingBuffer 4 2 = Inr r0 \<and> ring_next r0 = 0 \<and> ring_capacity r0 = 4 \<and> ring_chunks r0 = []"
    by (simp add: NewRingBuffer_def)
  then obtain r0 where r0: "NewRingBuffer 4 2 = Inr r0" "ring_next r0 = 0" "ring_capacity r0 = 4" "ring_chunks r0 = []"
    by blast
  from replay_no_gap [OF NewRingBuffer_wf [OF r0(1)], of "[1, 2, 3, 4, 5]" 1] r0 show ?thesis by auto
qed

end
