(* ===== verification/SqlTable.thy ===== *)
theory SqlTable
  imports Errors
begin

text \<open>
  What the statements of \<open>src/internal/storage\<close> need of SQL. A table is the list of its rows in
  insertion order; a SELECT by key is \<^const>\<open>List.find\<close>, by condition a \<^const>\<open>filter\<close>, with
  ORDER BY an \<open>order_by\<close>. INSERT, UPDATE and DELETE make the new list of rows and fail, leaving
  the table as it was, when that list violates the table's constraints: the constraints are an
  argument, a predicate on the new list. A statement that fails because of a constraint gives the
  driver's error, which \<open>writeError\<close> wraps; the driver's own failures (I/O, a full disk, a
  cancelled context) are not modelled.
\<close>

definition writeError :: "string \<Rightarrow> error" where
  "writeError message = WrapError CodeConflict message (OtherError ''constraint failed'')"

lemma writeError_code [simp]: "result_code (Inl (writeError m)) = Some CodeConflict"
  by (simp add: writeError_def)

definition update_rows :: "('r \<Rightarrow> bool) \<Rightarrow> ('r \<Rightarrow> 'r) \<Rightarrow> 'r list \<Rightarrow> 'r list" where
  "update_rows p f rows = map (\<lambda>r. if p r then f r else r) rows"

definition count_rows :: "('r \<Rightarrow> bool) \<Rightarrow> 'r list \<Rightarrow> nat" where
  "count_rows p rows = length (filter p rows)"

definition delete_rows :: "('r \<Rightarrow> bool) \<Rightarrow> 'r list \<Rightarrow> 'r list" where
  "delete_rows p rows = filter (\<lambda>r. \<not> p r) rows"

definition sql_insert :: "('r list \<Rightarrow> bool) \<Rightarrow> string \<Rightarrow> 'r \<Rightarrow> 'r list \<Rightarrow> error + 'r list" where
  "sql_insert constraints message row rows =
     (if constraints (rows @ [row]) then Inr (rows @ [row]) else Inl (writeError message))"

text \<open>An UPDATE returns the number of rows its WHERE clause matched beside the new rows.\<close>

definition sql_update ::
  "('r list \<Rightarrow> bool) \<Rightarrow> string \<Rightarrow> ('r \<Rightarrow> bool) \<Rightarrow> ('r \<Rightarrow> 'r) \<Rightarrow> 'r list \<Rightarrow> error + (nat \<times> 'r list)" where
  "sql_update constraints message p f rows =
     (if constraints (update_rows p f rows) then Inr (count_rows p rows, update_rows p f rows)
      else Inl (writeError message))"

text \<open>\<open>x IN (SELECT column FROM table)\<close>, and a nullable reference, whose NULL is the empty text.\<close>

definition references :: "('r \<Rightarrow> 'k) \<Rightarrow> 'r list \<Rightarrow> 'k \<Rightarrow> bool" where
  "references key rows k = list_ex (\<lambda>r. key r = k) rows"

definition references_or_null :: "('r \<Rightarrow> string) \<Rightarrow> 'r list \<Rightarrow> string \<Rightarrow> bool" where
  "references_or_null key rows k = (k = '''' \<or> references key rows k)"

definition between :: "nat \<Rightarrow> nat \<Rightarrow> string \<Rightarrow> bool" where
  "between lo hi s = (lo \<le> sql_length s \<and> sql_length s \<le> hi)"

fun insert_row :: "('r \<Rightarrow> 'r \<Rightarrow> bool) \<Rightarrow> 'r \<Rightarrow> 'r list \<Rightarrow> 'r list" where
  "insert_row before x [] = [x]"
| "insert_row before x (y # ys) = (if before y x then y # insert_row before x ys else x # y # ys)"

definition order_by :: "('r \<Rightarrow> 'r \<Rightarrow> bool) \<Rightarrow> 'r list \<Rightarrow> 'r list" where
  "order_by before rows = foldr (insert_row before) rows []"

lemma set_insert_row [simp]: "set (insert_row before x ys) = insert x (set ys)"
  by (induction ys) auto

lemma set_order_by [simp]: "set (order_by before rows) = set rows"
  by (induction rows) (simp_all add: order_by_def)

lemma length_order_by [simp]: "length (order_by before rows) = length rows"
proof -
  have "length (insert_row before x ys) = Suc (length ys)" for x ys
    by (induction ys) auto
  then show ?thesis by (induction rows) (simp_all add: order_by_def)
qed

lemma sql_insert_ok: "sql_insert ok m row rows = Inr rows' \<longleftrightarrow> ok rows' \<and> rows' = rows @ [row]"
  by (auto simp: sql_insert_def)

lemma sql_update_ok:
  "sql_update ok m p f rows = Inr (n, rows') \<longleftrightarrow>
     ok rows' \<and> rows' = update_rows p f rows \<and> n = count_rows p rows"
  by (auto simp: sql_update_def)

lemma references_iff: "references key rows k \<longleftrightarrow> k \<in> key ` set rows"
  by (auto simp: references_def list_ex_iff)

lemma references_append [simp]:
  "references key (xs @ ys) k \<longleftrightarrow> references key xs k \<or> references key ys k"
  by (auto simp: references_def)

section \<open>Rows found by their key\<close>

lemma find_key_Some:
  "List.find (\<lambda>r. key r = k) rows = Some r \<Longrightarrow> r \<in> set rows \<and> key r = k"
  by (auto simp: find_Some_iff)

lemma find_key_None: "List.find (\<lambda>r. key r = k) rows = None \<longleftrightarrow> k \<notin> key ` set rows"
  by (auto simp: find_None_iff)

lemma find_key_unique:
  assumes "distinct (map key rows)" "r \<in> set rows"
  shows "List.find (\<lambda>x. key x = key r) rows = Some r"
  using assms by (induction rows) (auto simp: rev_image_eqI)

lemma find_key_append:
  "List.find (\<lambda>r. key r = k) (rows @ [row]) =
     (case List.find (\<lambda>r. key r = k) rows of Some r \<Rightarrow> Some r
      | None \<Rightarrow> if key row = k then Some row else None)"
  by (induction rows) auto

text \<open>An UPDATE that keeps the key changes the row it finds and no other.\<close>

lemma find_update_rows:
  assumes "\<And>r. key (f r) = key r"
  shows "List.find (\<lambda>r. key r = k) (update_rows p f rows) =
         map_option (\<lambda>r. if p r then f r else r) (List.find (\<lambda>r. key r = k) rows)"
  using assms by (induction rows) (auto simp: update_rows_def)

lemma map_update_rows:
  assumes "\<And>r. key (f r) = key r"
  shows "map key (update_rows p f rows) = map key rows"
  using assms by (simp add: update_rows_def)

lemma references_update_rows:
  assumes "\<And>r. key (f r) = key r"
  shows "references key (update_rows p f rows) k = references key rows k"
  using assms by (auto simp: references_def update_rows_def list_ex_iff)

lemma find_delete_rows:
  "List.find (\<lambda>r. key r = k) (delete_rows (\<lambda>r. key r = k') rows) =
     (if k = k' then None else List.find (\<lambda>r. key r = k) rows)"
  by (induction rows) (auto simp: delete_rows_def)

text \<open>
  The number of rows a statement on a unique key matches is zero or one, and tells whether the
  row with this key meets the rest of the condition.
\<close>

lemma count_rows_key:
  assumes "distinct (map key rows)"
  shows "count_rows (\<lambda>r. key r = k \<and> q r) rows =
     (case List.find (\<lambda>r. key r = k) rows of Some r \<Rightarrow> if q r then 1 else 0 | None \<Rightarrow> 0)"
  using assms
proof (induction rows)
  case (Cons x rows)
  show ?case
  proof (cases "key x = k")
    case True
    then have "\<forall>r \<in> set rows. key r \<noteq> k" using Cons.prems by (auto simp: rev_image_eqI)
    then have "filter (\<lambda>r. key r = k \<and> q r) rows = []" by (auto simp: filter_empty_conv)
    then show ?thesis using True by (simp add: count_rows_def)
  next
    case False
    then show ?thesis using Cons by (simp add: count_rows_def)
  qed
qed (simp add: count_rows_def)

lemma count_rows_key_true:
  assumes "distinct (map key rows)"
  shows "count_rows (\<lambda>r. key r = k) rows =
     (case List.find (\<lambda>r. key r = k) rows of Some r \<Rightarrow> 1 | None \<Rightarrow> 0)"
  using count_rows_key [OF assms, where q = "\<lambda>_. True"] by simp

lemma list_all_update_rows:
  "list_all P (update_rows p f rows) \<longleftrightarrow> (\<forall>r \<in> set rows. P (if p r then f r else r))"
  by (auto simp: update_rows_def list_all_iff)

end
