(* ===== verification/StoreSchema.thy ===== *)
theory StoreSchema
  imports SqlTable Validation LeaseDomain
begin

text \<open>
  The device database after the last migration of \<open>src/migrations/device\<close>: one table per field of
  the record \<open>db\<close>, and for each table the predicate that collects its PRIMARY KEY, UNIQUE, CHECK
  and FOREIGN KEY constraints. A row is the domain record its columns spell; a NULL text column is
  the empty text the code reads it back as, other nullable columns are options. JSON columns hold
  the value they encode. The value of \<open>json_valid\<close> on a settings or metadata column is taken to
  be that of \<open>json.Valid\<close>, and is true on the columns the code fills with \<open>json.Marshal\<close>.
\<close>

record IdempotencyRecord =
  idem_ClientID :: ID
  idem_Method :: string
  idem_IdempotencyKey :: string
  idem_RequestDigest :: string
  idem_ResponseCode :: string
  idem_ResponseMetadata :: string
  idem_CreatedAt :: time

datatype EnrollmentState =
    EnrollmentBegun | EnrollmentValidating | EnrollmentAwaitingConfirmation | EnrollmentSucceeded
  | EnrollmentCancelled | EnrollmentExpired | EnrollmentFailed | OtherEnrollmentState string

record AuthEnrollment =
  enr_ID :: ID
  enr_ClientDeviceID :: ID
  enr_RuntimeProfileID :: ID
  enr_CredentialInstanceID :: ID
  enr_BinaryFingerprint :: string
  enr_StagingPath :: string
  enr_State :: EnrollmentState
  enr_IdempotencyDigest :: string
  enr_CompletionIdempotencyDigest :: string
  enr_ConfirmationAccountID :: ID
  enr_ConfirmationAccountRevision :: int
  enr_ConfirmationProfileID :: ID
  enr_ConfirmationProfileRevision :: int
  enr_ConfirmationCredentialID :: ID
  enr_ConfirmationCredentialRevision :: int
  enr_ConfirmationAliasDigest :: string
  enr_ConfirmedByClientID :: ID
  enr_ConfirmedAt :: "time option"
  enr_ExpiresAt :: time
  enr_CreatedAt :: time
  enr_UpdatedAt :: time

record SessionStartPreview =
  prev_ID :: ID
  prev_ClientID :: ID
  prev_Provider :: string
  prev_AccountID :: ID
  prev_AccountRevision :: int
  prev_RuntimeProfileID :: ID
  prev_ProfileRevision :: int
  prev_CredentialInstanceID :: ID
  prev_CredentialRevision :: int
  prev_DeviceID :: ID
  prev_WorkspaceID :: ID
  prev_WorkspaceUpdatedAt :: time
  prev_UsageSnapshotID :: ID
  prev_ProviderVersion :: string
  prev_BinaryFingerprint :: string
  prev_SchemaFingerprint :: string
  prev_CapabilityDigest :: string
  prev_CreatedAt :: time
  prev_ExpiresAt :: time
  prev_ConsumedAt :: "time option"
  prev_ConsumedRequestDigest :: string
  prev_SessionID :: ID

text \<open>The vault's rows: sealed bytes are opaque lists, as the store treats them.\<close>

record VaultConfig =
  vc_FormatVersion :: int
  vc_KDFName :: string
  vc_KDFSalt :: "nat list"
  vc_ArgonTime :: int
  vc_ArgonMemoryKiB :: int
  vc_ArgonParallelism :: int
  vc_KeyCheckNonce :: "nat list"
  vc_KeyCheckCiphertext :: "nat list"
  vc_InitializedAt :: time
  vc_InitializedByDevice :: ID
  vc_InitRequestDigest :: string

record VaultItem =
  vi_CredentialInstanceID :: ID
  vi_AccountID :: ID
  vi_DeviceID :: ID
  vi_Provider :: string
  vi_EnvelopeVersion :: int
  vi_CredentialRevision :: int
  vi_CipherName :: string
  vi_PayloadNonce :: "nat list"
  vi_PayloadCiphertext :: "nat list"
  vi_WrapName :: string
  vi_WrapNonce :: "nat list"
  vi_WrappedDEK :: "nat list"
  vi_AADDigest :: string
  vi_SecretDigest :: string
  vi_CreatedAt :: time
  vi_UpdatedAt :: time

text \<open>
  A row of \<open>usage_windows\<close> is its key, snapshot and position, with the window; a revocation is its
  two columns; a tombstone the columns of \<open>metadata_tombstones\<close>.
\<close>

record Tombstone =
  tomb_EntityType :: string
  tomb_EntityID :: ID
  tomb_Provider :: string
  tomb_FinalRevision :: int
  tomb_DeletedAt :: time

record db =
  db_devices :: "Device list"
  db_clients :: "ClientIdentity list"
  db_workspaces :: "Workspace list"
  db_accounts :: "Account list"
  db_profiles :: "RuntimeProfile list"
  db_credentials :: "CredentialInstance list"
  db_revocations :: "(ID \<times> time) list"
  db_vault_items :: "VaultItem list"
  db_sessions :: "Session list"
  db_attachments :: "SessionAttachment list"
  db_leases :: "ControllerLease list"
  db_events :: "RuntimeEvent list"
  db_audits :: "AuditEvent list"
  db_idempotency :: "IdempotencyRecord list"
  db_approvals :: "Approval list"
  db_usages :: "UsageSnapshot list"
  db_materializations :: "CredentialMaterialization list"
  db_enrollments :: "AuthEnrollment list"
  db_previews :: "SessionStartPreview list"
  db_vault_config :: "VaultConfig list"
  db_windows :: "((ID \<times> nat) \<times> UsageWindow) list"
  db_tombstones :: "Tombstone list"

definition empty_db :: db where
  "empty_db = \<lparr>db_devices = [], db_clients = [], db_workspaces = [], db_accounts = [], db_profiles = [],
     db_credentials = [], db_revocations = [], db_vault_items = [], db_sessions = [],
     db_attachments = [], db_leases = [], db_events = [], db_audits = [], db_idempotency = [],
     db_approvals = [], db_usages = [], db_materializations = [], db_enrollments = [],
     db_previews = [], db_vault_config = [], db_windows = [], db_tombstones = []\<rparr>"

section \<open>Identity tables\<close>

definition devices_ok :: "Device list \<Rightarrow> bool" where
  "devices_ok rows \<longleftrightarrow>
     distinct (map dev_ID rows) \<and>
     list_all (\<lambda>r. dev_Kind r = DeviceKindDaemon \<and> between 1 128 (dev_DisplayName r) \<and>
                   length (dev_SigningPublicKey r) = 32) rows"

definition clients_ok :: "ClientIdentity list \<Rightarrow> bool" where
  "clients_ok rows \<longleftrightarrow>
     distinct (map cli_ID rows) \<and> distinct (map cli_PublicKey rows) \<and>
     list_all (\<lambda>r. between 1 128 (cli_Name r) \<and> length (cli_PublicKey r) = 32 \<and> 1 \<le> cli_Revision r \<and>
                   cli_Status r \<in> {ClientIdentityActive, ClientIdentityRevoked}) rows"

definition workspaces_ok :: "db \<Rightarrow> Workspace list \<Rightarrow> bool" where
  "workspaces_ok d rows \<longleftrightarrow>
     distinct (map ws_ID rows) \<and> distinct (map (\<lambda>r. (ws_DeviceID r, ws_Path r)) rows) \<and>
     list_all (\<lambda>r. references dev_ID (db_devices d) (ws_DeviceID r) \<and> between 1 4096 (ws_Path r) \<and>
                   between 0 256 (ws_Label r)) rows"

section \<open>Accounts, profiles and credentials\<close>

definition accounts_ok :: "Account list \<Rightarrow> bool" where
  "accounts_ok rows \<longleftrightarrow>
     distinct (map acc_ID rows) \<and>
     list_all (\<lambda>r. between 1 128 (acc_DisplayName r) \<and> between 0 128 (acc_ProviderSubjectDigest r) \<and>
                   between 0 64 (acc_SubscriptionHint r) \<and> 1 \<le> acc_Revision r \<and>
                   (acc_Provider r = ProviderFake \<and> acc_Internal r \<or>
                    acc_Provider r \<in> {ProviderCodex, ProviderClaude} \<and> \<not> acc_Internal r)) rows"

definition profiles_ok :: "db \<Rightarrow> RuntimeProfile list \<Rightarrow> bool" where
  "profiles_ok d rows \<longleftrightarrow>
     distinct (map prof_ID rows) \<and> distinct (map (\<lambda>r. (prof_DeviceID r, prof_Name r)) rows) \<and>
     distinct (map prof_SelectorKey (filter (\<lambda>r. \<not> prof_Internal r \<and> prof_SelectorKey r \<noteq> '''') rows)) \<and>
     list_all (\<lambda>r. references dev_ID (db_devices d) (prof_DeviceID r) \<and>
                   prof_AccountID r \<noteq> '''' \<and> references acc_ID (db_accounts d) (prof_AccountID r) \<and>
                   references_or_null cred_ID (db_credentials d) (prof_CredentialInstanceID r) \<and>
                   between 1 128 (prof_Name r) \<and> json_valid (prof_Settings r) \<and> 1 \<le> prof_Revision r \<and>
                   (prof_SelectorAlias r = '''' \<and> prof_SelectorKey r = '''' \<or>
                    between 1 32 (prof_SelectorAlias r) \<and> between 1 32 (prof_SelectorKey r)) \<and>
                   (prof_Provider r = ProviderFake \<and> prof_Internal r \<or>
                    prof_Provider r \<in> {ProviderCodex, ProviderClaude} \<and> \<not> prof_Internal r)) rows"

text \<open>\<open>secret_ref LIKE 'fake:%'\<close>: LIKE ignores the case of ASCII letters.\<close>

definition like_prefix :: "string \<Rightarrow> string \<Rightarrow> bool" where
  "like_prefix s p = has_prefix (map lower_char s) p"

definition credentials_ok :: "db \<Rightarrow> CredentialInstance list \<Rightarrow> bool" where
  "credentials_ok d rows \<longleftrightarrow>
     distinct (map cred_ID rows) \<and>
     list_all (\<lambda>r. references dev_ID (db_devices d) (cred_DeviceID r) \<and>
                   references_or_null acc_ID (db_accounts d) (cred_AccountID r) \<and>
                   between 1 512 (cred_SecretRef r) \<and> between 64 64 (cred_SecretDigest r) \<and>
                   cred_Status r \<in> {CredentialHealthy, CredentialExpired, CredentialRevoked, CredentialUnknown} \<and>
                   0 \<le> cred_CredentialRevision r \<and>
                   (cred_Provider r = ProviderFake \<and> cred_AuthMethod r = AuthMethodFake \<and>
                      cred_AccountID r = '''' \<and> like_prefix (cred_SecretRef r) ''fake:'' \<or>
                    cred_Provider r = ProviderCodex \<and>
                      cred_AuthMethod r \<in> {AuthMethodInteractive, AuthMethodDeviceCode} \<and>
                      cred_AccountID r \<noteq> '''' \<and> like_prefix (cred_SecretRef r) ''vault:'' \<and>
                      1 \<le> cred_CredentialRevision r)) rows"

section \<open>Sessions and their children\<close>

definition session_status_ok :: "Session \<Rightarrow> bool" where
  "session_status_ok r \<longleftrightarrow>
     (ses_Status r \<in> {SessionExited, SessionFailed, SessionKilled} \<and> ses_EndedAt r \<noteq> None \<or>
      ses_Status r \<in> {SessionStarting, SessionRunning, SessionStopping} \<and> ses_EndedAt r = None) \<and>
     (ses_Status r = SessionFailed \<or> ses_FailureCode r = '''')"

definition session_row_ok :: "db \<Rightarrow> Session list \<Rightarrow> Session \<Rightarrow> bool" where
  "session_row_ok d rows r \<longleftrightarrow>
     references dev_ID (db_devices d) (ses_DeviceID r) \<and>
     references_or_null acc_ID (db_accounts d) (ses_AccountID r) \<and>
     ses_Provider r \<in> {ProviderFake, ProviderCodex} \<and>
     references cred_ID (db_credentials d) (ses_CredentialInstanceID r) \<and>
     references prof_ID (db_profiles d) (ses_RuntimeProfileID r) \<and>
     references ws_ID (db_workspaces d) (ses_WorkspaceID r) \<and>
     references_or_null ses_ID rows (ses_ResumedFromSessionID r) \<and>
     session_status_ok r \<and> (ses_Provider r \<noteq> ProviderCodex \<or> ses_AccountID r \<noteq> '''')"

definition sessions_ok :: "db \<Rightarrow> Session list \<Rightarrow> bool" where
  "sessions_ok d rows \<longleftrightarrow> distinct (map ses_ID rows) \<and> list_all (session_row_ok d rows) rows"

definition attachments_ok :: "db \<Rightarrow> SessionAttachment list \<Rightarrow> bool" where
  "attachments_ok d rows \<longleftrightarrow>
     distinct (map att_ID rows) \<and> distinct (map (\<lambda>r. (att_SessionID r, att_ClientDeviceID r)) rows) \<and>
     list_all (\<lambda>r. references ses_ID (db_sessions d) (att_SessionID r) \<and>
                   references cli_ID (db_clients d) (att_ClientDeviceID r) \<and>
                   att_Mode r \<in> {AttachmentObserver, AttachmentController}) rows"

definition leases_ok :: "db \<Rightarrow> ControllerLease list \<Rightarrow> bool" where
  "leases_ok d rows \<longleftrightarrow>
     distinct (map lease_SessionID rows) \<and>
     list_all (\<lambda>r. references ses_ID (db_sessions d) (lease_SessionID r) \<and>
                   references cli_ID (db_clients d) (lease_HolderDeviceID r) \<and> 1 \<le> lease_Revision r) rows"

definition events_ok :: "db \<Rightarrow> RuntimeEvent list \<Rightarrow> bool" where
  "events_ok d rows \<longleftrightarrow>
     distinct (map evt_ID rows) \<and> distinct (map (\<lambda>r. (evt_SessionID r, evt_Sequence r)) rows) \<and>
     list_all (\<lambda>r. references ses_ID (db_sessions d) (evt_SessionID r) \<and> 1 \<le> evt_Sequence r \<and>
                   between 1 64 (evt_Kind r) \<and> json_valid (evt_Metadata r)) rows"

section \<open>Audit, idempotency and approvals\<close>

definition audits_ok :: "AuditEvent list \<Rightarrow> bool" where
  "audits_ok rows \<longleftrightarrow>
     distinct (map aud_ID rows) \<and>
     list_all (\<lambda>r. between 1 128 (aud_Action r) \<and> between 1 64 (aud_TargetType r) \<and>
                   aud_Decision r \<in> {''allowed'', ''denied'', ''failed''} \<and>
                   json_valid (aud_Metadata r)) rows"

definition idempotency_ok :: "db \<Rightarrow> IdempotencyRecord list \<Rightarrow> bool" where
  "idempotency_ok d rows \<longleftrightarrow>
     distinct (map (\<lambda>r. (idem_ClientID r, idem_Method r, idem_IdempotencyKey r)) rows) \<and>
     list_all (\<lambda>r. references cli_ID (db_clients d) (idem_ClientID r) \<and> between 1 128 (idem_Method r) \<and>
                   between 1 128 (idem_IdempotencyKey r) \<and> between 64 64 (idem_RequestDigest r) \<and>
                   between 1 64 (idem_ResponseCode r) \<and> json_valid (idem_ResponseMetadata r)) rows"

text \<open>The CHECK of \<open>approvals\<close> that ties the response state to the other response columns.\<close>

definition approval_state_ok :: "Approval \<Rightarrow> bool" where
  "approval_state_ok r \<longleftrightarrow>
     app_ResponseState r = ApprovalResponseIdle \<and> app_Status r = ApprovalPending \<and>
       app_RequestedDecision r = NoDecision \<and> app_DispatchDigest r = '''' \<and>
       app_DispatchStartedAt r = None \<and> app_RespondedAt r = None \<and>
       app_RespondedByDeviceID r = '''' \<and> app_DispatchErrorCode r = '''' \<or>
     app_ResponseState r = ApprovalResponseDispatching \<and> app_Status r = ApprovalPending \<and>
       app_RequestedDecision r \<noteq> NoDecision \<and> app_DispatchDigest r \<noteq> '''' \<and>
       app_DispatchStartedAt r \<noteq> None \<and> app_RespondedAt r = None \<and>
       app_RespondedByDeviceID r \<noteq> '''' \<and> app_DispatchErrorCode r = '''' \<or>
     app_ResponseState r = ApprovalResponseWritten \<and> app_RespondedAt r \<noteq> None \<and>
       app_RespondedByDeviceID r \<noteq> '''' \<and> app_DispatchDigest r \<noteq> '''' \<and>
       app_DispatchStartedAt r \<noteq> None \<and> app_DispatchErrorCode r = '''' \<and>
       (app_RequestedDecision r = ApprovalDecisionApprove \<and> app_Status r = ApprovalApproved \<or>
        app_RequestedDecision r = ApprovalDecisionDeny \<and> app_Status r = ApprovalDenied \<or>
        app_RequestedDecision r = ApprovalDecisionCancel \<and> app_Status r = ApprovalCancelled) \<or>
     app_ResponseState r = ApprovalResponseAmbiguous \<and> app_Status r = ApprovalExpired \<and>
       app_RequestedDecision r \<noteq> NoDecision \<and> app_DispatchDigest r \<noteq> '''' \<and>
       app_DispatchStartedAt r \<noteq> None \<and> app_RespondedAt r \<noteq> None \<and>
       (app_RespondedByDeviceID r \<noteq> '''' \<or>
        app_DispatchErrorCode r \<in> {''legacy_dispatch_unknown'', ''daemon_restart_before_dispatch''}) \<and>
       app_DispatchErrorCode r \<noteq> ''''"

definition approval_row_ok :: "Approval \<Rightarrow> bool" where
  "approval_row_ok r \<longleftrightarrow>
     between 1 256 (app_ProviderApprovalID r) \<and> between 1 64 (app_Kind r) \<and>
     between 64 64 (app_PayloadDigest r) \<and> between 0 2048 (app_Summary r) \<and>
     ApprovalStatusKnown (app_Status r) \<and>
     app_ResponseState r \<in> {ApprovalResponseIdle, ApprovalResponseDispatching, ApprovalResponseWritten,
                            ApprovalResponseAmbiguous} \<and>
     app_RequestedDecision r \<in> {NoDecision, ApprovalDecisionApprove, ApprovalDecisionDeny,
                                ApprovalDecisionCancel} \<and>
     between 1 128 (app_IdempotencyKey r) \<and>
     (app_DispatchDigest r = '''' \<or> between 64 64 (app_DispatchDigest r)) \<and>
     between 0 64 (app_DispatchErrorCode r) \<and> approval_state_ok r"

definition approvals_ok :: "db \<Rightarrow> Approval list \<Rightarrow> bool" where
  "approvals_ok d rows \<longleftrightarrow>
     distinct (map app_ID rows) \<and> distinct (map (\<lambda>r. (app_SessionID r, app_ProviderApprovalID r)) rows) \<and>
     list_all (\<lambda>r. references ses_ID (db_sessions d) (app_SessionID r) \<and>
                   references_or_null cli_ID (db_clients d) (app_RespondedByDeviceID r) \<and>
                   approval_row_ok r) rows"

section \<open>Usage and materializations\<close>

text \<open>A NaN is stored as NULL; a CHECK on a NULL passes.\<close>

definition sql_real :: "gofloat option \<Rightarrow> gofloat option" where
  "sql_real v = (if v = Some NaN then None else v)"

definition usages_ok :: "db \<Rightarrow> UsageSnapshot list \<Rightarrow> bool" where
  "usages_ok d rows \<longleftrightarrow>
     distinct (map use_ID rows) \<and>
     distinct (map (\<lambda>r. (use_AccountID r, use_DeviceID r, use_ProviderVersion r, use_ObservedAt r,
                         use_RawReferenceHash r)) rows) \<and>
     list_all (\<lambda>r. use_Provider r \<in> {ProviderCodex, ProviderClaude} \<and>
                   references acc_ID (db_accounts d) (use_AccountID r) \<and>
                   references_or_null cred_ID (db_credentials d) (use_CredentialInstanceID r) \<and>
                   references dev_ID (db_devices d) (use_DeviceID r) \<and>
                   use_Source r \<in> {UsageSourceOfficial, UsageSourceCLIDerived, UsageSourceLocalEstimate,
                                  UsageSourceUnofficial, UsageSourceUnavailable} \<and>
                   use_Confidence r \<in> {UsageConfidenceHigh, UsageConfidenceMedium, UsageConfidenceLow,
                                      UsageConfidenceNone} \<and>
                   between 1 64 (use_WindowKind r) \<and> \<not> negative_value (use_UsedValue r) \<and>
                   \<not> negative_value (use_LimitValue r) \<and> \<not> bad_percent (use_UsedPercent r) \<and>
                   between 0 128 (use_RawReferenceHash r) \<and> between 0 128 (use_SourceVersion r) \<and>
                   use_CapabilityStatus r \<in> {UsageSupported, UsageUnavailable, UsageSchemaChanged, UsageError} \<and>
                   between 0 64 (use_ErrorCode r) \<and> between 1 128 (use_ProviderVersion r) \<and>
                   use_Availability r \<in> {AvailabilityAvailable, AvailabilityLimited,
                                        AvailabilityUnavailable, AvailabilityUnknown}) rows"

definition materializations_ok :: "db \<Rightarrow> CredentialMaterialization list \<Rightarrow> bool" where
  "materializations_ok d rows \<longleftrightarrow>
     distinct (map mat_LeaseID rows) \<and>
     distinct (map (\<lambda>r. (mat_CredentialInstanceID r, mat_CredentialRevision r)) rows) \<and>
     list_all (\<lambda>r. references cred_ID (db_credentials d) (mat_CredentialInstanceID r) \<and>
                   1 \<le> mat_CredentialRevision r \<and> mat_ManifestVersion r = 1 \<and>
                   between 64 64 (mat_ManifestDigest r) \<and>
                   mat_State r \<in> {MaterializationPending, MaterializationActive,
                                 MaterializationQuarantined, MaterializationReleased} \<and>
                   0 \<le> mat_RefCount r) rows"

section \<open>Enrollments and previews\<close>

definition active_enrollment_state :: "EnrollmentState \<Rightarrow> bool" where
  "active_enrollment_state s =
     (s \<in> {EnrollmentBegun, EnrollmentValidating, EnrollmentAwaitingConfirmation})"

definition confirmation_tuple_ok :: "AuthEnrollment \<Rightarrow> bool" where
  "confirmation_tuple_ok r \<longleftrightarrow>
     enr_ConfirmationAccountID r = '''' \<and> enr_ConfirmationAccountRevision r = 0 \<and>
       enr_ConfirmationProfileID r = '''' \<and> enr_ConfirmationProfileRevision r = 0 \<and>
       enr_ConfirmationCredentialID r = '''' \<and> enr_ConfirmationCredentialRevision r = 0 \<and>
       enr_ConfirmationAliasDigest r = '''' \<or>
     enr_ConfirmationAccountID r \<noteq> '''' \<and> 1 \<le> enr_ConfirmationAccountRevision r \<and>
       enr_ConfirmationProfileID r \<noteq> '''' \<and> 1 \<le> enr_ConfirmationProfileRevision r \<and>
       enr_ConfirmationCredentialID r \<noteq> '''' \<and> 1 \<le> enr_ConfirmationCredentialRevision r \<and>
       between 64 64 (enr_ConfirmationAliasDigest r)"

definition enrollment_row_ok :: "db \<Rightarrow> AuthEnrollment \<Rightarrow> bool" where
  "enrollment_row_ok d r \<longleftrightarrow>
     references cli_ID (db_clients d) (enr_ClientDeviceID r) \<and>
     references prof_ID (db_profiles d) (enr_RuntimeProfileID r) \<and>
     references_or_null cred_ID (db_credentials d) (enr_CredentialInstanceID r) \<and>
     between 64 64 (enr_BinaryFingerprint r) \<and> between 1 4096 (enr_StagingPath r) \<and>
     enr_State r \<in> {EnrollmentBegun, EnrollmentValidating, EnrollmentAwaitingConfirmation,
                   EnrollmentSucceeded, EnrollmentCancelled, EnrollmentExpired, EnrollmentFailed} \<and>
     between 64 64 (enr_IdempotencyDigest r) \<and>
     (enr_CompletionIdempotencyDigest r = '''' \<or> between 64 64 (enr_CompletionIdempotencyDigest r)) \<and>
     references_or_null acc_ID (db_accounts d) (enr_ConfirmationAccountID r) \<and>
     references_or_null prof_ID (db_profiles d) (enr_ConfirmationProfileID r) \<and>
     references_or_null cred_ID (db_credentials d) (enr_ConfirmationCredentialID r) \<and>
     references_or_null cli_ID (db_clients d) (enr_ConfirmedByClientID r) \<and>
     confirmation_tuple_ok r \<and> (enr_ConfirmedByClientID r = '''' \<longleftrightarrow> enr_ConfirmedAt r = None)"

definition enrollments_ok :: "db \<Rightarrow> AuthEnrollment list \<Rightarrow> bool" where
  "enrollments_ok d rows \<longleftrightarrow>
     distinct (map enr_ID rows) \<and>
     distinct (map enr_RuntimeProfileID (filter (\<lambda>r. active_enrollment_state (enr_State r)) rows)) \<and>
     distinct (map (\<lambda>r. (enr_ClientDeviceID r, enr_IdempotencyDigest r)) rows) \<and>
     list_all (enrollment_row_ok d) rows"

definition previews_ok :: "db \<Rightarrow> SessionStartPreview list \<Rightarrow> bool" where
  "previews_ok d rows \<longleftrightarrow>
     distinct (map prev_ID rows) \<and>
     list_all (\<lambda>r. references cli_ID (db_clients d) (prev_ClientID r) \<and> prev_Provider r = ProviderCodex \<and>
                   references acc_ID (db_accounts d) (prev_AccountID r) \<and> 1 \<le> prev_AccountRevision r \<and>
                   references prof_ID (db_profiles d) (prev_RuntimeProfileID r) \<and> 1 \<le> prev_ProfileRevision r \<and>
                   references cred_ID (db_credentials d) (prev_CredentialInstanceID r) \<and>
                   1 \<le> prev_CredentialRevision r \<and>
                   references dev_ID (db_devices d) (prev_DeviceID r) \<and>
                   references ws_ID (db_workspaces d) (prev_WorkspaceID r) \<and>
                   references_or_null use_ID (db_usages d) (prev_UsageSnapshotID r) \<and>
                   between 1 128 (prev_ProviderVersion r) \<and> between 64 64 (prev_BinaryFingerprint r) \<and>
                   between 64 64 (prev_SchemaFingerprint r) \<and> between 64 64 (prev_CapabilityDigest r) \<and>
                   references_or_null ses_ID (db_sessions d) (prev_SessionID r) \<and>
                   (prev_ConsumedAt r = None \<and> prev_ConsumedRequestDigest r = '''' \<and> prev_SessionID r = '''' \<or>
                    prev_ConsumedAt r \<noteq> None \<and> between 64 64 (prev_ConsumedRequestDigest r) \<and>
                    prev_SessionID r \<noteq> '''')) rows"

section \<open>The vault and tombstones\<close>

definition revocations_ok :: "db \<Rightarrow> (ID \<times> time) list \<Rightarrow> bool" where
  "revocations_ok d rows \<longleftrightarrow>
     distinct (map fst rows) \<and> list_all (\<lambda>r. references cred_ID (db_credentials d) (fst r)) rows"

definition vault_item_row_ok :: "db \<Rightarrow> VaultItem \<Rightarrow> bool" where
  "vault_item_row_ok d r \<longleftrightarrow>
     references cred_ID (db_credentials d) (vi_CredentialInstanceID r) \<and>
     references acc_ID (db_accounts d) (vi_AccountID r) \<and>
     references dev_ID (db_devices d) (vi_DeviceID r) \<and> vi_Provider r = ProviderCodex \<and>
     vi_EnvelopeVersion r = 1 \<and> 1 \<le> vi_CredentialRevision r \<and> vi_CipherName r = ''aes-256-gcm'' \<and>
     length (vi_PayloadNonce r) = 12 \<and> 18 \<le> length (vi_PayloadCiphertext r) \<and>
     length (vi_PayloadCiphertext r) \<le> 65552 \<and> vi_WrapName r = ''aes-256-gcm'' \<and>
     length (vi_WrapNonce r) = 12 \<and> length (vi_WrappedDEK r) = 48 \<and>
     between 64 64 (vi_AADDigest r) \<and> between 64 64 (vi_SecretDigest r)"

definition vault_items_ok :: "db \<Rightarrow> VaultItem list \<Rightarrow> bool" where
  "vault_items_ok d rows \<longleftrightarrow>
     distinct (map vi_CredentialInstanceID rows) \<and> list_all (vault_item_row_ok d) rows"

definition vault_config_ok :: "db \<Rightarrow> VaultConfig list \<Rightarrow> bool" where
  "vault_config_ok d rows \<longleftrightarrow>
     length rows \<le> 1 \<and>
     list_all (\<lambda>r. vc_FormatVersion r = 1 \<and> vc_KDFName r = ''argon2id-v19'' \<and> length (vc_KDFSalt r) = 16 \<and>
                   vc_ArgonTime r = 3 \<and> vc_ArgonMemoryKiB r = 65536 \<and> 1 \<le> vc_ArgonParallelism r \<and>
                   vc_ArgonParallelism r \<le> 4 \<and> length (vc_KeyCheckNonce r) = 12 \<and>
                   length (vc_KeyCheckCiphertext r) = 49 \<and>
                   references cli_ID (db_clients d) (vc_InitializedByDevice r) \<and>
                   between 64 64 (vc_InitRequestDigest r)) rows"

definition windows_ok :: "db \<Rightarrow> ((ID \<times> nat) \<times> UsageWindow) list \<Rightarrow> bool" where
  "windows_ok d rows \<longleftrightarrow>
     distinct (map fst rows) \<and>
     list_all (\<lambda>((snapshot, _), w). references use_ID (db_usages d) snapshot \<and>
                   between 0 128 (win_ProviderLimitID w) \<and>
                   win_Kind w \<in> {UsageWindowRolling, UsageWindowCalendar, UsageWindowSpendControl,
                                UsageWindowSDKCredit, UsageWindowUnknown} \<and>
                   between 1 128 (win_Label w) \<and>
                   (case win_DurationSeconds w of None \<Rightarrow> True | Some n \<Rightarrow> 0 < n) \<and>
                   \<not> negative_value (win_UsedValue w) \<and> \<not> negative_value (win_LimitValue w) \<and>
                   \<not> bad_percent (win_UsedPercent w) \<and> \<not> bad_percent (win_RemainingPercent w)) rows"

definition tombstones_ok :: "Tombstone list \<Rightarrow> bool" where
  "tombstones_ok rows \<longleftrightarrow>
     distinct (map (\<lambda>r. (tomb_EntityType r, tomb_EntityID r)) rows) \<and>
     list_all (\<lambda>r. tomb_EntityType r \<in> {''account'', ''profile''} \<and>
                   tomb_Provider r \<in> {ProviderCodex, ProviderClaude} \<and> 1 \<le> tomb_FinalRevision r) rows"

text \<open>
  \<open>ON DELETE RESTRICT\<close>: a credential that one of these columns names cannot be deleted. The
  references of \<open>credential_revocations\<close> cascade.
\<close>

definition credential_referenced :: "db \<Rightarrow> ID \<Rightarrow> bool" where
  "credential_referenced d c \<longleftrightarrow>
     references prof_CredentialInstanceID (db_profiles d) c \<or>
     references ses_CredentialInstanceID (db_sessions d) c \<or>
     references mat_CredentialInstanceID (db_materializations d) c \<or>
     references vi_CredentialInstanceID (db_vault_items d) c \<or>
     references use_CredentialInstanceID (db_usages d) c \<or>
     references prev_CredentialInstanceID (db_previews d) c \<or>
     references enr_CredentialInstanceID (db_enrollments d) c \<or>
     references enr_ConfirmationCredentialID (db_enrollments d) c"

definition profile_referenced :: "db \<Rightarrow> ID \<Rightarrow> bool" where
  "profile_referenced d p \<longleftrightarrow>
     references ses_RuntimeProfileID (db_sessions d) p \<or>
     references prev_RuntimeProfileID (db_previews d) p \<or>
     references enr_RuntimeProfileID (db_enrollments d) p \<or>
     references enr_ConfirmationProfileID (db_enrollments d) p"

definition account_referenced :: "db \<Rightarrow> ID \<Rightarrow> bool" where
  "account_referenced d a \<longleftrightarrow>
     references prof_AccountID (db_profiles d) a \<or>
     references cred_AccountID (db_credentials d) a \<or>
     references ses_AccountID (db_sessions d) a \<or>
     references vi_AccountID (db_vault_items d) a \<or>
     references use_AccountID (db_usages d) a \<or>
     references prev_AccountID (db_previews d) a \<or>
     references enr_ConfirmationAccountID (db_enrollments d) a"

definition usage_referenced :: "db \<Rightarrow> ID \<Rightarrow> bool" where
  "usage_referenced d u \<longleftrightarrow> references prev_UsageSnapshotID (db_previews d) u"

section \<open>The whole database\<close>

definition db_ok :: "db \<Rightarrow> bool" where
  "db_ok d \<longleftrightarrow>
     devices_ok (db_devices d) \<and> clients_ok (db_clients d) \<and> workspaces_ok d (db_workspaces d) \<and>
     accounts_ok (db_accounts d) \<and> profiles_ok d (db_profiles d) \<and> credentials_ok d (db_credentials d) \<and>
     sessions_ok d (db_sessions d) \<and> attachments_ok d (db_attachments d) \<and> leases_ok d (db_leases d) \<and>
     events_ok d (db_events d) \<and> audits_ok (db_audits d) \<and> idempotency_ok d (db_idempotency d) \<and>
     approvals_ok d (db_approvals d) \<and> usages_ok d (db_usages d) \<and>
     materializations_ok d (db_materializations d) \<and> enrollments_ok d (db_enrollments d) \<and>
     previews_ok d (db_previews d) \<and> revocations_ok d (db_revocations d) \<and>
     vault_items_ok d (db_vault_items d) \<and> vault_config_ok d (db_vault_config d) \<and>
     windows_ok d (db_windows d) \<and> tombstones_ok (db_tombstones d)"

lemmas table_defs [row_simps] =
  devices_ok_def clients_ok_def workspaces_ok_def accounts_ok_def profiles_ok_def credentials_ok_def
  sessions_ok_def attachments_ok_def leases_ok_def events_ok_def audits_ok_def idempotency_ok_def
  approvals_ok_def usages_ok_def materializations_ok_def enrollments_ok_def previews_ok_def
  revocations_ok_def vault_items_ok_def vault_config_ok_def windows_ok_def tombstones_ok_def

lemma empty_db_ok: "db_ok empty_db"
  by (simp add: db_ok_def row_simps empty_db_def)

text \<open>
  A table's constraints read the rest of the database only through its foreign keys, so they
  survive any change that keeps the referenced keys.
\<close>

definition keys_kept :: "db \<Rightarrow> db \<Rightarrow> bool" where
  "keys_kept d d' \<longleftrightarrow>
     (\<forall>k. references dev_ID (db_devices d) k \<longrightarrow> references dev_ID (db_devices d') k) \<and>
     (\<forall>k. references cli_ID (db_clients d) k \<longrightarrow> references cli_ID (db_clients d') k) \<and>
     (\<forall>k. references ws_ID (db_workspaces d) k \<longrightarrow> references ws_ID (db_workspaces d') k) \<and>
     (\<forall>k. references acc_ID (db_accounts d) k \<longrightarrow> references acc_ID (db_accounts d') k) \<and>
     (\<forall>k. references prof_ID (db_profiles d) k \<longrightarrow> references prof_ID (db_profiles d') k) \<and>
     (\<forall>k. references cred_ID (db_credentials d) k \<longrightarrow> references cred_ID (db_credentials d') k) \<and>
     (\<forall>k. references ses_ID (db_sessions d) k \<longrightarrow> references ses_ID (db_sessions d') k) \<and>
     (\<forall>k. references use_ID (db_usages d) k \<longrightarrow> references use_ID (db_usages d') k)"

lemma tables_kept:
  assumes "keys_kept d d'"
  shows "workspaces_ok d r1 \<Longrightarrow> workspaces_ok d' r1"
    and "profiles_ok d r2 \<Longrightarrow> profiles_ok d' r2"
    and "credentials_ok d r3 \<Longrightarrow> credentials_ok d' r3"
    and "sessions_ok d r4 \<Longrightarrow> sessions_ok d' r4"
    and "attachments_ok d r5 \<Longrightarrow> attachments_ok d' r5"
    and "leases_ok d r6 \<Longrightarrow> leases_ok d' r6"
    and "events_ok d r7 \<Longrightarrow> events_ok d' r7"
    and "idempotency_ok d r8 \<Longrightarrow> idempotency_ok d' r8"
    and "approvals_ok d r9 \<Longrightarrow> approvals_ok d' r9"
    and "usages_ok d r10 \<Longrightarrow> usages_ok d' r10"
    and "materializations_ok d r11 \<Longrightarrow> materializations_ok d' r11"
    and "enrollments_ok d r12 \<Longrightarrow> enrollments_ok d' r12"
    and "previews_ok d r13 \<Longrightarrow> previews_ok d' r13"
    and "revocations_ok d r14 \<Longrightarrow> revocations_ok d' r14"
    and "vault_items_ok d r15 \<Longrightarrow> vault_items_ok d' r15"
    and "vault_config_ok d r16 \<Longrightarrow> vault_config_ok d' r16"
    and "windows_ok d r17 \<Longrightarrow> windows_ok d' r17"
proof -
  note refs = assms [unfolded keys_kept_def]
  have nulls:
    "\<And>k. references_or_null acc_ID (db_accounts d) k \<Longrightarrow> references_or_null acc_ID (db_accounts d') k"
    "\<And>k. references_or_null prof_ID (db_profiles d) k \<Longrightarrow> references_or_null prof_ID (db_profiles d') k"
    "\<And>k. references_or_null cred_ID (db_credentials d) k \<Longrightarrow> references_or_null cred_ID (db_credentials d') k"
    "\<And>k. references_or_null cli_ID (db_clients d) k \<Longrightarrow> references_or_null cli_ID (db_clients d') k"
    "\<And>k. references_or_null ses_ID (db_sessions d) k \<Longrightarrow> references_or_null ses_ID (db_sessions d') k"
    "\<And>k. references_or_null use_ID (db_usages d) k \<Longrightarrow> references_or_null use_ID (db_usages d') k"
    using refs by (auto simp: references_or_null_def)
  show "workspaces_ok d r1 \<Longrightarrow> workspaces_ok d' r1" by (simp add: workspaces_ok_def list_all_iff refs)
  show "profiles_ok d r2 \<Longrightarrow> profiles_ok d' r2" by (simp add: profiles_ok_def list_all_iff refs nulls)
  show "credentials_ok d r3 \<Longrightarrow> credentials_ok d' r3" by (simp add: credentials_ok_def list_all_iff refs nulls)
  show "sessions_ok d r4 \<Longrightarrow> sessions_ok d' r4" by (simp add: sessions_ok_def session_row_ok_def list_all_iff refs nulls)
  show "attachments_ok d r5 \<Longrightarrow> attachments_ok d' r5" by (simp add: attachments_ok_def list_all_iff refs)
  show "leases_ok d r6 \<Longrightarrow> leases_ok d' r6" by (simp add: leases_ok_def list_all_iff refs)
  show "events_ok d r7 \<Longrightarrow> events_ok d' r7" by (simp add: events_ok_def list_all_iff refs)
  show "idempotency_ok d r8 \<Longrightarrow> idempotency_ok d' r8" by (simp add: idempotency_ok_def list_all_iff refs)
  show "approvals_ok d r9 \<Longrightarrow> approvals_ok d' r9" by (simp add: approvals_ok_def list_all_iff refs nulls)
  show "usages_ok d r10 \<Longrightarrow> usages_ok d' r10" by (simp add: usages_ok_def list_all_iff refs nulls)
  show "materializations_ok d r11 \<Longrightarrow> materializations_ok d' r11"
    by (simp add: materializations_ok_def list_all_iff refs)
  show "enrollments_ok d r12 \<Longrightarrow> enrollments_ok d' r12"
    by (simp add: enrollments_ok_def enrollment_row_ok_def list_all_iff refs nulls)
  show "previews_ok d r13 \<Longrightarrow> previews_ok d' r13" by (simp add: previews_ok_def list_all_iff refs nulls)
  show "revocations_ok d r14 \<Longrightarrow> revocations_ok d' r14" by (simp add: revocations_ok_def list_all_iff refs)
  show "vault_items_ok d r15 \<Longrightarrow> vault_items_ok d' r15"
    by (simp add: vault_items_ok_def vault_item_row_ok_def list_all_iff refs)
  show "vault_config_ok d r16 \<Longrightarrow> vault_config_ok d' r16" by (simp add: vault_config_ok_def list_all_iff refs)
  show "windows_ok d r17 \<Longrightarrow> windows_ok d' r17"
    by (simp add: windows_ok_def list_all_iff split_beta refs)
qed

text \<open>
  Replacing one table by rows that meet its constraints and keep its keys keeps the database in
  order; a table no other table refers to may lose rows too.
\<close>

lemma keys_kept_refl [simp]: "keys_kept d d"
  by (simp add: keys_kept_def)

lemma db_ok_transfer:
  assumes "db_ok d" "keys_kept d d'"
  shows "workspaces_ok d' (db_workspaces d)" "profiles_ok d' (db_profiles d)"
    "credentials_ok d' (db_credentials d)" "sessions_ok d' (db_sessions d)"
    "attachments_ok d' (db_attachments d)" "leases_ok d' (db_leases d)" "events_ok d' (db_events d)"
    "idempotency_ok d' (db_idempotency d)" "approvals_ok d' (db_approvals d)"
    "usages_ok d' (db_usages d)" "materializations_ok d' (db_materializations d)"
    "enrollments_ok d' (db_enrollments d)" "previews_ok d' (db_previews d)"
    "revocations_ok d' (db_revocations d)" "vault_items_ok d' (db_vault_items d)"
    "vault_config_ok d' (db_vault_config d)" "windows_ok d' (db_windows d)"
  using assms(1) tables_kept [OF assms(2)] by (simp_all add: db_ok_def)

lemma db_ok_put_devices:
  assumes "db_ok d" "devices_ok rows" "\<And>k. references dev_ID (db_devices d) k \<Longrightarrow> references dev_ID rows k"
  shows "db_ok (d\<lparr>db_devices := rows\<rparr>)"
proof -
  have "keys_kept d (d\<lparr>db_devices := rows\<rparr>)" using assms(3) by (simp add: keys_kept_def)
  from db_ok_transfer [OF assms(1) this] show ?thesis using assms(1,2) by (simp add: db_ok_def)
qed

lemma db_ok_put_clients:
  assumes "db_ok d" "clients_ok rows" "\<And>k. references cli_ID (db_clients d) k \<Longrightarrow> references cli_ID rows k"
  shows "db_ok (d\<lparr>db_clients := rows\<rparr>)"
proof -
  have "keys_kept d (d\<lparr>db_clients := rows\<rparr>)" using assms(3) by (simp add: keys_kept_def)
  from db_ok_transfer [OF assms(1) this] show ?thesis using assms(1,2) by (simp add: db_ok_def)
qed

lemma db_ok_put_workspaces:
  assumes "db_ok d" "workspaces_ok d rows"
    "\<And>k. references ws_ID (db_workspaces d) k \<Longrightarrow> references ws_ID rows k"
  shows "db_ok (d\<lparr>db_workspaces := rows\<rparr>)"
proof -
  have k: "keys_kept d (d\<lparr>db_workspaces := rows\<rparr>)" using assms(3) by (simp add: keys_kept_def)
  from db_ok_transfer [OF assms(1) k] tables_kept(1) [OF k assms(2)] show ?thesis
    using assms(1) by (simp add: db_ok_def)
qed

lemma db_ok_put_accounts:
  assumes "db_ok d" "accounts_ok rows" "\<And>k. references acc_ID (db_accounts d) k \<Longrightarrow> references acc_ID rows k"
  shows "db_ok (d\<lparr>db_accounts := rows\<rparr>)"
proof -
  have "keys_kept d (d\<lparr>db_accounts := rows\<rparr>)" using assms(3) by (simp add: keys_kept_def)
  from db_ok_transfer [OF assms(1) this] show ?thesis using assms(1,2) by (simp add: db_ok_def)
qed

lemma db_ok_put_profiles:
  assumes "db_ok d" "profiles_ok d rows" "\<And>k. references prof_ID (db_profiles d) k \<Longrightarrow> references prof_ID rows k"
  shows "db_ok (d\<lparr>db_profiles := rows\<rparr>)"
proof -
  have k: "keys_kept d (d\<lparr>db_profiles := rows\<rparr>)" using assms(3) by (simp add: keys_kept_def)
  from db_ok_transfer [OF assms(1) k] tables_kept(2) [OF k assms(2)] show ?thesis
    using assms(1) by (simp add: db_ok_def)
qed

lemma db_ok_put_credentials:
  assumes "db_ok d" "credentials_ok d rows"
    "\<And>k. references cred_ID (db_credentials d) k \<Longrightarrow> references cred_ID rows k"
  shows "db_ok (d\<lparr>db_credentials := rows\<rparr>)"
proof -
  have k: "keys_kept d (d\<lparr>db_credentials := rows\<rparr>)" using assms(3) by (simp add: keys_kept_def)
  from db_ok_transfer [OF assms(1) k] tables_kept(3) [OF k assms(2)] show ?thesis
    using assms(1) by (simp add: db_ok_def)
qed

lemma db_ok_put_sessions:
  assumes "db_ok d" "sessions_ok d rows" "\<And>k. references ses_ID (db_sessions d) k \<Longrightarrow> references ses_ID rows k"
  shows "db_ok (d\<lparr>db_sessions := rows\<rparr>)"
proof -
  have k: "keys_kept d (d\<lparr>db_sessions := rows\<rparr>)" using assms(3) by (simp add: keys_kept_def)
  from db_ok_transfer [OF assms(1) k] tables_kept(4) [OF k assms(2)] show ?thesis
    using assms(1) by (simp add: db_ok_def)
qed

lemma db_ok_put_usages:
  assumes "db_ok d" "usages_ok d rows" "\<And>k. references use_ID (db_usages d) k \<Longrightarrow> references use_ID rows k"
  shows "db_ok (d\<lparr>db_usages := rows\<rparr>)"
proof -
  have k: "keys_kept d (d\<lparr>db_usages := rows\<rparr>)" using assms(3) by (simp add: keys_kept_def)
  from db_ok_transfer [OF assms(1) k] tables_kept(10) [OF k assms(2)] show ?thesis
    using assms(1) by (simp add: db_ok_def)
qed

lemma db_ok_put_leaf:
  assumes "db_ok d"
  shows "attachments_ok d r1 \<Longrightarrow> db_ok (d\<lparr>db_attachments := r1\<rparr>)"
    and "leases_ok d r2 \<Longrightarrow> db_ok (d\<lparr>db_leases := r2\<rparr>)"
    and "events_ok d r3 \<Longrightarrow> db_ok (d\<lparr>db_events := r3\<rparr>)"
    and "audits_ok r4 \<Longrightarrow> db_ok (d\<lparr>db_audits := r4\<rparr>)"
    and "idempotency_ok d r5 \<Longrightarrow> db_ok (d\<lparr>db_idempotency := r5\<rparr>)"
    and "approvals_ok d r6 \<Longrightarrow> db_ok (d\<lparr>db_approvals := r6\<rparr>)"
    and "materializations_ok d r7 \<Longrightarrow> db_ok (d\<lparr>db_materializations := r7\<rparr>)"
    and "enrollments_ok d r8 \<Longrightarrow> db_ok (d\<lparr>db_enrollments := r8\<rparr>)"
    and "previews_ok d r9 \<Longrightarrow> db_ok (d\<lparr>db_previews := r9\<rparr>)"
    and "revocations_ok d r10 \<Longrightarrow> db_ok (d\<lparr>db_revocations := r10\<rparr>)"
    and "vault_items_ok d r11 \<Longrightarrow> db_ok (d\<lparr>db_vault_items := r11\<rparr>)"
    and "vault_config_ok d r12 \<Longrightarrow> db_ok (d\<lparr>db_vault_config := r12\<rparr>)"
    and "windows_ok d r13 \<Longrightarrow> db_ok (d\<lparr>db_windows := r13\<rparr>)"
    and "tombstones_ok r14 \<Longrightarrow> db_ok (d\<lparr>db_tombstones := r14\<rparr>)"
proof -
  have k: "keys_kept d (d\<lparr>db_attachments := r1\<rparr>)" "keys_kept d (d\<lparr>db_leases := r2\<rparr>)"
    "keys_kept d (d\<lparr>db_events := r3\<rparr>)" "keys_kept d (d\<lparr>db_audits := r4\<rparr>)"
    "keys_kept d (d\<lparr>db_idempotency := r5\<rparr>)" "keys_kept d (d\<lparr>db_approvals := r6\<rparr>)"
    "keys_kept d (d\<lparr>db_materializations := r7\<rparr>)" "keys_kept d (d\<lparr>db_enrollments := r8\<rparr>)"
    "keys_kept d (d\<lparr>db_previews := r9\<rparr>)" "keys_kept d (d\<lparr>db_revocations := r10\<rparr>)"
    "keys_kept d (d\<lparr>db_vault_items := r11\<rparr>)" "keys_kept d (d\<lparr>db_vault_config := r12\<rparr>)"
    "keys_kept d (d\<lparr>db_windows := r13\<rparr>)" "keys_kept d (d\<lparr>db_tombstones := r14\<rparr>)"
    by (simp_all add: keys_kept_def)
  note t = assms [unfolded db_ok_def]
  show "attachments_ok d r1 \<Longrightarrow> db_ok (d\<lparr>db_attachments := r1\<rparr>)"
    using t db_ok_transfer [OF assms k(1)] tables_kept(5) [OF k(1)] by (simp add: db_ok_def)
  show "leases_ok d r2 \<Longrightarrow> db_ok (d\<lparr>db_leases := r2\<rparr>)"
    using t db_ok_transfer [OF assms k(2)] tables_kept(6) [OF k(2)] by (simp add: db_ok_def)
  show "events_ok d r3 \<Longrightarrow> db_ok (d\<lparr>db_events := r3\<rparr>)"
    using t db_ok_transfer [OF assms k(3)] tables_kept(7) [OF k(3)] by (simp add: db_ok_def)
  show "audits_ok r4 \<Longrightarrow> db_ok (d\<lparr>db_audits := r4\<rparr>)"
    using t db_ok_transfer [OF assms k(4)] by (simp add: db_ok_def)
  show "idempotency_ok d r5 \<Longrightarrow> db_ok (d\<lparr>db_idempotency := r5\<rparr>)"
    using t db_ok_transfer [OF assms k(5)] tables_kept(8) [OF k(5)] by (simp add: db_ok_def)
  show "approvals_ok d r6 \<Longrightarrow> db_ok (d\<lparr>db_approvals := r6\<rparr>)"
    using t db_ok_transfer [OF assms k(6)] tables_kept(9) [OF k(6)] by (simp add: db_ok_def)
  show "materializations_ok d r7 \<Longrightarrow> db_ok (d\<lparr>db_materializations := r7\<rparr>)"
    using t db_ok_transfer [OF assms k(7)] tables_kept(11) [OF k(7)] by (simp add: db_ok_def)
  show "enrollments_ok d r8 \<Longrightarrow> db_ok (d\<lparr>db_enrollments := r8\<rparr>)"
    using t db_ok_transfer [OF assms k(8)] tables_kept(12) [OF k(8)] by (simp add: db_ok_def)
  show "previews_ok d r9 \<Longrightarrow> db_ok (d\<lparr>db_previews := r9\<rparr>)"
    using t db_ok_transfer [OF assms k(9)] tables_kept(13) [OF k(9)] by (simp add: db_ok_def)
  show "revocations_ok d r10 \<Longrightarrow> db_ok (d\<lparr>db_revocations := r10\<rparr>)"
    using t db_ok_transfer [OF assms k(10)] tables_kept(14) [OF k(10)] by (simp add: db_ok_def)
  show "vault_items_ok d r11 \<Longrightarrow> db_ok (d\<lparr>db_vault_items := r11\<rparr>)"
    using t db_ok_transfer [OF assms k(11)] tables_kept(15) [OF k(11)] by (simp add: db_ok_def)
  show "vault_config_ok d r12 \<Longrightarrow> db_ok (d\<lparr>db_vault_config := r12\<rparr>)"
    using t db_ok_transfer [OF assms k(12)] tables_kept(16) [OF k(12)] by (simp add: db_ok_def)
  show "windows_ok d r13 \<Longrightarrow> db_ok (d\<lparr>db_windows := r13\<rparr>)"
    using t db_ok_transfer [OF assms k(13)] tables_kept(17) [OF k(13)] by (simp add: db_ok_def)
  show "tombstones_ok r14 \<Longrightarrow> db_ok (d\<lparr>db_tombstones := r14\<rparr>)"
    using t db_ok_transfer [OF assms k(14)] by (simp add: db_ok_def)
qed

end
