(* ===== verification/SchemaDeletes.thy ===== *)
theory SchemaDeletes
  imports StoreSchema
begin

text \<open>
  DELETE on the tables other tables refer to. \<open>ON DELETE RESTRICT\<close> lets a row go only when no
  remaining row names it, so the database stays in order; \<open>ON DELETE CASCADE\<close> takes the
  revocation rows of a credential and the windows of a usage snapshot along.
\<close>

lemma references_survive:
  assumes "\<forall>r \<in> set rows. q r \<longrightarrow> \<not> references f others (key r)" "t \<in> set others"
    "references key rows (f t)"
  shows "references key (delete_rows q rows) (f t)"
proof -
  obtain x where x: "x \<in> set rows" "key x = f t" using assms(3) by (auto simp: references_iff)
  then have "\<not> q x" using assms(1,2) by (auto simp: references_iff)
  with x show ?thesis by (force simp: references_iff delete_rows_def)
qed

lemma references_or_null_survive:
  assumes "\<forall>r \<in> set rows. q r \<longrightarrow> \<not> references f others (key r)" "t \<in> set others"
    "references_or_null key rows (f t)"
  shows "references_or_null key (delete_rows q rows) (f t)"
  using assms(3) references_survive [OF assms(1,2)] by (auto simp: references_or_null_def)

lemma count_rows_references: "count_rows (\<lambda>r. key r = k) rows \<noteq> 0 \<Longrightarrow> references key rows k"
  by (auto simp: count_rows_def references_iff filter_empty_conv)

lemma distinct_delete_rows:
  assumes "distinct (map f (filter p rows))"
  shows "distinct (map f (filter p (delete_rows q rows)))"
proof -
  have "filter p (delete_rows q rows) = filter (\<lambda>r. \<not> q r) (filter p rows)"
    by (simp add: delete_rows_def conj_commute)
  then show ?thesis using distinct_map_filter [OF assms] by simp
qed

lemma distinct_delete_all: "distinct (map f rows) \<Longrightarrow> distinct (map f (delete_rows q rows))"
  using distinct_delete_rows [of f "\<lambda>_. True" rows q] by simp

lemma list_all_delete: "list_all P rows \<Longrightarrow> list_all P (delete_rows q rows)"
  by (simp add: list_all_iff delete_rows_def)

lemmas delete_keeps = distinct_delete_rows distinct_delete_all list_all_delete

text \<open>Rows may always leave a table when only its own constraints count.\<close>

lemma tables_delete:
  shows "profiles_ok d r1 \<Longrightarrow> profiles_ok d (delete_rows q1 r1)"
    and "credentials_ok d r2 \<Longrightarrow> credentials_ok d (delete_rows q2 r2)"
    and "accounts_ok r3 \<Longrightarrow> accounts_ok (delete_rows q3 r3)"
    and "usages_ok d r4 \<Longrightarrow> usages_ok d (delete_rows q4 r4)"
    and "revocations_ok d r5 \<Longrightarrow> revocations_ok d (delete_rows q5 r5)"
    and "windows_ok d r6 \<Longrightarrow> windows_ok d (delete_rows q6 r6)"
    and "attachments_ok d r7 \<Longrightarrow> attachments_ok d (delete_rows q7 r7)"
    and "vault_items_ok d r8 \<Longrightarrow> vault_items_ok d (delete_rows q8 r8)"
    and "previews_ok d r9 \<Longrightarrow> previews_ok d (delete_rows q9 r9)"
  by (simp_all add: table_defs delete_keeps)

section \<open>Profiles\<close>

lemma db_ok_delete_profiles:
  assumes "db_ok d" "\<forall>r \<in> set (db_profiles d). q r \<longrightarrow> \<not> profile_referenced d (prof_ID r)"
  shows "db_ok (d\<lparr>db_profiles := delete_rows q (db_profiles d)\<rparr>)" (is "db_ok ?d")
proof -
  note t = assms(1) [unfolded db_ok_def]
  have free: "\<forall>r \<in> set (db_profiles d). q r \<longrightarrow> \<not> references ses_RuntimeProfileID (db_sessions d) (prof_ID r)"
    "\<forall>r \<in> set (db_profiles d). q r \<longrightarrow> \<not> references prev_RuntimeProfileID (db_previews d) (prof_ID r)"
    "\<forall>r \<in> set (db_profiles d). q r \<longrightarrow> \<not> references enr_RuntimeProfileID (db_enrollments d) (prof_ID r)"
    "\<forall>r \<in> set (db_profiles d). q r \<longrightarrow> \<not> references enr_ConfirmationProfileID (db_enrollments d) (prof_ID r)"
    using assms(2) by (simp_all add: profile_referenced_def)
  have "sessions_ok ?d (db_sessions d)"
    using t references_survive [OF free(1)] by (simp add: sessions_ok_def session_row_ok_def list_all_iff)
  moreover have "previews_ok ?d (db_previews d)"
    using t references_survive [OF free(2)] by (simp add: previews_ok_def list_all_iff)
  moreover have "enrollments_ok ?d (db_enrollments d)"
    using t references_survive [OF free(3)] references_or_null_survive [OF free(4)]
    by (simp add: enrollments_ok_def enrollment_row_ok_def list_all_iff)
  moreover have "profiles_ok ?d (delete_rows q (db_profiles d))"
    using t tables_delete(1) [of d "db_profiles d" q] by (simp add: profiles_ok_def)
  ultimately show ?thesis
    using t by (simp add: db_ok_def workspaces_ok_def credentials_ok_def attachments_ok_def leases_ok_def
        events_ok_def idempotency_ok_def approvals_ok_def usages_ok_def materializations_ok_def
        revocations_ok_def vault_items_ok_def vault_item_row_ok_def [abs_def] vault_config_ok_def windows_ok_def)
qed

section \<open>Credentials\<close>

lemma db_ok_delete_credential:
  assumes "db_ok d" "\<not> credential_referenced d c"
    "\<forall>r \<in> set (db_credentials d). q r \<longrightarrow> cred_ID r = c"
  shows "db_ok (d\<lparr>db_credentials := delete_rows q (db_credentials d),
                  db_revocations := delete_rows (\<lambda>r. fst r = c) (db_revocations d)\<rparr>)" (is "db_ok ?d")
proof -
  note t = assms(1) [unfolded db_ok_def]
  have free: "\<forall>r \<in> set (db_credentials d). q r \<longrightarrow> \<not> references prof_CredentialInstanceID (db_profiles d) (cred_ID r)"
    "\<forall>r \<in> set (db_credentials d). q r \<longrightarrow> \<not> references ses_CredentialInstanceID (db_sessions d) (cred_ID r)"
    "\<forall>r \<in> set (db_credentials d). q r \<longrightarrow> \<not> references mat_CredentialInstanceID (db_materializations d) (cred_ID r)"
    "\<forall>r \<in> set (db_credentials d). q r \<longrightarrow> \<not> references vi_CredentialInstanceID (db_vault_items d) (cred_ID r)"
    "\<forall>r \<in> set (db_credentials d). q r \<longrightarrow> \<not> references use_CredentialInstanceID (db_usages d) (cred_ID r)"
    "\<forall>r \<in> set (db_credentials d). q r \<longrightarrow> \<not> references prev_CredentialInstanceID (db_previews d) (cred_ID r)"
    "\<forall>r \<in> set (db_credentials d). q r \<longrightarrow> \<not> references enr_CredentialInstanceID (db_enrollments d) (cred_ID r)"
    "\<forall>r \<in> set (db_credentials d). q r \<longrightarrow> \<not> references enr_ConfirmationCredentialID (db_enrollments d) (cred_ID r)"
    using assms(2,3) by (auto simp: credential_referenced_def)
  have "profiles_ok ?d (db_profiles d)"
    using t references_or_null_survive [OF free(1)] by (simp add: profiles_ok_def list_all_iff)
  moreover have "sessions_ok ?d (db_sessions d)"
    using t references_survive [OF free(2)] by (simp add: sessions_ok_def session_row_ok_def list_all_iff)
  moreover have "materializations_ok ?d (db_materializations d)"
    using t references_survive [OF free(3)] by (simp add: materializations_ok_def list_all_iff)
  moreover have "vault_items_ok ?d (db_vault_items d)"
    using t references_survive [OF free(4)] by (simp add: vault_items_ok_def vault_item_row_ok_def list_all_iff)
  moreover have "usages_ok ?d (db_usages d)"
    using t references_or_null_survive [OF free(5)] by (simp add: usages_ok_def list_all_iff)
  moreover have "previews_ok ?d (db_previews d)"
    using t references_survive [OF free(6)] by (simp add: previews_ok_def list_all_iff)
  moreover have "enrollments_ok ?d (db_enrollments d)"
    using t references_or_null_survive [OF free(7)] references_or_null_survive [OF free(8)]
    by (simp add: enrollments_ok_def enrollment_row_ok_def list_all_iff)
  moreover have "credentials_ok ?d (delete_rows q (db_credentials d))"
    using t tables_delete(2) [of d "db_credentials d" q] by (simp add: credentials_ok_def)
  moreover have "revocations_ok ?d (delete_rows (\<lambda>r. fst r = c) (db_revocations d))"
  proof -
    have "references cred_ID (delete_rows q (db_credentials d)) k"
      if k: "references cred_ID (db_credentials d) k" "k \<noteq> c" for k
    proof -
      obtain x where "x \<in> set (db_credentials d)" "cred_ID x = k" using k(1) by (auto simp: references_iff)
      moreover from this have "\<not> q x" using assms(3) k(2) by auto
      ultimately show ?thesis by (force simp: references_iff delete_rows_def)
    qed
    then show ?thesis
      using t by (simp add: revocations_ok_def distinct_delete_all list_all_iff) (simp add: delete_rows_def)
  qed
  ultimately show ?thesis
    using t by (simp add: db_ok_def workspaces_ok_def attachments_ok_def leases_ok_def
        events_ok_def idempotency_ok_def approvals_ok_def vault_config_ok_def windows_ok_def)
qed

section \<open>Usage snapshots and accounts\<close>

lemma db_ok_delete_usages:
  assumes "db_ok d" "\<forall>r \<in> set (db_usages d). q r \<longrightarrow> \<not> usage_referenced d (use_ID r)"
  shows "db_ok (d\<lparr>db_usages := delete_rows q (db_usages d),
                  db_windows := delete_rows (\<lambda>w. list_ex (\<lambda>r. q r \<and> use_ID r = fst (fst w)) (db_usages d))
                    (db_windows d)\<rparr>)" (is "db_ok ?d")
proof -
  note t = assms(1) [unfolded db_ok_def]
  have free: "\<forall>r \<in> set (db_usages d). q r \<longrightarrow> \<not> references prev_UsageSnapshotID (db_previews d) (use_ID r)"
    using assms(2) by (simp add: usage_referenced_def)
  have "previews_ok ?d (db_previews d)"
    using t references_or_null_survive [OF free] by (simp add: previews_ok_def list_all_iff)
  moreover have "usages_ok ?d (delete_rows q (db_usages d))"
    using t tables_delete(4) [of d "db_usages d" q] by (simp add: usages_ok_def)
  moreover have "windows_ok ?d (delete_rows (\<lambda>w. list_ex (\<lambda>r. q r \<and> use_ID r = fst (fst w)) (db_usages d))
                    (db_windows d))"
  proof -
    have "references use_ID (delete_rows q (db_usages d)) (fst (fst w))"
      if "references use_ID (db_usages d) (fst (fst w))"
        "\<not> list_ex (\<lambda>r. q r \<and> use_ID r = fst (fst w)) (db_usages d)" for w :: "(ID \<times> nat) \<times> UsageWindow"
      using that by (auto simp: references_iff delete_rows_def list_ex_iff)
    then show ?thesis
      using t by (simp add: windows_ok_def distinct_delete_all list_all_iff split_beta delete_rows_def
          distinct_map_filter)
  qed
  ultimately show ?thesis
    using t by (simp add: db_ok_def workspaces_ok_def profiles_ok_def credentials_ok_def sessions_ok_def
        session_row_ok_def [abs_def] attachments_ok_def leases_ok_def
        events_ok_def idempotency_ok_def approvals_ok_def materializations_ok_def enrollments_ok_def
        enrollment_row_ok_def [abs_def]
        revocations_ok_def vault_items_ok_def vault_item_row_ok_def [abs_def] vault_config_ok_def)
qed

lemma db_ok_delete_account:
  assumes "db_ok d" "\<forall>r \<in> set (db_accounts d). q r \<longrightarrow> \<not> account_referenced d (acc_ID r)"
  shows "db_ok (d\<lparr>db_accounts := delete_rows q (db_accounts d)\<rparr>)" (is "db_ok ?d")
proof -
  note t = assms(1) [unfolded db_ok_def]
  have free: "\<forall>r \<in> set (db_accounts d). q r \<longrightarrow> \<not> references prof_AccountID (db_profiles d) (acc_ID r)"
    "\<forall>r \<in> set (db_accounts d). q r \<longrightarrow> \<not> references cred_AccountID (db_credentials d) (acc_ID r)"
    "\<forall>r \<in> set (db_accounts d). q r \<longrightarrow> \<not> references ses_AccountID (db_sessions d) (acc_ID r)"
    "\<forall>r \<in> set (db_accounts d). q r \<longrightarrow> \<not> references vi_AccountID (db_vault_items d) (acc_ID r)"
    "\<forall>r \<in> set (db_accounts d). q r \<longrightarrow> \<not> references use_AccountID (db_usages d) (acc_ID r)"
    "\<forall>r \<in> set (db_accounts d). q r \<longrightarrow> \<not> references prev_AccountID (db_previews d) (acc_ID r)"
    "\<forall>r \<in> set (db_accounts d). q r \<longrightarrow> \<not> references enr_ConfirmationAccountID (db_enrollments d) (acc_ID r)"
    using assms(2) by (simp_all add: account_referenced_def)
  have "profiles_ok ?d (db_profiles d)"
    using t references_survive [OF free(1)] by (simp add: profiles_ok_def list_all_iff)
  moreover have "credentials_ok ?d (db_credentials d)"
    using t references_or_null_survive [OF free(2)] by (simp add: credentials_ok_def list_all_iff)
  moreover have "sessions_ok ?d (db_sessions d)"
    using t references_or_null_survive [OF free(3)] by (simp add: sessions_ok_def session_row_ok_def list_all_iff)
  moreover have "vault_items_ok ?d (db_vault_items d)"
    using t references_survive [OF free(4)] by (simp add: vault_items_ok_def vault_item_row_ok_def list_all_iff)
  moreover have "usages_ok ?d (db_usages d)"
    using t references_survive [OF free(5)] by (simp add: usages_ok_def list_all_iff)
  moreover have "previews_ok ?d (db_previews d)"
    using t references_survive [OF free(6)] by (simp add: previews_ok_def list_all_iff)
  moreover have "enrollments_ok ?d (db_enrollments d)"
    using t references_or_null_survive [OF free(7)]
    by (simp add: enrollments_ok_def enrollment_row_ok_def list_all_iff)
  moreover have "accounts_ok (delete_rows q (db_accounts d))" using t tables_delete(3) by simp
  ultimately show ?thesis
    using t by (simp add: db_ok_def workspaces_ok_def attachments_ok_def leases_ok_def
        events_ok_def idempotency_ok_def approvals_ok_def materializations_ok_def
        revocations_ok_def vault_config_ok_def windows_ok_def)
qed

end
