(* ===== verification/Versioned.thy ===== *)
theory Versioned
  imports GoPrelude
begin

text \<open>
  The contract the optimistic updates of the store share: an update names the version it expects,
  succeeds only when the stored version is that one, and advances it by one. Clients of a store
  rely on nothing else when they argue that no update is lost.
\<close>

text \<open>A run of update attempts; an attempt that fails leaves the state as it was.\<close>

fun cas_run :: "('k \<Rightarrow> int \<Rightarrow> 'u \<Rightarrow> 's \<Rightarrow> 's option) \<Rightarrow> ('k \<times> int \<times> 'u) list \<Rightarrow> 's \<Rightarrow> 's" where
  "cas_run cas [] s = s"
| "cas_run cas ((k, n, u) # ops) s =
     (case cas k n u s of None \<Rightarrow> cas_run cas ops s | Some s' \<Rightarrow> cas_run cas ops s')"

text \<open>The number of attempts on \<open>k\<close> from version \<open>n\<close> that succeed in the run.\<close>

fun cas_wins ::
  "('k \<Rightarrow> int \<Rightarrow> 'u \<Rightarrow> 's \<Rightarrow> 's option) \<Rightarrow> 'k \<Rightarrow> int \<Rightarrow> ('k \<times> int \<times> 'u) list \<Rightarrow> 's \<Rightarrow> nat" where
  "cas_wins cas k n [] s = 0"
| "cas_wins cas k n ((k', n', u) # ops) s =
     (case cas k' n' u s of
        None \<Rightarrow> cas_wins cas k n ops s
      | Some s' \<Rightarrow> (if k' = k \<and> n' = n then 1 else 0) + cas_wins cas k n ops s')"

locale versioned =
  fixes cas :: "'k \<Rightarrow> int \<Rightarrow> 'u \<Rightarrow> 's \<Rightarrow> 's option"
    and version :: "'k \<Rightarrow> 's \<Rightarrow> int"
    and inv :: "'s \<Rightarrow> bool"
  assumes cas_inv: "inv s \<Longrightarrow> cas k n u s = Some s' \<Longrightarrow> inv s'"
    and cas_expected: "inv s \<Longrightarrow> cas k n u s = Some s' \<Longrightarrow> version k s = n"
    and cas_advances: "inv s \<Longrightarrow> cas k n u s = Some s' \<Longrightarrow> version k s' = n + 1"
    and cas_frame: "inv s \<Longrightarrow> cas k n u s = Some s' \<Longrightarrow> k' \<noteq> k \<Longrightarrow> version k' s' = version k' s"
begin

lemma step_version:
  assumes "inv s" "cas k n u s = Some s'"
  shows "version k' s \<le> version k' s'"
proof (cases "k' = k")
  case True
  then show ?thesis using cas_expected [OF assms] cas_advances [OF assms] by simp
next
  case False
  then show ?thesis using cas_frame [OF assms False] by simp
qed

lemma run_version: "inv s \<Longrightarrow> inv (cas_run cas ops s) \<and> version k s \<le> version k (cas_run cas ops s)"
proof (induction ops arbitrary: s)
  case (Cons op ops)
  obtain k' n u where op: "op = (k', n, u)" by (cases op)
  show ?case
  proof (cases "cas k' n u s")
    case None
    then show ?thesis using Cons op by simp
  next
    case (Some s')
    then show ?thesis
      using Cons.IH [OF cas_inv [OF Cons.prems Some]] step_version [OF Cons.prems Some, of k] op by simp
  qed
qed simp

lemma stale_fails: "inv s \<Longrightarrow> n < version k s \<Longrightarrow> cas k n u s = None"
  using cas_expected by (cases "cas k n u s") auto

lemma stale_never_wins: "inv s \<Longrightarrow> n < version k s \<Longrightarrow> cas_wins cas k n ops s = 0"
proof (induction ops arbitrary: s)
  case (Cons op ops)
  obtain k' n' u where op: "op = (k', n', u)" by (cases op)
  show ?case
  proof (cases "cas k' n' u s")
    case None
    then show ?thesis using Cons op by simp
  next
    case (Some s')
    then have "inv s'" "n < version k s'" "\<not> (k' = k \<and> n' = n)"
      using Cons.prems cas_inv step_version [of s k' n' u s' k] cas_expected [of s k' n' u s'] by auto
    then show ?thesis using Cons.IH [of s'] Some op by simp
  qed
qed simp

lemma one_winner: "inv s \<Longrightarrow> cas_wins cas k n ops s \<le> 1"
proof (induction ops arbitrary: s)
  case (Cons op ops)
  obtain k' n' u where op: "op = (k', n', u)" by (cases op)
  show ?case
  proof (cases "cas k' n' u s")
    case None
    then show ?thesis using Cons op by simp
  next
    case (Some s')
    have inv: "inv s'" using Cons.prems Some cas_inv by blast
    show ?thesis
    proof (cases "k' = k \<and> n' = n")
      case True
      then have "n < version k s'" using Some Cons.prems cas_advances [of s k n u s'] by simp
      then show ?thesis using stale_never_wins [OF inv] True Some op by simp
    next
      case False
      then have "cas_wins cas k n (op # ops) s = cas_wins cas k n ops s'" using Some op by auto
      then show ?thesis using Cons.IH [OF inv] by simp
    qed
  qed
qed simp

end

end
