(* ===== verification/StoreRegistry.thy ===== *)
theory StoreRegistry
  imports SchemaDeletes Versioned
begin

text \<open>
  The first half of \<open>src/internal/storage/repository.go\<close>: devices, client identities, workspaces,
  accounts, runtime profiles and credential instances. A read is a function of the database; a
  write returns the error or the result with the new database, and a transaction that fails leaves
  the database as it was. Timestamps round-trip through \<open>formatTime\<close> and \<open>parseTime\<close>, and the
  JSON columns through \<open>json.Marshal\<close> and \<open>json.Unmarshal\<close>, so \<open>CodeSchemaIncompatible\<close> reads
  of well-formed rows do not occur. A revision is a mathematical integer.
\<close>

definition read_row :: "('r \<Rightarrow> 'k) \<Rightarrow> 'r list \<Rightarrow> 'k \<Rightarrow> error \<Rightarrow> error + 'r" where
  "read_row key rows k e = (case List.find (\<lambda>r. key r = k) rows of None \<Rightarrow> Inl e | Some r \<Rightarrow> Inr r)"

lemma read_row_ok: "read_row key rows k e = Inr r \<longleftrightarrow> List.find (\<lambda>r. key r = k) rows = Some r"
  by (simp add: read_row_def split: option.splits)

lemma read_row_key: "read_row key rows k e = Inr r \<Longrightarrow> r \<in> set rows \<and> key r = k"
  using find_key_Some [of key k rows r] by (simp add: read_row_ok)

text \<open>\<open>SELECT id \<dots> ORDER BY\<close>, then one read per identifier; the first failing read is the result.\<close>

fun read_all :: "('k \<Rightarrow> error + 'r) \<Rightarrow> 'k list \<Rightarrow> error + 'r list" where
  "read_all f [] = Inr []"
| "read_all f (k # ks) = bindE (f k) (\<lambda>r. bindE (read_all f ks) (\<lambda>rs. Inr (r # rs)))"

lemma read_all_rows:
  assumes "distinct (map key rows)" "set xs \<subseteq> set rows"
  shows "read_all (\<lambda>k. read_row key rows k e) (map key xs) = Inr xs"
  using assms(2)
proof (induction xs)
  case (Cons x xs)
  then have "read_row key rows (key x) e = Inr x"
    using find_key_unique [OF assms(1), of x] by (simp add: read_row_ok)
  with Cons show ?case by simp
qed simp

section \<open>Devices\<close>

definition CreateDevice :: "Device \<Rightarrow> db \<Rightarrow> error + (unit \<times> db)" where
  "CreateDevice device d =
     (if dev_Kind device \<noteq> DeviceKindDaemon \<or> length (dev_SigningPublicKey device) \<noteq> 32 \<or>
         dev_DisplayName device = '''' \<or> \<not> validCreatedUpdated (dev_CreatedAt device) (dev_UpdatedAt device)
      then fail CodeInvalidArgument ''invalid daemon device''
      else bindE (ValidateID (dev_ID device)) (\<lambda>_.
      if length (db_devices d) \<noteq> 0
      then fail CodeAlreadyExists ''device identity already exists''
      else bindE (sql_insert devices_ok ''device identity could not be created'' device (db_devices d)) (\<lambda>rows.
      Inr ((), d\<lparr>db_devices := rows\<rparr>))))"

definition Device_read :: "db \<Rightarrow> error + Device" where
  "Device_read d =
     (case db_devices d of
        [] \<Rightarrow> fail CodeNotFound ''device identity not found''
      | device # _ \<Rightarrow> Inr device)"

section \<open>Client identities\<close>

definition CreateClientIdentity :: "ClientIdentity \<Rightarrow> db \<Rightarrow> error + (unit \<times> db)" where
  "CreateClientIdentity client d =
     bindE (ValidateID (cli_ID client)) (\<lambda>_.
     if cli_Name client = '''' \<or> length (cli_PublicKey client) \<noteq> 32 \<or> cli_Revision client < 1 \<or>
        cli_Status client \<noteq> ClientIdentityActive \<or>
        \<not> validCreatedUpdated (cli_CreatedAt client) (cli_UpdatedAt client)
     then fail CodeInvalidArgument ''invalid client identity''
     else bindE (CanonicalCapabilities (cli_Caps client)) (\<lambda>capabilities.
     bindE (sql_insert clients_ok ''client identity could not be created''
              (client\<lparr>cli_Caps := capabilities\<rparr>) (db_clients d)) (\<lambda>rows.
     Inr ((), d\<lparr>db_clients := rows\<rparr>))))"

definition ClientIdentity_read :: "ID \<Rightarrow> db \<Rightarrow> error + ClientIdentity" where
  "ClientIdentity_read cid d =
     read_row cli_ID (db_clients d) cid (NewError CodeNotFound ''client identity not found'')"

definition ListClientIdentities :: "db \<Rightarrow> error + ClientIdentity list" where
  "ListClientIdentities d = Inr (order_by (\<lambda>x y. cli_ID x < cli_ID y) (db_clients d))"

text \<open>Both updates match the row only while it is active and at the expected revision.\<close>

definition update_client ::
  "string \<Rightarrow> ID \<Rightarrow> int \<Rightarrow> (ClientIdentity \<Rightarrow> ClientIdentity) \<Rightarrow> db \<Rightarrow> error + (ClientIdentity \<times> db)" where
  "update_client message cid expectedRevision f d =
     bindE (sql_update clients_ok message
              (\<lambda>r. cli_ID r = cid \<and> cli_Status r = ClientIdentityActive \<and> cli_Revision r = expectedRevision)
              f (db_clients d)) (\<lambda>(changed, rows).
     if changed \<noteq> 1 then fail CodeConflict ''client identity revision changed''
     else let d' = d\<lparr>db_clients := rows\<rparr>
          in bindE (ClientIdentity_read cid d') (\<lambda>client. Inr (client, d')))"

definition RotateClientIdentity ::
  "ID \<Rightarrow> int \<Rightarrow> nat list \<Rightarrow> time \<Rightarrow> db \<Rightarrow> error + (ClientIdentity \<times> db)" where
  "RotateClientIdentity cid expectedRevision publicKey now d =
     bindE (ValidateID cid) (\<lambda>_.
     if expectedRevision < 1 \<or> length publicKey \<noteq> 32 \<or> now = 0
     then fail CodeInvalidArgument ''invalid client identity rotation''
     else update_client ''client identity could not be rotated'' cid expectedRevision
            (\<lambda>r. r\<lparr>cli_PublicKey := publicKey, cli_Revision := cli_Revision r + 1, cli_UpdatedAt := now\<rparr>) d)"

definition RevokeClientIdentity ::
  "ID \<Rightarrow> int \<Rightarrow> time \<Rightarrow> db \<Rightarrow> error + (ClientIdentity \<times> db)" where
  "RevokeClientIdentity cid expectedRevision now d =
     bindE (ValidateID cid) (\<lambda>_.
     if expectedRevision < 1 \<or> now = 0
     then fail CodeInvalidArgument ''invalid client identity revocation''
     else update_client ''client identity could not be revoked'' cid expectedRevision
            (\<lambda>r. r\<lparr>cli_Status := ClientIdentityRevoked, cli_Revision := cli_Revision r + 1,
                   cli_UpdatedAt := now\<rparr>) d)"

section \<open>Workspaces\<close>

text \<open>
  \<open>json.Marshal\<close> of the tags replaces each byte that is not part of a valid UTF-8 sequence by
  U+FFFD. \<open>utf8_head\<close> is the length of the sequence at the head, by Go's table of valid ranges.
\<close>

definition utf8_head :: "nat list \<Rightarrow> nat option" where
  "utf8_head s =
     (let tail = (\<lambda>b. 128 \<le> b \<and> b \<le> 191) in
      case s of
        [] \<Rightarrow> None
      | a # r \<Rightarrow>
          if a < 128 then Some 1
          else if 194 \<le> a \<and> a \<le> 223 then
            (case r of b # _ \<Rightarrow> if tail b then Some 2 else None | [] \<Rightarrow> None)
          else if 224 \<le> a \<and> a \<le> 239 then
            (case r of b # c # _ \<Rightarrow>
               if (if a = 224 then 160 else 128) \<le> b \<and> b \<le> (if a = 237 then 159 else 191) \<and> tail c
               then Some 3 else None
             | _ \<Rightarrow> None)
          else if 240 \<le> a \<and> a \<le> 244 then
            (case r of b # c # e # _ \<Rightarrow>
               if (if a = 240 then 144 else 128) \<le> b \<and> b \<le> (if a = 244 then 143 else 191) \<and> tail c \<and> tail e
               then Some 4 else None
             | _ \<Rightarrow> None)
          else None)"

lemma utf8_head_pos: "utf8_head s = Some n \<Longrightarrow> 0 < n"
  by (auto simp: utf8_head_def Let_def split: list.splits if_splits)

function to_valid_utf8 :: "nat list \<Rightarrow> nat list" where
  "to_valid_utf8 s =
     (if s = [] then []
      else case utf8_head s of
             Some n \<Rightarrow> take n s @ to_valid_utf8 (drop n s)
           | None \<Rightarrow> [239, 191, 189] @ to_valid_utf8 (drop 1 s))"
  by pat_completeness auto
termination
proof (relation "measure length")
  fix s :: "nat list" and n
  assume "s \<noteq> []" "utf8_head s = Some n"
  then show "(drop n s, s) \<in> measure length" using utf8_head_pos [of s n] by (cases s) auto
qed auto

declare to_valid_utf8.simps [simp del]

definition json_round_trip :: "string \<Rightarrow> string" where
  "json_round_trip s = map char_of (to_valid_utf8 (map of_char s))"

definition CreateWorkspace :: "Workspace \<Rightarrow> db \<Rightarrow> error + (unit \<times> db)" where
  "CreateWorkspace workspace d =
     bindE (ValidateID (ws_ID workspace)) (\<lambda>_.
     bindE (ValidateID (ws_DeviceID workspace)) (\<lambda>_.
     if ws_Path workspace = '''' \<or> \<not> validCreatedUpdated (ws_CreatedAt workspace) (ws_UpdatedAt workspace)
     then fail CodeInvalidArgument ''workspace path is required''
     else bindE (sql_insert (workspaces_ok d) ''workspace could not be created''
                  (workspace\<lparr>ws_Tags := map json_round_trip (ws_Tags workspace)\<rparr>) (db_workspaces d)) (\<lambda>rows.
     Inr ((), d\<lparr>db_workspaces := rows\<rparr>))))"

definition Workspace_read :: "ID \<Rightarrow> db \<Rightarrow> error + Workspace" where
  "Workspace_read wid d =
     read_row ws_ID (db_workspaces d) wid (NewError CodeNotFound ''workspace not found'')"

section \<open>Accounts\<close>

definition CreateAccount :: "Account \<Rightarrow> db \<Rightarrow> error + (unit \<times> db)" where
  "CreateAccount account0 d =
     (let account1 = account0\<lparr>acc_Enabled := True\<rparr>;
          account = (if acc_Revision account1 = 0 then account1\<lparr>acc_Revision := 1\<rparr> else account1)
      in bindE (ValidateAccount account) (\<lambda>_.
         bindE (sql_insert accounts_ok ''account could not be created''
                  (account\<lparr>acc_Internal := False\<rparr>) (db_accounts d)) (\<lambda>rows.
         Inr ((), d\<lparr>db_accounts := rows\<rparr>))))"

definition Account_read :: "ID \<Rightarrow> db \<Rightarrow> error + Account" where
  "Account_read aid d =
     read_row acc_ID (db_accounts d) aid (NewError CodeAccountNotFound ''account not found'')"

definition ListAccounts :: "db \<Rightarrow> error + Account list" where
  "ListAccounts d =
     read_all (\<lambda>k. Account_read k d)
       (map acc_ID (order_by (\<lambda>x y. (acc_DisplayName x < acc_DisplayName y) \<or>
                               (acc_DisplayName x = acc_DisplayName y \<and> acc_ID x < acc_ID y))
                      (filter (\<lambda>r. \<not> acc_Internal r) (db_accounts d))))"

definition SetAccountEnabled :: "ID \<Rightarrow> bool \<Rightarrow> time \<Rightarrow> db \<Rightarrow> error + (Account \<times> db)" where
  "SetAccountEnabled aid enabled now d =
     bindE (ValidateID aid) (\<lambda>_.
     if now = 0 then fail CodeInvalidArgument ''account update requires a timestamp''
     else bindE (sql_update accounts_ok ''account status could not be updated''
                   (\<lambda>r. acc_ID r = aid \<and> \<not> acc_Internal r)
                   (\<lambda>r. r\<lparr>acc_Enabled := enabled, acc_Revision := acc_Revision r + 1, acc_UpdatedAt := now\<rparr>)
                   (db_accounts d)) (\<lambda>(changed, rows).
     if changed \<noteq> 1 then fail CodeNotFound ''account not found''
     else let d' = d\<lparr>db_accounts := rows\<rparr>
          in bindE (Account_read aid d') (\<lambda>account. Inr (account, d'))))"

definition fakeAccountID :: "ID \<Rightarrow> ID" where
  "fakeAccountID deviceID =
     (if \<not> has_prefix deviceID ''device_'' then ''''
      else ''account_'' @ trim_prefix deviceID ''device_'')"

text \<open>\<open>INSERT OR IGNORE\<close> keeps the table when the new row violates a constraint.\<close>

definition ensureFakeAccountTx :: "ID \<Rightarrow> ID \<Rightarrow> time \<Rightarrow> time \<Rightarrow> db \<Rightarrow> error + (unit \<times> db)" where
  "ensureFakeAccountTx accountID deviceID createdAt updatedAt d =
     (if accountID \<noteq> fakeAccountID deviceID \<or> ValidateID accountID \<noteq> Inr ()
      then fail CodeInvalidArgument ''invalid internal fake account''
      else
        let row = \<lparr>acc_ID = accountID, acc_Provider = ProviderFake, acc_DisplayName = ''Legacy Fake'',
                   acc_ProviderSubjectDigest = '''', acc_SubscriptionHint = '''', acc_Internal = True,
                   acc_Enabled = True, acc_Revision = 1, acc_CreatedAt = createdAt,
                   acc_UpdatedAt = updatedAt\<rparr>;
            rows = (if accounts_ok (db_accounts d @ [row]) then db_accounts d @ [row] else db_accounts d)
        in case List.find (\<lambda>r. acc_ID r = accountID) rows of
             None \<Rightarrow> Inl (writeError ''internal fake account could not be verified'')
           | Some r \<Rightarrow>
               if acc_Provider r \<noteq> ProviderFake \<or> \<not> acc_Internal r
               then fail CodeSchemaIncompatible ''internal fake account conflicts with stored data''
               else Inr ((), d\<lparr>db_accounts := rows\<rparr>))"

definition validateAccountForProvider :: "string \<Rightarrow> ID \<Rightarrow> db \<Rightarrow> error + unit" where
  "validateAccountForProvider provider accountID d =
     (if provider = ProviderCodex \<and> accountID = ''''
      then fail CodeInvalidArgument ''codex records require an account''
      else if accountID = '''' then Inr ()
      else bindE (ValidateID accountID) (\<lambda>_.
      case List.find (\<lambda>r. acc_ID r = accountID) (db_accounts d) of
        None \<Rightarrow> fail CodeNotFound ''account not found''
      | Some r \<Rightarrow>
          if acc_Provider r \<noteq> provider then fail CodeConflict ''account provider does not match record''
          else if \<not> acc_Enabled r then fail CodePermissionDenied ''account is disabled''
          else Inr ()))"

section \<open>Runtime profiles\<close>

definition profile_input_ok :: "RuntimeProfile \<Rightarrow> error + unit" where
  "profile_input_ok profile =
     bindE (ValidateID (prof_ID profile)) (\<lambda>_.
     bindE (ValidateID (prof_DeviceID profile)) (\<lambda>_.
     bindE (if prof_AccountID profile \<noteq> '''' then ValidateID (prof_AccountID profile) else Inr ()) (\<lambda>_.
     if prof_Name profile = '''' \<or> \<not> ProviderKnown (prof_Provider profile) \<or>
        (prof_Provider profile = ProviderCodex \<and> prof_AccountID profile = '''') \<or>
        \<not> json_valid (prof_Settings profile) \<or>
        \<not> validCreatedUpdated (prof_CreatedAt profile) (prof_UpdatedAt profile)
     then fail CodeInvalidArgument ''invalid runtime profile''
     else Inr ())))"

definition CreateRuntimeProfile :: "RuntimeProfile \<Rightarrow> db \<Rightarrow> error + (unit \<times> db)" where
  "CreateRuntimeProfile profile0 d =
     bindE (profile_input_ok profile0) (\<lambda>_.
     let profile1 = (if prof_AccountID profile0 = ''''
                     then profile0\<lparr>prof_AccountID := fakeAccountID (prof_DeviceID profile0)\<rparr> else profile0)
     in if ValidateID (prof_AccountID profile1) \<noteq> Inr ()
        then fail CodeInvalidArgument ''invalid runtime profile account''
        else
          let profile = profile1\<lparr>prof_CredentialInstanceID := '''', prof_SelectorAlias := '''',
                prof_SelectorKey := '''', prof_Internal := (prof_Provider profile1 = ProviderFake),
                prof_Enabled := True,
                prof_Revision := (if prof_Revision profile1 = 0 then 1 else prof_Revision profile1)\<rparr>
          in bindE (if prof_Provider profile = ProviderFake
                    then ensureFakeAccountTx (prof_AccountID profile) (prof_DeviceID profile)
                           (prof_CreatedAt profile) (prof_UpdatedAt profile) d
                    else bindE (validateAccountForProvider (prof_Provider profile) (prof_AccountID profile) d)
                           (\<lambda>_. Inr ((), d))) (\<lambda>(_, d').
             bindE (sql_insert (profiles_ok d') ''runtime profile could not be created'' profile
                      (db_profiles d')) (\<lambda>rows.
             Inr ((), d'\<lparr>db_profiles := rows\<rparr>))))"

definition RuntimeProfile_read :: "ID \<Rightarrow> db \<Rightarrow> error + RuntimeProfile" where
  "RuntimeProfile_read pid d =
     bindE (read_row prof_ID (db_profiles d) pid (NewError CodeNotFound ''runtime profile not found'')) (\<lambda>profile.
     if \<not> json_valid (prof_Settings profile)
     then fail CodeSchemaIncompatible ''stored runtime profile settings are invalid''
     else Inr profile)"

definition ListRuntimeProfiles :: "db \<Rightarrow> error + RuntimeProfile list" where
  "ListRuntimeProfiles d =
     read_all (\<lambda>k. RuntimeProfile_read k d)
       (map prof_ID (order_by (\<lambda>x y. (prof_Name x < prof_Name y) \<or>
                                (prof_Name x = prof_Name y \<and> prof_ID x < prof_ID y)) (db_profiles d)))"

definition UpdateRuntimeProfile :: "RuntimeProfile \<Rightarrow> db \<Rightarrow> error + (RuntimeProfile \<times> db)" where
  "UpdateRuntimeProfile profile d =
     bindE (profile_input_ok profile) (\<lambda>_.
     bindE (validateAccountForProvider (prof_Provider profile) (prof_AccountID profile) d) (\<lambda>_.
     bindE (sql_update (profiles_ok d) ''runtime profile could not be updated''
              (\<lambda>r. prof_ID r = prof_ID profile)
              (\<lambda>r. r\<lparr>prof_DeviceID := prof_DeviceID profile, prof_AccountID := prof_AccountID profile,
                     prof_Name := prof_Name profile, prof_Provider := prof_Provider profile,
                     prof_Settings := prof_Settings profile, prof_UpdatedAt := prof_UpdatedAt profile\<rparr>)
              (db_profiles d)) (\<lambda>(changed, rows).
     if changed \<noteq> 1 then fail CodeNotFound ''runtime profile not found''
     else let d' = d\<lparr>db_profiles := rows\<rparr>
          in bindE (RuntimeProfile_read (prof_ID profile) d') (\<lambda>p. Inr (p, d')))))"

definition DeleteRuntimeProfile :: "ID \<Rightarrow> db \<Rightarrow> error + (unit \<times> db)" where
  "DeleteRuntimeProfile pid d =
     bindE (ValidateID pid) (\<lambda>_.
     if references prof_ID (db_profiles d) pid \<and> profile_referenced d pid
     then Inl (writeError ''runtime profile could not be deleted'')
     else if count_rows (\<lambda>r. prof_ID r = pid) (db_profiles d) \<noteq> 1
     then fail CodeNotFound ''runtime profile not found''
     else Inr ((), d\<lparr>db_profiles := delete_rows (\<lambda>r. prof_ID r = pid) (db_profiles d)\<rparr>))"

section \<open>Credential instances\<close>

definition validCredentialStatus :: "CredentialStatus \<Rightarrow> bool" where
  "validCredentialStatus s =
     (s \<in> {CredentialHealthy, CredentialExpired, CredentialRevoked, CredentialUnknown})"

text \<open>The columns of the table do not hold the availability and the last validation.\<close>

definition credential_row :: "CredentialInstance \<Rightarrow> CredentialInstance" where
  "credential_row c = c\<lparr>cred_Availability := OtherAvailability '''', cred_LastValidatedAt := None\<rparr>"

definition CreateCredentialInstance :: "CredentialInstance \<Rightarrow> db \<Rightarrow> error + (unit \<times> db)" where
  "CreateCredentialInstance c d =
     bindE (ValidateID (cred_ID c)) (\<lambda>_.
     bindE (ValidateID (cred_DeviceID c)) (\<lambda>_.
     let digest = hex_decode (cred_SecretDigest c);
         validFake = (cred_Provider c = ProviderFake \<and> cred_AuthMethod c = AuthMethodFake \<and>
           cred_AccountID c = '''' \<and> has_prefix (cred_SecretRef c) ''fake:'' \<and> 0 \<le> cred_CredentialRevision c);
         validCodex = (cred_Provider c = ProviderCodex \<and>
           (cred_AuthMethod c = AuthMethodInteractive \<or> cred_AuthMethod c = AuthMethodDeviceCode) \<and>
           cred_AccountID c \<noteq> '''' \<and> has_prefix (cred_SecretRef c) ''vault:'' \<and> 1 \<le> cred_CredentialRevision c)
     in if (\<not> validFake \<and> \<not> validCodex) \<or> digest = None \<or> length (the digest) \<noteq> 32 \<or>
           \<not> validCredentialStatus (cred_Status c) \<or>
           \<not> validCreatedUpdated (cred_CreatedAt c) (cred_UpdatedAt c)
        then fail CodeInvalidArgument ''invalid credential instance''
        else bindE (validateAccountForProvider (cred_Provider c) (cred_AccountID c) d) (\<lambda>_.
        bindE (sql_insert (credentials_ok d) ''credential instance could not be created''
                 (credential_row c) (db_credentials d)) (\<lambda>rows.
        Inr ((), d\<lparr>db_credentials := rows\<rparr>)))))"

definition CredentialInstance_read :: "ID \<Rightarrow> db \<Rightarrow> error + CredentialInstance" where
  "CredentialInstance_read cid d =
     read_row cred_ID (db_credentials d) cid (NewError CodeNotFound ''credential instance not found'')"

definition ListCredentialInstances :: "db \<Rightarrow> error + CredentialInstance list" where
  "ListCredentialInstances d =
     read_all (\<lambda>k. CredentialInstance_read k d)
       (map cred_ID (order_by (\<lambda>x y. cred_ID x < cred_ID y) (db_credentials d)))"

definition UpdateCredentialStatus ::
  "ID \<Rightarrow> CredentialStatus \<Rightarrow> time \<Rightarrow> db \<Rightarrow> error + (CredentialInstance \<times> db)" where
  "UpdateCredentialStatus cid status now d =
     bindE (ValidateID cid) (\<lambda>_.
     if \<not> validCredentialStatus status \<or> now = 0
     then fail CodeInvalidArgument ''invalid credential status''
     else bindE (sql_update (credentials_ok d) ''credential status could not be updated''
                   (\<lambda>r. cred_ID r = cid) (\<lambda>r. r\<lparr>cred_Status := status, cred_UpdatedAt := now\<rparr>)
                   (db_credentials d)) (\<lambda>(changed, rows).
     if changed \<noteq> 1 then fail CodeNotFound ''credential instance not found''
     else let d' = d\<lparr>db_credentials := rows\<rparr>
          in bindE (CredentialInstance_read cid d') (\<lambda>c. Inr (c, d'))))"

definition UpdateCredentialRevisionCAS ::
  "ID \<Rightarrow> int \<Rightarrow> string \<Rightarrow> time \<Rightarrow> db \<Rightarrow> error + (CredentialInstance \<times> db)" where
  "UpdateCredentialRevisionCAS cid expectedRevision secretDigest now d =
     bindE (ValidateID cid) (\<lambda>_.
     if expectedRevision < 1 \<or> length secretDigest \<noteq> 64 \<or> now = 0
     then fail CodeInvalidArgument ''invalid credential revision update''
     else if hex_decode secretDigest = None
     then fail CodeInvalidArgument ''credential digest is invalid''
     else bindE (sql_update (credentials_ok d) ''credential revision could not be committed''
                   (\<lambda>r. cred_ID r = cid \<and> cred_CredentialRevision r = expectedRevision \<and>
                        cred_Status r = CredentialHealthy)
                   (\<lambda>r. r\<lparr>cred_CredentialRevision := i64 (expectedRevision + 1),
                          cred_SecretDigest := secretDigest, cred_UpdatedAt := now\<rparr>)
                   (db_credentials d)) (\<lambda>(changed, rows).
     if changed \<noteq> 1
     then fail CodeCredentialRevisionConflict ''credential revision is stale or unavailable''
     else let d' = d\<lparr>db_credentials := rows\<rparr>
          in bindE (CredentialInstance_read cid d') (\<lambda>c. Inr (c, d'))))"

section \<open>Rotation and revocation are versioned updates\<close>

lemma db_ok_tables:
  assumes "db_ok d"
  shows "distinct (map cli_ID (db_clients d))" "distinct (map acc_ID (db_accounts d))"
    "distinct (map prof_ID (db_profiles d))" "distinct (map cred_ID (db_credentials d))"
    "distinct (map ses_ID (db_sessions d))" "distinct (map lease_SessionID (db_leases d))"
    "distinct (map app_ID (db_approvals d))" "distinct (map enr_ID (db_enrollments d))"
    "distinct (map prev_ID (db_previews d))"
  using assms by (simp_all add: db_ok_def table_defs)

lemma update_client_ok:
  assumes "distinct (map cli_ID (db_clients d))" "\<And>r. cli_ID (f r) = cli_ID r"
  shows "update_client m cid n f d = Inr (c, d') \<longleftrightarrow>
     (\<exists>r. ClientIdentity_read cid d = Inr r \<and> cli_Status r = ClientIdentityActive \<and>
          cli_Revision r = n \<and> c = f r \<and>
          d' = d\<lparr>db_clients := update_rows (\<lambda>r. cli_ID r = cid \<and> cli_Status r = ClientIdentityActive \<and>
                                                cli_Revision r = n) f (db_clients d)\<rparr> \<and>
          clients_ok (db_clients d'))"
proof -
  let ?p = "\<lambda>r. cli_ID r = cid \<and> cli_Status r = ClientIdentityActive \<and> cli_Revision r = n"
  have cnt: "count_rows ?p (db_clients d) =
      (case List.find (\<lambda>r. cli_ID r = cid) (db_clients d) of
         Some r \<Rightarrow> if cli_Status r = ClientIdentityActive \<and> cli_Revision r = n then 1 else 0 | None \<Rightarrow> 0)"
    using count_rows_key [OF assms(1), of cid "\<lambda>r. cli_Status r = ClientIdentityActive \<and> cli_Revision r = n"] .
  have found: "List.find (\<lambda>r. cli_ID r = cid) (update_rows ?p f (db_clients d)) =
      map_option (\<lambda>r. if ?p r then f r else r) (List.find (\<lambda>r. cli_ID r = cid) (db_clients d))"
    by (rule find_update_rows) (rule assms(2))
  show ?thesis
  proof (cases "List.find (\<lambda>r. cli_ID r = cid) (db_clients d)")
    case None
    then show ?thesis
      by (auto simp: update_client_def bindE_Inr sql_update_ok ClientIdentity_read_def read_row_ok cnt)
  next
    case (Some r)
    have "cli_ID r = cid" using find_key_Some [OF Some] by simp
    with Some show ?thesis
      by (auto simp: update_client_def bindE_Inr sql_update_ok ClientIdentity_read_def read_row_ok cnt found
          Let_def)
  qed
qed

lemma client_read_key: "ClientIdentity_read k d = Inr r \<Longrightarrow> cli_ID r = k"
  unfolding ClientIdentity_read_def by (drule read_row_key) simp

datatype client_change = RotateKey "nat list" time | RevokeAt time

definition client_cas :: "ID \<Rightarrow> int \<Rightarrow> client_change \<Rightarrow> db \<Rightarrow> db option" where
  "client_cas cid n change d =
     (case (case change of RotateKey publicKey now \<Rightarrow> RotateClientIdentity cid n publicKey now d
                         | RevokeAt now \<Rightarrow> RevokeClientIdentity cid n now d) of
        Inl e \<Rightarrow> None | Inr (client, d') \<Rightarrow> Some d')"

definition client_version :: "ID \<Rightarrow> db \<Rightarrow> int" where
  "client_version cid d =
     (case ClientIdentity_read cid d of Inl e \<Rightarrow> 0 | Inr client \<Rightarrow> cli_Revision client)"

text \<open>What either operation does to the table when it succeeds.\<close>

lemma client_change_spec:
  assumes "db_ok d" "client_cas cid n change d = Some d'"
  shows "\<exists>r f. ClientIdentity_read cid d = Inr r \<and> cli_Status r = ClientIdentityActive \<and>
    cli_Revision r = n \<and> (\<forall>r. cli_ID (f r) = cli_ID r \<and> cli_Revision (f r) = cli_Revision r + 1) \<and>
    d' = d\<lparr>db_clients := update_rows (\<lambda>r. cli_ID r = cid \<and> cli_Status r = ClientIdentityActive \<and>
                                               cli_Revision r = n) f (db_clients d)\<rparr> \<and>
    clients_ok (db_clients d')"
proof (cases change)
  case (RotateKey publicKey now)
  let ?f = "\<lambda>r. r\<lparr>cli_PublicKey := publicKey, cli_Revision := cli_Revision r + 1, cli_UpdatedAt := now\<rparr>"
  have "\<exists>c. update_client ''client identity could not be rotated'' cid n ?f d = Inr (c, d')"
    using assms(2) RotateKey
    by (auto simp: client_cas_def RotateClientIdentity_def bindE_Inr split: sum.splits prod.splits if_splits)
  then show ?thesis
    by (subst (asm) update_client_ok) (auto simp: db_ok_tables(1) [OF assms(1)] intro!: exI [of _ ?f])
next
  case (RevokeAt now)
  let ?f = "\<lambda>r. r\<lparr>cli_Status := ClientIdentityRevoked, cli_Revision := cli_Revision r + 1, cli_UpdatedAt := now\<rparr>"
  have "\<exists>c. update_client ''client identity could not be revoked'' cid n ?f d = Inr (c, d')"
    using assms(2) RevokeAt
    by (auto simp: client_cas_def RevokeClientIdentity_def bindE_Inr split: sum.splits prod.splits if_splits)
  then show ?thesis
    by (subst (asm) update_client_ok) (auto simp: db_ok_tables(1) [OF assms(1)] intro!: exI [of _ ?f])
qed

lemma client_read_update:
  assumes "\<And>r. cli_ID (f r) = cli_ID r"
  shows "ClientIdentity_read k (d\<lparr>db_clients := update_rows p f (db_clients d)\<rparr>) =
         (case ClientIdentity_read k d of Inl e \<Rightarrow> Inl e | Inr r \<Rightarrow> Inr (if p r then f r else r))"
  using find_update_rows [of cli_ID f k p "db_clients d", OF assms]
  by (auto simp: ClientIdentity_read_def read_row_def split: option.splits)

lemma RevokeClientIdentity_ok:
  assumes "db_ok d"
  shows "RevokeClientIdentity k n now d = Inr (c, d') \<longleftrightarrow> valid_id k \<and> 1 \<le> n \<and> now \<noteq> 0 \<and>
    (\<exists>r. ClientIdentity_read k d = Inr r \<and> cli_Status r = ClientIdentityActive \<and> cli_Revision r = n \<and>
       c = r\<lparr>cli_Status := ClientIdentityRevoked, cli_Revision := cli_Revision r + 1, cli_UpdatedAt := now\<rparr> \<and>
       d' = d\<lparr>db_clients := update_rows (\<lambda>r. cli_ID r = k \<and> cli_Status r = ClientIdentityActive \<and> cli_Revision r = n)
          (\<lambda>r. r\<lparr>cli_Status := ClientIdentityRevoked, cli_Revision := cli_Revision r + 1, cli_UpdatedAt := now\<rparr>)
          (db_clients d)\<rparr> \<and> clients_ok (db_clients d'))"
proof -
  let ?f = "\<lambda>r. r\<lparr>cli_Status := ClientIdentityRevoked, cli_Revision := cli_Revision r + 1, cli_UpdatedAt := now\<rparr>"
  have "cli_ID (?f r) = cli_ID r" for r by simp
  note upd = update_client_ok [where f = ?f, OF db_ok_tables(1) [OF assms] this]
  show ?thesis unfolding RevokeClientIdentity_def bindE_unit if_Inl_eq_Inr upd by (simp add: not_less conj_ac)
qed

interpretation client_versions: versioned client_cas client_version db_ok
proof
  fix d k n u d'
  assume ok: "db_ok d" and step: "client_cas k n u d = Some d'"
  from client_change_spec [OF ok step] obtain r f where
    r: "ClientIdentity_read k d = Inr r" "cli_Status r = ClientIdentityActive" "cli_Revision r = n"
    and f: "\<forall>r. cli_ID (f r) = cli_ID r \<and> cli_Revision (f r) = cli_Revision r + 1"
    and d': "d' = d\<lparr>db_clients := update_rows (\<lambda>r. cli_ID r = k \<and> cli_Status r = ClientIdentityActive \<and>
                                               cli_Revision r = n) f (db_clients d)\<rparr>"
      "clients_ok (db_clients d')" by blast
  have id: "cli_ID r = k" using r(1) by (rule client_read_key)
  show "client_version k d = n" using r by (simp add: client_version_def)
  show "client_version k d' = n + 1"
    using r f id by (simp add: client_version_def d'(1) client_read_update)
  show "db_ok d'"
    using db_ok_put_clients [OF ok d'(2)] references_update_rows [of cli_ID f] f
    by (simp add: d'(1))
  fix k' assume k': "k' \<noteq> k"
  show "client_version k' d' = client_version k' d"
  proof (cases "ClientIdentity_read k' d")
    case (Inr r')
    then have "cli_ID r' = k'" by (rule client_read_key)
    then show ?thesis using Inr k' f by (simp add: client_version_def d'(1) client_read_update)
  qed (simp add: client_version_def d'(1) client_read_update f)
qed

section \<open>The registry keeps the database in order\<close>

lemma CreateDevice_ok: "CreateDevice device d = Inr (u, d') \<Longrightarrow> db_ok d \<Longrightarrow> db_ok d'"
  by (auto simp: CreateDevice_def bindE_Inr sql_insert_ok references_def intro!: db_ok_put_devices split: if_splits)

lemma CreateClientIdentity_ok: "CreateClientIdentity client d = Inr (u, d') \<Longrightarrow> db_ok d \<Longrightarrow> db_ok d'"
  by (auto simp: CreateClientIdentity_def bindE_Inr sql_insert_ok intro!: db_ok_put_clients split: if_splits)

lemma CreateWorkspace_ok: "CreateWorkspace workspace d = Inr (u, d') \<Longrightarrow> db_ok d \<Longrightarrow> db_ok d'"
  by (auto simp: CreateWorkspace_def bindE_Inr sql_insert_ok intro!: db_ok_put_workspaces split: if_splits)

lemma CreateAccount_ok: "CreateAccount account d = Inr (u, d') \<Longrightarrow> db_ok d \<Longrightarrow> db_ok d'"
  by (auto simp: CreateAccount_def bindE_Inr sql_insert_ok Let_def intro!: db_ok_put_accounts)

lemma SetAccountEnabled_ok:
  assumes "SetAccountEnabled aid enabled now d = Inr (a, d')" "db_ok d"
  shows "db_ok d'"
proof -
  let ?f = "\<lambda>r. r\<lparr>acc_Enabled := enabled, acc_Revision := acc_Revision r + 1, acc_UpdatedAt := now\<rparr>"
  obtain p where p: "accounts_ok (update_rows p ?f (db_accounts d))"
    "d' = d\<lparr>db_accounts := update_rows p ?f (db_accounts d)\<rparr>"
    using assms(1) by (auto simp: SetAccountEnabled_def bindE_Inr sql_update_ok Let_def split: if_splits)
  then show ?thesis
    using db_ok_put_accounts [OF assms(2) p(1)] references_update_rows [of acc_ID ?f p "db_accounts d"]
    by simp
qed

lemma ensureFakeAccountTx_ok:
  assumes "ensureFakeAccountTx aid did t1 t2 d = Inr (u, d')" "db_ok d"
  shows "db_ok d' \<and> (\<exists>rows. d' = d\<lparr>db_accounts := rows\<rparr>)"
proof -
  have "d' = d \<or> (\<exists>row. accounts_ok (db_accounts d @ [row]) \<and> d' = d\<lparr>db_accounts := db_accounts d @ [row]\<rparr>)"
    using assms(1) by (auto simp: ensureFakeAccountTx_def Let_def split: if_splits option.splits)
  then show ?thesis
  proof
    assume "d' = d"
    then show ?thesis using assms(2) by (auto intro: exI [of _ "db_accounts d"])
  next
    assume "\<exists>row. accounts_ok (db_accounts d @ [row]) \<and> d' = d\<lparr>db_accounts := db_accounts d @ [row]\<rparr>"
    then show ?thesis using db_ok_put_accounts [OF assms(2)] by auto
  qed
qed

lemma CreateRuntimeProfile_ok:
  assumes "CreateRuntimeProfile profile d = Inr (u, d')" "db_ok d"
  shows "db_ok d'"
proof -
  obtain d1 row where d1: "db_ok d1" and rows: "profiles_ok d1 (db_profiles d1 @ [row])"
    "d' = d1\<lparr>db_profiles := db_profiles d1 @ [row]\<rparr>"
    using assms
    by (auto simp: CreateRuntimeProfile_def bindE_Inr sql_insert_ok Let_def split: if_splits
        dest: ensureFakeAccountTx_ok)
  show ?thesis unfolding rows(2) by (rule db_ok_put_profiles [OF d1 rows(1)]) simp
qed

lemma UpdateRuntimeProfile_ok:
  assumes "UpdateRuntimeProfile profile d = Inr (p, d')" "db_ok d"
  shows "db_ok d'"
proof -
  let ?f = "\<lambda>r. r\<lparr>prof_DeviceID := prof_DeviceID profile, prof_AccountID := prof_AccountID profile,
                  prof_Name := prof_Name profile, prof_Provider := prof_Provider profile,
                  prof_Settings := prof_Settings profile, prof_UpdatedAt := prof_UpdatedAt profile\<rparr>"
  obtain q where q: "profiles_ok d (update_rows q ?f (db_profiles d))"
    "d' = d\<lparr>db_profiles := update_rows q ?f (db_profiles d)\<rparr>"
    using assms(1) by (auto simp: UpdateRuntimeProfile_def bindE_Inr sql_update_ok Let_def split: if_splits)
  then show ?thesis
    using db_ok_put_profiles [OF assms(2) q(1)] references_update_rows [of prof_ID ?f q "db_profiles d"]
    by simp
qed

lemma CreateCredentialInstance_ok: "CreateCredentialInstance c d = Inr (u, d') \<Longrightarrow> db_ok d \<Longrightarrow> db_ok d'"
  by (auto simp: CreateCredentialInstance_def bindE_Inr sql_insert_ok Let_def
      intro!: db_ok_put_credentials split: if_splits)

lemma update_credentials_ok:
  assumes "db_ok d" "credentials_ok d (update_rows q f (db_credentials d))" "\<And>r. cred_ID (f r) = cred_ID r"
  shows "db_ok (d\<lparr>db_credentials := update_rows q f (db_credentials d)\<rparr>)"
  using db_ok_put_credentials [OF assms(1,2)] references_update_rows [of cred_ID f q, OF assms(3)] by simp

lemma UpdateCredentialStatus_ok: "UpdateCredentialStatus cid status now d = Inr (c, d') \<Longrightarrow> db_ok d \<Longrightarrow> db_ok d'"
  by (auto simp: UpdateCredentialStatus_def bindE_Inr sql_update_ok Let_def
      intro!: update_credentials_ok split: if_splits)

lemma UpdateCredentialRevisionCAS_ok:
  "UpdateCredentialRevisionCAS cid n digest now d = Inr (c, d') \<Longrightarrow> db_ok d \<Longrightarrow> db_ok d'"
  by (auto simp: UpdateCredentialRevisionCAS_def bindE_Inr sql_update_ok Let_def
      intro!: update_credentials_ok split: if_splits)

lemma DeleteRuntimeProfile_ok:
  assumes "DeleteRuntimeProfile pid d = Inr (u, d')" "db_ok d"
  shows "db_ok d'"
proof -
  from assms(1) have d': "d' = d\<lparr>db_profiles := delete_rows (\<lambda>r. prof_ID r = pid) (db_profiles d)\<rparr>"
    and "references prof_ID (db_profiles d) pid \<Longrightarrow> \<not> profile_referenced d pid"
    by (auto simp: DeleteRuntimeProfile_def bindE_Inr split: if_splits)
  then have "\<forall>r \<in> set (db_profiles d). prof_ID r = pid \<longrightarrow> \<not> profile_referenced d (prof_ID r)"
    by (auto simp: references_iff)
  then show ?thesis unfolding d' by (rule db_ok_delete_profiles [OF assms(2)])
qed

end
