(* ===== verification/StoreSessions.thy ===== *)
theory StoreSessions
  imports StoreRegistry
begin

text \<open>
  Sessions and the rows that hang off them, from the second half of
  \<open>src/internal/storage/repository.go\<close>: creation with its link checks, the status transition with
  its compare-and-swap, attachments, controller leases, runtime and audit events and idempotency
  records.
\<close>

section \<open>Link checks\<close>

text \<open>
  \<open>validateSessionLinks\<close>. The column \<open>runtime_profiles.account_id\<close> is NOT NULL, so the profile
  account is always valid; a credential's account is NULL exactly when the row has the empty text.
\<close>

definition validateSessionLinks :: "Session \<Rightarrow> db \<Rightarrow> error + unit" where
  "validateSessionLinks session d =
     bindE (validateAccountForProvider (ses_Provider session) (ses_AccountID session) d) (\<lambda>_.
     case List.find (\<lambda>r. prof_ID r = ses_RuntimeProfileID session) (db_profiles d) of
       None \<Rightarrow> fail CodeNotFound ''runtime profile not found''
     | Some profile \<Rightarrow>
     if prof_DeviceID profile \<noteq> ses_DeviceID session \<or> prof_Provider profile \<noteq> ses_Provider session
     then fail CodeConflict ''session profile does not match device or provider''
     else if prof_AccountID profile \<noteq> ses_AccountID session
     then fail CodeConflict ''session profile account does not match''
     else
     case List.find (\<lambda>r. cred_ID r = ses_CredentialInstanceID session) (db_credentials d) of
       None \<Rightarrow> fail CodeNotFound ''credential instance not found''
     | Some credential \<Rightarrow>
     if cred_DeviceID credential \<noteq> ses_DeviceID session \<or> cred_Provider credential \<noteq> ses_Provider session
     then fail CodeConflict ''session credential does not match device or provider''
     else if cred_Status credential = CredentialRevoked \<or> cred_Status credential = CredentialExpired
     then fail CodePermissionDenied ''credential instance is not usable''
     else if ses_Provider session = ProviderCodex \<and>
        (cred_CredentialRevision credential < 1 \<or> cred_AccountID credential = '''' \<or>
         cred_AccountID credential \<noteq> ses_AccountID session)
     then fail CodeConflict ''session credential account or revision does not match''
     else if ses_Provider session = ProviderFake \<and> cred_AccountID credential \<noteq> ''''
     then fail CodeConflict ''legacy fake credential cannot link an account''
     else if count_rows (\<lambda>r. fst r = ses_CredentialInstanceID session) (db_revocations d) \<noteq> 0
     then fail CodePermissionDenied ''credential revocation is in progress''
     else
     case List.find (\<lambda>r. ws_ID r = ses_WorkspaceID session) (db_workspaces d) of
       None \<Rightarrow> fail CodeNotFound ''workspace not found''
     | Some workspace \<Rightarrow>
     if ws_DeviceID workspace \<noteq> ses_DeviceID session
     then fail CodeConflict ''session workspace does not match device''
     else Inr ())"

definition validateResumeSource :: "Session \<Rightarrow> db \<Rightarrow> error + unit" where
  "validateResumeSource resumed d =
     (case List.find (\<lambda>r. ses_ID r = ses_ResumedFromSessionID resumed) (db_sessions d) of
        None \<Rightarrow> fail CodeNotFound ''resume source session not found''
      | Some source \<Rightarrow>
      case ses_EndedAt source of
        None \<Rightarrow> fail CodeInvalidTransition ''resume source session is not terminal''
      | Some sourceEndedAt \<Rightarrow>
      if \<not> Terminal (ses_Status source)
      then fail CodeInvalidTransition ''resume source session is not terminal''
      else if ses_StartedAt resumed < sourceEndedAt
      then fail CodeInvalidArgument ''resumed session cannot precede source end''
      else
      case CanonicalCapabilities (ses_CapabilitySnapshot source) of
        Inl e \<Rightarrow> Inl (WrapError CodeSchemaIncompatible ''resume source capabilities are invalid'' e)
      | Inr canonicalSource \<Rightarrow>
      if canonicalSource \<noteq> ses_CapabilitySnapshot source
      then fail CodeSchemaIncompatible ''resume source capabilities are not canonical''
      else if \<not> HasCapability canonicalSource CapabilitySessionResume
      then fail CodePermissionDenied ''resume source capability is required''
      else if canonicalSource \<noteq> ses_CapabilitySnapshot resumed
      then fail CodeConflict ''resumed session changed capability snapshot''
      else if ses_DeviceID source \<noteq> ses_DeviceID resumed \<or> ses_AccountID source \<noteq> ses_AccountID resumed \<or>
         ses_Provider source \<noteq> ses_Provider resumed \<or>
         ses_CredentialInstanceID source \<noteq> ses_CredentialInstanceID resumed \<or>
         ses_RuntimeProfileID source \<noteq> ses_RuntimeProfileID resumed \<or>
         ses_WorkspaceID source \<noteq> ses_WorkspaceID resumed \<or>
         ses_ProviderSessionID source \<noteq> ses_ProviderSessionID resumed
      then fail CodeConflict ''resumed session changed frozen source fields''
      else Inr ())"

section \<open>Sessions\<close>

definition CreateSession :: "Session \<Rightarrow> db \<Rightarrow> error + (unit \<times> db)" where
  "CreateSession session0 d =
     (let session = (if ses_Provider session0 = ProviderFake \<and> ses_AccountID session0 = ''''
                     then session0\<lparr>ses_AccountID := fakeAccountID (ses_DeviceID session0)\<rparr> else session0)
      in bindE (NewSession session) (\<lambda>validated.
         bindE (CanonicalCapabilities (ses_CapabilitySnapshot validated)) (\<lambda>capabilities.
         bindE (validateSessionLinks validated d) (\<lambda>_.
         bindE (if ses_ResumedFromSessionID validated \<noteq> '''' then validateResumeSource validated d
                else Inr ()) (\<lambda>_.
         bindE (sql_insert (sessions_ok d) ''session could not be created''
                  (validated\<lparr>ses_CapabilitySnapshot := capabilities, ses_EndedAt := None,
                             ses_ExitCode := None, ses_FailureCode := ''''\<rparr>) (db_sessions d)) (\<lambda>rows.
         Inr ((), d\<lparr>db_sessions := rows\<rparr>)))))))"

definition Session_read :: "ID \<Rightarrow> db \<Rightarrow> error + Session" where
  "Session_read sid d = read_row ses_ID (db_sessions d) sid (NewError CodeNotFound ''session not found'')"

definition TransitionSession ::
  "ID \<Rightarrow> SessionStatus \<Rightarrow> SessionStatus \<Rightarrow> time \<Rightarrow> int option \<Rightarrow> string \<Rightarrow> db \<Rightarrow> error + (Session \<times> db)" where
  "TransitionSession sid expected next now exitCode failureCode d =
     bindE (Session_read sid d) (\<lambda>stored.
     if ses_Status stored \<noteq> expected then fail CodeConflict ''session status changed''
     else bindE (Transition stored next now exitCode failureCode) (\<lambda>session.
     bindE (sql_update (sessions_ok d) ''session transition could not be persisted''
              (\<lambda>r. ses_ID r = ses_ID session \<and> ses_Status r = expected)
              (\<lambda>r. r\<lparr>ses_Status := ses_Status session, ses_EndedAt := ses_EndedAt session,
                     ses_ExitCode := ses_ExitCode session, ses_FailureCode := ses_FailureCode session\<rparr>)
              (db_sessions d)) (\<lambda>(changed, rows).
     if changed \<noteq> 1 then fail CodeConflict ''session status changed''
     else Inr (session, d\<lparr>db_sessions := rows\<rparr>))))"

definition SetSessionProviderSessionID ::
  "ID \<Rightarrow> SessionStatus \<Rightarrow> string \<Rightarrow> db \<Rightarrow> error + (Session \<times> db)" where
  "SetSessionProviderSessionID sid expected providerSessionID d =
     bindE (ValidateID sid) (\<lambda>_.
     if expected \<noteq> SessionStarting \<or> providerSessionID = '''' \<or> 256 < length providerSessionID
     then fail CodeInvalidArgument ''provider session identity is invalid''
     else bindE (sql_update (sessions_ok d) ''provider session identity could not be persisted''
                   (\<lambda>r. ses_ID r = sid \<and> ses_Provider r = ProviderCodex \<and> ses_Status r = expected \<and>
                        ses_ProviderSessionID r = '''')
                   (\<lambda>r. r\<lparr>ses_ProviderSessionID := providerSessionID\<rparr>) (db_sessions d)) (\<lambda>(changed, rows).
     if changed \<noteq> 1 then fail CodeConflict ''provider session identity changed''
     else let d' = d\<lparr>db_sessions := rows\<rparr>
          in bindE (Session_read sid d') (\<lambda>session. Inr (session, d'))))"

definition ListSessions :: "db \<Rightarrow> error + Session list" where
  "ListSessions d =
     read_all (\<lambda>k. Session_read k d)
       (map ses_ID (order_by (\<lambda>x y. text_before (ses_StartedAt x) (ses_StartedAt y) \<or>
                               (ses_StartedAt x = ses_StartedAt y \<and> ses_ID x < ses_ID y)) (db_sessions d)))"

section \<open>Attachments\<close>

definition CreateAttachment :: "SessionAttachment \<Rightarrow> db \<Rightarrow> error + (unit \<times> db)" where
  "CreateAttachment attachment d =
     bindE (ValidateID (att_ID attachment)) (\<lambda>_.
     bindE (ValidateID (att_SessionID attachment)) (\<lambda>_.
     bindE (ValidateID (att_ClientDeviceID attachment)) (\<lambda>_.
     if att_Mode attachment \<noteq> AttachmentObserver \<and> att_Mode attachment \<noteq> AttachmentController
     then fail CodeInvalidArgument ''invalid attachment mode''
     else if att_ConnectedAt attachment = 0 \<or> att_LastSeenAt attachment < att_ConnectedAt attachment
     then fail CodeInvalidArgument ''invalid attachment timestamps''
     else bindE (sql_insert (attachments_ok d) ''session attachment could not be created'' attachment
                   (db_attachments d)) (\<lambda>rows.
     Inr ((), d\<lparr>db_attachments := rows\<rparr>)))))"

definition DeleteAttachment :: "ID \<Rightarrow> ID \<Rightarrow> db \<Rightarrow> error + (unit \<times> db)" where
  "DeleteAttachment sessionID clientID d =
     Inr ((), d\<lparr>db_attachments :=
       delete_rows (\<lambda>r. att_SessionID r = sessionID \<and> att_ClientDeviceID r = clientID) (db_attachments d)\<rparr>)"

section \<open>Controller leases\<close>

definition SaveControllerLease :: "ControllerLease \<Rightarrow> int \<Rightarrow> db \<Rightarrow> error + (unit \<times> db)" where
  "SaveControllerLease lease expectedRevision d =
     (if expectedRevision = 0 then
        if lease_Revision lease \<noteq> 1 then fail CodeStaleLease ''initial lease revision must be one''
        else case sql_insert (leases_ok d) '''' lease (db_leases d) of
               Inl e \<Rightarrow> Inl (WrapError CodeStaleLease ''controller lease changed'' (OtherError ''constraint failed''))
             | Inr rows \<Rightarrow> Inr ((), d\<lparr>db_leases := rows\<rparr>)
      else
        bindE (sql_update (leases_ok d) ''controller lease could not be saved''
                 (\<lambda>r. lease_SessionID r = lease_SessionID lease \<and> lease_Revision r = expectedRevision)
                 (\<lambda>r. r\<lparr>lease_HolderDeviceID := lease_HolderDeviceID lease,
                        lease_Revision := lease_Revision lease, lease_ExpiresAt := lease_ExpiresAt lease,
                        lease_LastHeartbeat := lease_LastHeartbeat lease,
                        lease_ReleasedAt := lease_ReleasedAt lease\<rparr>) (db_leases d)) (\<lambda>(changed, rows).
        if changed \<noteq> 1 then fail CodeStaleLease ''controller lease revision is stale''
        else Inr ((), d\<lparr>db_leases := rows\<rparr>)))"

definition ControllerLease_read :: "ID \<Rightarrow> db \<Rightarrow> error + ControllerLease" where
  "ControllerLease_read sessionID d =
     read_row lease_SessionID (db_leases d) sessionID (NewError CodeNotFound ''controller lease not found'')"

section \<open>Events, audit and idempotency\<close>

definition AppendRuntimeEvent :: "RuntimeEvent \<Rightarrow> db \<Rightarrow> error + (unit \<times> db)" where
  "AppendRuntimeEvent event d =
     bindE (ValidateID (evt_ID event)) (\<lambda>_.
     bindE (ValidateID (evt_SessionID event)) (\<lambda>_.
     if evt_Sequence event < 1 \<or> evt_Kind event = '''' \<or> \<not> json_valid (evt_Metadata event) \<or>
        evt_CreatedAt event = 0
     then fail CodeInvalidArgument ''invalid runtime event''
     else bindE (sql_insert (events_ok d) ''runtime event could not be appended'' event (db_events d)) (\<lambda>rows.
     Inr ((), d\<lparr>db_events := rows\<rparr>))))"

definition AppendAuditEvent :: "AuditEvent \<Rightarrow> db \<Rightarrow> error + (unit \<times> db)" where
  "AppendAuditEvent event d =
     bindE (check_all ValidateID [aud_ID event, aud_ActorID event, aud_TargetID event]) (\<lambda>_.
     if aud_Action event = '''' \<or> aud_TargetType event = '''' \<or>
        (aud_Decision event \<noteq> ''allowed'' \<and> aud_Decision event \<noteq> ''denied'' \<and> aud_Decision event \<noteq> ''failed'') \<or>
        \<not> json_valid (aud_Metadata event) \<or> aud_CreatedAt event = 0
     then fail CodeInvalidArgument ''invalid audit event''
     else bindE (sql_insert audits_ok ''audit event could not be appended'' event (db_audits d)) (\<lambda>rows.
     Inr ((), d\<lparr>db_audits := rows\<rparr>)))"

definition IdempotencyRecord_read :: "ID \<Rightarrow> string \<Rightarrow> string \<Rightarrow> db \<Rightarrow> error + IdempotencyRecord" where
  "IdempotencyRecord_read clientID m key d =
     bindE (read_row (\<lambda>r. (idem_ClientID r, idem_Method r, idem_IdempotencyKey r)) (db_idempotency d)
              (clientID, m, key) (NewError CodeNotFound ''idempotency record not found'')) (\<lambda>record.
     if \<not> json_valid (idem_ResponseMetadata record)
     then fail CodeSchemaIncompatible ''idempotency metadata is invalid''
     else Inr record)"

definition SaveIdempotencyRecord :: "IdempotencyRecord \<Rightarrow> db \<Rightarrow> error + (unit \<times> db)" where
  "SaveIdempotencyRecord record d =
     bindE (ValidateID (idem_ClientID record)) (\<lambda>_.
     if idem_Method record = '''' \<or> idem_IdempotencyKey record = '''' \<or> 128 < length (idem_Method record) \<or>
        128 < length (idem_IdempotencyKey record) \<or> length (idem_RequestDigest record) \<noteq> 64 \<or>
        idem_ResponseCode record = '''' \<or> \<not> json_valid (idem_ResponseMetadata record) \<or>
        idem_CreatedAt record = 0
     then fail CodeInvalidArgument ''invalid idempotency record''
     else bindE (sql_insert (idempotency_ok d) ''idempotency record could not be saved'' record
                   (db_idempotency d)) (\<lambda>rows.
     Inr ((), d\<lparr>db_idempotency := rows\<rparr>)))"

section \<open>The session tables stay in order\<close>

lemma CreateSession_ok: "CreateSession session d = Inr (u, d') \<Longrightarrow> db_ok d \<Longrightarrow> db_ok d'"
  by (auto simp: CreateSession_def bindE_Inr sql_insert_ok Let_def intro!: db_ok_put_sessions split: if_splits)

lemma update_sessions_ok:
  assumes "db_ok d" "sessions_ok d (update_rows q f (db_sessions d))" "\<And>r. ses_ID (f r) = ses_ID r"
  shows "db_ok (d\<lparr>db_sessions := update_rows q f (db_sessions d)\<rparr>)"
  using db_ok_put_sessions [OF assms(1,2)] references_update_rows [of ses_ID f q, OF assms(3)] by simp

lemma TransitionSession_db_ok:
  "TransitionSession sid e n now ec fc d = Inr (s, d') \<Longrightarrow> db_ok d \<Longrightarrow> db_ok d'"
  by (auto simp: TransitionSession_def bindE_Inr sql_update_ok intro!: update_sessions_ok split: if_splits)

lemma SetSessionProviderSessionID_db_ok:
  "SetSessionProviderSessionID sid e p d = Inr (s, d') \<Longrightarrow> db_ok d \<Longrightarrow> db_ok d'"
  by (auto simp: SetSessionProviderSessionID_def bindE_Inr sql_update_ok Let_def
      intro!: update_sessions_ok split: if_splits)

lemma CreateAttachment_db_ok: "CreateAttachment a d = Inr (u, d') \<Longrightarrow> db_ok d \<Longrightarrow> db_ok d'"
  by (auto simp: CreateAttachment_def bindE_Inr sql_insert_ok intro!: db_ok_put_leaf split: if_splits)

lemma DeleteAttachment_db_ok:
  assumes "DeleteAttachment s c d = Inr (u, d')" "db_ok d"
  shows "db_ok d'"
  using assms tables_delete(7) db_ok_put_leaf(1) [OF assms(2)]
  by (auto simp: DeleteAttachment_def db_ok_def)

lemma SaveControllerLease_db_ok: "SaveControllerLease l n d = Inr (u, d') \<Longrightarrow> db_ok d \<Longrightarrow> db_ok d'"
  by (auto simp: SaveControllerLease_def bindE_Inr sql_insert_ok sql_update_ok intro!: db_ok_put_leaf
      split: if_splits sum.splits)

lemma AppendRuntimeEvent_db_ok: "AppendRuntimeEvent e d = Inr (u, d') \<Longrightarrow> db_ok d \<Longrightarrow> db_ok d'"
  by (auto simp: AppendRuntimeEvent_def bindE_Inr sql_insert_ok intro!: db_ok_put_leaf split: if_splits)

lemma AppendAuditEvent_db_ok: "AppendAuditEvent e d = Inr (u, d') \<Longrightarrow> db_ok d \<Longrightarrow> db_ok d'"
  by (auto simp: AppendAuditEvent_def bindE_Inr sql_insert_ok intro!: db_ok_put_leaf split: if_splits)

lemma SaveIdempotencyRecord_db_ok: "SaveIdempotencyRecord e d = Inr (u, d') \<Longrightarrow> db_ok d \<Longrightarrow> db_ok d'"
  by (auto simp: SaveIdempotencyRecord_def bindE_Inr sql_insert_ok intro!: db_ok_put_leaf split: if_splits)

section \<open>Transitions\<close>

lemma update_status_row:
  assumes "db_ok d" "Session_read sid d = Inr s"
  shows "session_status_ok s" "ses_ID s = sid" "s \<in> set (db_sessions d)"
proof -
  show s: "s \<in> set (db_sessions d)" and "ses_ID s = sid"
    using read_row_key [OF assms(2) [unfolded Session_read_def]] by simp_all
  show "session_status_ok s"
    using assms(1) s by (auto simp: db_ok_def sessions_ok_def session_row_ok_def list_all_iff)
qed

text \<open>
  The row a legal transition writes meets the table's constraints exactly when the failure code is
  empty or the new status is \<open>failed\<close>: the domain accepts a failure code for every terminal
  status, the table only for one.
\<close>

lemma Transition_row_ok:
  assumes "Transition s n now ec fc = Inr s'" "session_status_ok s"
  shows "session_status_ok s' \<longleftrightarrow> (n = SessionFailed \<or> fc = '''')"
proof -
  have n: "n \<in> {SessionRunning, SessionStopping, SessionExited, SessionFailed, SessionKilled}"
    and s: "ses_Status s \<in> {SessionStarting, SessionRunning, SessionStopping}"
    using assms(1) by (cases "ses_Status s"; auto simp: Transition_ok)+
  then show ?thesis using assms by (auto simp: Transition_ok session_status_ok_def)
qed

lemma TransitionSession_rows:
  assumes ok: "db_ok d" and read: "Session_read sid d = Inr s" and t: "Transition s n now ec fc = Inr s'"
    and fc: "n = SessionFailed \<or> fc = ''''"
    and f: "f = (\<lambda>r. r\<lparr>ses_Status := ses_Status s', ses_EndedAt := ses_EndedAt s',
                        ses_ExitCode := ses_ExitCode s', ses_FailureCode := ses_FailureCode s'\<rparr>)"
  shows "sessions_ok d (update_rows (\<lambda>r. ses_ID r = sid \<and> ses_Status r = ses_Status s) f (db_sessions d))"
proof -
  let ?p = "\<lambda>r. ses_ID r = sid \<and> ses_Status r = ses_Status s"
  have key: "ses_ID (f r) = ses_ID r" for r by (simp add: f)
  have dist: "distinct (map ses_ID (db_sessions d))" using ok by (rule db_ok_tables)
  note s = update_status_row [OF ok read]
  have uniq: "r = s" if "r \<in> set (db_sessions d)" "ses_ID r = sid" for r
    using that s dist by (metis distinct_map inj_onD)
  have row: "f s = s'" using t by (auto simp: f Transition_ok)
  have "session_status_ok s'" using Transition_row_ok [OF t s(1)] fc by simp
  moreover have "session_row_ok d (db_sessions d) s"
    using ok s(3) by (simp add: db_ok_def sessions_ok_def list_all_iff)
  ultimately have new: "session_row_ok d (db_sessions d) s'"
    using Transition_frozen [OF t] by (simp add: session_row_ok_def)
  have "session_row_ok d (update_rows ?p f (db_sessions d)) r = session_row_ok d (db_sessions d) r" for r
    using references_update_rows [of ses_ID f ?p "db_sessions d"] key
    by (simp add: session_row_ok_def references_or_null_def)
  moreover have "\<forall>r \<in> set (db_sessions d). session_row_ok d (db_sessions d) (if ?p r then f r else r)"
    using ok uniq new row by (auto simp: db_ok_def sessions_ok_def list_all_iff)
  ultimately show ?thesis
    using dist map_update_rows [of ses_ID f ?p "db_sessions d"] key
    by (simp add: sessions_ok_def list_all_update_rows)
qed

lemma count_session:
  assumes "db_ok d" "Session_read sid d = Inr s"
  shows "count_rows (\<lambda>r. ses_ID r = sid \<and> ses_Status r = st) (db_sessions d) = (if ses_Status s = st then 1 else 0)"
  using count_rows_key [OF db_ok_tables(5) [OF assms(1)], of sid "\<lambda>r. ses_Status r = st"] assms(2)
  by (simp add: Session_read_def read_row_ok)

lemma TransitionSession_iff:
  assumes ok: "db_ok d"
  shows "TransitionSession sid e n now ec fc d = Inr (s', d') \<longleftrightarrow>
     (\<exists>s. Session_read sid d = Inr s \<and> ses_Status s = e \<and> Transition s n now ec fc = Inr s' \<and>
          (n = SessionFailed \<or> fc = '''') \<and>
          d' = d\<lparr>db_sessions := update_rows (\<lambda>r. ses_ID r = sid \<and> ses_Status r = e)
                 (\<lambda>r. r\<lparr>ses_Status := ses_Status s', ses_EndedAt := ses_EndedAt s',
                        ses_ExitCode := ses_ExitCode s', ses_FailureCode := ses_FailureCode s'\<rparr>)
                 (db_sessions d)\<rparr>)" (is "?l \<longleftrightarrow> ?r")
proof
  assume ?l
  then obtain s where s: "Session_read sid d = Inr s" "ses_Status s = e" "Transition s n now ec fc = Inr s'"
    and rows: "sessions_ok d (db_sessions d')"
    and d': "d' = d\<lparr>db_sessions := update_rows (\<lambda>r. ses_ID r = ses_ID s' \<and> ses_Status r = e)
                 (\<lambda>r. r\<lparr>ses_Status := ses_Status s', ses_EndedAt := ses_EndedAt s',
                        ses_ExitCode := ses_ExitCode s', ses_FailureCode := ses_FailureCode s'\<rparr>)
                 (db_sessions d)\<rparr>"
    by (auto simp: TransitionSession_def bindE_Inr sql_update_ok split: if_splits)
  note upd = update_status_row [OF ok s(1)]
  have id: "ses_ID s' = sid" using Transition_frozen(1) [OF s(3)] upd(2) by simp
  let ?f = "\<lambda>r. r\<lparr>ses_Status := ses_Status s', ses_EndedAt := ses_EndedAt s',
                        ses_ExitCode := ses_ExitCode s', ses_FailureCode := ses_FailureCode s'\<rparr>"
  have "?f s \<in> set (db_sessions d')" using upd s(2) id by (force simp: d' update_rows_def)
  moreover have "?f s = s'" using s(3) by (auto simp: Transition_ok)
  ultimately have "session_status_ok s'"
    using rows by (auto simp: sessions_ok_def session_row_ok_def list_all_iff)
  then show ?r using s d' id Transition_row_ok [OF s(3) upd(1)] by auto
next
  assume ?r
  then obtain s where s: "Session_read sid d = Inr s" "ses_Status s = e" "Transition s n now ec fc = Inr s'"
    and fc: "n = SessionFailed \<or> fc = ''''"
    and d': "d' = d\<lparr>db_sessions := update_rows (\<lambda>r. ses_ID r = sid \<and> ses_Status r = e)
                 (\<lambda>r. r\<lparr>ses_Status := ses_Status s', ses_EndedAt := ses_EndedAt s',
                        ses_ExitCode := ses_ExitCode s', ses_FailureCode := ses_FailureCode s'\<rparr>)
                 (db_sessions d)\<rparr>" by blast
  have id: "ses_ID s' = sid" using Transition_frozen(1) [OF s(3)] update_status_row(2) [OF ok s(1)] by simp
  show ?l
    using s d' id TransitionSession_rows [OF ok s(1) s(3) fc refl] count_session [OF ok s(1), of e]
    by (simp add: TransitionSession_def sql_update_def)
qed

lemma TransitionSession_read:
  assumes "db_ok d" "TransitionSession sid e n now ec fc d = Inr (s', d')"
  shows "Session_read k d' = (if k = sid then Inr s' else Session_read k d)"
proof -
  let ?f = "\<lambda>r. r\<lparr>ses_Status := ses_Status s', ses_EndedAt := ses_EndedAt s',
                        ses_ExitCode := ses_ExitCode s', ses_FailureCode := ses_FailureCode s'\<rparr>"
  let ?p = "\<lambda>r. ses_ID r = sid \<and> ses_Status r = e"
  from assms(2) [unfolded TransitionSession_iff [OF assms(1)]] obtain s where
    s: "Session_read sid d = Inr s" "ses_Status s = e" "Transition s n now ec fc = Inr s'"
    and d': "d' = d\<lparr>db_sessions := update_rows ?p ?f (db_sessions d)\<rparr>" by blast
  have found: "Session_read k d' = (case Session_read k d of Inl x \<Rightarrow> Inl x | Inr r \<Rightarrow> Inr (if ?p r then ?f r else r))"
    using find_update_rows [of ses_ID ?f k ?p "db_sessions d"]
    by (simp add: d' Session_read_def read_row_def split: option.split)
  show ?thesis
  proof (cases "k = sid")
    case True
    have "?f s = s'" using s(3) by (auto simp: Transition_ok)
    then show ?thesis using True found s update_status_row(2) [OF assms(1) s(1)] by simp
  next
    case False
    show ?thesis
    proof (cases "Session_read k d")
      case (Inr r)
      then have "ses_ID r = k" using update_status_row(2) [OF assms(1)] by blast
      then show ?thesis using found Inr False by simp
    qed (use found False in simp)
  qed
qed

section \<open>Every stored Session is well-formed\<close>

definition sessions_wf :: "db \<Rightarrow> bool" where
  "sessions_wf d = list_all session_wf (db_sessions d)"

lemma sessions_wf_read: "sessions_wf d \<Longrightarrow> Session_read sid d = Inr s \<Longrightarrow> session_wf s"
  unfolding Session_read_def by (drule read_row_key) (simp add: sessions_wf_def list_all_iff)

lemma CreateSession_row:
  assumes "CreateSession session d = Inr (u, d')"
  shows "\<exists>v. session_wf v \<and> ses_Status v = SessionStarting \<and> ses_ID v = ses_ID session \<and>
     validateSessionLinks v d = Inr () \<and>
     (ses_ResumedFromSessionID v \<noteq> '''' \<longrightarrow> validateResumeSource v d = Inr ()) \<and>
     d' = d\<lparr>db_sessions := db_sessions d @ [v]\<rparr>"
proof -
  define s0 where "s0 = (if ses_Provider session = ProviderFake \<and> ses_AccountID session = ''''
    then session\<lparr>ses_AccountID := fakeAccountID (ses_DeviceID session)\<rparr> else session)"
  from assms obtain v c where v: "NewSession s0 = Inr v"
    and c: "CanonicalCapabilities (ses_CapabilitySnapshot v) = Inr c"
    and links: "validateSessionLinks v d = Inr ()"
      "ses_ResumedFromSessionID v \<noteq> '''' \<longrightarrow> validateResumeSource v d = Inr ()"
    and d': "d' = d\<lparr>db_sessions := db_sessions d @ [v\<lparr>ses_CapabilitySnapshot := c, ses_EndedAt := None,
                             ses_ExitCode := None, ses_FailureCode := ''''\<rparr>]\<rparr>"
    unfolding CreateSession_def Let_def s0_def [symmetric]
    by (auto simp: bindE_Inr bindE_opt_check sql_insert_ok simp del: if_Inl_eq_Inr split: if_splits)
  note wf = NewSession_ok [OF v]
  have "v\<lparr>ses_CapabilitySnapshot := c, ses_EndedAt := None, ses_ExitCode := None, ses_FailureCode := ''''\<rparr> = v"
    using wf c by (simp add: session_wf_def)
  moreover have "ses_ID s0 = ses_ID session" by (simp add: s0_def)
  then have "ses_ID v = ses_ID session" using v by (auto simp: NewSession_iff)
  ultimately show ?thesis using wf links d' by (intro exI [of _ v]) simp
qed

lemma CreateSession_wf: "CreateSession session d = Inr (u, d') \<Longrightarrow> sessions_wf d \<Longrightarrow> sessions_wf d'"
  by (drule CreateSession_row) (auto simp: sessions_wf_def)

lemma TransitionSession_wf:
  assumes ok: "db_ok d" and wf: "sessions_wf d" and t: "TransitionSession sid e n now ec fc d = Inr (s', d')"
  shows "sessions_wf d'"
proof -
  have ok': "db_ok d'" using TransitionSession_db_ok t ok by blast
  from t [unfolded TransitionSession_iff [OF ok]] obtain s where
    s: "Session_read sid d = Inr s" "Transition s n now ec fc = Inr s'" by blast
  have new: "session_wf s'" by (rule Transition_wf [OF sessions_wf_read [OF wf s(1)] s(2)])
  have "session_wf r" if "r \<in> set (db_sessions d')" for r
  proof -
    have "Session_read (ses_ID r) d' = Inr r"
      using find_key_unique [OF db_ok_tables(5) [OF ok'] that] by (simp add: Session_read_def read_row_ok)
    then show ?thesis using TransitionSession_read [OF ok t] new sessions_wf_read [OF wf]
      by (auto split: if_splits)
  qed
  then show ?thesis by (simp add: sessions_wf_def list_all_iff)
qed

section \<open>The lease row is a versioned cell\<close>

definition lease_version :: "ID \<Rightarrow> db \<Rightarrow> int" where
  "lease_version sid d = (case ControllerLease_read sid d of Inl e \<Rightarrow> 0 | Inr l \<Rightarrow> lease_Revision l)"

lemma lease_read_key: "ControllerLease_read k d = Inr l \<Longrightarrow> lease_SessionID l = k"
  unfolding ControllerLease_read_def by (drule read_row_key) simp

lemma lease_read_revision: "db_ok d \<Longrightarrow> ControllerLease_read k d = Inr l \<Longrightarrow> 1 \<le> lease_Revision l"
  unfolding ControllerLease_read_def
  by (drule read_row_key) (simp add: db_ok_def leases_ok_def list_all_iff)

lemma SaveControllerLease_spec:
  assumes ok: "db_ok d" and save: "SaveControllerLease l n d = Inr (u, d')"
  shows "lease_version (lease_SessionID l) d = n \<and>
    ControllerLease_read k d' = (if k = lease_SessionID l then Inr l else ControllerLease_read k d)"
proof (cases "n = 0")
  case True
  with save have rows: "leases_ok d (db_leases d @ [l])" "d' = d\<lparr>db_leases := db_leases d @ [l]\<rparr>"
    by (auto simp: SaveControllerLease_def sql_insert_ok split: if_splits sum.splits)
  then have "lease_SessionID l \<notin> lease_SessionID ` set (db_leases d)" by (simp add: leases_ok_def)
  then have "List.find (\<lambda>r. lease_SessionID r = lease_SessionID l) (db_leases d) = None"
    by (simp add: find_key_None)
  then show ?thesis using True find_key_append [of lease_SessionID k "db_leases d" l]
    by (auto simp: rows(2) lease_version_def ControllerLease_read_def read_row_def split: option.splits)
next
  case False
  let ?p = "\<lambda>r. lease_SessionID r = lease_SessionID l \<and> lease_Revision r = n"
  let ?f = "\<lambda>r. r\<lparr>lease_HolderDeviceID := lease_HolderDeviceID l,
                        lease_Revision := lease_Revision l, lease_ExpiresAt := lease_ExpiresAt l,
                        lease_LastHeartbeat := lease_LastHeartbeat l,
                        lease_ReleasedAt := lease_ReleasedAt l\<rparr>"
  from False save have cnt: "count_rows ?p (db_leases d) = 1"
    and d': "d' = d\<lparr>db_leases := update_rows ?p ?f (db_leases d)\<rparr>"
    by (auto simp: SaveControllerLease_def bindE_Inr sql_update_ok split: if_splits)
  have "(case List.find (\<lambda>r. lease_SessionID r = lease_SessionID l) (db_leases d) of
      Some r \<Rightarrow> if lease_Revision r = n then 1 else 0 | None \<Rightarrow> 0) = (1::nat)"
    using count_rows_key [OF db_ok_tables(6) [OF ok], of "lease_SessionID l" "\<lambda>r. lease_Revision r = n"] cnt
    by simp
  then obtain r where r: "List.find (\<lambda>r. lease_SessionID r = lease_SessionID l) (db_leases d) = Some r"
    "lease_Revision r = n"
    by (cases "List.find (\<lambda>r. lease_SessionID r = lease_SessionID l) (db_leases d)") (auto split: if_splits)
  have found: "List.find (\<lambda>r. lease_SessionID r = k) (db_leases d') =
      map_option (\<lambda>r. if ?p r then ?f r else r) (List.find (\<lambda>r. lease_SessionID r = k) (db_leases d))"
    using find_update_rows [of lease_SessionID ?f k ?p "db_leases d"] by (simp add: d')
  have key: "lease_SessionID r = lease_SessionID l" using find_key_Some [OF r(1)] by simp
  then have "?f r = l" by (simp add: equality)
  moreover have "map_option (\<lambda>r. if ?p r then ?f r else r) (List.find (\<lambda>r. lease_SessionID r = k) (db_leases d)) =
      List.find (\<lambda>r. lease_SessionID r = k) (db_leases d)" if "k \<noteq> lease_SessionID l"
  proof (cases "List.find (\<lambda>r. lease_SessionID r = k) (db_leases d)")
    case (Some q)
    then have "lease_SessionID q = k" using find_key_Some [OF Some] by simp
    then show ?thesis using that Some by simp
  qed simp
  ultimately have "List.find (\<lambda>r. lease_SessionID r = k) (db_leases d') =
      (if k = lease_SessionID l then Some l else List.find (\<lambda>r. lease_SessionID r = k) (db_leases d))"
    using found r key by (cases "k = lease_SessionID l") (simp_all only: option.map if_True if_False simp_thms)
  then show ?thesis using r by (simp add: lease_version_def ControllerLease_read_def read_row_def)
qed

text \<open>The writes that acquisitions and releases make: they name the revision they read and add one.\<close>

definition lease_cas :: "ID \<Rightarrow> int \<Rightarrow> ControllerLease \<Rightarrow> db \<Rightarrow> db option" where
  "lease_cas sid n lease d =
     (if lease_SessionID lease = sid \<and> lease_Revision lease = n + 1
      then case SaveControllerLease lease n d of Inl e \<Rightarrow> None | Inr (u, d') \<Rightarrow> Some d'
      else None)"

interpretation lease_versions: versioned lease_cas lease_version db_ok
proof
  fix d k n l d'
  assume ok: "db_ok d" and step: "lease_cas k n l d = Some d'"
  then have l: "lease_SessionID l = k" "lease_Revision l = n + 1"
    and save: "SaveControllerLease l n d = Inr ((), d')"
    by (auto simp: lease_cas_def split: if_splits sum.splits)
  note spec = SaveControllerLease_spec [OF ok save]
  show "db_ok d'" by (rule SaveControllerLease_db_ok [OF save ok])
  show "lease_version k d = n" using spec l by blast
  show "lease_version k d' = n + 1" using spec [of k] l by (simp add: lease_version_def)
  fix k' assume "k' \<noteq> k"
  then show "lease_version k' d' = lease_version k' d" using spec [of k'] l by (simp add: lease_version_def)
qed

text \<open>
  The sequence the daemon runs for an operation on the lease: read the row, apply the domain
  operation to it, save the result against the revision that was read.
\<close>

definition stored_lease :: "ID \<Rightarrow> db \<Rightarrow> ControllerLease option" where
  "stored_lease sid d = (case ControllerLease_read sid d of Inl e \<Rightarrow> None | Inr l \<Rightarrow> Some l)"

lemma lease_version_stored: "lease_version sid d = lease_revision (stored_lease sid d)"
  by (simp add: lease_version_def stored_lease_def lease_revision_def split: sum.split)

text \<open>A save refines the domain's history: the stored lease moves by one step of the lease machine.\<close>

lemma save_refines_step:
  assumes "db_ok d" "lease_step sid (stored_lease sid d) (Some l)" "lease_SessionID l = sid"
    "SaveControllerLease l n d = Inr (u, d')"
  shows "lease_step sid (stored_lease sid d) (stored_lease sid d')"
  using assms SaveControllerLease_spec [OF assms(1,4), of sid] by (simp add: stored_lease_def)

section \<open>Resumption\<close>

text \<open>
  What \<open>Resume\<close> builds from a stored Session passes \<open>validateResumeSource\<close>, and what that check
  accepts is a copy of the frozen fields of its source.
\<close>

lemma Resume_accepted:
  assumes wf: "sessions_wf d" and ok: "db_ok d" and read: "Session_read sid d = Inr s"
    and resume: "Resume s newID now = Inr s'"
  shows "validateResumeSource s' d = Inr ()"
proof -
  have wfs: "session_wf s" by (rule sessions_wf_read [OF wf read])
  have id: "ses_ID s = sid" by (rule update_status_row(2) [OF ok read])
  have find: "List.find (\<lambda>r. ses_ID r = sid) (db_sessions d) = Some s"
    using read by (simp add: Session_read_def read_row_ok)
  note r = Resume_ok [OF resume]
  have same: "ses_CapabilitySnapshot s' = ses_CapabilitySnapshot s"
    using r(16) wfs by (simp add: session_wf_def)
  show ?thesis
    using r find id same by (auto simp: validateResumeSource_def)
qed

end
