(* ===== verification/StoreApprovals.thy ===== *)
theory StoreApprovals
  imports StoreSessions
begin

text \<open>
  Approvals in \<open>src/internal/storage/repository.go\<close>: creation, the two-phase dispatch of a decision
  (claim before the write to the Provider, then complete or fail) and the recovery after a restart.
  The digest function of \<open>crypto/sha256\<close> and the digests that SQLite's \<open>randomblob\<close> makes are
  parameters.
\<close>

section \<open>Operations\<close>

definition CreateApproval :: "Approval \<Rightarrow> db \<Rightarrow> error + (unit \<times> db)" where
  "CreateApproval approval0 d =
     (let approval = (if app_ResponseState approval0 = OtherApprovalResponseState ''''
                      then approval0\<lparr>app_ResponseState := ApprovalResponseIdle\<rparr> else approval0)
      in bindE (ValidateApproval approval) (\<lambda>_.
         case List.find (\<lambda>r. ses_ID r = app_SessionID approval) (db_sessions d) of
           None \<Rightarrow> fail CodeNotFound ''session not found''
         | Some session \<Rightarrow>
             if ses_Provider session \<noteq> ProviderCodex
             then fail CodeConflict ''approval session provider is unsupported''
             else bindE (sql_insert (approvals_ok d) ''approval could not be created'' approval
                           (db_approvals d)) (\<lambda>rows.
             Inr ((), d\<lparr>db_approvals := rows\<rparr>))))"

definition Approval_read :: "ID \<Rightarrow> db \<Rightarrow> error + Approval" where
  "Approval_read aid d = read_row app_ID (db_approvals d) aid (NewError CodeNotFound ''approval not found'')"

definition ListApprovals :: "ID \<Rightarrow> db \<Rightarrow> error + Approval list" where
  "ListApprovals sessionID d =
     bindE (ValidateID sessionID) (\<lambda>_.
     read_all (\<lambda>k. Approval_read k d)
       (map app_ID (order_by (\<lambda>x y. text_before (app_RequestedAt x) (app_RequestedAt y) \<or>
                               (app_RequestedAt x = app_RequestedAt y \<and> app_ID x < app_ID y))
                      (filter (\<lambda>r. app_SessionID r = sessionID) (db_approvals d)))))"

fun approvalDecision :: "ApprovalStatus \<Rightarrow> ApprovalDecision" where
  "approvalDecision ApprovalApproved = ApprovalDecisionApprove"
| "approvalDecision ApprovalDenied = ApprovalDecisionDeny"
| "approvalDecision ApprovalCancelled = ApprovalDecisionCancel"
| "approvalDecision _ = NoDecision"

fun approvalStatusForDecision :: "ApprovalDecision \<Rightarrow> ApprovalStatus" where
  "approvalStatusForDecision ApprovalDecisionApprove = ApprovalApproved"
| "approvalStatusForDecision ApprovalDecisionDeny = ApprovalDenied"
| "approvalStatusForDecision ApprovalDecisionCancel = ApprovalCancelled"
| "approvalStatusForDecision _ = OtherApprovalStatus ''''"

definition ClaimApprovalDispatch ::
  "ID \<Rightarrow> string \<Rightarrow> ID \<Rightarrow> string \<Rightarrow> ApprovalDecision \<Rightarrow> string \<Rightarrow> time \<Rightarrow> db \<Rightarrow> error + (Approval \<times> db)" where
  "ClaimApprovalDispatch approvalID providerApprovalID responderID responseKey decision dispatchDigest now d =
     bindE (check_all ValidateID [approvalID, responderID]) (\<lambda>_.
     if providerApprovalID = '''' \<or> responseKey = '''' \<or> 128 < length responseKey \<or>
        approvalStatusForDecision decision = OtherApprovalStatus '''' \<or> length dispatchDigest \<noteq> 64 \<or> now = 0
     then fail CodeInvalidArgument ''invalid approval dispatch claim''
     else if hex_decode dispatchDigest = None
     then fail CodeInvalidArgument ''approval dispatch digest is invalid''
     else bindE
       (case List.find (\<lambda>r. app_ID r = approvalID) (db_approvals d) of
          None \<Rightarrow> fail CodeApprovalUnknown ''approval request is unknown''
        | Some stored \<Rightarrow>
            if app_ProviderApprovalID stored \<noteq> providerApprovalID
            then fail CodeApprovalUnknown ''approval provider request is unknown''
            else if app_ResponseState stored \<noteq> ApprovalResponseIdle
            then (if app_RequestedDecision stored = decision \<and> app_RespondedByDeviceID stored = responderID \<and>
                     app_IdempotencyKey stored = responseKey \<and> app_DispatchDigest stored = dispatchDigest
                  then Inr d
                  else fail CodeConflict ''approval dispatch already has another decision'')
            else if app_Status stored \<noteq> ApprovalPending
            then fail CodeConflict ''approval is already terminal''
            else bindE (sql_update (approvals_ok d) ''approval dispatch could not be claimed''
                          (\<lambda>r. app_ID r = approvalID \<and> app_Status r = ApprovalPending \<and>
                               app_ResponseState r = ApprovalResponseIdle)
                          (\<lambda>r. r\<lparr>app_ResponseState := ApprovalResponseDispatching,
                                 app_RequestedDecision := decision, app_RespondedByDeviceID := responderID,
                                 app_IdempotencyKey := responseKey, app_DispatchDigest := dispatchDigest,
                                 app_DispatchStartedAt := Some now\<rparr>) (db_approvals d)) (\<lambda>(changed, rows).
            if changed \<noteq> 1 then fail CodeConflict ''approval changed before dispatch''
            else Inr (d\<lparr>db_approvals := rows\<rparr>))) (\<lambda>d'.
     bindE (Approval_read approvalID d') (\<lambda>approval. Inr (approval, d'))))"

definition CompleteApprovalDispatch :: "ID \<Rightarrow> string \<Rightarrow> time \<Rightarrow> db \<Rightarrow> error + (Approval \<times> db)" where
  "CompleteApprovalDispatch approvalID dispatchDigest now d =
     bindE (ValidateID approvalID) (\<lambda>_.
     if length dispatchDigest \<noteq> 64 \<or> now = 0
     then fail CodeInvalidArgument ''invalid approval dispatch completion''
     else bindE (Approval_read approvalID d) (\<lambda>approval.
     if app_DispatchDigest approval \<noteq> dispatchDigest
     then fail CodeConflict ''approval dispatch digest changed''
     else if app_ResponseState approval = ApprovalResponseWritten then Inr (approval, d)
     else if app_ResponseState approval \<noteq> ApprovalResponseDispatching
     then fail CodeConflict ''approval dispatch is not in flight''
     else
     let status = approvalStatusForDecision (app_RequestedDecision approval) in
     bindE (sql_update (approvals_ok d) ''approval dispatch could not be completed''
              (\<lambda>r. app_ID r = approvalID \<and> app_Status r = ApprovalPending \<and>
                   app_ResponseState r = ApprovalResponseDispatching \<and> app_DispatchDigest r = dispatchDigest)
              (\<lambda>r. r\<lparr>app_Status := status, app_ResponseState := ApprovalResponseWritten,
                     app_RespondedAt := Some now, app_DispatchErrorCode := ''''\<rparr>)
              (db_approvals d)) (\<lambda>(changed, rows).
     if changed \<noteq> 1 then fail CodeConflict ''approval changed before dispatch completion''
     else let d' = d\<lparr>db_approvals := rows\<rparr>
          in bindE (Approval_read approvalID d') (\<lambda>a. Inr (a, d')))))"

definition FailApprovalDispatch :: "ID \<Rightarrow> string \<Rightarrow> string \<Rightarrow> time \<Rightarrow> db \<Rightarrow> error + (Approval \<times> db)" where
  "FailApprovalDispatch approvalID dispatchDigest errorCode now d =
     bindE (ValidateID approvalID) (\<lambda>_.
     if length dispatchDigest \<noteq> 64 \<or> errorCode = '''' \<or> 64 < length errorCode \<or> now = 0
     then fail CodeInvalidArgument ''invalid approval dispatch failure''
     else bindE (Approval_read approvalID d) (\<lambda>approval.
     if app_DispatchDigest approval \<noteq> dispatchDigest
     then fail CodeConflict ''approval dispatch digest changed''
     else if app_ResponseState approval = ApprovalResponseAmbiguous \<and> app_DispatchErrorCode approval = errorCode
     then Inr (approval, d)
     else if app_ResponseState approval \<noteq> ApprovalResponseDispatching
     then fail CodeConflict ''approval dispatch is not in flight''
     else
     bindE (sql_update (approvals_ok d) ''approval dispatch failure could not be saved''
              (\<lambda>r. app_ID r = approvalID \<and> app_Status r = ApprovalPending \<and>
                   app_ResponseState r = ApprovalResponseDispatching \<and> app_DispatchDigest r = dispatchDigest)
              (\<lambda>r. r\<lparr>app_Status := ApprovalExpired, app_ResponseState := ApprovalResponseAmbiguous,
                     app_RespondedAt := Some now, app_DispatchErrorCode := errorCode\<rparr>)
              (db_approvals d)) (\<lambda>(changed, rows).
     if changed \<noteq> 1 then fail CodeConflict ''approval changed before dispatch failure''
     else let d' = d\<lparr>db_approvals := rows\<rparr>
          in bindE (Approval_read approvalID d') (\<lambda>a. Inr (a, d')))))"

text \<open>The constants of \<open>ApprovalDecision\<close> as text.\<close>

fun decision_text :: "ApprovalDecision \<Rightarrow> string" where
  "decision_text ApprovalDecisionApprove = ''approve''"
| "decision_text ApprovalDecisionDeny = ''deny''"
| "decision_text ApprovalDecisionCancel = ''cancel''"
| "decision_text (OtherApprovalDecision s) = s"

text \<open>\<open>RespondApproval\<close> claims and completes in two steps: the claim stays when the completion fails.\<close>

definition RespondApproval ::
  "(string \<Rightarrow> nat list) \<Rightarrow> ID \<Rightarrow> string \<Rightarrow> ID \<Rightarrow> string \<Rightarrow> ApprovalStatus \<Rightarrow> time \<Rightarrow> db \<Rightarrow> (error + Approval) \<times> db" where
  "RespondApproval sha256 approvalID providerApprovalID responderID responseKey decision now d =
     (let requestedDecision = approvalDecision decision in
      if requestedDecision = NoDecision then (fail CodeInvalidArgument ''invalid approval response'', d)
      else
        let dispatchDigest = hex_encode (sha256 (approvalID @ CHR 0x00 # providerApprovalID @ CHR 0x00 #
              responderID @ CHR 0x00 # responseKey @ CHR 0x00 # decision_text requestedDecision))
        in case ClaimApprovalDispatch approvalID providerApprovalID responderID responseKey requestedDecision
                  dispatchDigest now d of
             Inl e \<Rightarrow> (Inl e, d)
           | Inr (claimed, d') \<Rightarrow>
               (case CompleteApprovalDispatch approvalID dispatchDigest now d' of
                  Inl e \<Rightarrow> (Inl e, d')
                | Inr (a, d'') \<Rightarrow> (Inr a, d'')))"

text \<open>
  \<open>SELECT id FROM client_identities ORDER BY id LIMIT 1\<close>; no client gives NULL, the empty text.
\<close>

definition first_client :: "db \<Rightarrow> ID" where
  "first_client d =
     (case order_by (\<lambda>x y. x < y) (map cli_ID (db_clients d)) of [] \<Rightarrow> '''' | k # _ \<Rightarrow> k)"

definition expire_row :: "(ID \<Rightarrow> string) \<Rightarrow> db \<Rightarrow> time \<Rightarrow> Approval \<Rightarrow> Approval" where
  "expire_row random_digest d now r =
     r\<lparr>app_Status := ApprovalExpired, app_ResponseState := ApprovalResponseAmbiguous,
       app_RequestedDecision := (if app_RequestedDecision r = NoDecision then ApprovalDecisionCancel
                                 else app_RequestedDecision r),
       app_RespondedByDeviceID := (if app_RespondedByDeviceID r = '''' then first_client d
                                   else app_RespondedByDeviceID r),
       app_DispatchDigest := (if app_DispatchDigest r = '''' then random_digest (app_ID r)
                              else app_DispatchDigest r),
       app_DispatchStartedAt := (case app_DispatchStartedAt r of None \<Rightarrow> Some (app_RequestedAt r) | Some t \<Rightarrow> Some t),
       app_RespondedAt := Some now,
       app_DispatchErrorCode := (if app_ResponseState r = ApprovalResponseIdle
                                 then ''daemon_restart_before_dispatch'' else ''daemon_restart'')\<rparr>"

definition pending_row :: "Approval \<Rightarrow> bool" where
  "pending_row r =
     (app_Status r = ApprovalPending \<and>
      app_ResponseState r \<in> {ApprovalResponseIdle, ApprovalResponseDispatching})"

definition ExpirePendingApprovals :: "(ID \<Rightarrow> string) \<Rightarrow> time \<Rightarrow> db \<Rightarrow> error + (unit \<times> db)" where
  "ExpirePendingApprovals random_digest now d =
     (if now = 0 then fail CodeInvalidArgument ''approval recovery requires a timestamp''
      else bindE (sql_update (approvals_ok d) ''pending approvals could not be expired'' pending_row
                    (expire_row random_digest d now) (db_approvals d)) (\<lambda>(changed, rows).
      Inr ((), d\<lparr>db_approvals := rows\<rparr>)))"

section \<open>Constraints of the updated rows\<close>

lemma between_Nil [simp]: "between 0 n ''''"
  by (simp add: between_def sql_length_def)

lemma approval_of_read:
  assumes "db_ok d" "Approval_read aid d = Inr r"
  shows "r \<in> set (db_approvals d)" "app_ID r = aid" "approval_row_ok r" "approval_state_ok r"
    "references_or_null cli_ID (db_clients d) (app_RespondedByDeviceID r)"
proof -
  show r: "r \<in> set (db_approvals d)" and "app_ID r = aid"
    using read_row_key [OF assms(2) [unfolded Approval_read_def]] by simp_all
  show "approval_row_ok r" "references_or_null cli_ID (db_clients d) (app_RespondedByDeviceID r)"
    using assms(1) r by (simp_all add: db_ok_def approvals_ok_def list_all_iff)
  then show "approval_state_ok r" by (simp add: approval_row_ok_def)
qed

lemma approvals_ok_update:
  assumes "approvals_ok d rows"
    and keep: "\<And>r. app_ID (f r) = app_ID r" "\<And>r. app_SessionID (f r) = app_SessionID r"
      "\<And>r. app_ProviderApprovalID (f r) = app_ProviderApprovalID r"
    and new: "\<And>r. r \<in> set rows \<Longrightarrow> p r \<Longrightarrow> approval_row_ok r \<Longrightarrow>
        references_or_null cli_ID (db_clients d) (app_RespondedByDeviceID r) \<Longrightarrow>
        approval_row_ok (f r) \<and> references_or_null cli_ID (db_clients d) (app_RespondedByDeviceID (f r))"
  shows "approvals_ok d (update_rows p f rows)"
proof -
  have "map app_ID (update_rows p f rows) = map app_ID rows"
    "map (\<lambda>r. (app_SessionID r, app_ProviderApprovalID r)) (update_rows p f rows) =
     map (\<lambda>r. (app_SessionID r, app_ProviderApprovalID r)) rows"
    by (simp_all add: update_rows_def keep)
  then show ?thesis
    using assms(1) new by (simp add: approvals_ok_def list_all_update_rows list_all_iff [of _ rows] keep)
qed

lemma first_client_references: "references_or_null cli_ID (db_clients d) (first_client d)"
proof (cases "order_by (\<lambda>x y. x < y) (map cli_ID (db_clients d))")
  case Nil
  then show ?thesis by (simp add: first_client_def references_or_null_def)
next
  case (Cons k ks)
  then have "k \<in> set (order_by (\<lambda>x y. x < y) (map cli_ID (db_clients d)))" by simp
  then have "k \<in> set (map cli_ID (db_clients d))" by (simp only: set_order_by)
  then show ?thesis using Cons by (auto simp: first_client_def references_or_null_def references_iff)
qed

lemma sql_length_ascii:
  "\<forall>c \<in> set s. (of_char c :: nat) < 128 \<and> c \<noteq> CHR 0x00 \<Longrightarrow> sql_length s = length s"
proof -
  assume a: "\<forall>c \<in> set s. (of_char c :: nat) < 128 \<and> c \<noteq> CHR 0x00"
  then have "takeWhile (\<lambda>c. c \<noteq> CHR 0x00) s = s" by (simp add: takeWhile_eq_all_conv)
  moreover have "\<forall>c \<in> set s. \<not> (128 \<le> (of_char c :: nat) \<and> (of_char c :: nat) < 192)"
    using a by (simp add: not_le)
  then have "filter (\<lambda>c. \<not> (128 \<le> (of_char c :: nat) \<and> (of_char c :: nat) < 192)) s = s"
    by (simp only: filter_id_conv)
  ultimately show ?thesis by (simp only: sql_length_def)
qed

lemma between_hex:
  assumes "hex_decode s \<noteq> None" "length s = n"
  shows "between n n s"
proof -
  have "\<forall>c \<in> set s. hex_val c \<noteq> None" using assms(1) hex_decode_iff [of s] by auto
  moreover have "(of_char c :: nat) < 128 \<and> c \<noteq> CHR 0x00" if "hex_val c \<noteq> None" for c
    using that by (auto simp: hex_val_def Let_def split: if_splits)
  ultimately have "sql_length s = n" using sql_length_ascii [of s] assms(2) by blast
  then show ?thesis by (simp add: between_def)
qed

lemma expire_row_ok:
  assumes "approval_row_ok r" "pending_row r" "between 64 64 (random_digest (app_ID r))"
  shows "approval_row_ok (expire_row random_digest d now r)"
proof -
  have "random_digest (app_ID r) \<noteq> ''''" using assms(3) by (auto simp: between_def sql_length_def)
  moreover have "between 0 64 ''daemon_restart_before_dispatch''" "between 0 64 ''daemon_restart''"
    by (simp_all add: between_def sql_length_def)
  ultimately show ?thesis
    using assms by (auto simp: approval_row_ok_def approval_state_ok_def pending_row_def expire_row_def
        ApprovalStatusKnown_def split: option.splits)
qed

lemma ExpirePending_succeeds:
  assumes "db_ok d" "now \<noteq> 0" "\<forall>k. between 64 64 (random_digest k)"
  shows "ExpirePendingApprovals random_digest now d =
    Inr ((), d\<lparr>db_approvals := update_rows pending_row (expire_row random_digest d now) (db_approvals d)\<rparr>)"
proof -
  have "approvals_ok d (update_rows pending_row (expire_row random_digest d now) (db_approvals d))"
  proof (rule approvals_ok_update)
    show "approvals_ok d (db_approvals d)" using assms(1) by (simp add: db_ok_def)
    fix r assume "pending_row r" "approval_row_ok r"
      "references_or_null cli_ID (db_clients d) (app_RespondedByDeviceID r)"
    then show "approval_row_ok (expire_row random_digest d now r) \<and>
        references_or_null cli_ID (db_clients d) (app_RespondedByDeviceID (expire_row random_digest d now r))"
      using expire_row_ok [of r random_digest d now] assms(3) first_client_references [of d]
      by (simp add: expire_row_def)
  qed (simp_all add: expire_row_def)
  then show ?thesis using assms(2) by (simp add: ExpirePendingApprovals_def sql_update_def)
qed

section \<open>Every operation keeps the database in order\<close>

lemma CreateApproval_db_ok: "CreateApproval a d = Inr (u, d') \<Longrightarrow> db_ok d \<Longrightarrow> db_ok d'"
  by (auto simp: CreateApproval_def bindE_Inr sql_insert_ok Let_def intro!: db_ok_put_leaf
      split: if_splits option.splits)

lemma ClaimApprovalDispatch_db_ok:
  "ClaimApprovalDispatch a p r k c g now d = Inr (x, d') \<Longrightarrow> db_ok d \<Longrightarrow> db_ok d'"
  by (auto simp: ClaimApprovalDispatch_def bindE_Inr sql_update_ok intro!: db_ok_put_leaf
      split: if_splits option.splits)

lemma CompleteApprovalDispatch_db_ok:
  "CompleteApprovalDispatch a g now d = Inr (x, d') \<Longrightarrow> db_ok d \<Longrightarrow> db_ok d'"
  by (auto simp: CompleteApprovalDispatch_def bindE_Inr sql_update_ok Let_def intro!: db_ok_put_leaf
      split: if_splits)

lemma FailApprovalDispatch_db_ok:
  "FailApprovalDispatch a g e now d = Inr (x, d') \<Longrightarrow> db_ok d \<Longrightarrow> db_ok d'"
  by (auto simp: FailApprovalDispatch_def bindE_Inr sql_update_ok Let_def intro!: db_ok_put_leaf
      split: if_splits)

lemma ExpirePendingApprovals_db_ok:
  "ExpirePendingApprovals g now d = Inr (x, d') \<Longrightarrow> db_ok d \<Longrightarrow> db_ok d'"
  by (auto simp: ExpirePendingApprovals_def bindE_Inr sql_update_ok intro!: db_ok_put_leaf split: if_splits)

section \<open>A recorded decision is final\<close>

text \<open>
  How a stored approval may change: an idle one may receive a decision, a decided one keeps its
  decision, responder, key and digest, and one whose response is written or ambiguous is frozen.
\<close>

definition approval_progress :: "Approval \<Rightarrow> Approval \<Rightarrow> bool" where
  "approval_progress r r' \<longleftrightarrow>
     app_ID r' = app_ID r \<and>
     (app_ResponseState r \<noteq> ApprovalResponseIdle \<longrightarrow>
        app_ResponseState r' \<noteq> ApprovalResponseIdle \<and>
        app_RequestedDecision r' = app_RequestedDecision r \<and>
        app_RespondedByDeviceID r' = app_RespondedByDeviceID r \<and>
        app_IdempotencyKey r' = app_IdempotencyKey r \<and> app_DispatchDigest r' = app_DispatchDigest r) \<and>
     (app_ResponseState r \<in> {ApprovalResponseWritten, ApprovalResponseAmbiguous} \<longrightarrow> r' = r)"

lemma approval_progress_refl [simp]: "approval_progress r r"
  by (simp add: approval_progress_def)

lemma approval_progress_trans:
  "approval_progress r r' \<Longrightarrow> approval_progress r' r'' \<Longrightarrow> approval_progress r r''"
  unfolding approval_progress_def by auto

definition approvals_progress :: "db \<Rightarrow> db \<Rightarrow> bool" where
  "approvals_progress d d' \<longleftrightarrow>
     (\<forall>aid r. Approval_read aid d = Inr r \<longrightarrow> (\<exists>r'. Approval_read aid d' = Inr r' \<and> approval_progress r r'))"

lemma approvals_progress_same:
  "db_approvals d' = db_approvals d \<Longrightarrow> approvals_progress d d'"
  by (simp add: approvals_progress_def Approval_read_def)

lemma approvals_progress_append:
  "db_approvals d' = db_approvals d @ [r] \<Longrightarrow> approvals_progress d d'"
  using find_key_append [of app_ID _ "db_approvals d" r]
  by (auto simp: approvals_progress_def Approval_read_def read_row_def split: option.splits)

lemma read_update_approval:
  assumes "\<And>r. app_ID (f r) = app_ID r" "Approval_read aid d = Inr r"
  shows "Approval_read aid (d\<lparr>db_approvals := update_rows p f (db_approvals d)\<rparr>) = Inr (if p r then f r else r)"
  using find_update_rows [of app_ID f aid p "db_approvals d", OF assms(1)] assms(2)
  by (simp add: Approval_read_def read_row_ok)

lemma approvals_progress_update:
  assumes "db_ok d" "\<And>r. app_ID (f r) = app_ID r"
    "\<And>r. p r \<Longrightarrow> approval_state_ok r \<Longrightarrow> approval_progress r (f r)"
    "db_approvals d' = update_rows p f (db_approvals d)"
  shows "approvals_progress d d'"
  unfolding approvals_progress_def
proof (intro allI impI)
  fix aid r assume r: "Approval_read aid d = Inr r"
  have "Approval_read aid d' = Inr (if p r then f r else r)"
    using read_update_approval [of f aid d r p, OF assms(2) r] assms(4) by (simp add: Approval_read_def)
  then show "\<exists>r'. Approval_read aid d' = Inr r' \<and> approval_progress r r'"
    using assms(3) approval_of_read(4) [OF assms(1) r] by auto
qed

definition complete_row :: "ApprovalStatus \<Rightarrow> time \<Rightarrow> Approval \<Rightarrow> Approval" where
  "complete_row status now r =
     r\<lparr>app_Status := status, app_ResponseState := ApprovalResponseWritten,
       app_RespondedAt := Some now, app_DispatchErrorCode := ''''\<rparr>"

lemma CompleteApprovalDispatch_rows:
  assumes "CompleteApprovalDispatch aid digest now d = Inr (a, d')"
  shows "\<exists>r. Approval_read aid d = Inr r \<and> app_DispatchDigest r = digest \<and>
     (d' = d \<or> app_ResponseState r = ApprovalResponseDispatching \<and>
       d' = d\<lparr>db_approvals := update_rows (\<lambda>r. app_ID r = aid \<and> app_Status r = ApprovalPending \<and>
                app_ResponseState r = ApprovalResponseDispatching \<and> app_DispatchDigest r = digest)
              (complete_row (approvalStatusForDecision (app_RequestedDecision r)) now) (db_approvals d)\<rparr>)"
proof -
  from assms obtain r where r: "Approval_read aid d = Inr r" "app_DispatchDigest r = digest"
    by (auto simp: CompleteApprovalDispatch_def bindE_Inr)
  then show ?thesis using assms
    by (auto simp: CompleteApprovalDispatch_def bindE_Inr sql_update_ok Let_def complete_row_def [abs_def]
        split: if_splits)
qed

definition fail_row :: "string \<Rightarrow> time \<Rightarrow> Approval \<Rightarrow> Approval" where
  "fail_row code now r =
     r\<lparr>app_Status := ApprovalExpired, app_ResponseState := ApprovalResponseAmbiguous,
       app_RespondedAt := Some now, app_DispatchErrorCode := code\<rparr>"

lemma FailApprovalDispatch_rows:
  assumes "FailApprovalDispatch aid digest code now d = Inr (a, d')"
  shows "\<exists>r. Approval_read aid d = Inr r \<and> app_DispatchDigest r = digest \<and>
     (d' = d \<or> app_ResponseState r = ApprovalResponseDispatching \<and>
       d' = d\<lparr>db_approvals := update_rows (\<lambda>r. app_ID r = aid \<and> app_Status r = ApprovalPending \<and>
                app_ResponseState r = ApprovalResponseDispatching \<and> app_DispatchDigest r = digest)
              (fail_row code now) (db_approvals d)\<rparr>)"
proof -
  from assms obtain r where r: "Approval_read aid d = Inr r" "app_DispatchDigest r = digest"
    by (auto simp: FailApprovalDispatch_def bindE_Inr)
  then show ?thesis using assms
    by (auto simp: FailApprovalDispatch_def bindE_Inr sql_update_ok Let_def fail_row_def [abs_def]
        split: if_splits)
qed

inductive approval_op :: "db \<Rightarrow> db \<Rightarrow> bool" where
  create: "CreateApproval a d = Inr ((), d') \<Longrightarrow> approval_op d d'"
| claim: "ClaimApprovalDispatch aid pid rid key decision digest now d = Inr (a, d') \<Longrightarrow> approval_op d d'"
| complete: "CompleteApprovalDispatch aid digest now d = Inr (a, d') \<Longrightarrow> approval_op d d'"
| failed: "FailApprovalDispatch aid digest code now d = Inr (a, d') \<Longrightarrow> approval_op d d'"
| expire: "ExpirePendingApprovals random_digest now d = Inr ((), d') \<Longrightarrow> approval_op d d'"

lemma approval_op_db_ok: "approval_op d d' \<Longrightarrow> db_ok d \<Longrightarrow> db_ok d'"
  by (induction rule: approval_op.induct)
    (blast intro: CreateApproval_db_ok ClaimApprovalDispatch_db_ok CompleteApprovalDispatch_db_ok
      FailApprovalDispatch_db_ok ExpirePendingApprovals_db_ok)+

lemma approval_op_progress:
  assumes "approval_op d d'" "db_ok d"
  shows "approvals_progress d d'"
  using assms(1)
proof cases
  case (create a)
  then obtain r where "db_approvals d' = db_approvals d @ [r]"
    by (auto simp: CreateApproval_def bindE_Inr sql_insert_ok Let_def split: if_splits option.splits)
  then show ?thesis by (rule approvals_progress_append)
next
  case (claim aid pid rid key decision digest now a)
  let ?p = "\<lambda>r. app_ID r = aid \<and> app_Status r = ApprovalPending \<and> app_ResponseState r = ApprovalResponseIdle"
  let ?f = "\<lambda>r. r\<lparr>app_ResponseState := ApprovalResponseDispatching,
                  app_RequestedDecision := decision, app_RespondedByDeviceID := rid,
                  app_IdempotencyKey := key, app_DispatchDigest := digest,
                  app_DispatchStartedAt := Some now\<rparr>"
  have "d' = d \<or> db_approvals d' = update_rows ?p ?f (db_approvals d)"
    using claim by (auto simp: ClaimApprovalDispatch_def bindE_Inr sql_update_ok split: if_splits option.splits)
  moreover have "approvals_progress d d'" if "db_approvals d' = update_rows ?p ?f (db_approvals d)"
    by (rule approvals_progress_update [OF assms(2) _ _ that]) (simp_all add: approval_progress_def)
  ultimately show ?thesis using approvals_progress_same [of d' d] by (elim disjE) simp_all
next
  case (complete aid digest now a)
  let ?p = "\<lambda>r. app_ID r = aid \<and> app_Status r = ApprovalPending \<and>
                app_ResponseState r = ApprovalResponseDispatching \<and> app_DispatchDigest r = digest"
  note rows = CompleteApprovalDispatch_rows [OF complete]
  have upd: "approvals_progress d d'"
    if "db_approvals d' = update_rows ?p (complete_row st now) (db_approvals d)" for st
    by (rule approvals_progress_update [OF assms(2) _ _ that])
       (simp_all add: approval_progress_def complete_row_def)
  show ?thesis using rows
  proof (elim exE conjE disjE)
    assume "d' = d"
    then show ?thesis by (simp add: approvals_progress_same)
  qed (rule upd, simp)
next
  case (failed aid digest code now a)
  let ?p = "\<lambda>r. app_ID r = aid \<and> app_Status r = ApprovalPending \<and>
                app_ResponseState r = ApprovalResponseDispatching \<and> app_DispatchDigest r = digest"
  note rows = FailApprovalDispatch_rows [OF failed]
  have upd: "approvals_progress d d'"
    if "db_approvals d' = update_rows ?p (fail_row code now) (db_approvals d)"
    by (rule approvals_progress_update [OF assms(2) _ _ that])
       (simp_all add: approval_progress_def fail_row_def)
  show ?thesis using rows
  proof (elim exE conjE disjE)
    assume "d' = d"
    then show ?thesis by (simp add: approvals_progress_same)
  qed (rule upd, simp)
next
  case (expire random_digest now)
  then have "db_approvals d' = update_rows pending_row (expire_row random_digest d now) (db_approvals d)"
    by (auto simp: ExpirePendingApprovals_def bindE_Inr sql_update_ok split: if_splits)
  moreover have "approval_progress r (expire_row random_digest d now r)"
    if "pending_row r" "approval_state_ok r" for r
  proof (cases "app_ResponseState r = ApprovalResponseIdle")
    case True
    then show ?thesis by (simp add: approval_progress_def expire_row_def)
  next
    case False
    then have "app_ResponseState r = ApprovalResponseDispatching" using that(1) by (simp add: pending_row_def)
    then show ?thesis using that(2) by (simp add: approval_progress_def approval_state_ok_def expire_row_def)
  qed
  ultimately show ?thesis
    by (intro approvals_progress_update [OF assms(2)]) (simp_all add: expire_row_def)
qed

lemma approval_ops_progress:
  "approval_op\<^sup>*\<^sup>* d d' \<Longrightarrow> db_ok d \<Longrightarrow> db_ok d' \<and> approvals_progress d d'"
proof (induction rule: rtranclp_induct)
  case base
  then show ?case by (simp add: approvals_progress_same)
next
  case (step d1 d2)
  then have ok: "db_ok d1" "approvals_progress d d1" "db_ok d2" "approvals_progress d1 d2"
    using approval_op_db_ok approval_op_progress by blast+
  then show ?case unfolding approvals_progress_def by (blast intro: approval_progress_trans)
qed

section \<open>Claims\<close>

definition claim_input_ok :: "ID \<Rightarrow> string \<Rightarrow> ID \<Rightarrow> string \<Rightarrow> ApprovalDecision \<Rightarrow> string \<Rightarrow> time \<Rightarrow> bool" where
  "claim_input_ok aid pid rid key decision digest now \<longleftrightarrow>
     valid_id aid \<and> valid_id rid \<and> pid \<noteq> '''' \<and> key \<noteq> '''' \<and> length key \<le> 128 \<and>
     decision \<in> {ApprovalDecisionApprove, ApprovalDecisionDeny, ApprovalDecisionCancel} \<and>
     length digest = 64 \<and> now \<noteq> 0 \<and> hex_decode digest \<noteq> None"

definition claim_row :: "ApprovalDecision \<Rightarrow> ID \<Rightarrow> string \<Rightarrow> string \<Rightarrow> time \<Rightarrow> Approval \<Rightarrow> Approval" where
  "claim_row decision rid key digest now r =
     r\<lparr>app_ResponseState := ApprovalResponseDispatching, app_RequestedDecision := decision,
       app_RespondedByDeviceID := rid, app_IdempotencyKey := key, app_DispatchDigest := digest,
       app_DispatchStartedAt := Some now\<rparr>"

lemma decision_known:
  "approvalStatusForDecision decision = OtherApprovalStatus '''' \<longleftrightarrow>
     decision \<notin> {ApprovalDecisionApprove, ApprovalDecisionDeny, ApprovalDecisionCancel}"
  by (cases decision) simp_all

lemma count_approval:
  assumes "db_ok d" "Approval_read aid d = Inr r"
  shows "count_rows (\<lambda>r. app_ID r = aid \<and> q r) (db_approvals d) = (if q r then 1 else 0)"
  using count_rows_key [OF db_ok_tables(7) [OF assms(1)], of aid q] assms(2)
  by (simp add: Approval_read_def read_row_ok)

lemma Claim_stored:
  assumes "claim_input_ok aid pid rid key decision digest now" "Approval_read aid d = Inr r"
    "app_ProviderApprovalID r = pid" "app_ResponseState r \<noteq> ApprovalResponseIdle"
  shows "ClaimApprovalDispatch aid pid rid key decision digest now d =
    (if app_RequestedDecision r = decision \<and> app_RespondedByDeviceID r = rid \<and>
        app_IdempotencyKey r = key \<and> app_DispatchDigest r = digest
     then Inr (r, d) else fail CodeConflict ''approval dispatch already has another decision'')"
proof -
  have "List.find (\<lambda>r. app_ID r = aid) (db_approvals d) = Some r"
    using assms(2) by (simp add: Approval_read_def read_row_ok)
  then show ?thesis
    using assms by (auto simp: ClaimApprovalDispatch_def claim_input_ok_def decision_known not_less)
qed

lemma Claim_idle:
  assumes ok: "db_ok d" and inp: "claim_input_ok aid pid rid key decision digest now"
    and read: "Approval_read aid d = Inr r" and pid: "app_ProviderApprovalID r = pid"
    and idle: "app_ResponseState r = ApprovalResponseIdle"
    and client: "references cli_ID (db_clients d) rid" and key: "1 \<le> sql_length key"
  shows "ClaimApprovalDispatch aid pid rid key decision digest now d =
    Inr (claim_row decision rid key digest now r,
         d\<lparr>db_approvals := update_rows (\<lambda>r. app_ID r = aid \<and> app_Status r = ApprovalPending \<and>
                app_ResponseState r = ApprovalResponseIdle) (claim_row decision rid key digest now)
              (db_approvals d)\<rparr>)"
proof -
  let ?p = "\<lambda>r. app_ID r = aid \<and> app_Status r = ApprovalPending \<and> app_ResponseState r = ApprovalResponseIdle"
  let ?f = "claim_row decision rid key digest now"
  have status: "app_Status r = ApprovalPending"
    using approval_of_read(4) [OF ok read] idle by (simp add: approval_state_ok_def)
  have id: "app_ID r = aid" by (rule approval_of_read(2) [OF ok read])
  have "between 64 64 digest" using inp between_hex [of digest] by (simp add: claim_input_ok_def)
  moreover have "between 1 128 key" using inp key sql_length_le [of key] by (simp add: between_def claim_input_ok_def)
  moreover have "digest \<noteq> ''''" "rid \<noteq> ''''" "decision \<noteq> NoDecision"
    using inp by (auto simp: claim_input_ok_def ValidateID_iff last_index_byte_def)
  ultimately have "approvals_ok d (update_rows ?p ?f (db_approvals d))"
  proof (intro approvals_ok_update)
    show "approvals_ok d (db_approvals d)" using ok by (simp add: db_ok_def)
    fix r assume a: "between 64 64 digest" "between 1 128 key" "digest \<noteq> ''''" "rid \<noteq> ''''" "decision \<noteq> NoDecision"
      "?p r" "approval_row_ok r"
    then show "approval_row_ok (?f r) \<and> references_or_null cli_ID (db_clients d) (app_RespondedByDeviceID (?f r))"
      using inp client
      by (simp add: approval_row_ok_def claim_row_def approval_state_ok_def references_or_null_def claim_input_ok_def)
  qed (simp_all add: claim_row_def)
  moreover have "count_rows ?p (db_approvals d) = 1" using count_approval [OF ok read] status idle by simp
  moreover have "Approval_read aid (d\<lparr>db_approvals := update_rows ?p ?f (db_approvals d)\<rparr>) = Inr (?f r)"
    using read_update_approval [of ?f aid d r ?p] read status idle id by (simp add: claim_row_def)
  moreover have "List.find (\<lambda>r. app_ID r = aid) (db_approvals d) = Some r"
    using read by (simp add: Approval_read_def read_row_ok)
  ultimately show ?thesis
    using inp pid status idle
    by (simp add: ClaimApprovalDispatch_def claim_input_ok_def decision_known not_less sql_update_def
        claim_row_def [abs_def])
qed

lemma Complete_dispatching:
  assumes ok: "db_ok d" and read: "Approval_read aid d = Inr r" and digest: "app_DispatchDigest r = digest"
    and st: "app_ResponseState r = ApprovalResponseDispatching"
    and inp: "valid_id aid" "length digest = 64" "now \<noteq> 0"
  shows "\<exists>d'. CompleteApprovalDispatch aid digest now d =
    Inr (complete_row (approvalStatusForDecision (app_RequestedDecision r)) now r, d')"
proof -
  let ?s = "approvalStatusForDecision (app_RequestedDecision r)"
  let ?p = "\<lambda>r. app_ID r = aid \<and> app_Status r = ApprovalPending \<and>
                app_ResponseState r = ApprovalResponseDispatching \<and> app_DispatchDigest r = digest"
  let ?f = "complete_row ?s now"
  have row: "app_Status r = ApprovalPending" using approval_of_read(4) [OF ok read] st by (simp add: approval_state_ok_def)
  have id: "app_ID r = aid" by (rule approval_of_read(2) [OF ok read])
  have uniq: "q = r" if "q \<in> set (db_approvals d)" "app_ID q = aid" for q
    using that approval_of_read(1,2) [OF ok read] db_ok_tables(7) [OF ok] by (metis distinct_map inj_onD)
  have new: "approval_row_ok (?f r)"
    using approval_of_read(3) [OF ok read] st row
    by (cases "app_RequestedDecision r")
       (auto simp: approval_row_ok_def approval_state_ok_def complete_row_def ApprovalStatusKnown_def
         between_def sql_length_def)
  have "approvals_ok d (update_rows ?p ?f (db_approvals d))"
  proof (rule approvals_ok_update)
    show "approvals_ok d (db_approvals d)" using ok by (simp add: db_ok_def)
    fix q assume "q \<in> set (db_approvals d)" "?p q"
      "references_or_null cli_ID (db_clients d) (app_RespondedByDeviceID q)"
    then show "approval_row_ok (?f q) \<and> references_or_null cli_ID (db_clients d) (app_RespondedByDeviceID (?f q))"
      using uniq [of q] new by (auto simp: complete_row_def)
  qed (simp_all add: complete_row_def)
  moreover have "count_rows ?p (db_approvals d) = 1"
    using count_approval [OF ok read] row st digest by simp
  moreover have "Approval_read aid (d\<lparr>db_approvals := update_rows ?p ?f (db_approvals d)\<rparr>) = Inr (?f r)"
    using read_update_approval [of ?f aid d r ?p] read row st digest id by (simp add: complete_row_def)
  ultimately show ?thesis
    using inp read digest st
    by (simp add: CompleteApprovalDispatch_def sql_update_def Let_def complete_row_def [abs_def])
qed

end
