(* ===== verification/StoreEnrollments.thy ===== *)
theory StoreEnrollments
  imports StoreApprovals
begin

text \<open>
  \<open>src/internal/storage/enrollment.go\<close>: the interactive login enrollments of a runtime profile, from
  \<open>begun\<close> through \<open>validating\<close> and \<open>awaiting_confirmation\<close> to a terminal state. SQL compares the
  stored timestamps as text (\<open>text_before\<close>, \<open>text_le\<close>), Go compares instants. An operation that
  commits one statement and then returns an error gives the pair of its result and the database.
\<close>

definition validFingerprint :: "string \<Rightarrow> bool" where
  "validFingerprint value = (if length value \<noteq> 64 then False else hex_decode value \<noteq> None)"

lemma validFingerprint_between: "validFingerprint v \<Longrightarrow> between 64 64 v \<and> v \<noteq> ''''"
  using between_hex [of v 64] by (auto simp: validFingerprint_def split: if_splits)

section \<open>Begin\<close>

definition BeginAuthEnrollment ::
  "AuthEnrollment \<Rightarrow> CredentialInstance option \<Rightarrow> db \<Rightarrow> error + (unit \<times> db)" where
  "BeginAuthEnrollment e credential d =
     (if enr_ID e = '''' \<or> enr_ClientDeviceID e = '''' \<or> enr_RuntimeProfileID e = '''' \<or>
         enr_CredentialInstanceID e = '''' \<or> length (enr_BinaryFingerprint e) \<noteq> 64 \<or> enr_StagingPath e = '''' \<or>
         enr_State e \<noteq> EnrollmentBegun \<or> length (enr_IdempotencyDigest e) \<noteq> 64 \<or> enr_ExpiresAt e = 0 \<or>
         enr_CreatedAt e = 0 \<or> enr_UpdatedAt e = 0
      then fail CodeInvalidArgument ''auth enrollment is invalid''
      else if hex_decode (enr_IdempotencyDigest e) = None
      then fail CodeInvalidArgument ''auth enrollment idempotency digest is invalid''
      else bindE
        (case credential of
           Some c \<Rightarrow>
             bindE (ValidateID (cred_ID c)) (\<lambda>_.
             if cred_Provider c \<noteq> ProviderCodex \<or> cred_AuthMethod c \<noteq> AuthMethodInteractive \<or>
                cred_AccountID c = '''' \<or> cred_CredentialRevision c \<noteq> 1 \<or> length (cred_SecretDigest c) \<noteq> 64
             then fail CodeInvalidArgument ''enrollment credential is invalid''
             else bindE (sql_insert (credentials_ok d) ''enrollment credential could not be created''
                           (credential_row c) (db_credentials d)) (\<lambda>rows.
             Inr (d\<lparr>db_credentials := rows\<rparr>)))
         | None \<Rightarrow>
             if list_ex (\<lambda>ci. cred_ID ci = enr_CredentialInstanceID e \<and> cred_Provider ci = ProviderCodex \<and>
                  list_ex (\<lambda>rp. prof_DeviceID rp = cred_DeviceID ci \<and> prof_AccountID rp = cred_AccountID ci \<and>
                                prof_ID rp = enr_RuntimeProfileID e) (db_profiles d)) (db_credentials d)
             then Inr d
             else fail CodeConflict ''enrollment credential does not match profile'') (\<lambda>d1.
      let row = e\<lparr>enr_State := EnrollmentBegun, enr_CompletionIdempotencyDigest := '''',
                  enr_ConfirmationAccountID := '''', enr_ConfirmationAccountRevision := 0,
                  enr_ConfirmationProfileID := '''', enr_ConfirmationProfileRevision := 0,
                  enr_ConfirmationCredentialID := '''', enr_ConfirmationCredentialRevision := 0,
                  enr_ConfirmationAliasDigest := '''', enr_ConfirmedByClientID := '''',
                  enr_ConfirmedAt := None\<rparr>
      in bindE (sql_insert (enrollments_ok d1) ''auth enrollment could not be started'' row
                  (db_enrollments d1)) (\<lambda>rows.
         Inr ((), d1\<lparr>db_enrollments := rows\<rparr>))))"

definition AuthEnrollment_read :: "ID \<Rightarrow> db \<Rightarrow> error + AuthEnrollment" where
  "AuthEnrollment_read eid d =
     read_row enr_ID (db_enrollments d) eid (NewError CodeNotFound ''auth enrollment not found'')"

definition AuthEnrollmentByBeginDigest :: "ID \<Rightarrow> string \<Rightarrow> db \<Rightarrow> error + AuthEnrollment" where
  "AuthEnrollmentByBeginDigest clientID digest d =
     bindE (ValidateID clientID) (\<lambda>_.
     if length digest \<noteq> 64 then fail CodeInvalidArgument ''begin idempotency digest is invalid''
     else if hex_decode digest = None then fail CodeInvalidArgument ''begin idempotency digest is invalid''
     else case List.find (\<lambda>r. enr_ClientDeviceID r = clientID \<and> enr_IdempotencyDigest r = digest)
                 (db_enrollments d) of
            None \<Rightarrow> fail CodeNotFound ''auth enrollment replay not found''
          | Some r \<Rightarrow> AuthEnrollment_read (enr_ID r) d)"

section \<open>Finish\<close>

text \<open>
  \<open>DELETE FROM credential_instances WHERE id=? AND provider='codex' AND status='unknown' AND
  credential_revision=1\<close>: \<^const>\<open>None\<close> when a foreign key restricts it, and the revocation rows
  of the deleted credential go with it.
\<close>

definition delete_unsealed_credential :: "ID \<Rightarrow> db \<Rightarrow> db option" where
  "delete_unsealed_credential c d =
     (let q = (\<lambda>r. cred_ID r = c \<and> cred_Provider r = ProviderCodex \<and> cred_Status r = CredentialUnknown \<and>
                   cred_CredentialRevision r = 1)
      in if list_ex q (db_credentials d)
         then if credential_referenced d c then None
              else Some (d\<lparr>db_credentials := delete_rows q (db_credentials d),
                           db_revocations := delete_rows (\<lambda>r. fst r = c) (db_revocations d)\<rparr>)
         else Some d)"

text \<open>
  A NULL \<open>credential_instance_id\<close> cannot be scanned into a \<open>domain.ID\<close>, so the first read of
  \<open>FinishAuthEnrollment\<close> fails on it. The error of the last DELETE is ignored.
\<close>

definition FinishAuthEnrollment ::
  "ID \<Rightarrow> ID \<Rightarrow> EnrollmentState \<Rightarrow> time \<Rightarrow> db \<Rightarrow> error + (AuthEnrollment \<times> db)" where
  "FinishAuthEnrollment eid clientID state now d =
     (if (state \<noteq> EnrollmentCancelled \<and> state \<noteq> EnrollmentExpired \<and> state \<noteq> EnrollmentFailed) \<or> now = 0
      then fail CodeInvalidArgument ''auth enrollment terminal state is invalid''
      else bindE
        (case List.find (\<lambda>r. enr_ID r = eid \<and> enr_ClientDeviceID r = clientID) (db_enrollments d) of
           None \<Rightarrow> fail CodeNotFound ''auth enrollment not found''
         | Some row \<Rightarrow>
             let credentialID = enr_CredentialInstanceID row; current = enr_State row in
             if credentialID = '''' then fail CodeNotFound ''auth enrollment not found''
             else if current = state then Inr d
             else if current \<noteq> EnrollmentBegun \<and> current \<noteq> EnrollmentValidating \<and>
                     current \<noteq> EnrollmentAwaitingConfirmation
             then fail CodeConflict ''auth enrollment is terminal''
             else bindE (sql_update (enrollments_ok d) ''auth enrollment could not be finished''
                           (\<lambda>r. enr_ID r = eid) (\<lambda>r. r\<lparr>enr_State := state, enr_UpdatedAt := now\<rparr>)
                           (db_enrollments d)) (\<lambda>(_, rows).
             let d1 = d\<lparr>db_enrollments := rows\<rparr> in
             if count_rows (\<lambda>r. vi_CredentialInstanceID r = credentialID) (db_vault_items d1) \<noteq> 0 then Inr d1
             else let d2 = d1\<lparr>db_enrollments :=
                        update_rows (\<lambda>r. enr_ID r = eid) (\<lambda>r. r\<lparr>enr_CredentialInstanceID := ''''\<rparr>)
                          (db_enrollments d1)\<rparr>
                  in Inr (case delete_unsealed_credential credentialID d2 of None \<Rightarrow> d2 | Some d3 \<Rightarrow> d3)))
        (\<lambda>d'. bindE (AuthEnrollment_read eid d') (\<lambda>e. Inr (e, d'))))"

section \<open>Claim, await and confirm\<close>

definition ClaimAuthEnrollment ::
  "ID \<Rightarrow> ID \<Rightarrow> string \<Rightarrow> time \<Rightarrow> db \<Rightarrow> (error + AuthEnrollment) \<times> db" where
  "ClaimAuthEnrollment eid clientID completionDigest now d =
     (if length completionDigest \<noteq> 64 \<or> now = 0
      then (fail CodeInvalidArgument ''completion idempotency digest is invalid'', d)
      else if hex_decode completionDigest = None
      then (fail CodeInvalidArgument ''completion idempotency digest is invalid'', d)
      else case AuthEnrollment_read eid d of
        Inl e \<Rightarrow> (Inl e, d)
      | Inr existing \<Rightarrow>
      if enr_ClientDeviceID existing \<noteq> clientID
      then (fail CodePermissionDenied ''auth enrollment owner is required'', d)
      else if active_enrollment_state (enr_State existing) \<and> \<not> now < enr_ExpiresAt existing
      then (case FinishAuthEnrollment eid clientID EnrollmentExpired now d of
              Inl e \<Rightarrow> (Inl e, d)
            | Inr (_, d') \<Rightarrow> (fail CodeDeadlineExceeded ''auth enrollment expired'', d'))
      else if (enr_State existing = EnrollmentSucceeded \<or> enr_State existing = EnrollmentValidating \<or>
               enr_State existing = EnrollmentAwaitingConfirmation) \<and>
              enr_CompletionIdempotencyDigest existing = completionDigest
      then (Inr existing, d)
      else case sql_update (enrollments_ok d) ''auth enrollment could not be claimed''
                  (\<lambda>r. enr_ID r = eid \<and> enr_ClientDeviceID r = clientID \<and> enr_State r = EnrollmentBegun \<and>
                       text_before now (enr_ExpiresAt r))
                  (\<lambda>r. r\<lparr>enr_State := EnrollmentValidating,
                         enr_CompletionIdempotencyDigest := completionDigest, enr_UpdatedAt := now\<rparr>)
                  (db_enrollments d) of
        Inl e \<Rightarrow> (Inl e, d)
      | Inr (changed, rows) \<Rightarrow>
          if changed \<noteq> 1 then (fail CodeConflict ''auth enrollment is not claimable'', d\<lparr>db_enrollments := rows\<rparr>)
          else let d' = d\<lparr>db_enrollments := rows\<rparr> in (AuthEnrollment_read eid d', d'))"

definition AwaitAuthEnrollmentConfirmation ::
  "ID \<Rightarrow> ID \<Rightarrow> ID \<Rightarrow> ID \<Rightarrow> ID \<Rightarrow> int \<Rightarrow> int \<Rightarrow> int \<Rightarrow> string \<Rightarrow> time \<Rightarrow> db \<Rightarrow>
     error + (AuthEnrollment \<times> db)" where
  "AwaitAuthEnrollmentConfirmation eid clientID accountID profileID credentialID
     accountRevision profileRevision credentialRevision aliasDigest now d =
     (if list_ex (\<lambda>v. ValidateID v \<noteq> Inr ()) [eid, clientID, accountID, profileID, credentialID]
      then fail CodeInvalidArgument ''auth confirmation tuple is invalid''
      else if accountRevision < 1 \<or> profileRevision < 1 \<or> credentialRevision < 1 \<or>
              \<not> validFingerprint aliasDigest \<or> now = 0
      then fail CodeInvalidArgument ''auth confirmation digest is invalid''
      else bindE (sql_update (enrollments_ok d) ''auth confirmation could not be prepared''
             (\<lambda>r. enr_ID r = eid \<and> enr_ClientDeviceID r = clientID \<and> enr_RuntimeProfileID r = profileID \<and>
                  enr_CredentialInstanceID r = credentialID \<and> enr_State r = EnrollmentValidating \<and>
                  text_before now (enr_ExpiresAt r))
             (\<lambda>r. r\<lparr>enr_State := EnrollmentAwaitingConfirmation, enr_ConfirmationAccountID := accountID,
                    enr_ConfirmationAccountRevision := accountRevision,
                    enr_ConfirmationProfileID := profileID, enr_ConfirmationProfileRevision := profileRevision,
                    enr_ConfirmationCredentialID := credentialID,
                    enr_ConfirmationCredentialRevision := credentialRevision,
                    enr_ConfirmationAliasDigest := aliasDigest, enr_UpdatedAt := now\<rparr>)
             (db_enrollments d)) (\<lambda>(changed, rows).
      if changed \<noteq> 1 then fail CodeConflict ''auth enrollment changed before confirmation''
      else let d' = d\<lparr>db_enrollments := rows\<rparr>
           in bindE (AuthEnrollment_read eid d') (\<lambda>e. Inr (e, d'))))"

definition ConfirmAuthEnrollmentAttestation ::
  "ID \<Rightarrow> ID \<Rightarrow> string \<Rightarrow> time \<Rightarrow> db \<Rightarrow> (error + AuthEnrollment) \<times> db" where
  "ConfirmAuthEnrollmentAttestation eid clientID aliasDigest now d =
     (if ValidateID eid \<noteq> Inr () \<or> ValidateID clientID \<noteq> Inr () \<or> \<not> validFingerprint aliasDigest \<or> now = 0
      then (fail CodeInvalidArgument ''auth confirmation is invalid'', d)
      else case AuthEnrollment_read eid d of
        Inl e \<Rightarrow> (Inl e, d)
      | Inr existing \<Rightarrow>
      if enr_ClientDeviceID existing \<noteq> clientID
      then (fail CodePermissionDenied ''auth enrollment owner is required'', d)
      else if \<not> now < enr_ExpiresAt existing
      then (fail CodeConfirmationExpired ''auth confirmation expired'',
            case FinishAuthEnrollment eid clientID EnrollmentExpired now d of
              Inl e \<Rightarrow> d | Inr (_, d') \<Rightarrow> d')
      else if enr_State existing = EnrollmentSucceeded \<and> enr_ConfirmedByClientID existing = clientID \<and>
              enr_ConfirmationAliasDigest existing = aliasDigest
      then (Inr existing, d)
      else if enr_State existing = EnrollmentAwaitingConfirmation \<and> enr_ConfirmedByClientID existing = clientID \<and>
              enr_ConfirmedAt existing \<noteq> None \<and> enr_ConfirmationAliasDigest existing = aliasDigest
      then (Inr existing, d)
      else if enr_State existing \<noteq> EnrollmentAwaitingConfirmation \<or>
              enr_ConfirmationAliasDigest existing \<noteq> aliasDigest
      then (fail CodeIdentityConfirmationMismatch ''auth confirmation does not match enrollment'', d)
      else case sql_update (enrollments_ok d) ''auth confirmation could not be recorded''
                  (\<lambda>r. enr_ID r = eid \<and> enr_ClientDeviceID r = clientID \<and>
                       enr_State r = EnrollmentAwaitingConfirmation \<and> enr_ConfirmationAliasDigest r = aliasDigest \<and>
                       enr_ConfirmedByClientID r = '''' \<and> text_before now (enr_ExpiresAt r))
                  (\<lambda>r. r\<lparr>enr_ConfirmedByClientID := clientID, enr_ConfirmedAt := Some now, enr_UpdatedAt := now\<rparr>)
                  (db_enrollments d) of
        Inl e \<Rightarrow> (Inl e, d)
      | Inr (changed, rows) \<Rightarrow>
          if changed \<noteq> 1
          then (fail CodeConflict ''auth confirmation changed before commit'', d\<lparr>db_enrollments := rows\<rparr>)
          else let d' = d\<lparr>db_enrollments := rows\<rparr> in (AuthEnrollment_read eid d', d'))"

section \<open>Recovery\<close>

fun expire_loop :: "(ID \<times> ID) list \<Rightarrow> db \<Rightarrow> error + db" where
  "expire_loop [] d = Inr d"
| "expire_loop ((eid, credentialID) # values) d =
     (if count_rows (\<lambda>r. vi_CredentialInstanceID r = credentialID) (db_vault_items d) \<noteq> 0 then expire_loop values d
      else
        let d1 = d\<lparr>db_enrollments :=
              update_rows (\<lambda>r. enr_ID r = eid) (\<lambda>r. r\<lparr>enr_CredentialInstanceID := ''''\<rparr>) (db_enrollments d)\<rparr>
        in case delete_unsealed_credential credentialID d1 of
             None \<Rightarrow> Inl (OtherError ''constraint failed'')
           | Some d2 \<Rightarrow> expire_loop values d2)"

definition ExpireAuthEnrollments :: "time \<Rightarrow> db \<Rightarrow> error + (string list \<times> db)" where
  "ExpireAuthEnrollments now d =
     (if now = 0 then fail CodeInvalidArgument ''auth enrollment recovery requires a timestamp''
      else
        let active = filter (\<lambda>r. active_enrollment_state (enr_State r)) (db_enrollments d) in
        if list_ex (\<lambda>r. enr_CredentialInstanceID r = '''') active
        then Inl (OtherError ''converting NULL to string is unsupported'')
        else bindE (sql_update (enrollments_ok d) ''auth enrollments could not be expired''
                      (\<lambda>r. active_enrollment_state (enr_State r))
                      (\<lambda>r. r\<lparr>enr_State := EnrollmentExpired, enr_UpdatedAt := now\<rparr>)
                      (db_enrollments d)) (\<lambda>(_, rows).
        bindE (expire_loop (map (\<lambda>r. (enr_ID r, enr_CredentialInstanceID r)) active)
                 (d\<lparr>db_enrollments := rows\<rparr>)) (\<lambda>d'.
        Inr (map enr_StagingPath (order_by (\<lambda>x y. enr_ID x < enr_ID y) (db_enrollments d')), d'))))"

fun finish_due :: "time \<Rightarrow> AuthEnrollment list \<Rightarrow> db \<Rightarrow> (error + string list) \<times> db" where
  "finish_due now [] d = (Inr [], d)"
| "finish_due now (r # rs) d =
     (case FinishAuthEnrollment (enr_ID r) (enr_ClientDeviceID r) EnrollmentExpired now d of
        Inl e \<Rightarrow> (Inl e, d)
      | Inr (_, d') \<Rightarrow>
          (case finish_due now rs d' of
             (Inl e, d'') \<Rightarrow> (Inl e, d'')
           | (Inr paths, d'') \<Rightarrow> (Inr (enr_StagingPath r # paths), d'')))"

definition ExpireDueAuthEnrollments :: "time \<Rightarrow> db \<Rightarrow> (error + string list) \<times> db" where
  "ExpireDueAuthEnrollments now d =
     (if now = 0 then (fail CodeInvalidArgument ''auth enrollment expiry requires a timestamp'', d)
      else finish_due now
             (order_by (\<lambda>x y. enr_ID x < enr_ID y)
                (filter (\<lambda>r. active_enrollment_state (enr_State r) \<and> text_le (enr_ExpiresAt r) now)
                   (db_enrollments d))) d)"

end
