(* ===== verification/StoreUsage.thy ===== *)
theory StoreUsage
  imports StoreEnrollments
begin

text \<open>
  The last part of \<open>src/internal/storage/repository.go\<close>: usage snapshots of the single-window format
  and the credential materializations a Session holds. A NaN in a REAL column is stored as NULL
  (\<open>sql_real\<close>), so it is read back as an absent value. A stored snapshot has no windows of its own:
  the windows of the structured format are rows of another table.
\<close>

section \<open>Usage snapshots\<close>

definition usage_defaults :: "UsageSnapshot \<Rightarrow> UsageSnapshot" where
  "usage_defaults s0 =
     (let s1 = (if use_ProviderVersion s0 = '''' then s0\<lparr>use_ProviderVersion := use_SourceVersion s0\<rparr> else s0);
          s2 = (if use_Availability s1 = OtherAvailability ''''
                then s1\<lparr>use_Availability := if use_CapabilityStatus s1 = UsageSupported
                                            then AvailabilityAvailable else AvailabilityUnknown\<rparr>
                else s1)
      in if use_StaleAt s2 = 0 then s2\<lparr>use_StaleAt := use_ObservedAt s2\<rparr> else s2)"

definition usage_row :: "UsageSnapshot \<Rightarrow> UsageSnapshot" where
  "usage_row s = s\<lparr>use_UsedValue := sql_real (use_UsedValue s), use_LimitValue := sql_real (use_LimitValue s),
     use_UsedPercent := sql_real (use_UsedPercent s), use_Windows := []\<rparr>"

definition CreateUsageSnapshot :: "UsageSnapshot \<Rightarrow> db \<Rightarrow> error + (unit \<times> db)" where
  "CreateUsageSnapshot snapshot0 d =
     bindE (ValidateUsageSnapshot snapshot0) (\<lambda>_.
     if use_CredentialInstanceID snapshot0 \<noteq> '''' \<and> ValidateID (use_CredentialInstanceID snapshot0) \<noteq> Inr ()
     then fail CodeInvalidArgument ''invalid usage credential''
     else
     let snapshot = usage_defaults snapshot0
     in bindE (validateAccountForProvider (use_Provider snapshot) (use_AccountID snapshot) d) (\<lambda>_.
        if use_CredentialInstanceID snapshot \<noteq> '''' \<and>
           count_rows (\<lambda>r. cred_ID r = use_CredentialInstanceID snapshot \<and>
                           cred_AccountID r = use_AccountID snapshot \<and>
                           cred_DeviceID r = use_DeviceID snapshot \<and>
                           cred_Provider r = use_Provider snapshot) (db_credentials d) \<noteq> 1
        then fail CodeInvalidArgument ''usage credential does not match account''
        else if count_rows (\<lambda>r. dev_ID r = use_DeviceID snapshot) (db_devices d) \<noteq> 1
        then fail CodeNotFound ''device not found''
        else bindE (sql_insert (usages_ok d) ''usage snapshot could not be created'' (usage_row snapshot)
                      (db_usages d)) (\<lambda>rows.
        Inr ((), d\<lparr>db_usages := rows\<rparr>))))"

definition UsageSnapshot_read :: "ID \<Rightarrow> db \<Rightarrow> error + UsageSnapshot" where
  "UsageSnapshot_read sid d =
     read_row use_ID (db_usages d) sid (NewError CodeNotFound ''usage snapshot not found'')"

text \<open>\<open>ORDER BY observed_at DESC, id\<close>.\<close>

definition ListUsageSnapshots :: "ID \<Rightarrow> db \<Rightarrow> error + UsageSnapshot list" where
  "ListUsageSnapshots accountID d =
     bindE (ValidateID accountID) (\<lambda>_.
     read_all (\<lambda>k. UsageSnapshot_read k d)
       (map use_ID (order_by (\<lambda>x y. text_before (use_ObservedAt y) (use_ObservedAt x) \<or>
                               (use_ObservedAt x = use_ObservedAt y \<and> use_ID x < use_ID y))
                      (filter (\<lambda>r. use_AccountID r = accountID) (db_usages d)))))"

section \<open>Credential materializations\<close>

definition CreateCredentialMaterialization :: "CredentialMaterialization \<Rightarrow> db \<Rightarrow> error + (unit \<times> db)" where
  "CreateCredentialMaterialization m d =
     bindE (ValidateID (mat_LeaseID m)) (\<lambda>_.
     bindE (ValidateID (mat_CredentialInstanceID m)) (\<lambda>_.
     if mat_CredentialRevision m < 1 \<or> mat_ManifestVersion m \<noteq> 1 \<or> length (mat_ManifestDigest m) \<noteq> 64 \<or>
        mat_State m \<noteq> MaterializationPending \<or> mat_RefCount m < 0 \<or> mat_CreatedAt m = 0 \<or>
        mat_UpdatedAt m < mat_CreatedAt m
     then fail CodeInvalidArgument ''invalid credential materialization''
     else bindE (sql_insert (materializations_ok d) ''credential materialization could not be created'' m
                   (db_materializations d)) (\<lambda>rows.
     Inr ((), d\<lparr>db_materializations := rows\<rparr>))))"

definition CredentialMaterialization_read :: "ID \<Rightarrow> db \<Rightarrow> error + CredentialMaterialization" where
  "CredentialMaterialization_read leaseID d =
     read_row mat_LeaseID (db_materializations d) leaseID
       (NewError CodeNotFound ''credential materialization not found'')"

definition ListCredentialMaterializations :: "db \<Rightarrow> error + CredentialMaterialization list" where
  "ListCredentialMaterializations d =
     read_all (\<lambda>k. CredentialMaterialization_read k d)
       (map mat_LeaseID (order_by (\<lambda>x y. text_before (mat_CreatedAt x) (mat_CreatedAt y) \<or>
                                   (mat_CreatedAt x = mat_CreatedAt y \<and> mat_LeaseID x < mat_LeaseID y))
                          (db_materializations d)))"

text \<open>
  The update names the state it expects; it does not look at which states may follow which. A
  violated constraint is reported under its own code.
\<close>

definition TransitionCredentialMaterialization ::
  "ID \<Rightarrow> MaterializationState \<Rightarrow> MaterializationState \<Rightarrow> int \<Rightarrow> time \<Rightarrow> db \<Rightarrow>
     error + (CredentialMaterialization \<times> db)" where
  "TransitionCredentialMaterialization leaseID expected next refCount now d =
     (if refCount < 0 \<or> now = 0 \<or> next = OtherMaterializationState ''''
      then fail CodeInvalidArgument ''invalid materialization transition''
      else case sql_update (materializations_ok d) ''''
                  (\<lambda>r. mat_LeaseID r = leaseID \<and> mat_State r = expected)
                  (\<lambda>r. r\<lparr>mat_State := next, mat_RefCount := refCount, mat_UpdatedAt := now\<rparr>)
                  (db_materializations d) of
        Inl _ \<Rightarrow> Inl (WrapError CodeMaterializationConflict ''credential materialization transition failed''
                       (OtherError ''constraint failed''))
      | Inr (changed, rows) \<Rightarrow>
          if changed \<noteq> 1 then fail CodeMaterializationConflict ''credential materialization state changed''
          else let d' = d\<lparr>db_materializations := rows\<rparr>
               in bindE (CredentialMaterialization_read leaseID d') (\<lambda>m. Inr (m, d')))"

section \<open>The tables stay in order\<close>

lemma CreateUsageSnapshot_db_ok: "CreateUsageSnapshot s d = Inr (u, d') \<Longrightarrow> db_ok d \<Longrightarrow> db_ok d'"
  by (auto simp: CreateUsageSnapshot_def bindE_Inr sql_insert_ok Let_def
      intro!: db_ok_put_usages split: if_splits)

lemma CreateCredentialMaterialization_db_ok:
  "CreateCredentialMaterialization m d = Inr (u, d') \<Longrightarrow> db_ok d \<Longrightarrow> db_ok d'"
  by (auto simp: CreateCredentialMaterialization_def bindE_Inr sql_insert_ok intro!: db_ok_put_leaf
      split: if_splits)

lemma TransitionCredentialMaterialization_db_ok:
  "TransitionCredentialMaterialization l e n c now d = Inr (m, d') \<Longrightarrow> db_ok d \<Longrightarrow> db_ok d'"
  by (auto simp: TransitionCredentialMaterialization_def bindE_Inr sql_update_ok Let_def
      intro!: db_ok_put_leaf split: if_splits sum.splits)

text \<open>What is read back is what was asked for, up to NaN, the defaults and the windows.\<close>

lemma CreateUsageSnapshot_read:
  assumes "CreateUsageSnapshot s d = Inr (u, d')"
  shows "UsageSnapshot_read (use_ID s) d' = Inr (usage_row (usage_defaults s))"
proof -
  let ?row = "usage_row (usage_defaults s)"
  have d': "d' = d\<lparr>db_usages := db_usages d @ [?row]\<rparr>" "usages_ok d (db_usages d @ [?row])"
    using assms by (auto simp: CreateUsageSnapshot_def bindE_Inr sql_insert_ok Let_def split: if_splits)
  have "use_ID ?row = use_ID s" by (simp add: usage_row_def usage_defaults_def Let_def)
  moreover have "List.find (\<lambda>r. use_ID r = use_ID ?row) (db_usages d @ [?row]) = Some ?row"
    using d'(2) by (intro find_key_unique) (simp_all add: usages_ok_def)
  ultimately show ?thesis by (simp add: UsageSnapshot_read_def read_row_ok d'(1))
qed

end
