(* ===== verification/StorePreviews.thy ===== *)
theory StorePreviews
  imports StoreUsage
begin

text \<open>
  \<open>src/internal/storage/session_preview.go\<close>: the previews a client confirms before a Codex Session
  starts. A preview records the selector tuple it was made for; consuming it checks the whole tuple
  again and inserts the starting Session in the same transaction. A timestamp column is compared
  with a formatted instant, which is equality of the instants.
\<close>

record SessionStartConfirmation =
  conf_Confirmed :: bool
  conf_AccountID :: ID
  conf_AccountRevision :: int
  conf_RuntimeProfileID :: ID
  conf_ProfileRevision :: int
  conf_CredentialInstanceID :: ID
  conf_CredentialRevision :: int
  conf_DeviceID :: ID
  conf_WorkspaceID :: ID
  conf_UsageSnapshotID :: ID
  conf_ProviderVersion :: string

record ConsumeSessionStartPreviewRequest =
  req_PreviewID :: ID
  req_ClientID :: ID
  req_RequestDigest :: string
  req_At :: time
  req_BinaryFingerprint :: string
  req_SchemaFingerprint :: string
  req_CapabilityDigest :: string
  req_Confirmation :: SessionStartConfirmation
  req_Session :: Session

section \<open>Creating a preview\<close>

definition validSessionStartPreview :: "SessionStartPreview \<Rightarrow> bool" where
  "validSessionStartPreview v =
     (if list_ex (\<lambda>i. ValidateID i \<noteq> Inr ())
           [prev_ID v, prev_ClientID v, prev_AccountID v, prev_RuntimeProfileID v,
            prev_CredentialInstanceID v, prev_DeviceID v, prev_WorkspaceID v]
      then False
      else if prev_UsageSnapshotID v \<noteq> '''' \<and> ValidateID (prev_UsageSnapshotID v) \<noteq> Inr () then False
      else prev_Provider v = ProviderCodex \<and> 1 \<le> prev_AccountRevision v \<and> 1 \<le> prev_ProfileRevision v \<and>
           1 \<le> prev_CredentialRevision v \<and> 1 \<le> length (prev_ProviderVersion v) \<and>
           length (prev_ProviderVersion v) \<le> 128 \<and> validFingerprint (prev_BinaryFingerprint v) \<and>
           validFingerprint (prev_SchemaFingerprint v) \<and> validFingerprint (prev_CapabilityDigest v) \<and>
           prev_WorkspaceUpdatedAt v \<noteq> 0 \<and> prev_CreatedAt v \<noteq> 0 \<and> prev_CreatedAt v < prev_ExpiresAt v)"

text \<open>
  The selector tuple of a preview, still enabled, healthy, linked and at the recorded revisions. The
  NULL account of a credential cannot be scanned, so such a credential counts as unavailable.
\<close>

definition preview_binding :: "SessionStartPreview \<Rightarrow> db \<Rightarrow> error + unit" where
  "preview_binding v d =
     (case List.find (\<lambda>r. acc_ID r = prev_AccountID v) (db_accounts d) of
        None \<Rightarrow> fail CodeProfileBindingChanged ''preview account is unavailable''
      | Some account \<Rightarrow>
      case List.find (\<lambda>r. prof_ID r = prev_RuntimeProfileID v) (db_profiles d) of
        None \<Rightarrow> fail CodeProfileBindingChanged ''preview profile is unavailable''
      | Some profile \<Rightarrow>
      case List.find (\<lambda>r. cred_ID r = prev_CredentialInstanceID v) (db_credentials d) of
        None \<Rightarrow> fail CodeProfileBindingChanged ''preview credential is unavailable''
      | Some credential \<Rightarrow>
      if cred_AccountID credential = ''''
      then fail CodeProfileBindingChanged ''preview credential is unavailable''
      else if acc_Provider account \<noteq> ProviderCodex \<or> \<not> acc_Enabled account \<or> acc_Internal account \<or>
         prof_AccountID profile \<noteq> prev_AccountID v \<or> prof_DeviceID profile \<noteq> prev_DeviceID v \<or>
         prof_CredentialInstanceID profile \<noteq> prev_CredentialInstanceID v \<or>
         prof_Provider profile \<noteq> ProviderCodex \<or> \<not> prof_Enabled profile \<or> prof_Internal profile \<or>
         cred_AccountID credential \<noteq> prev_AccountID v \<or> cred_DeviceID credential \<noteq> prev_DeviceID v \<or>
         cred_Provider credential \<noteq> ProviderCodex \<or> cred_Status credential \<noteq> CredentialHealthy \<or>
         acc_Revision account \<noteq> prev_AccountRevision v \<or> prof_Revision profile \<noteq> prev_ProfileRevision v \<or>
         cred_CredentialRevision credential \<noteq> prev_CredentialRevision v
      then fail CodeProfileBindingChanged ''profile binding changed before preview''
      else Inr ())"

definition preview_usage_binding :: "SessionStartPreview \<Rightarrow> db \<Rightarrow> error + unit" where
  "preview_usage_binding v d =
     (if prev_UsageSnapshotID v \<noteq> ''''
      then case List.find (\<lambda>r. use_ID r = prev_UsageSnapshotID v) (db_usages d) of
             None \<Rightarrow> fail CodeProfileBindingChanged ''preview usage binding is invalid''
           | Some usage \<Rightarrow>
               if use_AccountID usage \<noteq> prev_AccountID v \<or> use_DeviceID usage \<noteq> prev_DeviceID v \<or>
                  (use_CredentialInstanceID usage \<noteq> '''' \<and>
                   use_CredentialInstanceID usage \<noteq> prev_CredentialInstanceID v)
               then fail CodeProfileBindingChanged ''preview usage binding is invalid''
               else Inr ()
      else Inr ())"

definition CreateSessionStartPreview :: "SessionStartPreview \<Rightarrow> db \<Rightarrow> error + (unit \<times> db)" where
  "CreateSessionStartPreview v d =
     (if \<not> validSessionStartPreview v \<or> prev_ConsumedAt v \<noteq> None \<or> prev_ConsumedRequestDigest v \<noteq> '''' \<or>
         prev_SessionID v \<noteq> ''''
      then fail CodeInvalidArgument ''session preview is invalid''
      else bindE (preview_binding v d) (\<lambda>_.
      case List.find (\<lambda>r. ws_ID r = prev_WorkspaceID v) (db_workspaces d) of
        None \<Rightarrow> fail CodeProfileBindingChanged ''preview workspace is unavailable''
      | Some workspace \<Rightarrow>
      if ws_DeviceID workspace \<noteq> prev_DeviceID v \<or> ws_UpdatedAt workspace \<noteq> prev_WorkspaceUpdatedAt v
      then fail CodeProfileBindingChanged ''preview workspace is unavailable''
      else if count_rows (\<lambda>r. vi_CredentialInstanceID r = prev_CredentialInstanceID v \<and>
                              vi_CredentialRevision r = prev_CredentialRevision v) (db_vault_items d) \<noteq> 1
      then fail CodeProfileBindingChanged ''preview credential is not sealed''
      else if count_rows (\<lambda>r. fst r = prev_CredentialInstanceID v) (db_revocations d) \<noteq> 0
      then fail CodePermissionDenied ''credential revocation is in progress''
      else bindE (preview_usage_binding v d) (\<lambda>_.
      bindE (sql_insert (previews_ok d) ''session preview could not be created'' v (db_previews d)) (\<lambda>rows.
      Inr ((), d\<lparr>db_previews := rows\<rparr>)))))"

definition SessionStartPreview_read :: "ID \<Rightarrow> db \<Rightarrow> error + SessionStartPreview" where
  "SessionStartPreview_read pid d =
     read_row prev_ID (db_previews d) pid (NewError CodeNotFound ''session preview not found'')"

section \<open>Consuming a preview\<close>

definition confirmation_matches :: "ConsumeSessionStartPreviewRequest \<Rightarrow> SessionStartPreview \<Rightarrow> bool" where
  "confirmation_matches request preview =
     (let c = req_Confirmation request in
      conf_Confirmed c \<and> conf_AccountID c = prev_AccountID preview \<and>
      conf_AccountRevision c = prev_AccountRevision preview \<and>
      conf_RuntimeProfileID c = prev_RuntimeProfileID preview \<and>
      conf_ProfileRevision c = prev_ProfileRevision preview \<and>
      conf_CredentialInstanceID c = prev_CredentialInstanceID preview \<and>
      conf_CredentialRevision c = prev_CredentialRevision preview \<and>
      conf_DeviceID c = prev_DeviceID preview \<and> conf_WorkspaceID c = prev_WorkspaceID preview \<and>
      conf_UsageSnapshotID c = prev_UsageSnapshotID preview \<and>
      conf_ProviderVersion c = prev_ProviderVersion preview \<and>
      req_BinaryFingerprint request = prev_BinaryFingerprint preview \<and>
      req_SchemaFingerprint request = prev_SchemaFingerprint preview \<and>
      req_CapabilityDigest request = prev_CapabilityDigest preview)"

definition session_matches_preview :: "Session \<Rightarrow> SessionStartPreview \<Rightarrow> bool" where
  "session_matches_preview s preview \<longleftrightarrow>
     ses_AccountID s = prev_AccountID preview \<and> ses_RuntimeProfileID s = prev_RuntimeProfileID preview \<and>
     ses_CredentialInstanceID s = prev_CredentialInstanceID preview \<and>
     ses_DeviceID s = prev_DeviceID preview \<and> ses_WorkspaceID s = prev_WorkspaceID preview \<and>
     ses_Provider s = ProviderCodex"

text \<open>\<open>ORDER BY observed_at DESC, id DESC LIMIT 1\<close>.\<close>

definition latest_usage :: "ID \<Rightarrow> db \<Rightarrow> ID option" where
  "latest_usage accountID d =
     (case order_by (\<lambda>x y. text_before (use_ObservedAt y) (use_ObservedAt x) \<or>
                           (use_ObservedAt x = use_ObservedAt y \<and> use_ID y < use_ID x))
             (filter (\<lambda>r. use_AccountID r = accountID) (db_usages d)) of
        [] \<Rightarrow> None | r # _ \<Rightarrow> Some (use_ID r))"

definition preview_still_bound :: "SessionStartPreview \<Rightarrow> db \<Rightarrow> error + unit" where
  "preview_still_bound p d =
     (case List.find (\<lambda>r. acc_ID r = prev_AccountID p \<and> acc_Provider r = ProviderCodex \<and> \<not> acc_Internal r)
             (db_accounts d) of
        None \<Rightarrow> fail CodeProfileBindingChanged ''account changed after preview''
      | Some account \<Rightarrow>
      if \<not> acc_Enabled account \<or> acc_Revision account \<noteq> prev_AccountRevision p
      then fail CodeProfileBindingChanged ''account changed after preview''
      else
      case List.find (\<lambda>r. prof_ID r = prev_RuntimeProfileID p \<and> prof_AccountID r = prev_AccountID p \<and>
                          prof_DeviceID r = prev_DeviceID p \<and> prof_Provider r = ProviderCodex \<and>
                          \<not> prof_Internal r) (db_profiles d) of
        None \<Rightarrow> fail CodeProfileBindingChanged ''profile changed after preview''
      | Some profile \<Rightarrow>
      if \<not> prof_Enabled profile \<or> prof_Revision profile \<noteq> prev_ProfileRevision p \<or>
         prof_CredentialInstanceID profile \<noteq> prev_CredentialInstanceID p
      then fail CodeProfileBindingChanged ''profile changed after preview''
      else
      case List.find (\<lambda>r. cred_ID r = prev_CredentialInstanceID p \<and> cred_AccountID r = prev_AccountID p \<and>
                          cred_DeviceID r = prev_DeviceID p \<and> cred_Provider r = ProviderCodex)
             (db_credentials d) of
        None \<Rightarrow> fail CodeProfileBindingChanged ''credential changed after preview''
      | Some credential \<Rightarrow>
      if cred_Status credential \<noteq> CredentialHealthy \<or>
         cred_CredentialRevision credential \<noteq> prev_CredentialRevision p
      then fail CodeProfileBindingChanged ''credential changed after preview''
      else if (case latest_usage (prev_AccountID p) d of
                 Some u \<Rightarrow> u \<noteq> prev_UsageSnapshotID p | None \<Rightarrow> prev_UsageSnapshotID p \<noteq> '''')
      then fail CodeProfileBindingChanged ''usage snapshot changed after preview''
      else Inr ())"

definition reserved_session :: "Session \<Rightarrow> Capability list \<Rightarrow> Session" where
  "reserved_session s capabilities =
     s\<lparr>ses_Provider := ProviderCodex, ses_ProviderSessionID := '''', ses_ResumedFromSessionID := '''',
       ses_Status := SessionStarting, ses_EndedAt := None, ses_ExitCode := None,
       ses_CapabilitySnapshot := capabilities, ses_FailureCode := ''''\<rparr>"

text \<open>The transaction returns the identifier of the Session the preview stands for.\<close>

definition consume_tx ::
  "ConsumeSessionStartPreviewRequest \<Rightarrow> Session \<Rightarrow> Capability list \<Rightarrow> db \<Rightarrow> error + (ID \<times> db)" where
  "consume_tx request validated capabilities d =
     (case List.find (\<lambda>r. prev_ID r = req_PreviewID request) (db_previews d) of
        None \<Rightarrow> fail CodeIdentityConfirmationRequired ''daemon-issued session preview is required''
      | Some preview \<Rightarrow>
      if prev_ClientID preview \<noteq> req_ClientID request
      then fail CodePermissionDenied ''session preview owner is required''
      else if prev_ConsumedAt preview \<noteq> None
      then if prev_ConsumedRequestDigest preview \<noteq> '''' \<and>
              prev_ConsumedRequestDigest preview = req_RequestDigest request \<and> prev_SessionID preview \<noteq> ''''
           then Inr (prev_SessionID preview, d)
           else fail CodeConflict ''session preview was already consumed''
      else if \<not> req_At request < prev_ExpiresAt preview
      then fail CodeConfirmationExpired ''session confirmation expired''
      else if \<not> confirmation_matches request preview
      then fail CodeProfileBindingChanged ''profile binding changed after preview''
      else if \<not> session_matches_preview validated preview
      then fail CodeProfileBindingChanged ''session does not match preview''
      else bindE (preview_still_bound preview d) (\<lambda>_.
      bindE (validateSessionLinks validated d) (\<lambda>_.
      case List.find (\<lambda>r. ws_ID r = prev_WorkspaceID preview) (db_workspaces d) of
        None \<Rightarrow> fail CodeProfileBindingChanged ''workspace changed after preview''
      | Some workspace \<Rightarrow>
      if ws_UpdatedAt workspace \<noteq> prev_WorkspaceUpdatedAt preview
      then fail CodeProfileBindingChanged ''workspace changed after preview''
      else bindE (sql_insert (sessions_ok d) ''reserved session could not be created''
                    (reserved_session validated capabilities) (db_sessions d)) (\<lambda>sessions.
      let d1 = d\<lparr>db_sessions := sessions\<rparr>
      in bindE (sql_update (previews_ok d1) ''session preview could not be consumed''
                  (\<lambda>r. prev_ID r = req_PreviewID request \<and> prev_ConsumedAt r = None)
                  (\<lambda>r. r\<lparr>prev_ConsumedAt := Some (req_At request),
                         prev_ConsumedRequestDigest := req_RequestDigest request,
                         prev_SessionID := ses_ID validated\<rparr>) (db_previews d1)) (\<lambda>(changed, previews).
      if changed \<noteq> 1 then fail CodeConflict ''session preview changed before consumption''
      else Inr (ses_ID validated, d1\<lparr>db_previews := previews\<rparr>))))))"

definition ConsumeSessionStartPreview ::
  "ConsumeSessionStartPreviewRequest \<Rightarrow> db \<Rightarrow> (error + Session) \<times> db" where
  "ConsumeSessionStartPreview request d =
     (if ValidateID (req_PreviewID request) \<noteq> Inr () \<or> ValidateID (req_ClientID request) \<noteq> Inr () \<or>
         \<not> validFingerprint (req_RequestDigest request) \<or> req_At request = 0 \<or>
         \<not> validFingerprint (req_BinaryFingerprint request) \<or> \<not> validFingerprint (req_SchemaFingerprint request) \<or>
         \<not> validFingerprint (req_CapabilityDigest request) \<or> \<not> conf_Confirmed (req_Confirmation request)
      then (fail CodeIdentityConfirmationRequired ''valid session confirmation is required'', d)
      else case bindE (NewSession (req_Session request)) (\<lambda>validated.
                bindE (CanonicalCapabilities (ses_CapabilitySnapshot validated)) (\<lambda>capabilities.
                consume_tx request validated capabilities d)) of
             Inl e \<Rightarrow> (Inl e, d)
           | Inr (resultID, d') \<Rightarrow> (Session_read resultID d', d'))"

section \<open>Cleanup\<close>

definition SessionStartPreviewRetention :: duration where
  "SessionStartPreviewRetention = 24 * 3600 * second"

definition DeleteExpiredSessionStartPreviews :: "time \<Rightarrow> db \<Rightarrow> error + (unit \<times> db)" where
  "DeleteExpiredSessionStartPreviews before d =
     (if before = 0 then fail CodeInvalidArgument ''preview cleanup timestamp is required''
      else
        let cutoff = before - SessionStartPreviewRetention
        in Inr ((), d\<lparr>db_previews :=
             delete_rows (\<lambda>r. text_before (prev_ExpiresAt r) cutoff \<and>
                              (case prev_ConsumedAt r of None \<Rightarrow> True | Some t \<Rightarrow> text_before t cutoff))
               (db_previews d)\<rparr>))"

section \<open>The tables stay in order\<close>

lemma CreateSessionStartPreview_db_ok: "CreateSessionStartPreview v d = Inr (u, d') \<Longrightarrow> db_ok d \<Longrightarrow> db_ok d'"
  by (auto simp: CreateSessionStartPreview_def bindE_Inr sql_insert_ok intro!: db_ok_put_leaf
      split: if_splits option.splits)

lemma DeleteExpiredSessionStartPreviews_db_ok:
  "DeleteExpiredSessionStartPreviews b d = Inr (u, d') \<Longrightarrow> db_ok d \<Longrightarrow> db_ok d'"
  using tables_delete(9) db_ok_put_leaf(9)
  by (auto simp: DeleteExpiredSessionStartPreviews_def Let_def db_ok_def split: if_splits)

text \<open>What a successful transaction found and did.\<close>

definition consume_row :: "ConsumeSessionStartPreviewRequest \<Rightarrow> ID \<Rightarrow> SessionStartPreview \<Rightarrow> SessionStartPreview" where
  "consume_row request sid r =
     r\<lparr>prev_ConsumedAt := Some (req_At request), prev_ConsumedRequestDigest := req_RequestDigest request,
       prev_SessionID := sid\<rparr>"

lemma consume_tx_ok:
  assumes "consume_tx request v c d = Inr (sid, d')"
  shows "\<exists>p. SessionStartPreview_read (req_PreviewID request) d = Inr p \<and> prev_ClientID p = req_ClientID request \<and>
     (prev_ConsumedAt p \<noteq> None \<and> prev_ConsumedRequestDigest p = req_RequestDigest request \<and>
        sid = prev_SessionID p \<and> d' = d \<or>
      prev_ConsumedAt p = None \<and> req_At request < prev_ExpiresAt p \<and> confirmation_matches request p \<and>
        session_matches_preview v p \<and> preview_still_bound p d = Inr () \<and> validateSessionLinks v d = Inr () \<and>
        sid = ses_ID v \<and> sessions_ok d (db_sessions d @ [reserved_session v c]) \<and>
        previews_ok (d\<lparr>db_sessions := db_sessions d @ [reserved_session v c]\<rparr>) (db_previews d') \<and>
        d' = d\<lparr>db_sessions := db_sessions d @ [reserved_session v c],
               db_previews := update_rows (\<lambda>r. prev_ID r = req_PreviewID request \<and> prev_ConsumedAt r = None)
                 (consume_row request (ses_ID v)) (db_previews d)\<rparr>)"
  using assms
  by (auto simp: consume_tx_def consume_row_def [abs_def] SessionStartPreview_read_def read_row_ok bindE_Inr
      sql_insert_ok sql_update_ok Let_def split: if_splits option.splits)

lemma consume_tx_cases:
  assumes "consume_tx request v c d = Inr (sid, d')"
    "SessionStartPreview_read (req_PreviewID request) d = Inr p"
  shows "prev_ClientID p = req_ClientID request"
    and "prev_ConsumedAt p \<noteq> None \<Longrightarrow> prev_ConsumedRequestDigest p = req_RequestDigest request \<and>
           sid = prev_SessionID p \<and> d' = d"
    and "prev_ConsumedAt p = None \<Longrightarrow> req_At request < prev_ExpiresAt p \<and> confirmation_matches request p \<and>
        session_matches_preview v p \<and> preview_still_bound p d = Inr () \<and> validateSessionLinks v d = Inr () \<and>
        sid = ses_ID v \<and> sessions_ok d (db_sessions d @ [reserved_session v c])"
    and "prev_ConsumedAt p = None \<Longrightarrow>
        d' = d\<lparr>db_sessions := db_sessions d @ [reserved_session v c],
               db_previews := update_rows (\<lambda>r. prev_ID r = req_PreviewID request \<and> prev_ConsumedAt r = None)
                 (consume_row request (ses_ID v)) (db_previews d)\<rparr>"
proof -
  obtain p' where p': "SessionStartPreview_read (req_PreviewID request) d = Inr p'" and
    all: "prev_ClientID p' = req_ClientID request \<and>
     (prev_ConsumedAt p' \<noteq> None \<and> prev_ConsumedRequestDigest p' = req_RequestDigest request \<and>
        sid = prev_SessionID p' \<and> d' = d \<or>
      prev_ConsumedAt p' = None \<and> req_At request < prev_ExpiresAt p' \<and> confirmation_matches request p' \<and>
        session_matches_preview v p' \<and> preview_still_bound p' d = Inr () \<and> validateSessionLinks v d = Inr () \<and>
        sid = ses_ID v \<and> sessions_ok d (db_sessions d @ [reserved_session v c]) \<and>
        previews_ok (d\<lparr>db_sessions := db_sessions d @ [reserved_session v c]\<rparr>) (db_previews d') \<and>
        d' = d\<lparr>db_sessions := db_sessions d @ [reserved_session v c],
               db_previews := update_rows (\<lambda>r. prev_ID r = req_PreviewID request \<and> prev_ConsumedAt r = None)
                 (consume_row request (ses_ID v)) (db_previews d)\<rparr>)"
    using consume_tx_ok [OF assms(1)] by (elim exE conjE) (rule that, assumption, intro conjI)
  have eq: "p' = p" using p' assms(2) by simp
  note all = all [unfolded eq]
  show "prev_ClientID p = req_ClientID request"
    and "prev_ConsumedAt p \<noteq> None \<Longrightarrow> prev_ConsumedRequestDigest p = req_RequestDigest request \<and>
           sid = prev_SessionID p \<and> d' = d"
    and "prev_ConsumedAt p = None \<Longrightarrow> req_At request < prev_ExpiresAt p \<and> confirmation_matches request p \<and>
        session_matches_preview v p \<and> preview_still_bound p d = Inr () \<and> validateSessionLinks v d = Inr () \<and>
        sid = ses_ID v \<and> sessions_ok d (db_sessions d @ [reserved_session v c])"
    and "prev_ConsumedAt p = None \<Longrightarrow>
        d' = d\<lparr>db_sessions := db_sessions d @ [reserved_session v c],
               db_previews := update_rows (\<lambda>r. prev_ID r = req_PreviewID request \<and> prev_ConsumedAt r = None)
                 (consume_row request (ses_ID v)) (db_previews d)\<rparr>"
    by (insert all, simp, (elim conjE disjE; simp)+)
qed

lemma consume_tx_db_ok:
  assumes "consume_tx request v c d = Inr (sid, d')" "db_ok d"
  shows "db_ok d'"
proof -
  from consume_tx_ok [OF assms(1)] consider "d' = d" |
    "sessions_ok d (db_sessions d @ [reserved_session v c])"
    "previews_ok (d\<lparr>db_sessions := db_sessions d @ [reserved_session v c]\<rparr>) (db_previews d')"
    "d' = d\<lparr>db_sessions := db_sessions d @ [reserved_session v c], db_previews := db_previews d'\<rparr>"
    by (elim exE conjE disjE) simp_all
  then show ?thesis
  proof cases
    case 1
    then show ?thesis using assms(2) by simp
  next
    case 2
    let ?d1 = "d\<lparr>db_sessions := db_sessions d @ [reserved_session v c]\<rparr>"
    have "db_ok ?d1" by (rule db_ok_put_sessions [OF assms(2) 2(1)]) simp
    from db_ok_put_leaf(9) [OF this 2(2)] show ?thesis using 2(3) by metis
  qed
qed

lemma Consume_ok:
  assumes "ConsumeSessionStartPreview request d = (Inr s, d')"
  shows "\<exists>v c sid. NewSession (req_Session request) = Inr v \<and> c = ses_CapabilitySnapshot v \<and>
     consume_tx request v c d = Inr (sid, d') \<and> Session_read sid d' = Inr s \<and>
     validFingerprint (req_RequestDigest request)"
proof -
  from assms obtain v c sid where v: "NewSession (req_Session request) = Inr v"
    and c: "CanonicalCapabilities (ses_CapabilitySnapshot v) = Inr c"
    and tx: "consume_tx request v c d = Inr (sid, d')" "Session_read sid d' = Inr s"
      "validFingerprint (req_RequestDigest request)"
    by (auto simp: ConsumeSessionStartPreview_def bindE_Inr split: if_splits sum.splits)
  moreover have "c = ses_CapabilitySnapshot v" using NewSession_ok [OF v] c by (simp add: session_wf_def)
  ultimately show ?thesis by blast
qed

lemma Consume_db_ok: "ConsumeSessionStartPreview request d = (res, d') \<Longrightarrow> db_ok d \<Longrightarrow> db_ok d'"
  using consume_tx_db_ok
  by (auto simp: ConsumeSessionStartPreview_def bindE_Inr split: if_splits sum.splits)

section \<open>A preview is consumed once\<close>

lemma preview_read_update:
  assumes "\<And>r. prev_ID (f r) = prev_ID r"
  shows "SessionStartPreview_read k (d\<lparr>db_sessions := ss, db_previews := update_rows q f (db_previews d)\<rparr>) =
    (case SessionStartPreview_read k d of Inl e \<Rightarrow> Inl e | Inr r \<Rightarrow> Inr (if q r then f r else r))"
  using find_update_rows [of prev_ID f k q "db_previews d", OF assms]
  by (simp add: SessionStartPreview_read_def read_row_def split: option.split)

lemma preview_read_key: "SessionStartPreview_read k d = Inr p \<Longrightarrow> prev_ID p = k"
  unfolding SessionStartPreview_read_def by (drule read_row_key) simp

text \<open>The first consumption: a new starting Session, and the preview now names it.\<close>

lemma Consume_fresh:
  assumes ok: "db_ok d" and run: "ConsumeSessionStartPreview request d = (Inr s, d')"
    and p: "SessionStartPreview_read (req_PreviewID request) d = Inr p" "prev_ConsumedAt p = None"
  shows "session_wf s \<and> ses_Status s = SessionStarting \<and> ses_ID s = ses_ID (req_Session request) \<and>
    ses_ID s \<notin> ses_ID ` set (db_sessions d) \<and> db_sessions d' = db_sessions d @ [s] \<and>
    ses_CredentialInstanceID s = prev_CredentialInstanceID p \<and>
    prev_ClientID p = req_ClientID request \<and> req_At request < prev_ExpiresAt p \<and>
    confirmation_matches request p \<and> preview_still_bound p d = Inr () \<and> validateSessionLinks s d = Inr () \<and>
    SessionStartPreview_read (req_PreviewID request) d' = Inr (consume_row request (ses_ID s) p)"
proof -
  from Consume_ok [OF run] obtain v c sid where
    v: "NewSession (req_Session request) = Inr v" "c = ses_CapabilitySnapshot v"
    and tx: "consume_tx request v c d = Inr (sid, d')" and read: "Session_read sid d' = Inr s" by blast
  let ?r = "reserved_session v c"
  note cases = consume_tx_cases [OF tx p(1)]
  have f: "prev_ClientID p = req_ClientID request" "req_At request < prev_ExpiresAt p"
    "confirmation_matches request p" "session_matches_preview v p" "preview_still_bound p d = Inr ()"
    "validateSessionLinks v d = Inr ()" "sid = ses_ID v" "sessions_ok d (db_sessions d @ [?r])"
    using cases(1) cases(3) [OF p(2)] by blast+
  note d' = cases(4) [OF p(2)]
  have id: "ses_ID ?r = ses_ID v" by (simp add: reserved_session_def)
  have fresh: "ses_ID v \<notin> ses_ID ` set (db_sessions d)" using f(8) id by (simp add: sessions_ok_def)
  have "List.find (\<lambda>x. ses_ID x = ses_ID ?r) (db_sessions d @ [?r]) = Some ?r"
    using f(8) by (intro find_key_unique) (simp_all add: sessions_ok_def)
  then have s: "s = ?r" using read id by (simp add: d' f(7) Session_read_def read_row_ok)
  have fields: "ses_AccountID ?r = ses_AccountID v" "ses_Provider ?r = ses_Provider v"
    "ses_RuntimeProfileID ?r = ses_RuntimeProfileID v" "ses_DeviceID ?r = ses_DeviceID v"
    "ses_CredentialInstanceID ?r = ses_CredentialInstanceID v" "ses_WorkspaceID ?r = ses_WorkspaceID v"
    using f(4) by (simp_all add: reserved_session_def session_matches_preview_def)
  have links: "validateSessionLinks ?r d = validateSessionLinks v d"
    by (simp only: validateSessionLinks_def fields)
  have wf: "session_wf ?r \<and> ses_ID v = ses_ID (req_Session request)"
    using NewSession_ok [OF v(1)] v f(4)
    by (auto simp: session_wf_def reserved_session_def session_matches_preview_def NewSession_iff)
  have "SessionStartPreview_read (req_PreviewID request) d' = Inr (consume_row request (ses_ID v) p)"
    using preview_read_update [of "consume_row request (ses_ID v)"] p preview_read_key [OF p(1)]
    by (simp add: d' consume_row_def)
  then show ?thesis
    using s wf fresh f links id by (simp add: d') (simp add: reserved_session_def session_matches_preview_def)
qed

text \<open>Later consumptions: the same request gets the same Session, any other a conflict; nothing changes.\<close>

lemma Consume_consumed:
  assumes ok: "db_ok d" and p: "SessionStartPreview_read (req_PreviewID request) d = Inr p" "prev_ConsumedAt p \<noteq> None"
  shows "snd (ConsumeSessionStartPreview request d) = d \<and>
    (\<forall>s. fst (ConsumeSessionStartPreview request d) = Inr s \<longrightarrow>
         Session_read (prev_SessionID p) d = Inr s \<and> prev_ConsumedRequestDigest p = req_RequestDigest request \<and>
         prev_ClientID p = req_ClientID request)"
proof -
  have tx: "d' = d \<and> sid = prev_SessionID p \<and> prev_ConsumedRequestDigest p = req_RequestDigest request \<and>
      prev_ClientID p = req_ClientID request" if "consume_tx request v c d = Inr (sid, d')" for v c sid d'
    using consume_tx_cases(1,2) [OF that p(1)] p(2) by blast
  let ?R = "bindE (NewSession (req_Session request)) (\<lambda>v.
     bindE (CanonicalCapabilities (ses_CapabilitySnapshot v)) (\<lambda>c. consume_tx request v c d))"
  have R: "d' = d \<and> sid = prev_SessionID p \<and> prev_ConsumedRequestDigest p = req_RequestDigest request \<and>
      prev_ClientID p = req_ClientID request" if R: "?R = Inr (sid, d')" for sid d'
  proof -
    from R obtain v c where "consume_tx request v c d = Inr (sid, d')" by (auto simp: bindE_Inr)
    then show ?thesis by (rule tx)
  qed
  show ?thesis
  proof (cases ?R)
    case (Inl e)
    then show ?thesis by (simp add: ConsumeSessionStartPreview_def)
  next
    case (Inr x)
    then obtain sid d' where x: "?R = Inr (sid, d')" by (cases x) simp
    from R [OF x] show ?thesis by (simp add: ConsumeSessionStartPreview_def x)
  qed
qed

end
