(* ===== verification/StoreAccounts.thy ===== *)
theory StoreAccounts
  imports StorePreviews
begin

text \<open>
  \<open>src/internal/storage/accounts.go\<close>: the public accounts and profiles with their revisions, the pages
  they are listed in, their deletion with tombstones, and the usage snapshots with windows.

  A page cursor is the base64 text of a JSON object. It is modelled by what it decodes to: the empty
  text, a text that does not decode, or the object; a timestamp that does not parse is absent. The
  filter digest is SHA-256, an argument of the functions that compute it.
\<close>

definition DefaultPageLimit :: int where "DefaultPageLimit = 50"
definition MaxPageLimit :: int where "MaxPageLimit = 200"

record pageCursor =
  cur_Version :: int
  cur_At :: "time option"
  cur_ID :: ID
  cur_Filter :: string

datatype page_token = NoToken | BadToken | Token pageCursor

record AccountListOptions =
  alo_Provider :: string
  alo_Limit :: int
  alo_Cursor :: page_token

record ProfileListOptions =
  plo_AccountID :: ID
  plo_Limit :: int
  plo_Cursor :: page_token

record AccountPage =
  ap_Items :: "Account list"
  ap_NextCursor :: page_token

record ProfilePage =
  pp_Items :: "RuntimeProfile list"
  pp_NextCursor :: page_token

record AccountPatch =
  apatch_DisplayName :: "string option"
  apatch_SubscriptionHint :: "string option"

record ProfilePatch =
  ppatch_Name :: "string option"
  ppatch_SelectorAlias :: "string option"

record ProfileBinding =
  bind_Account :: Account
  bind_Profile :: RuntimeProfile
  bind_Credential :: "CredentialInstance option"

section \<open>Constraints by kind\<close>

text \<open>
  A violated UNIQUE or PRIMARY KEY constraint is told by the text of the driver's error. The CHECKs
  of the new row come first, the foreign keys last.
\<close>

definition profiles_unique :: "RuntimeProfile list \<Rightarrow> bool" where
  "profiles_unique rows \<longleftrightarrow>
     distinct (map prof_ID rows) \<and> distinct (map (\<lambda>r. (prof_DeviceID r, prof_Name r)) rows) \<and>
     distinct (map prof_SelectorKey (filter (\<lambda>r. \<not> prof_Internal r \<and> prof_SelectorKey r \<noteq> '''') rows))"

definition profile_checks :: "RuntimeProfile \<Rightarrow> bool" where
  "profile_checks r \<longleftrightarrow>
     prof_AccountID r \<noteq> '''' \<and> between 1 128 (prof_Name r) \<and> json_valid (prof_Settings r) \<and>
     1 \<le> prof_Revision r \<and>
     (prof_SelectorAlias r = '''' \<and> prof_SelectorKey r = '''' \<or>
      between 1 32 (prof_SelectorAlias r) \<and> between 1 32 (prof_SelectorKey r)) \<and>
     (prof_Provider r = ProviderFake \<and> prof_Internal r \<or>
      prof_Provider r \<in> {ProviderCodex, ProviderClaude} \<and> \<not> prof_Internal r)"

lemma profiles_ok_split:
  "profiles_ok d rows \<longleftrightarrow> profiles_unique rows \<and> list_all profile_checks rows \<and>
     list_all (\<lambda>r. references dev_ID (db_devices d) (prof_DeviceID r) \<and>
                   references acc_ID (db_accounts d) (prof_AccountID r) \<and>
                   references_or_null cred_ID (db_credentials d) (prof_CredentialInstanceID r)) rows"
  by (auto simp: profiles_ok_def profiles_unique_def profile_checks_def list_all_iff)

definition profile_write_error :: "string \<Rightarrow> RuntimeProfile list \<Rightarrow> error" where
  "profile_write_error message rows =
     (if list_all profile_checks rows \<and> \<not> profiles_unique rows
      then NewError CodeAliasConflict ''profile alias already exists''
      else writeError message)"

definition insert_profile :: "string \<Rightarrow> RuntimeProfile \<Rightarrow> db \<Rightarrow> error + db" where
  "insert_profile message row d =
     (let rows = db_profiles d @ [row]
      in if profiles_ok d rows then Inr (d\<lparr>db_profiles := rows\<rparr>) else Inl (profile_write_error message rows))"

section \<open>Reads\<close>

definition PublicAccount :: "ID \<Rightarrow> db \<Rightarrow> error + Account" where
  "PublicAccount aid d =
     bindE (Account_read aid d) (\<lambda>account.
     if acc_Internal account then fail CodeAccountNotFound ''account not found'' else Inr account)"

definition accountTx :: "ID \<Rightarrow> db \<Rightarrow> error + Account" where
  "accountTx aid d =
     read_row acc_ID (db_accounts d) aid (NewError CodeAccountNotFound ''account not found'')"

definition profileTx :: "ID \<Rightarrow> db \<Rightarrow> error + RuntimeProfile" where
  "profileTx pid d = read_row prof_ID (db_profiles d) pid (NewError CodeNotFound ''profile not found'')"

definition Profile_read :: "ID \<Rightarrow> db \<Rightarrow> error + RuntimeProfile" where
  "Profile_read pid d =
     (case List.find (\<lambda>r. prof_ID r = pid \<and> \<not> prof_Internal r) (db_profiles d) of
        None \<Rightarrow> fail CodeProfileNotFound ''profile not found''
      | Some profile \<Rightarrow> Inr profile)"

definition bind_profile :: "RuntimeProfile \<Rightarrow> db \<Rightarrow> error + ProfileBinding" where
  "bind_profile profile d =
     bindE (Account_read (prof_AccountID profile) d) (\<lambda>account.
     if prof_CredentialInstanceID profile \<noteq> ''''
     then bindE (CredentialInstance_read (prof_CredentialInstanceID profile) d) (\<lambda>credential.
          Inr \<lparr>bind_Account = account, bind_Profile = profile, bind_Credential = Some credential\<rparr>)
     else Inr \<lparr>bind_Account = account, bind_Profile = profile, bind_Credential = None\<rparr>)"

definition ResolveProfile :: "string \<Rightarrow> db \<Rightarrow> error + ProfileBinding" where
  "ResolveProfile selector d =
     bindE (ParseProfileSelector selector) (\<lambda>key.
     case List.find (\<lambda>r. prof_SelectorKey r = key \<and> \<not> prof_Internal r) (db_profiles d) of
       None \<Rightarrow> fail CodeProfileNotFound ''profile not found''
     | Some profile \<Rightarrow> bind_profile profile d)"

definition ResolveProfileTarget :: "string \<Rightarrow> db \<Rightarrow> error + ProfileBinding" where
  "ResolveProfileTarget target d =
     (if \<not> has_prefix target ''profile_'' \<or> ValidateID target \<noteq> Inr ()
      then ResolveProfile target d
      else bindE (Profile_read target d) (\<lambda>profile. bind_profile profile d))"

definition AccountBySelector :: "string \<Rightarrow> db \<Rightarrow> error + Account" where
  "AccountBySelector selector d =
     (if has_prefix selector ''@''
      then bindE (ResolveProfile selector d) (\<lambda>binding. Inr (bind_Account binding))
      else PublicAccount selector d)"

definition accountByAliasTx :: "string \<Rightarrow> db \<Rightarrow> error + (Account \<times> RuntimeProfile) option" where
  "accountByAliasTx key d =
     (case List.find (\<lambda>r. prof_SelectorKey r = key \<and> \<not> prof_Internal r) (db_profiles d) of
        None \<Rightarrow> Inr None
      | Some row \<Rightarrow>
          bindE (accountTx (prof_AccountID row) d) (\<lambda>account.
          bindE (profileTx (prof_ID row) d) (\<lambda>profile. Inr (Some (account, profile)))))"

section \<open>Creation\<close>

definition validatePublicProfile :: "RuntimeProfile \<Rightarrow> Account \<Rightarrow> error + RuntimeProfile" where
  "validatePublicProfile profile account =
     (if ValidateID (prof_ID profile) \<noteq> Inr () \<or> ValidateID (prof_DeviceID profile) \<noteq> Inr () \<or>
         prof_AccountID profile \<noteq> acc_ID account \<or> prof_Provider profile \<noteq> acc_Provider account \<or>
         \<not> PublicProvider (prof_Provider profile) \<or> prof_Internal profile \<or>
         length (prof_Name profile) < 1 \<or> 128 < length (prof_Name profile) \<or> prof_Revision profile < 1 \<or>
         prof_CreatedAt profile = 0 \<or> prof_UpdatedAt profile < prof_CreatedAt profile \<or>
         prof_CredentialInstanceID profile \<noteq> ''''
      then fail CodeInvalidArgument ''invalid public profile''
      else bindE (CanonicalSelectorAlias (prof_SelectorAlias profile)) (\<lambda>key.
           bindE (CanonicalSettings (prof_Settings profile)) (\<lambda>settings.
           Inr (profile\<lparr>prof_SelectorKey := key, prof_Settings := settings\<rparr>))))"

definition CreateAccountWithDefaultProfile ::
  "Account \<Rightarrow> RuntimeProfile \<Rightarrow> db \<Rightarrow> error + ((Account \<times> RuntimeProfile) \<times> db)" where
  "CreateAccountWithDefaultProfile account0 profile0 d =
     (case NewAccount account0 of
        Inl _ \<Rightarrow> fail CodeInvalidArgument ''invalid public account''
      | Inr account \<Rightarrow>
      if \<not> PublicProvider (acc_Provider account0) \<or> acc_Internal account0
      then fail CodeInvalidArgument ''invalid public account''
      else
      bindE (validatePublicProfile profile0 account) (\<lambda>profile.
      bindE (accountByAliasTx (prof_SelectorKey profile) d) (\<lambda>found.
      case found of
        Some (existing, existingProfile) \<Rightarrow>
          if acc_Provider existing = acc_Provider account \<and> acc_DisplayName existing = acc_DisplayName account \<and>
             acc_SubscriptionHint existing = acc_SubscriptionHint account \<and>
             prof_Name existingProfile = prof_Name profile \<and>
             prof_SelectorAlias existingProfile = prof_SelectorAlias profile
          then Inr ((existing, existingProfile), d)
          else fail CodeAliasConflict ''profile alias already exists''
      | None \<Rightarrow>
      bindE (sql_insert accounts_ok ''account could not be created'' (account\<lparr>acc_Internal := False\<rparr>)
               (db_accounts d)) (\<lambda>accounts.
      let d1 = d\<lparr>db_accounts := accounts\<rparr>
      in bindE (insert_profile ''default profile could not be created''
                  (profile\<lparr>prof_CredentialInstanceID := '''', prof_Internal := False\<rparr>) d1) (\<lambda>d2.
         Inr ((account, profile), d2))))))"

definition CreateProfile :: "Account \<Rightarrow> RuntimeProfile \<Rightarrow> db \<Rightarrow> error + (RuntimeProfile \<times> db)" where
  "CreateProfile account profile0 d =
     bindE (validatePublicProfile profile0 account) (\<lambda>profile.
     case List.find (\<lambda>r. acc_ID r = acc_ID account) (db_accounts d) of
       None \<Rightarrow> fail CodeAccountNotFound ''account not found''
     | Some row \<Rightarrow>
     if acc_Internal row \<or> acc_Provider row \<noteq> prof_Provider profile
     then fail CodeInvalidArgument ''profile provider does not match account''
     else bindE (insert_profile ''profile could not be created''
                   (profile\<lparr>prof_CredentialInstanceID := '''', prof_Internal := False\<rparr>) d) (\<lambda>d'.
     Inr (profile, d')))"

section \<open>Pages\<close>

definition pageLimit :: "int \<Rightarrow> error + int" where
  "pageLimit limit =
     (if limit = 0 then Inr DefaultPageLimit
      else if limit < 1 \<or> MaxPageLimit < limit
      then fail CodeInvalidArgument ''page limit must be between 1 and 200''
      else Inr limit)"

definition cursorFilter :: "(string \<Rightarrow> string) \<Rightarrow> string list \<Rightarrow> string" where
  "cursorFilter sha256 parts = sha256 (concat (take 1 parts @ map (\<lambda>p. CHR 0x00 # p) (drop 1 parts)))"

definition encodePageCursor :: "time \<Rightarrow> ID \<Rightarrow> string \<Rightarrow> page_token" where
  "encodePageCursor t i filter_digest =
     Token \<lparr>cur_Version = 1, cur_At = Some t, cur_ID = i, cur_Filter = filter_digest\<rparr>"

text \<open>\<^const>\<open>None\<close> is the zero cursor, whose empty timestamp lets every row pass.\<close>

definition decodePageCursor :: "page_token \<Rightarrow> string \<Rightarrow> error + (time \<times> ID) option" where
  "decodePageCursor token filter_digest =
     (case token of
        NoToken \<Rightarrow> Inr None
      | BadToken \<Rightarrow> fail CodeInvalidArgument ''page cursor is invalid''
      | Token cursor \<Rightarrow>
          if cur_Version cursor \<noteq> 1 \<or> cur_Filter cursor \<noteq> filter_digest \<or> ValidateID (cur_ID cursor) \<noteq> Inr ()
          then fail CodeInvalidArgument ''page cursor is invalid for this filter''
          else case cur_At cursor of
                 None \<Rightarrow> fail CodeInvalidArgument ''page cursor timestamp is invalid''
               | Some t \<Rightarrow> Inr (Some (t, cur_ID cursor)))"

text \<open>\<open>ORDER BY created_at, id\<close> and the row condition of the cursor.\<close>

definition page_before :: "time \<times> ID \<Rightarrow> time \<times> ID \<Rightarrow> bool" where
  "page_before x y \<longleftrightarrow> text_before (fst x) (fst y) \<or> (fst x = fst y \<and> snd x < snd y)"

definition page_rows :: "('r \<Rightarrow> time \<times> ID) \<Rightarrow> (time \<times> ID) option \<Rightarrow> int \<Rightarrow> 'r list \<Rightarrow> 'r list" where
  "page_rows key cursor limit rows =
     take (nat (limit + 1)) (order_by (\<lambda>x y. page_before (key x) (key y))
       (filter (\<lambda>r. case cursor of None \<Rightarrow> True | Some c \<Rightarrow> page_before c (key r)) rows))"

definition page_cut :: "('r \<Rightarrow> time \<times> ID) \<Rightarrow> string \<Rightarrow> int \<Rightarrow> 'r list \<Rightarrow> 'r list \<times> page_token" where
  "page_cut key filter_digest limit items =
     (if int (length items) > limit
      then let shown = take (nat limit) items; k = key (last shown)
           in (shown, encodePageCursor (fst k) (snd k) filter_digest)
      else (items, NoToken))"

definition ListAccountPage :: "(string \<Rightarrow> string) \<Rightarrow> AccountListOptions \<Rightarrow> db \<Rightarrow> error + AccountPage" where
  "ListAccountPage sha256 options d =
     bindE (pageLimit (alo_Limit options)) (\<lambda>limit.
     if alo_Provider options \<noteq> '''' \<and> \<not> PublicProvider (alo_Provider options)
     then fail CodeInvalidArgument ''account provider filter is invalid''
     else
     let filter_digest = cursorFilter sha256 [''accounts'', alo_Provider options]
     in bindE (decodePageCursor (alo_Cursor options) filter_digest) (\<lambda>cursor.
        let (items, next) = page_cut (\<lambda>r. (acc_CreatedAt r, acc_ID r)) filter_digest limit
              (page_rows (\<lambda>r. (acc_CreatedAt r, acc_ID r)) cursor limit
                 (filter (\<lambda>r. \<not> acc_Internal r \<and>
                              (alo_Provider options = '''' \<or> acc_Provider r = alo_Provider options))
                    (db_accounts d)))
        in Inr \<lparr>ap_Items = items, ap_NextCursor = next\<rparr>))"

definition ListProfiles :: "(string \<Rightarrow> string) \<Rightarrow> ProfileListOptions \<Rightarrow> db \<Rightarrow> error + ProfilePage" where
  "ListProfiles sha256 options d =
     bindE (pageLimit (plo_Limit options)) (\<lambda>limit.
     if plo_AccountID options \<noteq> '''' \<and> ValidateID (plo_AccountID options) \<noteq> Inr ()
     then fail CodeInvalidArgument ''profile account filter is invalid''
     else
     let filter_digest = cursorFilter sha256 [''profiles'', plo_AccountID options]
     in bindE (decodePageCursor (plo_Cursor options) filter_digest) (\<lambda>cursor.
        let (items, next) = page_cut (\<lambda>r. (prof_CreatedAt r, prof_ID r)) filter_digest limit
              (page_rows (\<lambda>r. (prof_CreatedAt r, prof_ID r)) cursor limit
                 (filter (\<lambda>r. \<not> prof_Internal r \<and>
                              (plo_AccountID options = '''' \<or> prof_AccountID r = plo_AccountID options))
                    (db_profiles d)))
        in Inr \<lparr>pp_Items = items, pp_NextCursor = next\<rparr>))"

section \<open>Versioned updates\<close>

definition UpdateAccount :: "ID \<Rightarrow> int \<Rightarrow> AccountPatch \<Rightarrow> time \<Rightarrow> db \<Rightarrow> error + (Account \<times> db)" where
  "UpdateAccount aid expectedRevision patch now d =
     (if expectedRevision < 1 \<or> now = 0 \<or>
         (apatch_DisplayName patch = None \<and> apatch_SubscriptionHint patch = None)
      then fail CodeInvalidArgument ''invalid account update''
      else bindE (Account_read aid d) (\<lambda>stored.
      if acc_Revision stored \<noteq> expectedRevision
      then fail CodeSyncConflict ''account revision changed''
      else
      let named = (case apatch_DisplayName patch of None \<Rightarrow> stored | Some n \<Rightarrow> stored\<lparr>acc_DisplayName := n\<rparr>);
          hinted = (case apatch_SubscriptionHint patch of None \<Rightarrow> named
                    | Some h \<Rightarrow> named\<lparr>acc_SubscriptionHint := h\<rparr>);
          account = hinted\<lparr>acc_Revision := i64 (acc_Revision hinted + 1), acc_UpdatedAt := now\<rparr>
      in bindE (NewAccount account) (\<lambda>_.
         bindE (sql_update accounts_ok ''account could not be updated''
                  (\<lambda>r. acc_ID r = aid \<and> \<not> acc_Internal r \<and> acc_Revision r = expectedRevision)
                  (\<lambda>r. r\<lparr>acc_DisplayName := acc_DisplayName account,
                         acc_SubscriptionHint := acc_SubscriptionHint account,
                         acc_Revision := acc_Revision account, acc_UpdatedAt := acc_UpdatedAt account\<rparr>)
                  (db_accounts d)) (\<lambda>(changed, rows).
         if changed \<noteq> 1 then fail CodeSyncConflict ''account revision changed''
         else Inr (account, d\<lparr>db_accounts := rows\<rparr>)))))"

definition SetAccountEnabledRevision ::
  "ID \<Rightarrow> int \<Rightarrow> bool \<Rightarrow> time \<Rightarrow> db \<Rightarrow> error + (Account \<times> db)" where
  "SetAccountEnabledRevision aid expectedRevision enabled now d =
     (if expectedRevision < 1 \<or> now = 0 then fail CodeInvalidArgument ''invalid account state update''
      else bindE (sql_update accounts_ok ''account state could not be updated''
             (\<lambda>r. acc_ID r = aid \<and> \<not> acc_Internal r \<and> acc_Revision r = expectedRevision)
             (\<lambda>r. r\<lparr>acc_Enabled := enabled, acc_Revision := acc_Revision r + 1, acc_UpdatedAt := now\<rparr>)
             (db_accounts d)) (\<lambda>(changed, rows).
      if changed \<noteq> 1
      then bindE (Account_read aid d) (\<lambda>_. fail CodeSyncConflict ''account revision changed'')
      else let d' = d\<lparr>db_accounts := rows\<rparr>
           in bindE (Account_read aid d') (\<lambda>account. Inr (account, d'))))"

text \<open>
  The update writes the alias columns back: an alias that was NULL is read as the empty text and
  written as such, which violates the CHECK on its length.
\<close>

definition UpdateProfile :: "ID \<Rightarrow> int \<Rightarrow> ProfilePatch \<Rightarrow> time \<Rightarrow> db \<Rightarrow> error + (RuntimeProfile \<times> db)" where
  "UpdateProfile pid expectedRevision patch now d =
     (if expectedRevision < 1 \<or> now = 0 \<or>
         (ppatch_Name patch = None \<and> ppatch_SelectorAlias patch = None)
      then fail CodeInvalidArgument ''invalid profile update''
      else bindE (Profile_read pid d) (\<lambda>stored.
      if prof_Revision stored \<noteq> expectedRevision
      then fail CodeSyncConflict ''profile revision changed''
      else
      let named = (case ppatch_Name patch of None \<Rightarrow> stored | Some n \<Rightarrow> stored\<lparr>prof_Name := n\<rparr>)
      in bindE (case ppatch_SelectorAlias patch of
                  None \<Rightarrow> Inr named
                | Some alias \<Rightarrow> bindE (CanonicalSelectorAlias alias) (\<lambda>key.
                    Inr (named\<lparr>prof_SelectorAlias := alias, prof_SelectorKey := key\<rparr>))) (\<lambda>changed_profile.
         if length (prof_Name changed_profile) < 1 \<or> 128 < length (prof_Name changed_profile)
         then fail CodeInvalidArgument ''invalid profile name''
         else
         let profile = changed_profile\<lparr>prof_Revision := i64 (prof_Revision changed_profile + 1),
                                       prof_UpdatedAt := now\<rparr>;
             p = (\<lambda>r. prof_ID r = pid \<and> \<not> prof_Internal r \<and> prof_Revision r = expectedRevision);
             rows = update_rows p
               (\<lambda>r. r\<lparr>prof_Name := prof_Name profile, prof_SelectorAlias := prof_SelectorAlias profile,
                      prof_SelectorKey := prof_SelectorKey profile, prof_Revision := prof_Revision profile,
                      prof_UpdatedAt := prof_UpdatedAt profile\<rparr>) (db_profiles d)
         in if prof_SelectorKey profile = '''' then Inl (writeError ''profile could not be updated'')
            else if \<not> profiles_ok d rows then Inl (profile_write_error ''profile could not be updated'' rows)
            else if count_rows p (db_profiles d) \<noteq> 1 then fail CodeSyncConflict ''profile revision changed''
            else Inr (profile, d\<lparr>db_profiles := rows\<rparr>))))"

definition SetProfileEnabled ::
  "ID \<Rightarrow> int \<Rightarrow> bool \<Rightarrow> time \<Rightarrow> db \<Rightarrow> error + (RuntimeProfile \<times> db)" where
  "SetProfileEnabled pid expectedRevision enabled now d =
     (if expectedRevision < 1 \<or> now = 0 then fail CodeInvalidArgument ''invalid profile state update''
      else bindE (sql_update (profiles_ok d) ''profile state could not be updated''
             (\<lambda>r. prof_ID r = pid \<and> \<not> prof_Internal r \<and> prof_Revision r = expectedRevision)
             (\<lambda>r. r\<lparr>prof_Enabled := enabled, prof_Revision := prof_Revision r + 1, prof_UpdatedAt := now\<rparr>)
             (db_profiles d)) (\<lambda>(changed, rows).
      if changed \<noteq> 1
      then bindE (Profile_read pid d) (\<lambda>_. fail CodeSyncConflict ''profile revision changed'')
      else let d' = d\<lparr>db_profiles := rows\<rparr>
           in bindE (Profile_read pid d') (\<lambda>profile. Inr (profile, d'))))"

section \<open>Deletion\<close>

definition insert_tombstone :: "string \<Rightarrow> string \<Rightarrow> ID \<Rightarrow> string \<Rightarrow> int \<Rightarrow> time \<Rightarrow> db \<Rightarrow> error + db" where
  "insert_tombstone message kind i provider revision now d =
     bindE (sql_insert tombstones_ok message
              \<lparr>tomb_EntityType = kind, tomb_EntityID = i, tomb_Provider = provider,
               tomb_FinalRevision = i64 (revision + 1), tomb_DeletedAt = now\<rparr> (db_tombstones d)) (\<lambda>rows.
     Inr (d\<lparr>db_tombstones := rows\<rparr>))"

text \<open>A DELETE fails when a row it would remove is still referred to.\<close>

definition delete_profiles :: "string \<Rightarrow> (RuntimeProfile \<Rightarrow> bool) \<Rightarrow> db \<Rightarrow> error + db" where
  "delete_profiles message q d =
     (if list_ex (\<lambda>r. q r \<and> profile_referenced d (prof_ID r)) (db_profiles d) then Inl (writeError message)
      else Inr (d\<lparr>db_profiles := delete_rows q (db_profiles d)\<rparr>))"

definition delete_usages :: "string \<Rightarrow> (UsageSnapshot \<Rightarrow> bool) \<Rightarrow> db \<Rightarrow> error + db" where
  "delete_usages message q d =
     (if list_ex (\<lambda>r. q r \<and> usage_referenced d (use_ID r)) (db_usages d) then Inl (writeError message)
      else Inr (d\<lparr>db_usages := delete_rows q (db_usages d),
                  db_windows := delete_rows (\<lambda>w. list_ex (\<lambda>r. q r \<and> use_ID r = fst (fst w)) (db_usages d))
                    (db_windows d)\<rparr>))"

definition delete_accounts :: "string \<Rightarrow> (Account \<Rightarrow> bool) \<Rightarrow> db \<Rightarrow> error + db" where
  "delete_accounts message q d =
     (if list_ex (\<lambda>r. q r \<and> account_referenced d (acc_ID r)) (db_accounts d) then Inl (writeError message)
      else Inr (d\<lparr>db_accounts := delete_rows q (db_accounts d)\<rparr>))"

definition DeleteProfile :: "ID \<Rightarrow> int \<Rightarrow> time \<Rightarrow> db \<Rightarrow> error + (unit \<times> db)" where
  "DeleteProfile pid expectedRevision now d =
     (if expectedRevision < 1 \<or> now = 0 then fail CodeInvalidArgument ''invalid profile deletion''
      else bindE (profileTx pid d) (\<lambda>profile.
      if prof_Internal profile then fail CodePermissionDenied ''internal profile cannot be deleted''
      else if prof_Revision profile \<noteq> expectedRevision then fail CodeSyncConflict ''profile revision changed''
      else if prof_Enabled profile then fail CodeConflict ''profile must be disabled before deletion''
      else if prof_CredentialInstanceID profile \<noteq> ''''
      then fail CodeProviderCleanupRequired ''profile credential cleanup is required''
      else if count_rows (\<lambda>r. ses_RuntimeProfileID r = pid) (db_sessions d) \<noteq> 0
      then fail CodeProfileInUse ''profile is referenced by sessions''
      else
      bindE (insert_tombstone ''profile tombstone could not be created'' ''profile'' pid
               (prof_Provider profile) (prof_Revision profile) now d) (\<lambda>d1.
      let q = (\<lambda>r. prof_ID r = pid \<and> prof_Revision r = expectedRevision)
      in bindE (delete_profiles ''profile could not be deleted'' q d1) (\<lambda>d2.
         if count_rows q (db_profiles d1) \<noteq> 1 then fail CodeSyncConflict ''profile revision changed''
         else Inr ((), d2)))))"

fun profile_tombstones :: "RuntimeProfile list \<Rightarrow> time \<Rightarrow> db \<Rightarrow> error + db" where
  "profile_tombstones [] now d = Inr d"
| "profile_tombstones (p # ps) now d =
     bindE (insert_tombstone ''profile tombstone could not be created'' ''profile'' (prof_ID p)
              (prof_Provider p) (prof_Revision p) now d) (profile_tombstones ps now)"

definition DeleteAccount :: "ID \<Rightarrow> int \<Rightarrow> time \<Rightarrow> db \<Rightarrow> error + (unit \<times> db)" where
  "DeleteAccount aid expectedRevision now d =
     (if expectedRevision < 1 \<or> now = 0 then fail CodeInvalidArgument ''invalid account deletion''
      else bindE (accountTx aid d) (\<lambda>account.
      if acc_Internal account then fail CodePermissionDenied ''internal account cannot be deleted''
      else if acc_Revision account \<noteq> expectedRevision then fail CodeSyncConflict ''account revision changed''
      else if acc_Enabled account then fail CodeConflict ''account must be disabled before deletion''
      else if count_rows (\<lambda>r. ses_AccountID r = aid) (db_sessions d) \<noteq> 0
      then fail CodeActiveSessions ''account is referenced by sessions''
      else if count_rows (\<lambda>r. cred_AccountID r = aid) (db_credentials d) \<noteq> 0
      then fail CodeProviderCleanupRequired ''account credential cleanup is required''
      else
      let profiles = (\<lambda>r. prof_AccountID r = aid \<and> \<not> prof_Internal r);
          accounts = (\<lambda>r. acc_ID r = aid \<and> acc_Revision r = expectedRevision)
      in bindE (profile_tombstones (filter profiles (db_profiles d)) now d) (\<lambda>d1.
         bindE (delete_usages ''account usage could not be deleted'' (\<lambda>r. use_AccountID r = aid) d1) (\<lambda>d2.
         bindE (delete_profiles ''account profiles could not be deleted'' profiles d2) (\<lambda>d3.
         bindE (insert_tombstone ''account tombstone could not be created'' ''account'' aid
                  (acc_Provider account) (acc_Revision account) now d3) (\<lambda>d4.
         bindE (delete_accounts ''account could not be deleted'' accounts d4) (\<lambda>d5.
         if count_rows accounts (db_accounts d4) \<noteq> 1 then fail CodeSyncConflict ''account revision changed''
         else Inr ((), d5))))))))"

section \<open>Usage with windows\<close>

text \<open>The columns the statement names; the others take their defaults.\<close>

definition windowed_usage_row :: "UsageSnapshot \<Rightarrow> UsageSnapshot" where
  "windowed_usage_row s = s\<lparr>use_WindowKind := ''structured'', use_UsedValue := None, use_LimitValue := None,
     use_UsedPercent := None, use_ResetsAt := None, use_SourceVersion := '''',
     use_CapabilityStatus := UsageUnavailable, use_ErrorCode := '''', use_Windows := []\<rparr>"

definition window_row :: "UsageWindow \<Rightarrow> UsageWindow" where
  "window_row w = w\<lparr>win_UsedValue := sql_real (win_UsedValue w), win_LimitValue := sql_real (win_LimitValue w),
     win_UsedPercent := sql_real (win_UsedPercent w), win_RemainingPercent := sql_real (win_RemainingPercent w)\<rparr>"

fun insert_windows :: "ID \<Rightarrow> nat \<Rightarrow> UsageWindow list \<Rightarrow> db \<Rightarrow> error + db" where
  "insert_windows snapshot index [] d = Inr d"
| "insert_windows snapshot index (w # ws) d =
     bindE (sql_insert (windows_ok d) ''usage window could not be created'' ((snapshot, index), window_row w)
              (db_windows d)) (\<lambda>rows.
     insert_windows snapshot (Suc index) ws (d\<lparr>db_windows := rows\<rparr>))"

definition CreateUsageSnapshotWithWindows :: "UsageSnapshot \<Rightarrow> db \<Rightarrow> error + (unit \<times> db)" where
  "CreateUsageSnapshotWithWindows snapshot d =
     bindE (NewUsageSnapshot snapshot) (\<lambda>validated.
     case List.find (\<lambda>r. acc_ID r = use_AccountID validated) (db_accounts d) of
       None \<Rightarrow> Inl (WrapError CodeConflict ''usage account could not be read'' (OtherError ''sql: no rows in result set''))
     | Some account \<Rightarrow>
     if acc_Internal account \<or> acc_Provider account \<noteq> use_Provider validated
     then fail CodeInvalidArgument ''usage provider does not match account''
     else if list_ex (\<lambda>r. use_AccountID r = use_AccountID validated \<and> use_DeviceID r = use_DeviceID validated \<and>
                          use_ProviderVersion r = use_ProviderVersion validated \<and>
                          use_ObservedAt r = use_ObservedAt validated \<and>
                          use_RawReferenceHash r = use_RawReferenceHash validated) (db_usages d)
     then Inr ((), d)
     else bindE (sql_insert (usages_ok d) ''usage snapshot could not be created''
                   (windowed_usage_row validated) (db_usages d)) (\<lambda>rows.
     bindE (insert_windows (use_ID validated) 0 (use_Windows validated) (d\<lparr>db_usages := rows\<rparr>)) (\<lambda>d'.
     Inr ((), d'))))"

definition usageWindows :: "ID \<Rightarrow> db \<Rightarrow> UsageWindow list" where
  "usageWindows snapshot d =
     map snd (order_by (\<lambda>x y. snd (fst x) < snd (fst y)) (filter (\<lambda>r. fst (fst r) = snapshot) (db_windows d)))"

text \<open>The fields the query does not select have their zero values.\<close>

definition listed_usage :: "UsageSnapshot \<Rightarrow> db \<Rightarrow> UsageSnapshot" where
  "listed_usage r d = r\<lparr>use_WindowKind := '''', use_UsedValue := None, use_LimitValue := None,
     use_UsedPercent := None, use_ResetsAt := None, use_SourceVersion := '''',
     use_CapabilityStatus := OtherUsageCapabilityStatus '''', use_ErrorCode := '''',
     use_Windows := usageWindows (use_ID r) d\<rparr>"

definition ListUsageSnapshotsWithWindows :: "ID \<Rightarrow> db \<Rightarrow> error + UsageSnapshot list" where
  "ListUsageSnapshotsWithWindows accountID d =
     (if accountID \<noteq> '''' \<and> ValidateID accountID \<noteq> Inr ()
      then fail CodeInvalidArgument ''usage account filter is invalid''
      else Inr (map (\<lambda>r. listed_usage r d)
             (order_by (\<lambda>x y. text_before (use_ObservedAt y) (use_ObservedAt x) \<or>
                              (use_ObservedAt x = use_ObservedAt y \<and> use_ID y < use_ID x))
               (filter (\<lambda>r. accountID = '''' \<or> use_AccountID r = accountID) (db_usages d)))))"

section \<open>The tables stay in order\<close>

lemma insert_profile_db_ok: "insert_profile m r d = Inr d' \<Longrightarrow> db_ok d \<Longrightarrow> db_ok d'"
  by (auto simp: insert_profile_def Let_def intro!: db_ok_put_profiles split: if_splits)

lemma CreateAccountWithDefaultProfile_db_ok:
  assumes "CreateAccountWithDefaultProfile a p d = Inr (r, d')" "db_ok d"
  shows "db_ok d'"
proof -
  from assms(1) consider "d' = d" |
    rows m row where "accounts_ok rows" "\<And>k. references acc_ID (db_accounts d) k \<Longrightarrow> references acc_ID rows k"
    "insert_profile m row (d\<lparr>db_accounts := rows\<rparr>) = Inr d'"
    by (fastforce simp: CreateAccountWithDefaultProfile_def bindE_Inr sql_insert_ok Let_def
        split: if_splits option.splits sum.splits)
  then show ?thesis
    by cases (use assms(2) db_ok_put_accounts insert_profile_db_ok in blast)+
qed

lemma CreateProfile_db_ok: "CreateProfile a p d = Inr (r, d') \<Longrightarrow> db_ok d \<Longrightarrow> db_ok d'"
  by (auto simp: CreateProfile_def bindE_Inr intro: insert_profile_db_ok split: if_splits option.splits)

lemma update_accounts_ok:
  assumes "db_ok d" "accounts_ok (update_rows q f (db_accounts d))" "\<And>r. acc_ID (f r) = acc_ID r"
  shows "db_ok (d\<lparr>db_accounts := update_rows q f (db_accounts d)\<rparr>)"
  using db_ok_put_accounts [OF assms(1,2)] references_update_rows [of acc_ID f q, OF assms(3)] by simp

lemma update_profiles_ok:
  assumes "db_ok d" "profiles_ok d (update_rows q f (db_profiles d))" "\<And>r. prof_ID (f r) = prof_ID r"
  shows "db_ok (d\<lparr>db_profiles := update_rows q f (db_profiles d)\<rparr>)"
  using db_ok_put_profiles [OF assms(1,2)] references_update_rows [of prof_ID f q, OF assms(3)] by simp

lemma UpdateAccount_db_ok: "UpdateAccount i n p now d = Inr (a, d') \<Longrightarrow> db_ok d \<Longrightarrow> db_ok d'"
  by (auto simp: UpdateAccount_def bindE_Inr sql_update_ok Let_def intro!: update_accounts_ok split: if_splits)

lemma SetAccountEnabledRevision_db_ok:
  "SetAccountEnabledRevision i n e now d = Inr (a, d') \<Longrightarrow> db_ok d \<Longrightarrow> db_ok d'"
  by (auto simp: SetAccountEnabledRevision_def bindE_Inr sql_update_ok Let_def intro!: update_accounts_ok
      split: if_splits)

lemma UpdateProfile_db_ok: "UpdateProfile i n p now d = Inr (r, d') \<Longrightarrow> db_ok d \<Longrightarrow> db_ok d'"
  by (auto simp: UpdateProfile_def bindE_Inr Let_def intro!: update_profiles_ok split: if_splits option.splits)

lemma SetProfileEnabled_db_ok: "SetProfileEnabled i n e now d = Inr (r, d') \<Longrightarrow> db_ok d \<Longrightarrow> db_ok d'"
  by (auto simp: SetProfileEnabled_def bindE_Inr sql_update_ok Let_def intro!: update_profiles_ok
      split: if_splits)

lemma insert_tombstone_db_ok: "insert_tombstone m k i p r now d = Inr d' \<Longrightarrow> db_ok d \<Longrightarrow> db_ok d'"
  by (auto simp: insert_tombstone_def bindE_Inr sql_insert_ok intro!: db_ok_put_leaf)

lemma profile_tombstones_db_ok: "profile_tombstones ps now d = Inr d' \<Longrightarrow> db_ok d \<Longrightarrow> db_ok d'"
  by (induction ps arbitrary: d) (auto simp: bindE_Inr dest: insert_tombstone_db_ok)

lemma delete_db_ok:
  shows "delete_profiles m q1 d = Inr d1 \<Longrightarrow> db_ok d \<Longrightarrow> db_ok d1"
    and "delete_usages m q2 d = Inr d2 \<Longrightarrow> db_ok d \<Longrightarrow> db_ok d2"
    and "delete_accounts m q3 d = Inr d3 \<Longrightarrow> db_ok d \<Longrightarrow> db_ok d3"
proof -
  show "delete_profiles m q1 d = Inr d1 \<Longrightarrow> db_ok d \<Longrightarrow> db_ok d1"
    by (auto simp: delete_profiles_def list_ex_iff intro!: db_ok_delete_profiles split: if_splits)
  show "delete_accounts m q3 d = Inr d3 \<Longrightarrow> db_ok d \<Longrightarrow> db_ok d3"
    by (auto simp: delete_accounts_def list_ex_iff intro!: db_ok_delete_account split: if_splits)
  assume run: "delete_usages m q2 d = Inr d2" and ok: "db_ok d"
  then have "\<forall>r \<in> set (db_usages d). q2 r \<longrightarrow> \<not> usage_referenced d (use_ID r)"
    by (auto simp: delete_usages_def list_ex_iff split: if_splits)
  from db_ok_delete_usages [OF ok this] run show "db_ok d2"
    by (simp add: delete_usages_def split: if_splits)
qed

lemma DeleteProfile_db_ok: "DeleteProfile i n now d = Inr (u, d') \<Longrightarrow> db_ok d \<Longrightarrow> db_ok d'"
  by (auto simp: DeleteProfile_def bindE_Inr Let_def dest!: insert_tombstone_db_ok dest: delete_db_ok(1)
      split: if_splits)

lemma DeleteAccount_db_ok:
  assumes "DeleteAccount i n now d = Inr (u, d')" "db_ok d"
  shows "db_ok d'"
proof -
  from assms(1) obtain d1 d2 d3 d4 ps k p r q qa where
    "profile_tombstones ps now d = Inr d1" "delete_usages ''account usage could not be deleted'' q d1 = Inr d2"
    "delete_profiles ''account profiles could not be deleted'' k d2 = Inr d3"
    "insert_tombstone ''account tombstone could not be created'' ''account'' i p r now d3 = Inr d4"
    "delete_accounts ''account could not be deleted'' qa d4 = Inr d'"
    unfolding DeleteAccount_def Let_def by (auto simp: bindE_Inr split: if_splits)
  then show ?thesis
    using assms(2) profile_tombstones_db_ok insert_tombstone_db_ok delete_db_ok by metis
qed

lemma insert_windows_db_ok: "insert_windows s n ws d = Inr d' \<Longrightarrow> db_ok d \<Longrightarrow> db_ok d'"
  by (induction ws arbitrary: n d) (auto simp: bindE_Inr sql_insert_ok dest: db_ok_put_leaf(13))

lemma CreateUsageSnapshotWithWindows_db_ok:
  assumes "CreateUsageSnapshotWithWindows s d = Inr (u, d')" "db_ok d"
  shows "db_ok d'"
proof -
  from assms(1) consider "d' = d" |
    row i ws where "usages_ok d (db_usages d @ [row])"
      "insert_windows i 0 ws (d\<lparr>db_usages := db_usages d @ [row]\<rparr>) = Inr d'"
    by (auto simp: CreateUsageSnapshotWithWindows_def bindE_Inr sql_insert_ok split: if_splits option.splits)
  then show ?thesis
  proof cases
    case 1
    then show ?thesis using assms(2) by simp
  next
    case 2
    have "db_ok (d\<lparr>db_usages := db_usages d @ [row]\<rparr>)" by (rule db_ok_put_usages [OF assms(2) 2(1)]) simp
    then show ?thesis by (rule insert_windows_db_ok [OF 2(2)])
  qed
qed

end
