(* ===== verification/StoreVault.thy ===== *)
theory StoreVault
  imports StoreAccounts
begin

text \<open>
  \<open>src/internal/storage/vault_records.go\<close>: the rows of the encrypted vault. Sealing a credential
  moves its vault item and its revision together; a revocation is reserved before the provider's
  files are touched and finalized after, and from the reservation on no Session may start with the
  credential.
\<close>

section \<open>Configuration\<close>

definition validVaultConfig :: "VaultConfig \<Rightarrow> bool" where
  "validVaultConfig v =
     (if vc_FormatVersion v \<noteq> 1 \<or> vc_KDFName v \<noteq> ''argon2id-v19'' \<or> length (vc_KDFSalt v) \<noteq> 16 \<or>
         vc_ArgonTime v \<noteq> 3 \<or> vc_ArgonMemoryKiB v \<noteq> 65536 \<or> vc_ArgonParallelism v < 1 \<or>
         4 < vc_ArgonParallelism v \<or> length (vc_KeyCheckNonce v) \<noteq> 12 \<or>
         length (vc_KeyCheckCiphertext v) \<noteq> 49 \<or> ValidateID (vc_InitializedByDevice v) \<noteq> Inr () \<or>
         length (vc_InitRequestDigest v) \<noteq> 64 \<or> vc_InitializedAt v = 0
      then False
      else hex_decode (vc_InitRequestDigest v) \<noteq> None)"

definition VaultConfig_read :: "db \<Rightarrow> error + VaultConfig" where
  "VaultConfig_read d =
     (case db_vault_config d of
        [] \<Rightarrow> fail CodeNotFound ''vault is uninitialized''
      | v # _ \<Rightarrow> if \<not> validVaultConfig v then fail CodeVaultCorrupt ''vault configuration is invalid'' else Inr v)"

definition active_session :: "Session \<Rightarrow> bool" where
  "active_session r = (ses_Status r \<in> {SessionStarting, SessionRunning, SessionStopping})"

text \<open>The rows of three tables that keep a vault from being initialized.\<close>

definition vault_dependencies :: "db \<Rightarrow> nat" where
  "vault_dependencies d =
     count_rows (\<lambda>r. cred_Provider r = ProviderCodex \<and> (cred_SecretRef r \<noteq> '''' \<or> 0 < cred_CredentialRevision r))
       (db_credentials d) +
     count_rows (\<lambda>r. active_enrollment_state (enr_State r)) (db_enrollments d) +
     count_rows (\<lambda>r. ses_Provider r = ProviderCodex \<and> active_session r) (db_sessions d)"

definition InitializeVault :: "VaultConfig \<Rightarrow> db \<Rightarrow> error + (bool \<times> db)" where
  "InitializeVault config d =
     (if \<not> validVaultConfig config then fail CodeInvalidArgument ''vault initialization is invalid''
      else case db_vault_config d of
        existing # _ \<Rightarrow>
          if \<not> validVaultConfig existing then fail CodeVaultCorrupt ''vault configuration is invalid''
          else if vc_InitializedByDevice existing \<noteq> vc_InitializedByDevice config \<or>
                  vc_InitRequestDigest existing \<noteq> vc_InitRequestDigest config
          then fail CodeVaultAlreadyInitialized ''vault is already initialized''
          else Inr (True, d)
      | [] \<Rightarrow>
          if vault_dependencies d \<noteq> 0 then fail CodeConflict ''vault initialization is blocked by Codex state''
          else bindE (sql_insert (vault_config_ok d) ''vault could not be initialized'' config
                        (db_vault_config d)) (\<lambda>rows.
          Inr (False, d\<lparr>db_vault_config := rows\<rparr>)))"

section \<open>Items\<close>

definition validVaultItem :: "VaultItem \<Rightarrow> bool" where
  "validVaultItem v =
     (if ValidateID (vi_CredentialInstanceID v) \<noteq> Inr () \<or> ValidateID (vi_AccountID v) \<noteq> Inr () \<or>
         ValidateID (vi_DeviceID v) \<noteq> Inr () \<or> vi_Provider v \<noteq> ProviderCodex \<or> vi_EnvelopeVersion v \<noteq> 1 \<or>
         vi_CredentialRevision v < 1 \<or> vi_CipherName v \<noteq> ''aes-256-gcm'' \<or> vi_WrapName v \<noteq> ''aes-256-gcm'' \<or>
         length (vi_PayloadNonce v) \<noteq> 12 \<or> length (vi_PayloadCiphertext v) < 18 \<or>
         65552 < length (vi_PayloadCiphertext v) \<or> length (vi_WrapNonce v) \<noteq> 12 \<or>
         length (vi_WrappedDEK v) \<noteq> 48 \<or> length (vi_AADDigest v) \<noteq> 64 \<or> length (vi_SecretDigest v) \<noteq> 64 \<or>
         vi_CreatedAt v = 0 \<or> vi_UpdatedAt v < vi_CreatedAt v
      then False
      else hex_decode (vi_AADDigest v) \<noteq> None \<and> hex_decode (vi_SecretDigest v) \<noteq> None)"

definition VaultItem_read :: "ID \<Rightarrow> db \<Rightarrow> error + VaultItem" where
  "VaultItem_read credentialID d =
     bindE (read_row vi_CredentialInstanceID (db_vault_items d) credentialID
              (NewError CodeNotFound ''vault item not found'')) (\<lambda>v.
     if \<not> validVaultItem v then fail CodeVaultCorrupt ''vault item structure is invalid'' else Inr v)"

text \<open>\<open>INSERT \<dots> ON CONFLICT(credential_instance_id) DO UPDATE\<close>.\<close>

definition upsert_item :: "VaultItem \<Rightarrow> VaultItem list \<Rightarrow> VaultItem list" where
  "upsert_item item rows =
     (if list_ex (\<lambda>r. vi_CredentialInstanceID r = vi_CredentialInstanceID item) rows
      then update_rows (\<lambda>r. vi_CredentialInstanceID r = vi_CredentialInstanceID item)
             (\<lambda>r. r\<lparr>vi_CredentialRevision := vi_CredentialRevision item,
                    vi_PayloadNonce := vi_PayloadNonce item, vi_PayloadCiphertext := vi_PayloadCiphertext item,
                    vi_WrapNonce := vi_WrapNonce item, vi_WrappedDEK := vi_WrappedDEK item,
                    vi_AADDigest := vi_AADDigest item, vi_SecretDigest := vi_SecretDigest item,
                    vi_UpdatedAt := vi_UpdatedAt item\<rparr>) rows
      else rows @ [item])"

text \<open>The credential row the item is sealed for, found as expected.\<close>

definition sealable :: "int \<Rightarrow> VaultItem \<Rightarrow> db \<Rightarrow> error + unit" where
  "sealable expectedRevision item d =
     (case List.find (\<lambda>r. cred_ID r = vi_CredentialInstanceID item) (db_credentials d) of
        None \<Rightarrow> Inl (WrapError CodeNotFound ''credential instance was not found''
                       (OtherError ''sql: no rows in result set''))
      | Some c \<Rightarrow>
      if cred_AccountID c = ''''
      then Inl (WrapError CodeNotFound ''credential instance was not found''
                  (OtherError ''converting NULL to string is unsupported''))
      else if cred_CredentialRevision c \<noteq> expectedRevision \<or> cred_AccountID c \<noteq> vi_AccountID item \<or>
         cred_DeviceID c \<noteq> vi_DeviceID item \<or> cred_Provider c \<noteq> ProviderCodex \<or>
         vi_CredentialRevision item \<noteq> i64 (expectedRevision + 1)
      then fail CodeCredentialRevisionConflict ''credential revision changed''
      else if cred_Status c = CredentialRevoked \<or> cred_Status c = CredentialExpired
      then fail CodeCredentialRevisionConflict ''credential is not sealable''
      else if count_rows (\<lambda>r. fst r = vi_CredentialInstanceID item) (db_revocations d) \<noteq> 0
      then fail CodeCredentialRevisionConflict ''credential revocation is in progress''
      else Inr ())"

text \<open>The enrollment part of a seal: bind the profile, then close the enrollment.\<close>

definition commit_enrollment :: "ID \<Rightarrow> ID \<Rightarrow> string \<Rightarrow> VaultItem \<Rightarrow> db \<Rightarrow> error + db" where
  "commit_enrollment enrollmentID clientID completionDigest item d =
     (let confirmed = (\<lambda>r. enr_ID r = enrollmentID \<and> enr_ClientDeviceID r = clientID \<and>
            enr_CredentialInstanceID r = vi_CredentialInstanceID item \<and>
            enr_State r = EnrollmentAwaitingConfirmation \<and> enr_ConfirmedByClientID r = clientID \<and>
            enr_CompletionIdempotencyDigest r = completionDigest)
      in case List.find confirmed (db_enrollments d) of
        None \<Rightarrow> fail CodeIdentityConfirmationRequired ''auth confirmation is required before credential seal''
      | Some e \<Rightarrow>
          bindE (sql_update (profiles_ok d) ''auth profile binding could not be committed''
                   (\<lambda>r. prof_ID r = enr_RuntimeProfileID e \<and> prof_AccountID r = vi_AccountID item \<and>
                        prof_DeviceID r = vi_DeviceID item \<and> prof_Provider r = ProviderCodex \<and>
                        (prof_CredentialInstanceID r = '''' \<or>
                         prof_CredentialInstanceID r = vi_CredentialInstanceID item))
                   (\<lambda>r. r\<lparr>prof_CredentialInstanceID := vi_CredentialInstanceID item,
                          prof_Revision := (if prof_CredentialInstanceID r = '''' then prof_Revision r + 1
                                            else prof_Revision r),
                          prof_UpdatedAt := vi_UpdatedAt item\<rparr>) (db_profiles d)) (\<lambda>(bound, profiles).
          if bound \<noteq> 1 then fail CodeProfileBindingChanged ''auth profile binding changed before commit''
          else let d1 = d\<lparr>db_profiles := profiles\<rparr>
               in bindE (sql_update (enrollments_ok d1) ''auth enrollment could not be committed'' confirmed
                           (\<lambda>r. r\<lparr>enr_State := EnrollmentSucceeded, enr_UpdatedAt := vi_UpdatedAt item\<rparr>)
                           (db_enrollments d1)) (\<lambda>(changed, enrollments).
                  if changed \<noteq> 1 then fail CodeConflict ''auth enrollment changed before commit''
                  else Inr (d1\<lparr>db_enrollments := enrollments\<rparr>))))"

definition replaceVaultItemCAS ::
  "int \<Rightarrow> VaultItem \<Rightarrow> CredentialStatus \<Rightarrow> ID \<Rightarrow> ID \<Rightarrow> string \<Rightarrow> db \<Rightarrow> error + (unit \<times> db)" where
  "replaceVaultItemCAS expectedRevision item status enrollmentID clientID completionDigest d =
     (if \<not> validVaultItem item then fail CodeInvalidArgument ''vault item structure is invalid''
      else bindE (sealable expectedRevision item d) (\<lambda>_.
      let items = upsert_item item (db_vault_items d)
      in if \<not> vault_items_ok d items then Inl (writeError ''vault item could not be saved'')
         else let d1 = d\<lparr>db_vault_items := items\<rparr>
         in bindE (sql_update (credentials_ok d1) ''credential revision could not be saved''
                     (\<lambda>r. cred_ID r = vi_CredentialInstanceID item \<and> cred_CredentialRevision r = expectedRevision)
                     (\<lambda>r. r\<lparr>cred_CredentialRevision := vi_CredentialRevision item,
                            cred_SecretDigest := vi_SecretDigest item, cred_Status := status,
                            cred_UpdatedAt := vi_UpdatedAt item\<rparr>) (db_credentials d1)) (\<lambda>(changed, credentials).
            if changed \<noteq> 1 then fail CodeCredentialRevisionConflict ''credential revision changed''
            else let d2 = d1\<lparr>db_credentials := credentials\<rparr>
                 in if enrollmentID \<noteq> ''''
                    then bindE (commit_enrollment enrollmentID clientID completionDigest item d2) (\<lambda>d3. Inr ((), d3))
                    else Inr ((), d2))))"

definition ReplaceVaultItemCAS :: "int \<Rightarrow> VaultItem \<Rightarrow> CredentialStatus \<Rightarrow> db \<Rightarrow> error + (unit \<times> db)" where
  "ReplaceVaultItemCAS expectedRevision item status d =
     replaceVaultItemCAS expectedRevision item status '''' '''' '''' d"

definition ReplaceVaultItemEnrollmentCAS ::
  "ID \<Rightarrow> ID \<Rightarrow> string \<Rightarrow> int \<Rightarrow> VaultItem \<Rightarrow> CredentialStatus \<Rightarrow> db \<Rightarrow> error + (unit \<times> db)" where
  "ReplaceVaultItemEnrollmentCAS enrollmentID clientID completionDigest expectedRevision item status d =
     (if enrollmentID = '''' \<or> clientID = ''''
      then fail CodeInvalidArgument ''enrollment commit identity is required''
      else if length completionDigest \<noteq> 64
      then fail CodeInvalidArgument ''enrollment completion digest is invalid''
      else replaceVaultItemCAS expectedRevision item status enrollmentID clientID completionDigest d)"

section \<open>Revocation\<close>

definition EnsureVaultCredentialRevocable :: "ID \<Rightarrow> db \<Rightarrow> error + unit" where
  "EnsureVaultCredentialRevocable credentialID d =
     bindE (ValidateID credentialID) (\<lambda>_.
     case List.find (\<lambda>r. cred_ID r = credentialID) (db_credentials d) of
       None \<Rightarrow> fail CodeNotFound ''credential instance not found''
     | Some c \<Rightarrow>
     if cred_Provider c \<noteq> ProviderCodex then fail CodeConflict ''credential provider is unsupported''
     else if count_rows (\<lambda>r. ses_CredentialInstanceID r = credentialID \<and> active_session r) (db_sessions d) \<noteq> 0
     then fail CodeConflict ''credential is used by an active session''
     else Inr ())"

text \<open>\<open>INSERT \<dots> ON CONFLICT DO NOTHING\<close>.\<close>

definition ReserveVaultCredentialRevocation :: "ID \<Rightarrow> time \<Rightarrow> db \<Rightarrow> error + (unit \<times> db)" where
  "ReserveVaultCredentialRevocation credentialID now d =
     bindE (ValidateID credentialID) (\<lambda>_.
     if now = 0 then fail CodeInvalidArgument ''credential revocation requires a timestamp''
     else case List.find (\<lambda>r. cred_ID r = credentialID) (db_credentials d) of
       None \<Rightarrow> fail CodeNotFound ''credential instance not found''
     | Some c \<Rightarrow>
     if cred_Provider c \<noteq> ProviderCodex then fail CodeConflict ''credential provider is unsupported''
     else if cred_Status c = CredentialRevoked then Inr ((), d)
     else if count_rows (\<lambda>r. ses_CredentialInstanceID r = credentialID \<and> active_session r) (db_sessions d) \<noteq> 0
     then fail CodeConflict ''credential is used by an active session''
     else if list_ex (\<lambda>r. fst r = credentialID) (db_revocations d) then Inr ((), d)
     else bindE (sql_insert (revocations_ok d) ''credential revocation could not be reserved''
                   (credentialID, now) (db_revocations d)) (\<lambda>rows.
     Inr ((), d\<lparr>db_revocations := rows\<rparr>)))"

definition clear_bindings :: "string \<Rightarrow> ID \<Rightarrow> time \<Rightarrow> db \<Rightarrow> error + db" where
  "clear_bindings message credentialID now d =
     bindE (sql_update (profiles_ok d) message
              (\<lambda>r. prof_CredentialInstanceID r = credentialID \<and> \<not> prof_Internal r)
              (\<lambda>r. r\<lparr>prof_CredentialInstanceID := '''', prof_Revision := prof_Revision r + 1,
                     prof_UpdatedAt := now\<rparr>) (db_profiles d)) (\<lambda>(_, rows).
     Inr (d\<lparr>db_profiles := rows\<rparr>))"

definition clear_reservation :: "ID \<Rightarrow> db \<Rightarrow> db" where
  "clear_reservation credentialID d =
     d\<lparr>db_revocations := delete_rows (\<lambda>r. fst r = credentialID) (db_revocations d)\<rparr>"

definition FinalizeVaultCredentialRevocation :: "ID \<Rightarrow> time \<Rightarrow> db \<Rightarrow> error + (CredentialInstance \<times> db)" where
  "FinalizeVaultCredentialRevocation credentialID now d =
     bindE (ValidateID credentialID) (\<lambda>_.
     if now = 0 then fail CodeInvalidArgument ''credential revocation requires a timestamp''
     else bindE
       (case List.find (\<lambda>r. cred_ID r = credentialID) (db_credentials d) of
          None \<Rightarrow> fail CodeNotFound ''credential instance not found''
        | Some c \<Rightarrow>
        if cred_Provider c \<noteq> ProviderCodex then fail CodeConflict ''credential provider is unsupported''
        else if cred_Status c = CredentialRevoked
        then bindE (clear_bindings ''revoked credential profile bindings could not be cleared'' credentialID now d)
               (\<lambda>d1. Inr (clear_reservation credentialID d1))
        else if count_rows (\<lambda>r. fst r = credentialID) (db_revocations d) \<noteq> 1
        then fail CodeConflict ''credential revocation is not reserved''
        else if count_rows (\<lambda>r. ses_CredentialInstanceID r = credentialID \<and> active_session r) (db_sessions d) \<noteq> 0
        then fail CodeConflict ''credential is used by an active session''
        else
          let d1 = d\<lparr>db_vault_items :=
                delete_rows (\<lambda>r. vi_CredentialInstanceID r = credentialID) (db_vault_items d)\<rparr>
          in bindE (clear_bindings ''credential profile bindings could not be cleared'' credentialID now d1) (\<lambda>d2.
             bindE (sql_update (credentials_ok d2) ''credential could not be revoked''
                      (\<lambda>r. cred_ID r = credentialID)
                      (\<lambda>r. r\<lparr>cred_Status := CredentialRevoked, cred_SecretDigest := replicate 64 CHR ''0'',
                             cred_UpdatedAt := now\<rparr>) (db_credentials d2)) (\<lambda>(changed, rows).
             if changed \<noteq> 1 then fail CodeConflict ''credential changed before revocation''
             else let d3 = d2\<lparr>db_credentials := rows\<rparr>
                  in if count_rows (\<lambda>r. fst r = credentialID) (db_revocations d3) \<noteq> 1
                     then fail CodeConflict ''credential revocation reservation changed before commit''
                     else Inr (clear_reservation credentialID d3))))
       (\<lambda>d'. bindE (CredentialInstance_read credentialID d') (\<lambda>c. Inr (c, d'))))"

text \<open>Two transactions: the reservation stays when the second one fails.\<close>

definition RevokeVaultCredential :: "ID \<Rightarrow> time \<Rightarrow> db \<Rightarrow> (error + CredentialInstance) \<times> db" where
  "RevokeVaultCredential credentialID now d =
     (case ReserveVaultCredentialRevocation credentialID now d of
        Inl e \<Rightarrow> (Inl e, d)
      | Inr (_, d1) \<Rightarrow>
          (case FinalizeVaultCredentialRevocation credentialID now d1 of
             Inl e \<Rightarrow> (Inl e, d1)
           | Inr (c, d2) \<Rightarrow> (Inr c, d2)))"

section \<open>The tables stay in order\<close>

lemma InitializeVault_db_ok: "InitializeVault c d = Inr (b, d') \<Longrightarrow> db_ok d \<Longrightarrow> db_ok d'"
  by (auto simp: InitializeVault_def bindE_Inr sql_insert_ok intro!: db_ok_put_leaf split: if_splits list.splits)

lemma ReserveVaultCredentialRevocation_db_ok:
  "ReserveVaultCredentialRevocation c now d = Inr (u, d') \<Longrightarrow> db_ok d \<Longrightarrow> db_ok d'"
  by (auto simp: ReserveVaultCredentialRevocation_def bindE_Inr sql_insert_ok intro!: db_ok_put_leaf
      split: if_splits option.splits)

lemma clear_bindings_db_ok: "clear_bindings m c now d = Inr d' \<Longrightarrow> db_ok d \<Longrightarrow> db_ok d'"
  by (auto simp: clear_bindings_def bindE_Inr sql_update_ok intro!: update_profiles_ok)

lemma clear_reservation_db_ok: "db_ok d \<Longrightarrow> db_ok (clear_reservation c d)"
  unfolding clear_reservation_def using tables_delete(5) by (intro db_ok_put_leaf(10)) (auto simp: db_ok_def)

lemma delete_item_db_ok:
  "db_ok d \<Longrightarrow> db_ok (d\<lparr>db_vault_items := delete_rows q (db_vault_items d)\<rparr>)"
  using tables_delete(8) by (intro db_ok_put_leaf(11)) (auto simp: db_ok_def)

text \<open>What a successful finalization did, for a credential that was not revoked before.\<close>

lemma Finalize_steps:
  assumes "FinalizeVaultCredentialRevocation c now d = Inr (cr, d')"
  shows "\<exists>d1 d2. (d1 = d \<or> d1 = d\<lparr>db_vault_items := delete_rows (\<lambda>r. vi_CredentialInstanceID r = c) (db_vault_items d)\<rparr>) \<and>
     (\<exists>m. clear_bindings m c now d1 = Inr d2) \<and>
     (d' = clear_reservation c d2 \<or>
      (\<exists>rows. credentials_ok d2 rows \<and> rows = update_rows (\<lambda>r. cred_ID r = c)
           (\<lambda>r. r\<lparr>cred_Status := CredentialRevoked, cred_SecretDigest := replicate 64 CHR ''0'',
                  cred_UpdatedAt := now\<rparr>) (db_credentials d2) \<and>
         d' = clear_reservation c (d2\<lparr>db_credentials := rows\<rparr>)))"
  using assms unfolding FinalizeVaultCredentialRevocation_def Let_def
  by (auto simp: bindE_Inr sql_update_ok split: if_splits option.splits; blast)

lemma FinalizeVaultCredentialRevocation_db_ok:
  assumes "FinalizeVaultCredentialRevocation c now d = Inr (cr, d')" "db_ok d"
  shows "db_ok d'"
proof -
  from Finalize_steps [OF assms(1)] obtain d1 d2 m where
    d1: "d1 = d \<or> d1 = d\<lparr>db_vault_items := delete_rows (\<lambda>r. vi_CredentialInstanceID r = c) (db_vault_items d)\<rparr>"
    and d2: "clear_bindings m c now d1 = Inr d2"
    and d': "d' = clear_reservation c d2 \<or>
      (\<exists>rows. credentials_ok d2 rows \<and> rows = update_rows (\<lambda>r. cred_ID r = c)
           (\<lambda>r. r\<lparr>cred_Status := CredentialRevoked, cred_SecretDigest := replicate 64 CHR ''0'',
                  cred_UpdatedAt := now\<rparr>) (db_credentials d2) \<and>
         d' = clear_reservation c (d2\<lparr>db_credentials := rows\<rparr>))" by blast
  have "db_ok d1" using d1 assms(2) delete_item_db_ok by auto
  then have ok: "db_ok d2" using d2 clear_bindings_db_ok by blast
  from d' show ?thesis
  proof (elim disjE exE conjE)
    assume "d' = clear_reservation c d2"
    then show ?thesis using ok clear_reservation_db_ok by simp
  next
    fix rows
    assume "credentials_ok d2 rows" and rows: "rows = update_rows (\<lambda>r. cred_ID r = c)
           (\<lambda>r. r\<lparr>cred_Status := CredentialRevoked, cred_SecretDigest := replicate 64 CHR ''0'',
                  cred_UpdatedAt := now\<rparr>) (db_credentials d2)"
      and d': "d' = clear_reservation c (d2\<lparr>db_credentials := rows\<rparr>)"
    then have "db_ok (d2\<lparr>db_credentials := rows\<rparr>)"
      unfolding rows by (intro update_credentials_ok [OF ok]) simp_all
    then show ?thesis using d' clear_reservation_db_ok by simp
  qed
qed

end
