(* ===== verification/EnrollmentLaws.thy ===== *)
theory EnrollmentLaws
  imports StoreVault
begin

text \<open>
  What the operations on login enrollments and the sealing of a credential keep: the constraints of
  the database, and the life of an enrollment. An enrollment only moves forward through its states,
  its owner, profile, digests and deadline are frozen, and it succeeds only after its owner confirmed.
\<close>

section \<open>Seals keep the database in order\<close>

lemma commit_enrollment_db_ok:
  assumes "commit_enrollment e c dg item d = Inr d'" "db_ok d"
  shows "db_ok d'"
proof -
  from assms(1) obtain p f q g where
    p: "profiles_ok d (update_rows p f (db_profiles d))" "\<And>r. prof_ID (f r) = prof_ID r"
    and e: "enrollments_ok (d\<lparr>db_profiles := update_rows p f (db_profiles d)\<rparr>) (update_rows q g (db_enrollments d))"
    and d': "d' = d\<lparr>db_profiles := update_rows p f (db_profiles d), db_enrollments := update_rows q g (db_enrollments d)\<rparr>"
    by (auto simp: commit_enrollment_def bindE_Inr sql_update_ok Let_def split: if_splits option.splits)
  show ?thesis using db_ok_put_leaf(8) [OF update_profiles_ok [OF assms(2) p] e] by (simp add: d')
qed

lemma replaceVaultItemCAS_steps:
  assumes "replaceVaultItemCAS n item st e c dg d = Inr (u, d')"
  shows "sealable n item d = Inr () \<and> vault_items_ok d (upsert_item item (db_vault_items d)) \<and>
    (\<exists>d2. d2 = d\<lparr>db_vault_items := upsert_item item (db_vault_items d),
                db_credentials := update_rows (\<lambda>r. cred_ID r = vi_CredentialInstanceID item \<and> cred_CredentialRevision r = n)
                     (\<lambda>r. r\<lparr>cred_CredentialRevision := vi_CredentialRevision item,
                            cred_SecretDigest := vi_SecretDigest item, cred_Status := st,
                            cred_UpdatedAt := vi_UpdatedAt item\<rparr>) (db_credentials d)\<rparr> \<and>
      credentials_ok (d\<lparr>db_vault_items := upsert_item item (db_vault_items d)\<rparr>) (db_credentials d2) \<and>
      (if e \<noteq> '''' then commit_enrollment e c dg item d2 = Inr d' else d' = d2))"
  using assms by (auto simp: replaceVaultItemCAS_def bindE_Inr sql_update_ok Let_def split: if_splits)

lemma replaceVaultItemCAS_db_ok:
  assumes "replaceVaultItemCAS n item st e c dg d = Inr (u, d')" "db_ok d"
  shows "db_ok d'"
proof -
  let ?d1 = "d\<lparr>db_vault_items := upsert_item item (db_vault_items d)\<rparr>"
  let ?rows = "update_rows (\<lambda>r. cred_ID r = vi_CredentialInstanceID item \<and> cred_CredentialRevision r = n)
                     (\<lambda>r. r\<lparr>cred_CredentialRevision := vi_CredentialRevision item,
                            cred_SecretDigest := vi_SecretDigest item, cred_Status := st,
                            cred_UpdatedAt := vi_UpdatedAt item\<rparr>) (db_credentials d)"
  from replaceVaultItemCAS_steps [OF assms(1)] have
    items: "vault_items_ok d (upsert_item item (db_vault_items d))" and
    creds: "credentials_ok ?d1 ?rows" and
    rest: "if e \<noteq> '''' then commit_enrollment e c dg item (?d1\<lparr>db_credentials := ?rows\<rparr>) = Inr d'
           else d' = ?d1\<lparr>db_credentials := ?rows\<rparr>" by auto
  have "db_ok ?d1" by (rule db_ok_put_leaf(11) [OF assms(2) items])
  then have "db_ok (?d1\<lparr>db_credentials := ?rows\<rparr>)"
    using update_credentials_ok [of ?d1] creds by simp
  then show ?thesis using rest commit_enrollment_db_ok by (auto split: if_splits)
qed

section \<open>Enrollments keep the database in order\<close>

lemma filter_update_rows:
  assumes "\<And>r. P (f r) = P r" "\<And>r. g (f r) = g r"
  shows "map g (filter P (update_rows p f rows)) = map g (filter P rows)"
  using assms by (induction rows) (auto simp: update_rows_def)

lemma enrollment_row_unlink:
  "enrollment_row_ok d r \<Longrightarrow> enrollment_row_ok d (r\<lparr>enr_CredentialInstanceID := ''''\<rparr>)"
  by (simp add: enrollment_row_ok_def confirmation_tuple_ok_def) (simp add: references_or_null_def)

lemma enrollments_unlink_ok:
  assumes "enrollments_ok d rows"
  shows "enrollments_ok d (update_rows p (\<lambda>r. r\<lparr>enr_CredentialInstanceID := ''''\<rparr>) rows)"
proof -
  let ?f = "\<lambda>r. r\<lparr>enr_CredentialInstanceID := ''''\<rparr>"
  have "list_all (enrollment_row_ok d) (update_rows p ?f rows)"
  proof -
    have "\<forall>r \<in> set rows. enrollment_row_ok d r" using assms by (simp add: enrollments_ok_def list_all_iff)
    then show ?thesis by (simp add: list_all_update_rows enrollment_row_unlink)
  qed
  then show ?thesis
    using assms map_update_rows [of enr_ID ?f p rows]
      map_update_rows [of "\<lambda>r. (enr_ClientDeviceID r, enr_IdempotencyDigest r)" ?f p rows]
      filter_update_rows [of "\<lambda>r. active_enrollment_state (enr_State r)" ?f enr_RuntimeProfileID p rows]
    by (simp add: enrollments_ok_def)
qed

lemma delete_unsealed_db_ok: "delete_unsealed_credential c d = Some d' \<Longrightarrow> db_ok d \<Longrightarrow> db_ok d'"
  by (auto simp: delete_unsealed_credential_def Let_def intro!: db_ok_delete_credential split: if_splits)

lemma unlink_db_ok:
  "db_ok d \<Longrightarrow> db_ok (d\<lparr>db_enrollments := update_rows p (\<lambda>r. r\<lparr>enr_CredentialInstanceID := ''''\<rparr>) (db_enrollments d)\<rparr>)"
  by (intro db_ok_put_leaf(8) enrollments_unlink_ok) (simp_all add: db_ok_def)

lemma BeginAuthEnrollment_db_ok:
  assumes "BeginAuthEnrollment e c d = Inr (u, d')" "db_ok d"
  shows "db_ok d'"
proof -
  from assms(1) obtain d1 rows where
    d1: "d1 = d \<or> (\<exists>row. credentials_ok d (db_credentials d @ [row]) \<and> d1 = d\<lparr>db_credentials := db_credentials d @ [row]\<rparr>)"
    and rows: "enrollments_ok d1 rows" and d': "d' = d1\<lparr>db_enrollments := rows\<rparr>"
    by (auto simp: BeginAuthEnrollment_def bindE_Inr sql_insert_ok Let_def split: if_splits option.splits)
  have "db_ok d1" using d1
  proof (elim disjE exE conjE)
    fix row
    assume "credentials_ok d (db_credentials d @ [row])" "d1 = d\<lparr>db_credentials := db_credentials d @ [row]\<rparr>"
    then show ?thesis using db_ok_put_credentials [OF assms(2)] by simp
  qed (simp add: assms(2))
  then show ?thesis using db_ok_put_leaf(8) rows d' by simp
qed

text \<open>What a successful \<open>FinishAuthEnrollment\<close> did to the tables.\<close>

lemma FinishAuthEnrollment_steps:
  assumes "FinishAuthEnrollment eid cid st now d = Inr (e, d')"
  shows "\<exists>r. List.find (\<lambda>r. enr_ID r = eid \<and> enr_ClientDeviceID r = cid) (db_enrollments d) = Some r \<and>
     st \<in> {EnrollmentCancelled, EnrollmentExpired, EnrollmentFailed} \<and>
     (enr_State r = st \<and> d' = d \<or>
      active_enrollment_state (enr_State r) \<and>
      (\<exists>d1. d1 = d\<lparr>db_enrollments := update_rows (\<lambda>r. enr_ID r = eid)
                (\<lambda>r. r\<lparr>enr_State := st, enr_UpdatedAt := now\<rparr>) (db_enrollments d)\<rparr> \<and>
            enrollments_ok d (db_enrollments d1) \<and>
            (d' = d1 \<or>
             (\<exists>d2. d2 = d1\<lparr>db_enrollments := update_rows (\<lambda>r. enr_ID r = eid)
                     (\<lambda>r. r\<lparr>enr_CredentialInstanceID := ''''\<rparr>) (db_enrollments d1)\<rparr> \<and>
                (d' = d2 \<or> (\<exists>c. delete_unsealed_credential c d2 = Some d'))))))"
  using assms unfolding FinishAuthEnrollment_def active_enrollment_state_def
  by (auto simp: bindE_Inr sql_update_ok Let_def split: if_splits option.splits)

lemma FinishAuthEnrollment_db_ok:
  assumes "FinishAuthEnrollment eid cid st now d = Inr (e, d')" "db_ok d"
  shows "db_ok d'"
  using FinishAuthEnrollment_steps [OF assms(1)]
proof (elim exE conjE disjE)
  fix d1
  assume "d1 = d\<lparr>db_enrollments := update_rows (\<lambda>r. enr_ID r = eid)
                (\<lambda>r. r\<lparr>enr_State := st, enr_UpdatedAt := now\<rparr>) (db_enrollments d)\<rparr>"
    "enrollments_ok d (db_enrollments d1)"
  then have ok: "db_ok d1" using db_ok_put_leaf(8) [OF assms(2)] by simp
  { assume "d' = d1" then show ?thesis using ok by simp }
  fix d2
  assume "d2 = d1\<lparr>db_enrollments := update_rows (\<lambda>r. enr_ID r = eid)
                     (\<lambda>r. r\<lparr>enr_CredentialInstanceID := ''''\<rparr>) (db_enrollments d1)\<rparr>"
  then have ok2: "db_ok d2" using unlink_db_ok [OF ok] by simp
  { assume "d' = d2" then show ?thesis using ok2 by simp }
  fix c assume "delete_unsealed_credential c d2 = Some d'"
  then show ?thesis using delete_unsealed_db_ok ok2 by blast
qed (use assms(2) in simp)

text \<open>Each turn of the recovery loop skips a sealed credential, or unlinks and deletes an unsealed one.\<close>

lemma expire_loop_turn:
  assumes "expire_loop ((eid, c) # vs) d = Inr d'"
  shows "\<exists>d1. expire_loop vs d1 = Inr d' \<and>
    (d1 = d \<or> delete_unsealed_credential c
       (d\<lparr>db_enrollments := update_rows (\<lambda>r. enr_ID r = eid) (\<lambda>r. r\<lparr>enr_CredentialInstanceID := ''''\<rparr>)
            (db_enrollments d)\<rparr>) = Some d1)"
  using assms by (auto simp: Let_def split: if_splits option.splits)

lemma expire_loop_db_ok: "expire_loop vs d = Inr d' \<Longrightarrow> db_ok d \<Longrightarrow> db_ok d'"
proof (induction vs arbitrary: d)
  case (Cons v vs)
  obtain eid c where v: "v = (eid, c)" by (cases v)
  from expire_loop_turn [OF Cons.prems(1) [unfolded v]] obtain d1 where
    run: "expire_loop vs d1 = Inr d'" and
    d1: "d1 = d \<or> delete_unsealed_credential c
       (d\<lparr>db_enrollments := update_rows (\<lambda>r. enr_ID r = eid) (\<lambda>r. r\<lparr>enr_CredentialInstanceID := ''''\<rparr>)
            (db_enrollments d)\<rparr>) = Some d1" by blast
  have "db_ok d1" using d1 Cons.prems(2) delete_unsealed_db_ok unlink_db_ok by blast
  then show ?case by (rule Cons.IH [OF run])
qed simp

lemma ExpireAuthEnrollments_steps:
  assumes "ExpireAuthEnrollments now d = Inr (ps, d')"
  shows "\<exists>rows vs. rows = update_rows (\<lambda>r. active_enrollment_state (enr_State r))
              (\<lambda>r. r\<lparr>enr_State := EnrollmentExpired, enr_UpdatedAt := now\<rparr>) (db_enrollments d) \<and>
     enrollments_ok d rows \<and> expire_loop vs (d\<lparr>db_enrollments := rows\<rparr>) = Inr d'"
proof -
  have "\<exists>n rows vs. sql_update (enrollments_ok d) ''auth enrollments could not be expired''
                      (\<lambda>r. active_enrollment_state (enr_State r))
                      (\<lambda>r. r\<lparr>enr_State := EnrollmentExpired, enr_UpdatedAt := now\<rparr>)
                      (db_enrollments d) = Inr (n, rows) \<and> expire_loop vs (d\<lparr>db_enrollments := rows\<rparr>) = Inr d'"
    using assms unfolding ExpireAuthEnrollments_def Let_def
    by (fastforce simp only: bindE_Inr sum.distinct sum.inject prod.inject split: if_splits prod.splits)
  then show ?thesis unfolding sql_update_ok by blast
qed

lemma ExpireAuthEnrollments_db_ok:
  assumes "ExpireAuthEnrollments now d = Inr (ps, d')" "db_ok d"
  shows "db_ok d'"
proof -
  from ExpireAuthEnrollments_steps [OF assms(1)] obtain rows vs where
    "enrollments_ok d rows" "expire_loop vs (d\<lparr>db_enrollments := rows\<rparr>) = Inr d'" by blast
  then show ?thesis using expire_loop_db_ok db_ok_put_leaf(8) [OF assms(2)] by blast
qed

lemma finish_due_db_ok: "db_ok d \<Longrightarrow> db_ok (snd (finish_due now rs d))"
proof (induction rs arbitrary: d)
  case (Cons r rs)
  show ?case
  proof (cases "FinishAuthEnrollment (enr_ID r) (enr_ClientDeviceID r) EnrollmentExpired now d")
    case (Inr x)
    then obtain e d1 where x: "x = (e, d1)" "FinishAuthEnrollment (enr_ID r) (enr_ClientDeviceID r)
        EnrollmentExpired now d = Inr (e, d1)" by (cases x) simp
    have "db_ok (snd (finish_due now rs d1))"
      using Cons.IH FinishAuthEnrollment_db_ok [OF x(2) Cons.prems] by blast
    then show ?thesis by (auto simp: x split: sum.splits prod.splits)
  qed (use Cons.prems in simp)
qed simp

lemma ExpireDueAuthEnrollments_db_ok: "db_ok d \<Longrightarrow> db_ok (snd (ExpireDueAuthEnrollments now d))"
  by (simp add: ExpireDueAuthEnrollments_def finish_due_db_ok)

section \<open>The life of an enrollment\<close>

fun enrollment_rank :: "EnrollmentState \<Rightarrow> nat" where
  "enrollment_rank EnrollmentBegun = 0"
| "enrollment_rank EnrollmentValidating = 1"
| "enrollment_rank EnrollmentAwaitingConfirmation = 2"
| "enrollment_rank _ = 3"

text \<open>
  The abstract machine: what may happen to a stored enrollment between two moments. Its identity is
  frozen; a terminal state is final and the others only move up; the completion digest is fixed
  once it was claimed, the confirmed tuple once it was awaited, the confirmation once given; and it
  does not succeed unless its own client confirmed it.
\<close>

definition enrollment_frozen :: "AuthEnrollment \<Rightarrow> AuthEnrollment \<Rightarrow> bool" where
  "enrollment_frozen r r' \<longleftrightarrow>
     enr_ID r' = enr_ID r \<and> enr_ClientDeviceID r' = enr_ClientDeviceID r \<and>
     enr_RuntimeProfileID r' = enr_RuntimeProfileID r \<and> enr_BinaryFingerprint r' = enr_BinaryFingerprint r \<and>
     enr_StagingPath r' = enr_StagingPath r \<and> enr_IdempotencyDigest r' = enr_IdempotencyDigest r \<and>
     enr_ExpiresAt r' = enr_ExpiresAt r \<and> enr_CreatedAt r' = enr_CreatedAt r"

definition enrollment_tuple :: "AuthEnrollment \<Rightarrow> ID \<times> int \<times> ID \<times> int \<times> ID \<times> int \<times> string" where
  "enrollment_tuple r =
     (enr_ConfirmationAccountID r, enr_ConfirmationAccountRevision r, enr_ConfirmationProfileID r,
      enr_ConfirmationProfileRevision r, enr_ConfirmationCredentialID r,
      enr_ConfirmationCredentialRevision r, enr_ConfirmationAliasDigest r)"

definition sealed_by_owner :: "AuthEnrollment \<Rightarrow> bool" where
  "sealed_by_owner r \<longleftrightarrow> (enr_State r = EnrollmentSucceeded \<longrightarrow> enr_ConfirmedByClientID r = enr_ClientDeviceID r)"

definition enrollment_step :: "AuthEnrollment \<Rightarrow> AuthEnrollment \<Rightarrow> bool" where
  "enrollment_step r r' \<longleftrightarrow>
     enrollment_frozen r r' \<and>
     (enr_State r' = enr_State r \<or> enrollment_rank (enr_State r) < enrollment_rank (enr_State r')) \<and>
     (0 < enrollment_rank (enr_State r) \<longrightarrow> enr_CompletionIdempotencyDigest r' = enr_CompletionIdempotencyDigest r) \<and>
     (1 < enrollment_rank (enr_State r) \<longrightarrow> enrollment_tuple r' = enrollment_tuple r) \<and>
     (enr_ConfirmedByClientID r \<noteq> '''' \<longrightarrow> enr_ConfirmedByClientID r' = enr_ConfirmedByClientID r) \<and>
     (sealed_by_owner r \<longrightarrow> sealed_by_owner r')"

lemma enrollment_step_refl: "enrollment_step r r"
  by (simp add: enrollment_step_def enrollment_frozen_def)

lemma enrollment_step_trans: "enrollment_step r s \<Longrightarrow> enrollment_step s t \<Longrightarrow> enrollment_step r t"
proof -
  assume a: "enrollment_step r s" and b: "enrollment_step s t"
  have frozen: "enrollment_frozen r t" using a b by (simp add: enrollment_step_def enrollment_frozen_def)
  have mono: "enrollment_rank (enr_State r) \<le> enrollment_rank (enr_State s)"
    using a by (auto simp: enrollment_step_def)
  have state: "enr_State t = enr_State r \<or> enrollment_rank (enr_State r) < enrollment_rank (enr_State t)"
    using a b by (auto simp: enrollment_step_def)
  show ?thesis unfolding enrollment_step_def using a b frozen mono state by (simp add: enrollment_step_def)
qed

definition enrollments_progress :: "db \<Rightarrow> db \<Rightarrow> bool" where
  "enrollments_progress d d' \<longleftrightarrow>
     (\<exists>old new. db_enrollments d' = old @ new \<and> list_all2 enrollment_step (db_enrollments d) old \<and>
        list_all sealed_by_owner new)"

lemma enrollments_progress_refl: "db_enrollments d' = db_enrollments d \<Longrightarrow> enrollments_progress d d'"
  unfolding enrollments_progress_def
  by (intro exI [of _ "db_enrollments d"] exI [of _ "[]"]) (simp add: list.rel_refl enrollment_step_refl)

lemma enrollments_progress_trans:
  assumes "enrollments_progress d d1" "enrollments_progress d1 d2"
  shows "enrollments_progress d d2"
proof -
  from assms(1) obtain old new where 1: "db_enrollments d1 = old @ new"
    "list_all2 enrollment_step (db_enrollments d) old" "list_all sealed_by_owner new"
    by (auto simp: enrollments_progress_def)
  from assms(2) obtain old' new' where 2: "db_enrollments d2 = old' @ new'"
    "list_all2 enrollment_step (old @ new) old'" "list_all sealed_by_owner new'"
    by (auto simp: enrollments_progress_def 1(1))
  from 2(2) obtain a b where ab: "old' = a @ b" "list_all2 enrollment_step old a" "list_all2 enrollment_step new b"
    by (auto simp: list_all2_append1)
  have "list_all sealed_by_owner b"
    using 1(3) ab(3) by (auto simp: list_all_length list_all2_conv_all_nth enrollment_step_def)
  have "list_all2 enrollment_step (db_enrollments d) a"
    using list_all2_trans [OF enrollment_step_trans 1(2) ab(2)] .
  show ?thesis unfolding enrollments_progress_def by (intro exI [of _ a] exI [of _ "b @ new'"]) (simp add: 2 ab \<open>list_all sealed_by_owner b\<close> \<open>list_all2 enrollment_step (db_enrollments d) a\<close>)
qed

lemma enrollments_progress_update:
  assumes "db_enrollments d' = update_rows p f (db_enrollments d)"
    "\<And>r. r \<in> set (db_enrollments d) \<Longrightarrow> p r \<Longrightarrow> enrollment_step r (f r)"
  shows "enrollments_progress d d'"
proof -
  have "list_all2 enrollment_step (db_enrollments d) (update_rows p f (db_enrollments d))"
    using assms(2) by (auto simp: update_rows_def list.rel_map intro!: list.rel_refl_strong enrollment_step_refl)
  then show ?thesis unfolding enrollments_progress_def using assms(1)
    by (intro exI [of _ "update_rows p f (db_enrollments d)"] exI [of _ "[]"]) simp
qed

text \<open>Seen from the reads: a stored enrollment is still stored, one step of the machine further.\<close>

lemma enrollments_progress_read:
  assumes "enrollments_progress d d'" "db_ok d'" "AuthEnrollment_read k d = Inr r"
  shows "\<exists>r'. AuthEnrollment_read k d' = Inr r' \<and> enrollment_step r r'"
proof -
  note r = read_row_key [OF assms(3) [unfolded AuthEnrollment_read_def]]
  from assms(1) obtain old new where d': "db_enrollments d' = old @ new"
    and rel: "list_all2 enrollment_step (db_enrollments d) old" by (auto simp: enrollments_progress_def)
  from r rel obtain r' where r': "r' \<in> set old" "enrollment_step r r'"
    by (metis list_all2_conv_all_nth in_set_conv_nth)
  have "List.find (\<lambda>x. enr_ID x = enr_ID r') (db_enrollments d') = Some r'"
    using db_ok_tables(8) [OF assms(2)] r'(1) by (intro find_key_unique) (simp_all add: d')
  moreover have "enr_ID r' = k" using r r'(2) by (simp add: enrollment_step_def enrollment_frozen_def)
  ultimately show ?thesis using r'(2) by (auto simp: AuthEnrollment_read_def read_row_ok)
qed

lemma sealed_by_owner_progress:
  assumes "enrollments_progress d d'" "list_all sealed_by_owner (db_enrollments d)"
  shows "list_all sealed_by_owner (db_enrollments d')"
proof -
  from assms(1) obtain old new where d': "db_enrollments d' = old @ new" "list_all sealed_by_owner new"
    and rel: "list_all2 enrollment_step (db_enrollments d) old" by (auto simp: enrollments_progress_def)
  have "list_all sealed_by_owner old"
    using assms(2) rel by (auto simp: list_all_length list_all2_conv_all_nth enrollment_step_def)
  then show ?thesis using d' by simp
qed

section \<open>Every operation follows the machine\<close>

lemma active_rank: "active_enrollment_state s \<longleftrightarrow> enrollment_rank s < 3"
  by (cases s) (simp_all add: active_enrollment_state_def)

lemma unlink_progress:
  "enrollments_progress d (d\<lparr>db_enrollments := update_rows p (\<lambda>r. r\<lparr>enr_CredentialInstanceID := ''''\<rparr>) (db_enrollments d)\<rparr>)"
  by (rule enrollments_progress_update [of _ p "\<lambda>r. r\<lparr>enr_CredentialInstanceID := ''''\<rparr>"])
    (simp_all add: enrollment_step_def enrollment_frozen_def enrollment_tuple_def sealed_by_owner_def)

lemma delete_unsealed_progress: "delete_unsealed_credential c d = Some d' \<Longrightarrow> enrollments_progress d d'"
  by (rule enrollments_progress_refl) (auto simp: delete_unsealed_credential_def Let_def split: if_splits)

lemma close_step:
  "enrollment_rank (enr_State r) < 3 \<Longrightarrow> enrollment_rank st = 3 \<Longrightarrow>
   st = EnrollmentSucceeded \<longrightarrow> enr_ConfirmedByClientID r = enr_ClientDeviceID r \<Longrightarrow>
   enrollment_step r (r\<lparr>enr_State := st, enr_UpdatedAt := now\<rparr>)"
  by (simp add: enrollment_step_def enrollment_frozen_def enrollment_tuple_def sealed_by_owner_def)

lemma BeginAuthEnrollment_progress:
  assumes "BeginAuthEnrollment e c d = Inr (u, d')"
  shows "enrollments_progress d d'"
proof -
  from assms obtain row where "db_enrollments d' = db_enrollments d @ [row]" "enr_State row = EnrollmentBegun"
    by (auto simp: BeginAuthEnrollment_def bindE_Inr sql_insert_ok Let_def split: if_splits option.splits)
  then show ?thesis unfolding enrollments_progress_def
    by (intro exI [of _ "db_enrollments d"] exI [of _ "[row]"]) (simp add: list.rel_refl enrollment_step_refl sealed_by_owner_def)
qed

lemma FinishAuthEnrollment_progress:
  assumes "FinishAuthEnrollment eid cid st now d = Inr (e, d')" "db_ok d"
  shows "enrollments_progress d d'"
proof -
  from FinishAuthEnrollment_steps [OF assms(1)] obtain r where
    r: "List.find (\<lambda>r. enr_ID r = eid \<and> enr_ClientDeviceID r = cid) (db_enrollments d) = Some r"
    and st: "st \<in> {EnrollmentCancelled, EnrollmentExpired, EnrollmentFailed}"
    and run: "enr_State r = st \<and> d' = d \<or>
      active_enrollment_state (enr_State r) \<and>
      (\<exists>d1. d1 = d\<lparr>db_enrollments := update_rows (\<lambda>r. enr_ID r = eid)
                (\<lambda>r. r\<lparr>enr_State := st, enr_UpdatedAt := now\<rparr>) (db_enrollments d)\<rparr> \<and>
            enrollments_ok d (db_enrollments d1) \<and>
            (d' = d1 \<or>
             (\<exists>d2. d2 = d1\<lparr>db_enrollments := update_rows (\<lambda>r. enr_ID r = eid)
                     (\<lambda>r. r\<lparr>enr_CredentialInstanceID := ''''\<rparr>) (db_enrollments d1)\<rparr> \<and>
                (d' = d2 \<or> (\<exists>c. delete_unsealed_credential c d2 = Some d')))))" by blast
  have uniq: "x = r" if "x \<in> set (db_enrollments d)" "enr_ID x = eid" for x
    using that r db_ok_tables(8) [OF assms(2)] by (auto simp: find_Some_iff dest: map_of_eqI)
      (metis distinct_map inj_onD nth_mem)
  from run show ?thesis
  proof (elim disjE conjE exE)
    assume "active_enrollment_state (enr_State r)"
    fix d1
    assume d1: "d1 = d\<lparr>db_enrollments := update_rows (\<lambda>r. enr_ID r = eid)
                (\<lambda>r. r\<lparr>enr_State := st, enr_UpdatedAt := now\<rparr>) (db_enrollments d)\<rparr>"
    have 1: "enrollments_progress d d1"
      by (rule enrollments_progress_update [of _ "\<lambda>r. enr_ID r = eid"
            "\<lambda>r. r\<lparr>enr_State := st, enr_UpdatedAt := now\<rparr>"])
        (use \<open>active_enrollment_state (enr_State r)\<close> st uniq in \<open>auto simp: d1 active_rank intro!: close_step\<close>)
    { assume "d' = d1" then show ?thesis using 1 by simp }
    fix d2
    assume "d2 = d1\<lparr>db_enrollments := update_rows (\<lambda>r. enr_ID r = eid)
                     (\<lambda>r. r\<lparr>enr_CredentialInstanceID := ''''\<rparr>) (db_enrollments d1)\<rparr>"
    then have 2: "enrollments_progress d d2" using enrollments_progress_trans [OF 1 unlink_progress] by simp
    { assume "d' = d2" then show ?thesis using 2 by simp }
    fix c assume "delete_unsealed_credential c d2 = Some d'"
    then show ?thesis using enrollments_progress_trans [OF 2] delete_unsealed_progress by blast
  qed (simp add: enrollments_progress_refl)
qed

lemma expire_loop_progress: "expire_loop vs d = Inr d' \<Longrightarrow> enrollments_progress d d'"
proof (induction vs arbitrary: d)
  case (Cons v vs)
  obtain eid c where v: "v = (eid, c)" by (cases v)
  from expire_loop_turn [OF Cons.prems(1) [unfolded v]] obtain d1 where
    run: "expire_loop vs d1 = Inr d'" and
    d1: "d1 = d \<or> delete_unsealed_credential c
       (d\<lparr>db_enrollments := update_rows (\<lambda>r. enr_ID r = eid) (\<lambda>r. r\<lparr>enr_CredentialInstanceID := ''''\<rparr>)
            (db_enrollments d)\<rparr>) = Some d1" by blast
  have "enrollments_progress d d1"
    using d1 enrollments_progress_trans [OF unlink_progress delete_unsealed_progress]
      enrollments_progress_refl by blast
  then show ?case using enrollments_progress_trans Cons.IH [OF run] by blast
qed (simp add: enrollments_progress_refl)

lemma ExpireAuthEnrollments_progress:
  assumes "ExpireAuthEnrollments now d = Inr (ps, d')"
  shows "enrollments_progress d d'"
proof -
  let ?f = "\<lambda>r. r\<lparr>enr_State := EnrollmentExpired, enr_UpdatedAt := now\<rparr>"
  let ?rows = "update_rows (\<lambda>r. active_enrollment_state (enr_State r)) ?f (db_enrollments d)"
  from ExpireAuthEnrollments_steps [OF assms] obtain vs where
    run: "expire_loop vs (d\<lparr>db_enrollments := ?rows\<rparr>) = Inr d'" by blast
  have "enrollments_progress d (d\<lparr>db_enrollments := ?rows\<rparr>)"
    by (rule enrollments_progress_update [of _ "\<lambda>r. active_enrollment_state (enr_State r)" ?f])
      (auto simp: active_rank intro!: close_step)
  then show ?thesis using enrollments_progress_trans expire_loop_progress [OF run] by blast
qed

lemma finish_due_progress: "db_ok d \<Longrightarrow> enrollments_progress d (snd (finish_due now rs d))"
proof (induction rs arbitrary: d)
  case (Cons r rs)
  show ?case
  proof (cases "FinishAuthEnrollment (enr_ID r) (enr_ClientDeviceID r) EnrollmentExpired now d")
    case (Inr x)
    then obtain e d1 where x: "x = (e, d1)" "FinishAuthEnrollment (enr_ID r) (enr_ClientDeviceID r)
        EnrollmentExpired now d = Inr (e, d1)" by (cases x) simp
    have "enrollments_progress d (snd (finish_due now rs d1))"
      using Cons.IH FinishAuthEnrollment_db_ok [OF x(2) Cons.prems] enrollments_progress_trans
        FinishAuthEnrollment_progress [OF x(2) Cons.prems] by blast
    then show ?thesis by (auto simp: x split: sum.splits prod.splits)
  qed (simp add: enrollments_progress_refl)
qed (simp add: enrollments_progress_refl)

section \<open>Claim, await, confirm and seal\<close>

definition claim_enrollment_row :: "string \<Rightarrow> time \<Rightarrow> AuthEnrollment \<Rightarrow> AuthEnrollment" where
  "claim_enrollment_row digest now r =
     r\<lparr>enr_State := EnrollmentValidating, enr_CompletionIdempotencyDigest := digest, enr_UpdatedAt := now\<rparr>"

lemma ClaimAuthEnrollment_steps:
  assumes "ClaimAuthEnrollment eid cid digest now d = (res, d')"
  shows "d' = d \<or> (\<exists>e. FinishAuthEnrollment eid cid EnrollmentExpired now d = Inr (e, d')) \<or>
    (\<exists>rows. rows = update_rows (\<lambda>r. enr_ID r = eid \<and> enr_ClientDeviceID r = cid \<and> enr_State r = EnrollmentBegun \<and>
                       text_before now (enr_ExpiresAt r)) (claim_enrollment_row digest now) (db_enrollments d) \<and>
       enrollments_ok d rows \<and> d' = d\<lparr>db_enrollments := rows\<rparr>)"
  using assms unfolding ClaimAuthEnrollment_def Let_def
  by (elim if_branch sum_branch prod_branch; simp only: prod.inject claim_enrollment_row_def [abs_def];
      auto simp only: sql_update_ok)

lemma ClaimAuthEnrollment_kept:
  assumes "ClaimAuthEnrollment eid cid digest now d = (res, d')" "db_ok d"
  shows "db_ok d' \<and> enrollments_progress d d'"
  using ClaimAuthEnrollment_steps [OF assms(1)]
proof (elim disjE exE conjE)
  fix rows
  assume rows: "rows = update_rows (\<lambda>r. enr_ID r = eid \<and> enr_ClientDeviceID r = cid \<and> enr_State r = EnrollmentBegun \<and>
                       text_before now (enr_ExpiresAt r)) (claim_enrollment_row digest now) (db_enrollments d)"
    and ok: "enrollments_ok d rows" and d': "d' = d\<lparr>db_enrollments := rows\<rparr>"
  have e: "db_enrollments d' = rows" by (simp add: d')
  have "enrollments_progress d d'"
    by (rule enrollments_progress_update [OF e [unfolded rows]])
      (auto simp: claim_enrollment_row_def enrollment_step_def enrollment_frozen_def sealed_by_owner_def)
  then show ?thesis using db_ok_put_leaf(8) [OF assms(2) ok] d' by simp
qed (use assms(2) FinishAuthEnrollment_db_ok FinishAuthEnrollment_progress enrollments_progress_refl in auto)

lemma AwaitAuthEnrollmentConfirmation_kept:
  assumes "AwaitAuthEnrollmentConfirmation eid cid a p c ar pr cr dg now d = Inr (e, d')" "db_ok d"
  shows "db_ok d' \<and> enrollments_progress d d'"
proof -
  from assms(1) obtain q f where d': "d' = d\<lparr>db_enrollments := update_rows q f (db_enrollments d)\<rparr>"
    and ok: "enrollments_ok d (update_rows q f (db_enrollments d))"
    and q: "\<forall>r. q r \<longrightarrow> enr_State r = EnrollmentValidating"
    and f: "\<forall>r. enrollment_frozen r (f r) \<and> enr_State (f r) = EnrollmentAwaitingConfirmation \<and>
              enr_CompletionIdempotencyDigest (f r) = enr_CompletionIdempotencyDigest r \<and>
              enr_ConfirmedByClientID (f r) = enr_ConfirmedByClientID r"
    by (auto simp: AwaitAuthEnrollmentConfirmation_def bindE_Inr sql_update_ok Let_def enrollment_frozen_def
        split: if_splits)
  have "enrollments_progress d d'"
    by (rule enrollments_progress_update [of _ q f]) (use q f in \<open>auto simp: d' enrollment_step_def sealed_by_owner_def\<close>)
  then show ?thesis using db_ok_put_leaf(8) [OF assms(2) ok] d' by simp
qed

definition confirm_enrollment_row :: "ID \<Rightarrow> time \<Rightarrow> AuthEnrollment \<Rightarrow> AuthEnrollment" where
  "confirm_enrollment_row cid now r =
     r\<lparr>enr_ConfirmedByClientID := cid, enr_ConfirmedAt := Some now, enr_UpdatedAt := now\<rparr>"

lemma ConfirmAuthEnrollmentAttestation_steps:
  assumes "ConfirmAuthEnrollmentAttestation eid cid digest now d = (res, d')"
  shows "d' = d \<or> (\<exists>e. FinishAuthEnrollment eid cid EnrollmentExpired now d = Inr (e, d')) \<or>
    (\<exists>rows. rows = update_rows (\<lambda>r. enr_ID r = eid \<and> enr_ClientDeviceID r = cid \<and>
                       enr_State r = EnrollmentAwaitingConfirmation \<and> enr_ConfirmationAliasDigest r = digest \<and>
                       enr_ConfirmedByClientID r = '''' \<and> text_before now (enr_ExpiresAt r))
               (confirm_enrollment_row cid now) (db_enrollments d) \<and>
       enrollments_ok d rows \<and> d' = d\<lparr>db_enrollments := rows\<rparr>)"
  using assms unfolding ConfirmAuthEnrollmentAttestation_def Let_def
  by (elim if_branch sum_branch prod_branch; simp only: prod.inject confirm_enrollment_row_def [abs_def];
      auto simp only: sql_update_ok split: sum.splits prod.splits)

lemma ConfirmAuthEnrollmentAttestation_kept:
  assumes "ConfirmAuthEnrollmentAttestation eid cid digest now d = (res, d')" "db_ok d"
  shows "db_ok d' \<and> enrollments_progress d d'"
  using ConfirmAuthEnrollmentAttestation_steps [OF assms(1)]
proof (elim disjE exE conjE)
  fix rows
  assume rows: "rows = update_rows (\<lambda>r. enr_ID r = eid \<and> enr_ClientDeviceID r = cid \<and>
                       enr_State r = EnrollmentAwaitingConfirmation \<and> enr_ConfirmationAliasDigest r = digest \<and>
                       enr_ConfirmedByClientID r = '''' \<and> text_before now (enr_ExpiresAt r))
               (confirm_enrollment_row cid now) (db_enrollments d)"
    and ok: "enrollments_ok d rows" and d': "d' = d\<lparr>db_enrollments := rows\<rparr>"
  have e: "db_enrollments d' = rows" by (simp add: d')
  have "enrollments_progress d d'"
    by (rule enrollments_progress_update [OF e [unfolded rows]])
      (auto simp: confirm_enrollment_row_def enrollment_step_def enrollment_frozen_def enrollment_tuple_def
        sealed_by_owner_def)
  then show ?thesis using db_ok_put_leaf(8) [OF assms(2) ok] d' by simp
qed (use assms(2) FinishAuthEnrollment_db_ok FinishAuthEnrollment_progress enrollments_progress_refl in auto)

lemma commit_enrollment_rows:
  assumes "commit_enrollment e c dg item d = Inr d'"
  shows "db_enrollments d' = update_rows (\<lambda>r. enr_ID r = e \<and> enr_ClientDeviceID r = c \<and>
            enr_CredentialInstanceID r = vi_CredentialInstanceID item \<and>
            enr_State r = EnrollmentAwaitingConfirmation \<and> enr_ConfirmedByClientID r = c \<and>
            enr_CompletionIdempotencyDigest r = dg)
          (\<lambda>r. r\<lparr>enr_State := EnrollmentSucceeded, enr_UpdatedAt := vi_UpdatedAt item\<rparr>) (db_enrollments d)"
  using assms by (auto simp: commit_enrollment_def bindE_Inr sql_update_ok Let_def split: if_splits option.splits)

lemma replaceVaultItemCAS_progress:
  assumes "replaceVaultItemCAS n item st e c dg d = Inr (u, d')"
  shows "enrollments_progress d d'"
proof (cases "e = ''''")
  case True
  then show ?thesis using replaceVaultItemCAS_steps [OF assms] by (auto intro: enrollments_progress_refl)
next
  case False
  have "\<exists>d2. db_enrollments d2 = db_enrollments d \<and> commit_enrollment e c dg item d2 = Inr d'"
    using replaceVaultItemCAS_steps [OF assms] unfolding if_P [OF False]
    by (elim conjE exE) (rule exI, rule conjI [rotated], assumption, simp)
  then obtain d2 where d2: "db_enrollments d2 = db_enrollments d" "commit_enrollment e c dg item d2 = Inr d'"
    by blast
  show ?thesis
    by (rule enrollments_progress_update [OF commit_enrollment_rows [OF d2(2), unfolded d2(1)]])
      (auto intro!: close_step)
qed

end
