(* ===== verification/StoreInvariants.thy ===== *)
theory StoreInvariants
  imports EnrollmentLaws "HOL-Library.Sublist"
begin

text \<open>
  Histories of the whole store. Every exported operation that writes is one step, grouped by the
  part of the store it belongs to; three invariants hold after every history: the constraints of the
  schema, the well-formedness of the stored Sessions, and the exclusion of active Sessions by a
  reserved revocation.
\<close>

section \<open>Steps\<close>

inductive registry_op :: "db \<Rightarrow> db \<Rightarrow> bool" where
  "CreateDevice a1 d = Inr (r1, d') \<Longrightarrow> registry_op d d'"
| "CreateClientIdentity a2 d = Inr (r1, d') \<Longrightarrow> registry_op d d'"
| "RotateClientIdentity i n key now d = Inr (r3, d') \<Longrightarrow> registry_op d d'"
| "RevokeClientIdentity i n now d = Inr (r3, d') \<Longrightarrow> registry_op d d'"
| "CreateWorkspace a4 d = Inr (r1, d') \<Longrightarrow> registry_op d d'"
| "CreateAccount a5 d = Inr (r1, d') \<Longrightarrow> registry_op d d'"
| "SetAccountEnabled i b now d = Inr (r5, d') \<Longrightarrow> registry_op d d'"
| "CreateRuntimeProfile a6 d = Inr (r1, d') \<Longrightarrow> registry_op d d'"
| "UpdateRuntimeProfile a6 d = Inr (r6, d') \<Longrightarrow> registry_op d d'"
| "DeleteRuntimeProfile i d = Inr (r1, d') \<Longrightarrow> registry_op d d'"
| "CreateCredentialInstance a7 d = Inr (r1, d') \<Longrightarrow> registry_op d d'"
| "UpdateCredentialStatus i st now d = Inr (r7, d') \<Longrightarrow> registry_op d d'"
| "UpdateCredentialRevisionCAS i n digest now d = Inr (r7, d') \<Longrightarrow> registry_op d d'"

inductive session_op :: "db \<Rightarrow> db \<Rightarrow> bool" where
  create_session: "CreateSession s d = Inr (u, d') \<Longrightarrow> session_op d d'"
| transition_session: "TransitionSession i expected next now ec fc d = Inr (s, d') \<Longrightarrow> session_op d d'"
| set_provider_session: "SetSessionProviderSessionID i expected p d = Inr (s, d') \<Longrightarrow> session_op d d'"

inductive child_op :: "db \<Rightarrow> db \<Rightarrow> bool" where
  "CreateAttachment a d = Inr (u, d') \<Longrightarrow> child_op d d'"
| "DeleteAttachment i c d = Inr (u, d') \<Longrightarrow> child_op d d'"
| "SaveControllerLease l n d = Inr (u, d') \<Longrightarrow> child_op d d'"
| "AppendRuntimeEvent e d = Inr (u, d') \<Longrightarrow> child_op d d'"
| "AppendAuditEvent ae d = Inr (u, d') \<Longrightarrow> child_op d d'"
| "SaveIdempotencyRecord ir d = Inr (u, d') \<Longrightarrow> child_op d d'"
| "CreateUsageSnapshot us d = Inr (u, d') \<Longrightarrow> child_op d d'"
| "CreateUsageSnapshotWithWindows us d = Inr (u, d') \<Longrightarrow> child_op d d'"
| "CreateCredentialMaterialization m d = Inr (u, d') \<Longrightarrow> child_op d d'"
| "TransitionCredentialMaterialization i e1 n1 c1 now d = Inr (m, d') \<Longrightarrow> child_op d d'"

inductive enrollment_op :: "db \<Rightarrow> db \<Rightarrow> bool" where
  begin_enrollment: "BeginAuthEnrollment e c d = Inr (u, d') \<Longrightarrow> enrollment_op d d'"
| claim_enrollment: "ClaimAuthEnrollment i cl digest now d = (res, d') \<Longrightarrow> enrollment_op d d'"
| await_confirmation: "AwaitAuthEnrollmentConfirmation i cl a p c2 ar pr cr digest now d = Inr (e, d') \<Longrightarrow> enrollment_op d d'"
| confirm_enrollment: "ConfirmAuthEnrollmentAttestation i cl digest now d = (res, d') \<Longrightarrow> enrollment_op d d'"
| finish_enrollment: "FinishAuthEnrollment i cl st now d = Inr (e, d') \<Longrightarrow> enrollment_op d d'"
| expire_all: "ExpireAuthEnrollments now d = Inr (ps, d') \<Longrightarrow> enrollment_op d d'"
| expire_due: "ExpireDueAuthEnrollments now d = (res2, d') \<Longrightarrow> enrollment_op d d'"
| seal: "ReplaceVaultItemEnrollmentCAS i cl digest n item cst d = Inr (u, d') \<Longrightarrow> enrollment_op d d'"

inductive preview_op :: "db \<Rightarrow> db \<Rightarrow> bool" where
  create_preview: "CreateSessionStartPreview v d = Inr (u, d') \<Longrightarrow> preview_op d d'"
| consume_preview: "ConsumeSessionStartPreview request d = (res, d') \<Longrightarrow> preview_op d d'"
| delete_previews: "DeleteExpiredSessionStartPreviews before d = Inr (u, d') \<Longrightarrow> preview_op d d'"

inductive account_op :: "db \<Rightarrow> db \<Rightarrow> bool" where
  "CreateAccountWithDefaultProfile a p d = Inr (r1, d') \<Longrightarrow> account_op d d'"
| "CreateProfile a p d = Inr (r2, d') \<Longrightarrow> account_op d d'"
| "UpdateAccount i n patch now d = Inr (r3, d') \<Longrightarrow> account_op d d'"
| "SetAccountEnabledRevision i n b now d = Inr (r3, d') \<Longrightarrow> account_op d d'"
| "UpdateProfile i n patch2 now d = Inr (r2, d') \<Longrightarrow> account_op d d'"
| "SetProfileEnabled i n b now d = Inr (r2, d') \<Longrightarrow> account_op d d'"
| "DeleteProfile i n now d = Inr (u, d') \<Longrightarrow> account_op d d'"
| "DeleteAccount i n now d = Inr (u, d') \<Longrightarrow> account_op d d'"

inductive vault_op :: "db \<Rightarrow> db \<Rightarrow> bool" where
  initialize: "InitializeVault c d = Inr (b, d') \<Longrightarrow> vault_op d d'"
| seal_item: "ReplaceVaultItemCAS n item st d = Inr (u, d') \<Longrightarrow> vault_op d d'"
| reserve: "ReserveVaultCredentialRevocation i now d = Inr (u, d') \<Longrightarrow> vault_op d d'"
| finalize: "FinalizeVaultCredentialRevocation i now d = Inr (cr, d') \<Longrightarrow> vault_op d d'"

inductive store_op :: "db \<Rightarrow> db \<Rightarrow> bool" where
  "registry_op d d' \<Longrightarrow> store_op d d'"
| "session_op d d' \<Longrightarrow> store_op d d'"
| "child_op d d' \<Longrightarrow> store_op d d'"
| "approval_op d d' \<Longrightarrow> store_op d d'"
| "enrollment_op d d' \<Longrightarrow> store_op d d'"
| "preview_op d d' \<Longrightarrow> store_op d d'"
| "account_op d d' \<Longrightarrow> store_op d d'"
| "vault_op d d' \<Longrightarrow> store_op d d'"

section \<open>The schema\<close>

lemma client_change_db_ok:
  shows "RotateClientIdentity i n key now d = Inr (c, d') \<Longrightarrow> db_ok d \<Longrightarrow> db_ok d'"
    and "RevokeClientIdentity i n now d = Inr (c, d') \<Longrightarrow> db_ok d \<Longrightarrow> db_ok d'"
  using client_versions.cas_inv [of d i n "RotateKey key now" d']
    client_versions.cas_inv [of d i n "RevokeAt now" d']
  by (simp_all add: client_cas_def)

lemma registry_op_db_ok: "registry_op d d' \<Longrightarrow> db_ok d \<Longrightarrow> db_ok d'"
  by (induction rule: registry_op.induct)
    (blast intro: CreateDevice_ok CreateClientIdentity_ok client_change_db_ok CreateWorkspace_ok CreateAccount_ok SetAccountEnabled_ok CreateRuntimeProfile_ok UpdateRuntimeProfile_ok
      DeleteRuntimeProfile_ok CreateCredentialInstance_ok UpdateCredentialStatus_ok
      UpdateCredentialRevisionCAS_ok)+

lemma session_op_db_ok: "session_op d d' \<Longrightarrow> db_ok d \<Longrightarrow> db_ok d'"
  by (induction rule: session_op.induct)
    (blast intro: CreateSession_ok TransitionSession_db_ok SetSessionProviderSessionID_db_ok)+

lemma child_op_db_ok: "child_op d d' \<Longrightarrow> db_ok d \<Longrightarrow> db_ok d'"
  by (induction rule: child_op.induct)
    (blast intro: CreateAttachment_db_ok DeleteAttachment_db_ok SaveControllerLease_db_ok
      AppendRuntimeEvent_db_ok AppendAuditEvent_db_ok SaveIdempotencyRecord_db_ok CreateUsageSnapshot_db_ok
      CreateUsageSnapshotWithWindows_db_ok CreateCredentialMaterialization_db_ok
      TransitionCredentialMaterialization_db_ok)+

lemma enrollment_seal:
  "ReplaceVaultItemEnrollmentCAS i cl digest n item st d = Inr (u, d') \<Longrightarrow>
   replaceVaultItemCAS n item st i cl digest d = Inr (u, d')"
  by (auto simp: ReplaceVaultItemEnrollmentCAS_def split: if_splits)

lemma expire_due_kept:
  assumes "ExpireDueAuthEnrollments now d = (res, d')" "db_ok d"
  shows "db_ok d' \<and> enrollments_progress d d'"
proof (cases "now = 0")
  case True
  then show ?thesis using assms by (simp add: ExpireDueAuthEnrollments_def enrollments_progress_refl)
next
  case False
  let ?rs = "order_by (\<lambda>x y. enr_ID x < enr_ID y)
    (filter (\<lambda>r. active_enrollment_state (enr_State r) \<and> text_le (enr_ExpiresAt r) now) (db_enrollments d))"
  have "finish_due now ?rs d = (res, d')"
    using assms(1) False by (simp only: ExpireDueAuthEnrollments_def if_False)
  then have "d' = snd (finish_due now ?rs d)" by (simp only: snd_conv)
  then show ?thesis using finish_due_db_ok [OF assms(2)] finish_due_progress [OF assms(2)] by simp
qed

lemma enrollment_op_kept:
  assumes "enrollment_op d d'" "db_ok d"
  shows "db_ok d' \<and> enrollments_progress d d'"
  using assms(1)
proof cases
  case begin_enrollment
  then show ?thesis using BeginAuthEnrollment_db_ok BeginAuthEnrollment_progress assms(2) by blast
next
  case claim_enrollment
  then show ?thesis using ClaimAuthEnrollment_kept assms(2) by blast
next
  case await_confirmation
  then show ?thesis using AwaitAuthEnrollmentConfirmation_kept assms(2) by blast
next
  case confirm_enrollment
  then show ?thesis using ConfirmAuthEnrollmentAttestation_kept assms(2) by blast
next
  case finish_enrollment
  then show ?thesis using FinishAuthEnrollment_db_ok FinishAuthEnrollment_progress assms(2) by blast
next
  case expire_all
  then show ?thesis using ExpireAuthEnrollments_db_ok ExpireAuthEnrollments_progress assms(2) by blast
next
  case expire_due
  then show ?thesis using expire_due_kept assms(2) by blast
next
  case (seal i cl digest n item cst u)
  note run = enrollment_seal [OF seal]
  show ?thesis using replaceVaultItemCAS_db_ok [OF run assms(2)] replaceVaultItemCAS_progress [OF run] by blast
qed

lemma enrollment_ops_kept: "enrollment_op\<^sup>*\<^sup>* d d' \<Longrightarrow> db_ok d \<Longrightarrow> db_ok d' \<and> enrollments_progress d d'"
proof (induction rule: rtranclp_induct)
  case base
  then show ?case by (simp add: enrollments_progress_refl)
next
  case (step d1 d2)
  then have "db_ok d1" "enrollments_progress d d1" by blast+
  then show ?case using enrollment_op_kept [OF step(2)] enrollments_progress_trans by blast
qed

lemma preview_op_db_ok: "preview_op d d' \<Longrightarrow> db_ok d \<Longrightarrow> db_ok d'"
  by (induction rule: preview_op.induct)
    (blast intro: CreateSessionStartPreview_db_ok Consume_db_ok DeleteExpiredSessionStartPreviews_db_ok)+

lemma account_op_db_ok: "account_op d d' \<Longrightarrow> db_ok d \<Longrightarrow> db_ok d'"
  by (induction rule: account_op.induct)
    (blast intro: CreateAccountWithDefaultProfile_db_ok CreateProfile_db_ok UpdateAccount_db_ok
      SetAccountEnabledRevision_db_ok UpdateProfile_db_ok SetProfileEnabled_db_ok DeleteProfile_db_ok
      DeleteAccount_db_ok)+

lemma ReplaceVaultItemCAS_db_ok: "ReplaceVaultItemCAS n item st d = Inr (u, d') \<Longrightarrow> db_ok d \<Longrightarrow> db_ok d'"
  by (simp add: ReplaceVaultItemCAS_def replaceVaultItemCAS_db_ok)

lemma vault_op_db_ok: "vault_op d d' \<Longrightarrow> db_ok d \<Longrightarrow> db_ok d'"
  by (induction rule: vault_op.induct)
    (blast intro: InitializeVault_db_ok ReplaceVaultItemCAS_db_ok
      ReserveVaultCredentialRevocation_db_ok FinalizeVaultCredentialRevocation_db_ok)+

lemma store_op_db_ok: "store_op d d' \<Longrightarrow> db_ok d \<Longrightarrow> db_ok d'"
  by (induction rule: store_op.induct)
    (blast dest: registry_op_db_ok session_op_db_ok child_op_db_ok approval_op_db_ok enrollment_op_kept
      preview_op_db_ok account_op_db_ok vault_op_db_ok)+

lemma store_ops_db_ok: "store_op\<^sup>*\<^sup>* d d' \<Longrightarrow> db_ok d \<Longrightarrow> db_ok d'"
  by (induction rule: rtranclp_induct) (blast dest: store_op_db_ok)+

section \<open>Who touches the Sessions and the clients\<close>

text \<open>
  Most operations leave the Sessions and the clients alone and do not add a reservation. The
  records of answered requests are only ever added to.
\<close>

definition core_frame :: "db \<Rightarrow> db \<Rightarrow> bool" where
  "core_frame d d' \<longleftrightarrow>
     db_sessions d' = db_sessions d \<and> set (db_revocations d') \<subseteq> set (db_revocations d) \<and>
     db_clients d' = db_clients d \<and> prefix (db_idempotency d) (db_idempotency d')"

lemma core_frame_refl: "core_frame d d"
  by (simp add: core_frame_def)

lemma core_frame_trans: "core_frame d d1 \<Longrightarrow> core_frame d1 d2 \<Longrightarrow> core_frame d d2"
  by (auto simp: core_frame_def intro: prefix_order.trans)

lemma ensureFakeAccountTx_frame: "ensureFakeAccountTx aid did t1 t2 d = Inr (u, d') \<Longrightarrow> core_frame d d'"
  by (auto simp: ensureFakeAccountTx_def core_frame_def bindE_Inr sql_insert_ok Let_def
      split: if_splits option.splits)

lemma update_client_frame: "update_client m i n f d = Inr (c, d') \<Longrightarrow> \<exists>rows. d' = d\<lparr>db_clients := rows\<rparr>"
  by (auto simp: update_client_def bindE_Inr sql_update_ok Let_def split: if_splits)

lemma CreateRuntimeProfile_frame: "CreateRuntimeProfile p d = Inr (u, d') \<Longrightarrow> core_frame d d'"
  by (auto simp: CreateRuntimeProfile_def core_frame_def bindE_Inr sql_insert_ok Let_def
      dest!: ensureFakeAccountTx_frame split: if_splits)

lemma client_cas_rows: "client_cas i n change d = Some d' \<Longrightarrow> \<exists>rows. d' = d\<lparr>db_clients := rows\<rparr>"
  by (auto simp: client_cas_def RotateClientIdentity_def RevokeClientIdentity_def bindE_Inr
      dest!: update_client_frame split: client_change.splits sum.splits if_splits)

lemma registry_op_frame:
  "registry_op d d' \<Longrightarrow> core_frame d d' \<or> (\<exists>row. d' = d\<lparr>db_clients := db_clients d @ [row]\<rparr>) \<or>
     (\<exists>i n change. client_cas i n change d = Some d')"
proof (induction rule: registry_op.induct)
  case (2 a2 d r1 d')
  then show ?case by (auto simp: CreateClientIdentity_def bindE_Inr sql_insert_ok Let_def split: if_splits)
next
  case (3 i n key now d r3 d')
  then have "client_cas i n (RotateKey key now) d = Some d'" by (simp add: client_cas_def)
  then show ?case by blast
next
  case (4 i n now d r3 d')
  then have "client_cas i n (RevokeAt now) d = Some d'" by (simp add: client_cas_def)
  then show ?case by blast
next
  case (8 a6 d r1 d')
  then show ?case using CreateRuntimeProfile_frame by blast
qed (auto simp: core_frame_def CreateDevice_def CreateWorkspace_def CreateAccount_def
    SetAccountEnabled_def UpdateRuntimeProfile_def DeleteRuntimeProfile_def CreateCredentialInstance_def
    UpdateCredentialStatus_def UpdateCredentialRevisionCAS_def bindE_Inr sql_insert_ok sql_update_ok Let_def
    split: if_splits)

lemma insert_windows_frame: "insert_windows i n ws d = Inr d' \<Longrightarrow> core_frame d d'"
  by (induction ws arbitrary: n d) (fastforce simp: bindE_Inr core_frame_def)+

lemma child_op_frame: "child_op d d' \<Longrightarrow> core_frame d d'"
proof (induction rule: child_op.induct)
  case (8 us d u d')
  then consider "d' = d" | rows i ws where "insert_windows i 0 ws (d\<lparr>db_usages := rows\<rparr>) = Inr d'"
    by (auto simp: CreateUsageSnapshotWithWindows_def bindE_Inr split: if_splits option.splits)
  then show ?case using insert_windows_frame core_frame_refl by cases (fastforce simp: core_frame_def)+
qed (auto simp: core_frame_def CreateAttachment_def DeleteAttachment_def SaveControllerLease_def
    AppendRuntimeEvent_def AppendAuditEvent_def SaveIdempotencyRecord_def CreateUsageSnapshot_def
    CreateCredentialMaterialization_def TransitionCredentialMaterialization_def bindE_Inr sql_insert_ok
    sql_update_ok Let_def split: if_splits sum.splits)

lemma approval_op_frame: "approval_op d d' \<Longrightarrow> core_frame d d'"
proof (induction rule: approval_op.induct)
  case (create a d d')
  then show ?case unfolding CreateApproval_def Let_def
    by (elim branches; simp only: sum.distinct sum.inject prod.inject; auto simp: core_frame_def)
next
  case (claim aid pid rid key decision digest now d a d')
  then show ?case unfolding ClaimApprovalDispatch_def Let_def
    by (elim branches; simp only: sum.distinct sum.inject prod.inject; auto simp: core_frame_def)
next
  case (complete aid digest now d a d')
  then show ?case unfolding CompleteApprovalDispatch_def Let_def
    by (elim branches; simp only: sum.distinct sum.inject prod.inject; auto simp: core_frame_def)
next
  case (failed aid digest code now d a d')
  then show ?case unfolding FailApprovalDispatch_def Let_def
    by (elim branches; simp only: sum.distinct sum.inject prod.inject; auto simp: core_frame_def)
next
  case (expire random_digest now d d')
  then show ?case unfolding ExpirePendingApprovals_def Let_def
    by (elim branches; simp only: sum.distinct sum.inject prod.inject; auto simp: core_frame_def)
qed

lemma delete_unsealed_frame: "delete_unsealed_credential c d = Some d' \<Longrightarrow> core_frame d d'"
  by (auto simp: delete_unsealed_credential_def core_frame_def delete_rows_def Let_def split: if_splits)

lemma FinishAuthEnrollment_frame: "FinishAuthEnrollment i c st now d = Inr (e, d') \<Longrightarrow> core_frame d d'"
  by (drule FinishAuthEnrollment_steps)
    (elim exE conjE disjE; (drule delete_unsealed_frame)?; simp add: core_frame_def)

lemma expire_loop_frame: "expire_loop vs d = Inr d' \<Longrightarrow> core_frame d d'"
proof (induction vs arbitrary: d)
  case (Cons v vs)
  obtain eid c where v: "v = (eid, c)" by (cases v)
  from expire_loop_turn [OF Cons.prems [unfolded v]] obtain d1 where
    run: "expire_loop vs d1 = Inr d'" and
    "d1 = d \<or> delete_unsealed_credential c
       (d\<lparr>db_enrollments := update_rows (\<lambda>r. enr_ID r = eid) (\<lambda>r. r\<lparr>enr_CredentialInstanceID := ''''\<rparr>)
            (db_enrollments d)\<rparr>) = Some d1" by blast
  then have "core_frame d d1" using delete_unsealed_frame by (fastforce simp: core_frame_def)
  then show ?case using Cons.IH [OF run] by (rule core_frame_trans)
qed (simp add: core_frame_refl)

lemma finish_due_frame: "core_frame d (snd (finish_due now rs d))"
proof (induction rs arbitrary: d)
  case (Cons r rs)
  show ?case
  proof (cases "FinishAuthEnrollment (enr_ID r) (enr_ClientDeviceID r) EnrollmentExpired now d")
    case (Inr x)
    then obtain e d1 where x: "x = (e, d1)" "FinishAuthEnrollment (enr_ID r) (enr_ClientDeviceID r)
        EnrollmentExpired now d = Inr (e, d1)" by (cases x) simp
    have "core_frame d (snd (finish_due now rs d1))"
      using core_frame_trans [OF FinishAuthEnrollment_frame [OF x(2)] Cons.IH] .
    then show ?thesis by (auto simp: x split: sum.splits prod.splits)
  qed (simp add: core_frame_refl)
qed (simp add: core_frame_refl)

lemma commit_enrollment_frame: "commit_enrollment e c dg item d = Inr d' \<Longrightarrow> core_frame d d'"
  unfolding commit_enrollment_def Let_def
  by (elim branches; simp only: sum.distinct sum.inject prod.inject; auto simp: core_frame_def)

lemma replaceVaultItemCAS_frame: "replaceVaultItemCAS n item st e c dg d = Inr (u, d') \<Longrightarrow> core_frame d d'"
  by (drule replaceVaultItemCAS_steps)
    (elim exE conjE; auto simp: core_frame_def dest!: commit_enrollment_frame split: if_splits)

lemma enrollment_op_frame:
  assumes "enrollment_op d d'"
  shows "core_frame d d'"
  using assms
proof cases
  case begin_enrollment
  then show ?thesis unfolding BeginAuthEnrollment_def Let_def
    by (elim branches; simp only: sum.distinct sum.inject prod.inject; auto simp: core_frame_def)
next
  case (claim_enrollment i cl digest now res)
  from ClaimAuthEnrollment_steps [OF this] show ?thesis
    by (elim disjE exE conjE) (auto simp: core_frame_def dest!: FinishAuthEnrollment_frame)
next
  case await_confirmation
  then show ?thesis unfolding AwaitAuthEnrollmentConfirmation_def Let_def
    by (elim branches; simp only: sum.distinct sum.inject prod.inject; auto simp: core_frame_def)
next
  case (confirm_enrollment i cl digest now res)
  from ConfirmAuthEnrollmentAttestation_steps [OF this] show ?thesis
    by (elim disjE exE conjE) (auto simp: core_frame_def dest!: FinishAuthEnrollment_frame)
next
  case finish_enrollment
  then show ?thesis by (rule FinishAuthEnrollment_frame)
next
  case (expire_all now ps)
  from ExpireAuthEnrollments_steps [OF this] obtain rows vs where
    "expire_loop vs (d\<lparr>db_enrollments := rows\<rparr>) = Inr d'" by blast
  then show ?thesis by (auto simp: core_frame_def dest!: expire_loop_frame)
next
  case (expire_due now res2)
  then have "d' = d \<or> (\<exists>rs. finish_due now rs d = (res2, d'))"
    by (auto simp: ExpireDueAuthEnrollments_def split: if_splits)
  then show ?thesis using finish_due_frame [of d now] core_frame_refl by (metis snd_conv)
next
  case seal
  then show ?thesis using enrollment_seal replaceVaultItemCAS_frame by blast
qed

lemma insert_profile_frame: "insert_profile m r d = Inr d' \<Longrightarrow> core_frame d d'"
  by (auto simp: insert_profile_def core_frame_def Let_def split: if_splits)

lemma insert_tombstone_frame: "insert_tombstone m k i p r now d = Inr d' \<Longrightarrow> core_frame d d'"
  by (auto simp: insert_tombstone_def core_frame_def bindE_Inr)

lemma profile_tombstones_frame: "profile_tombstones ps now d = Inr d' \<Longrightarrow> core_frame d d'"
proof (induction ps arbitrary: d)
  case (Cons p ps)
  then show ?case using insert_tombstone_frame core_frame_trans by (fastforce simp: bindE_Inr)
qed (simp add: core_frame_refl)

lemma delete_frame:
  shows "delete_profiles m q1 d = Inr d1 \<Longrightarrow> core_frame d d1"
    and "delete_usages m q2 d = Inr d2 \<Longrightarrow> core_frame d d2"
    and "delete_accounts m q3 d = Inr d3 \<Longrightarrow> core_frame d d3"
  by (auto simp: delete_profiles_def delete_usages_def delete_accounts_def core_frame_def split: if_splits)

lemma DeleteAccount_frame:
  assumes "DeleteAccount i n now d = Inr (u, d')"
  shows "core_frame d d'"
proof -
  from assms obtain ps d1 d2 d3 d4 q k p r qa where
    "profile_tombstones ps now d = Inr d1" "delete_usages ''account usage could not be deleted'' q d1 = Inr d2"
    "delete_profiles ''account profiles could not be deleted'' k d2 = Inr d3"
    "insert_tombstone ''account tombstone could not be created'' ''account'' i p r now d3 = Inr d4"
    "delete_accounts ''account could not be deleted'' qa d4 = Inr d'"
    unfolding DeleteAccount_def Let_def by (auto simp: bindE_Inr split: if_splits)
  note frames = profile_tombstones_frame [OF this(1)] delete_frame(2) [OF this(2)] delete_frame(1) [OF this(3)]
    insert_tombstone_frame [OF this(4)] delete_frame(3) [OF this(5)]
  show ?thesis by (rule core_frame_trans, rule frames, rule core_frame_trans, rule frames,
      rule core_frame_trans, rule frames, rule core_frame_trans, rule frames, rule frames)
qed

lemma account_op_frame: "account_op d d' \<Longrightarrow> core_frame d d'"
proof (induction rule: account_op.induct)
  case (1 a p d r1 d')
  then show ?case unfolding CreateAccountWithDefaultProfile_def Let_def
    by (elim branches; simp only: sum.distinct sum.inject prod.inject; elim branches;
        auto simp: core_frame_def dest!: insert_profile_frame)
next
  case (2 a p d r2 d')
  then show ?case unfolding CreateProfile_def
    by (elim branches; simp only: sum.distinct sum.inject prod.inject; auto dest!: insert_profile_frame)
next
  case (5 i n patch2 now d r2 d')
  then show ?case unfolding UpdateProfile_def Let_def
    by (elim branches; simp only: sum.distinct sum.inject prod.inject; auto simp: core_frame_def)
next
  case (7 i n now d u d')
  then show ?case unfolding DeleteProfile_def Let_def
    by (elim branches; simp only: sum.distinct sum.inject prod.inject;
        auto intro: core_frame_trans dest!: insert_tombstone_frame delete_frame(1))
next
  case (8 i n now d u d')
  then show ?case by (rule DeleteAccount_frame)
qed (auto simp: core_frame_def UpdateAccount_def SetAccountEnabledRevision_def SetProfileEnabled_def
    bindE_Inr Let_def split: if_splits)

section \<open>Active Sessions and reserved revocations\<close>

text \<open>
  A reserved revocation excludes active Sessions: a reservation is refused while a Session uses the
  credential, and from then on no Session with it can be created, resumed or started from a preview.
\<close>

definition reservation_safe :: "db \<Rightarrow> bool" where
  "reservation_safe d =
     list_all (\<lambda>s. active_session s \<longrightarrow>
                      list_all (\<lambda>r. fst r \<noteq> ses_CredentialInstanceID s) (db_revocations d)) (db_sessions d)"

definition store_inv :: "db \<Rightarrow> bool" where
  "store_inv d \<longleftrightarrow> db_ok d \<and> sessions_wf d \<and> reservation_safe d"

lemma store_inv_frame: "core_frame d d' \<Longrightarrow> db_ok d' \<Longrightarrow> store_inv d \<Longrightarrow> store_inv d'"
  by (auto simp: core_frame_def store_inv_def sessions_wf_def reservation_safe_def list_all_iff)

lemma links_unreserved:
  "validateSessionLinks s d = Inr () \<Longrightarrow> list_all (\<lambda>r. fst r \<noteq> ses_CredentialInstanceID s) (db_revocations d)"
  by (simp add: validateSessionLinks_def bindE_Inr split: option.splits if_splits)
    (auto simp: count_rows_def filter_empty_conv list_all_iff)

lemma reservation_safe_update:
  assumes "reservation_safe d" "\<And>r. q r \<Longrightarrow> active_session (f r) \<Longrightarrow> active_session r"
    "\<And>r. ses_CredentialInstanceID (f r) = ses_CredentialInstanceID r"
    "db_sessions d' = update_rows q f (db_sessions d)" "db_revocations d' = db_revocations d"
  shows "reservation_safe d'"
  using assms(1,2) unfolding reservation_safe_def assms(4,5) list_all_update_rows
  by (auto simp: list_all_iff assms(3))

lemma store_inv_new_session:
  assumes "store_inv d" "db_ok d'" "db_sessions d' = db_sessions d @ [s]" "db_revocations d' = db_revocations d"
    "session_wf s" "validateSessionLinks s d = Inr ()"
  shows "store_inv d'"
  using assms links_unreserved [OF assms(6)] by (simp add: store_inv_def sessions_wf_def reservation_safe_def)

lemma session_op_inv:
  assumes "session_op d d'" "store_inv d"
  shows "store_inv d'"
  using assms(1)
proof cases
  case (create_session s u)
  have "db_ok d'" using CreateSession_ok [OF create_session] assms(2) by (simp add: store_inv_def)
  then show ?thesis using CreateSession_row [OF create_session] store_inv_new_session [OF assms(2)] by fastforce
next
  case (transition_session i e n now ec fc s')
  have ok: "db_ok d" "sessions_wf d" using assms(2) by (simp_all add: store_inv_def)
  from transition_session [unfolded TransitionSession_iff [OF ok(1)]] obtain s where
    s: "ses_Status s = e" "Transition s n now ec fc = Inr s'"
    and d': "d' = d\<lparr>db_sessions := update_rows (\<lambda>r. ses_ID r = i \<and> ses_Status r = e)
                 (\<lambda>r. r\<lparr>ses_Status := ses_Status s', ses_EndedAt := ses_EndedAt s',
                        ses_ExitCode := ses_ExitCode s', ses_FailureCode := ses_FailureCode s'\<rparr>)
                 (db_sessions d)\<rparr>" by blast
  have "e \<in> {SessionStarting, SessionRunning, SessionStopping}"
    using s by (cases e) (auto simp: Transition_ok)
  then have active: "active_session r" if "ses_Status r = e" for r
    using that by (simp add: active_session_def)
  have "reservation_safe d'"
  proof (rule reservation_safe_update)
    show "reservation_safe d" using assms(2) by (simp add: store_inv_def)
    show "db_sessions d' = update_rows (\<lambda>r. ses_ID r = i \<and> ses_Status r = e)
                 (\<lambda>r. r\<lparr>ses_Status := ses_Status s', ses_EndedAt := ses_EndedAt s',
                        ses_ExitCode := ses_ExitCode s', ses_FailureCode := ses_FailureCode s'\<rparr>)
                 (db_sessions d)" by (simp add: d')
  qed (use active in \<open>simp_all add: d'\<close>)
  then show ?thesis
    using TransitionSession_db_ok [OF transition_session] TransitionSession_wf [OF ok transition_session] ok
    by (simp add: store_inv_def)
next
  case (set_provider_session i e p s)
  then obtain rows where rows: "d' = d\<lparr>db_sessions := rows\<rparr>" "length p \<le> 256"
    "rows = update_rows (\<lambda>r. ses_ID r = i \<and> ses_Provider r = ProviderCodex \<and> ses_Status r = e \<and>
                        ses_ProviderSessionID r = '''') (\<lambda>r. r\<lparr>ses_ProviderSessionID := p\<rparr>) (db_sessions d)"
    by (auto simp: SetSessionProviderSessionID_def bindE_Inr sql_update_ok Let_def split: if_splits)
  then have rows: "d' = d\<lparr>db_sessions := rows\<rparr>" "length p \<le> 256"
    "db_sessions d' = update_rows (\<lambda>r. ses_ID r = i \<and> ses_Provider r = ProviderCodex \<and> ses_Status r = e \<and>
                        ses_ProviderSessionID r = '''') (\<lambda>r. r\<lparr>ses_ProviderSessionID := p\<rparr>) (db_sessions d)"
    by simp_all
  have "reservation_safe d'" using assms(2)
    by (intro reservation_safe_update [OF _ _ _ rows(3)])
      (simp_all add: store_inv_def rows(1) active_session_def)
  moreover have "session_wf (r\<lparr>ses_ProviderSessionID := p\<rparr>)" if "session_wf r" for r
    using that rows(2) by (simp add: session_wf_def)
  then have "sessions_wf d'"
    using assms(2) unfolding store_inv_def sessions_wf_def rows(3) list_all_update_rows
    by (auto simp: list_all_iff)
  ultimately show ?thesis using SetSessionProviderSessionID_db_ok [OF set_provider_session] assms(2)
    by (simp add: store_inv_def)
qed

text \<open>A consumption that changed the store returned the Session it made.\<close>

lemma Consume_changes:
  assumes run: "ConsumeSessionStartPreview request d = (res, d')"
  shows "d' = d \<or> (\<exists>s p. res = Inr s \<and> SessionStartPreview_read (req_PreviewID request) d = Inr p \<and>
     prev_ConsumedAt p = None \<and> db_revocations d' = db_revocations d)"
proof (cases "bindE (NewSession (req_Session request)) (\<lambda>v.
     bindE (CanonicalCapabilities (ses_CapabilitySnapshot v)) (\<lambda>c. consume_tx request v c d))")
  case (Inl e)
  then show ?thesis using run by (simp add: ConsumeSessionStartPreview_def split: if_splits)
next
  case (Inr x)
  obtain sid d1 where x: "x = (sid, d1)" by (cases x)
  from Inr x obtain v c where tx: "consume_tx request v c d = Inr (sid, d1)" by (auto simp: bindE_Inr)
  from consume_tx_ok [OF tx] obtain p where
    p: "SessionStartPreview_read (req_PreviewID request) d = Inr p" by blast
  note cases = consume_tx_cases [OF tx p]
  have res: "d' = d \<or> d' = d1 \<and> res = Session_read sid d1"
    using run Inr x by (auto simp: ConsumeSessionStartPreview_def split: if_splits)
  show ?thesis
  proof (cases "prev_ConsumedAt p = None")
    case True
    let ?r = "reserved_session v c"
    have ok: "sessions_ok d (db_sessions d @ [?r])" "sid = ses_ID v" using cases(3) [OF True] by blast+
    then have "List.find (\<lambda>x. ses_ID x = ses_ID ?r) (db_sessions d @ [?r]) = Some ?r"
      by (intro find_key_unique) (simp_all add: sessions_ok_def)
    then have "Session_read sid d1 = Inr ?r"
      using cases(4) [OF True] by (simp add: Session_read_def read_row_ok ok(2) reserved_session_def)
    then show ?thesis using res p True cases(4) [OF True] by auto
  next
    case False
    then show ?thesis using res cases(2) by auto
  qed
qed

lemma preview_op_inv:
  assumes "preview_op d d'" "store_inv d"
  shows "store_inv d'"
  using assms(1)
proof cases
  case create_preview
  then have "core_frame d d'" unfolding CreateSessionStartPreview_def Let_def
    by (elim branches; simp only: sum.distinct sum.inject prod.inject; auto simp: core_frame_def)
  then show ?thesis using preview_op_db_ok assms store_inv_frame by (simp add: store_inv_def)
next
  case delete_previews
  then have "core_frame d d'"
    by (auto simp: DeleteExpiredSessionStartPreviews_def core_frame_def Let_def split: if_splits)
  then show ?thesis using preview_op_db_ok assms store_inv_frame by (simp add: store_inv_def)
next
  case (consume_preview request res)
  have ok: "db_ok d" "db_ok d'" using preview_op_db_ok assms by (auto simp: store_inv_def)
  from Consume_changes [OF consume_preview] show ?thesis
  proof (elim disjE exE conjE)
    fix s p
    assume s: "res = Inr s" and p: "SessionStartPreview_read (req_PreviewID request) d = Inr p"
      "prev_ConsumedAt p = None" and rev: "db_revocations d' = db_revocations d"
    show ?thesis using Consume_fresh [OF ok(1) consume_preview [unfolded s] p] rev
      by (intro store_inv_new_session [OF assms(2) ok(2)]) auto
  qed (simp add: assms(2))
qed

text \<open>A reservation is made only when no active Session uses the credential.\<close>

lemma reserve_inv:
  assumes run: "ReserveVaultCredentialRevocation i now d = Inr (u, d')" and inv: "store_inv d"
  shows "store_inv d'"
proof -
  have "d' = d \<or> d' = d\<lparr>db_revocations := db_revocations d @ [(i, now)]\<rparr> \<and>
      count_rows (\<lambda>r. ses_CredentialInstanceID r = i \<and> active_session r) (db_sessions d) = 0"
    using run by (auto simp: ReserveVaultCredentialRevocation_def bindE_Inr sql_insert_ok split: if_splits option.splits)
  then have "sessions_wf d' \<and> reservation_safe d'"
    using inv by (fastforce simp: store_inv_def sessions_wf_def reservation_safe_def list_all_iff count_rows_def
        filter_empty_conv)
  then show ?thesis using ReserveVaultCredentialRevocation_db_ok [OF run] inv by (simp add: store_inv_def)
qed

lemma finalize_frame: "FinalizeVaultCredentialRevocation i now d = Inr (c, d') \<Longrightarrow> core_frame d d'"
  by (drule Finalize_steps) (auto simp: core_frame_def clear_bindings_def clear_reservation_def delete_rows_def
      bindE_Inr)

lemma vault_op_inv:
  assumes "vault_op d d'" "store_inv d"
  shows "store_inv d'"
proof -
  have ok: "db_ok d'" using vault_op_db_ok assms by (simp add: store_inv_def)
  show ?thesis
    using assms(1)
  proof cases
    case initialize
    then have "core_frame d d'"
      by (auto simp: InitializeVault_def core_frame_def bindE_Inr sql_insert_ok split: if_splits list.splits)
    then show ?thesis using store_inv_frame ok assms(2) by blast
  next
    case seal_item
    then have "core_frame d d'" unfolding ReplaceVaultItemCAS_def by (rule replaceVaultItemCAS_frame)
    then show ?thesis using store_inv_frame ok assms(2) by blast
  next
    case reserve
    then show ?thesis using reserve_inv assms(2) by blast
  next
    case finalize
    then show ?thesis using finalize_frame store_inv_frame ok assms(2) by blast
  qed
qed

lemma framed_op_inv: "store_op d d' \<Longrightarrow> core_frame d d' \<Longrightarrow> store_inv d \<Longrightarrow> store_inv d'"
  using store_op_db_ok store_inv_frame by (simp add: store_inv_def)

lemma store_op_inv:
  assumes op: "store_op d d'" and inv: "store_inv d"
  shows "store_inv d'"
proof -
  note framed = framed_op_inv [OF op _ inv]
  have registry: "store_inv d'" if "registry_op d d'"
  proof -
    have "db_ok d'" using registry_op_db_ok [OF that] inv by (simp add: store_inv_def)
    moreover have "db_sessions d' = db_sessions d \<and> set (db_revocations d') \<subseteq> set (db_revocations d)"
      using registry_op_frame [OF that] by (auto simp: core_frame_def dest!: client_cas_rows)
    ultimately show ?thesis using inv
      by (auto simp: store_inv_def sessions_wf_def reservation_safe_def list_all_iff)
  qed
  show ?thesis using op
    by cases (blast intro: framed registry child_op_frame approval_op_frame enrollment_op_frame
        account_op_frame session_op_inv [OF _ inv] preview_op_inv [OF _ inv] vault_op_inv [OF _ inv])+
qed

lemma store_ops_inv: "store_op\<^sup>*\<^sup>* d d' \<Longrightarrow> store_inv d \<Longrightarrow> store_inv d'"
  by (induction rule: rtranclp_induct) (blast dest: store_op_inv)+

lemma store_inv_empty: "store_inv empty_db"
  using empty_db_ok by (simp add: store_inv_def sessions_wf_def reservation_safe_def) (simp add: empty_db_def)

section \<open>Revoked clients\<close>

lemma other_op_clients: "store_op d d' \<Longrightarrow> \<not> registry_op d d' \<Longrightarrow> db_clients d' = db_clients d"
proof (induction rule: store_op.induct)
  case (2 d d')
  then show ?case
  proof cases
    case create_session
    then show ?thesis by (auto dest!: CreateSession_row)
  next
    case transition_session
    then show ?thesis by (auto simp: TransitionSession_def bindE_Inr split: if_splits)
  next
    case set_provider_session
    then show ?thesis by (auto simp: SetSessionProviderSessionID_def bindE_Inr Let_def split: if_splits)
  qed
next
  case (6 d d')
  then show ?case
  proof cases
    case create_preview
    then show ?thesis by (auto simp: CreateSessionStartPreview_def bindE_Inr split: if_splits option.splits)
  next
    case (consume_preview request res)
    then show ?thesis
      by (auto simp: ConsumeSessionStartPreview_def bindE_Inr dest!: consume_tx_ok split: if_splits sum.splits)
  next
    case delete_previews
    then show ?thesis by (auto simp: DeleteExpiredSessionStartPreviews_def Let_def split: if_splits)
  qed
next
  case (8 d d')
  then show ?case
  proof cases
    case initialize
    then show ?thesis by (auto simp: InitializeVault_def bindE_Inr split: if_splits list.splits)
  next
    case seal_item
    then show ?thesis using replaceVaultItemCAS_frame by (auto simp: ReplaceVaultItemCAS_def core_frame_def)
  next
    case reserve
    then show ?thesis by (auto simp: ReserveVaultCredentialRevocation_def bindE_Inr split: if_splits option.splits)
  next
    case finalize
    then show ?thesis using finalize_frame by (auto simp: core_frame_def)
  qed
qed (use child_op_frame approval_op_frame enrollment_op_frame account_op_frame in \<open>auto simp: core_frame_def\<close>)

section \<open>Idempotency records\<close>

lemma store_op_records: "store_op d d' \<Longrightarrow> prefix (db_idempotency d) (db_idempotency d')"
proof (induction rule: store_op.induct)
  case (1 d d')
  then show ?case using registry_op_frame by (fastforce simp: core_frame_def dest!: client_cas_rows)
next
  case (2 d d')
  then show ?case
  proof cases
    case create_session
    then show ?thesis by (auto dest!: CreateSession_row)
  next
    case transition_session
    then show ?thesis by (auto simp: TransitionSession_def bindE_Inr split: if_splits)
  next
    case set_provider_session
    then show ?thesis by (auto simp: SetSessionProviderSessionID_def bindE_Inr Let_def split: if_splits)
  qed
next
  case (6 d d')
  then show ?case
  proof cases
    case create_preview
    then show ?thesis by (auto simp: CreateSessionStartPreview_def bindE_Inr split: if_splits option.splits)
  next
    case (consume_preview request res)
    then show ?thesis
      by (auto simp: ConsumeSessionStartPreview_def bindE_Inr dest!: consume_tx_ok split: if_splits sum.splits)
  next
    case delete_previews
    then show ?thesis by (auto simp: DeleteExpiredSessionStartPreviews_def Let_def split: if_splits)
  qed
next
  case (8 d d')
  then show ?case
  proof cases
    case initialize
    then show ?thesis by (auto simp: InitializeVault_def bindE_Inr split: if_splits list.splits)
  next
    case seal_item
    then show ?thesis using replaceVaultItemCAS_frame by (auto simp: ReplaceVaultItemCAS_def core_frame_def)
  next
    case reserve
    then show ?thesis by (auto simp: ReserveVaultCredentialRevocation_def bindE_Inr split: if_splits option.splits)
  next
    case finalize
    then show ?thesis using finalize_frame by (auto simp: core_frame_def)
  qed
qed (use child_op_frame approval_op_frame enrollment_op_frame account_op_frame in \<open>auto simp: core_frame_def\<close>)

lemma find_append_Some: "List.find q xs = Some x \<Longrightarrow> List.find q (xs @ ys) = Some x"
  by (induction xs) auto

text \<open>The answer to a request, once recorded, is what every later lookup finds.\<close>

lemma record_stays:
  assumes "store_op\<^sup>*\<^sup>* d d'" "IdempotencyRecord_read c m k d = Inr record"
  shows "IdempotencyRecord_read c m k d' = Inr record"
proof -
  have "prefix (db_idempotency d) (db_idempotency d')"
    using assms(1) by (induction rule: rtranclp_induct) (auto dest: store_op_records intro: prefix_order.trans)
  then obtain rows where "db_idempotency d' = db_idempotency d @ rows" by (auto simp: prefix_def)
  then show ?thesis using assms(2)
    by (auto simp: IdempotencyRecord_read_def bindE_Inr read_row_ok find_append_Some)
qed

lemma revoked_client_kept:
  assumes op: "store_op d d'" and ok: "db_ok d" and read: "ClientIdentity_read k d = Inr c"
    and revoked: "cli_Status c = ClientIdentityRevoked"
  shows "ClientIdentity_read k d' = Inr c"
proof (cases "db_clients d' = db_clients d")
  case True
  then show ?thesis using read by (simp add: ClientIdentity_read_def)
next
  case False
  then have "registry_op d d'" "\<not> core_frame d d'" using other_op_clients [OF op] by (auto simp: core_frame_def)
  then consider row where "d' = d\<lparr>db_clients := db_clients d @ [row]\<rparr>" | i n change where
    "client_cas i n change d = Some d'" using registry_op_frame by blast
  then show ?thesis
  proof cases
    case 1
    then show ?thesis using read find_key_append [of cli_ID k "db_clients d" row]
      by (simp add: ClientIdentity_read_def read_row_ok)
  next
    case 2
    from client_change_spec [OF ok this] obtain f where
      "\<forall>r. cli_ID (f r) = cli_ID r" and d': "d' = d\<lparr>db_clients := update_rows (\<lambda>r. cli_ID r = i \<and>
         cli_Status r = ClientIdentityActive \<and> cli_Revision r = n) f (db_clients d)\<rparr>" by blast
    then show ?thesis using read revoked by (simp add: d' client_read_update)
  qed
qed

lemma revoked_client_stays:
  assumes "store_op\<^sup>*\<^sup>* d d'" "db_ok d" "ClientIdentity_read k d = Inr c" "cli_Status c = ClientIdentityRevoked"
  shows "ClientIdentity_read k d' = Inr c"
  using assms(1)
proof (induction rule: rtranclp_induct)
  case (step d1 d2)
  then show ?case using revoked_client_kept [OF step(2) store_ops_db_ok [OF step(1) assms(2)]] assms(4) by blast
qed (rule assms(3))

end
