(* ===== verification/VaultLaws.thy ===== *)
theory VaultLaws
  imports EnrollmentLaws
begin

text \<open>
  What sealing and revoking a credential do to the store: a seal is a compare-and-swap on the
  credential's revision that replaces its vault item along with it, and a finalized revocation leaves
  neither secret, binding nor reservation behind.
\<close>

section \<open>Sealing\<close>

text \<open>The revision column holds a 64-bit integer.\<close>

definition revisions_in_range :: "db \<Rightarrow> bool" where
  "revisions_in_range d = list_all (\<lambda>c. cred_CredentialRevision c < 2 ^ 63) (db_credentials d)"

definition sealed_credential :: "VaultItem \<Rightarrow> CredentialStatus \<Rightarrow> CredentialInstance \<Rightarrow> CredentialInstance" where
  "sealed_credential item st r =
     r\<lparr>cred_CredentialRevision := vi_CredentialRevision item, cred_SecretDigest := vi_SecretDigest item,
       cred_Status := st, cred_UpdatedAt := vi_UpdatedAt item\<rparr>"

lemma credential_read_update:
  assumes "\<And>r. cred_ID (f r) = cred_ID r" "db_credentials d' = update_rows p f (db_credentials d)"
  shows "CredentialInstance_read k d' =
    (case CredentialInstance_read k d of Inl e \<Rightarrow> Inl e | Inr r \<Rightarrow> Inr (if p r then f r else r))"
  using find_update_rows [of cred_ID f k p "db_credentials d", OF assms(1)] assms(2)
  by (simp add: CredentialInstance_read_def read_row_def split: option.split)

lemma credential_read_key: "CredentialInstance_read k d = Inr r \<Longrightarrow> cred_ID r = k \<and> r \<in> set (db_credentials d)"
  unfolding CredentialInstance_read_def by (drule read_row_key) simp

lemma sealable_ok:
  assumes "sealable n item d = Inr ()"
  shows "\<exists>c. CredentialInstance_read (vi_CredentialInstanceID item) d = Inr c \<and> cred_CredentialRevision c = n \<and>
     cred_AccountID c = vi_AccountID item \<and> cred_DeviceID c = vi_DeviceID item \<and> cred_Provider c = ProviderCodex \<and>
     vi_CredentialRevision item = i64 (n + 1) \<and> cred_Status c \<notin> {CredentialRevoked, CredentialExpired} \<and>
     count_rows (\<lambda>r. fst r = vi_CredentialInstanceID item) (db_revocations d) = 0"
  using assms by (auto simp: sealable_def CredentialInstance_read_def read_row_ok split: option.splits if_splits)

lemma upsert_item_find:
  "List.find (\<lambda>r. vi_CredentialInstanceID r = vi_CredentialInstanceID item) (upsert_item item rows) \<noteq> None"
proof (cases "\<exists>r \<in> set rows. vi_CredentialInstanceID r = vi_CredentialInstanceID item")
  case True
  then show ?thesis by (auto simp: upsert_item_def list_ex_iff find_None_iff update_rows_def)
next
  case False
  then show ?thesis by (auto simp: upsert_item_def list_ex_iff find_None_iff)
qed

text \<open>The stored item after a seal, in the columns the seal writes.\<close>

definition item_secret :: "VaultItem \<Rightarrow> int \<times> nat list \<times> nat list \<times> nat list \<times> nat list \<times> string \<times> string" where
  "item_secret v = (vi_CredentialRevision v, vi_PayloadNonce v, vi_PayloadCiphertext v, vi_WrapNonce v,
     vi_WrappedDEK v, vi_AADDigest v, vi_SecretDigest v)"

lemma upsert_item_secret:
  assumes "r \<in> set (upsert_item item rows)" "vi_CredentialInstanceID r = vi_CredentialInstanceID item"
  shows "item_secret r = item_secret item"
  using assms by (auto simp: upsert_item_def list_ex_iff item_secret_def update_rows_def split: if_splits)

lemma replaceVaultItemCAS_credentials:
  assumes "replaceVaultItemCAS n item st e c dg d = Inr (u, d')"
  shows "db_credentials d' = update_rows (\<lambda>r. cred_ID r = vi_CredentialInstanceID item \<and> cred_CredentialRevision r = n)
      (sealed_credential item st) (db_credentials d) \<and>
    db_vault_items d' = upsert_item item (db_vault_items d)"
proof -
  have commit: "db_credentials d3 = db_credentials d2 \<and> db_vault_items d3 = db_vault_items d2"
    if "commit_enrollment e c dg item d2 = Inr d3" for d2 d3
    using that by (auto simp: commit_enrollment_def bindE_Inr Let_def split: if_splits option.splits)
  let ?d2 = "d\<lparr>db_vault_items := upsert_item item (db_vault_items d),
      db_credentials := update_rows (\<lambda>r. cred_ID r = vi_CredentialInstanceID item \<and> cred_CredentialRevision r = n)
        (sealed_credential item st) (db_credentials d)\<rparr>"
  have fin: "if e \<noteq> '''' then commit_enrollment e c dg item ?d2 = Inr d' else d' = ?d2"
    using replaceVaultItemCAS_steps [OF assms] unfolding sealed_credential_def [abs_def] by auto
  show ?thesis
  proof (cases "e = ''''")
    case True
    then show ?thesis using fin by simp
  next
    case False
    then show ?thesis using fin commit [of ?d2 d'] by simp
  qed
qed

lemma seal_next_revision:
  assumes "validVaultItem item" "vi_CredentialRevision item = i64 (n + 1)" "0 \<le> n" "n < 2 ^ 63"
  shows "vi_CredentialRevision item = n + 1"
proof (cases "n = 2 ^ 63 - 1")
  case True
  then have "vi_CredentialRevision item < 1" using assms(2) by (simp add: i64_def)
  then show ?thesis using assms(1) by (simp add: validVaultItem_def)
next
  case False
  then show ?thesis using assms i64_succ [of n] by simp
qed

lemma seal_effect:
  assumes run: "replaceVaultItemCAS n item st e c dg d = Inr (u, d')" and ok: "db_ok d" and rng: "revisions_in_range d"
  shows "\<exists>cr v. CredentialInstance_read (vi_CredentialInstanceID item) d = Inr cr \<and> cred_CredentialRevision cr = n \<and>
     vi_CredentialRevision item = n + 1 \<and> cred_Status cr \<notin> {CredentialRevoked, CredentialExpired} \<and>
     count_rows (\<lambda>r. fst r = vi_CredentialInstanceID item) (db_revocations d) = 0 \<and>
     (\<forall>j. CredentialInstance_read j d' =
        (if j = vi_CredentialInstanceID item then Inr (sealed_credential item st cr) else CredentialInstance_read j d)) \<and>
     List.find (\<lambda>r. vi_CredentialInstanceID r = vi_CredentialInstanceID item) (db_vault_items d') = Some v \<and>
     item_secret v = item_secret item"
proof -
  let ?k = "vi_CredentialInstanceID item"
  have valid: "validVaultItem item" using run by (simp add: replaceVaultItemCAS_def split: if_splits)
  from replaceVaultItemCAS_steps [OF run] sealable_ok obtain cr where
    cr: "CredentialInstance_read ?k d = Inr cr" "cred_CredentialRevision cr = n"
    "vi_CredentialRevision item = i64 (n + 1)" "cred_Status cr \<notin> {CredentialRevoked, CredentialExpired}"
    "count_rows (\<lambda>r. fst r = ?k) (db_revocations d) = 0" by blast
  note key = credential_read_key [OF cr(1)]
  have "0 \<le> n" using ok key cr(2) by (auto simp: db_ok_def credentials_ok_def list_all_iff)
  moreover have "n < 2 ^ 63" using rng key cr(2) by (auto simp: revisions_in_range_def list_all_iff)
  ultimately have rev: "vi_CredentialRevision item = n + 1" using seal_next_revision [OF valid cr(3)] by blast
  note rows = replaceVaultItemCAS_credentials [OF run]
  have "cred_ID (sealed_credential item st r) = cred_ID r" for r by (simp add: sealed_credential_def)
  note upd = credential_read_update [OF this conjunct1 [OF rows]]
  have reads: "CredentialInstance_read j d' =
        (if j = ?k then Inr (sealed_credential item st cr) else CredentialInstance_read j d)" for j
    using upd [of j] cr(1,2) key credential_read_key [of j d] by (auto split: sum.splits)
  obtain v where v: "List.find (\<lambda>r. vi_CredentialInstanceID r = ?k) (db_vault_items d') = Some v"
    using upsert_item_find rows by (metis option.exhaust)
  then have "item_secret v = item_secret item"
    using upsert_item_secret find_key_Some [OF v] rows by metis
  then show ?thesis using cr rev reads v by blast
qed

text \<open>A seal is a versioned update of the credential.\<close>

definition credential_version :: "ID \<Rightarrow> db \<Rightarrow> int" where
  "credential_version k d = (case CredentialInstance_read k d of Inl e \<Rightarrow> -1 | Inr c \<Rightarrow> cred_CredentialRevision c)"

definition seal_cas :: "ID \<Rightarrow> int \<Rightarrow> VaultItem \<times> CredentialStatus \<Rightarrow> db \<Rightarrow> db option" where
  "seal_cas k n u d =
     (if vi_CredentialInstanceID (fst u) = k
      then case ReplaceVaultItemCAS n (fst u) (snd u) d of Inl e \<Rightarrow> None | Inr (x, d') \<Rightarrow> Some d'
      else None)"

interpretation credential_versions: versioned seal_cas credential_version "\<lambda>d. db_ok d \<and> revisions_in_range d"
proof
  fix d k n u d'
  assume inv: "db_ok d \<and> revisions_in_range d" and step: "seal_cas k n u d = Some d'"
  obtain item st where u: "u = (item, st)" by (cases u)
  have k: "vi_CredentialInstanceID item = k" and run: "replaceVaultItemCAS n item st '''' '''' '''' d = Inr ((), d')"
    using step by (auto simp: seal_cas_def u ReplaceVaultItemCAS_def split: if_splits sum.splits)
  from seal_effect [OF run] inv obtain cr where
    cr: "CredentialInstance_read k d = Inr cr" "cred_CredentialRevision cr = n" "vi_CredentialRevision item = n + 1"
    and reads: "\<And>j. CredentialInstance_read j d' =
        (if j = k then Inr (sealed_credential item st cr) else CredentialInstance_read j d)"
    unfolding k by blast
  have lt: "vi_CredentialRevision item < 2 ^ 63"
    using replaceVaultItemCAS_steps [OF run] sealable_ok i64_range by metis
  have "revisions_in_range d'"
    using inv lt
    unfolding revisions_in_range_def conjunct1 [OF replaceVaultItemCAS_credentials [OF run]] list_all_update_rows
    by (auto simp: sealed_credential_def list_all_iff)
  then show "db_ok d' \<and> revisions_in_range d'" using replaceVaultItemCAS_db_ok [OF run] inv by blast
  show "credential_version k d = n" using cr by (simp add: credential_version_def)
  show "credential_version k d' = n + 1" using cr reads by (simp add: credential_version_def sealed_credential_def)
  fix j assume "j \<noteq> k"
  then show "credential_version j d' = credential_version j d" using reads by (simp add: credential_version_def)
qed

section \<open>Revoking\<close>

lemma update_rows_none: "(\<And>r. r \<in> set rows \<Longrightarrow> \<not> p r) \<Longrightarrow> update_rows p f rows = rows"
  by (auto simp: update_rows_def intro: map_idI)

lemma delete_rows_none: "(\<And>r. r \<in> set rows \<Longrightarrow> \<not> p r) \<Longrightarrow> delete_rows p rows = rows"
  by (auto simp: delete_rows_def filter_id_conv)

definition unbound :: "ID \<Rightarrow> db \<Rightarrow> bool" where
  "unbound c d \<longleftrightarrow> list_all (\<lambda>r. fst r \<noteq> c) (db_revocations d) \<and>
     list_all (\<lambda>r. prof_CredentialInstanceID r = c \<longrightarrow> prof_Internal r) (db_profiles d)"

lemma clear_bindings_unbound:
  assumes "clear_bindings m c now d = Inr d1" "c \<noteq> ''''"
  shows "unbound c (clear_reservation c d1)"
  using assms by (auto simp: unbound_def clear_bindings_def clear_reservation_def delete_rows_def bindE_Inr
      sql_update_ok list_all_iff update_rows_def)

lemma clear_bindings_same:
  assumes "unbound c d" "db_ok d"
  shows "clear_bindings m c now d = Inr d \<and> clear_reservation c d = d"
proof -
  have "update_rows (\<lambda>r. prof_CredentialInstanceID r = c \<and> \<not> prof_Internal r) f (db_profiles d) = db_profiles d" for f
    using assms(1) by (intro update_rows_none) (auto simp: unbound_def list_all_iff)
  moreover have "delete_rows (\<lambda>r. fst r = c) (db_revocations d) = db_revocations d"
    using assms(1) by (intro delete_rows_none) (auto simp: unbound_def list_all_iff)
  moreover have "profiles_ok d (db_profiles d)" using assms(2) by (simp add: db_ok_def)
  ultimately show ?thesis by (simp add: clear_bindings_def sql_update_def clear_reservation_def)
qed

lemma Finalize_effect:
  assumes run: "FinalizeVaultCredentialRevocation c now d = Inr (cr, d')" and ok: "db_ok d"
  shows "cred_Status cr = CredentialRevoked \<and> cred_Provider cr = ProviderCodex \<and> CredentialInstance_read c d' = Inr cr \<and>
    unbound c d' \<and> valid_id c \<and> now \<noteq> 0 \<and>
    (\<forall>old. CredentialInstance_read c d = Inr old \<and> cred_Status old \<noteq> CredentialRevoked \<longrightarrow>
       list_all (\<lambda>v. vi_CredentialInstanceID v \<noteq> c) (db_vault_items d') \<and>
       cred_SecretDigest cr = replicate 64 CHR ''0'' \<and>
       list_all (\<lambda>s. ses_CredentialInstanceID s = c \<longrightarrow> \<not> active_session s) (db_sessions d'))"
proof -
  have valid: "valid_id c" "now \<noteq> 0" and read: "CredentialInstance_read c d' = Inr cr"
    using run by (auto simp: FinalizeVaultCredentialRevocation_def bindE_Inr split: if_splits)
  then have ne: "c \<noteq> ''''" using valid_id_nonempty by blast
  from run obtain old where old: "CredentialInstance_read c d = Inr old" "cred_Provider old = ProviderCodex"
    by (auto simp: FinalizeVaultCredentialRevocation_def CredentialInstance_read_def read_row_ok bindE_Inr
        split: if_splits option.splits)
  have find: "List.find (\<lambda>r. cred_ID r = c) (db_credentials d) = Some old"
    using old(1) by (simp add: CredentialInstance_read_def read_row_ok)
  have creds: "db_credentials d2 = db_credentials d1 \<and> db_vault_items d2 = db_vault_items d1 \<and>
      db_sessions d2 = db_sessions d1" if "clear_bindings m c now d1 = Inr d2" for m d1 d2
    using that by (auto simp: clear_bindings_def bindE_Inr)
  show ?thesis
  proof (cases "cred_Status old = CredentialRevoked")
    case True
    then obtain m d1 where d1: "clear_bindings m c now d = Inr d1" "d' = clear_reservation c d1"
      using run find old(2) by (auto simp: FinalizeVaultCredentialRevocation_def bindE_Inr split: if_splits)
    then have "CredentialInstance_read c d' = CredentialInstance_read c d"
      using creds by (simp add: CredentialInstance_read_def clear_reservation_def)
    then show ?thesis using True old read valid clear_bindings_unbound [OF d1(1) ne] d1(2) by simp
  next
    case False
    let ?d1 = "d\<lparr>db_vault_items := delete_rows (\<lambda>r. vi_CredentialInstanceID r = c) (db_vault_items d)\<rparr>"
    let ?f = "\<lambda>r. r\<lparr>cred_Status := CredentialRevoked, cred_SecretDigest := replicate 64 CHR ''0'', cred_UpdatedAt := now\<rparr>"
    from run find old(2) False obtain m d2 where
      d2: "clear_bindings m c now ?d1 = Inr d2" and
      none: "count_rows (\<lambda>r. ses_CredentialInstanceID r = c \<and> active_session r) (db_sessions d) = 0" and
      d': "d' = clear_reservation c (d2\<lparr>db_credentials := update_rows (\<lambda>r. cred_ID r = c) ?f (db_credentials d2)\<rparr>)"
      unfolding FinalizeVaultCredentialRevocation_def Let_def
      by (auto simp: bindE_Inr sql_update_ok split: if_splits)
    have rows: "db_credentials d' = update_rows (\<lambda>r. cred_ID r = c) ?f (db_credentials d)"
      using creds [OF d2] by (simp add: d' clear_reservation_def)
    have "CredentialInstance_read c d' = Inr (?f old)"
      using credential_read_update [OF _ rows, of c] old(1) credential_read_key [OF old(1)] by simp
    then have "cr = ?f old" using read by simp
    moreover have "unbound c d'" using clear_bindings_unbound [OF d2 ne] by (simp add: d' unbound_def clear_reservation_def)
    moreover have "list_all (\<lambda>v. vi_CredentialInstanceID v \<noteq> c) (db_vault_items d')"
      using creds [OF d2] by (simp add: d' clear_reservation_def delete_rows_def list_all_iff)
    moreover have "list_all (\<lambda>s. ses_CredentialInstanceID s = c \<longrightarrow> \<not> active_session s) (db_sessions d')"
      using creds [OF d2] none by (auto simp: d' clear_reservation_def list_all_iff count_rows_def filter_empty_conv)
    ultimately show ?thesis using old(2) read valid by simp
  qed
qed

lemma Finalize_again:
  assumes run: "FinalizeVaultCredentialRevocation c now d = Inr (cr, d')" and ok: "db_ok d" and now: "now2 \<noteq> 0"
  shows "FinalizeVaultCredentialRevocation c now2 d' = Inr (cr, d')"
proof -
  note eff = Finalize_effect [OF run ok]
  have ok': "db_ok d'" using FinalizeVaultCredentialRevocation_db_ok [OF run ok] .
  have same: "clear_bindings m c now2 d' = Inr d'" "clear_reservation c d' = d'" for m
    using clear_bindings_same [OF _ ok'] eff by blast+
  have "List.find (\<lambda>r. cred_ID r = c) (db_credentials d') = Some cr"
    using eff by (simp add: CredentialInstance_read_def read_row_ok)
  then show ?thesis using eff now same by (simp add: FinalizeVaultCredentialRevocation_def)
qed

end
