(* ===== verification/StorePaging.thy ===== *)
theory StorePaging
  imports StoreAccounts
begin

text \<open>
  Walking the pages of \<open>ListAccountPage\<close> and \<open>ListProfiles\<close>: the cursor names the creation time
  and the identifier of the last row shown, the next page starts behind it. On a table that does not
  change between the requests the walk shows every matching row once, in order.
\<close>

section \<open>The order of stored timestamps is total\<close>

lemma digits_fixed_inj: "m < 10 ^ w \<Longrightarrow> n < 10 ^ w \<Longrightarrow> digits_fixed w m = digits_fixed w n \<Longrightarrow> m = n"
proof (induction w arbitrary: m n)
  case (Suc w)
  have lt: "m div 10 < 10 ^ w" "n div 10 < 10 ^ w" using Suc.prems(1,2) by (simp_all add: less_mult_imp_div_less mult.commute)
  have nth: "i = j" if "''0123456789'' ! i = ''0123456789'' ! j" "i < 10" "j < 10" for i j :: nat
    using nth_eq_iff_index_eq [of "''0123456789''" i j] that by simp
  have "digits_fixed w (m div 10) = digits_fixed w (n div 10)" "m mod 10 = n mod 10"
    using Suc.prems(3) nth [of "m mod 10" "n mod 10"] by simp_all
  then have "m div 10 = n div 10" using Suc.IH lt by blast
  then show ?case using \<open>m mod 10 = n mod 10\<close> by (metis div_mult_mod_eq)
qed simp

lemma length_digits_fixed [simp]: "length (digits_fixed w n) = w"
  by (induction w arbitrary: n) simp_all

lemma strip_zeros:
  "rev (dropWhile (\<lambda>c. c = z) (rev xs)) @ replicate (length xs - length (dropWhile (\<lambda>c. c = z) (rev xs))) z = xs"
proof -
  have "takeWhile (\<lambda>c. c = z) ys = replicate (length ys - length (dropWhile (\<lambda>c. c = z) ys)) z" for ys
    by (induction ys) (auto simp: Suc_diff_le length_dropWhile_le)
  then have "rev xs = replicate (length xs - length (dropWhile (\<lambda>c. c = z) (rev xs))) z @ dropWhile (\<lambda>c. c = z) (rev xs)"
    by (metis takeWhile_dropWhile_id length_rev)
  then show ?thesis by (metis rev_append rev_replicate rev_rev_ident)
qed

lemma frac_text_inj:
  assumes "frac_text m = frac_text n" "m < 10 ^ 9" "n < 10 ^ 9"
  shows "m = n"
proof -
  define s where "s k = rev (dropWhile (\<lambda>c. c = CHR ''0'') (rev (digits_fixed 9 k)))" for k
  have pad: "s k @ replicate (9 - length (s k)) CHR ''0'' = digits_fixed 9 k" for k
    using strip_zeros [of "CHR ''0''" "digits_fixed 9 k"] by (simp add: s_def del: digits_fixed_numeral)
  have "frac_text k = (if s k = [] then ''Z'' else CHR ''.'' # s k @ ''Z'')" for k
    by (simp only: frac_text_def Let_def s_def)
  then have "s m = s n" using assms(1) by (simp split: if_splits)
  then have "digits_fixed 9 m = digits_fixed 9 n" using pad [of m] pad [of n] by argo
  then show ?thesis using digits_fixed_inj assms(2,3) by blast
qed

lemma text_before_total: "text_before a b \<or> a = b \<or> text_before b a"
proof (cases "text_before a b \<or> text_before b a")
  case False
  then have s: "a div second = b div second" and
    f: "frac_text (nat (a mod second)) = frac_text (nat (b mod second))"
    by (auto simp: text_before_def Let_def)
  have "nat (a mod second) < 10 ^ 9" "nat (b mod second) < 10 ^ 9"
    using pos_mod_bound [of second a] pos_mod_bound [of second b] by (simp_all add: second_def nat_less_iff)
  then have "nat (a mod second) = nat (b mod second)" using frac_text_inj [OF f] by blast
  then have "a mod second = b mod second" by (simp add: second_def eq_nat_nat_iff)
  then show ?thesis using s by (metis div_mult_mod_eq)
qed blast

lemma page_before_total: "page_before a b \<or> a = b \<or> page_before b a"
  using text_before_total [of "fst a" "fst b"] by (auto simp: page_before_def prod_eq_iff)

lemma page_before_trans: "page_before a b \<Longrightarrow> page_before b c \<Longrightarrow> page_before a c"
  by (auto simp: page_before_def dest: text_before_trans)

lemma page_before_irrefl: "\<not> page_before a a"
  by (simp add: page_before_def)

section \<open>Sorted rows\<close>

lemma insert_row_sorted:
  assumes "sorted_wrt (\<lambda>x y. page_before (key x) (key y)) ys" "key x \<notin> key ` set ys"
  shows "sorted_wrt (\<lambda>x y. page_before (key x) (key y)) (insert_row (\<lambda>x y. page_before (key x) (key y)) x ys)"
  using assms
proof (induction ys)
  case (Cons y ys)
  show ?case
  proof (cases "page_before (key y) (key x)")
    case True
    then show ?thesis using Cons page_before_trans page_before_irrefl by (auto simp: set_insert_row)
  next
    case False
    then have "page_before (key x) (key y)" using page_before_total [of "key x" "key y"] Cons.prems(2) by auto
    then show ?thesis using False Cons.prems page_before_trans by auto
  qed
qed simp

lemma order_by_sorted:
  assumes "distinct (map key rows)"
  shows "sorted_wrt (\<lambda>x y. page_before (key x) (key y)) (order_by (\<lambda>x y. page_before (key x) (key y)) rows)"
  using assms
proof (induction rows)
  case (Cons r rows)
  then show ?case using insert_row_sorted [of key "order_by (\<lambda>x y. page_before (key x) (key y)) rows" r]
    by (simp add: order_by_def) (simp add: order_by_def [symmetric])
qed (simp add: order_by_def)

lemma sorted_unique:
  assumes "sorted_wrt (\<lambda>x y. page_before (key x) (key y)) xs" "sorted_wrt (\<lambda>x y. page_before (key x) (key y)) ys"
    "set xs = set ys"
  shows "xs = ys"
  using assms
proof (induction xs arbitrary: ys)
  case (Cons x xs)
  then obtain y ys' where ys: "ys = y # ys'" by (cases ys) auto
  have "x = y"
  proof (rule ccontr)
    assume "x \<noteq> y"
    then have "x \<in> set ys'" "y \<in> set xs" using Cons.prems(3) ys by auto
    then have "page_before (key y) (key x)" "page_before (key x) (key y)" using Cons.prems(1,2) ys by auto
    then show False using page_before_trans page_before_irrefl by blast
  qed
  moreover have "x \<notin> set xs" "y \<notin> set ys'"
    using Cons.prems(1,2) page_before_irrefl unfolding ys sorted_wrt.simps by blast+
  ultimately have "set xs = set ys'" using Cons.prems(3) ys by auto
  then show ?case using Cons ys \<open>x = y\<close> by simp
qed simp

lemma sorted_wrt_irrefl_distinct: "sorted_wrt R xs \<Longrightarrow> (\<And>x. \<not> R x x) \<Longrightarrow> distinct xs"
  by (induction xs) auto

text \<open>The rows behind the cursor of the row at position \<open>i\<close> are the rows from position \<open>i + 1\<close> on.\<close>

lemma rows_behind:
  assumes "distinct (map key rows)" "i < length rows"
  shows "order_by (\<lambda>x y. page_before (key x) (key y))
      (filter (\<lambda>r. page_before (key (order_by (\<lambda>x y. page_before (key x) (key y)) rows ! i)) (key r)) rows) =
    drop (Suc i) (order_by (\<lambda>x y. page_before (key x) (key y)) rows)"
proof -
  let ?b = "\<lambda>x y. page_before (key x) (key y)"
  let ?S = "order_by ?b rows"
  let ?q = "\<lambda>r. page_before (key (?S ! i)) (key r)"
  have S: "sorted_wrt ?b ?S" by (rule order_by_sorted [OF assms(1)])
  have "inj_on key (set rows)" using assms(1) by (simp add: distinct_map)
  then have "distinct (map key (filter ?q rows))" using assms(1) by (simp add: distinct_map_filter)
  then have L: "sorted_wrt ?b (order_by ?b (filter ?q rows))" by (rule order_by_sorted)
  have i: "i < length ?S" using assms(2) by simp
  have "set (filter ?q rows) = set (drop (Suc i) ?S)"
  proof (rule set_eqI)
    fix r
    show "r \<in> set (filter ?q rows) \<longleftrightarrow> r \<in> set (drop (Suc i) ?S)"
    proof
      assume "r \<in> set (filter ?q rows)"
      then have r: "r \<in> set ?S" "?q r" by auto
      then obtain j where j: "j < length ?S" "?S ! j = r" unfolding in_set_conv_nth by blast
      have "i < j"
      proof (rule ccontr)
        assume "\<not> i < j"
        then have "j = i \<or> ?b r (?S ! i)" using sorted_wrt_nth_less [OF S, of j i] i j by (cases "j = i") auto
        then show False using r(2) j page_before_trans page_before_irrefl by blast
      qed
      then show "r \<in> set (drop (Suc i) ?S)" using j by (auto simp: in_set_conv_nth intro!: exI [of _ "j - Suc i"])
    next
      assume "r \<in> set (drop (Suc i) ?S)"
      then obtain j where j: "j < length ?S - Suc i" "r = ?S ! (Suc i + j)" by (auto simp: in_set_conv_nth)
      then have "?q r" using sorted_wrt_nth_less [OF S, of i "Suc i + j"] by simp
      moreover have "r \<in> set rows" using j nth_mem [of "Suc i + j" ?S] by simp
      ultimately show "r \<in> set (filter ?q rows)" by simp
    qed
  qed
  then show ?thesis using sorted_unique [OF L sorted_wrt_drop [OF S]] by simp
qed

section \<open>Walking the pages\<close>

text \<open>One page behind a position of the ordered rows, and the position the next page starts from.\<close>

lemma page_rows_at:
  assumes "distinct (map key rows)" "1 \<le> limit" "i \<le> length rows"
    "c = (if i = 0 then None else Some (key (order_by (\<lambda>x y. page_before (key x) (key y)) rows ! (i - 1))))"
  shows "page_rows key c limit rows = take (nat (limit + 1)) (drop i (order_by (\<lambda>x y. page_before (key x) (key y)) rows))"
proof (cases i)
  case 0
  then show ?thesis using assms(4) by (simp add: page_rows_def)
next
  case (Suc j)
  then show ?thesis using assms rows_behind [of key rows j] by (simp add: page_rows_def)
qed

lemma page_cut_at:
  assumes "1 \<le> limit"
  shows "page_cut key f limit (take (nat (limit + 1)) xs) =
    (if int (length xs) > limit
     then (take (nat limit) xs, encodePageCursor (fst (key (xs ! (nat limit - 1)))) (snd (key (xs ! (nat limit - 1)))) f)
     else (xs, NoToken))"
proof (cases "int (length xs) > limit")
  case True
  then have "nat (limit + 1) \<le> length xs" by (simp add: nat_le_iff)
  then have len: "min (length xs) (nat (limit + 1)) = nat (limit + 1)" "nat limit < length xs"
    using assms by (simp_all add: nat_less_iff)
  have "take (nat limit) xs \<noteq> []" using assms len by auto
  then have "last (take (nat limit) xs) = xs ! (nat limit - 1)"
    using len assms by (simp add: last_conv_nth min_def)
  moreover have "take (nat limit) (take (nat (limit + 1)) xs) = take (nat limit) xs"
    using assms by (simp add: min_def)
  ultimately show ?thesis using len assms True by (simp add: page_cut_def Let_def)
next
  case False
  then show ?thesis using assms by (simp add: page_cut_def min_def)
qed

text \<open>The client's loop: ask for a page, follow its cursor until there is none.\<close>

fun account_walk :: "(string \<Rightarrow> string) \<Rightarrow> nat \<Rightarrow> AccountListOptions \<Rightarrow> db \<Rightarrow> Account list option" where
  "account_walk sha256 0 options d = None"
| "account_walk sha256 (Suc fuel) options d =
     (case ListAccountPage sha256 options d of
        Inl e \<Rightarrow> None
      | Inr page \<Rightarrow>
          (case ap_NextCursor page of
             NoToken \<Rightarrow> Some (ap_Items page)
           | token \<Rightarrow> map_option (\<lambda>rest. ap_Items page @ rest)
                        (account_walk sha256 fuel (options\<lparr>alo_Cursor := token\<rparr>) d)))"

definition account_key :: "Account \<Rightarrow> time \<times> ID" where
  "account_key r = (acc_CreatedAt r, acc_ID r)"

definition listed_accounts :: "AccountListOptions \<Rightarrow> db \<Rightarrow> Account list" where
  "listed_accounts options d =
     filter (\<lambda>r. \<not> acc_Internal r \<and> (alo_Provider options = '''' \<or> acc_Provider r = alo_Provider options))
       (db_accounts d)"

lemma listed_keys: "db_ok d \<Longrightarrow> distinct (map account_key (listed_accounts options d))"
proof -
  assume "db_ok d"
  then have "distinct (map acc_ID (listed_accounts options d))"
    using db_ok_tables(2) [of d] by (simp add: listed_accounts_def distinct_map_filter)
  then show ?thesis by (auto simp: distinct_map inj_on_def account_key_def)
qed

lemma account_page_at:
  assumes ok: "db_ok d" and ids: "list_all (\<lambda>r. valid_id (acc_ID r)) (db_accounts d)"
    and limit: "pageLimit (alo_Limit options) = Inr limit"
    and provider: "alo_Provider options = '''' \<or> PublicProvider (alo_Provider options)"
    and S: "S = order_by (\<lambda>x y. page_before (account_key x) (account_key y)) (listed_accounts options d)"
    and i: "i \<le> length S"
    and cursor: "alo_Cursor options = (if i = 0 then NoToken
       else encodePageCursor (acc_CreatedAt (S ! (i - 1))) (acc_ID (S ! (i - 1)))
              (cursorFilter sha256 [''accounts'', alo_Provider options]))"
  shows "ListAccountPage sha256 options d =
    (if int (length S - i) > limit
     then Inr \<lparr>ap_Items = take (nat limit) (drop i S),
               ap_NextCursor = encodePageCursor (acc_CreatedAt (S ! (i + nat limit - 1))) (acc_ID (S ! (i + nat limit - 1)))
                 (cursorFilter sha256 [''accounts'', alo_Provider options])\<rparr>
     else Inr \<lparr>ap_Items = drop i S, ap_NextCursor = NoToken\<rparr>)"
proof -
  let ?f = "cursorFilter sha256 [''accounts'', alo_Provider options]"
  have pos: "1 \<le> limit" using limit by (auto simp: pageLimit_def DefaultPageLimit_def split: if_splits)
  have sub: "S ! j \<in> set (db_accounts d)" if "j < length S" for j
  proof -
    have "S ! j \<in> set (listed_accounts options d)" using nth_mem [OF that] by (simp add: S)
    then show ?thesis by (simp add: listed_accounts_def)
  qed
  have decode: "decodePageCursor (alo_Cursor options) ?f =
      Inr (if i = 0 then None else Some (account_key (S ! (i - 1))))"
    using ids sub [of "i - 1"] i
    by (auto simp: cursor decodePageCursor_def encodePageCursor_def account_key_def list_all_iff)
  have keys: "(\<lambda>r. (acc_CreatedAt r, acc_ID r)) = account_key" by (rule ext) (simp add: account_key_def)
  have len: "length S = length (listed_accounts options d)" by (simp add: S)
  have rows: "page_rows account_key (if i = 0 then None else Some (account_key (S ! (i - 1)))) limit
      (listed_accounts options d) = take (nat (limit + 1)) (drop i S)"
    using page_rows_at [OF listed_keys [OF ok, of options] pos _ refl, of i] i unfolding S [symmetric] len by simp
  have run: "ListAccountPage sha256 options d =
      (let (items, next) = page_cut account_key ?f limit (take (nat (limit + 1)) (drop i S))
       in Inr \<lparr>ap_Items = items, ap_NextCursor = next\<rparr>)"
    using provider unfolding ListAccountPage_def limit bindE_simps Let_def decode keys
      listed_accounts_def [symmetric] rows by auto
  have nth: "drop i S ! (nat limit - 1) = S ! (i + nat limit - 1)" if "int (length S - i) > limit"
  proof -
    have "i + (nat limit - 1) = i + nat limit - 1" using pos by simp
    then show ?thesis using i that by simp
  qed
  show ?thesis using nth unfolding run page_cut_at [OF pos] by (simp add: account_key_def)
qed

lemma account_walk_from:
  assumes ok: "db_ok d" and ids: "list_all (\<lambda>r. valid_id (acc_ID r)) (db_accounts d)"
    and limit: "pageLimit (alo_Limit options) = Inr limit"
    and provider: "alo_Provider options = '''' \<or> PublicProvider (alo_Provider options)"
    and S: "S = order_by (\<lambda>x y. page_before (account_key x) (account_key y)) (listed_accounts options d)"
    and i: "i \<le> length S" and fuel: "length S - i < fuel"
    and cursor: "alo_Cursor options = (if i = 0 then NoToken
       else encodePageCursor (acc_CreatedAt (S ! (i - 1))) (acc_ID (S ! (i - 1)))
              (cursorFilter sha256 [''accounts'', alo_Provider options]))"
  shows "account_walk sha256 fuel options d = Some (drop i S)"
  using limit provider S i fuel cursor
proof (induction fuel arbitrary: options i)
  case (Suc fuel)
  note page = account_page_at [OF ok ids Suc.prems(1-4,6)]
  have pos: "1 \<le> limit" using Suc.prems(1) by (auto simp: pageLimit_def DefaultPageLimit_def split: if_splits)
  show ?case
  proof (cases "int (length S - i) > limit")
    case False
    then show ?thesis by (simp add: page)
  next
    case True
    let ?j = "i + nat limit"
    let ?t = "encodePageCursor (acc_CreatedAt (S ! (?j - 1))) (acc_ID (S ! (?j - 1)))
                 (cursorFilter sha256 [''accounts'', alo_Provider options])"
    have j: "?j \<le> length S" "length S - ?j < fuel" "?j \<noteq> 0" using True pos Suc.prems(4,5) by auto
    have "listed_accounts (options\<lparr>alo_Cursor := ?t\<rparr>) d = listed_accounts options d" by (simp add: listed_accounts_def)
    then have "S = order_by (\<lambda>x y. page_before (account_key x) (account_key y))
        (listed_accounts (options\<lparr>alo_Cursor := ?t\<rparr>) d)" using Suc.prems(3) by simp
    then have "account_walk sha256 fuel (options\<lparr>alo_Cursor := ?t\<rparr>) d = Some (drop ?j S)"
      by (rule Suc.IH [OF _ _ _ j(1,2), rotated 2]) (use Suc.prems(1,2) j(3) pos in auto)
    moreover have "take (nat limit) (drop i S) @ drop ?j S = drop i S"
      by (metis add.commute append_take_drop_id drop_drop)
    ultimately show ?thesis using True by (simp add: page encodePageCursor_def)
  qed
qed simp

end
