(* ===== verification/Samples.thy ===== *)
theory Samples
  imports StoreEnrollments
begin

text \<open>
  A small concrete database: one daemon device, two clients, a Codex account with its profile,
  credential and workspace, one running Session with a pending approval, and one login enrollment.
  The witnesses of the properties evaluate the operations on it.
\<close>

definition device_1 :: ID where "device_1 = ''device_00000000000000000000000000000001''"
definition client_1 :: ID where "client_1 = ''client_00000000000000000000000000000001''"
definition client_2 :: ID where "client_2 = ''client_00000000000000000000000000000002''"
definition account_1 :: ID where "account_1 = ''account_00000000000000000000000000000001''"
definition workspace_1 :: ID where "workspace_1 = ''workspace_00000000000000000000000000000001''"
definition profile_1 :: ID where "profile_1 = ''profile_00000000000000000000000000000001''"
definition credential_1 :: ID where "credential_1 = ''credential_00000000000000000000000000000001''"
definition session_1 :: ID where "session_1 = ''session_00000000000000000000000000000001''"
definition session_2 :: ID where "session_2 = ''session_00000000000000000000000000000002''"
definition approval_1 :: ID where "approval_1 = ''approval_00000000000000000000000000000001''"
definition enrollment_1 :: ID where "enrollment_1 = ''enrollment_00000000000000000000000000000001''"

lemmas sample_ids = device_1_def client_1_def client_2_def account_1_def workspace_1_def profile_1_def
  credential_1_def session_1_def session_2_def approval_1_def enrollment_1_def

definition digest_0 :: string where "digest_0 = replicate 64 CHR ''0''"
definition digest_1 :: string where "digest_1 = replicate 64 CHR ''1''"

lemma valid_id_sample:
  "validIDPrefix p \<Longrightarrow> hex_decode r = Some bs \<Longrightarrow> length r = 32 \<Longrightarrow> valid_id (p @ CHR ''_'' # r)"
  using ValidateID_iff by blast

lemma sample_valid_ids [simp]:
  "valid_id device_1" "valid_id client_1" "valid_id client_2" "valid_id account_1" "valid_id workspace_1"
  "valid_id profile_1" "valid_id credential_1" "valid_id session_1" "valid_id session_2"
  "valid_id approval_1" "valid_id enrollment_1"
  unfolding sample_ids by code_simp+

lemma digest_0_decodes [simp]: "hex_decode digest_0 \<noteq> None" "length digest_0 = 64"
  using hex_decode_iff [of digest_0] by (simp_all add: digest_0_def hex_val_def)

lemma digest_1_decodes [simp]: "hex_decode digest_1 \<noteq> None" "length digest_1 = 64"
  using hex_decode_iff [of digest_1] by (simp_all add: digest_1_def hex_val_def)

definition sample_session :: Session where
  "sample_session = \<lparr>ses_ID = session_1, ses_DeviceID = device_1, ses_AccountID = account_1,
     ses_Provider = ProviderCodex, ses_CredentialInstanceID = credential_1, ses_RuntimeProfileID = profile_1,
     ses_WorkspaceID = workspace_1, ses_ProviderSessionID = '''', ses_ResumedFromSessionID = '''',
     ses_Status = SessionRunning, ses_StartedAt = 10, ses_EndedAt = None, ses_ExitCode = None,
     ses_CapabilitySnapshot = [CapabilitySessionObserve, CapabilitySessionResume], ses_FailureCode = ''''\<rparr>"

definition sample_approval :: Approval where
  "sample_approval = \<lparr>app_ID = approval_1, app_SessionID = session_1, app_ProviderApprovalID = ''p1'',
     app_Kind = ''exec'', app_PayloadDigest = digest_0, app_Summary = '''', app_Status = ApprovalPending,
     app_ResponseState = ApprovalResponseIdle, app_RequestedDecision = NoDecision,
     app_RespondedByDeviceID = '''', app_IdempotencyKey = ''k1'', app_DispatchDigest = '''',
     app_RequestedAt = 20, app_DispatchStartedAt = None, app_RespondedAt = None, app_DispatchErrorCode = ''''\<rparr>"

definition sample_enrollment :: AuthEnrollment where
  "sample_enrollment = \<lparr>enr_ID = enrollment_1, enr_ClientDeviceID = client_1, enr_RuntimeProfileID = profile_1,
     enr_CredentialInstanceID = credential_1, enr_BinaryFingerprint = digest_0, enr_StagingPath = ''/s'',
     enr_State = EnrollmentBegun, enr_IdempotencyDigest = digest_0, enr_CompletionIdempotencyDigest = '''',
     enr_ConfirmationAccountID = '''', enr_ConfirmationAccountRevision = 0, enr_ConfirmationProfileID = '''',
     enr_ConfirmationProfileRevision = 0, enr_ConfirmationCredentialID = '''',
     enr_ConfirmationCredentialRevision = 0, enr_ConfirmationAliasDigest = '''', enr_ConfirmedByClientID = '''',
     enr_ConfirmedAt = None, enr_ExpiresAt = 900 * second, enr_CreatedAt = 5, enr_UpdatedAt = 5\<rparr>"

definition sample_db :: db where
  "sample_db = empty_db\<lparr>
     db_devices := [\<lparr>dev_ID = device_1, dev_Kind = DeviceKindDaemon, dev_DisplayName = ''d'',
       dev_SigningPublicKey = replicate 32 0, dev_CreatedAt = 1, dev_UpdatedAt = 1\<rparr>],
     db_clients := [\<lparr>cli_ID = client_1, cli_Name = ''a'', cli_PublicKey = replicate 32 1, cli_Revision = 1,
       cli_Status = ClientIdentityActive, cli_Caps = [CapabilityMetadataRead], cli_CreatedAt = 1,
       cli_UpdatedAt = 1\<rparr>,
       \<lparr>cli_ID = client_2, cli_Name = ''b'', cli_PublicKey = replicate 32 2, cli_Revision = 1,
       cli_Status = ClientIdentityActive, cli_Caps = [], cli_CreatedAt = 1, cli_UpdatedAt = 1\<rparr>],
     db_workspaces := [\<lparr>ws_ID = workspace_1, ws_DeviceID = device_1, ws_Path = ''/w'', ws_Label = '''',
       ws_Tags = [], ws_CreatedAt = 1, ws_UpdatedAt = 1\<rparr>],
     db_accounts := [\<lparr>acc_ID = account_1, acc_Provider = ProviderCodex, acc_DisplayName = ''me'',
       acc_ProviderSubjectDigest = '''', acc_SubscriptionHint = '''', acc_Internal = False, acc_Enabled = True,
       acc_Revision = 1, acc_CreatedAt = 1, acc_UpdatedAt = 1\<rparr>],
     db_profiles := [\<lparr>prof_ID = profile_1, prof_DeviceID = device_1, prof_AccountID = account_1,
       prof_CredentialInstanceID = '''', prof_Name = ''p'', prof_Provider = ProviderCodex,
       prof_SelectorAlias = ''work'', prof_SelectorKey = ''work'', prof_Settings = ''{}'', prof_Internal = False,
       prof_Enabled = True, prof_Revision = 1, prof_CreatedAt = 1, prof_UpdatedAt = 1\<rparr>],
     db_credentials := [\<lparr>cred_ID = credential_1, cred_DeviceID = device_1, cred_AccountID = account_1,
       cred_Provider = ProviderCodex, cred_AuthMethod = AuthMethodInteractive, cred_SecretRef = ''vault:x'',
       cred_Status = CredentialUnknown, cred_CredentialRevision = 1, cred_SecretDigest = digest_0,
       cred_Availability = OtherAvailability '''', cred_LastValidatedAt = None, cred_CreatedAt = 1,
       cred_UpdatedAt = 1\<rparr>],
     db_sessions := [sample_session], db_approvals := [sample_approval],
     db_enrollments := [sample_enrollment]\<rparr>"

lemma digest_between [simp]: "between 64 64 digest_0" "between 64 64 digest_1"
  by (rule between_hex; simp)+

lemma digest_nonempty [simp]: "digest_0 \<noteq> ''''" "digest_1 \<noteq> ''''"
  by (simp_all add: digest_0_def digest_1_def)

lemma sample_caps: "CanonicalCapabilities [CapabilitySessionObserve, CapabilitySessionResume] =
    Inr [CapabilitySessionObserve, CapabilitySessionResume]"
  by (simp add: CanonicalCapabilities_def validCapabilities_def List.insert_def less_char_def)

lemma sample_session_wf: "session_wf sample_session"
  using sample_valid_ids valid_id_nonempty
  by (auto simp: session_wf_def sample_session_def ProviderKnown_def sample_caps simp del: sample_valid_ids)

lemma sample_db_ok: "db_ok sample_db"
proof -
  have ne: "client_1 \<noteq> client_2" by (simp add: sample_ids)
  have nonempty: "device_1 \<noteq> ''''" "account_1 \<noteq> ''''" "credential_1 \<noteq> ''''" by (simp_all add: sample_ids)
  have "between (Suc 0) 128 ''d''" "between (Suc 0) 128 ''a''" "between (Suc 0) 128 ''b''"
    "between (Suc 0) 128 ''me''" "between (Suc 0) 128 ''p''" "between (Suc 0) 32 ''work''" "between (Suc 0) 4096 ''/w''"
    "between (Suc 0) 4096 ''/s''" "between (Suc 0) 512 ''vault:x''" "between (Suc 0) 256 ''p1''"
    "between (Suc 0) 64 ''exec''" "between (Suc 0) 128 ''k1''"
    by (simp_all add: between_def sql_length_def)
  then show ?thesis
    by (simp add: db_ok_def table_defs sample_db_def empty_db_def ne nonempty references_def
        references_or_null_def session_row_ok_def session_status_ok_def sample_session_def approval_row_ok_def
        approval_state_ok_def sample_approval_def ApprovalStatusKnown_def enrollment_row_ok_def
        confirmation_tuple_ok_def sample_enrollment_def like_prefix_def
        has_prefix_def lower_char_def json_eval active_enrollment_state_def)
qed

lemma sample_sessions_wf: "sessions_wf sample_db"
  by (simp add: sessions_wf_def sample_db_def sample_session_wf)

end
