(* ===== verification/SampleRuns.thy ===== *)
theory SampleRuns
  imports VaultLaws StorePaging Samples
begin

text \<open>
  Two runs on concrete databases that the witnesses of the properties use: the seal that ends a
  confirmed login, and the consumption of a confirmed session preview.
\<close>

section \<open>A confirmed login and its seal\<close>

definition confirmed_enrollment :: AuthEnrollment where
  "confirmed_enrollment = sample_enrollment\<lparr>enr_State := EnrollmentAwaitingConfirmation,
     enr_CompletionIdempotencyDigest := digest_1, enr_ConfirmationAccountID := account_1,
     enr_ConfirmationAccountRevision := 1, enr_ConfirmationProfileID := profile_1,
     enr_ConfirmationProfileRevision := 1, enr_ConfirmationCredentialID := credential_1,
     enr_ConfirmationCredentialRevision := 1, enr_ConfirmationAliasDigest := digest_0,
     enr_ConfirmedByClientID := client_1, enr_ConfirmedAt := Some 7\<rparr>"

definition confirmed_db :: db where
  "confirmed_db = sample_db\<lparr>db_enrollments := [confirmed_enrollment]\<rparr>"

definition sample_item :: VaultItem where
  "sample_item = \<lparr>vi_CredentialInstanceID = credential_1, vi_AccountID = account_1, vi_DeviceID = device_1,
     vi_Provider = ProviderCodex, vi_EnvelopeVersion = 1, vi_CredentialRevision = 2,
     vi_CipherName = ''aes-256-gcm'', vi_PayloadNonce = replicate 12 0, vi_PayloadCiphertext = replicate 18 0,
     vi_WrapName = ''aes-256-gcm'', vi_WrapNonce = replicate 12 0, vi_WrappedDEK = replicate 48 0,
     vi_AADDigest = digest_0, vi_SecretDigest = digest_1, vi_CreatedAt = 8, vi_UpdatedAt = 8\<rparr>"

lemma sample_item_valid: "validVaultItem sample_item"
  using sample_valid_ids digest_0_decodes digest_1_decodes
  by (simp add: validVaultItem_def sample_item_def del: sample_valid_ids digest_0_decodes digest_1_decodes)

lemma sample_nonempty: "device_1 \<noteq> ''''" "account_1 \<noteq> ''''" "credential_1 \<noteq> ''''" "enrollment_1 \<noteq> ''''"
  "client_1 \<noteq> ''''" "profile_1 \<noteq> ''''" "workspace_1 \<noteq> ''''"
  by (simp_all add: sample_ids)

lemma sample_tables:
  "db_enrollments sample_db = [sample_enrollment]" "db_vault_items sample_db = []" "db_revocations sample_db = []"
  "db_sessions sample_db = [sample_session]" "db_previews sample_db = []" "db_usages sample_db = []"
  by (simp_all add: sample_db_def empty_db_def)

lemma sample_rows_ok: "enrollments_ok sample_db [sample_enrollment]" "credentials_ok sample_db (db_credentials sample_db)"
  "profiles_ok sample_db (db_profiles sample_db)"
  using sample_db_ok sample_tables(1) by (simp_all add: db_ok_def)

lemma confirmed_db_ok: "db_ok confirmed_db"
  unfolding confirmed_db_def
proof (rule db_ok_put_leaf(8) [OF sample_db_ok])
  have "references acc_ID (db_accounts sample_db) account_1" "references prof_ID (db_profiles sample_db) profile_1"
    "references cred_ID (db_credentials sample_db) credential_1" "references cli_ID (db_clients sample_db) client_1"
    by (simp_all add: references_def sample_db_def)
  then show "enrollments_ok sample_db [confirmed_enrollment]"
    using sample_rows_ok(1) sample_nonempty
    by (simp add: enrollments_ok_def confirmed_enrollment_def enrollment_row_ok_def confirmation_tuple_ok_def
        references_or_null_def)
qed

text \<open>The database after a seal of an item for the sample credential.\<close>

definition sealed_with :: "VaultItem \<Rightarrow> AuthEnrollment \<Rightarrow> db" where
  "sealed_with item e = sample_db\<lparr>db_vault_items := [item],
     db_credentials := map (sealed_credential item CredentialHealthy) (db_credentials sample_db),
     db_profiles := map (\<lambda>r. r\<lparr>prof_CredentialInstanceID := credential_1, prof_Revision := 2, prof_UpdatedAt := vi_UpdatedAt item\<rparr>)
       (db_profiles sample_db),
     db_enrollments := [e\<lparr>enr_State := EnrollmentSucceeded, enr_UpdatedAt := vi_UpdatedAt item\<rparr>]\<rparr>"

definition sealed_db :: db where
  "sealed_db = confirmed_db\<lparr>db_vault_items := [sample_item],
     db_credentials := map (sealed_credential sample_item CredentialHealthy) (db_credentials sample_db),
     db_profiles := map (\<lambda>r. r\<lparr>prof_CredentialInstanceID := credential_1, prof_Revision := 2, prof_UpdatedAt := 8\<rparr>)
       (db_profiles sample_db),
     db_enrollments := [confirmed_enrollment\<lparr>enr_State := EnrollmentSucceeded, enr_UpdatedAt := 8\<rparr>]\<rparr>"

text \<open>An enrollment that the first client confirmed, and an item for its credential.\<close>

definition confirmed_sample :: "AuthEnrollment \<Rightarrow> bool" where
  "confirmed_sample e \<longleftrightarrow> enr_ID e = enrollment_1 \<and> enr_ClientDeviceID e = client_1 \<and>
     enr_CredentialInstanceID e = credential_1 \<and> enr_State e = EnrollmentAwaitingConfirmation \<and>
     enr_ConfirmedByClientID e = client_1 \<and> enr_CompletionIdempotencyDigest e = digest_1 \<and>
     enr_RuntimeProfileID e = profile_1 \<and> enrollment_row_ok sample_db e"

definition item_for_sample :: "VaultItem \<Rightarrow> bool" where
  "item_for_sample item \<longleftrightarrow> validVaultItem item \<and> vault_items_ok sample_db [item] \<and>
     vi_CredentialInstanceID item = credential_1 \<and> vi_AccountID item = account_1 \<and> vi_DeviceID item = device_1 \<and>
     vi_CredentialRevision item = 2"

lemma seal_confirmed_sample:
  assumes e: "confirmed_sample e" and item: "item_for_sample item"
  shows "ReplaceVaultItemEnrollmentCAS enrollment_1 client_1 digest_1 1 item CredentialHealthy
      (sample_db\<lparr>db_enrollments := [e]\<rparr>) = Inr ((), sealed_with item e)"
proof -
  let ?c = "\<lparr>cred_ID = credential_1, cred_DeviceID = device_1, cred_AccountID = account_1,
       cred_Provider = ProviderCodex, cred_AuthMethod = AuthMethodInteractive, cred_SecretRef = ''vault:x'',
       cred_Status = CredentialUnknown, cred_CredentialRevision = 1, cred_SecretDigest = digest_0,
       cred_Availability = OtherAvailability '''', cred_LastValidatedAt = None, cred_CreatedAt = 1,
       cred_UpdatedAt = 1\<rparr>"
  let ?p = "\<lparr>prof_ID = profile_1, prof_DeviceID = device_1, prof_AccountID = account_1,
       prof_CredentialInstanceID = '''', prof_Name = ''p'', prof_Provider = ProviderCodex,
       prof_SelectorAlias = ''work'', prof_SelectorKey = ''work'', prof_Settings = ''{}'', prof_Internal = False,
       prof_Enabled = True, prof_Revision = 1, prof_CreatedAt = 1, prof_UpdatedAt = 1\<rparr>"
  let ?d = "sample_db\<lparr>db_enrollments := [e]\<rparr>"
  let ?d1 = "?d\<lparr>db_vault_items := [item]\<rparr>"
  let ?cs = "[sealed_credential item CredentialHealthy ?c]"
  let ?d2 = "?d1\<lparr>db_credentials := ?cs\<rparr>"
  let ?ps = "[?p\<lparr>prof_CredentialInstanceID := credential_1, prof_Revision := 2, prof_UpdatedAt := vi_UpdatedAt item\<rparr>]"
  let ?d3 = "?d2\<lparr>db_profiles := ?ps\<rparr>"
  let ?e = "e\<lparr>enr_State := EnrollmentSucceeded, enr_UpdatedAt := vi_UpdatedAt item\<rparr>"
  have creds: "db_credentials sample_db = [?c]" and profs: "db_profiles sample_db = [?p]" by (simp_all add: sample_db_def)
  have tables: "db_credentials ?d = [?c]" "db_profiles ?d = [?p]" "db_vault_items ?d = []"
    "db_enrollments ?d = [e]" "db_revocations ?d = []"
    by (simp_all add: creds profs sample_tables)
  have refs: "references cred_ID (db_credentials sample_db) credential_1"
    "references acc_ID (db_accounts sample_db) account_1" "references dev_ID (db_devices sample_db) device_1"
    "references cli_ID (db_clients sample_db) client_1"
    by (simp_all add: references_def sample_db_def)
  have f: "validVaultItem item" "vi_CredentialInstanceID item = credential_1" "vi_AccountID item = account_1"
    "vi_DeviceID item = device_1" "vi_CredentialRevision item = 2" "between 64 64 (vi_SecretDigest item)"
    using item by (simp_all add: item_for_sample_def vault_items_ok_def vault_item_row_ok_def)
  have g: "enr_ID e = enrollment_1" "enr_ClientDeviceID e = client_1" "enr_CredentialInstanceID e = credential_1"
    "enr_State e = EnrollmentAwaitingConfirmation" "enr_ConfirmedByClientID e = client_1"
    "enr_CompletionIdempotencyDigest e = digest_1" "enr_RuntimeProfileID e = profile_1" "enrollment_row_ok sample_db e"
    using e by (simp_all add: confirmed_sample_def)
  have 1: "vault_items_ok ?d [item]"
    using item refs by (simp add: item_for_sample_def vault_items_ok_def vault_item_row_ok_def)
  have 2: "credentials_ok ?d1 ?cs"
    using sample_rows_ok(2) refs f(6)
    by (simp add: credentials_ok_def creds sealed_credential_def f(2-5) references_or_null_def)
  have 3: "profiles_ok ?d2 ?ps"
    using sample_rows_ok(3) refs
    by (simp add: profiles_ok_def profs references_or_null_def references_def sealed_credential_def sample_nonempty)
  have "references cred_ID ?cs = references cred_ID [?c]" "references prof_ID ?ps = references prof_ID [?p]"
    by (simp_all add: fun_eq_iff references_def sealed_credential_def)
  with g(8) have 4: "enrollments_ok ?d3 [?e]"
    by (auto simp: enrollments_ok_def enrollment_row_ok_def references_or_null_def confirmation_tuple_ok_def
        active_enrollment_state_def creds profs)
  have s: "sealable 1 item ?d = Inr ()"
    by (simp add: sealable_def tables f(2-5) count_rows_def i64_def sample_nonempty)
  have commit: "commit_enrollment enrollment_1 client_1 digest_1 item ?d2 = Inr (?d3\<lparr>db_enrollments := [?e]\<rparr>)"
    using 3 4 by (simp add: commit_enrollment_def profs g(1-7) f(2-5) sql_update_def update_rows_def count_rows_def)
  have "upsert_item item (db_vault_items ?d) = [item]" by (simp add: upsert_item_def sample_tables)
  moreover have "update_rows (\<lambda>r. cred_ID r = credential_1 \<and> cred_CredentialRevision r = 1)
       (\<lambda>r. r\<lparr>cred_CredentialRevision := 2, cred_SecretDigest := vi_SecretDigest item, cred_Status := CredentialHealthy,
              cred_UpdatedAt := vi_UpdatedAt item\<rparr>) [?c] = ?cs"
    by (simp add: update_rows_def sealed_credential_def f(2-5))
  ultimately have "replaceVaultItemCAS 1 item CredentialHealthy enrollment_1 client_1 digest_1 ?d =
      Inr ((), ?d3\<lparr>db_enrollments := [?e]\<rparr>)"
    using f(1) s 1 2 commit
    by (simp add: replaceVaultItemCAS_def creds f(2-5) sql_update_def count_rows_def sample_nonempty Let_def)
  then show ?thesis
    using digest_1_decodes(2) by (simp add: ReplaceVaultItemEnrollmentCAS_def sample_nonempty sealed_with_def creds profs)
qed

lemma seal_sample:
  "ReplaceVaultItemEnrollmentCAS enrollment_1 client_1 digest_1 1 sample_item CredentialHealthy confirmed_db =
     Inr ((), sealed_db)"
proof -
  have "enrollment_row_ok confirmed_db confirmed_enrollment"
    using confirmed_db_ok by (simp add: db_ok_def enrollments_ok_def confirmed_db_def)
  then have e: "confirmed_sample confirmed_enrollment"
    by (simp add: confirmed_sample_def confirmed_db_def enrollment_row_ok_def)
       (simp add: confirmed_enrollment_def sample_enrollment_def)
  have "references cred_ID (db_credentials sample_db) credential_1"
    "references acc_ID (db_accounts sample_db) account_1" "references dev_ID (db_devices sample_db) device_1"
    by (simp_all add: references_def sample_db_def)
  then have item: "item_for_sample sample_item"
    using sample_item_valid by (simp add: item_for_sample_def vault_items_ok_def vault_item_row_ok_def) (simp add: sample_item_def)
  have "vi_UpdatedAt sample_item = 8" by (simp add: sample_item_def)
  then show ?thesis using seal_confirmed_sample [OF e item] by (simp add: confirmed_db_def sealed_db_def sealed_with_def)
qed

lemma sealed_db_ok: "db_ok sealed_db"
  using replaceVaultItemCAS_db_ok [OF _ confirmed_db_ok] seal_sample
  by (auto simp: ReplaceVaultItemEnrollmentCAS_def split: if_splits)

section \<open>A preview and its consumption\<close>

definition preview_1 :: ID where "preview_1 = ''preview_00000000000000000000000000000001''"

lemma preview_1_valid [simp]: "valid_id preview_1"
  unfolding preview_1_def by code_simp

definition sample_preview :: SessionStartPreview where
  "sample_preview = \<lparr>prev_ID = preview_1, prev_ClientID = client_1, prev_Provider = ProviderCodex,
     prev_AccountID = account_1, prev_AccountRevision = 1, prev_RuntimeProfileID = profile_1,
     prev_ProfileRevision = 2, prev_CredentialInstanceID = credential_1, prev_CredentialRevision = 2,
     prev_DeviceID = device_1, prev_WorkspaceID = workspace_1, prev_WorkspaceUpdatedAt = 1,
     prev_UsageSnapshotID = '''', prev_ProviderVersion = ''1.0'', prev_BinaryFingerprint = digest_0,
     prev_SchemaFingerprint = digest_0, prev_CapabilityDigest = digest_0, prev_CreatedAt = 10,
     prev_ExpiresAt = 1000, prev_ConsumedAt = None, prev_ConsumedRequestDigest = '''', prev_SessionID = ''''\<rparr>"

definition ready_db :: db where
  "ready_db = sealed_db\<lparr>db_previews := [sample_preview]\<rparr>"

definition sample_request :: ConsumeSessionStartPreviewRequest where
  "sample_request = \<lparr>req_PreviewID = preview_1, req_ClientID = client_1, req_RequestDigest = digest_1, req_At = 20,
     req_BinaryFingerprint = digest_0, req_SchemaFingerprint = digest_0, req_CapabilityDigest = digest_0,
     req_Confirmation = \<lparr>conf_Confirmed = True, conf_AccountID = account_1, conf_AccountRevision = 1,
       conf_RuntimeProfileID = profile_1, conf_ProfileRevision = 2, conf_CredentialInstanceID = credential_1,
       conf_CredentialRevision = 2, conf_DeviceID = device_1, conf_WorkspaceID = workspace_1,
       conf_UsageSnapshotID = '''', conf_ProviderVersion = ''1.0''\<rparr>,
     req_Session = sample_session\<lparr>ses_ID := session_2, ses_Status := SessionStarting\<rparr>\<rparr>"

definition started_session :: Session where
  "started_session = sample_session\<lparr>ses_ID := session_2, ses_Status := SessionStarting\<rparr>"

definition started_db :: db where
  "started_db = ready_db\<lparr>db_sessions := [sample_session, started_session],
     db_previews := [consume_row sample_request session_2 sample_preview]\<rparr>"

lemma ready_db_ok: "db_ok ready_db"
  unfolding ready_db_def
proof (rule db_ok_put_leaf(9) [OF sealed_db_ok])
  have "between (Suc 0) 128 ''1.0''" by (simp add: between_def sql_length_def)
  then show "previews_ok sealed_db [sample_preview]"
    by (simp add: previews_ok_def sample_preview_def references_def references_or_null_def sealed_db_def confirmed_db_def
        sample_db_def sealed_credential_def)
qed

lemma new_sample_session: "NewSession started_session = Inr started_session"
  using sample_session_wf sample_nonempty
  by (simp add: NewSession_iff session_input_ok_def session_wf_def started_session_def sample_session_def)

lemma ready_tables:
  "db_sessions ready_db = [sample_session]" "db_previews ready_db = [sample_preview]" "db_revocations ready_db = []"
  "db_usages ready_db = []" "db_workspaces ready_db = db_workspaces sample_db"
  "db_accounts ready_db = db_accounts sample_db" "db_credentials ready_db = db_credentials sealed_db"
  "db_profiles ready_db = db_profiles sealed_db"
  by (simp_all add: ready_db_def sealed_db_def confirmed_db_def sample_tables)

lemma sample_links: "validateSessionLinks started_session ready_db = Inr ()"
  using sample_nonempty
  by (simp add: validateSessionLinks_def validateAccountForProvider_def ready_tables sealed_db_def sample_db_def
      started_session_def sample_session_def sealed_credential_def sample_item_def count_rows_def)

lemma consume_sample: "ConsumeSessionStartPreview sample_request ready_db = (Inr started_session, started_db)"
proof -
  have ne: "session_1 \<noteq> session_2" "session_2 \<noteq> ''''" by (simp_all add: sample_ids)
  have fp: "validFingerprint digest_0" "validFingerprint digest_1"
    using digest_0_decodes digest_1_decodes by (simp_all add: validFingerprint_def)
  have session: "req_Session sample_request = started_session"
    by (simp add: sample_request_def started_session_def)
  have caps: "CanonicalCapabilities (ses_CapabilitySnapshot started_session) = Inr (ses_CapabilitySnapshot started_session)"
    by (simp add: started_session_def sample_session_def sample_caps)
  have reserved: "reserved_session started_session (ses_CapabilitySnapshot started_session) = started_session"
    by (simp add: reserved_session_def started_session_def sample_session_def)
  have bound: "preview_still_bound sample_preview ready_db = Inr ()"
    by (simp add: preview_still_bound_def ready_tables sealed_db_def sample_db_def sample_preview_def
        sealed_credential_def sample_item_def latest_usage_def order_by_def)
  have links: "validateSessionLinks started_session ready_db = Inr ()" by (rule sample_links)
  have match: "confirmation_matches sample_request sample_preview" "session_matches_preview started_session sample_preview"
    by (simp_all add: confirmation_matches_def session_matches_preview_def sample_request_def sample_preview_def
        started_session_def sample_session_def)
  have rows: "sessions_ok ready_db [sample_session, started_session]"
    using ready_db_ok ne
    by (simp add: db_ok_def sessions_ok_def ready_tables started_session_def)
       (simp add: sample_session_def session_row_ok_def session_status_ok_def references_or_null_def sample_nonempty)
  have refs: "previews_ok (ready_db\<lparr>db_sessions := [sample_session, started_session]\<rparr>)
      [consume_row sample_request session_2 sample_preview]"
    using ready_db_ok digest_between
    by (simp add: db_ok_def previews_ok_def ready_tables consume_row_def sample_request_def references_or_null_def
        references_def started_session_def ne)
  have p: "prev_ID sample_preview = preview_1" "prev_ClientID sample_preview = client_1" "prev_ConsumedAt sample_preview = None"
    "prev_ExpiresAt sample_preview = 1000" "prev_WorkspaceID sample_preview = workspace_1" "prev_WorkspaceUpdatedAt sample_preview = 1"
    by (simp_all add: sample_preview_def)
  have r: "req_PreviewID sample_request = preview_1" "req_ClientID sample_request = client_1" "req_At sample_request = 20"
    "req_RequestDigest sample_request = digest_1" "req_BinaryFingerprint sample_request = digest_0"
    "req_SchemaFingerprint sample_request = digest_0" "req_CapabilityDigest sample_request = digest_0"
    "conf_Confirmed (req_Confirmation sample_request)"
    by (simp_all add: sample_request_def)
  obtain w where w: "db_workspaces sample_db = [w]" "ws_ID w = workspace_1" "ws_UpdatedAt w = 1"
    by (simp add: sample_db_def)
  have id: "ses_ID started_session = session_2" by (simp add: started_session_def)
  have tx: "consume_tx sample_request started_session (ses_CapabilitySnapshot started_session) ready_db = Inr (session_2, started_db)"
    using match rows refs
    by (simp add: consume_tx_def ready_tables p r w id bound links reserved sql_insert_def sql_update_def
        update_rows_def count_rows_def Let_def consume_row_def started_db_def)
  have "Session_read session_2 started_db = Inr started_session"
    using ne by (simp add: Session_read_def read_row_def started_db_def started_session_def sample_session_def)
  then show ?thesis
    using fp tx caps by (simp add: ConsumeSessionStartPreview_def r session new_sample_session)
qed

end
