(* ===== verification/StoreProperties.thy ===== *)
theory StoreProperties
  imports StoreInvariants SampleRuns
begin

text \<open>
  What the store promises its callers, as properties of the operations and of their histories. Each
  property with a hypothesis is applied to a concrete database right after it.
\<close>

section \<open>Histories of the whole store\<close>

lemma session_read_sample: "Session_read session_1 sample_db = Inr sample_session"
  by (simp add: Session_read_def read_row_def sample_db_def sample_session_def)

lemma sample_inv: "store_inv sample_db"
  by (simp add: store_inv_def sample_db_ok sample_sessions_wf)
     (simp add: reservation_safe_def sample_db_def empty_db_def)

text \<open>The sample Session is killed, so that the login of its credential may be revoked.\<close>

definition killed_session :: Session where
  "killed_session = sample_session\<lparr>ses_Status := SessionKilled, ses_EndedAt := Some 50\<rparr>"

definition killed_db :: db where
  "killed_db = sample_db\<lparr>db_sessions := [killed_session]\<rparr>"

definition reserved_db :: db where
  "reserved_db = killed_db\<lparr>db_revocations := [(credential_1, 60)]\<rparr>"

lemma kill_sample:
  "TransitionSession session_1 SessionRunning SessionKilled 50 None '''' sample_db = Inr (killed_session, killed_db)"
proof -
  have "Transition sample_session SessionKilled 50 None '''' = Inr killed_session"
    by (simp add: Transition_ok sample_session_def killed_session_def Terminal_def)
  moreover have "update_rows (\<lambda>r. ses_ID r = session_1 \<and> ses_Status r = SessionRunning)
      (\<lambda>r. r\<lparr>ses_Status := SessionKilled, ses_EndedAt := Some 50, ses_ExitCode := None, ses_FailureCode := ''''\<rparr>)
      (db_sessions sample_db) = [killed_session]"
    by (simp add: update_rows_def sample_db_def killed_session_def sample_session_def)
  ultimately show ?thesis
    unfolding TransitionSession_iff [OF sample_db_ok] using session_read_sample
    by (auto simp: killed_db_def killed_session_def sample_session_def intro!: exI [of _ sample_session])
qed

lemma killed_tables:
  "db_revocations killed_db = []" "db_sessions killed_db = [killed_session]"
  "db_credentials killed_db = db_credentials sample_db"
  by (simp_all add: killed_db_def sample_db_def empty_db_def)

lemma sample_credentials:
  "\<exists>c. db_credentials sample_db = [c] \<and> cred_ID c = credential_1 \<and> cred_Provider c = ProviderCodex \<and>
       cred_Status c = CredentialUnknown"
  by (simp add: sample_db_def)

lemma reserve_killed: "ReserveVaultCredentialRevocation credential_1 60 killed_db = Inr ((), reserved_db)"
proof -
  obtain c where c: "db_credentials sample_db = [c]" "cred_ID c = credential_1" "cred_Provider c = ProviderCodex"
    "cred_Status c = CredentialUnknown" using sample_credentials by blast
  have "revocations_ok killed_db [(credential_1, 60)]"
    by (simp add: revocations_ok_def killed_tables references_def c)
  then show ?thesis
    by (simp add: ReserveVaultCredentialRevocation_def sql_insert_def count_rows_def killed_tables c
        active_session_def reserved_db_def) (simp add: killed_session_def)
qed

lemma sample_history: "store_op\<^sup>*\<^sup>* sample_db reserved_db"
proof -
  have "store_op sample_db killed_db" using transition_session [OF kill_sample] by (rule store_op.intros)
  moreover have "store_op killed_db reserved_db" using reserve [OF reserve_killed] by (rule store_op.intros)
  ultimately show ?thesis by (meson r_into_rtranclp rtranclp_trans)
qed

lemma reserved_db_ok: "db_ok reserved_db"
  by (rule store_ops_db_ok [OF sample_history sample_db_ok])

text \<open>Starting from a database that satisfies its schema (the empty one does), every history of
  store operations, of any length and in any order, ends in a database that satisfies all primary keys,
  unique indexes, foreign keys and CHECK constraints of its twenty-two tables.\<close>

theorem store_keeps_schema:
  assumes "db_ok d" "store_op\<^sup>*\<^sup>* d d'"
  shows "db_ok d'"
  by (rule store_ops_db_ok [OF assms(2,1)])

lemma store_keeps_schema_witness: "db_ok sample_db \<and> store_op\<^sup>*\<^sup>* sample_db reserved_db \<and> db_ok reserved_db"
  using store_keeps_schema [OF sample_db_ok sample_history] sample_db_ok sample_history by blast

text \<open>C8. The revocation fence: in every history of store operations, no Session is starting, running or
  stopping with a credential whose revocation is reserved - neither a new Session, a resumed one nor the
  consumption of a preview slips in between the reservation and its end.\<close>

theorem revocation_excludes_active:
  assumes "store_inv d" "store_op\<^sup>*\<^sup>* d d'" "(c, t) \<in> set (db_revocations d')"
    "s \<in> set (db_sessions d')" "ses_CredentialInstanceID s = c"
  shows "\<not> active_session s"
  using store_ops_inv [OF assms(2,1)] assms(3-5)
  by (force simp: store_inv_def reservation_safe_def list_all_iff)

lemma revocation_excludes_active_witness:
  "store_inv sample_db \<and> store_op\<^sup>*\<^sup>* sample_db reserved_db \<and> \<not> active_session killed_session"
  using revocation_excludes_active [OF sample_inv sample_history, of credential_1 60 killed_session]
    sample_inv sample_history
  by (simp add: reserved_db_def killed_db_def killed_session_def sample_session_def)

text \<open>C30. Every Session that can be read after any history of store operations is well-formed: valid
  identifiers, a canonical capability snapshot, an end time not before its start exactly when it is
  terminal, and a failure code when it failed.\<close>

theorem stored_sessions_wf:
  assumes "store_inv d" "store_op\<^sup>*\<^sup>* d d'" "Session_read k d' = Inr s"
  shows "session_wf s"
  using store_ops_inv [OF assms(2,1)] sessions_wf_read [OF _ assms(3)] by (simp add: store_inv_def)

lemma stored_sessions_wf_witness:
  "Session_read session_1 reserved_db = Inr killed_session \<and> session_wf killed_session"
proof -
  have "Session_read session_1 reserved_db = Inr killed_session"
    by (simp add: Session_read_def read_row_def reserved_db_def killed_db_def killed_session_def sample_session_def)
  then show ?thesis using stored_sessions_wf [OF sample_inv sample_history] by blast
qed

section \<open>Client identities\<close>

text \<open>No update of a client identity is lost: of any sequence of key rotations and revocations that
  all name the same revision of the same client, at most one succeeds, whatever else is attempted in
  between.\<close>

theorem client_one_winner:
  assumes "db_ok d"
  shows "cas_wins client_cas k n ops d \<le> 1"
  by (rule client_versions.one_winner [OF assms])

lemma client_one_winner_witness:
  "db_ok sample_db \<and>
   cas_wins client_cas client_1 1 [(client_1, 1, RevokeAt 5), (client_1, 1, RotateKey (replicate 32 7) 6)] sample_db \<le> 1"
  using client_one_winner [OF sample_db_ok] sample_db_ok by blast

text \<open>C11. A revoked client identity stays exactly as it was revoked through every later history of store
  operations: it is never reactivated, never gets another key and never another revision.\<close>

theorem revoked_client_final:
  assumes "db_ok d" "RevokeClientIdentity k n now d = Inr (c, d1)" "store_op\<^sup>*\<^sup>* d1 d2"
  shows "cli_Status c = ClientIdentityRevoked \<and> cli_Revision c = n + 1 \<and> ClientIdentity_read k d2 = Inr c"
proof -
  from assms(2) [unfolded RevokeClientIdentity_ok [OF assms(1)]]
  have "cli_Status c = ClientIdentityRevoked" "cli_Revision c = n + 1" "ClientIdentity_read k d1 = Inr c"
    using client_read_key [of k d] by (auto simp: client_read_update)
  moreover have "db_ok d1" using client_change_db_ok(2) [OF assms(2,1)] .
  ultimately show ?thesis using revoked_client_stays [OF assms(3)] by blast
qed

definition revoked_client :: ClientIdentity where
  "revoked_client = \<lparr>cli_ID = client_1, cli_Name = ''a'', cli_PublicKey = replicate 32 1, cli_Revision = 2,
       cli_Status = ClientIdentityRevoked, cli_Caps = [CapabilityMetadataRead], cli_CreatedAt = 1,
       cli_UpdatedAt = 9\<rparr>"

lemma revoked_client_final_witness:
  "\<exists>d1. RevokeClientIdentity client_1 1 9 sample_db = Inr (revoked_client, d1) \<and>
        ClientIdentity_read client_1 d1 = Inr revoked_client"
proof -
  have ne: "client_1 \<noteq> client_2" by (simp add: sample_ids)
  have b: "between (Suc 0) 128 ''a''" "between (Suc 0) 128 ''b''" by (simp_all add: between_def sql_length_def)
  have "\<exists>d1. RevokeClientIdentity client_1 1 9 sample_db = Inr (revoked_client, d1)"
    unfolding RevokeClientIdentity_ok [OF sample_db_ok]
    by (simp add: ClientIdentity_read_def read_row_def sample_db_def ne ne [symmetric] b revoked_client_def clients_ok_def
        update_rows_def)
  then obtain d1 where d1: "RevokeClientIdentity client_1 1 9 sample_db = Inr (revoked_client, d1)" ..
  then show ?thesis using revoked_client_final [OF sample_db_ok d1 rtranclp.rtrancl_refl] by blast
qed

section \<open>Sessions\<close>

text \<open>A status transition of a stored Session succeeds exactly when the Session has the expected status,
  the domain's machine allows the move and the row it makes meets the table's CHECK; then that one row
  changes in its status columns and nothing else does. In particular a failure code given for another
  target than \<open>failed\<close>, which the domain accepts, never gets past the table.\<close>

theorem transition_exact:
  assumes "db_ok d"
  shows "TransitionSession k e n now ec fc d = Inr (s', d') \<longleftrightarrow>
     (\<exists>s. Session_read k d = Inr s \<and> ses_Status s = e \<and> Transition s n now ec fc = Inr s' \<and>
          (n = SessionFailed \<or> fc = '''') \<and>
          d' = d\<lparr>db_sessions := update_rows (\<lambda>r. ses_ID r = k \<and> ses_Status r = e)
                 (\<lambda>r. r\<lparr>ses_Status := ses_Status s', ses_EndedAt := ses_EndedAt s',
                        ses_ExitCode := ses_ExitCode s', ses_FailureCode := ses_FailureCode s'\<rparr>)
                 (db_sessions d)\<rparr>)"
  by (rule TransitionSession_iff [OF assms])

lemma transition_exact_witness:
  "TransitionSession session_1 SessionRunning SessionKilled 50 None '''' sample_db = Inr (killed_session, killed_db) \<and>
   (\<forall>x. TransitionSession session_1 SessionRunning SessionKilled 50 None ''oom'' sample_db \<noteq> Inr x) \<and>
   Transition sample_session SessionKilled 50 None ''oom'' = Inr (killed_session\<lparr>ses_FailureCode := ''oom''\<rparr>)"
  using transition_exact [OF sample_db_ok, of session_1 SessionRunning SessionKilled 50 None "''oom''"] kill_sample
  by (simp add: Transition_ok sample_session_def killed_session_def Terminal_def split_paired_all)

text \<open>Of two callers that both saw a Session in the same status only one moves it: once a transition
  from \<open>e\<close> succeeded, every further transition that expects \<open>e\<close> is refused as a conflict, whatever its
  target; other Sessions are not affected.\<close>

theorem transition_once:
  assumes "db_ok d" "TransitionSession k e n now ec fc d = Inr (s', d')"
  shows "TransitionSession k e n2 now2 ec2 fc2 d' = fail CodeConflict ''session status changed'' \<and>
    (\<forall>j. j \<noteq> k \<longrightarrow> Session_read j d' = Session_read j d)"
proof -
  from assms(2) [unfolded TransitionSession_iff [OF assms(1)]] obtain s where
    s: "ses_Status s = e" "Transition s n now ec fc = Inr s'" by blast
  have "ses_Status s' \<noteq> e" using Transition_rank [OF s(2)] s(1) by auto
  then show ?thesis using TransitionSession_read [OF assms] by (simp add: TransitionSession_def)
qed

lemma transition_once_witness:
  "TransitionSession session_1 SessionRunning SessionFailed 51 None ''oom'' killed_db =
     fail CodeConflict ''session status changed''"
  using transition_once [OF sample_db_ok kill_sample] by blast

text \<open>What the domain's \<open>Resume\<close> builds from a stored Session is what the store's own check of the
  resumption source accepts: the two layers agree on the frozen fields.\<close>

theorem resume_accepted_by_store:
  assumes "store_inv d" "Session_read k d = Inr s" "Resume s i now = Inr s'"
  shows "validateResumeSource s' d = Inr ()"
  using Resume_accepted [OF _ _ assms(2,3)] assms(1) by (simp add: store_inv_def)

lemma killed_inv: "store_inv killed_db"
proof -
  have "store_op sample_db killed_db" using transition_session [OF kill_sample] by (rule store_op.intros)
  then show ?thesis using store_op_inv sample_inv by blast
qed

lemma killed_read: "Session_read session_1 killed_db = Inr killed_session"
  using TransitionSession_read [OF sample_db_ok kill_sample, of session_1] by simp

lemma resume_accepted_by_store_witness:
  "\<exists>s'. Resume killed_session session_2 70 = Inr s' \<and> validateResumeSource s' killed_db = Inr ()"
proof -
  have "session_2 \<noteq> session_1" "session_1 \<noteq> ''''" "account_1 \<noteq> ''''" by (simp_all add: sample_ids)
  then have "\<exists>s'. Resume killed_session session_2 70 = Inr s'"
    using sample_session_wf
    by (auto simp: Resume_iff killed_session_def sample_session_def Terminal_def NewSession_iff session_input_ok_def
        session_wf_def HasCapability_def)
  then obtain s' where s': "Resume killed_session session_2 70 = Inr s'" ..
  then show ?thesis using resume_accepted_by_store [OF killed_inv killed_read s'] by blast
qed

section \<open>Controller leases\<close>

text \<open>Of any sequence of writes to the controller lease of a Session that were all computed from the
  same stored revision, at most one is saved.\<close>

theorem lease_one_winner:
  assumes "db_ok d"
  shows "cas_wins lease_cas k n ops d \<le> 1"
  by (rule lease_versions.one_winner [OF assms])

definition sample_lease :: ControllerLease where
  "sample_lease = \<lparr>lease_SessionID = session_1, lease_HolderDeviceID = client_1, lease_Revision = 1,
     lease_ExpiresAt = 100, lease_LastHeartbeat = 50, lease_ReleasedAt = None\<rparr>"

lemma lease_one_winner_witness:
  "db_ok sample_db \<and> cas_wins lease_cas session_1 0
     [(session_1, 0, sample_lease), (session_1, 0, sample_lease\<lparr>lease_HolderDeviceID := client_2\<rparr>)] sample_db \<le> 1"
  using lease_one_winner [OF sample_db_ok] sample_db_ok by blast

text \<open>A successful save of the controller lease refines the domain's lease machine: when the saved
  lease is a step (acquire, heartbeat or release) from the stored one, the stored lease has made exactly
  that step and the leases of other Sessions are as before.\<close>

theorem lease_save_refines:
  assumes "db_ok d" "lease_step k (stored_lease k d) (Some l)" "lease_SessionID l = k"
    "SaveControllerLease l n d = Inr (u, d')"
  shows "lease_step k (stored_lease k d) (stored_lease k d') \<and> stored_lease k d' = Some l \<and>
    (\<forall>j. j \<noteq> k \<longrightarrow> stored_lease j d' = stored_lease j d)"
  using save_refines_step [OF assms] SaveControllerLease_spec [OF assms(1,4)] assms(3)
  by (simp add: stored_lease_def)

lemma lease_save_refines_witness:
  "\<exists>d'. SaveControllerLease sample_lease 0 sample_db = Inr ((), d') \<and> stored_lease session_1 d' = Some sample_lease"
proof -
  have "leases_ok sample_db [sample_lease]"
    by (simp add: leases_ok_def sample_lease_def sample_db_def empty_db_def references_def sample_session_def)
  then obtain d' where d': "SaveControllerLease sample_lease 0 sample_db = Inr ((), d')"
    by (simp add: SaveControllerLease_def sql_insert_def) (simp add: sample_lease_def sample_db_def empty_db_def)
  have "AcquireControllerLease None session_1 client_1 50 50 = Inr sample_lease"
    using sample_valid_ids(2,8) by (simp add: AcquireControllerLease_def sample_lease_def del: sample_valid_ids)
  then have "lease_step session_1 None (Some sample_lease)" by (rule lease_step.intros)
  moreover have "stored_lease session_1 sample_db = None"
    by (simp add: stored_lease_def ControllerLease_read_def read_row_def sample_db_def empty_db_def)
  ultimately show ?thesis
    using lease_save_refines [OF sample_db_ok _ _ d'] d' by (simp add: sample_lease_def)
qed

section \<open>Approvals\<close>

lemma Claim_result:
  assumes "ClaimApprovalDispatch aid pid rid key decision digest now d = Inr (a, d')"
  shows "Approval_read aid d' = Inr a \<and> app_ProviderApprovalID a = pid \<and> app_ResponseState a \<noteq> ApprovalResponseIdle \<and>
    app_RequestedDecision a = decision \<and> app_RespondedByDeviceID a = rid \<and> app_IdempotencyKey a = key \<and>
    app_DispatchDigest a = digest"
proof -
  let ?p = "\<lambda>r. app_ID r = aid \<and> app_Status r = ApprovalPending \<and> app_ResponseState r = ApprovalResponseIdle"
  let ?f = "claim_row decision rid key digest now"
  from assms obtain stored where find: "List.find (\<lambda>r. app_ID r = aid) (db_approvals d) = Some stored"
    and pid: "app_ProviderApprovalID stored = pid" and read: "Approval_read aid d' = Inr a"
    and run: "d' = d \<and> app_ResponseState stored \<noteq> ApprovalResponseIdle \<and> app_RequestedDecision stored = decision \<and>
        app_RespondedByDeviceID stored = rid \<and> app_IdempotencyKey stored = key \<and> app_DispatchDigest stored = digest \<or>
      ?p stored \<and> d' = d\<lparr>db_approvals := update_rows ?p ?f (db_approvals d)\<rparr>"
    by (auto simp: ClaimApprovalDispatch_def bindE_Inr sql_update_ok claim_row_def [abs_def]
        dest: find_key_Some split: if_splits option.splits)
  have stored: "Approval_read aid d = Inr stored" using find by (simp add: Approval_read_def read_row_ok)
  from run show ?thesis
  proof (elim disjE conjE)
    assume upd: "d' = d\<lparr>db_approvals := update_rows ?p ?f (db_approvals d)\<rparr>" and
      p: "app_ID stored = aid" "app_Status stored = ApprovalPending" "app_ResponseState stored = ApprovalResponseIdle"
    have "Approval_read aid d' = Inr (?f stored)"
      using read_update_approval [of ?f aid d stored ?p] stored p by (simp add: upd claim_row_def)
    then show ?thesis using read pid by (auto simp: claim_row_def)
  qed (use read stored pid in simp)
qed

text \<open>C26. The first decision wins: once a decision on an approval has been claimed, the same claim repeated
  (same responder, key, decision and digest) returns the same approval and changes nothing, and any
  other claim on it is refused as a conflict, also one that carries another decision of the same client.\<close>

theorem claim_once:
  assumes "ClaimApprovalDispatch aid pid rid key decision digest now d = Inr (a, d')"
    "claim_input_ok aid pid rid2 key2 decision2 digest2 now2"
  shows "ClaimApprovalDispatch aid pid rid2 key2 decision2 digest2 now2 d' =
    (if decision2 = decision \<and> rid2 = rid \<and> key2 = key \<and> digest2 = digest then Inr (a, d')
     else fail CodeConflict ''approval dispatch already has another decision'')"
  using Claim_result [OF assms(1)] Claim_stored [OF assms(2), of d' a] by auto

definition claimed_approval :: Approval where
  "claimed_approval = claim_row ApprovalDecisionApprove client_1 ''k'' digest_0 30 sample_approval"

lemma sample_approval_read: "Approval_read approval_1 sample_db = Inr sample_approval"
  by (simp add: Approval_read_def read_row_def sample_db_def sample_approval_def)

lemma claim_sample:
  "\<exists>d'. ClaimApprovalDispatch approval_1 ''p1'' client_1 ''k'' ApprovalDecisionApprove digest_0 30 sample_db =
     Inr (claimed_approval, d')"
proof -
  have "claim_input_ok approval_1 ''p1'' client_1 ''k'' ApprovalDecisionApprove digest_0 30"
    by (simp add: claim_input_ok_def)
  moreover have "references cli_ID (db_clients sample_db) client_1" by (simp add: references_def sample_db_def)
  ultimately show ?thesis using Claim_idle [OF sample_db_ok _ sample_approval_read]
    by (simp add: sample_approval_def claimed_approval_def sql_length_def)
qed

lemma claim_once_witness:
  "\<exists>d'. ClaimApprovalDispatch approval_1 ''p1'' client_1 ''k'' ApprovalDecisionApprove digest_0 30 sample_db =
      Inr (claimed_approval, d') \<and>
    ClaimApprovalDispatch approval_1 ''p1'' client_1 ''k'' ApprovalDecisionApprove digest_0 40 d' = Inr (claimed_approval, d') \<and>
    ClaimApprovalDispatch approval_1 ''p1'' client_2 ''k'' ApprovalDecisionDeny digest_1 40 d' =
      fail CodeConflict ''approval dispatch already has another decision''"
proof -
  obtain d' where d': "ClaimApprovalDispatch approval_1 ''p1'' client_1 ''k'' ApprovalDecisionApprove digest_0 30 sample_db =
     Inr (claimed_approval, d')" using claim_sample by blast
  have ok: "claim_input_ok approval_1 ''p1'' client_1 ''k'' ApprovalDecisionApprove digest_0 40"
    "claim_input_ok approval_1 ''p1'' client_2 ''k'' ApprovalDecisionDeny digest_1 40"
    using digest_0_decodes digest_1_decodes by (simp_all add: claim_input_ok_def)
  show ?thesis using claim_once [OF d' ok(1)] claim_once [OF d' ok(2)] d' by auto
qed

text \<open>C27. A recorded decision is final: through every later history of approval operations, the recovery
  after a restart included, an approval that has been decided can still be read and keeps its decision,
  responder, key and digest; once its response was written or became ambiguous nothing of it changes.\<close>

theorem decision_final:
  assumes "db_ok d" "approval_op\<^sup>*\<^sup>* d d'" "Approval_read aid d = Inr r" "app_ResponseState r \<noteq> ApprovalResponseIdle"
  shows "\<exists>r'. Approval_read aid d' = Inr r' \<and> app_RequestedDecision r' = app_RequestedDecision r \<and>
    app_RespondedByDeviceID r' = app_RespondedByDeviceID r \<and> app_IdempotencyKey r' = app_IdempotencyKey r \<and>
    app_DispatchDigest r' = app_DispatchDigest r \<and>
    (app_ResponseState r \<in> {ApprovalResponseWritten, ApprovalResponseAmbiguous} \<longrightarrow> r' = r)"
proof -
  have "approvals_progress d d'" using approval_ops_progress [OF assms(2,1)] ..
  then obtain r' where "Approval_read aid d' = Inr r'" "approval_progress r r'"
    using assms(3) unfolding approvals_progress_def by blast
  then show ?thesis using assms(4) unfolding approval_progress_def by blast
qed

lemma decision_final_witness:
  "\<exists>d1 d2 r. ClaimApprovalDispatch approval_1 ''p1'' client_1 ''k'' ApprovalDecisionApprove digest_0 30 sample_db =
      Inr (claimed_approval, d1) \<and>
    CompleteApprovalDispatch approval_1 digest_0 31 d1 = Inr (complete_row ApprovalApproved 31 claimed_approval, d2) \<and>
    Approval_read approval_1 d2 = Inr r \<and> app_RequestedDecision r = ApprovalDecisionApprove \<and>
    app_RespondedByDeviceID r = client_1"
proof -
  obtain d1 where d1: "ClaimApprovalDispatch approval_1 ''p1'' client_1 ''k'' ApprovalDecisionApprove digest_0 30 sample_db =
     Inr (claimed_approval, d1)" using claim_sample by blast
  have a: "app_DispatchDigest claimed_approval = digest_0" "app_ResponseState claimed_approval = ApprovalResponseDispatching"
    "app_RequestedDecision claimed_approval = ApprovalDecisionApprove" "app_RespondedByDeviceID claimed_approval = client_1"
    by (simp_all add: claimed_approval_def claim_row_def)
  have ok: "db_ok d1" using ClaimApprovalDispatch_db_ok [OF d1 sample_db_ok] .
  have read: "Approval_read approval_1 d1 = Inr claimed_approval" using Claim_result [OF d1] by blast
  obtain d2 where d2: "CompleteApprovalDispatch approval_1 digest_0 31 d1 =
      Inr (complete_row ApprovalApproved 31 claimed_approval, d2)"
    using Complete_dispatching [OF ok read a(1,2), of 31] a(3) by auto
  have "approval_op\<^sup>*\<^sup>* d1 d2" using approval_op.complete [OF d2] by blast
  from decision_final [OF ok this read] show ?thesis using d1 d2 a by fastforce
qed

text \<open>C28. Expiring the approvals after a restart (\<open>ExpirePendingApprovals\<close>, the second step of the
  recovery) leaves none pending: with a timestamp the step always succeeds, every approval that was
  idle or in flight becomes expired with an ambiguous response (keeping a decision it already had),
  and every other approval is untouched. (The recovery as a whole can fail in its other steps.)\<close>

theorem recovery_expires_pending:
  assumes "db_ok d" "now \<noteq> 0" "\<forall>k. between 64 64 (random_digest k)"
  shows "\<exists>d'. ExpirePendingApprovals random_digest now d = Inr ((), d') \<and>
    (\<forall>r \<in> set (db_approvals d'). \<not> pending_row r) \<and>
    (\<forall>aid r. Approval_read aid d = Inr r \<longrightarrow>
       Approval_read aid d' = Inr (if pending_row r then expire_row random_digest d now r else r) \<and>
       app_Status (expire_row random_digest d now r) = ApprovalExpired \<and>
       (app_RequestedDecision r \<noteq> NoDecision \<longrightarrow>
          app_RequestedDecision (expire_row random_digest d now r) = app_RequestedDecision r))"
proof -
  let ?f = "expire_row random_digest d now"
  let ?d = "d\<lparr>db_approvals := update_rows pending_row ?f (db_approvals d)\<rparr>"
  have id: "app_ID (?f r) = app_ID r" for r by (simp add: expire_row_def)
  have "\<not> pending_row (?f r)" for r by (simp add: expire_row_def pending_row_def)
  then have "\<forall>r \<in> set (db_approvals ?d). \<not> pending_row r" by (auto simp: update_rows_def)
  moreover have "Approval_read aid ?d = Inr (if pending_row r then ?f r else r)" if "Approval_read aid d = Inr r" for aid r
    by (rule read_update_approval [OF id that])
  ultimately show ?thesis using ExpirePending_succeeds [OF assms] by (simp add: expire_row_def)
qed

lemma recovery_expires_pending_witness:
  "\<exists>d' r. ExpirePendingApprovals (\<lambda>k. digest_1) 90 sample_db = Inr ((), d') \<and>
     Approval_read approval_1 d' = Inr r \<and> app_Status r = ApprovalExpired"
proof -
  have p: "pending_row sample_approval" by (simp add: pending_row_def sample_approval_def)
  have "\<forall>k::ID. between 64 64 digest_1" by simp
  from recovery_expires_pending [OF sample_db_ok _ this, of 90] show ?thesis
    using sample_approval_read p by fastforce
qed

section \<open>Login enrollments\<close>

text \<open>C25. Every history of enrollment operations - begin, claim, await, confirm, finish, seal, the expiry
  of one, of the due ones and of all after a restart - refines the abstract machine of an enrollment: a
  stored enrollment is never lost, its identity is frozen, its state only moves up and is final once
  terminal, a claimed completion digest, an awaited tuple and a given confirmation never change.\<close>

theorem enrollment_machine:
  assumes "db_ok d" "enrollment_op\<^sup>*\<^sup>* d d'" "AuthEnrollment_read k d = Inr r"
  shows "\<exists>r'. AuthEnrollment_read k d' = Inr r' \<and> enrollment_step r r'"
proof -
  have "db_ok d' \<and> enrollments_progress d d'" using enrollment_ops_kept [OF assms(2,1)] .
  then show ?thesis using enrollments_progress_read [OF _ _ assms(3)] by blast
qed

definition validating_enrollment :: AuthEnrollment where
  "validating_enrollment = claim_enrollment_row digest_0 6 sample_enrollment"

definition validating_db :: db where
  "validating_db = sample_db\<lparr>db_enrollments := [validating_enrollment]\<rparr>"

lemma sample_enrollment_read: "AuthEnrollment_read enrollment_1 sample_db = Inr sample_enrollment"
  by (simp add: AuthEnrollment_read_def read_row_def sample_db_def sample_enrollment_def)

lemma claim_sample_enrollment:
  "ClaimAuthEnrollment enrollment_1 client_1 digest_0 6 sample_db = (Inr validating_enrollment, validating_db)"
proof -
  have t: "text_before 6 (900 * second)" by (rule text_before_seconds) (simp add: second_def)
  have s: "6 < 900 * second" by (simp add: second_def)
  have e: "db_enrollments sample_db = [sample_enrollment]" by (simp add: sample_db_def)
  have row: "enrollments_ok sample_db [validating_enrollment]"
    using sample_db_ok
    by (simp add: db_ok_def enrollments_ok_def e validating_enrollment_def claim_enrollment_row_def
        enrollment_row_ok_def confirmation_tuple_ok_def active_enrollment_state_def)
  have "update_rows (\<lambda>r. enr_ID r = enrollment_1 \<and> enr_ClientDeviceID r = client_1 \<and> enr_State r = EnrollmentBegun \<and>
        text_before 6 (enr_ExpiresAt r)) (claim_enrollment_row digest_0 6) (db_enrollments sample_db) =
      [validating_enrollment]"
    using t by (simp add: e update_rows_def validating_enrollment_def) (simp add: sample_enrollment_def)
  moreover have "count_rows (\<lambda>r. enr_ID r = enrollment_1 \<and> enr_ClientDeviceID r = client_1 \<and>
        enr_State r = EnrollmentBegun \<and> text_before 6 (enr_ExpiresAt r)) (db_enrollments sample_db) = 1"
    using t by (simp add: e count_rows_def) (simp add: sample_enrollment_def)
  moreover have "AuthEnrollment_read enrollment_1 validating_db = Inr validating_enrollment"
    by (simp add: AuthEnrollment_read_def read_row_def validating_db_def validating_enrollment_def
        claim_enrollment_row_def sample_enrollment_def)
  moreover have "enr_ClientDeviceID sample_enrollment = client_1" "enr_State sample_enrollment = EnrollmentBegun"
    "enr_ExpiresAt sample_enrollment = 900 * second" by (simp_all add: sample_enrollment_def)
  ultimately show ?thesis using row s digest_0_decodes
    by (simp add: ClaimAuthEnrollment_def sample_enrollment_read sql_update_def claim_enrollment_row_def [abs_def]
        validating_db_def Let_def)
qed

lemma enrollment_machine_witness:
  "enrollment_op sample_db validating_db \<and>
   (\<exists>r'. AuthEnrollment_read enrollment_1 validating_db = Inr r' \<and> enrollment_step sample_enrollment r')"
proof -
  have op: "enrollment_op sample_db validating_db"
    by (rule enrollment_op.claim_enrollment [OF claim_sample_enrollment])
  then show ?thesis using enrollment_machine [OF sample_db_ok _ sample_enrollment_read] by blast
qed

text \<open>C12. A login never succeeds behind its owner's back: in a database where every succeeded enrollment was
  confirmed by the client that began it (the empty one, say), this stays so through every history of
  enrollment operations.\<close>

theorem success_needs_owner:
  assumes "db_ok d" "list_all sealed_by_owner (db_enrollments d)" "enrollment_op\<^sup>*\<^sup>* d d'"
    "AuthEnrollment_read k d' = Inr r" "enr_State r = EnrollmentSucceeded"
  shows "enr_ConfirmedByClientID r = enr_ClientDeviceID r"
proof -
  have "enrollments_progress d d'" using enrollment_ops_kept [OF assms(3,1)] by blast
  then have "list_all sealed_by_owner (db_enrollments d')" by (rule sealed_by_owner_progress [OF _ assms(2)])
  then show ?thesis using read_row_key [OF assms(4) [unfolded AuthEnrollment_read_def]] assms(5)
    by (simp add: list_all_iff sealed_by_owner_def)
qed

lemma success_needs_owner_witness:
  "enrollment_op confirmed_db sealed_db \<and>
   (\<exists>r. AuthEnrollment_read enrollment_1 sealed_db = Inr r \<and> enr_State r = EnrollmentSucceeded \<and>
        enr_ConfirmedByClientID r = enr_ClientDeviceID r)"
proof -
  let ?r = "confirmed_enrollment\<lparr>enr_State := EnrollmentSucceeded, enr_UpdatedAt := 8\<rparr>"
  have op: "enrollment_op confirmed_db sealed_db" by (rule enrollment_op.seal [OF seal_sample])
  have read: "AuthEnrollment_read enrollment_1 sealed_db = Inr ?r"
    by (simp add: AuthEnrollment_read_def read_row_def sealed_db_def confirmed_enrollment_def sample_enrollment_def)
  have "list_all sealed_by_owner (db_enrollments confirmed_db)"
    by (simp add: confirmed_db_def sealed_by_owner_def confirmed_enrollment_def)
  from success_needs_owner [OF confirmed_db_ok this _ read] show ?thesis using op read by auto
qed

text \<open>A seal is a compare-and-swap on the credential: it succeeds only while the credential is live, not
  being revoked and at the expected revision; then the credential is at the next revision with the new
  digest and status, its vault item holds exactly the new ciphertext at that same revision, and no other
  credential changes.\<close>

theorem seal_moves_item_and_revision:
  assumes "replaceVaultItemCAS n item st e c dg d = Inr (u, d')" "db_ok d" "revisions_in_range d"
  shows "\<exists>cr v. CredentialInstance_read (vi_CredentialInstanceID item) d = Inr cr \<and> cred_CredentialRevision cr = n \<and>
     vi_CredentialRevision item = n + 1 \<and> cred_Status cr \<notin> {CredentialRevoked, CredentialExpired} \<and>
     count_rows (\<lambda>r. fst r = vi_CredentialInstanceID item) (db_revocations d) = 0 \<and>
     (\<forall>j. CredentialInstance_read j d' =
        (if j = vi_CredentialInstanceID item then Inr (sealed_credential item st cr) else CredentialInstance_read j d)) \<and>
     List.find (\<lambda>r. vi_CredentialInstanceID r = vi_CredentialInstanceID item) (db_vault_items d') = Some v \<and>
     item_secret v = item_secret item"
  by (rule seal_effect [OF assms])

lemma seal_moves_item_and_revision_witness:
  "\<exists>cr. CredentialInstance_read credential_1 confirmed_db = Inr cr \<and> cred_CredentialRevision cr = 1 \<and>
     CredentialInstance_read credential_1 sealed_db = Inr (sealed_credential sample_item CredentialHealthy cr)"
proof -
  have run: "replaceVaultItemCAS 1 sample_item CredentialHealthy enrollment_1 client_1 digest_1 confirmed_db = Inr ((), sealed_db)"
    using seal_sample by (auto simp: ReplaceVaultItemEnrollmentCAS_def split: if_splits)
  have "revisions_in_range confirmed_db" by (simp add: revisions_in_range_def confirmed_db_def sample_db_def)
  from seal_moves_item_and_revision [OF run confirmed_db_ok this] show ?thesis
    by (auto simp: sample_item_def)
qed

text \<open>Two devices never both rewrap a credential from the same revision: of any sequence of seals that
  name the same credential and revision at most one succeeds.\<close>

theorem seal_one_winner:
  assumes "db_ok d" "revisions_in_range d"
  shows "cas_wins seal_cas k n ops d \<le> 1"
  using credential_versions.one_winner assms by blast

lemma seal_one_winner_witness:
  "cas_wins seal_cas credential_1 1
     [(credential_1, 1, (sample_item, CredentialHealthy)), (credential_1, 1, (sample_item, CredentialUnknown))] sample_db \<le> 1"
  by (rule seal_one_winner [OF sample_db_ok]) (simp add: revisions_in_range_def sample_db_def)

lemma Finalize_already:
  assumes "FinalizeVaultCredentialRevocation c now d = Inr (cr, d')"
    "CredentialInstance_read c d = Inr old" "cred_Status old = CredentialRevoked"
  shows "cr = old \<and> db_vault_items d' = db_vault_items d \<and> db_sessions d' = db_sessions d"
proof -
  have find: "List.find (\<lambda>r. cred_ID r = c) (db_credentials d) = Some old"
    using assms(2) by (simp add: CredentialInstance_read_def read_row_ok)
  then obtain m d1 where d1: "clear_bindings m c now d = Inr d1" "d' = clear_reservation c d1"
    "CredentialInstance_read c d' = Inr cr"
    using assms(1,3) by (auto simp: FinalizeVaultCredentialRevocation_def bindE_Inr split: if_splits)
  then have "db_credentials d' = db_credentials d \<and> db_vault_items d' = db_vault_items d \<and> db_sessions d' = db_sessions d"
    by (auto simp: clear_bindings_def clear_reservation_def bindE_Inr)
  then show ?thesis using assms(2) d1(3) by (simp add: CredentialInstance_read_def)
qed

text \<open>C29. A finalized revocation of a credential that was not revoked yet leaves nothing to log in with:
  its vault item is gone, its digest is zeroed and none of its Sessions is active. In every case the
  credential is revoked and stays readable as such, and no reservation and no public profile binding
  to it is left. A credential that was revoked already comes back as it was, and its vault items and
  the Sessions stay as they are: a revocation that only set the status (\<open>UpdateCredentialStatus\<close>) is
  taken for a replay and keeps the item. Finalizing again, at any later time, returns the same
  credential and changes nothing.\<close>

theorem finalize_revokes:
  assumes "FinalizeVaultCredentialRevocation c now d = Inr (cr, d')" "db_ok d" "now2 \<noteq> 0"
  shows "cred_Status cr = CredentialRevoked \<and> CredentialInstance_read c d' = Inr cr \<and> unbound c d' \<and>
    (\<forall>old. CredentialInstance_read c d = Inr old \<and> cred_Status old \<noteq> CredentialRevoked \<longrightarrow>
       list_all (\<lambda>v. vi_CredentialInstanceID v \<noteq> c) (db_vault_items d') \<and>
       cred_SecretDigest cr = replicate 64 CHR ''0'' \<and>
       list_all (\<lambda>s. ses_CredentialInstanceID s = c \<longrightarrow> \<not> active_session s) (db_sessions d')) \<and>
    (\<forall>old. CredentialInstance_read c d = Inr old \<and> cred_Status old = CredentialRevoked \<longrightarrow>
       cr = old \<and> db_vault_items d' = db_vault_items d \<and> db_sessions d' = db_sessions d) \<and>
    FinalizeVaultCredentialRevocation c now2 d' = Inr (cr, d')"
  using Finalize_effect [OF assms(1,2)] Finalize_again [OF assms] Finalize_already [OF assms(1)] by blast

definition revoked_db :: db where
  "revoked_db = reserved_db\<lparr>db_revocations := [],
     db_credentials := map (\<lambda>r. r\<lparr>cred_Status := CredentialRevoked, cred_SecretDigest := replicate 64 CHR ''0'',
       cred_UpdatedAt := 61\<rparr>) (db_credentials sample_db)\<rparr>"

lemma finalize_reserved:
  "\<exists>cr. FinalizeVaultCredentialRevocation credential_1 61 reserved_db = Inr (cr, revoked_db)"
proof -
  obtain c where c: "db_credentials sample_db = [c]" "cred_ID c = credential_1" "cred_Provider c = ProviderCodex"
    "cred_Status c = CredentialUnknown" using sample_credentials by blast
  let ?c = "c\<lparr>cred_Status := CredentialRevoked, cred_SecretDigest := replicate 64 CHR ''0'', cred_UpdatedAt := 61\<rparr>"
  obtain p where p: "db_profiles sample_db = [p]" "prof_CredentialInstanceID p = ''''" by (simp add: sample_db_def)
  have tables: "db_vault_items reserved_db = []" "db_profiles reserved_db = [p]" "db_credentials reserved_db = [c]"
    "db_revocations reserved_db = [(credential_1, 60)]" "db_sessions reserved_db = [killed_session]"
    by (simp_all add: reserved_db_def killed_db_def sample_tables c p)
  have same: "reserved_db\<lparr>db_profiles := [p]\<rparr> = reserved_db"
    by (simp add: reserved_db_def killed_db_def flip: p(1))
  have same2: "reserved_db\<lparr>db_vault_items := []\<rparr> = reserved_db"
    by (simp add: reserved_db_def killed_db_def flip: sample_tables(2))
  have ok: "profiles_ok reserved_db [p]" "credentials_ok reserved_db [c]"
    using reserved_db_ok tables by (simp_all add: db_ok_def)
  have "credentials_ok reserved_db [?c]"
    using ok(2) digest_between(1) by (simp add: credentials_ok_def digest_0_def)
  moreover have "count_rows (\<lambda>r. ses_CredentialInstanceID r = credential_1 \<and> active_session r) (db_sessions reserved_db) = 0"
    by (simp add: tables count_rows_def active_session_def killed_session_def)
  ultimately show ?thesis
    using ok sample_nonempty
    by (simp add: FinalizeVaultCredentialRevocation_def clear_bindings_def clear_reservation_def delete_rows_def
        sql_update_def update_rows_def count_rows_def CredentialInstance_read_def read_row_def tables c p same same2 Let_def)
       (simp_all add: revoked_db_def c)
qed

lemma finalize_revokes_witness:
  "\<exists>cr. FinalizeVaultCredentialRevocation credential_1 61 reserved_db = Inr (cr, revoked_db) \<and>
     cred_Status cr = CredentialRevoked \<and> FinalizeVaultCredentialRevocation credential_1 99 revoked_db = Inr (cr, revoked_db)"
proof -
  obtain cr where cr: "FinalizeVaultCredentialRevocation credential_1 61 reserved_db = Inr (cr, revoked_db)"
    using finalize_reserved by blast
  from finalize_revokes [OF cr reserved_db_ok, of 99] show ?thesis using cr by simp
qed

section \<open>Session previews\<close>

text \<open>C9. A confirmed preview starts exactly one Session: the first consumption that succeeds inserts one
  starting Session, and afterwards any request for that preview - repeated, altered or from another
  client - leaves the store as it is and either fails or returns that same Session.\<close>

theorem preview_starts_one_session:
  assumes "db_ok d" "SessionStartPreview_read (req_PreviewID request) d = Inr p" "prev_ConsumedAt p = None"
    "ConsumeSessionStartPreview request d = (Inr s, d')" "req_PreviewID request2 = req_PreviewID request"
  shows "db_sessions d' = db_sessions d @ [s] \<and> ses_Status s = SessionStarting \<and>
    snd (ConsumeSessionStartPreview request2 d') = d' \<and>
    (\<forall>s2. fst (ConsumeSessionStartPreview request2 d') = Inr s2 \<longrightarrow>
       s2 = s \<and> req_RequestDigest request2 = req_RequestDigest request \<and> req_ClientID request2 = req_ClientID request)"
proof -
  note fresh = Consume_fresh [OF assms(1,4,2,3)]
  have ok: "db_ok d'" using Consume_db_ok assms(1,4) by blast
  let ?p = "consume_row request (ses_ID s) p"
  have read: "SessionStartPreview_read (req_PreviewID request2) d' = Inr ?p" "prev_ConsumedAt ?p \<noteq> None"
    using fresh assms(5) by (simp_all add: consume_row_def)
  have "Session_read (ses_ID s) d' = Inr s"
    using find_key_unique [OF db_ok_tables(5) [OF ok], of s] fresh by (simp add: Session_read_def read_row_ok)
  then show ?thesis using fresh Consume_consumed [OF ok read] by (auto simp: consume_row_def)
qed

lemma sample_preview_read: "SessionStartPreview_read (req_PreviewID sample_request) ready_db = Inr sample_preview"
  by (simp add: SessionStartPreview_read_def read_row_def ready_tables sample_preview_def sample_request_def)

lemma preview_starts_one_session_witness:
  "ConsumeSessionStartPreview sample_request ready_db = (Inr started_session, started_db) \<and>
   snd (ConsumeSessionStartPreview (sample_request\<lparr>req_RequestDigest := digest_0\<rparr>) started_db) = started_db"
  using preview_starts_one_session [OF ready_db_ok sample_preview_read _ consume_sample,
      of "sample_request\<lparr>req_RequestDigest := digest_0\<rparr>"] consume_sample
  by (simp add: sample_preview_def)

text \<open>What the checks of the transaction say of the rows.\<close>

lemma order_by_head:
  assumes "\<And>x y. before x y \<Longrightarrow> \<not> before y x"
    and "\<And>x y z. \<not> before x y \<Longrightarrow> \<not> before y z \<Longrightarrow> \<not> before x z"
  shows "order_by before rows = u # us \<Longrightarrow> \<forall>v \<in> set rows. \<not> before v u"
proof (induction rows arbitrary: u us)
  case (Cons x rows)
  obtain ys where ys: "order_by before rows = ys" by simp
  have ins: "order_by before (x # rows) = insert_row before x ys" by (simp add: order_by_def flip: ys)
  show ?case
  proof (cases ys)
    case Nil
    then have "rows = []" using length_order_by [of before rows] ys by simp
    then show ?thesis using Cons.prems ins Nil assms(1) [of x x] by auto
  next
    case (Cons y ys')
    have y: "\<forall>v \<in> set rows. \<not> before v y" using Cons.IH ys Cons by simp
    show ?thesis
    proof (cases "before y x")
      case True
      then show ?thesis using Cons.prems ins Cons y assms(1) by auto
    next
      case False
      then have "u = x" using Cons.prems ins Cons by simp
      then show ?thesis using False y assms(2) [of _ y x] assms(1) [of x x] by auto
    qed
  qed
qed (simp add: order_by_def)

text \<open>The newest row comes first, rows of the same time by descending identifier.\<close>

definition newer :: "UsageSnapshot \<Rightarrow> UsageSnapshot \<Rightarrow> bool" where
  "newer x y \<longleftrightarrow> text_before (use_ObservedAt y) (use_ObservedAt x) \<or>
     (use_ObservedAt x = use_ObservedAt y \<and> use_ID y < use_ID x)"

lemma not_newer: "\<not> newer x y \<longleftrightarrow> text_before (use_ObservedAt x) (use_ObservedAt y) \<or>
     (use_ObservedAt x = use_ObservedAt y \<and> use_ID x \<le> use_ID y)"
  unfolding newer_def not_less [symmetric]
  by (metis text_before_total text_before_trans text_before_irrefl)

lemma newer_asym: "newer x y \<Longrightarrow> \<not> newer y x"
  unfolding not_newer by (auto simp: newer_def)

lemma not_newer_trans: "\<not> newer x y \<Longrightarrow> \<not> newer y z \<Longrightarrow> \<not> newer x z"
  unfolding not_newer by (metis text_before_trans order.trans)

lemma latest_usage_Some:
  assumes "latest_usage a d = Some i"
  shows "\<exists>u \<in> set (db_usages d). use_ID u = i \<and> use_AccountID u = a \<and>
    (\<forall>v \<in> set (db_usages d). use_AccountID v = a \<longrightarrow> \<not> text_before (use_ObservedAt u) (use_ObservedAt v))"
proof -
  let ?rows = "filter (\<lambda>r. use_AccountID r = a) (db_usages d)"
  obtain u us where u: "order_by newer ?rows = u # us" "use_ID u = i"
    using assms by (auto simp: latest_usage_def newer_def [abs_def] split: list.splits)
  have "u \<in> set (order_by newer ?rows)" using u(1) by simp
  then have "u \<in> set ?rows" by (simp only: set_order_by)
  moreover have "\<forall>v \<in> set ?rows. \<not> newer v u"
    by (rule order_by_head [OF newer_asym not_newer_trans u(1)])
  ultimately show ?thesis using u(2) by (intro bexI [of _ u]) (simp_all add: newer_def)
qed

lemma latest_usage_None: "latest_usage a d = None \<Longrightarrow> u \<in> set (db_usages d) \<Longrightarrow> use_AccountID u \<noteq> a"
  using length_order_by by (auto simp: latest_usage_def filter_empty_conv split: list.splits dest!: arg_cong [where f = length])

lemma find_row: "List.find q rows = Some r \<Longrightarrow> r \<in> set rows \<and> q r"
  by (auto simp: find_Some_iff)

lemma still_bound_rows:
  assumes "preview_still_bound p d = Inr ()"
  shows "\<exists>a \<in> set (db_accounts d). acc_ID a = prev_AccountID p \<and> acc_Provider a = ProviderCodex \<and>
      \<not> acc_Internal a \<and> acc_Enabled a \<and> acc_Revision a = prev_AccountRevision p"
    and "\<exists>r \<in> set (db_profiles d). prof_ID r = prev_RuntimeProfileID p \<and> prof_AccountID r = prev_AccountID p \<and>
      prof_DeviceID r = prev_DeviceID p \<and> prof_Provider r = ProviderCodex \<and> \<not> prof_Internal r \<and> prof_Enabled r \<and>
      prof_Revision r = prev_ProfileRevision p \<and> prof_CredentialInstanceID r = prev_CredentialInstanceID p"
    and "\<exists>c \<in> set (db_credentials d). cred_ID c = prev_CredentialInstanceID p \<and> cred_AccountID c = prev_AccountID p \<and>
      cred_DeviceID c = prev_DeviceID p \<and> cred_Provider c = ProviderCodex \<and> cred_Status c = CredentialHealthy \<and>
      cred_CredentialRevision c = prev_CredentialRevision p"
    and "case latest_usage (prev_AccountID p) d of Some u \<Rightarrow> u = prev_UsageSnapshotID p | None \<Rightarrow> prev_UsageSnapshotID p = ''''"
proof -
  from assms obtain a r c where rows:
    "List.find (\<lambda>r. acc_ID r = prev_AccountID p \<and> acc_Provider r = ProviderCodex \<and> \<not> acc_Internal r) (db_accounts d) = Some a"
    "acc_Enabled a" "acc_Revision a = prev_AccountRevision p"
    "List.find (\<lambda>r. prof_ID r = prev_RuntimeProfileID p \<and> prof_AccountID r = prev_AccountID p \<and>
       prof_DeviceID r = prev_DeviceID p \<and> prof_Provider r = ProviderCodex \<and> \<not> prof_Internal r) (db_profiles d) = Some r"
    "prof_Enabled r" "prof_Revision r = prev_ProfileRevision p" "prof_CredentialInstanceID r = prev_CredentialInstanceID p"
    "List.find (\<lambda>r. cred_ID r = prev_CredentialInstanceID p \<and> cred_AccountID r = prev_AccountID p \<and>
       cred_DeviceID r = prev_DeviceID p \<and> cred_Provider r = ProviderCodex) (db_credentials d) = Some c"
    "cred_Status c = CredentialHealthy" "cred_CredentialRevision c = prev_CredentialRevision p"
    "case latest_usage (prev_AccountID p) d of Some u \<Rightarrow> u = prev_UsageSnapshotID p | None \<Rightarrow> prev_UsageSnapshotID p = ''''"
    unfolding preview_still_bound_def by (auto split: option.splits if_splits)
  note found = find_row [OF rows(1)] find_row [OF rows(4)] find_row [OF rows(8)]
  show "\<exists>a \<in> set (db_accounts d). acc_ID a = prev_AccountID p \<and> acc_Provider a = ProviderCodex \<and>
      \<not> acc_Internal a \<and> acc_Enabled a \<and> acc_Revision a = prev_AccountRevision p"
    using found(1) rows(2,3) by blast
  show "\<exists>r \<in> set (db_profiles d). prof_ID r = prev_RuntimeProfileID p \<and> prof_AccountID r = prev_AccountID p \<and>
      prof_DeviceID r = prev_DeviceID p \<and> prof_Provider r = ProviderCodex \<and> \<not> prof_Internal r \<and> prof_Enabled r \<and>
      prof_Revision r = prev_ProfileRevision p \<and> prof_CredentialInstanceID r = prev_CredentialInstanceID p"
    using found(2) rows(5-7) by blast
  show "\<exists>c \<in> set (db_credentials d). cred_ID c = prev_CredentialInstanceID p \<and> cred_AccountID c = prev_AccountID p \<and>
      cred_DeviceID c = prev_DeviceID p \<and> cred_Provider c = ProviderCodex \<and> cred_Status c = CredentialHealthy \<and>
      cred_CredentialRevision c = prev_CredentialRevision p"
    using found(3) rows(9,10) by blast
  show "case latest_usage (prev_AccountID p) d of Some u \<Rightarrow> u = prev_UsageSnapshotID p | None \<Rightarrow> prev_UsageSnapshotID p = ''''"
    by (rule rows(11))
qed

lemma links_workspace:
  assumes "validateSessionLinks s d = Inr ()"
  shows "\<exists>w. List.find (\<lambda>r. ws_ID r = ses_WorkspaceID s) (db_workspaces d) = Some w \<and> w \<in> set (db_workspaces d) \<and>
      ws_ID w = ses_WorkspaceID s \<and> ws_DeviceID w = ses_DeviceID s"
    and "ses_CredentialInstanceID s \<notin> fst ` set (db_revocations d)"
  using assms
  by (auto simp: validateSessionLinks_def bindE_Inr find_Some_iff count_rows_def filter_empty_conv split: option.splits if_splits)

lemma consumed_workspace:
  assumes "consume_tx request v c d = Inr (sid, d')" "SessionStartPreview_read (req_PreviewID request) d = Inr p"
    "prev_ConsumedAt p = None"
  shows "\<exists>w. List.find (\<lambda>r. ws_ID r = prev_WorkspaceID p) (db_workspaces d) = Some w \<and>
    ws_UpdatedAt w = prev_WorkspaceUpdatedAt p"
  using assms
  by (auto simp: consume_tx_def SessionStartPreview_read_def read_row_ok bindE_Inr split: if_splits option.splits)

lemma consumed_first:
  assumes "db_ok d" "ConsumeSessionStartPreview request d = (Inr s, d')"
    "SessionStartPreview_read (req_PreviewID request) d = Inr p" "prev_ConsumedAt p = None"
  shows "session_matches_preview s p" "\<exists>w. List.find (\<lambda>r. ws_ID r = prev_WorkspaceID p) (db_workspaces d) = Some w \<and>
    ws_UpdatedAt w = prev_WorkspaceUpdatedAt p"
proof -
  from Consume_ok [OF assms(2)] obtain v c sid where
    tx: "consume_tx request v c d = Inr (sid, d')" and read: "Session_read sid d' = Inr s" by blast
  note cases = consume_tx_cases [OF tx assms(3)]
  have f: "session_matches_preview v p" "sid = ses_ID v" "sessions_ok d (db_sessions d @ [reserved_session v c])"
    using cases(3) [OF assms(4)] by blast+
  have "List.find (\<lambda>x. ses_ID x = ses_ID (reserved_session v c)) (db_sessions d @ [reserved_session v c]) = Some (reserved_session v c)"
    using f(3) by (intro find_key_unique) (simp_all add: sessions_ok_def)
  then have "s = reserved_session v c"
    using read f(2) by (simp add: cases(4) [OF assms(4)] Session_read_def read_row_ok reserved_session_def)
  then show "session_matches_preview s p" using f(1) by (simp add: session_matches_preview_def reserved_session_def)
  show "\<exists>w. List.find (\<lambda>r. ws_ID r = prev_WorkspaceID p) (db_workspaces d) = Some w \<and> ws_UpdatedAt w = prev_WorkspaceUpdatedAt p"
    by (rule consumed_workspace [OF tx assms(3,4)])
qed

text \<open>C10. What the user confirmed is what starts. A first consumption succeeds only for the preview's own
  client before the preview expires, with a confirmation that repeats every identifier, revision and
  fingerprint of the preview. The Session it makes is a new one and runs exactly the previewed
  account, profile, credential, device and workspace. And what the preview showed is still so in the
  database: the account is public, enabled and at its revision; the profile is enabled, at its
  revision and bound to the credential; the credential is healthy, at its revision and not being
  revoked; the workspace belongs to the device and was not updated since; and the newest usage
  snapshot of the account is the previewed one, or there is none as in the preview.\<close>

theorem preview_binding_rechecked:
  assumes "db_ok d" "SessionStartPreview_read (req_PreviewID request) d = Inr p" "prev_ConsumedAt p = None"
    "ConsumeSessionStartPreview request d = (Inr s, d')" "c = req_Confirmation request"
  shows "prev_ClientID p = req_ClientID request \<and> req_At request < prev_ExpiresAt p \<and> conf_Confirmed c \<and>
    conf_AccountID c = prev_AccountID p \<and> conf_AccountRevision c = prev_AccountRevision p \<and>
    conf_RuntimeProfileID c = prev_RuntimeProfileID p \<and> conf_ProfileRevision c = prev_ProfileRevision p \<and>
    conf_CredentialInstanceID c = prev_CredentialInstanceID p \<and> conf_CredentialRevision c = prev_CredentialRevision p \<and>
    conf_DeviceID c = prev_DeviceID p \<and> conf_WorkspaceID c = prev_WorkspaceID p \<and>
    conf_UsageSnapshotID c = prev_UsageSnapshotID p \<and> conf_ProviderVersion c = prev_ProviderVersion p \<and>
    req_BinaryFingerprint request = prev_BinaryFingerprint p \<and> req_SchemaFingerprint request = prev_SchemaFingerprint p \<and>
    req_CapabilityDigest request = prev_CapabilityDigest p \<and>
    ses_ID s \<notin> ses_ID ` set (db_sessions d) \<and> ses_Status s = SessionStarting \<and> ses_Provider s = ProviderCodex \<and>
    ses_AccountID s = prev_AccountID p \<and> ses_RuntimeProfileID s = prev_RuntimeProfileID p \<and>
    ses_CredentialInstanceID s = prev_CredentialInstanceID p \<and> ses_DeviceID s = prev_DeviceID p \<and>
    ses_WorkspaceID s = prev_WorkspaceID p \<and>
    (\<exists>a \<in> set (db_accounts d). acc_ID a = prev_AccountID p \<and> acc_Provider a = ProviderCodex \<and>
       \<not> acc_Internal a \<and> acc_Enabled a \<and> acc_Revision a = prev_AccountRevision p) \<and>
    (\<exists>r \<in> set (db_profiles d). prof_ID r = prev_RuntimeProfileID p \<and> prof_AccountID r = prev_AccountID p \<and>
       prof_DeviceID r = prev_DeviceID p \<and> prof_Provider r = ProviderCodex \<and> \<not> prof_Internal r \<and> prof_Enabled r \<and>
       prof_Revision r = prev_ProfileRevision p \<and> prof_CredentialInstanceID r = prev_CredentialInstanceID p) \<and>
    (\<exists>k \<in> set (db_credentials d). cred_ID k = prev_CredentialInstanceID p \<and> cred_AccountID k = prev_AccountID p \<and>
       cred_DeviceID k = prev_DeviceID p \<and> cred_Provider k = ProviderCodex \<and> cred_Status k = CredentialHealthy \<and>
       cred_CredentialRevision k = prev_CredentialRevision p) \<and>
    prev_CredentialInstanceID p \<notin> fst ` set (db_revocations d) \<and>
    (\<exists>w \<in> set (db_workspaces d). ws_ID w = prev_WorkspaceID p \<and> ws_DeviceID w = prev_DeviceID p \<and>
       ws_UpdatedAt w = prev_WorkspaceUpdatedAt p) \<and>
    (prev_UsageSnapshotID p = '''' \<and> (\<forall>u \<in> set (db_usages d). use_AccountID u \<noteq> prev_AccountID p) \<or>
     (\<exists>u \<in> set (db_usages d). use_ID u = prev_UsageSnapshotID p \<and> use_AccountID u = prev_AccountID p \<and>
        (\<forall>v \<in> set (db_usages d). use_AccountID v = prev_AccountID p \<longrightarrow>
           \<not> text_before (use_ObservedAt u) (use_ObservedAt v))))"
proof -
  have f: "ses_Status s = SessionStarting" "ses_ID s \<notin> ses_ID ` set (db_sessions d)"
    "prev_ClientID p = req_ClientID request" "req_At request < prev_ExpiresAt p"
    "confirmation_matches request p" "preview_still_bound p d = Inr ()" "validateSessionLinks s d = Inr ()"
    using Consume_fresh [OF assms(1,4,2,3)] by blast+
  note first = consumed_first [OF assms(1,4,2,3)]
  note match = first(1) [unfolded session_matches_preview_def]
  from first(2) obtain w where w: "List.find (\<lambda>r. ws_ID r = prev_WorkspaceID p) (db_workspaces d) = Some w"
    "ws_UpdatedAt w = prev_WorkspaceUpdatedAt p" by blast
  have ws: "\<exists>w \<in> set (db_workspaces d). ws_ID w = prev_WorkspaceID p \<and> ws_DeviceID w = prev_DeviceID p \<and>
      ws_UpdatedAt w = prev_WorkspaceUpdatedAt p"
    using links_workspace(1) [OF f(7)] w match by auto
  have usage: "prev_UsageSnapshotID p = '''' \<and> (\<forall>u \<in> set (db_usages d). use_AccountID u \<noteq> prev_AccountID p) \<or>
     (\<exists>u \<in> set (db_usages d). use_ID u = prev_UsageSnapshotID p \<and> use_AccountID u = prev_AccountID p \<and>
        (\<forall>v \<in> set (db_usages d). use_AccountID v = prev_AccountID p \<longrightarrow> \<not> text_before (use_ObservedAt u) (use_ObservedAt v)))"
    using still_bound_rows(4) [OF f(6)] latest_usage_Some [of "prev_AccountID p" d] latest_usage_None [of "prev_AccountID p" d]
    by (auto split: option.splits)
  have revocations: "prev_CredentialInstanceID p \<notin> fst ` set (db_revocations d)"
    using links_workspace(2) [OF f(7)] match by simp
  note confirmed = f(5) [unfolded confirmation_matches_def Let_def]
  show ?thesis
    using f(1-4) match confirmed still_bound_rows(1-3) [OF f(6)] revocations ws usage
    unfolding assms(5) by (elim conjE) (intro conjI; assumption)
qed

lemma preview_binding_rechecked_witness:
  "ConsumeSessionStartPreview sample_request ready_db = (Inr started_session, started_db) \<and>
   conf_AccountRevision (req_Confirmation sample_request) = prev_AccountRevision sample_preview \<and>
   (\<exists>w \<in> set (db_workspaces ready_db). ws_UpdatedAt w = prev_WorkspaceUpdatedAt sample_preview)"
  using preview_binding_rechecked [OF ready_db_ok sample_preview_read _ consume_sample refl] consume_sample
  by (simp add: sample_preview_def) blast

section \<open>Account pages\<close>

text \<open>C31. Following the cursors of the account list to the end shows every public account that passes the
  filter exactly once, in the list's order, whatever the page size, and the walk ends after at most one
  page more than there are rows.\<close>

theorem account_pages_complete:
  assumes "db_ok d" "list_all (\<lambda>r. valid_id (acc_ID r)) (db_accounts d)" "pageLimit (alo_Limit options) = Inr limit"
    "alo_Provider options = '''' \<or> PublicProvider (alo_Provider options)" "alo_Cursor options = NoToken"
    "length (db_accounts d) < fuel"
  shows "\<exists>shown. account_walk sha256 fuel options d = Some shown \<and> distinct shown \<and>
    sorted_wrt (\<lambda>x y. page_before (account_key x) (account_key y)) shown \<and>
    set shown = {r \<in> set (db_accounts d). \<not> acc_Internal r \<and>
                   (alo_Provider options = '''' \<or> acc_Provider r = alo_Provider options)}"
proof -
  let ?S = "order_by (\<lambda>x y. page_before (account_key x) (account_key y)) (listed_accounts options d)"
  have "length (listed_accounts options d) \<le> length (db_accounts d)" by (simp add: listed_accounts_def)
  then have "account_walk sha256 fuel options d = Some (drop 0 ?S)"
    using account_walk_from [OF assms(1-4) refl, of 0 fuel] assms(5,6) by simp
  moreover have sorted: "sorted_wrt (\<lambda>x y. page_before (account_key x) (account_key y)) ?S"
    by (rule order_by_sorted [OF listed_keys [OF assms(1)]])
  moreover have "distinct ?S"
    using sorted by (rule sorted_wrt_irrefl_distinct) (simp add: page_before_irrefl)
  ultimately show ?thesis by (intro exI [of _ ?S]) (auto simp: listed_accounts_def)
qed

lemma account_pages_complete_witness:
  "\<exists>shown. account_walk (\<lambda>s. s) 2 \<lparr>alo_Provider = '''', alo_Limit = 1, alo_Cursor = NoToken\<rparr> sample_db = Some shown \<and>
     set shown = set (db_accounts sample_db)"
proof -
  obtain r where r: "db_accounts sample_db = [r]" "acc_ID r = account_1" "\<not> acc_Internal r" by (simp add: sample_db_def)
  show ?thesis
    using account_pages_complete [OF sample_db_ok, of "\<lparr>alo_Provider = '''', alo_Limit = 1, alo_Cursor = NoToken\<rparr>"
        1 2 "\<lambda>s. s"] r(2,3)
    by (auto simp: r(1) pageLimit_def MaxPageLimit_def)
qed

end
