(* ===== verification/Effects.thy ===== *)
theory Effects
  imports Errors
begin

text \<open>
  Operations that change a state and can fail. Unlike a database transaction, which is undone on
  an error, a Go method that returns an error keeps what it has changed so far, so an operation
  is a function from a state to its result \<^emph>\<open>and\<close> the state it leaves. The rules collected in
  \<open>wp\<close> compute what has to hold before an operation for given conditions to hold after it,
  one for its normal and one for its error exits.
\<close>

named_theorems wp \<open>weakest preconditions of stateful operations\<close>

type_synonym ('s, 'a) run = "'s \<Rightarrow> (error + 'a) \<times> 's"

definition returnS :: "'a \<Rightarrow> ('s, 'a) run" where
  "returnS a s = (Inr a, s)"

definition throwS :: "error \<Rightarrow> ('s, 'a) run" where
  "throwS e s = (Inl e, s)"

abbreviation failS :: "ErrorCode \<Rightarrow> string \<Rightarrow> ('s, 'a) run" where
  "failS code message \<equiv> throwS (NewError code message)"

definition bindS :: "('s, 'a) run \<Rightarrow> ('a \<Rightarrow> ('s, 'b) run) \<Rightarrow> ('s, 'b) run" where
  "bindS m f s = (case m s of (Inl e, s') \<Rightarrow> (Inl e, s') | (Inr a, s') \<Rightarrow> f a s')"

text \<open>A result computed without touching the state, and a look at the state.\<close>

definition liftS :: "error + 'a \<Rightarrow> ('s, 'a) run" where
  "liftS r s = (r, s)"

definition getS :: "('s \<Rightarrow> 'a) \<Rightarrow> ('s, 'a) run" where
  "getS f s = (Inr (f s), s)"

definition modifyS :: "('s \<Rightarrow> 's) \<Rightarrow> ('s, unit) run" where
  "modifyS f s = (Inr (), f s)"

text \<open>The handling of an error: \<open>catchS\<close> runs a handler in the state the failed call left.\<close>

definition catchS :: "('s, 'a) run \<Rightarrow> (error \<Rightarrow> ('s, 'a) run) \<Rightarrow> ('s, 'a) run" where
  "catchS m h s = (case m s of (Inl e, s') \<Rightarrow> h e s' | (Inr a, s') \<Rightarrow> (Inr a, s'))"

text \<open>A call whose error the code drops (\<open>_, _ = f()\<close>).\<close>

definition ignoreS :: "('s, 'a) run \<Rightarrow> ('s, unit) run" where
  "ignoreS m s = (Inr (), snd (m s))"

text \<open>An operation on a part of the state.\<close>

definition zoomS :: "('s \<Rightarrow> 't) \<Rightarrow> ('t \<Rightarrow> 's \<Rightarrow> 's) \<Rightarrow> ('t, 'a) run \<Rightarrow> ('s, 'a) run" where
  "zoomS get put m s = (case m (get s) of (r, t) \<Rightarrow> (r, put t s))"

text \<open>A transaction on a part of the state: an error leaves it as it was.\<close>

definition transactS :: "('s \<Rightarrow> 't) \<Rightarrow> ('t \<Rightarrow> 's \<Rightarrow> 's) \<Rightarrow> ('t \<Rightarrow> error + ('a \<times> 't)) \<Rightarrow> ('s, 'a) run" where
  "transactS get put f s =
     (case f (get s) of Inl e \<Rightarrow> (Inl e, s) | Inr (a, t) \<Rightarrow> (Inr a, put t s))"

lemma bindS_cong [fundef_cong]:
  "m s = m' s' \<Longrightarrow> (\<And>a t. m' s' = (Inr a, t) \<Longrightarrow> f a t = f' a t) \<Longrightarrow> bindS m f s = bindS m' f' s'"
  by (auto simp: bindS_def split: prod.splits sum.splits)

lemmas run_simps = returnS_def throwS_def bindS_def liftS_def getS_def modifyS_def catchS_def
  ignoreS_def zoomS_def transactS_def

text \<open>The steps of a run that succeeds.\<close>

lemma bindS_ok: "bindS m f s = (Inr b, s') \<longleftrightarrow> (\<exists>a t. m s = (Inr a, t) \<and> f a t = (Inr b, s'))"
  by (auto simp: bindS_def split: prod.splits sum.splits)

lemma liftS_ok: "liftS r s = (Inr a, s') \<longleftrightarrow> r = Inr a \<and> s' = s"
  by (auto simp: liftS_def)

lemma zoomS_ok: "zoomS get put m s = (Inr a, s') \<longleftrightarrow> (\<exists>t. m (get s) = (Inr a, t) \<and> s' = put t s)"
  by (auto simp: zoomS_def split: prod.splits)

lemma throwS_ok: "throwS e s \<noteq> (Inr a, s')"
  by (simp add: throwS_def)

lemma guardS_ok: "(if c then throwS e else m) s = (Inr a, s') \<longleftrightarrow> \<not> c \<and> m s = (Inr a, s')"
  by (simp add: throwS_ok)

lemma getS_ok: "getS f s = (Inr a, s') \<longleftrightarrow> a = f s \<and> s' = s"
  by (auto simp: getS_def)

lemma returnS_ok: "returnS b s = (Inr a, s') \<longleftrightarrow> a = b \<and> s' = s"
  by (auto simp: returnS_def)

lemma catchS_ok:
  "catchS m h s = (Inr a, s') \<longleftrightarrow> m s = (Inr a, s') \<or> (\<exists>e t. m s = (Inl e, t) \<and> h e t = (Inr a, s'))"
  by (auto simp: catchS_def split: prod.splits sum.splits)

section \<open>Preconditions\<close>

definition post :: "('s, 'a) run \<Rightarrow> ('a \<Rightarrow> 's \<Rightarrow> bool) \<Rightarrow> (error \<Rightarrow> 's \<Rightarrow> bool) \<Rightarrow> 's \<Rightarrow> bool" where
  "post m P Q s = (case m s of (Inl e, s') \<Rightarrow> Q e s' | (Inr a, s') \<Rightarrow> P a s')"

lemma post_cases:
  assumes "post m P Q s"
  obtains (error) e s' where "m s = (Inl e, s')" "Q e s'" | (ok) a s' where "m s = (Inr a, s')" "P a s'"
  using assms by (auto simp: post_def split: prod.splits sum.splits)

lemma post_ok: "post m P Q s \<Longrightarrow> m s = (Inr a, s') \<Longrightarrow> P a s'"
  by (simp add: post_def)

lemma post_error: "post m P Q s \<Longrightarrow> m s = (Inl e, s') \<Longrightarrow> Q e s'"
  by (simp add: post_def)

lemma post_mono:
  "post m P Q s \<Longrightarrow> (\<And>a t. P a t \<Longrightarrow> P' a t) \<Longrightarrow> (\<And>e t. Q e t \<Longrightarrow> Q' e t) \<Longrightarrow> post m P' Q' s"
  by (auto simp: post_def split: prod.splits sum.splits)

lemma post_bind [wp]: "post m (\<lambda>a. post (f a) P Q) Q s \<Longrightarrow> post (bindS m f) P Q s"
  by (auto simp: post_def bindS_def split: prod.splits sum.splits)

lemma post_catch [wp]: "post m P (\<lambda>e. post (h e) P Q) s \<Longrightarrow> post (catchS m h) P Q s"
  by (auto simp: post_def catchS_def split: prod.splits sum.splits)

lemma post_ignore [wp]: "post m (\<lambda>_. P ()) (\<lambda>_. P ()) s \<Longrightarrow> post (ignoreS m) P Q s"
  by (auto simp: post_def ignoreS_def split: prod.splits sum.splits)

lemma post_return [wp]: "P a s \<Longrightarrow> post (returnS a) P Q s"
  by (simp add: post_def returnS_def)

lemma post_throw [wp]: "Q e s \<Longrightarrow> post (throwS e) P Q s"
  by (simp add: post_def throwS_def)

lemma post_get [wp]: "P (f s) s \<Longrightarrow> post (getS f) P Q s"
  by (simp add: post_def getS_def)

lemma post_modify [wp]: "P () (f s) \<Longrightarrow> post (modifyS f) P Q s"
  by (simp add: post_def modifyS_def)

lemma post_lift [wp]: "(\<And>a. r = Inr a \<Longrightarrow> P a s) \<Longrightarrow> (\<And>e. r = Inl e \<Longrightarrow> Q e s) \<Longrightarrow> post (liftS r) P Q s"
  by (cases r) (simp_all add: post_def liftS_def)

lemma post_zoom:
  "post m (\<lambda>a t. P a (put t s)) (\<lambda>e t. Q e (put t s)) (get s) \<Longrightarrow> post (zoomS get put m) P Q s"
  by (auto simp: post_def zoomS_def split: prod.splits sum.splits)

lemma post_transact:
  "(\<And>a t. f (get s) = Inr (a, t) \<Longrightarrow> P a (put t s)) \<Longrightarrow> (\<And>e. f (get s) = Inl e \<Longrightarrow> Q e s) \<Longrightarrow>
     post (transactS get put f) P Q s"
  by (auto simp: post_def transactS_def split: sum.splits)

lemma post_if [wp]: "(c \<Longrightarrow> post m P Q s) \<Longrightarrow> (\<not> c \<Longrightarrow> post m' P Q s) \<Longrightarrow> post (if c then m else m') P Q s"
  by simp

lemma post_option [wp]:
  "(x = None \<Longrightarrow> post m P Q s) \<Longrightarrow> (\<And>a. x = Some a \<Longrightarrow> post (f a) P Q s) \<Longrightarrow>
     post (case x of None \<Rightarrow> m | Some a \<Rightarrow> f a) P Q s"
  by (cases x) simp_all

lemma post_sum [wp]:
  "(\<And>e. x = Inl e \<Longrightarrow> post (g e) P Q s) \<Longrightarrow> (\<And>a. x = Inr a \<Longrightarrow> post (f a) P Q s) \<Longrightarrow>
     post (case x of Inl e \<Rightarrow> g e | Inr a \<Rightarrow> f a) P Q s"
  by (cases x) simp_all

lemma post_prod [wp]:
  "(\<And>a b. x = (a, b) \<Longrightarrow> post (f a b) P Q s) \<Longrightarrow> post (case x of (a, b) \<Rightarrow> f a b) P Q s"
  by (cases x) simp

lemma post_let [wp]: "post (f a) P Q s \<Longrightarrow> post (let x = a in f x) P Q s"
  by simp

text \<open>A condition that every step of an operation keeps, whatever its result.\<close>

lemma post_keep: "post m (\<lambda>_. I) (\<lambda>_. I) s \<Longrightarrow> I (snd (m s))"
  by (auto simp: post_def split: prod.splits sum.splits)

section \<open>Invariants of the state\<close>

text \<open>An operation keeps a condition on the state, whether it succeeds or fails.\<close>

named_theorems keeping \<open>operations that keep a condition\<close>

definition keeps :: "('s \<Rightarrow> bool) \<Rightarrow> ('s, 'a) run \<Rightarrow> bool" where
  "keeps I m = (\<forall>s. I s \<longrightarrow> I (snd (m s)))"

lemma keepsI: "(\<And>s. I s \<Longrightarrow> I (snd (m s))) \<Longrightarrow> keeps I m"
  by (simp add: keeps_def)

lemma keepsD: "keeps I m \<Longrightarrow> I s \<Longrightarrow> m s = (r, s') \<Longrightarrow> I s'"
  by (auto simp: keeps_def dest: spec [of _ s])

lemma keeps_bind [keeping]: "keeps I m \<Longrightarrow> (\<And>a. keeps I (f a)) \<Longrightarrow> keeps I (bindS m f)"
  by (auto simp: keeps_def bindS_def split: prod.splits sum.splits)

lemma keeps_catch [keeping]: "keeps I m \<Longrightarrow> (\<And>e. keeps I (h e)) \<Longrightarrow> keeps I (catchS m h)"
  by (auto simp: keeps_def catchS_def split: prod.splits sum.splits)

lemma keeps_ignore [keeping]: "keeps I m \<Longrightarrow> keeps I (ignoreS m)"
  by (simp add: keeps_def ignoreS_def)

lemma keeps_return [keeping]: "keeps I (returnS a)"
  by (simp add: keeps_def returnS_def)

lemma keeps_throw [keeping]: "keeps I (throwS e)"
  by (simp add: keeps_def throwS_def)

lemma keeps_lift [keeping]: "keeps I (liftS r)"
  by (simp add: keeps_def liftS_def)

lemma keeps_get [keeping]: "keeps I (getS f)"
  by (simp add: keeps_def getS_def)

lemma keeps_modify: "(\<And>s. I s \<Longrightarrow> I (f s)) \<Longrightarrow> keeps I (modifyS f)"
  by (simp add: keeps_def modifyS_def)

lemma keeps_zoom: "(\<And>s. I s \<Longrightarrow> I (put (snd (m (get s))) s)) \<Longrightarrow> keeps I (zoomS get put m)"
  by (simp add: keeps_def zoomS_def split: prod.splits) (metis snd_conv)

lemma keeps_zoom_frame: "(\<And>s t. I s \<Longrightarrow> I (put t s)) \<Longrightarrow> keeps I (zoomS get put m)"
  by (rule keeps_zoom) blast

lemma keeps_transact:
  "(\<And>s a t. I s \<Longrightarrow> f (get s) = Inr (a, t) \<Longrightarrow> I (put t s)) \<Longrightarrow> keeps I (transactS get put f)"
  by (auto simp: keeps_def transactS_def split: sum.splits)

lemma keeps_if [keeping]: "(c \<Longrightarrow> keeps I m) \<Longrightarrow> (\<not> c \<Longrightarrow> keeps I m') \<Longrightarrow> keeps I (if c then m else m')"
  by simp

lemma keeps_option [keeping]: "(x = None \<Longrightarrow> keeps I m) \<Longrightarrow> (\<And>a. x = Some a \<Longrightarrow> keeps I (f a)) \<Longrightarrow> keeps I (case x of None \<Rightarrow> m | Some a \<Rightarrow> f a)"
  by (cases x) simp_all

lemma keeps_sum [keeping]: "(\<And>e. x = Inl e \<Longrightarrow> keeps I (g e)) \<Longrightarrow> (\<And>a. x = Inr a \<Longrightarrow> keeps I (f a)) \<Longrightarrow> keeps I (case x of Inl e \<Rightarrow> g e | Inr a \<Rightarrow> f a)"
  by (cases x) simp_all

lemma keeps_prod [keeping]: "(\<And>a b. x = (a, b) \<Longrightarrow> keeps I (f a b)) \<Longrightarrow> keeps I (case x of (a, b) \<Rightarrow> f a b)"
  by (cases x) simp

lemma keeps_let [keeping]: "keeps I (f a) \<Longrightarrow> keeps I (let x = a in f x)"
  by simp

end
