(* ===== verification/Frames.thy ===== *)
theory Frames
  imports Effects "HOL-Library.Word"
begin

text \<open>
  The framing of \<open>src/internal/device/protocol.go\<close>: a message is the four-byte big-endian length
  of its JSON text, then the text. A connection is what the peer will still send
  (\<open>conn_in\<close>, then end of file), what was written so far, and how many more bytes the peer
  takes before a write fails. Bytes are characters.

  \<open>validateJSON\<close> reads a text through \<open>json.Decoder.Token\<close>; a \<open>decoder\<close> is the sequence of
  tokens that call yields and whether the text then ends cleanly (\<open>io.EOF\<close>) or with a syntax
  error.
\<close>

text \<open>A Go \<open>[]byte\<close> that is not a text.\<close>

type_synonym octets = "nat list"

definition MaxFrameBytes :: nat where
  "MaxFrameBytes = 256 * 1024"

record conn =
  conn_in :: string
  conn_out :: string
  conn_accepts :: nat

section \<open>Reading and writing\<close>

text \<open>\<open>binary.BigEndian\<close>.\<close>

definition PutUint32 :: "32 word \<Rightarrow> string" where
  "PutUint32 v = map (\<lambda>k. char_of (unat (drop_bit k v))) [24, 16, 8, 0]"

definition Uint32 :: "string \<Rightarrow> 32 word" where
  "Uint32 b = word_of_nat (foldl (\<lambda>v c. 256 * v + of_char c) 0 b)"

definition conn_write :: "string \<Rightarrow> conn \<Rightarrow> int \<times> error option \<times> conn" where
  "conn_write data c =
     (let n = min (length data) (conn_accepts c)
      in (int n, if n < length data then Some (OtherError ''write failed'') else None,
          c\<lparr>conn_out := conn_out c @ take n data, conn_accepts := conn_accepts c - n\<rparr>))"

text \<open>\<open>io.ReadFull\<close>: all the bytes or an error.\<close>

definition ReadFull :: "nat \<Rightarrow> (conn, string) run" where
  "ReadFull n c =
     (if length (conn_in c) < n then (Inl (OtherError ''unexpected EOF''), c\<lparr>conn_in := []\<rparr>)
      else (Inr (take n (conn_in c)), c\<lparr>conn_in := drop n (conn_in c)\<rparr>))"

text \<open>\<open>writeAll\<close> for any writer: a write may take fewer bytes than it is given.\<close>

function writeAll :: "(string \<Rightarrow> 'w \<Rightarrow> int \<times> error option \<times> 'w) \<Rightarrow> string \<Rightarrow> ('w, unit) run" where
  "writeAll write data w =
     (if data = [] then (Inr (), w)
      else case write data w of (n, err, w') \<Rightarrow>
        (case err of
           Some e \<Rightarrow> (Inl e, w')
         | None \<Rightarrow>
             if n \<le> 0 \<or> int (length data) < n then (Inl (OtherError ''short write''), w')
             else writeAll write (drop (nat n) data) w'))"
  by pat_completeness auto
termination
  by (relation "measure (\<lambda>(write, data, w). length data)") auto

declare writeAll.simps [simp del]

definition marshalFrame :: "('m \<Rightarrow> error + string) \<Rightarrow> 'm \<Rightarrow> error + string" where
  "marshalFrame marshal value =
     (case marshal value of
        Inl e \<Rightarrow> Inl (WrapError CodeInvalidArgument ''message could not be encoded'' e)
      | Inr encoded \<Rightarrow>
          if MaxFrameBytes < length encoded
          then fail CodeFrameTooLarge ''message exceeds frame limit'' else Inr encoded)"

definition writeFrame :: "('m \<Rightarrow> error + string) \<Rightarrow> 'm \<Rightarrow> (conn, unit) run" where
  "writeFrame marshal value =
     bindS (liftS (marshalFrame marshal value)) (\<lambda>body.
     bindS (catchS (writeAll conn_write (PutUint32 (word_of_nat (length body))))
              (\<lambda>e. throwS (WrapError CodeDaemonUnavailable ''message header could not be written'' e))) (\<lambda>_.
     catchS (writeAll conn_write body)
       (\<lambda>e. throwS (WrapError CodeDaemonUnavailable ''message could not be written'' e))))"

section \<open>Duplicate keys\<close>

datatype json_token = Delim char | StringToken string | OtherToken

record decoder =
  dec_tokens :: "json_token list"
  dec_eof :: bool

text \<open>\<open>decoder.More()\<close>: another element follows in the current object or array.\<close>

fun More :: "json_token list \<Rightarrow> bool" where
  "More [] = False"
| "More (t # ts) = (t \<noteq> Delim CHR ''}'' \<and> t \<noteq> Delim CHR '']'')"

fun mustStringToken :: "json_token list \<Rightarrow> (string \<times> json_token list) option" where
  "mustStringToken (StringToken key # ts) = Some (key, ts)"
| "mustStringToken _ = None"

fun close_token :: "char \<Rightarrow> json_token list \<Rightarrow> json_token list option" where
  "close_token c (Delim d # ts) = (if d = c then Some ts else None)"
| "close_token c _ = None"

text \<open>
  The recursive reader and its two loops; the result is the tokens after the value, \<open>None\<close> an
  error.
\<close>

function consumeJSONValue :: "json_token list \<Rightarrow> json_token list option"
  and consume_members :: "string list \<Rightarrow> json_token list \<Rightarrow> json_token list option"
  and consume_elements :: "json_token list \<Rightarrow> json_token list option" where
  "consumeJSONValue ts =
     (case ts of
        [] \<Rightarrow> None
      | Delim c # rest \<Rightarrow>
          if c = CHR ''{'' then consume_members [] rest
          else if c = CHR ''['' then consume_elements rest
          else None
      | _ # rest \<Rightarrow> Some rest)"
| "consume_members seen ts =
     (if More ts
      then case mustStringToken ts of
             None \<Rightarrow> None
           | Some (key, rest) \<Rightarrow>
               if key \<in> set seen then None
               else (case consumeJSONValue rest of
                       None \<Rightarrow> None
                     | Some rest' \<Rightarrow> consume_members (key # seen) rest')
      else close_token CHR ''}'' ts)"
| "consume_elements ts =
     (if More ts
      then (case consumeJSONValue ts of None \<Rightarrow> None | Some rest \<Rightarrow> consume_elements rest)
      else close_token CHR '']'' ts)"
  by pat_completeness auto

lemma mustStringToken_Some: "mustStringToken ts = Some (key, rest) \<longleftrightarrow> ts = StringToken key # rest"
  by (cases ts rule: mustStringToken.cases) auto

lemma close_token_Some: "close_token c ts = Some rest \<longleftrightarrow> ts = Delim c # rest"
  by (cases "(c, ts)" rule: close_token.cases) auto

text \<open>Every reader consumes at least one token, so the reading ends.\<close>

abbreviation reader_dom :: "json_token list + (string list \<times> json_token list) + json_token list \<Rightarrow> bool" where
  "reader_dom \<equiv> consumeJSONValue_consume_members_consume_elements_dom"

lemma readers_consume:
  "reader_dom (Inl ts) \<Longrightarrow> consumeJSONValue ts = Some rest \<Longrightarrow> length rest < length ts"
  "reader_dom (Inr (Inl (seen, ts))) \<Longrightarrow> consume_members seen ts = Some rest \<Longrightarrow> length rest < length ts"
  "reader_dom (Inr (Inr ts)) \<Longrightarrow> consume_elements ts = Some rest \<Longrightarrow> length rest < length ts"
proof (induction ts and seen ts and ts arbitrary: rest and rest and rest
    rule: consumeJSONValue_consume_members_consume_elements.pinduct)
  case (1 ts)
  then show ?case
    by (subst (asm) consumeJSONValue.psimps)
       (auto split: list.splits json_token.splits if_splits dest: less_SucI)
next
  case (2 seen ts)
  then show ?case
    by (subst (asm) consume_members.psimps)
       (fastforce split: if_splits option.splits prod.splits simp: mustStringToken_Some close_token_Some)+
next
  case (3 ts)
  then show ?case
    by (subst (asm) consume_elements.psimps)
       (fastforce split: if_splits option.splits simp: close_token_Some)+
qed

termination consumeJSONValue
  by (relation "measure (case_sum (\<lambda>ts. 2 * length ts) (case_sum (\<lambda>(seen, ts). 2 * length ts + 1)
       (\<lambda>ts. 2 * length ts + 1)))")
     (auto simp: mustStringToken_Some dest: readers_consume)

declare consumeJSONValue.simps [simp del] consume_members.simps [simp del] consume_elements.simps [simp del]

definition validateJSON :: "decoder \<Rightarrow> bool" where
  "validateJSON d =
     (case consumeJSONValue (dec_tokens d) of
        None \<Rightarrow> False
      | Some rest \<Rightarrow> rest = [] \<and> dec_eof d)"

text \<open>\<open>tokenize\<close> is the tokenizer of \<open>encoding/json\<close>.\<close>

definition readFrame :: "(string \<Rightarrow> decoder) \<Rightarrow> (conn, string) run" where
  "readFrame tokenize =
     bindS (catchS (ReadFull 4)
              (\<lambda>e. throwS (WrapError CodeDaemonUnavailable ''message header could not be read'' e))) (\<lambda>header.
     let size = Uint32 header
     in if size = 0 \<or> word_of_nat MaxFrameBytes < size
        then failS CodeFrameTooLarge ''message exceeds frame limit''
        else bindS (catchS (ReadFull (unat size))
                      (\<lambda>e. throwS (WrapError CodeDaemonUnavailable ''message could not be read'' e))) (\<lambda>body.
             if \<not> validateJSON (tokenize body) then failS CodeInvalidArgument ''message JSON is invalid''
             else returnS body))"


section \<open>What the two readers accept\<close>

text \<open>The values a token sequence stands for: an object keeps its members in order, duplicates too.\<close>

datatype json = JString string | JOther | JArray "json list" | JObject "(string \<times> json) list"

fun tokens_of :: "json \<Rightarrow> json_token list" where
  "tokens_of (JString s) = [StringToken s]"
| "tokens_of JOther = [OtherToken]"
| "tokens_of (JArray vs) = Delim CHR ''['' # concat (map tokens_of vs) @ [Delim CHR '']'']"
| "tokens_of (JObject ms) =
     Delim CHR ''{'' # concat (map (\<lambda>m. StringToken (fst m) # tokens_of (snd m)) ms) @ [Delim CHR ''}'']"

text \<open>No object inside the value has two members of the same name.\<close>

fun unique_keys :: "json \<Rightarrow> bool" where
  "unique_keys (JArray vs) = list_all unique_keys vs"
| "unique_keys (JObject ms) = (distinct (map fst ms) \<and> list_all (\<lambda>m. unique_keys (snd m)) ms)"
| "unique_keys _ = True"

lemma tokens_of_More: "More (tokens_of v @ ts)"
  by (cases v) simp_all

lemma consume_close:
  "consume_elements (Delim CHR '']'' # ts) = Some ts"
  "consume_members seen (Delim CHR ''}'' # ts) = Some ts"
  by (simp_all add: consume_elements.simps consume_members.simps)

lemma consume_tokens_of:
  "consumeJSONValue (tokens_of v @ ts) = (if unique_keys v then Some ts else None)"
proof (induction v arbitrary: ts rule: tokens_of.induct)
  case (3 vs)
  have "consume_elements (concat (map tokens_of vs) @ Delim CHR '']'' # ts) =
          (if list_all unique_keys vs then Some ts else None)"
    using 3
  proof (induction vs)
    case Nil
    then show ?case by (simp add: consume_close)
  next
    case (Cons v vs)
    then show ?case
      by (subst consume_elements.simps) (simp add: tokens_of_More)
  qed
  then show ?case by (simp add: consumeJSONValue.simps)
next
  case (4 ms)
  have "consume_members seen (concat (map (\<lambda>m. StringToken (fst m) # tokens_of (snd m)) ms) @ Delim CHR ''}'' # ts) =
          (if set seen \<inter> set (map fst ms) = {} \<and> distinct (map fst ms) \<and>
              list_all (\<lambda>m. unique_keys (snd m)) ms then Some ts else None)" for seen
    using 4
  proof (induction ms arbitrary: seen)
    case Nil
    then show ?case by (simp add: consume_close)
  next
    case (Cons m ms)
    then have IH: "\<And>seen. consume_members seen (concat (map (\<lambda>m. StringToken (fst m) # tokens_of (snd m)) ms) @ Delim CHR ''}'' # ts) =
          (if set seen \<inter> set (map fst ms) = {} \<and> distinct (map fst ms) \<and>
              list_all (\<lambda>m. unique_keys (snd m)) ms then Some ts else None)"
      by simp
    from Cons.prems have head: "consumeJSONValue (tokens_of (snd m) @ ts') = (if unique_keys (snd m) then Some ts' else None)" for ts'
      by (metis list.set_intros(1) prod.collapse)
    show ?case
      by (subst consume_members.simps) (auto simp: head IH)
  qed
  then show ?case by (simp add: consumeJSONValue.simps)
qed (simp_all add: consumeJSONValue.simps)

lemma consume_sound:
  "consumeJSONValue ts = Some rest \<Longrightarrow> \<exists>v. ts = tokens_of v @ rest"
  "consume_members seen ts = Some rest \<Longrightarrow>
     \<exists>ms. ts = concat (map (\<lambda>m. StringToken (fst m) # tokens_of (snd m)) ms) @ Delim CHR ''}'' # rest"
  "consume_elements ts = Some rest \<Longrightarrow> \<exists>vs. ts = concat (map tokens_of vs) @ Delim CHR '']'' # rest"
proof (induction ts and seen ts and ts arbitrary: rest and rest and rest
    rule: consumeJSONValue_consume_members_consume_elements.induct)
  case (1 ts)
  show ?case
  proof (cases ts)
    case Nil
    then show ?thesis using 1(3) by (simp add: consumeJSONValue.simps)
  next
    case (Cons t ts')
    show ?thesis
    proof (cases t)
      case (Delim c)
      then consider "c = CHR ''{''" "consume_members [] ts' = Some rest"
        | "c = CHR ''[''" "consume_elements ts' = Some rest"
        using 1(3) Cons by (auto simp: consumeJSONValue.simps split: if_splits)
      then show ?thesis
      proof cases
        case c1: 1
        then obtain ms where "ts' = concat (map (\<lambda>m. StringToken (fst m) # tokens_of (snd m)) ms) @ Delim CHR ''}'' # rest"
          using 1(1) [OF Cons Delim] by blast
        then show ?thesis using c1 Cons Delim by (intro exI [of _ "JObject ms"]) simp
      next
        case c2: 2
        then obtain vs where "ts' = concat (map tokens_of vs) @ Delim CHR '']'' # rest"
          using 1(2) [OF Cons Delim] by auto
        then show ?thesis using c2 Cons Delim by (intro exI [of _ "JArray vs"]) simp
      qed
    next
      case (StringToken s)
      then show ?thesis using 1(3) Cons by (intro exI [of _ "JString s"]) (simp add: consumeJSONValue.simps)
    next
      case OtherToken
      then show ?thesis using 1(3) Cons by (intro exI [of _ JOther]) (simp add: consumeJSONValue.simps)
    qed
  qed
next
  case (2 seen ts)
  show ?case
  proof (cases "More ts")
    case True
    then obtain key rest1 rest2 where step: "mustStringToken ts = Some (key, rest1)" "key \<notin> set seen"
      "consumeJSONValue rest1 = Some rest2" "consume_members (key # seen) rest2 = Some rest"
      using 2(3) by (subst (asm) consume_members.simps) (auto split: option.splits if_splits)
    obtain v where v: "rest1 = tokens_of v @ rest2"
      using 2(1) [OF True step(1) refl step(2,3)] by blast
    obtain ms where "rest2 = concat (map (\<lambda>m. StringToken (fst m) # tokens_of (snd m)) ms) @ Delim CHR ''}'' # rest"
      using 2(2) [OF True step(1) refl step(2,3,4)] by blast
    then show ?thesis using v step(1) by (intro exI [of _ "(key, v) # ms"]) (simp add: mustStringToken_Some)
  next
    case False
    then show ?thesis using 2(3)
      by (subst (asm) consume_members.simps) (auto simp: close_token_Some intro!: exI [of _ "[]"])
  qed
next
  case (3 ts)
  show ?case
  proof (cases "More ts")
    case True
    then obtain rest1 where step: "consumeJSONValue ts = Some rest1" "consume_elements rest1 = Some rest"
      using 3(3) by (subst (asm) consume_elements.simps) (auto split: option.splits)
    obtain v vs where "ts = tokens_of v @ rest1" "rest1 = concat (map tokens_of vs) @ Delim CHR '']'' # rest"
      using 3(1) [OF True step(1)] 3(2) [OF True step] by blast
    then show ?thesis by (intro exI [of _ "v # vs"]) simp
  next
    case False
    then show ?thesis using 3(3)
      by (subst (asm) consume_elements.simps) (auto simp: close_token_Some intro!: exI [of _ "[]"])
  qed
qed

lemma validateJSON_iff:
  "validateJSON d \<longleftrightarrow> (\<exists>v. dec_tokens d = tokens_of v \<and> unique_keys v) \<and> dec_eof d"
proof
  assume v: "validateJSON d"
  then have c: "consumeJSONValue (dec_tokens d) = Some []" "dec_eof d"
    by (auto simp: validateJSON_def split: option.splits)
  then obtain v where "dec_tokens d = tokens_of v @ []" using consume_sound(1) by blast
  then show "(\<exists>v. dec_tokens d = tokens_of v \<and> unique_keys v) \<and> dec_eof d"
    using c consume_tokens_of [of v "[]"] by (auto split: if_splits)
next
  assume "(\<exists>v. dec_tokens d = tokens_of v \<and> unique_keys v) \<and> dec_eof d"
  then show "validateJSON d" using consume_tokens_of [of _ "[]"] by (auto simp: validateJSON_def)
qed

section \<open>A frame written is a frame read\<close>

lemma PutUint32_length [simp]: "length (PutUint32 v) = 4"
  by (simp add: PutUint32_def)

lemma Uint32_PutUint32: "Uint32 (PutUint32 v) = v"
proof -
  define n where "n = unat v"
  have n: "n < 2 ^ 32" unfolding n_def using unsigned_less [of v] by simp
  have byte: "of_char (char_of (unat (drop_bit k v)) :: char) = (n div 2 ^ k mod 256 :: nat)" for k
    by (simp only: of_char_of unat_drop_bit_eq) (simp add: drop_bit_eq_div n_def)
  define a b c where "a = n div 256" and "b = a div 256" and "c = b div 256"
  have "c < 256" using n by (simp add: a_def b_def c_def div_mult2_eq [symmetric] less_mult_imp_div_less)
  then have "256 * (256 * (256 * (c mod 256) + b mod 256) + a mod 256) + n mod 256 = n"
    unfolding c_def by (simp add: b_def a_def)
  moreover have "n div 2 ^ 24 = c" "n div 2 ^ 16 = b" "n div 2 ^ 8 = a"
    by (simp_all add: a_def b_def c_def div_mult2_eq [symmetric])
  ultimately have "256 * (256 * (256 * (n div 2 ^ 24 mod 256) + n div 2 ^ 16 mod 256) + n div 2 ^ 8 mod 256) + n mod 256 = n"
    by (simp only:)
  then have "foldl (\<lambda>v c. 256 * v + of_char c) 0 (PutUint32 v) = n"
    using byte [of 24] byte [of 16] byte [of 8] byte [of 0] by (simp add: PutUint32_def del: of_char_of)
  then show ?thesis by (simp add: Uint32_def n_def)
qed

lemma writeAll_conn:
  assumes "length data \<le> conn_accepts c"
  shows "writeAll conn_write data c =
    (Inr (), c\<lparr>conn_out := conn_out c @ data, conn_accepts := conn_accepts c - length data\<rparr>)"
proof (cases "data = []")
  case True
  then show ?thesis by (simp add: writeAll.simps)
next
  case False
  then have "writeAll conn_write data c =
      writeAll conn_write [] (c\<lparr>conn_out := conn_out c @ data, conn_accepts := conn_accepts c - length data\<rparr>)"
    using assms by (subst writeAll.simps) (simp add: conn_write_def Let_def min_absorb1)
  then show ?thesis by (simp add: writeAll.simps)
qed

definition frame :: "string \<Rightarrow> string" where
  "frame body = PutUint32 (word_of_nat (length body)) @ body"

lemma length_frame [simp]: "length (frame body) = 4 + length body"
  by (simp add: frame_def)

lemma writeFrame_ok:
  assumes "marshal value = Inr body" "length body \<le> MaxFrameBytes" "4 + length body \<le> conn_accepts c"
  shows "writeFrame marshal value c =
    (Inr (), c\<lparr>conn_out := conn_out c @ frame body, conn_accepts := conn_accepts c - (4 + length body)\<rparr>)"
  using assms by (simp add: writeFrame_def marshalFrame_def run_simps writeAll_conn frame_def)

lemma readFrame_frame:
  assumes "conn_in c = frame body @ rest" "body \<noteq> []" "length body \<le> MaxFrameBytes"
    "validateJSON (tokenize body)"
  shows "readFrame tokenize c = (Inr body, c\<lparr>conn_in := rest\<rparr>)"
proof -
  have "length body < 2 ^ LENGTH(32)" using assms(3) by (simp add: MaxFrameBytes_def)
  then have size: "unat (word_of_nat (length body) :: 32 word) = length body"
    by (simp add: unat_of_nat take_bit_nat_eq_self)
  moreover have "(word_of_nat (length body) :: 32 word) \<noteq> 0"
    using size assms(2) by (metis length_0_conv unat_0)
  moreover have "\<not> (word_of_nat MaxFrameBytes :: 32 word) < word_of_nat (length body)"
    using size assms(3) by (simp add: word_less_nat_alt MaxFrameBytes_def)
  ultimately show ?thesis
    using assms by (simp add: readFrame_def run_simps ReadFull_def frame_def Uint32_PutUint32 Let_def)
qed

text \<open>A frame that was read is at most the limit, is not empty and was checked for duplicate keys.\<close>

lemma readFrame_spec:
  assumes "readFrame tokenize c = (Inr body, c')"
  shows "body \<noteq> []" "length body \<le> MaxFrameBytes" "validateJSON (tokenize body)"
    "conn_in c = take 4 (conn_in c) @ body @ conn_in c'" "length (conn_in c') + 4 < length (conn_in c)"
    "conn_out c' = conn_out c" "conn_accepts c' = conn_accepts c"
proof -
  let ?size = "Uint32 (take 4 (conn_in c))"
  have h: "4 \<le> length (conn_in c)" "?size \<noteq> 0" "?size \<le> word_of_nat MaxFrameBytes"
    "unat ?size \<le> length (conn_in c) - 4" "body = take (unat ?size) (drop 4 (conn_in c))"
    "validateJSON (tokenize body)" "c' = c\<lparr>conn_in := drop (unat ?size) (drop 4 (conn_in c))\<rparr>"
    using assms
    by (auto simp: readFrame_def run_simps ReadFull_def Let_def not_less split: if_splits)
  have "unat ?size \<le> MaxFrameBytes"
    using h(3) by (simp add: word_le_nat_alt MaxFrameBytes_def)
  moreover have "0 < unat ?size" using h(2) by (simp add: unat_gt_0)
  moreover have "xs = take 4 xs @ take m (drop 4 xs) @ drop m (drop 4 xs)" for m and xs :: string
    by (metis append_take_drop_id)
  ultimately show "body \<noteq> []" "length body \<le> MaxFrameBytes" "validateJSON (tokenize body)"
    "conn_in c = take 4 (conn_in c) @ body @ conn_in c'" "length (conn_in c') + 4 < length (conn_in c)"
    "conn_out c' = conn_out c" "conn_accepts c' = conn_accepts c"
    using h by (auto simp del: drop_drop)
qed

end
