(* ===== verification/DeviceAuth.thy ===== *)
theory DeviceAuth
  imports Frames Entities
begin

text \<open>
  The authenticated connection of \<open>src/internal/device/auth.go\<close> and the messages and checks of
  \<open>protocol.go\<close>: client and daemon prove possession of their Ed25519 keys over one transcript,
  and the daemon grants the requested capabilities the stored client identity has.

  The cryptographic primitives (\<open>crypto\<close>) and the JSON coding of the message types (\<open>codec\<close>,
  where \<open>decode_*\<close> is \<open>decodeStrict\<close> into that type) are parameters. An \<open>octets\<close> value is a Go
  \<open>[]byte\<close> inside a message.
\<close>

definition ProtocolMajor :: int where "ProtocolMajor = 1"
definition ProtocolMinor :: int where "ProtocolMinor = 0"
definition MaxCapabilities :: nat where "MaxCapabilities = 32"
definition ed25519SignatureSize :: nat where "ed25519SignatureSize = 64"
definition ConnectionLifetime :: duration where "ConnectionLifetime = 30 * 60 * second"

abbreviation PublicKeySize :: nat where "PublicKeySize \<equiv> 32"
abbreviation PrivateKeySize :: nat where "PrivateKeySize \<equiv> 64"

section \<open>Messages\<close>

record ClientHello =
  hello_ProtocolMajor :: int
  hello_ProtocolMinor :: int
  hello_ClientID :: ID
  hello_ClientNonce :: octets
  hello_RequestedCapabilities :: "Capability list"

record ServerProof =
  sp_DaemonID :: ID
  sp_DaemonNonce :: octets
  sp_EndpointInstance :: octets
  sp_NegotiatedMinor :: int
  sp_DaemonSignature :: octets

record ClientProof =
  cp_ClientSignature :: octets

record AuthOK =
  ok_ConnectionID :: octets
  ok_GrantedCapabilities :: "Capability list"
  ok_ExpiresAt :: time
  ok_IdentityRevision :: int

record Request =
  rq_ProtocolMajor :: int
  rq_ID :: string
  rq_Method :: string
  rq_IdempotencyKey :: string
  rq_LeaseRevision :: "int option"
  rq_Body :: "string option"

record WireError =
  wire_Code :: ErrorCode
  wire_Message :: string

record Response =
  resp_ProtocolMajor :: int
  resp_RequestID :: string
  resp_OK :: bool
  resp_Result :: "string option"
  resp_Error :: "WireError option"

record AuthContext =
  auth_ClientID :: ID
  auth_IdentityRevision :: int
  auth_GrantedCapabilities :: "Capability list"
  auth_ConnectionID :: octets
  auth_AuthenticatedAt :: time
  auth_ExpiresAt :: time

datatype message =
    HelloMessage ClientHello | ServerProofMessage ServerProof | ClientProofMessage ClientProof
  | AuthOKMessage AuthOK | RequestMessage Request | ResponseMessage Response

definition Has :: "AuthContext \<Rightarrow> Capability \<Rightarrow> bool" where
  "Has a capability = HasCapability (auth_GrantedCapabilities a) capability"

definition ValidAt :: "AuthContext \<Rightarrow> time \<Rightarrow> bool" where
  "ValidAt a now = (\<not> now < auth_AuthenticatedAt a \<and> now < auth_ExpiresAt a)"

text \<open>What both sides sign.\<close>

record transcript =
  tr_Domain :: string
  tr_Major :: int
  tr_Minor :: int
  tr_ClientID :: ID
  tr_DaemonID :: ID
  tr_ClientKeyDigest :: octets
  tr_DaemonKeyDigest :: octets
  tr_ClientNonce :: octets
  tr_DaemonNonce :: octets
  tr_EndpointInstance :: octets
  tr_RequestedCapabilities :: "Capability list"

record crypto =
  Sum256 :: "octets \<Rightarrow> octets"
  Public :: "octets \<Rightarrow> octets"
  Sign :: "octets \<Rightarrow> octets \<Rightarrow> octets"
  Verify :: "octets \<Rightarrow> octets \<Rightarrow> octets \<Rightarrow> bool"

record codec =
  marshal :: "message \<Rightarrow> error + string"
  marshal_transcript :: "transcript \<Rightarrow> octets"
  tokenize :: "string \<Rightarrow> decoder"
  decode_hello :: "string \<Rightarrow> error + ClientHello"
  decode_server_proof :: "string \<Rightarrow> error + ServerProof"
  decode_client_proof :: "string \<Rightarrow> error + ClientProof"
  decode_auth_ok :: "string \<Rightarrow> error + AuthOK"
  decode_request :: "string \<Rightarrow> error + Request"
  decode_response :: "string \<Rightarrow> error + Response"

definition handshake_transcript ::
  "crypto \<Rightarrow> ClientHello \<Rightarrow> ServerProof \<Rightarrow> octets \<Rightarrow> octets \<Rightarrow> transcript" where
  "handshake_transcript cr hello proof clientPublic daemonPublic =
     \<lparr>tr_Domain = ''multidesk/device-handshake/v1'', tr_Major = hello_ProtocolMajor hello,
      tr_Minor = sp_NegotiatedMinor proof, tr_ClientID = hello_ClientID hello,
      tr_DaemonID = sp_DaemonID proof, tr_ClientKeyDigest = Sum256 cr clientPublic,
      tr_DaemonKeyDigest = Sum256 cr daemonPublic, tr_ClientNonce = hello_ClientNonce hello,
      tr_DaemonNonce = sp_DaemonNonce proof, tr_EndpointInstance = sp_EndpointInstance proof,
      tr_RequestedCapabilities = hello_RequestedCapabilities hello\<rparr>"

definition transcript_bytes ::
  "crypto \<Rightarrow> codec \<Rightarrow> ClientHello \<Rightarrow> ServerProof \<Rightarrow> octets \<Rightarrow> octets \<Rightarrow> octets" where
  "transcript_bytes cr co hello proof clientPublic daemonPublic =
     marshal_transcript co (handshake_transcript cr hello proof clientPublic daemonPublic)"

section \<open>Checks\<close>

definition authFailure :: error where
  "authFailure = NewError CodeUnauthenticated ''peer authentication failed''"

definition validateHello :: "ClientHello \<Rightarrow> error + unit" where
  "validateHello hello =
     (if hello_ProtocolMajor hello \<noteq> ProtocolMajor \<or> hello_ProtocolMinor hello < 0 \<or>
         ProtocolMinor < hello_ProtocolMinor hello
      then fail CodeUnsupportedVersion ''protocol version is unsupported''
      else if \<not> is_ok (ValidateID (hello_ClientID hello)) \<or> length (hello_ClientNonce hello) \<noteq> 32 \<or>
              MaxCapabilities < length (hello_RequestedCapabilities hello)
      then fail CodeUnauthenticated ''peer authentication failed''
      else case CanonicalCapabilities (hello_RequestedCapabilities hello) of
             Inl e \<Rightarrow> fail CodeUnauthenticated ''peer authentication failed''
           | Inr canonical \<Rightarrow>
               if canonical \<noteq> hello_RequestedCapabilities hello
               then fail CodeUnauthenticated ''peer authentication failed'' else Inr ())"

definition validateServerProof :: "ServerProof \<Rightarrow> error + unit" where
  "validateServerProof proof =
     (if \<not> is_ok (ValidateID (sp_DaemonID proof)) \<or> length (sp_DaemonNonce proof) \<noteq> 32 \<or>
         length (sp_EndpointInstance proof) \<noteq> 32 \<or> sp_NegotiatedMinor proof < 0 \<or>
         ProtocolMinor < sp_NegotiatedMinor proof \<or>
         length (sp_DaemonSignature proof) \<noteq> ed25519SignatureSize
      then fail CodeUnauthenticated ''peer authentication failed'' else Inr ())"

definition intersectCapabilities :: "Capability list \<Rightarrow> Capability list \<Rightarrow> Capability list" where
  "intersectCapabilities requested allowed = filter (HasCapability allowed) requested"

definition capabilitiesSubset :: "Capability list \<Rightarrow> Capability list \<Rightarrow> bool" where
  "capabilitiesSubset values allowed = list_all (HasCapability allowed) values"

text \<open>\<open>crypto/rand\<close> either fails or fills the buffer.\<close>

definition randomBytes :: "nat \<Rightarrow> octets option \<Rightarrow> error + octets" where
  "randomBytes n source =
     (case source of
        None \<Rightarrow> Inl (OtherError ''random source failed'')
      | Some bytes \<Rightarrow> Inr (take n (bytes @ replicate n 0)))"

section \<open>The nonce cache\<close>

definition nonce_key :: "ID \<Rightarrow> octets \<Rightarrow> string" where
  "nonce_key cid nonce = cid @ '':'' @ map char_of nonce"

definition max_seen :: nat where "max_seen = 4096"

definition live_nonces :: "time \<Rightarrow> (string \<times> time) list \<Rightarrow> (string \<times> time) list" where
  "live_nonces now seen = filter (\<lambda>entry. \<not> ConnectionLifetime < now - snd entry) seen"

definition markNonce ::
  "ID \<Rightarrow> octets \<Rightarrow> time \<Rightarrow> (string \<times> time) list \<Rightarrow> bool \<times> (string \<times> time) list" where
  "markNonce cid nonce now seen =
     (let live = live_nonces now seen; key = nonce_key cid nonce
      in if key \<in> fst ` set live \<or> max_seen \<le> length live then (False, live)
         else (True, (key, now) # live))"

section \<open>The daemon's side\<close>

record ServerAuthenticator =
  srv_DaemonID :: ID
  srv_PrivateKey :: octets
  srv_EndpointInstance :: octets
  srv_seen :: "(string \<times> time) list"

definition NewServerAuthenticator :: "ID \<Rightarrow> octets \<Rightarrow> octets \<Rightarrow> bool \<Rightarrow> error + ServerAuthenticator" where
  "NewServerAuthenticator deviceID privateKey endpointInstance has_lookup =
     (if \<not> is_ok (ValidateID deviceID) \<or> length privateKey \<noteq> PrivateKeySize \<or>
         length endpointInstance \<noteq> 32 \<or> \<not> has_lookup
      then fail CodeInvalidArgument ''invalid daemon authenticator''
      else Inr \<lparr>srv_DaemonID = deviceID, srv_PrivateKey = privateKey,
                srv_EndpointInstance = endpointInstance, srv_seen = []\<rparr>)"

record server_peer =
  peer_auth :: ServerAuthenticator
  peer_conn :: conn

text \<open>
  What one handshake takes from its surroundings: whether the context is done, the error of
  \<open>SetDeadline\<close>, the two random strings, the wall clock when the nonce is marked, and the
  authenticator's clock with the wall clock that replaces its zero time.
\<close>

record handshake_env =
  env_ctx_done :: bool
  env_deadline_error :: "error option"
  env_nonce :: "octets option"
  env_connection :: "octets option"
  env_mark_time :: time
  env_now :: time
  env_wall :: time

definition setContextDeadline :: "handshake_env \<Rightarrow> error + unit" where
  "setContextDeadline env =
     (if env_ctx_done env then fail CodeDeadlineExceeded ''peer deadline exceeded''
      else case env_deadline_error env of
             Some e \<Rightarrow> Inl (WrapError CodeDaemonUnavailable ''peer deadline could not be set'' e)
           | None \<Rightarrow> Inr ())"

definition orAuthFailure :: "('s, 'a) run \<Rightarrow> ('s, 'a) run" where
  "orAuthFailure m = catchS m (\<lambda>_. throwS authFailure)"

abbreviation on_conn :: "(conn, 'a) run \<Rightarrow> (server_peer, 'a) run" where
  "on_conn \<equiv> zoomS peer_conn (\<lambda>c s. s\<lparr>peer_conn := c\<rparr>)"

definition mark :: "ClientHello \<Rightarrow> time \<Rightarrow> (server_peer, bool) run" where
  "mark hello now s =
     (case markNonce (hello_ClientID hello) (hello_ClientNonce hello) now (srv_seen (peer_auth s)) of
        (fresh, seen) \<Rightarrow> (Inr fresh, s\<lparr>peer_auth := (peer_auth s)\<lparr>srv_seen := seen\<rparr>\<rparr>))"

definition server_proof ::
  "crypto \<Rightarrow> codec \<Rightarrow> ServerAuthenticator \<Rightarrow> ClientHello \<Rightarrow> octets \<Rightarrow> octets \<Rightarrow> ServerProof" where
  "server_proof cr co a hello clientPublic daemonNonce =
     (let unsigned = \<lparr>sp_DaemonID = srv_DaemonID a, sp_DaemonNonce = daemonNonce,
                      sp_EndpointInstance = srv_EndpointInstance a,
                      sp_NegotiatedMinor = min (hello_ProtocolMinor hello) ProtocolMinor,
                      sp_DaemonSignature = []\<rparr>
      in unsigned\<lparr>sp_DaemonSignature := Sign cr (srv_PrivateKey a)
           (transcript_bytes cr co hello unsigned clientPublic (Public cr (srv_PrivateKey a)))\<rparr>)"

definition auth_ok :: "ClientIdentity \<Rightarrow> Capability list \<Rightarrow> octets \<Rightarrow> time \<Rightarrow> AuthOK" where
  "auth_ok client granted connectionID now =
     \<lparr>ok_ConnectionID = connectionID, ok_GrantedCapabilities = granted,
      ok_ExpiresAt = now + ConnectionLifetime, ok_IdentityRevision = cli_Revision client\<rparr>"

definition Handshake ::
  "crypto \<Rightarrow> codec \<Rightarrow> (ID \<Rightarrow> error + ClientIdentity) \<Rightarrow> handshake_env \<Rightarrow> (server_peer, AuthContext) run" where
  "Handshake cr co lookup env =
     bindS (liftS (setContextDeadline env)) (\<lambda>_.
     bindS (orAuthFailure (on_conn (readFrame (tokenize co)))) (\<lambda>body.
     bindS (orAuthFailure (liftS (decode_hello co body))) (\<lambda>hello.
     bindS (orAuthFailure (liftS (validateHello hello))) (\<lambda>_.
     bindS (mark hello (env_mark_time env)) (\<lambda>fresh.
     if \<not> fresh then throwS authFailure
     else bindS (orAuthFailure (liftS (lookup (hello_ClientID hello)))) (\<lambda>client.
     if cli_Status client \<noteq> ClientIdentityActive \<or> length (cli_PublicKey client) \<noteq> PublicKeySize
     then throwS authFailure
     else bindS (getS peer_auth) (\<lambda>a.
     bindS (orAuthFailure (liftS (randomBytes 32 (env_nonce env)))) (\<lambda>daemonNonce.
     let daemonPublic = Public cr (srv_PrivateKey a);
         proof = server_proof cr co a hello (cli_PublicKey client) daemonNonce
     in
     bindS (orAuthFailure (on_conn (writeFrame (marshal co) (ServerProofMessage proof)))) (\<lambda>_.
     bindS (orAuthFailure (on_conn (readFrame (tokenize co)))) (\<lambda>body.
     bindS (orAuthFailure (liftS (decode_client_proof co body))) (\<lambda>clientProof.
     if length (cp_ClientSignature clientProof) \<noteq> ed25519SignatureSize \<or>
        \<not> Verify cr (cli_PublicKey client)
            (transcript_bytes cr co hello proof (cli_PublicKey client) daemonPublic)
            (cp_ClientSignature clientProof)
     then throwS authFailure
     else let granted = intersectCapabilities (hello_RequestedCapabilities hello) (cli_Caps client) in
     bindS (orAuthFailure (liftS (randomBytes 16 (env_connection env)))) (\<lambda>connectionID.
     let now = (if env_now env = 0 then env_wall env else env_now env) in
     bindS (orAuthFailure (on_conn (writeFrame (marshal co)
              (AuthOKMessage (auth_ok client granted connectionID now))))) (\<lambda>_.
     returnS \<lparr>auth_ClientID = cli_ID client, auth_IdentityRevision = cli_Revision client,
              auth_GrantedCapabilities = granted, auth_ConnectionID = connectionID,
              auth_AuthenticatedAt = now, auth_ExpiresAt = now + ConnectionLifetime\<rparr>)))))))))))))"

section \<open>The client's side\<close>

definition ownerCapabilities :: "Capability list" where
  "ownerCapabilities =
     [CapabilityApprovalRead, CapabilityApprovalRespond, CapabilityClientAdmin,
      CapabilityMetadataRead, CapabilityProviderAuth, CapabilityProviderMetadataRead,
      CapabilityProviderUsageRead, CapabilitySessionControl, CapabilitySessionControlAcquire,
      CapabilitySessionObserve, CapabilitySessionResume, CapabilitySessionStart,
      CapabilityTerminalControl, CapabilityVaultControl]"

record DaemonIdentity =
  daemon_SchemaVersion :: int
  daemon_DeviceID :: ID
  daemon_PrivateKey :: octets

text \<open>The identity file of a client, \<open>device.ClientIdentity\<close>.\<close>

record LocalIdentity =
  local_SchemaVersion :: int
  local_ClientID :: ID
  local_PrivateKey :: octets
  local_DaemonID :: ID
  local_DaemonPublicKey :: octets

text \<open>\<open>PublicKey\<close> of either identity: no key when the private key has the wrong size.\<close>

definition PublicKey :: "crypto \<Rightarrow> octets \<Rightarrow> octets" where
  "PublicKey cr privateKey = (if length privateKey \<noteq> PrivateKeySize then [] else Public cr privateKey)"

definition client_hello :: "LocalIdentity \<Rightarrow> octets \<Rightarrow> Capability list \<Rightarrow> ClientHello" where
  "client_hello identity nonce caps =
     \<lparr>hello_ProtocolMajor = ProtocolMajor, hello_ProtocolMinor = ProtocolMinor,
      hello_ClientID = local_ClientID identity, hello_ClientNonce = nonce,
      hello_RequestedCapabilities = caps\<rparr>"

definition client_proof :: "crypto \<Rightarrow> codec \<Rightarrow> LocalIdentity \<Rightarrow> ClientHello \<Rightarrow> ServerProof \<Rightarrow> ClientProof" where
  "client_proof cr co identity hello proof =
     \<lparr>cp_ClientSignature = Sign cr (local_PrivateKey identity)
        (transcript_bytes cr co hello proof (PublicKey cr (local_PrivateKey identity))
           (local_DaemonPublicKey identity))\<rparr>"

definition ClientHandshake ::
  "crypto \<Rightarrow> codec \<Rightarrow> LocalIdentity \<Rightarrow> Capability list \<Rightarrow> handshake_env \<Rightarrow> (conn, AuthOK) run" where
  "ClientHandshake cr co identity requested env =
     (if \<not> is_ok (ValidateID (local_ClientID identity)) \<or> \<not> is_ok (ValidateID (local_DaemonID identity)) \<or>
         length (local_PrivateKey identity) \<noteq> PrivateKeySize \<or>
         length (local_DaemonPublicKey identity) \<noteq> PublicKeySize
      then throwS authFailure
      else
     bindS (liftS (setContextDeadline env)) (\<lambda>_.
     bindS (orAuthFailure (liftS (randomBytes 32 (env_nonce env)))) (\<lambda>nonce.
     bindS (orAuthFailure (liftS (CanonicalCapabilities
              (if requested = [] then ownerCapabilities else requested)))) (\<lambda>caps.
     let hello = client_hello identity nonce caps;
         clientPublic = PublicKey cr (local_PrivateKey identity);
         daemonPublic = local_DaemonPublicKey identity
     in
     bindS (orAuthFailure (writeFrame (marshal co) (HelloMessage hello))) (\<lambda>_.
     bindS (orAuthFailure (readFrame (tokenize co))) (\<lambda>body.
     bindS (orAuthFailure (liftS (decode_server_proof co body))) (\<lambda>proof.
     if \<not> is_ok (validateServerProof proof) \<or> sp_DaemonID proof \<noteq> local_DaemonID identity \<or>
        \<not> Verify cr daemonPublic (transcript_bytes cr co hello proof clientPublic daemonPublic)
            (sp_DaemonSignature proof)
     then throwS authFailure
     else
     bindS (orAuthFailure (writeFrame (marshal co)
              (ClientProofMessage (client_proof cr co identity hello proof)))) (\<lambda>_.
     bindS (orAuthFailure (readFrame (tokenize co))) (\<lambda>body.
     bindS (orAuthFailure (liftS (decode_auth_ok co body))) (\<lambda>accepted.
     if length (ok_ConnectionID accepted) \<noteq> 16 \<or> ok_ExpiresAt accepted = 0
     then throwS authFailure
     else bindS (orAuthFailure (liftS (CanonicalCapabilities (ok_GrantedCapabilities accepted)))) (\<lambda>canonical.
     if canonical \<noteq> ok_GrantedCapabilities accepted \<or>
        \<not> capabilitiesSubset (ok_GrantedCapabilities accepted) caps \<or>
        \<not> env_now env < ok_ExpiresAt accepted
     then throwS authFailure
     else returnS accepted)))))))))))"

end
