(* ===== verification/Authorization.thy ===== *)
theory Authorization
  imports DeviceAuth StoreRegistry
begin

text \<open>
  \<open>src/internal/app/authorization.go\<close>: the capability a daemon method needs, and the check made
  before every request. The authenticated context alone is not enough: the stored client identity
  is read again each time, has to be active at the very revision that authenticated, and has to
  hold the capability itself.
\<close>

definition RequiredCapability :: "string \<Rightarrow> error + Capability" where
  "RequiredCapability request_method =
     (if request_method \<in> set [''daemon.status'', ''vault.status'', ''sessions.list'', ''sessions.show'', ''sessions.observe'',
           ''accounts.list'', ''accounts.show'', ''profiles.list'', ''profiles.show'',
           ''profiles.resolveAlias'', ''usage.list'', ''sessions.preview'']
      then Inr CapabilityMetadataRead
      else if request_method \<in> set [''credentials.status'']
      then Inr CapabilityMetadataRead
      else if request_method \<in> set [''provider.describe'', ''provider.health'', ''profile.validate'']
      then Inr CapabilityProviderMetadataRead
      else if request_method \<in> set [''auth.begin'', ''auth.complete'', ''auth.confirm'', ''auth.cancel'', ''auth.status'', ''auth.logout'']
      then Inr CapabilityProviderAuth
      else if request_method \<in> set [''usage.read'']
      then Inr CapabilityProviderUsageRead
      else if request_method \<in> set [''approval.list'', ''approval.observe'']
      then Inr CapabilityApprovalRead
      else if request_method \<in> set [''approval.respond'']
      then Inr CapabilityApprovalRespond
      else if request_method \<in> set [''sessions.attach'', ''sessions.detach'']
      then Inr CapabilitySessionObserve
      else if request_method \<in> set [''vault.initialize'', ''vault.unlock'', ''vault.lock'']
      then Inr CapabilityVaultControl
      else if request_method \<in> set [''sessions.start'', ''session.start'']
      then Inr CapabilitySessionStart
      else if request_method \<in> set [''control.acquire'']
      then Inr CapabilitySessionControlAcquire
      else if request_method \<in> set [''control.heartbeat'', ''control.release'', ''sessions.stop'', ''sessions.kill'', ''session.stop'']
      then Inr CapabilitySessionControl
      else if request_method \<in> set [''terminal.input'', ''terminal.resize'', ''session.input'', ''session.resize'']
      then Inr CapabilityTerminalControl
      else if request_method \<in> set [''sessions.resume'', ''session.resume'']
      then Inr CapabilitySessionResume
      else if request_method \<in> set [''client.create'', ''client.list'', ''client.rotate'', ''client.revoke'',
           ''accounts.create'', ''accounts.update'', ''accounts.disable'', ''accounts.enable'', ''accounts.delete'',
           ''profiles.create'', ''profiles.update'', ''profiles.disable'', ''profiles.enable'', ''profiles.delete'',
           ''profiles.validate'', ''provider.login.begin'', ''provider.login.status'', ''provider.login.cancel'',
           ''provider.logout'', ''provider.shell'', ''usage.refresh'']
      then Inr CapabilityClientAdmin
      else fail CodeMethodNotFound ''method is not available'')"

definition Authorize ::
  "(ID \<Rightarrow> error + ClientIdentity) option \<Rightarrow> time \<Rightarrow> AuthContext \<Rightarrow> string \<Rightarrow> error + unit" where
  "Authorize clients now auth request_method =
     bindE (RequiredCapability request_method) (\<lambda>capability.
     if clients = None \<or> \<not> ValidAt auth now \<or> \<not> Has auth capability
     then fail CodeUnauthenticated ''peer authentication failed''
     else case the clients (auth_ClientID auth) of
       Inl e \<Rightarrow> fail CodeUnauthenticated ''peer authentication failed''
     | Inr client \<Rightarrow>
         if cli_Status client \<noteq> ClientIdentityActive \<or> cli_Revision client \<noteq> auth_IdentityRevision auth
         then fail CodeUnauthenticated ''peer authentication failed''
         else if \<not> HasCapability (cli_Caps client) capability
         then fail CodePermissionDenied ''capability is not granted''
         else Inr ())"

text \<open>The daemon passes its store as the lookup.\<close>

definition authorize_store :: "db \<Rightarrow> time \<Rightarrow> AuthContext \<Rightarrow> string \<Rightarrow> error + unit" where
  "authorize_store d = Authorize (Some (\<lambda>cid. ClientIdentity_read cid d))"

lemma Authorize_store_ok:
  "authorize_store d now auth request_method = Inr () \<longleftrightarrow>
     (\<exists>capability client. RequiredCapability request_method = Inr capability \<and> ValidAt auth now \<and>
        Has auth capability \<and> ClientIdentity_read (auth_ClientID auth) d = Inr client \<and>
        cli_Status client = ClientIdentityActive \<and> cli_Revision client = auth_IdentityRevision auth \<and>
        HasCapability (cli_Caps client) capability)"
  by (cases "ClientIdentity_read (auth_ClientID auth) d")
     (auto simp: authorize_store_def Authorize_def bindE_Inr)

end
