(* ===== verification/DeviceServer.thy ===== *)
theory DeviceServer
  imports DeviceAuth
begin

text \<open>
  \<open>src/internal/device/server.go\<close> and \<open>client.go\<close>: the loop that serves one connection, the
  admission of connections, and a client's call. The application behind the connection is a
  state of type \<open>'a\<close>: the authorizer looks at it, the handler changes it.
\<close>

definition MaxRequestIDBytes :: nat where "MaxRequestIDBytes = 128"
definition MaxMethodBytes :: nat where "MaxMethodBytes = 128"
definition max_requests :: nat where "max_requests = 128"

definition validateRequest :: "Request \<Rightarrow> string list \<Rightarrow> error + string list" where
  "validateRequest request seen =
     (if rq_ProtocolMajor request \<noteq> ProtocolMajor
      then fail CodeUnsupportedVersion ''protocol version is unsupported''
      else if rq_ID request = [] \<or> MaxRequestIDBytes < length (rq_ID request) \<or> rq_Method request = [] \<or>
              MaxMethodBytes < length (rq_Method request) \<or>
              (case rq_Body request of None \<Rightarrow> False | Some body \<Rightarrow> MaxFrameBytes < length body)
      then fail CodeInvalidArgument ''request is invalid''
      else if rq_ID request \<in> set seen then fail CodeConflict ''request ID was reused''
      else if max_requests \<le> length seen
      then fail CodeResourceExhausted ''connection request limit reached''
      else Inr (rq_ID request # seen))"

fun error_response :: "string \<Rightarrow> error \<Rightarrow> Response" where
  "error_response requestID (AppError code message cause) =
     \<lparr>resp_ProtocolMajor = ProtocolMajor, resp_RequestID = requestID, resp_OK = False, resp_Result = None,
      resp_Error = Some \<lparr>wire_Code = code, wire_Message = message\<rparr>\<rparr>"
| "error_response requestID (OtherError text) =
     \<lparr>resp_ProtocolMajor = ProtocolMajor, resp_RequestID = requestID, resp_OK = False, resp_Result = None,
      resp_Error = Some \<lparr>wire_Code = CodeConflict, wire_Message = ''request failed''\<rparr>\<rparr>"

record 'a connection =
  con_peer :: server_peer
  con_seen :: "string list"
  con_app :: 'a

abbreviation on_peer :: "(server_peer, 'b) run \<Rightarrow> ('a connection, 'b) run" where
  "on_peer \<equiv> zoomS con_peer (\<lambda>p s. s\<lparr>con_peer := p\<rparr>)"

abbreviation on_app :: "('a, 'b) run \<Rightarrow> ('a connection, 'b) run" where
  "on_app \<equiv> zoomS con_app (\<lambda>a s. s\<lparr>con_app := a\<rparr>)"

definition send :: "codec \<Rightarrow> Response \<Rightarrow> ('a connection, unit) run" where
  "send co response = on_peer (on_conn (writeFrame (marshal co) (ResponseMessage response)))"

definition writeErrorResponse :: "codec \<Rightarrow> string \<Rightarrow> error \<Rightarrow> ('a connection, unit) run" where
  "writeErrorResponse co requestID e = send co (error_response requestID e)"

text \<open>
  The application: what \<open>setContextDeadline\<close> reports, the optional authorizer, the handler, and
  the coding of a handler's result.
\<close>

record ('a, 'r) application =
  app_deadline :: "'a \<Rightarrow> error + unit"
  app_authorizer :: "('a \<Rightarrow> AuthContext \<Rightarrow> string \<Rightarrow> error + unit) option"
  app_handler :: "AuthContext \<Rightarrow> Request \<Rightarrow> ('a, 'r) run"
  app_marshal :: "'r \<Rightarrow> error + string"

text \<open>One turn of the loop: \<open>True\<close> goes on, \<open>False\<close> returns without an error.\<close>

definition serve_step :: "codec \<Rightarrow> ('a, 'r) application \<Rightarrow> AuthContext \<Rightarrow> ('a connection, bool) run" where
  "serve_step co app auth =
     bindS (getS (app_deadline app \<circ> con_app)) (\<lambda>deadline.
     bindS (liftS deadline) (\<lambda>_.
     bindS (on_peer (on_conn (readFrame (tokenize co)))) (\<lambda>body.
     case decode_request co body of
       Inl e \<Rightarrow> bindS (writeErrorResponse co [] (NewError CodeInvalidArgument ''request is invalid''))
                 (\<lambda>_. returnS False)
     | Inr request \<Rightarrow>
     bindS (getS con_seen) (\<lambda>seen.
     case validateRequest request seen of
       Inl e \<Rightarrow> bindS (ignoreS (writeErrorResponse co (rq_ID request) e)) (\<lambda>_. throwS e)
     | Inr seen' \<Rightarrow>
     bindS (modifyS (\<lambda>s. s\<lparr>con_seen := seen'\<rparr>)) (\<lambda>_.
     bindS (getS con_app) (\<lambda>state.
     case (case app_authorizer app of None \<Rightarrow> Inr () | Some authorizer \<Rightarrow> authorizer state auth (rq_Method request)) of
       Inl e \<Rightarrow> bindS (writeErrorResponse co (rq_ID request) e) (\<lambda>_. returnS True)
     | Inr _ \<Rightarrow>
     bindS (on_app (\<lambda>state. case app_handler app auth request state of (r, state') \<Rightarrow> (Inr r, state'))) (\<lambda>result.
     case result of
       Inl e \<Rightarrow> bindS (writeErrorResponse co (rq_ID request) e) (\<lambda>_. returnS True)
     | Inr value \<Rightarrow>
     case app_marshal app value of
       Inl e \<Rightarrow> bindS (writeErrorResponse co (rq_ID request)
                        (NewError CodeConflict ''response could not be encoded'')) (\<lambda>_. returnS False)
     | Inr encoded \<Rightarrow>
         bindS (send co \<lparr>resp_ProtocolMajor = ProtocolMajor, resp_RequestID = rq_ID request, resp_OK = True,
                       resp_Result = Some encoded, resp_Error = None\<rparr>) (\<lambda>_. returnS True))))))))"

lemma writeAll_conn_in: "conn_in (snd (writeAll conn_write data c)) = conn_in c"
proof (cases "length data \<le> conn_accepts c")
  case True
  then show ?thesis by (simp add: writeAll_conn)
next
  case False
  then show ?thesis
    by (subst writeAll.simps) (auto simp: conn_write_def Let_def)
qed

lemma writeFrame_conn_in: "conn_in (snd (writeFrame m x c)) = conn_in c"
  using writeAll_conn_in
  by (auto simp: writeFrame_def run_simps split: sum.splits prod.splits) (metis snd_conv)+

lemma send_conn_in: "conn_in (peer_conn (con_peer (snd (send co r s)))) = conn_in (peer_conn (con_peer s))"
  using writeFrame_conn_in [of "marshal co" "ResponseMessage r" "peer_conn (con_peer s)"]
  by (auto simp: send_def zoomS_def split: prod.splits)

lemma readFrame_consumes: "readFrame tok c = (Inr body, c') \<Longrightarrow> length (conn_in c') < length (conn_in c)"
  by (drule readFrame_spec(5)) simp

abbreviation pending :: "'a connection \<Rightarrow> nat" where
  "pending s \<equiv> length (conn_in (peer_conn (con_peer s)))"

lemma send_result: "send co r s = (x, s') \<Longrightarrow> conn_in (peer_conn (con_peer s')) = conn_in (peer_conn (con_peer s))"
  using send_conn_in [of co r s] by simp

lemma serve_step_consumes:
  "serve_step co app auth s = (Inr True, s') \<Longrightarrow> pending s' < pending s"
  unfolding serve_step_def writeErrorResponse_def
  by (auto simp: run_simps Let_def dest!: readFrame_consumes send_result
      split: sum.splits prod.splits option.splits if_splits)

function serve_loop :: "codec \<Rightarrow> ('a, 'r) application \<Rightarrow> AuthContext \<Rightarrow> ('a connection, unit) run" where
  "serve_loop co app auth s =
     (case serve_step co app auth s of
        (Inl e, s') \<Rightarrow> (Inl e, s')
      | (Inr True, s') \<Rightarrow> serve_loop co app auth s'
      | (Inr False, s') \<Rightarrow> (Inr (), s'))"
  by pat_completeness auto
termination
  by (relation "measure (\<lambda>(co, app, auth, s). pending s)") (auto dest: serve_step_consumes [OF sym])

declare serve_loop.simps [simp del]

text \<open>\<open>lookup\<close> is the handshake's view of the application's client identities.\<close>

definition serveConnection ::
  "crypto \<Rightarrow> codec \<Rightarrow> ('a, 'r) application \<Rightarrow> ('a \<Rightarrow> ID \<Rightarrow> error + ClientIdentity) \<Rightarrow> handshake_env \<Rightarrow>
   ('a connection, unit) run" where
  "serveConnection cr co app lookup env =
     bindS (getS con_app) (\<lambda>state.
     bindS (on_peer (Handshake cr co (lookup state) env)) (\<lambda>auth.
     bindS (modifyS (\<lambda>s. s\<lparr>con_seen := []\<rparr>)) (\<lambda>_.
     serve_loop co app auth)))"

section \<open>Admission\<close>

text \<open>
  \<open>Serve\<close> takes a slot of the semaphore for every accepted connection, or closes the connection
  at once; the slot is returned when the connection's goroutine ends.
\<close>

definition connection_limit :: "int \<Rightarrow> nat" where
  "connection_limit maxConnections = nat (if maxConnections \<le> 0 then 32 else maxConnections)"

definition accept_connection :: "int \<Rightarrow> 'c \<Rightarrow> 'c list \<Rightarrow> bool \<times> 'c list" where
  "accept_connection maxConnections connection active =
     (if length active < connection_limit maxConnections then (True, connection # active)
      else (False, active))"

section \<open>A client's call\<close>

definition Call :: "codec \<Rightarrow> handshake_env \<Rightarrow> Request \<Rightarrow> (conn, Response) run" where
  "Call co env request =
     bindS (liftS (validateRequest request [])) (\<lambda>_.
     bindS (liftS (setContextDeadline env)) (\<lambda>_.
     bindS (writeFrame (marshal co) (RequestMessage request)) (\<lambda>_.
     bindS (readFrame (tokenize co)) (\<lambda>body.
     case decode_response co body of
       Inl e \<Rightarrow> failS CodeConflict ''daemon response is invalid''
     | Inr response \<Rightarrow>
         if resp_ProtocolMajor response \<noteq> ProtocolMajor \<or> resp_RequestID response \<noteq> rq_ID request
         then failS CodeConflict ''daemon response is invalid''
         else case (resp_OK response, resp_Error response) of
                (False, Some e) \<Rightarrow> throwS (NewError (wire_Code e) (wire_Message e))
              | _ \<Rightarrow> returnS response))))"

end
