(* ===== verification/DeviceLaws.thy ===== *)
theory DeviceLaws
  imports DeviceServer
begin

text \<open>
  What a successful handshake means for either side, what the nonce cache refuses, and what the
  loop of a connection lets through to the handler.
\<close>

lemma orAuthFailure_ok: "orAuthFailure m s = (Inr a, s') \<longleftrightarrow> m s = (Inr a, s')"
  by (auto simp: orAuthFailure_def catchS_def throwS_def split: prod.splits sum.splits)

declare throwS_ok [simp]

lemma mark_ok: "mark hello now s = (Inr fresh, s') \<longleftrightarrow>
    fresh = fst (markNonce (hello_ClientID hello) (hello_ClientNonce hello) now (srv_seen (peer_auth s))) \<and>
    s' = s\<lparr>peer_auth := (peer_auth s)\<lparr>srv_seen :=
      snd (markNonce (hello_ClientID hello) (hello_ClientNonce hello) now (srv_seen (peer_auth s)))\<rparr>\<rparr>"
  by (auto simp: mark_def split: prod.splits)

lemmas run_ok = orAuthFailure_ok bindS_ok liftS_ok zoomS_ok guardS_ok getS_ok returnS_ok mark_ok

section \<open>The daemon accepts\<close>

text \<open>What the daemon has seen when its handshake succeeds.\<close>

definition accepted ::
  "crypto \<Rightarrow> codec \<Rightarrow> (ID \<Rightarrow> error + ClientIdentity) \<Rightarrow> handshake_env \<Rightarrow> ServerAuthenticator \<Rightarrow>
   ClientHello \<Rightarrow> ClientIdentity \<Rightarrow> octets \<Rightarrow> bool" where
  "accepted cr co lookup env a hello client daemonNonce =
     (validateHello hello = Inr () \<and> lookup (hello_ClientID hello) = Inr client \<and>
      cli_Status client = ClientIdentityActive \<and> length (cli_PublicKey client) = PublicKeySize \<and>
      fst (markNonce (hello_ClientID hello) (hello_ClientNonce hello) (env_mark_time env) (srv_seen a)) \<and>
      randomBytes 32 (env_nonce env) = Inr daemonNonce \<and>
      (\<exists>signature. length signature = ed25519SignatureSize \<and>
         Verify cr (cli_PublicKey client)
           (transcript_bytes cr co hello (server_proof cr co a hello (cli_PublicKey client) daemonNonce)
              (cli_PublicKey client) (Public cr (srv_PrivateKey a))) signature))"

lemma transcript_bytes_seen:
  "transcript_bytes cr co hello (server_proof cr co (a\<lparr>srv_seen := seen\<rparr>) hello pk nonce) pk' dk =
   transcript_bytes cr co hello (server_proof cr co a hello pk nonce) pk' dk"
  by (simp add: transcript_bytes_def handshake_transcript_def server_proof_def Let_def)

lemma Handshake_accepts:
  assumes "Handshake cr co lookup env s = (Inr auth, s')"
  shows "\<exists>hello client daemonNonce. accepted cr co lookup env (peer_auth s) hello client daemonNonce \<and>
    auth_ClientID auth = cli_ID client \<and> auth_IdentityRevision auth = cli_Revision client \<and>
    auth_GrantedCapabilities auth = intersectCapabilities (hello_RequestedCapabilities hello) (cli_Caps client) \<and>
    auth_AuthenticatedAt auth = (if env_now env = 0 then env_wall env else env_now env) \<and>
    auth_ExpiresAt auth = auth_AuthenticatedAt auth + ConnectionLifetime \<and>
    srv_seen (peer_auth s') =
       snd (markNonce (hello_ClientID hello) (hello_ClientNonce hello) (env_mark_time env) (srv_seen (peer_auth s)))"
  using assms unfolding Handshake_def
  apply (simp only: run_ok Let_def)
  apply (elim exE conjE)
  subgoal for a t aa ta tb hello tc ac td ad te client tf af tg nonce
    by (intro exI [of _ hello] exI [of _ client] exI [of _ nonce])
       (simp add: accepted_def transcript_bytes_seen, blast)
  done

section \<open>Replayed hellos\<close>

text \<open>The hello on a connection's first frame, if there is one.\<close>

definition hello_sent :: "codec \<Rightarrow> conn \<Rightarrow> ClientHello option" where
  "hello_sent co c =
     (case readFrame (tokenize co) c of
        (Inr body, c') \<Rightarrow> (case decode_hello co body of Inr hello \<Rightarrow> Some hello | Inl e \<Rightarrow> None)
      | _ \<Rightarrow> None)"

lemma markNonce_bounded: "length seen \<le> max_seen \<Longrightarrow> length (snd (markNonce cid nonce now seen)) \<le> max_seen"
proof -
  assume "length seen \<le> max_seen"
  then have "length (live_nonces now seen) \<le> max_seen"
    using length_filter_le order_trans unfolding live_nonces_def by blast
  then show ?thesis by (auto simp: markNonce_def Let_def)
qed

lemma markNonce_stored:
  "fst (markNonce cid nonce now seen) \<Longrightarrow> (nonce_key cid nonce, now) \<in> set (snd (markNonce cid nonce now seen))"
  by (auto simp: markNonce_def Let_def split: if_splits)

lemma markNonce_keeps:
  "(key, t0) \<in> set seen \<Longrightarrow> now - t0 \<le> ConnectionLifetime \<Longrightarrow>
     (key, t0) \<in> set (snd (markNonce cid nonce now seen))"
  by (auto simp: markNonce_def Let_def live_nonces_def)

lemma markNonce_refuses:
  assumes "(nonce_key cid nonce, t0) \<in> set seen" "now - t0 \<le> ConnectionLifetime"
  shows "\<not> fst (markNonce cid nonce now seen)"
proof -
  have "(nonce_key cid nonce, t0) \<in> set (live_nonces now seen)" using assms by (simp add: live_nonces_def)
  then have "nonce_key cid nonce \<in> fst ` set (live_nonces now seen)" by force
  then show ?thesis by (simp add: markNonce_def Let_def)
qed

text \<open>A handshake, whatever its result, does nothing to the authenticator but mark nonces.\<close>

inductive marks :: "time \<Rightarrow> ServerAuthenticator \<Rightarrow> ServerAuthenticator \<Rightarrow> bool" for now where
  unmarked: "marks now a a"
| marked: "marks now a a' \<Longrightarrow>
    marks now a (a'\<lparr>srv_seen := snd (markNonce cid nonce now (srv_seen a'))\<rparr>)"

lemma mark_state: "peer_auth (snd (mark hello now s)) = (peer_auth s)\<lparr>srv_seen :=
    snd (markNonce (hello_ClientID hello) (hello_ClientNonce hello) now (srv_seen (peer_auth s)))\<rparr>"
  by (simp add: mark_def split: prod.splits)

lemma Handshake_marks: "marks (env_mark_time env) (peer_auth s) (peer_auth (snd (Handshake cr co lookup env s)))"
proof -
  have "keeps (\<lambda>s'. marks (env_mark_time env) (peer_auth s) (peer_auth s')) (Handshake cr co lookup env)"
    unfolding Handshake_def orAuthFailure_def
    by (intro keeping keeps_zoom_frame) (simp_all add: keeps_def mark_state marks.marked)
  then show ?thesis using marks.unmarked by (simp add: keeps_def)
qed

text \<open>The handshakes of a daemon, one after the other: an environment and a connection each.\<close>

fun handshakes ::
  "crypto \<Rightarrow> codec \<Rightarrow> ((ID \<Rightarrow> error + ClientIdentity) \<times> handshake_env \<times> conn) list \<Rightarrow>
   ServerAuthenticator \<Rightarrow> ServerAuthenticator" where
  "handshakes cr co [] a = a"
| "handshakes cr co ((lookup, env, c) # hs) a =
     handshakes cr co hs (peer_auth (snd (Handshake cr co lookup env \<lparr>peer_auth = a, peer_conn = c\<rparr>)))"

lemma marks_keep:
  assumes "marks now a a'" "(key, t0) \<in> set (srv_seen a)" "now - t0 \<le> ConnectionLifetime"
  shows "(key, t0) \<in> set (srv_seen a')"
  using assms by (induction rule: marks.induct) (auto intro: markNonce_keeps)

lemma handshakes_keep:
  assumes "(key, t0) \<in> set (srv_seen a)"
    "\<forall>(lookup, env, c) \<in> set hs. env_mark_time env - t0 \<le> ConnectionLifetime"
  shows "(key, t0) \<in> set (srv_seen (handshakes cr co hs a))"
  using assms
proof (induction hs arbitrary: a)
  case (Cons h hs)
  obtain lookup env c where h: "h = (lookup, env, c)" by (cases h) auto
  then show ?case
    using Cons marks_keep [OF Handshake_marks, of key t0 "\<lparr>peer_auth = a, peer_conn = c\<rparr>"] by simp
qed simp

lemma marks_bounded: "marks now a a' \<Longrightarrow> length (srv_seen a) \<le> max_seen \<Longrightarrow> length (srv_seen a') \<le> max_seen"
  by (induction rule: marks.induct) (auto intro: markNonce_bounded)

lemma handshakes_bounded: "length (srv_seen a) \<le> max_seen \<Longrightarrow> length (srv_seen (handshakes cr co hs a)) \<le> max_seen"
proof (induction hs arbitrary: a)
  case (Cons h hs)
  obtain lookup env c where h: "h = (lookup, env, c)" by (cases h) auto
  then show ?case
    using Cons.IH marks_bounded [OF Handshake_marks, of "\<lparr>peer_auth = a, peer_conn = c\<rparr>"] Cons.prems by simp
qed simp

lemma Handshake_hello:
  assumes "Handshake cr co lookup env s = (Inr auth, s')"
  shows "\<exists>hello. hello_sent co (peer_conn s) = Some hello \<and>
    fst (markNonce (hello_ClientID hello) (hello_ClientNonce hello) (env_mark_time env) (srv_seen (peer_auth s))) \<and>
    srv_seen (peer_auth s') =
      snd (markNonce (hello_ClientID hello) (hello_ClientNonce hello) (env_mark_time env) (srv_seen (peer_auth s)))"
  using assms unfolding Handshake_def
  apply (simp only: run_ok Let_def)
  apply (elim exE conjE)
  subgoal for a t aa ta tb hello
    by (intro exI [of _ hello]) (simp add: hello_sent_def)
  done

lemma hello_not_replayed:
  assumes "Handshake cr co lookup env s = (Inr auth, s')" "hello_sent co (peer_conn s) = Some hello"
    and "\<forall>(lookup, env', c) \<in> set hs. env_mark_time env' - env_mark_time env \<le> ConnectionLifetime"
    and "hello_sent co c = Some hello'" "hello_ClientID hello' = hello_ClientID hello"
      "hello_ClientNonce hello' = hello_ClientNonce hello"
    and "env_mark_time env' - env_mark_time env \<le> ConnectionLifetime"
  shows "Handshake cr co lookup' env' \<lparr>peer_auth = handshakes cr co hs (peer_auth s'), peer_conn = c\<rparr> \<noteq> (Inr auth', s'')"
proof
  assume again: "Handshake cr co lookup' env' \<lparr>peer_auth = handshakes cr co hs (peer_auth s'), peer_conn = c\<rparr> = (Inr auth', s'')"
  have "(nonce_key (hello_ClientID hello) (hello_ClientNonce hello), env_mark_time env) \<in> set (srv_seen (peer_auth s'))"
    using Handshake_hello [OF assms(1)] assms(2) markNonce_stored by auto
  then have "(nonce_key (hello_ClientID hello) (hello_ClientNonce hello), env_mark_time env)
      \<in> set (srv_seen (handshakes cr co hs (peer_auth s')))"
    using handshakes_keep assms(3) by blast
  from markNonce_refuses [OF this assms(7)] show False
    using Handshake_hello [OF again] assms(4-6) by simp
qed

section \<open>Agreement\<close>

text \<open>
  What the holder of an identity signs: \<open>ClientHandshake\<close> signs the transcript of its own hello and
  of a proof that it has checked against the pinned daemon.
\<close>

definition client_signs ::
  "crypto \<Rightarrow> codec \<Rightarrow> LocalIdentity \<Rightarrow> ClientHello \<Rightarrow> ServerProof \<Rightarrow> octets \<Rightarrow> bool" where
  "client_signs cr co identity hello proof m =
     (hello_ClientID hello = local_ClientID identity \<and> validateHello hello = Inr () \<and>
      is_ok (validateServerProof proof) \<and> sp_DaemonID proof = local_DaemonID identity \<and>
      Verify cr (local_DaemonPublicKey identity) m (sp_DaemonSignature proof) \<and>
      m = transcript_bytes cr co hello proof (PublicKey cr (local_PrivateKey identity))
            (local_DaemonPublicKey identity))"

text \<open>The transcripts whose JSON coding has to be injective: identifiers and known capabilities.\<close>

definition wf_transcript :: "transcript \<Rightarrow> bool" where
  "wf_transcript t = (is_ok (ValidateID (tr_ClientID t)) \<and> is_ok (ValidateID (tr_DaemonID t)) \<and>
     set (tr_RequestedCapabilities t) \<subseteq> set validCapabilities)"

lemma validateHello_ok:
  "validateHello hello = Inr () \<longleftrightarrow>
     hello_ProtocolMajor hello = ProtocolMajor \<and> 0 \<le> hello_ProtocolMinor hello \<and>
     hello_ProtocolMinor hello \<le> ProtocolMinor \<and> is_ok (ValidateID (hello_ClientID hello)) \<and>
     length (hello_ClientNonce hello) = 32 \<and> length (hello_RequestedCapabilities hello) \<le> MaxCapabilities \<and>
     CanonicalCapabilities (hello_RequestedCapabilities hello) = Inr (hello_RequestedCapabilities hello)"
  by (auto simp: validateHello_def not_less split: sum.splits)

lemma validateHello_capabilities: "validateHello hello = Inr () \<Longrightarrow> set (hello_RequestedCapabilities hello) \<subseteq> set validCapabilities"
  using CanonicalCapabilities_ok(4) by (auto simp: validateHello_ok)

lemma validateServerProof_ok:
  "is_ok (validateServerProof proof) \<longleftrightarrow>
     is_ok (ValidateID (sp_DaemonID proof)) \<and> length (sp_DaemonNonce proof) = 32 \<and>
     length (sp_EndpointInstance proof) = 32 \<and> 0 \<le> sp_NegotiatedMinor proof \<and>
     sp_NegotiatedMinor proof \<le> ProtocolMinor \<and> length (sp_DaemonSignature proof) = ed25519SignatureSize"
  by (auto simp: validateServerProof_def not_less)

lemma server_proof_fields [simp]:
  "sp_DaemonID (server_proof cr co a hello pk nonce) = srv_DaemonID a"
  "sp_DaemonNonce (server_proof cr co a hello pk nonce) = nonce"
  "sp_EndpointInstance (server_proof cr co a hello pk nonce) = srv_EndpointInstance a"
  "sp_NegotiatedMinor (server_proof cr co a hello pk nonce) = min (hello_ProtocolMinor hello) ProtocolMinor"
  by (simp_all add: server_proof_def Let_def)

lemma transcript_bytes_eq:
  assumes inj: "inj_on (marshal_transcript co) {t. wf_transcript t}"
    and "transcript_bytes cr co h p pk dk = transcript_bytes cr co h' p' pk' dk'"
    and "validateHello h = Inr ()" "validateHello h' = Inr ()"
      "is_ok (ValidateID (sp_DaemonID p))" "is_ok (ValidateID (sp_DaemonID p'))"
  shows "hello_ClientID h = hello_ClientID h' \<and> sp_DaemonID p = sp_DaemonID p' \<and>
    Sum256 cr pk = Sum256 cr pk' \<and> Sum256 cr dk = Sum256 cr dk' \<and>
    hello_ClientNonce h = hello_ClientNonce h' \<and> sp_DaemonNonce p = sp_DaemonNonce p' \<and>
    sp_EndpointInstance p = sp_EndpointInstance p' \<and>
    hello_RequestedCapabilities h = hello_RequestedCapabilities h' \<and>
    hello_ProtocolMajor h = hello_ProtocolMajor h' \<and> sp_NegotiatedMinor p = sp_NegotiatedMinor p'"
proof -
  have "wf_transcript (handshake_transcript cr h p pk dk)" "wf_transcript (handshake_transcript cr h' p' pk' dk')"
    using assms(3-6) validateHello_capabilities [of h] validateHello_capabilities [of h']
    by (simp_all add: wf_transcript_def handshake_transcript_def validateHello_ok)
  then have "handshake_transcript cr h p pk dk = handshake_transcript cr h' p' pk' dk'"
    using inj_onD [OF inj] assms(2) unfolding transcript_bytes_def by blast
  then show ?thesis by (simp add: handshake_transcript_def)
qed

lemma Handshake_agreement:
  assumes run: "Handshake cr co lookup env s = (Inr auth, s')"
    and daemon: "is_ok (ValidateID (srv_DaemonID (peer_auth s)))"
    and inj: "inj_on (marshal_transcript co) {t. wf_transcript t}"
    and holder: "\<And>client m signature. lookup (auth_ClientID auth) = Inr client \<Longrightarrow>
        Verify cr (cli_PublicKey client) m signature \<Longrightarrow> \<exists>h p. client_signs cr co identity h p m"
    and keyed: "\<And>cid client. lookup cid = Inr client \<Longrightarrow> cli_ID client = cid"
  shows "\<exists>h p m client. client_signs cr co identity h p m \<and> local_ClientID identity = auth_ClientID auth \<and>
    local_DaemonID identity = srv_DaemonID (peer_auth s) \<and>
    randomBytes 32 (env_nonce env) = Inr (sp_DaemonNonce p) \<and>
    sp_EndpointInstance p = srv_EndpointInstance (peer_auth s) \<and>
    Sum256 cr (local_DaemonPublicKey identity) = Sum256 cr (Public cr (srv_PrivateKey (peer_auth s))) \<and>
    lookup (auth_ClientID auth) = Inr client \<and> cli_Status client = ClientIdentityActive \<and>
    auth_GrantedCapabilities auth = intersectCapabilities (hello_RequestedCapabilities h) (cli_Caps client)"
proof -
  let ?a = "peer_auth s"
  obtain hello client nonce where acc: "accepted cr co lookup env ?a hello client nonce"
    and auth: "auth_ClientID auth = cli_ID client"
      "auth_GrantedCapabilities auth = intersectCapabilities (hello_RequestedCapabilities hello) (cli_Caps client)"
    using Handshake_accepts [OF run] by blast
  let ?p = "server_proof cr co ?a hello (cli_PublicKey client) nonce"
  let ?m = "transcript_bytes cr co hello ?p (cli_PublicKey client) (Public cr (srv_PrivateKey ?a))"
  have look: "lookup (hello_ClientID hello) = Inr client" "validateHello hello = Inr ()"
    and rnd: "randomBytes 32 (env_nonce env) = Inr nonce" and act: "cli_Status client = ClientIdentityActive"
    using acc by (simp_all add: accepted_def)
  then have id: "hello_ClientID hello = auth_ClientID auth" using keyed auth(1) by metis
  obtain signature where "Verify cr (cli_PublicKey client) ?m signature"
    using acc by (auto simp: accepted_def)
  then obtain h p where h: "client_signs cr co identity h p ?m"
    using holder look(1) id by metis
  then have "is_ok (ValidateID (sp_DaemonID p))" "validateHello h = Inr ()"
    "transcript_bytes cr co hello ?p (cli_PublicKey client) (Public cr (srv_PrivateKey ?a)) =
     transcript_bytes cr co h p (PublicKey cr (local_PrivateKey identity)) (local_DaemonPublicKey identity)"
    unfolding client_signs_def using validateServerProof_ok by blast+
  from transcript_bytes_eq [OF inj this(3) look(2) this(2) _ this(1)] daemon
  have eq: "hello_ClientID hello = hello_ClientID h" "srv_DaemonID ?a = sp_DaemonID p" "nonce = sp_DaemonNonce p"
    "srv_EndpointInstance ?a = sp_EndpointInstance p"
    "Sum256 cr (Public cr (srv_PrivateKey ?a)) = Sum256 cr (local_DaemonPublicKey identity)"
    "hello_RequestedCapabilities hello = hello_RequestedCapabilities h"
    by simp_all
  have "local_ClientID identity = auth_ClientID auth" "local_DaemonID identity = srv_DaemonID ?a"
    using h eq id by (simp_all add: client_signs_def)
  then show ?thesis
    using h eq rnd act look id auth by (intro exI [of _ h] exI [of _ p] exI [of _ ?m] exI [of _ client]) simp
qed

section \<open>Completion\<close>

text \<open>
  What JSON promises of a message: it is coded in a frame's size, without duplicate keys, and
  decoded again.
\<close>

definition coded :: "codec \<Rightarrow> message \<Rightarrow> (string \<Rightarrow> error + 'm) \<Rightarrow> 'm \<Rightarrow> bool" where
  "coded co message decode value =
     (\<exists>body. marshal co message = Inr body \<and> body \<noteq> [] \<and> length body \<le> MaxFrameBytes \<and>
        validateJSON (tokenize co body) \<and> decode body = Inr value)"

text \<open>Client and daemon hold each other's keys.\<close>

definition paired :: "crypto \<Rightarrow> LocalIdentity \<Rightarrow> ServerAuthenticator \<Rightarrow> ClientIdentity \<Rightarrow> bool" where
  "paired cr identity a client =
     (is_ok (ValidateID (local_ClientID identity)) \<and> is_ok (ValidateID (local_DaemonID identity)) \<and>
      length (local_PrivateKey identity) = PrivateKeySize \<and> length (srv_PrivateKey a) = PrivateKeySize \<and>
      length (srv_EndpointInstance a) = 32 \<and>
      local_DaemonID identity = srv_DaemonID a \<and>
      local_DaemonPublicKey identity = Public cr (srv_PrivateKey a) \<and>
      cli_ID client = local_ClientID identity \<and> cli_Status client = ClientIdentityActive \<and>
      cli_PublicKey client = Public cr (local_PrivateKey identity))"

lemma coded_reads:
  assumes "coded co message decode value"
  obtains body where "decode body = Inr value"
    "\<And>rest out n. readFrame (tokenize co) \<lparr>conn_in = frame body @ rest, conn_out = out, conn_accepts = n\<rparr> =
       (Inr body, \<lparr>conn_in = rest, conn_out = out, conn_accepts = n\<rparr>)"
    "\<And>rest out n. 4 + MaxFrameBytes \<le> n \<Longrightarrow>
       writeFrame (marshal co) message \<lparr>conn_in = rest, conn_out = out, conn_accepts = n\<rparr> =
       (Inr (), \<lparr>conn_in = rest, conn_out = out @ frame body, conn_accepts = n - (4 + length body)\<rparr>)"
    "length body \<le> MaxFrameBytes"
proof -
  from assms obtain body where b: "marshal co message = Inr body" "body \<noteq> []" "length body \<le> MaxFrameBytes"
    "validateJSON (tokenize co body)" "decode body = Inr value" by (auto simp: coded_def)
  show ?thesis
  proof (rule that [OF b(5) _ _ b(3)])
    fix rest out n
    show "readFrame (tokenize co) \<lparr>conn_in = frame body @ rest, conn_out = out, conn_accepts = n\<rparr> =
       (Inr body, \<lparr>conn_in = rest, conn_out = out, conn_accepts = n\<rparr>)"
      by (subst readFrame_frame [of _ body rest]) (use b in simp_all)
    assume n: "4 + MaxFrameBytes \<le> n"
    show "writeFrame (marshal co) message \<lparr>conn_in = rest, conn_out = out, conn_accepts = n\<rparr> =
       (Inr (), \<lparr>conn_in = rest, conn_out = out @ frame body, conn_accepts = n - (4 + length body)\<rparr>)"
      by (subst writeFrame_ok [of _ _ body]) (use b n in simp_all)
  qed
qed

lemma intersect_canonical:
  assumes "CanonicalCapabilities caps = Inr caps"
  shows "CanonicalCapabilities (intersectCapabilities caps allowed) = Inr (intersectCapabilities caps allowed)"
    "capabilitiesSubset (intersectCapabilities caps allowed) caps"
proof -
  let ?i = "intersectCapabilities caps allowed"
  have caps: "sorted caps" "distinct caps" "set caps \<subseteq> set validCapabilities"
    using CanonicalCapabilities_ok [OF assms] by simp_all
  then have "set ?i \<subseteq> set validCapabilities" by (auto simp: intersectCapabilities_def)
  then obtain ys where ys: "CanonicalCapabilities ?i = Inr ys" using CanonicalCapabilities_defined by blast
  have "sorted ?i" "distinct ?i"
    using caps by (simp_all add: intersectCapabilities_def sorted_filter [where f = "\<lambda>x. x", simplified])
  then have "?i = ys"
    using CanonicalCapabilities_ok(1-3) [OF ys] by (metis sorted_distinct_set_unique)
  then show "CanonicalCapabilities ?i = Inr ?i" using ys by simp
  show "capabilitiesSubset ?i caps"
    by (auto simp: capabilitiesSubset_def intersectCapabilities_def HasCapability_def list_all_iff)
qed

lemma randomBytes_length: "randomBytes n source = Inr bytes \<Longrightarrow> length bytes = n"
  by (auto simp: randomBytes_def split: option.splits)

lemma randomBytes_ok: "randomBytes n (Some bytes) = Inr (take n (bytes @ replicate n 0))"
  by (simp add: randomBytes_def)

definition ready_env :: "handshake_env \<Rightarrow> bool" where
  "ready_env env = (\<not> env_ctx_done env \<and> env_deadline_error env = None \<and> env_nonce env \<noteq> None \<and>
     env_connection env \<noteq> None)"

text \<open>
  What the two sides rely on for one run: JSON codes its four messages, and both Ed25519 signatures
  of its transcript have their size and verify.
\<close>

definition signatures_verify :: "crypto \<Rightarrow> octets \<Rightarrow> octets \<Rightarrow> bool" where
  "signatures_verify cr key m = (length (Public cr key) = PublicKeySize \<and>
     length (Sign cr key m) = ed25519SignatureSize \<and> Verify cr (Public cr key) m (Sign cr key m))"

definition run_works ::
  "crypto \<Rightarrow> codec \<Rightarrow> LocalIdentity \<Rightarrow> ServerAuthenticator \<Rightarrow> ClientHello \<Rightarrow> ServerProof \<Rightarrow> AuthOK \<Rightarrow> bool" where
  "run_works cr co identity a hello proof ok =
     (coded co (HelloMessage hello) (decode_hello co) hello \<and>
      coded co (ServerProofMessage proof) (decode_server_proof co) proof \<and>
      coded co (ClientProofMessage (client_proof cr co identity hello proof)) (decode_client_proof co)
        (client_proof cr co identity hello proof) \<and>
      coded co (AuthOKMessage ok) (decode_auth_ok co) ok \<and>
      (let m = transcript_bytes cr co hello proof (Public cr (local_PrivateKey identity)) (Public cr (srv_PrivateKey a))
       in signatures_verify cr (local_PrivateKey identity) m \<and> signatures_verify cr (srv_PrivateKey a) m))"

lemma Handshake_completes:
  assumes paired: "paired cr identity a client"
    and lookup: "lookup (local_ClientID identity) = Inr client"
    and env: "ready_env cenv" "ready_env senv" and now: "0 < env_now senv" "env_now cenv < env_now senv + ConnectionLifetime"
    and caps: "CanonicalCapabilities (if requested = [] then ownerCapabilities else requested) = Inr caps"
    and nonce: "randomBytes 32 (env_nonce cenv) = Inr clientNonce"
      "fst (markNonce (local_ClientID identity) clientNonce (env_mark_time senv) (srv_seen a))"
    and dn: "randomBytes 32 (env_nonce senv) = Inr dn" and cid: "randomBytes 16 (env_connection senv) = Inr cid"
    and works: "run_works cr co identity a (client_hello identity clientNonce caps)
        (server_proof cr co a (client_hello identity clientNonce caps) (cli_PublicKey client) dn)
        (auth_ok client (intersectCapabilities caps (cli_Caps client)) cid (env_now senv))"
    and room: "2 * (4 + MaxFrameBytes) \<le> n"
  shows "\<exists>c2s s2c auth s' ok c'.
    Handshake cr co lookup senv \<lparr>peer_auth = a, peer_conn = \<lparr>conn_in = c2s, conn_out = [], conn_accepts = n\<rparr>\<rparr> = (Inr auth, s') \<and>
    conn_out (peer_conn s') = s2c \<and>
    ClientHandshake cr co identity requested cenv \<lparr>conn_in = s2c, conn_out = [], conn_accepts = n\<rparr> = (Inr ok, c') \<and>
    conn_out c' = c2s \<and> ok_GrantedCapabilities ok = auth_GrantedCapabilities auth \<and>
    auth_GrantedCapabilities auth = intersectCapabilities caps (cli_Caps client) \<and>
    auth_ClientID auth = local_ClientID identity \<and> ok_ExpiresAt ok = auth_ExpiresAt auth"
proof -
  define hello where "hello = client_hello identity clientNonce caps"
  define p where "p = server_proof cr co a hello (cli_PublicKey client) dn"
  define m where "m = transcript_bytes cr co hello p (cli_PublicKey client) (Public cr (srv_PrivateKey a))"
  define cp where "cp = client_proof cr co identity hello p"
  define granted where "granted = intersectCapabilities caps (cli_Caps client)"
  define k where "k = auth_ok client granted cid (env_now senv)"
  have pk: "PublicKey cr (local_PrivateKey identity) = cli_PublicKey client"
    "local_DaemonPublicKey identity = Public cr (srv_PrivateKey a)"
    "cli_PublicKey client = Public cr (local_PrivateKey identity)"
    using paired by (simp_all add: paired_def PublicKey_def)
  from works have codes: "coded co (HelloMessage hello) (decode_hello co) hello"
      "coded co (ServerProofMessage p) (decode_server_proof co) p"
      "coded co (ClientProofMessage cp) (decode_client_proof co) cp" "coded co (AuthOKMessage k) (decode_auth_ok co) k"
    and signed: "signatures_verify cr (local_PrivateKey identity) m" "signatures_verify cr (srv_PrivateKey a) m"
    by (simp_all add: run_works_def hello_def p_def cp_def k_def granted_def m_def pk Let_def)
  have daemon: "is_ok (ValidateID (srv_DaemonID a))" using paired unfolding paired_def by metis
  have canon: "CanonicalCapabilities caps = Inr caps" using CanonicalCapabilities_fix [OF caps] .
  have "length caps \<le> MaxCapabilities"
  proof -
    have "card (set caps) \<le> card (set validCapabilities)"
      using CanonicalCapabilities_ok(3,4) [OF canon] by (intro card_mono) auto
    also have "\<dots> \<le> length validCapabilities" by (rule card_length)
    also have "\<dots> \<le> MaxCapabilities" by (simp add: validCapabilities_def MaxCapabilities_def)
    finally show ?thesis using distinct_card [OF CanonicalCapabilities_ok(2) [OF canon]] by simp
  qed
  then have hello: "validateHello hello = Inr ()"
    using paired randomBytes_length [OF nonce(1)] canon
    by (simp add: validateHello_ok hello_def client_hello_def paired_def ProtocolMinor_def)
  have sig: "sp_DaemonSignature p = Sign cr (srv_PrivateKey a) m" "cp_ClientSignature cp = Sign cr (local_PrivateKey identity) m"
    by (simp_all add: m_def p_def cp_def server_proof_def Let_def client_proof_def pk
        transcript_bytes_def handshake_transcript_def)
  have keys: "length (Public cr (srv_PrivateKey a)) = 32" "length (cli_PublicKey client) = 32"
    "Verify cr (Public cr (srv_PrivateKey a)) m (sp_DaemonSignature p)"
    "length (sp_DaemonSignature p) = 64" "length (cp_ClientSignature cp) = 64"
    "Verify cr (cli_PublicKey client) m (cp_ClientSignature cp)"
    using signed by (simp_all add: signatures_verify_def ed25519SignatureSize_def sig pk(3))
  have p: "is_ok (validateServerProof p)"
    using paired randomBytes_length [OF dn] keys(4) daemon
    by (simp add: validateServerProof_ok p_def paired_def hello_def client_hello_def ProtocolMinor_def ed25519SignatureSize_def)
  obtain bh where bh: "decode_hello co bh = Inr hello"
    "\<And>rest out n. readFrame (tokenize co) \<lparr>conn_in = frame bh @ rest, conn_out = out, conn_accepts = n\<rparr> =
       (Inr bh, \<lparr>conn_in = rest, conn_out = out, conn_accepts = n\<rparr>)"
    "\<And>rest out n. 4 + MaxFrameBytes \<le> n \<Longrightarrow>
       writeFrame (marshal co) (HelloMessage hello) \<lparr>conn_in = rest, conn_out = out, conn_accepts = n\<rparr> =
       (Inr (), \<lparr>conn_in = rest, conn_out = out @ frame bh, conn_accepts = n - (4 + length bh)\<rparr>)"
    "length bh \<le> MaxFrameBytes"
    using coded_reads [OF codes(1)] by blast
  obtain bp where bp: "decode_server_proof co bp = Inr p"
    "\<And>rest out n. readFrame (tokenize co) \<lparr>conn_in = frame bp @ rest, conn_out = out, conn_accepts = n\<rparr> =
       (Inr bp, \<lparr>conn_in = rest, conn_out = out, conn_accepts = n\<rparr>)"
    "\<And>rest out n. 4 + MaxFrameBytes \<le> n \<Longrightarrow>
       writeFrame (marshal co) (ServerProofMessage p) \<lparr>conn_in = rest, conn_out = out, conn_accepts = n\<rparr> =
       (Inr (), \<lparr>conn_in = rest, conn_out = out @ frame bp, conn_accepts = n - (4 + length bp)\<rparr>)"
    "length bp \<le> MaxFrameBytes"
    using coded_reads [OF codes(2)] by blast
  obtain bc where bc: "decode_client_proof co bc = Inr cp"
    "\<And>rest out n. readFrame (tokenize co) \<lparr>conn_in = frame bc @ rest, conn_out = out, conn_accepts = n\<rparr> =
       (Inr bc, \<lparr>conn_in = rest, conn_out = out, conn_accepts = n\<rparr>)"
    "\<And>rest out n. 4 + MaxFrameBytes \<le> n \<Longrightarrow>
       writeFrame (marshal co) (ClientProofMessage cp) \<lparr>conn_in = rest, conn_out = out, conn_accepts = n\<rparr> =
       (Inr (), \<lparr>conn_in = rest, conn_out = out @ frame bc, conn_accepts = n - (4 + length bc)\<rparr>)"
    "length bc \<le> MaxFrameBytes"
    using coded_reads [OF codes(3)] by blast
  obtain bk where bk: "decode_auth_ok co bk = Inr k"
    "\<And>rest out n. readFrame (tokenize co) \<lparr>conn_in = frame bk @ rest, conn_out = out, conn_accepts = n\<rparr> =
       (Inr bk, \<lparr>conn_in = rest, conn_out = out, conn_accepts = n\<rparr>)"
    "\<And>rest out n. 4 + MaxFrameBytes \<le> n \<Longrightarrow>
       writeFrame (marshal co) (AuthOKMessage k) \<lparr>conn_in = rest, conn_out = out, conn_accepts = n\<rparr> =
       (Inr (), \<lparr>conn_in = rest, conn_out = out @ frame bk, conn_accepts = n - (4 + length bk)\<rparr>)"
    "length bk \<le> MaxFrameBytes"
    using coded_reads [OF codes(4)] by blast
  note last = bc(2) [where rest = "[]", simplified] bk(2) [where rest = "[]", simplified]
  let ?c2s = "frame bh @ frame bc" and ?s2c = "frame bp @ frame bk"
  let ?auth = "\<lparr>auth_ClientID = cli_ID client, auth_IdentityRevision = cli_Revision client,
              auth_GrantedCapabilities = granted, auth_ConnectionID = cid,
              auth_AuthenticatedAt = env_now senv, auth_ExpiresAt = env_now senv + ConnectionLifetime\<rparr>"
  have n2: "4 + MaxFrameBytes \<le> n" "4 + MaxFrameBytes \<le> n - (4 + length bp)" "4 + MaxFrameBytes \<le> n - (4 + length bh)"
    using room bp(4) bh(4) by simp_all
  obtain seen where fresh:
    "markNonce (hello_ClientID hello) (hello_ClientNonce hello) (env_mark_time senv) (srv_seen a) = (True, seen)"
    using nonce(2) by (cases "markNonce (local_ClientID identity) clientNonce (env_mark_time senv) (srv_seen a)")
      (simp add: hello_def client_hello_def)
  have seen: "server_proof cr co (a\<lparr>srv_seen := x\<rparr>) hello (cli_PublicKey client) dn = p" for x
    by (simp add: p_def server_proof_def Let_def)
  have deadlines: "setContextDeadline cenv = Inr ()" "setContextDeadline senv = Inr ()"
    using env by (simp_all add: ready_env_def setContextDeadline_def)
  have client: "lookup (hello_ClientID hello) = Inr client" "cli_Status client = ClientIdentityActive"
    "hello_RequestedCapabilities hello = caps"
    using lookup paired by (simp_all add: hello_def client_hello_def paired_def)
  have server: "\<exists>s'. Handshake cr co lookup senv
      \<lparr>peer_auth = a, peer_conn = \<lparr>conn_in = ?c2s, conn_out = [], conn_accepts = n\<rparr>\<rparr> = (Inr ?auth, s') \<and>
      conn_out (peer_conn s') = ?s2c"
    unfolding Handshake_def
    using now(1) keys(2,5,6)
    by (simp add: run_ok deadlines last bh bp bc bk hello fresh client dn cid seen Let_def n2
        m_def [symmetric] k_def [symmetric] granted_def [symmetric] ed25519SignatureSize_def)
  have "\<exists>c'. ClientHandshake cr co identity requested cenv \<lparr>conn_in = ?s2c, conn_out = [], conn_accepts = n\<rparr> = (Inr k, c') \<and>
      conn_out c' = ?c2s"
  proof -
    have first: "\<not> (\<not> is_ok (ValidateID (local_ClientID identity)) \<or> \<not> is_ok (ValidateID (local_DaemonID identity)) \<or>
         length (local_PrivateKey identity) \<noteq> PrivateKeySize \<or>
         length (local_DaemonPublicKey identity) \<noteq> PublicKeySize)"
      using paired keys(1) daemon by (simp add: paired_def)
    have pinned: "local_DaemonPublicKey identity = Public cr (srv_PrivateKey a)" "sp_DaemonID p = local_DaemonID identity"
      using paired by (simp_all add: paired_def p_def)
    have k': "length (ok_ConnectionID k) = 16" "ok_ExpiresAt k \<noteq> 0" "env_now cenv < ok_ExpiresAt k"
      "CanonicalCapabilities (ok_GrantedCapabilities k) = Inr (ok_GrantedCapabilities k)"
      "capabilitiesSubset (ok_GrantedCapabilities k) caps"
      using now intersect_canonical [OF canon] randomBytes_length [OF cid]
      by (simp_all add: k_def auth_ok_def granted_def ConnectionLifetime_def second_def)
    show ?thesis
      unfolding ClientHandshake_def if_not_P [OF first]
      by (simp add: run_ok last deadlines nonce(1) caps hello_def [symmetric] bh bp bc bk n2 Let_def p keys(3) pk(1)
          pinned m_def [symmetric] cp_def [symmetric] k')
  qed
  then show ?thesis
    using paired server by (fastforce simp: k_def auth_ok_def granted_def paired_def)
qed

section \<open>What reaches the handler\<close>

text \<open>The application with a record of its handler's calls: the request and the state it met.\<close>

definition logged :: "('a, 'r) application \<Rightarrow> ('a \<times> (Request \<times> 'a) list, 'r) application" where
  "logged app =
     \<lparr>app_deadline = app_deadline app \<circ> fst,
      app_authorizer = map_option (\<lambda>f. f \<circ> fst) (app_authorizer app),
      app_handler = (\<lambda>auth request (a, log). case app_handler app auth request a of
                       (r, a') \<Rightarrow> (r, (a', (request, a) # log))),
      app_marshal = app_marshal app\<rparr>"

definition authorized_call :: "('a, 'r) application \<Rightarrow> AuthContext \<Rightarrow> Request \<times> 'a \<Rightarrow> bool" where
  "authorized_call app auth = (\<lambda>(request, a).
     case app_authorizer app of None \<Rightarrow> True | Some f \<Rightarrow> f a auth (rq_Method request) = Inr ())"

definition calls_ok :: "('a, 'r) application \<Rightarrow> AuthContext \<Rightarrow> ('a \<times> (Request \<times> 'a) list) connection \<Rightarrow> bool" where
  "calls_ok app auth s =
     (let ids = map (rq_ID \<circ> fst) (snd (con_app s)) in
      distinct (con_seen s) \<and> length (con_seen s) \<le> max_requests \<and> distinct ids \<and> set ids \<subseteq> set (con_seen s) \<and>
      list_all (authorized_call app auth) (snd (con_app s)))"

lemma calls_ok_peer [simp]: "calls_ok app auth (s\<lparr>con_peer := p\<rparr>) = calls_ok app auth s"
  by (simp add: calls_ok_def)

lemma post_peer: "(\<And>a p. P a (s\<lparr>con_peer := p\<rparr>)) \<Longrightarrow> (\<And>e p. Q e (s\<lparr>con_peer := p\<rparr>)) \<Longrightarrow> post (on_peer m) P Q s"
  by (auto simp: post_def zoomS_def split: prod.splits sum.splits)

lemma post_send: "(\<And>a p. P a (s\<lparr>con_peer := p\<rparr>)) \<Longrightarrow> (\<And>e p. Q e (s\<lparr>con_peer := p\<rparr>)) \<Longrightarrow> post (send co r) P Q s"
  unfolding send_def by (rule post_peer)

lemma validateRequest_Inr:
  "validateRequest request seen = Inr seen' \<Longrightarrow> seen' = rq_ID request # seen \<and> rq_ID request \<notin> set seen \<and>
     length seen < max_requests"
  by (auto simp: validateRequest_def split: if_splits)

lemma post_handler:
  "(\<And>r a. handler (con_app s) = (r, a) \<Longrightarrow> P r (s\<lparr>con_app := a\<rparr>)) \<Longrightarrow>
     post (on_app (\<lambda>state. case handler state of (r, a) \<Rightarrow> (Inr r, a))) P Q s"
  by (auto simp: post_def zoomS_def split: prod.splits)

lemma calls_ok_seen:
  assumes "calls_ok app auth s" "validateRequest request (con_seen s) = Inr seen'"
  shows "calls_ok app auth (s\<lparr>con_seen := seen'\<rparr>)"
  using assms(1) validateRequest_Inr [OF assms(2)] by (auto simp: calls_ok_def Let_def)

lemma calls_ok_handled:
  assumes "calls_ok app auth s" "validateRequest request (con_seen s) = Inr seen'"
    "(case app_authorizer (logged app) of None \<Rightarrow> Inr ()
      | Some authorizer \<Rightarrow> authorizer (con_app (s\<lparr>con_peer := p, con_seen := seen'\<rparr>)) auth (rq_Method request)) = Inr ()"
    "app_handler (logged app) auth request (con_app s) = (r, a)"
  shows "calls_ok app auth (s\<lparr>con_seen := seen', con_app := a\<rparr>)"
proof -
  obtain st log where app: "con_app s = (st, log)" by (cases "con_app s")
  obtain st' where "a = (st', (request, st) # log)"
    using assms(4) by (auto simp: logged_def app split: prod.splits)
  moreover have "authorized_call app auth (request, st)"
    using assms(3) by (auto simp: authorized_call_def logged_def app split: option.splits)
  ultimately show ?thesis
    using assms(1) validateRequest_Inr [OF assms(2)] by (auto simp: calls_ok_def Let_def app)
qed

lemma serve_step_calls:
  assumes "calls_ok app auth s"
  shows "post (serve_step co (logged app) auth) (\<lambda>_. calls_ok app auth) (\<lambda>_. calls_ok app auth) s"
  unfolding serve_step_def writeErrorResponse_def
  by (intro wp post_peer post_send post_handler)
     (use assms in \<open>simp_all add: calls_ok_seen calls_ok_handled\<close>)

lemma serve_loop_calls:
  "calls_ok app auth s \<Longrightarrow> calls_ok app auth (snd (serve_loop co (logged app) auth s))"
proof (induction "pending s" arbitrary: s rule: less_induct)
  case less
  obtain r s1 where step: "serve_step co (logged app) auth s = (r, s1)" by (cases "serve_step co (logged app) auth s")
  have ok: "calls_ok app auth s1"
    using post_keep [OF serve_step_calls [OF less.prems]] step by (metis snd_conv)
  show ?case
  proof (cases "r = Inr True")
    case True
    then show ?thesis
      using less.hyps [OF serve_step_consumes ok] step by (subst serve_loop.simps) simp
  next
    case False
    then show ?thesis using step ok by (subst serve_loop.simps) (auto split: sum.splits bool.splits)
  qed
qed

lemma calls_ok_start: "snd (con_app s) = [] \<Longrightarrow> con_seen s = [] \<Longrightarrow> calls_ok app auth s"
  by (simp add: calls_ok_def)

lemma calls_ok_bound:
  assumes "calls_ok app auth s"
  shows "length (snd (con_app s)) \<le> max_requests"
proof -
  let ?ids = "map (rq_ID \<circ> fst) (snd (con_app s))"
  have "length ?ids = card (set ?ids)" using assms distinct_card [of ?ids] by (simp add: calls_ok_def Let_def)
  also have "\<dots> \<le> card (set (con_seen s))" using assms by (intro card_mono) (simp_all add: calls_ok_def Let_def)
  also have "\<dots> \<le> length (con_seen s)" by (rule card_length)
  finally show ?thesis using assms by (simp add: calls_ok_def Let_def)
qed

end
