(* ===== verification/AuthorizationLaws.thy ===== *)
theory AuthorizationLaws
  imports Authorization StoreInvariants DeviceLaws
begin

text \<open>
  How the authorization of requests follows the stored client identities: their revisions only
  grow, so an authenticated context is good for one state of its identity and no other.
\<close>

text \<open>A stored identity stays, and every change of it has a higher revision.\<close>

definition succeeds_client :: "ClientIdentity \<Rightarrow> ClientIdentity \<Rightarrow> bool" where
  "succeeds_client c c' = (c' = c \<or> cli_Revision c < cli_Revision c')"

lemma succeeds_client_trans: "succeeds_client a b \<Longrightarrow> succeeds_client b c \<Longrightarrow> succeeds_client a c"
  by (auto simp: succeeds_client_def)

lemma client_step:
  assumes op: "store_op d d'" and ok: "db_ok d" and read: "ClientIdentity_read k d = Inr c"
  shows "\<exists>c'. ClientIdentity_read k d' = Inr c' \<and> succeeds_client c c'"
proof (cases "db_clients d' = db_clients d")
  case True
  then show ?thesis using read by (simp add: ClientIdentity_read_def succeeds_client_def)
next
  case False
  then have "registry_op d d'" "\<not> core_frame d d'" using other_op_clients [OF op] by (auto simp: core_frame_def)
  then consider row where "d' = d\<lparr>db_clients := db_clients d @ [row]\<rparr>" | i n change where
    "client_cas i n change d = Some d'" using registry_op_frame by blast
  then show ?thesis
  proof cases
    case 1
    then show ?thesis using read find_key_append [of cli_ID k "db_clients d" row]
      by (simp add: ClientIdentity_read_def read_row_ok succeeds_client_def)
  next
    case 2
    from client_change_spec [OF ok this] obtain f where
      f: "\<forall>r. cli_ID (f r) = cli_ID r \<and> cli_Revision (f r) = cli_Revision r + 1" and
      d': "d' = d\<lparr>db_clients := update_rows (\<lambda>r. cli_ID r = i \<and>
         cli_Status r = ClientIdentityActive \<and> cli_Revision r = n) f (db_clients d)\<rparr>" by blast
    then show ?thesis using read by (simp add: d' client_read_update succeeds_client_def)
  qed
qed

lemma client_steps:
  assumes "store_op\<^sup>*\<^sup>* d d'" "db_ok d" "ClientIdentity_read k d = Inr c"
  shows "\<exists>c'. ClientIdentity_read k d' = Inr c' \<and> succeeds_client c c'"
  using assms(1)
proof (induction rule: rtranclp_induct)
  case base
  then show ?case using assms(3) by (simp add: succeeds_client_def)
next
  case (step d1 d2)
  then obtain c1 where "ClientIdentity_read k d1 = Inr c1" "succeeds_client c c1" by blast
  then show ?case
    using client_step [OF step(2) store_ops_db_ok [OF step(1) assms(2)]] succeeds_client_trans by blast
qed

text \<open>A context older than its identity is refused from then on.\<close>

lemma superseded_refused:
  assumes "store_op\<^sup>*\<^sup>* d d'" "db_ok d" "ClientIdentity_read (auth_ClientID auth) d = Inr c"
    "auth_IdentityRevision auth < cli_Revision c"
  shows "authorize_store d' now auth request_method \<noteq> Inr ()"
  using client_steps [OF assms(1-3)] assms(4)
  by (auto simp: Authorize_store_ok succeeds_client_def)

text \<open>Both changes of an identity move its revision past every context that met it before.\<close>

lemma changed_revision:
  assumes "db_ok d"
    and "RotateClientIdentity k n key now d = Inr (c, d') \<or> RevokeClientIdentity k n now d = Inr (c, d')"
  shows "cli_Revision c = n + 1 \<and> ClientIdentity_read k d' = Inr c \<and>
    (\<exists>c0. ClientIdentity_read k d = Inr c0 \<and> cli_Revision c0 = n) \<and> store_op d d' \<and> db_ok d'"
proof -
  have op: "store_op d d'"
    using assms(2) by (auto intro: store_op.intros(1) registry_op.intros(3,4))
  have ok: "db_ok d'" by (rule store_op_db_ok [OF op assms(1)])
  obtain change where cas: "client_cas k n change d = Some d'"
  proof (cases "\<exists>c. RotateClientIdentity k n key now d = Inr (c, d')")
    case True
    then show ?thesis by (intro that [of "RotateKey key now"]) (auto simp: client_cas_def)
  next
    case False
    then show ?thesis using assms(2) by (intro that [of "RevokeAt now"]) (auto simp: client_cas_def)
  qed
  from client_change_spec [OF assms(1) this] obtain r f where
    r: "ClientIdentity_read k d = Inr r" "cli_Status r = ClientIdentityActive" "cli_Revision r = n"
    and f: "\<forall>r. cli_ID (f r) = cli_ID r \<and> cli_Revision (f r) = cli_Revision r + 1"
    and d': "d' = d\<lparr>db_clients := update_rows (\<lambda>r. cli_ID r = k \<and> cli_Status r = ClientIdentityActive \<and>
                                               cli_Revision r = n) f (db_clients d)\<rparr>" by blast
  have "ClientIdentity_read k d' = Inr (f r)"
    using r f client_read_key [OF r(1)] by (simp add: d' client_read_update)
  moreover have "ClientIdentity_read k d' = Inr c"
    using assms(2) by (auto simp: RotateClientIdentity_def RevokeClientIdentity_def update_client_def bindE_Inr Let_def
        split: if_splits)
  ultimately show ?thesis using r f op ok by simp
qed

text \<open>The context of a handshake carries the revision its store held.\<close>

lemma handshake_revision:
  assumes "Handshake cr co (\<lambda>cid. ClientIdentity_read cid d) env s = (Inr auth, s')"
  shows "\<exists>client. ClientIdentity_read (auth_ClientID auth) d = Inr client \<and>
    cli_Status client = ClientIdentityActive \<and> auth_IdentityRevision auth = cli_Revision client \<and>
    set (auth_GrantedCapabilities auth) \<subseteq> set (cli_Caps client)"
proof -
  from Handshake_accepts [OF assms] obtain hello client daemonNonce where
    "accepted cr co (\<lambda>cid. ClientIdentity_read cid d) env (peer_auth s) hello client daemonNonce"
    "auth_ClientID auth = cli_ID client" "auth_IdentityRevision auth = cli_Revision client"
    "auth_GrantedCapabilities auth = intersectCapabilities (hello_RequestedCapabilities hello) (cli_Caps client)"
    by blast
  then show ?thesis
    using client_read_key [of "hello_ClientID hello" d client]
    by (auto simp: accepted_def intersectCapabilities_def HasCapability_def)
qed

lemma identity_change_refuses:
  assumes "db_ok d" and handshake: "Handshake cr co (\<lambda>cid. ClientIdentity_read cid d) env s = (Inr auth, s')"
    and "store_op\<^sup>*\<^sup>* d d1"
    and change: "RotateClientIdentity (auth_ClientID auth) n key t d1 = Inr (c, d2) \<or>
      RevokeClientIdentity (auth_ClientID auth) n t d1 = Inr (c, d2)"
    and "store_op\<^sup>*\<^sup>* d2 d3"
  shows "authorize_store d3 now auth request_method \<noteq> Inr ()"
proof -
  obtain c0 where c0: "ClientIdentity_read (auth_ClientID auth) d = Inr c0" "auth_IdentityRevision auth = cli_Revision c0"
    using handshake_revision [OF handshake] by blast
  have ok: "db_ok d1" by (rule store_ops_db_ok [OF assms(3,1)])
  from client_steps [OF assms(3,1) c0(1)] obtain c1 where
    c1: "ClientIdentity_read (auth_ClientID auth) d1 = Inr c1" "cli_Revision c0 \<le> cli_Revision c1"
    by (auto simp: succeeds_client_def)
  from changed_revision [OF ok change] have c: "ClientIdentity_read (auth_ClientID auth) d2 = Inr c"
    "cli_Revision c = cli_Revision c1 + 1" "db_ok d2" using c1(1) by auto
  show ?thesis
    by (rule superseded_refused [OF assms(5) c(3,1)]) (use c(2) c1(2) c0(2) in simp)
qed

end
