(* ===== verification/DeviceSamples.thy ===== *)
theory DeviceSamples
  imports DeviceLaws Samples
begin

text \<open>
  A concrete run of the handshake: keys whose public half is their first 32 octets, a code of one
  letter per message of the run, and an injective coding of transcripts. The theorems about the
  handshake are applied to it.
\<close>

section \<open>An injective coding of transcripts\<close>

definition flat_octets :: "octets \<Rightarrow> octets" where
  "flat_octets xs = length xs # xs"

definition flat_text :: "string \<Rightarrow> octets" where
  "flat_text s = flat_octets (map of_char s)"

definition flat_int :: "int \<Rightarrow> octets" where
  "flat_int i = [if i < 0 then 1 else 0, nat \<bar>i\<bar>]"

fun flat_texts :: "string list \<Rightarrow> octets" where
  "flat_texts [] = [0]"
| "flat_texts (s # ss) = 1 # flat_text s @ flat_texts ss"

definition flat_transcript :: "transcript \<Rightarrow> octets" where
  "flat_transcript t =
     flat_text (tr_Domain t) @ flat_int (tr_Major t) @ flat_int (tr_Minor t) @ flat_text (tr_ClientID t) @
     flat_text (tr_DaemonID t) @ flat_octets (tr_ClientKeyDigest t) @ flat_octets (tr_DaemonKeyDigest t) @
     flat_octets (tr_ClientNonce t) @ flat_octets (tr_DaemonNonce t) @ flat_octets (tr_EndpointInstance t) @
     flat_texts (tr_RequestedCapabilities t)"

lemma flat_octets_inject [simp]: "flat_octets xs @ r = flat_octets ys @ r' \<longleftrightarrow> xs = ys \<and> r = r'"
  by (auto simp: flat_octets_def)

lemma flat_text_inject [simp]: "flat_text s @ r = flat_text t @ r' \<longleftrightarrow> s = t \<and> r = r'"
proof -
  have "map of_char s = (map of_char t :: nat list) \<longleftrightarrow> s = t"
    by (rule inj_map_eq_map) (auto intro: injI)
  then show ?thesis by (simp add: flat_text_def)
qed

lemma flat_int_inject [simp]: "flat_int i @ r = flat_int j @ r' \<longleftrightarrow> i = j \<and> r = r'"
  by (auto simp: flat_int_def split: if_splits)

lemma flat_texts_inject [simp]: "flat_texts ss = flat_texts ts \<longleftrightarrow> ss = ts"
proof (induction ss arbitrary: ts)
  case Nil
  then show ?case by (cases ts) simp_all
next
  case (Cons s ss)
  then show ?case by (cases ts) simp_all
qed

lemma flat_transcript_inject: "flat_transcript t = flat_transcript t' \<Longrightarrow> t = t'"
  by (simp add: flat_transcript_def)

section \<open>The run\<close>

definition sample_identity :: LocalIdentity where
  "sample_identity = \<lparr>local_SchemaVersion = 1, local_ClientID = client_1, local_PrivateKey = replicate 64 1,
     local_DaemonID = device_1, local_DaemonPublicKey = replicate 32 0\<rparr>"

definition sample_client :: ClientIdentity where
  "sample_client = \<lparr>cli_ID = client_1, cli_Name = ''a'', cli_PublicKey = replicate 32 1, cli_Revision = 1,
     cli_Status = ClientIdentityActive, cli_Caps = [CapabilityMetadataRead], cli_CreatedAt = 1, cli_UpdatedAt = 1\<rparr>"

definition sample_auth :: ServerAuthenticator where
  "sample_auth = \<lparr>srv_DaemonID = device_1, srv_PrivateKey = replicate 64 0, srv_EndpointInstance = replicate 32 3,
     srv_seen = []\<rparr>"

definition sample_env :: "nat \<Rightarrow> handshake_env" where
  "sample_env n = \<lparr>env_ctx_done = False, env_deadline_error = None, env_nonce = Some (replicate 32 n),
     env_connection = Some (replicate 16 n), env_mark_time = 10, env_now = 100, env_wall = 100\<rparr>"

definition sample_hello :: ClientHello where
  "sample_hello = client_hello sample_identity (replicate 32 5) [CapabilityMetadataRead]"

definition sample_unsigned :: ServerProof where
  "sample_unsigned = \<lparr>sp_DaemonID = device_1, sp_DaemonNonce = replicate 32 6, sp_EndpointInstance = replicate 32 3,
     sp_NegotiatedMinor = 0, sp_DaemonSignature = replicate 64 0\<rparr>"

definition key_halves :: crypto where
  "key_halves = \<lparr>Sum256 = id, Public = take 32, Sign = (\<lambda>key m. key), Verify = (\<lambda>key m signature. False)\<rparr>"

definition sample_m :: octets where
  "sample_m = flat_transcript (handshake_transcript key_halves sample_hello sample_unsigned (replicate 32 1) (replicate 32 0))"

text \<open>A signature of the sample transcript is the private key itself; nothing else is ever signed.\<close>

definition sample_crypto :: crypto where
  "sample_crypto = key_halves\<lparr>Verify := (\<lambda>key m signature. m = sample_m \<and> take 32 signature = key)\<rparr>"

definition sample_ok :: AuthOK where
  "sample_ok = auth_ok sample_client [CapabilityMetadataRead] (replicate 16 6) 100"

definition sample_client_proof :: ClientProof where
  "sample_client_proof = \<lparr>cp_ClientSignature = replicate 64 1\<rparr>"

definition sample_codec :: codec where
  "sample_codec =
     \<lparr>marshal = (\<lambda>m. if m = HelloMessage sample_hello then Inr ''h''
                    else if m = ServerProofMessage sample_unsigned then Inr ''p''
                    else if m = ClientProofMessage sample_client_proof then Inr ''c''
                    else if m = AuthOKMessage sample_ok then Inr ''k''
                    else Inr ''r''),
      marshal_transcript = flat_transcript,
      tokenize = (\<lambda>text. \<lparr>dec_tokens = [OtherToken], dec_eof = True\<rparr>),
      decode_hello = (\<lambda>text. if text = ''h'' then Inr sample_hello else Inl (OtherError ''json'')),
      decode_server_proof = (\<lambda>text. if text = ''p'' then Inr sample_unsigned else Inl (OtherError ''json'')),
      decode_client_proof = (\<lambda>text. if text = ''c'' then Inr sample_client_proof else Inl (OtherError ''json'')),
      decode_auth_ok = (\<lambda>text. if text = ''k'' then Inr sample_ok else Inl (OtherError ''json'')),
      decode_request = (\<lambda>text. Inr \<lparr>rq_ProtocolMajor = 1, rq_ID = text, rq_Method = ''daemon.status'',
                          rq_IdempotencyKey = [], rq_LeaseRevision = None, rq_Body = None\<rparr>),
      decode_response = (\<lambda>text. Inl (OtherError ''json''))\<rparr>"

lemma sample_client_read: "ClientIdentity_read client_1 sample_db = Inr sample_client"
  by (simp add: ClientIdentity_read_def read_row_def sample_db_def sample_client_def)

lemma sample_codec_inj: "inj_on (marshal_transcript sample_codec) {t. wf_transcript t}"
  by (rule inj_onI) (simp add: sample_codec_def flat_transcript_inject)

lemma sample_transcript:
  "transcript_bytes sample_crypto sample_codec sample_hello sample_unsigned (replicate 32 1) (replicate 32 0) = sample_m"
  by (simp add: transcript_bytes_def sample_codec_def sample_m_def handshake_transcript_def sample_crypto_def key_halves_def)

lemma sample_server_proof:
  "server_proof sample_crypto sample_codec sample_auth sample_hello (replicate 32 1) (replicate 32 6) = sample_unsigned"
  by (simp add: server_proof_def Let_def sample_auth_def sample_unsigned_def sample_crypto_def key_halves_def
      sample_hello_def client_hello_def ProtocolMinor_def)

lemma sample_caps_canonical: "CanonicalCapabilities [CapabilityMetadataRead] = Inr [CapabilityMetadataRead]"
  by (simp add: CanonicalCapabilities_def validCapabilities_def List.insert_def)

lemma sample_keys: "take 32 (replicate 64 (n::nat)) = replicate 32 n"
  by simp

lemma sample_paired: "paired sample_crypto sample_identity sample_auth sample_client"
  by (simp add: paired_def sample_identity_def sample_auth_def sample_client_def sample_crypto_def key_halves_def)

lemma sample_envs: "ready_env (sample_env n)" "randomBytes 32 (env_nonce (sample_env n)) = Inr (replicate 32 n)"
    "randomBytes 16 (env_connection (sample_env n)) = Inr (replicate 16 n)" "env_now (sample_env n) = 100"
    "env_mark_time (sample_env n) = 10"
  by (simp_all add: ready_env_def sample_env_def randomBytes_def)

lemma sample_run_works:
  "run_works sample_crypto sample_codec sample_identity sample_auth sample_hello sample_unsigned sample_ok"
proof -
  have cp: "client_proof sample_crypto sample_codec sample_identity sample_hello sample_unsigned = sample_client_proof"
    by (simp add: client_proof_def sample_client_proof_def sample_crypto_def key_halves_def sample_identity_def)
  have keys: "Public sample_crypto (local_PrivateKey sample_identity) = replicate 32 1"
    "Public sample_crypto (srv_PrivateKey sample_auth) = replicate 32 0"
    by (simp_all add: sample_crypto_def key_halves_def sample_identity_def sample_auth_def)
  show ?thesis
    unfolding run_works_def cp keys sample_transcript Let_def
    by (simp add: sample_codec_def coded_def MaxFrameBytes_def validateJSON_def consumeJSONValue.simps
        signatures_verify_def sample_crypto_def key_halves_def sample_identity_def sample_auth_def ed25519SignatureSize_def)
qed

end
