(* ===== verification/DeviceProperties.thy ===== *)
theory DeviceProperties
  imports AuthorizationLaws DeviceSamples
begin

text \<open>
  The properties of the daemon's local protocol: framing, handshake, connection loop and the
  authorization of requests, each with a concrete instance.
\<close>

section \<open>Frames\<close>

text \<open>C36. What \<open>writeFrame\<close> puts on a connection, \<open>readFrame\<close> takes from it: the same text, and the
  bytes that follow stay unread.\<close>

theorem frame_roundtrip:
  assumes "encode v = Inr body" "body \<noteq> []" "length body \<le> MaxFrameBytes" "validateJSON (tok body)"
    and "4 + length body \<le> conn_accepts c"
  shows "\<exists>text. writeFrame encode v c = (Inr (), c\<lparr>conn_out := conn_out c @ text,
      conn_accepts := conn_accepts c - length text\<rparr>) \<and>
    (\<forall>r rest. readFrame tok (r\<lparr>conn_in := text @ rest\<rparr>) = (Inr body, r\<lparr>conn_in := rest\<rparr>))"
  using writeFrame_ok [of encode v body c] readFrame_frame [of _ body _ tok] assms
  by (intro exI [of _ "frame body"]) simp

lemma frame_roundtrip_witness:
  "\<exists>text. writeFrame (\<lambda>v. Inr v) ''hi'' \<lparr>conn_in = [], conn_out = [], conn_accepts = 6\<rparr> =
      (Inr (), \<lparr>conn_in = [], conn_out = text, conn_accepts = 6 - length text\<rparr>)"
  using frame_roundtrip [of "\<lambda>v. Inr v" "''hi''" "''hi''" "\<lambda>_. \<lparr>dec_tokens = [OtherToken], dec_eof = True\<rparr>"
      "\<lparr>conn_in = [], conn_out = [], conn_accepts = 6\<rparr>"]
  by (auto simp: MaxFrameBytes_def validateJSON_def consumeJSONValue.simps)

text \<open>C35. \<open>validateJSON\<close> accepts a text exactly when its tokens are those of one JSON value with nothing
  after it, in which no object, however deep, has two members of the same name.\<close>

theorem duplicate_keys_rejected:
  "validateJSON d \<longleftrightarrow> (\<exists>v. dec_tokens d = tokens_of v \<and> unique_keys v) \<and> dec_eof d"
  by (rule validateJSON_iff)

section \<open>The handshake\<close>

text \<open>C18. A client and a daemon that hold each other's keys complete the handshake: each writes what the
  other reads, and both end with the same capabilities, the requested ones that the stored identity has.\<close>

theorem handshake_completes:
  assumes "paired cr identity a client" "lookup (local_ClientID identity) = Inr client"
    and "ready_env cenv" "ready_env senv" "0 < env_now senv" "env_now cenv < env_now senv + ConnectionLifetime"
    and "CanonicalCapabilities (if requested = [] then ownerCapabilities else requested) = Inr caps"
    and "randomBytes 32 (env_nonce cenv) = Inr clientNonce"
      "fst (markNonce (local_ClientID identity) clientNonce (env_mark_time senv) (srv_seen a))"
    and "randomBytes 32 (env_nonce senv) = Inr dn" "randomBytes 16 (env_connection senv) = Inr cid"
    and "run_works cr co identity a (client_hello identity clientNonce caps)
        (server_proof cr co a (client_hello identity clientNonce caps) (cli_PublicKey client) dn)
        (auth_ok client (intersectCapabilities caps (cli_Caps client)) cid (env_now senv))"
    and "2 * (4 + MaxFrameBytes) \<le> n"
  shows "\<exists>c2s s2c auth s' ok c'.
    Handshake cr co lookup senv \<lparr>peer_auth = a, peer_conn = \<lparr>conn_in = c2s, conn_out = [], conn_accepts = n\<rparr>\<rparr> = (Inr auth, s') \<and>
    conn_out (peer_conn s') = s2c \<and>
    ClientHandshake cr co identity requested cenv \<lparr>conn_in = s2c, conn_out = [], conn_accepts = n\<rparr> = (Inr ok, c') \<and>
    conn_out c' = c2s \<and> ok_GrantedCapabilities ok = auth_GrantedCapabilities auth \<and>
    auth_GrantedCapabilities auth = intersectCapabilities caps (cli_Caps client) \<and>
    auth_ClientID auth = local_ClientID identity \<and> ok_ExpiresAt ok = auth_ExpiresAt auth"
  using assms by (rule Handshake_completes)

lemma sample_conditions:
  "local_ClientID sample_identity = client_1"
  "CanonicalCapabilities (if [CapabilityMetadataRead] = [] then ownerCapabilities else [CapabilityMetadataRead]) =
     Inr [CapabilityMetadataRead]"
  "fst (markNonce (local_ClientID sample_identity) (replicate 32 5) (env_mark_time (sample_env 6)) (srv_seen sample_auth))"
  "client_hello sample_identity (replicate 32 5) [CapabilityMetadataRead] = sample_hello"
  "cli_PublicKey sample_client = replicate 32 1"
  "auth_ok sample_client (intersectCapabilities [CapabilityMetadataRead] (cli_Caps sample_client)) (replicate 16 6) 100 = sample_ok"
  "env_now (sample_env 5) < env_now (sample_env 6) + ConnectionLifetime"
  by (simp_all add: sample_identity_def sample_caps_canonical markNonce_def live_nonces_def sample_auth_def Let_def
      max_seen_def sample_hello_def sample_client_def sample_ok_def intersectCapabilities_def HasCapability_def
      sample_envs ConnectionLifetime_def second_def)

lemma sample_handshake:
  "\<exists>c2s s2c auth s' ok c'.
    Handshake sample_crypto sample_codec (\<lambda>cid. ClientIdentity_read cid sample_db) (sample_env 6)
      \<lparr>peer_auth = sample_auth, peer_conn = \<lparr>conn_in = c2s, conn_out = [], conn_accepts = 600000\<rparr>\<rparr> = (Inr auth, s') \<and>
    conn_out (peer_conn s') = s2c \<and>
    ClientHandshake sample_crypto sample_codec sample_identity [CapabilityMetadataRead] (sample_env 5)
      \<lparr>conn_in = s2c, conn_out = [], conn_accepts = 600000\<rparr> = (Inr ok, c') \<and>
    conn_out c' = c2s \<and> ok_GrantedCapabilities ok = auth_GrantedCapabilities auth \<and>
    auth_GrantedCapabilities auth = intersectCapabilities [CapabilityMetadataRead] (cli_Caps sample_client) \<and>
    auth_ClientID auth = local_ClientID sample_identity \<and> ok_ExpiresAt ok = auth_ExpiresAt auth"
  by (rule Handshake_completes [of _ _ _ sample_client _ "sample_env 5" "sample_env 6" _ _ "replicate 32 5"
        "replicate 32 6" "replicate 16 6"])
     (simp_all only: sample_paired sample_conditions sample_client_read sample_envs sample_run_works
       sample_server_proof, simp_all add: MaxFrameBytes_def ConnectionLifetime_def second_def markNonce_def
       live_nonces_def sample_auth_def Let_def max_seen_def)

lemma handshake_completes_witness:
  "\<exists>c2s auth s'.
    Handshake sample_crypto sample_codec (\<lambda>cid. ClientIdentity_read cid sample_db) (sample_env 6)
      \<lparr>peer_auth = sample_auth, peer_conn = \<lparr>conn_in = c2s, conn_out = [], conn_accepts = 600000\<rparr>\<rparr> = (Inr auth, s') \<and>
    auth_ClientID auth = client_1"
proof -
  have "\<exists>c2s s2c auth s' ok c'.
    Handshake sample_crypto sample_codec (\<lambda>cid. ClientIdentity_read cid sample_db) (sample_env 6)
      \<lparr>peer_auth = sample_auth, peer_conn = \<lparr>conn_in = c2s, conn_out = [], conn_accepts = 600000\<rparr>\<rparr> = (Inr auth, s') \<and>
    conn_out (peer_conn s') = s2c \<and>
    ClientHandshake sample_crypto sample_codec sample_identity [CapabilityMetadataRead] (sample_env 5)
      \<lparr>conn_in = s2c, conn_out = [], conn_accepts = 600000\<rparr> = (Inr ok, c') \<and>
    conn_out c' = c2s \<and> ok_GrantedCapabilities ok = auth_GrantedCapabilities auth \<and>
    auth_GrantedCapabilities auth = intersectCapabilities [CapabilityMetadataRead] (cli_Caps sample_client) \<and>
    auth_ClientID auth = local_ClientID sample_identity \<and> ok_ExpiresAt ok = auth_ExpiresAt auth"
    by (rule handshake_completes [of _ _ _ sample_client _ "sample_env 5" "sample_env 6" _ _ "replicate 32 5"
          "replicate 32 6" "replicate 16 6"])
       (simp_all only: sample_paired sample_conditions sample_client_read sample_envs sample_run_works
         sample_server_proof, simp_all add: MaxFrameBytes_def ConnectionLifetime_def second_def markNonce_def
       live_nonces_def sample_auth_def Let_def max_seen_def)
  then show ?thesis unfolding sample_conditions(1) by blast
qed

text \<open>C17. When the daemon accepts a client, the holder of that identity has itself signed this very run:
  for this daemon, its endpoint instance and the nonce it has just drawn, and for the capabilities the
  grant is cut from. (That only the holder's signatures verify, and that JSON tells transcripts apart,
  are the assumptions on Ed25519 and JSON.)\<close>

theorem handshake_agreement:
  assumes "Handshake cr co lookup env s = (Inr auth, s')"
    and "is_ok (ValidateID (srv_DaemonID (peer_auth s)))"
    and "inj_on (marshal_transcript co) {t. wf_transcript t}"
    and "\<And>client m signature. lookup (auth_ClientID auth) = Inr client \<Longrightarrow>
        Verify cr (cli_PublicKey client) m signature \<Longrightarrow> \<exists>h p. client_signs cr co identity h p m"
    and "\<And>cid client. lookup cid = Inr client \<Longrightarrow> cli_ID client = cid"
  shows "\<exists>h p m client. client_signs cr co identity h p m \<and> local_ClientID identity = auth_ClientID auth \<and>
    local_DaemonID identity = srv_DaemonID (peer_auth s) \<and>
    randomBytes 32 (env_nonce env) = Inr (sp_DaemonNonce p) \<and>
    sp_EndpointInstance p = srv_EndpointInstance (peer_auth s) \<and>
    Sum256 cr (local_DaemonPublicKey identity) = Sum256 cr (Public cr (srv_PrivateKey (peer_auth s))) \<and>
    lookup (auth_ClientID auth) = Inr client \<and> cli_Status client = ClientIdentityActive \<and>
    auth_GrantedCapabilities auth = intersectCapabilities (hello_RequestedCapabilities h) (cli_Caps client)"
  by (rule Handshake_agreement [OF assms])

lemma handshake_agreement_witness:
  "\<exists>h p m. client_signs sample_crypto sample_codec sample_identity h p m \<and>
     sp_DaemonNonce p = replicate 32 6 \<and> sp_EndpointInstance p = replicate 32 3"
proof -
  obtain s auth s' where
    run: "Handshake sample_crypto sample_codec (\<lambda>cid. ClientIdentity_read cid sample_db) (sample_env 6) s = (Inr auth, s')"
    and s: "peer_auth s = sample_auth" "auth_ClientID auth = client_1"
    using sample_handshake unfolding sample_conditions(1) by (metis server_peer.select_convs(1))
  have signs: "client_signs sample_crypto sample_codec sample_identity sample_hello sample_unsigned sample_m"
    using sample_transcript sample_caps_canonical
    by (simp add: client_signs_def validateHello_ok validateServerProof_ok sample_hello_def client_hello_def
        sample_unsigned_def sample_identity_def ProtocolMinor_def MaxCapabilities_def ed25519SignatureSize_def
        PublicKey_def sample_crypto_def key_halves_def)
  have "\<exists>h p m client. client_signs sample_crypto sample_codec sample_identity h p m \<and>
    local_ClientID sample_identity = auth_ClientID auth \<and>
    local_DaemonID sample_identity = srv_DaemonID (peer_auth s) \<and>
    randomBytes 32 (env_nonce (sample_env 6)) = Inr (sp_DaemonNonce p) \<and>
    sp_EndpointInstance p = srv_EndpointInstance (peer_auth s) \<and>
    Sum256 sample_crypto (local_DaemonPublicKey sample_identity) =
      Sum256 sample_crypto (Public sample_crypto (srv_PrivateKey (peer_auth s))) \<and>
    ClientIdentity_read (auth_ClientID auth) sample_db = Inr client \<and> cli_Status client = ClientIdentityActive \<and>
    auth_GrantedCapabilities auth = intersectCapabilities (hello_RequestedCapabilities h) (cli_Caps client)"
  proof (rule handshake_agreement [OF run])
    show "is_ok (ValidateID (srv_DaemonID (peer_auth s)))" by (simp add: s sample_auth_def)
    show "inj_on (marshal_transcript sample_codec) {t. wf_transcript t}" by (rule sample_codec_inj)
    show "\<exists>h p. client_signs sample_crypto sample_codec sample_identity h p m"
      if "Verify sample_crypto (cli_PublicKey client) m signature" for client m signature
      using that signs by (auto simp: sample_crypto_def)
    show "cli_ID client = cid" if "ClientIdentity_read cid sample_db = Inr client" for cid client
      using client_read_key [OF that] .
  qed
  then show ?thesis unfolding sample_envs s sample_auth_def by (metis (no_types, lifting) ServerAuthenticator.select_convs(3) sum.inject(2))
qed

text \<open>C19. A hello the daemon has accepted is refused for half an hour, whatever other handshakes, successful
  or not, come in between: a recorded connection cannot be replayed.\<close>

theorem replayed_hello_refused:
  assumes "Handshake cr co lookup env s = (Inr auth, s')" "hello_sent co (peer_conn s) = Some hello"
    and "\<forall>(lookup, env', c) \<in> set hs. env_mark_time env' - env_mark_time env \<le> ConnectionLifetime"
    and "hello_sent co c = Some hello'" "hello_ClientID hello' = hello_ClientID hello"
      "hello_ClientNonce hello' = hello_ClientNonce hello"
    and "env_mark_time env' - env_mark_time env \<le> ConnectionLifetime"
  shows "Handshake cr co lookup' env' \<lparr>peer_auth = handshakes cr co hs (peer_auth s'), peer_conn = c\<rparr> \<noteq> (Inr auth', s'')"
  by (rule hello_not_replayed [OF assms])

lemma replayed_hello_refused_witness:
  "\<exists>c a'. \<forall>auth' s''. Handshake sample_crypto sample_codec (\<lambda>cid. ClientIdentity_read cid sample_db) (sample_env 6)
       \<lparr>peer_auth = a', peer_conn = c\<rparr> \<noteq> (Inr auth', s'') \<and> hello_sent sample_codec c \<noteq> None"
proof -
  obtain s auth s' where
    run: "Handshake sample_crypto sample_codec (\<lambda>cid. ClientIdentity_read cid sample_db) (sample_env 6) s = (Inr auth, s')"
    using sample_handshake by blast
  obtain hello where hello: "hello_sent sample_codec (peer_conn s) = Some hello"
    using Handshake_hello [OF run] by blast
  have "Handshake sample_crypto sample_codec (\<lambda>cid. ClientIdentity_read cid sample_db) (sample_env 6)
      \<lparr>peer_auth = handshakes sample_crypto sample_codec [] (peer_auth s'), peer_conn = peer_conn s\<rparr> \<noteq> (Inr auth', s'')" for auth' s''
    by (rule replayed_hello_refused [OF run hello _ hello])
       (simp_all add: ConnectionLifetime_def second_def)
  then show ?thesis using hello by blast
qed

section \<open>Requests\<close>

text \<open>C21. On one connection the handler sees at most 128 requests, no request identifier twice, and none
  that the authorizer has not just accepted in the state the handler meets.\<close>

theorem handler_calls_authorized:
  assumes "con_seen s = []" "snd (con_app s) = []" "serve_loop co (logged app) auth s = (r, s')"
  shows "length (snd (con_app s')) \<le> 128 \<and> distinct (map (rq_ID \<circ> fst) (snd (con_app s'))) \<and>
    list_all (authorized_call app auth) (snd (con_app s'))"
proof -
  have ok: "calls_ok app auth s'"
    using serve_loop_calls [OF calls_ok_start [OF assms(2,1)], of app auth co] assms(3) by simp
  then show ?thesis using calls_ok_bound [OF ok] by (simp add: calls_ok_def Let_def max_requests_def)
qed

definition sample_application :: "(int, string) application" where
  "sample_application = \<lparr>app_deadline = (\<lambda>_. Inr ()),
     app_authorizer = Some (\<lambda>n auth request_method. if n < 1 then Inr () else Inl (OtherError ''full'')),
     app_handler = (\<lambda>auth request n. (Inr ''done'', n + 1)), app_marshal = Inr\<rparr>"

definition sample_connection :: "(int \<times> (Request \<times> int) list) connection" where
  "sample_connection = \<lparr>con_peer = \<lparr>peer_auth = sample_auth,
       peer_conn = \<lparr>conn_in = frame ''1'' @ frame ''2'', conn_out = [], conn_accepts = 1000\<rparr>\<rparr>,
     con_seen = [], con_app = (0, [])\<rparr>"

lemma handler_calls_authorized_witness:
  "\<forall>auth. list_all (authorized_call sample_application auth)
     (snd (con_app (snd (serve_loop sample_codec (logged sample_application) auth sample_connection))))"
proof
  fix auth
  have "con_seen sample_connection = []" "snd (con_app sample_connection) = []"
    by (simp_all add: sample_connection_def)
  then show "list_all (authorized_call sample_application auth)
     (snd (con_app (snd (serve_loop sample_codec (logged sample_application) auth sample_connection))))"
    using handler_calls_authorized by (metis prod.collapse)
qed

text \<open>C20. Rotating or revoking a client identity cuts off every connection authenticated before it: from
  then on no request of such a context is authorized, whatever happens to the store.\<close>

theorem changed_identity_cut_off:
  assumes "db_ok d" "Handshake cr co (\<lambda>cid. ClientIdentity_read cid d) env s = (Inr auth, s')"
    and "store_op\<^sup>*\<^sup>* d d1"
    and "RotateClientIdentity (auth_ClientID auth) n key t d1 = Inr (c, d2) \<or>
      RevokeClientIdentity (auth_ClientID auth) n t d1 = Inr (c, d2)"
    and "store_op\<^sup>*\<^sup>* d2 d3"
  shows "authorize_store d3 now auth request_method \<noteq> Inr ()"
  by (rule identity_change_refuses [OF assms])

lemma changed_identity_cut_off_witness:
  "\<exists>auth d2. auth_ClientID auth = client_1 \<and> authorize_store sample_db 100 auth ''daemon.status'' = Inr () \<and>
     (\<exists>c. RevokeClientIdentity client_1 1 9 sample_db = Inr (c, d2)) \<and>
     authorize_store d2 100 auth ''daemon.status'' \<noteq> Inr ()"
proof -
  obtain s auth s' where
    run: "Handshake sample_crypto sample_codec (\<lambda>cid. ClientIdentity_read cid sample_db) (sample_env 6) s = (Inr auth, s')"
    and auth: "auth_ClientID auth = client_1"
      "auth_GrantedCapabilities auth = intersectCapabilities [CapabilityMetadataRead] (cli_Caps sample_client)"
    using sample_handshake unfolding sample_conditions(1) by blast
  have b: "between (Suc 0) 128 ''a''" "between (Suc 0) 128 ''b''" by (simp_all add: between_def sql_length_def)
  have ne: "client_1 \<noteq> client_2" by (simp add: sample_ids)
  have "\<exists>c d2. RevokeClientIdentity client_1 1 9 sample_db = Inr (c, d2)"
    unfolding RevokeClientIdentity_ok [OF sample_db_ok]
    by (simp add: ClientIdentity_read_def read_row_def sample_db_def ne ne [symmetric] b clients_ok_def update_rows_def)
  then obtain c d2 where d2: "RevokeClientIdentity client_1 1 9 sample_db = Inr (c, d2)" by blast
  have "authorize_store d2 100 auth ''daemon.status'' \<noteq> Inr ()"
    by (rule changed_identity_cut_off [OF sample_db_ok run rtranclp.rtrancl_refl _ rtranclp.rtrancl_refl])
       (rule disjI2, use d2 auth in simp)
  moreover have "authorize_store sample_db 100 auth ''daemon.status'' = Inr ()"
  proof -
    have t: "auth_AuthenticatedAt auth = 100" "auth_ExpiresAt auth = 100 + ConnectionLifetime" "auth_IdentityRevision auth = 1"
      using Handshake_accepts [OF run] handshake_revision [OF run] auth(1)
      by (auto simp: sample_env_def sample_client_read sample_client_def)
    then show ?thesis
      unfolding Authorize_store_ok
      by (simp add: RequiredCapability_def ValidAt_def Has_def auth sample_client_read sample_client_def
          intersectCapabilities_def HasCapability_def ConnectionLifetime_def second_def)
  qed
  ultimately show ?thesis using auth(1) d2 by blast
qed

end
