(* ===== verification/RuntimeManager.thy ===== *)
theory RuntimeManager
  imports Effects RingBuffer LeaseDomain StoreSessions
begin

text \<open>
  \<open>src/internal/runtime/manager.go\<close>: the daemon's runtime. A manager is its store, its maps from
  sessions to processes, output rings and sequence numbers, and the rest of the world: the clock,
  the random source, the child processes and the vault's lock (\<open>runtime\<close>), and the Codex bridge
  (\<open>codex\<close>), which may change the whole manager. Go's maps of sequence numbers are total functions
  with the zero value as default. Each operation is one call; \<open>Input\<close>, which gives up the mutex
  twice, is composed of its three sections.
\<close>

section \<open>State\<close>

record ('w, 'p) manager =
  mgr_db :: db
  mgr_world :: 'w
  mgr_processes :: "ID \<Rightarrow> 'p option"
  mgr_rings :: "ID \<Rightarrow> RingBuffer option"
  mgr_eventSeq :: "ID \<Rightarrow> int"
  mgr_inputSeq :: "string \<Rightarrow> int"

record StartRequest =
  start_DeviceID :: ID
  start_Provider :: string
  start_AccountID :: ID
  start_CredentialInstanceID :: ID
  start_RuntimeProfileID :: ID
  start_WorkspaceID :: ID
  start_Capabilities :: "Capability list"
  start_ResumedFromSessionID :: ID

record ReservedStartRequest =
  rs_SessionID :: ID
  rs_DeviceID :: ID
  rs_AccountID :: ID
  rs_CredentialInstanceID :: ID
  rs_RuntimeProfileID :: ID
  rs_WorkspaceID :: ID
  rs_ProviderVersion :: string
  rs_BinaryFingerprint :: string
  rs_SchemaFingerprint :: string
  rs_CapabilityDigest :: string

record InputRequest =
  in_SessionID :: ID
  in_ClientID :: ID
  in_Revision :: int
  in_Sequence :: int
  in_Payload :: string

record InputResult =
  out_Sequence :: int
  out_Duplicate :: bool

record ResizeRequest =
  rz_SessionID :: ID
  rz_ClientID :: ID
  rz_Revision :: int
  rz_Rows :: int
  rz_Cols :: int

record CodexStart =
  cs_DeviceID :: ID
  cs_AccountID :: ID
  cs_CredentialInstanceID :: ID
  cs_RuntimeProfileID :: ID
  cs_WorkspaceID :: ID

record ChildEvent =
  ev_Kind :: string
  ev_Payload :: string
  ev_Code :: int

datatype event_metadata = OutputMetadata int nat | PayloadMetadata string | CodexMetadata string

text \<open>The Codex bridge, and what else the manager calls. \<open>'p\<close> is the pointer to a child process.\<close>

record 's codex =
  cx_start :: "CodexStart \<Rightarrow> ('s, Session) run"
  cx_start_reserved :: "ReservedStartRequest \<Rightarrow> ('s, Session) run"
  cx_input :: "ID \<Rightarrow> string \<Rightarrow> ('s, unit) run"
  cx_resize :: "ID \<Rightarrow> ('s, unit) run"
  cx_stop :: "ID \<Rightarrow> bool \<Rightarrow> ('s, unit) run"

record ('w, 'p) runtime =
  rt_executable :: string
  rt_leaseDuration :: duration
  rt_now :: "'w \<Rightarrow> time \<times> 'w"
  rt_random :: "'w \<Rightarrow> nat list option \<times> 'w"
  rt_unlocked :: "('w, unit) run option"
  rt_start :: "('w, 'p) run"
  rt_ready :: "'p \<Rightarrow> ('w, unit) run"
  rt_input :: "'p \<Rightarrow> string \<Rightarrow> ('w, unit) run"
  rt_resize :: "'p \<Rightarrow> int \<Rightarrow> int \<Rightarrow> ('w, unit) run"
  rt_stop :: "'p \<Rightarrow> ('w, unit) run"
  rt_kill :: "'p \<Rightarrow> ('w, unit) run"
  rt_event_json :: "event_metadata \<Rightarrow> error + string"
  rt_codex :: "('w, 'p) manager codex option"

definition NewManager :: "db \<Rightarrow> 'w \<Rightarrow> ('w, 'p) manager" where
  "NewManager d w = \<lparr>mgr_db = d, mgr_world = w, mgr_processes = (\<lambda>_. None), mgr_rings = (\<lambda>_. None),
     mgr_eventSeq = (\<lambda>_. 0), mgr_inputSeq = (\<lambda>_. 0)\<rparr>"

definition RegisterCodex :: "('w, 'p) manager codex option \<Rightarrow> ('w, 'p) runtime \<Rightarrow> ('w, 'p) runtime" where
  "RegisterCodex codex rt = rt\<lparr>rt_codex := codex\<rparr>"

text \<open>A transaction of the store, a read of it, and a call of the world.\<close>

definition store :: "(db \<Rightarrow> error + ('a \<times> db)) \<Rightarrow> (('w, 'p) manager, 'a) run" where
  "store = transactS mgr_db (\<lambda>d s. s\<lparr>mgr_db := d\<rparr>)"

definition load :: "(db \<Rightarrow> error + 'a) \<Rightarrow> (('w, 'p) manager, 'a) run" where
  "load f = bindS (getS (\<lambda>s. f (mgr_db s))) liftS"

definition world :: "('w, 'a) run \<Rightarrow> (('w, 'p) manager, 'a) run" where
  "world = zoomS mgr_world (\<lambda>w s. s\<lparr>mgr_world := w\<rparr>)"

definition now :: "('w, 'p) runtime \<Rightarrow> (('w, 'p) manager, time) run" where
  "now rt = world (\<lambda>w. case rt_now rt w of (t, w') \<Rightarrow> (Inr t, w'))"

definition fresh_id :: "('w, 'p) runtime \<Rightarrow> string \<Rightarrow> (('w, 'p) manager, ID) run" where
  "fresh_id rt prefix =
     bindS (world (\<lambda>w. case rt_random rt w of (r, w') \<Rightarrow> (Inr r, w'))) (\<lambda>random. liftS (NewID prefix random))"

section \<open>Events\<close>

definition appendEvent :: "('w, 'p) runtime \<Rightarrow> ID \<Rightarrow> string \<Rightarrow> event_metadata \<Rightarrow> (('w, 'p) manager, unit) run" where
  "appendEvent rt sessionID kind metadata =
     (case rt_event_json rt metadata of
        Inl e \<Rightarrow> returnS ()
      | Inr encoded \<Rightarrow>
          bindS (modifyS (\<lambda>s. s\<lparr>mgr_eventSeq := (mgr_eventSeq s)(sessionID := i64 (mgr_eventSeq s sessionID + 1))\<rparr>)) (\<lambda>_.
          bindS (getS (\<lambda>s. mgr_eventSeq s sessionID)) (\<lambda>sequence.
          ignoreS (bindS (fresh_id rt ''event'') (\<lambda>eventID.
                   bindS (now rt) (\<lambda>createdAt.
                   store (AppendRuntimeEvent
                     \<lparr>evt_ID = eventID, evt_SessionID = sessionID, evt_Sequence = sequence, evt_Kind = kind,
                      evt_Metadata = encoded, evt_CreatedAt = createdAt\<rparr>)))))))"

text \<open>
  A ring's \<open>Append\<close>. The buffers in the manager come from \<open>NewDefaultRingBuffer\<close>, so it returns
  (\<open>ring_append_total\<close>).
\<close>

definition ring_append :: "RingBuffer \<Rightarrow> string \<Rightarrow> RingBuffer \<times> Chunk list" where
  "ring_append ring data = (case Append ring (map of_char data) of None \<Rightarrow> (ring, []) | Some r \<Rightarrow> r)"

fun append_chunk_events :: "('w, 'p) runtime \<Rightarrow> ID \<Rightarrow> string \<Rightarrow> Chunk list \<Rightarrow> (('w, 'p) manager, unit) run" where
  "append_chunk_events rt sessionID kind [] = returnS ()"
| "append_chunk_events rt sessionID kind (c # cs) =
     bindS (appendEvent rt sessionID kind (OutputMetadata (chunk_Sequence c) (length (chunk_Data c))))
       (\<lambda>_. append_chunk_events rt sessionID kind cs)"

definition new_ring :: "RingBuffer" where
  "new_ring = the NewDefaultRingBuffer"

text \<open>\<open>if m.rings[id] == nil { m.rings[id] = NewDefaultRingBuffer() }\<close>\<close>

definition ensure_ring :: "ID \<Rightarrow> (('w, 'p) manager, unit) run" where
  "ensure_ring sessionID = modifyS (\<lambda>s.
     if mgr_rings s sessionID = None then s\<lparr>mgr_rings := (mgr_rings s)(sessionID := Some new_ring)\<rparr> else s)"

definition append_output :: "('w, 'p) runtime \<Rightarrow> ID \<Rightarrow> string \<Rightarrow> string \<Rightarrow> (('w, 'p) manager, unit) run" where
  "append_output rt sessionID kind output =
     bindS (getS (\<lambda>s. mgr_rings s sessionID)) (\<lambda>entry.
     case entry of
       None \<Rightarrow> returnS ()
     | Some ring \<Rightarrow>
         (case ring_append ring output of
            (ring', chunks) \<Rightarrow>
              bindS (modifyS (\<lambda>s. s\<lparr>mgr_rings := (mgr_rings s)(sessionID := Some ring')\<rparr>)) (\<lambda>_.
              append_chunk_events rt sessionID kind chunks)))"

definition appendCodexEvent ::
  "('w, 'p) runtime \<Rightarrow> ID \<Rightarrow> string \<Rightarrow> string \<Rightarrow> string \<Rightarrow> (('w, 'p) manager, unit) run" where
  "appendCodexEvent rt sessionID kind metadata output =
     (if output = [] then appendEvent rt sessionID kind (CodexMetadata metadata)
      else bindS (ensure_ring sessionID) (\<lambda>_. append_output rt sessionID kind output))"

text \<open>The end of a child: a session that was stopping has exited, any other has failed.\<close>

definition handleExit :: "('w, 'p) runtime \<Rightarrow> ID \<Rightarrow> 'p \<Rightarrow> int \<Rightarrow> (('w, 'p) manager, unit) run" where
  "handleExit rt sessionID process code =
     ignoreS (bindS (load (Session_read sessionID)) (\<lambda>session.
       if Terminal (ses_Status session) then returnS ()
       else bindS (now rt) (\<lambda>at_exit.
            bindS (if ses_Status session = SessionStopping
                   then ignoreS (store (TransitionSession sessionID SessionStopping SessionExited at_exit (Some code) ''''))
                   else ignoreS (store (TransitionSession sessionID (ses_Status session) SessionFailed at_exit None
                                          (code_text CodeProviderFailed)))) (\<lambda>_.
            modifyS (\<lambda>s. if mgr_processes s sessionID = Some process
                          then s\<lparr>mgr_processes := (mgr_processes s)(sessionID := None)\<rparr> else s)))))"

definition observe_event :: "('w, 'p) runtime \<Rightarrow> ID \<Rightarrow> 'p \<Rightarrow> ChildEvent \<Rightarrow> (('w, 'p) manager, unit) run" where
  "observe_event rt sessionID process event =
     (if ev_Kind event = ''output'' then append_output rt sessionID ''output'' (ev_Payload event)
      else if ev_Kind event = ''ready'' \<or> ev_Kind event = ''resized''
      then appendEvent rt sessionID (ev_Kind event) (PayloadMetadata (ev_Payload event))
      else if ev_Kind event = ''exit'' then handleExit rt sessionID process (ev_Code event)
      else returnS ())"

text \<open>
  The goroutine that drains a child's event channel; \<open>err\<close> and \<open>exitCode\<close> are the process's when
  the channel is closed.
\<close>

fun observeProcess ::
  "('w, 'p) runtime \<Rightarrow> ID \<Rightarrow> 'p \<Rightarrow> ChildEvent list \<Rightarrow> error option \<Rightarrow> int \<Rightarrow> (('w, 'p) manager, unit) run" where
  "observeProcess rt sessionID process [] err exitCode =
     (if err \<noteq> None then handleExit rt sessionID process exitCode else returnS ())"
| "observeProcess rt sessionID process (event # events) err exitCode =
     bindS (observe_event rt sessionID process event)
       (\<lambda>_. observeProcess rt sessionID process events err exitCode)"

section \<open>Starting\<close>

definition StartFake :: "('w, 'p) runtime \<Rightarrow> StartRequest \<Rightarrow> (('w, 'p) manager, Session) run" where
  "StartFake rt request =
     (if rt_executable rt = '''' then failS CodeInvalidArgument ''runtime manager is incomplete''
      else
     bindS (case rt_unlocked rt of None \<Rightarrow> returnS () | Some unlocked \<Rightarrow> world unlocked) (\<lambda>_.
     bindS (liftS (check_all ValidateID [start_DeviceID request, start_CredentialInstanceID request,
              start_RuntimeProfileID request, start_WorkspaceID request])) (\<lambda>_.
     bindS (liftS (CanonicalCapabilities (start_Capabilities request))) (\<lambda>caps.
     bindS (fresh_id rt ''session'') (\<lambda>sessionID.
     bindS (now rt) (\<lambda>startedAt.
     let session = \<lparr>ses_ID = sessionID, ses_DeviceID = start_DeviceID request,
           ses_AccountID = start_AccountID request, ses_Provider = ''fake'',
           ses_CredentialInstanceID = start_CredentialInstanceID request,
           ses_RuntimeProfileID = start_RuntimeProfileID request, ses_WorkspaceID = start_WorkspaceID request,
           ses_ProviderSessionID = '''', ses_ResumedFromSessionID = start_ResumedFromSessionID request,
           ses_Status = SessionStarting, ses_StartedAt = startedAt, ses_EndedAt = None, ses_ExitCode = None,
           ses_CapabilitySnapshot = caps, ses_FailureCode = ''''\<rparr>;
         mark_failed = bindS (now rt) (\<lambda>at_failure.
           ignoreS (store (TransitionSession sessionID SessionStarting SessionFailed at_failure None
                             (code_text CodeProviderFailed))))
     in
     bindS (store (CreateSession session)) (\<lambda>_.
     bindS (catchS (world (rt_start rt)) (\<lambda>e. bindS mark_failed (\<lambda>_. throwS e))) (\<lambda>process.
     bindS (catchS (world (rt_ready rt process)) (\<lambda>e.
              bindS (ignoreS (world (rt_kill rt process))) (\<lambda>_. bindS mark_failed (\<lambda>_. throwS e)))) (\<lambda>_.
     bindS (now rt) (\<lambda>runningAt.
     bindS (catchS (bindS (store (TransitionSession sessionID SessionStarting SessionRunning runningAt None ''''))
                      (\<lambda>_. returnS ()))
              (\<lambda>e. bindS (ignoreS (world (rt_kill rt process))) (\<lambda>_. throwS e))) (\<lambda>_.
     bindS (modifyS (\<lambda>s. s\<lparr>mgr_processes := (mgr_processes s)(sessionID := Some process),
                            mgr_rings := (mgr_rings s)(sessionID := Some new_ring)\<rparr>)) (\<lambda>_.
     load (Session_read sessionID)))))))))))))"

definition Start :: "('w, 'p) runtime \<Rightarrow> StartRequest \<Rightarrow> (('w, 'p) manager, Session) run" where
  "Start rt request =
     bindS (load (RuntimeProfile_read (start_RuntimeProfileID request))) (\<lambda>profile.
     if start_Provider request \<noteq> '''' \<and> start_Provider request \<noteq> prof_Provider profile
     then failS CodeConflict ''requested provider does not match the stored RuntimeProfile''
     else if prof_Provider profile = ProviderFake
     then StartFake rt (request\<lparr>start_Provider := prof_Provider profile\<rparr>)
     else if prof_Provider profile = ProviderCodex
     then (case rt_codex rt of
             None \<Rightarrow> failS CodeProviderUnsupported ''codex runtime bridge is unavailable''
           | Some codex \<Rightarrow>
               bindS (cx_start codex \<lparr>cs_DeviceID = start_DeviceID request, cs_AccountID = start_AccountID request,
                        cs_CredentialInstanceID = start_CredentialInstanceID request,
                        cs_RuntimeProfileID = start_RuntimeProfileID request,
                        cs_WorkspaceID = start_WorkspaceID request\<rparr>) (\<lambda>session.
               bindS (ensure_ring (ses_ID session)) (\<lambda>_. returnS session)))
     else failS CodeInvalidArgument ''provider is unsupported'')"

definition StartReserved :: "('w, 'p) runtime \<Rightarrow> ReservedStartRequest \<Rightarrow> (('w, 'p) manager, Session) run" where
  "StartReserved rt request =
     (if \<not> is_ok (ValidateID (rs_SessionID request))
      then failS CodeInvalidArgument ''reserved runtime start is incomplete''
      else
     bindS (load (Session_read (rs_SessionID request))) (\<lambda>reserved.
     if ses_DeviceID reserved \<noteq> rs_DeviceID request \<or> ses_AccountID reserved \<noteq> rs_AccountID request \<or>
        ses_CredentialInstanceID reserved \<noteq> rs_CredentialInstanceID request \<or>
        ses_RuntimeProfileID reserved \<noteq> rs_RuntimeProfileID request \<or>
        ses_WorkspaceID reserved \<noteq> rs_WorkspaceID request \<or> ses_Provider reserved \<noteq> ProviderCodex
     then failS CodeProfileBindingChanged ''reserved Session tuple changed''
     else if ses_Status reserved \<noteq> SessionStarting then returnS reserved
     else case rt_codex rt of
       None \<Rightarrow>
         bindS (now rt) (\<lambda>failedAt.
         store (TransitionSession (ses_ID reserved) SessionStarting SessionFailed failedAt None
                  (code_text CodeProviderCapabilityUnavailable)))
     | Some codex \<Rightarrow>
         bindS (cx_start_reserved codex request) (\<lambda>session.
         bindS (ensure_ring (ses_ID session)) (\<lambda>_. returnS session))))"

definition Resume_session :: "('w, 'p) runtime \<Rightarrow> ID \<Rightarrow> (('w, 'p) manager, Session) run" where
  "Resume_session rt sourceID =
     bindS (load (Session_read sourceID)) (\<lambda>source.
     if ses_Provider source \<noteq> ProviderFake
     then failS CodeProviderResumeUnsupported ''provider continuation is not verified''
     else
     bindS (fresh_id rt ''session'') (\<lambda>resumedID.
     bindS (now rt) (\<lambda>resumedAt.
     bindS (liftS (Resume source resumedID resumedAt)) (\<lambda>session.
     StartFake rt \<lparr>start_DeviceID = ses_DeviceID session, start_Provider = '''', start_AccountID = '''',
       start_CredentialInstanceID = ses_CredentialInstanceID session,
       start_RuntimeProfileID = ses_RuntimeProfileID session, start_WorkspaceID = ses_WorkspaceID session,
       start_Capabilities = ses_CapabilitySnapshot session, start_ResumedFromSessionID = ses_ID source\<rparr>))))"

section \<open>Observing\<close>

definition process_of :: "ID \<Rightarrow> (('w, 'p) manager, 'p) run" where
  "process_of sessionID =
     bindS (getS (\<lambda>s. mgr_processes s sessionID)) (\<lambda>entry.
     case entry of None \<Rightarrow> failS CodeNotFound ''session process not found'' | Some process \<Rightarrow> returnS process)"

text \<open>\<open>RingBuffer.Replay\<close> reports a truncation as an error together with what is left.\<close>

definition ReplaySession :: "ID \<Rightarrow> int \<Rightarrow> (('w, 'p) manager, error option \<times> Replay) run" where
  "ReplaySession sessionID from_seq =
     bindS (load (Session_read sessionID)) (\<lambda>_.
     bindS (getS (\<lambda>s. mgr_rings s sessionID)) (\<lambda>entry.
     case entry of
       None \<Rightarrow> failS CodeNotFound ''session replay not found''
     | Some ring \<Rightarrow> returnS (ReplayFrom (Some ring) from_seq)))"

definition Attach :: "('w, 'p) runtime \<Rightarrow> ID \<Rightarrow> ID \<Rightarrow> AttachmentMode \<Rightarrow> (('w, 'p) manager, unit) run" where
  "Attach rt sessionID clientID mode =
     bindS (load (Session_read sessionID)) (\<lambda>session.
     if ses_Status session = SessionStarting
     then failS CodeConflict ''session is not attachable yet''
     else
     bindS (fresh_id rt ''attach'') (\<lambda>attachmentID.
     bindS (now rt) (\<lambda>connectedAt.
     catchS (store (CreateAttachment \<lparr>att_ID = attachmentID, att_SessionID = sessionID,
               att_ClientDeviceID = clientID, att_Mode = mode, att_ConnectedAt = connectedAt,
               att_LastSeenAt = connectedAt\<rparr>))
       (\<lambda>e. if CodeOf (Some e) = Some CodeConflict \<or> CodeOf (Some e) = Some CodeAlreadyExists
            then returnS () else throwS e))))"

definition Detach :: "ID \<Rightarrow> ID \<Rightarrow> (('w, 'p) manager, unit) run" where
  "Detach sessionID clientID = store (DeleteAttachment sessionID clientID)"

section \<open>Control\<close>

definition Acquire :: "('w, 'p) runtime \<Rightarrow> ID \<Rightarrow> ID \<Rightarrow> (('w, 'p) manager, ControllerLease) run" where
  "Acquire rt sessionID clientID =
     bindS (getS (\<lambda>s. ControllerLease_read sessionID (mgr_db s))) (\<lambda>loaded.
     bindS (liftS (case loaded of
              Inr lease \<Rightarrow> Inr (Some lease)
            | Inl e \<Rightarrow> if CodeOf (Some e) \<noteq> Some CodeNotFound then Inl e else Inr None)) (\<lambda>current.
     bindS (now rt) (\<lambda>acquiredAt.
     bindS (liftS (AcquireControllerLease current sessionID clientID acquiredAt (rt_leaseDuration rt))) (\<lambda>lease.
     bindS (store (SaveControllerLease lease (case current of None \<Rightarrow> 0 | Some c \<Rightarrow> lease_Revision c))) (\<lambda>_.
     returnS lease)))))"

definition HeartbeatLease :: "('w, 'p) runtime \<Rightarrow> ID \<Rightarrow> ID \<Rightarrow> int \<Rightarrow> (('w, 'p) manager, ControllerLease) run" where
  "HeartbeatLease rt sessionID clientID revision =
     bindS (load (ControllerLease_read sessionID)) (\<lambda>lease.
     bindS (now rt) (\<lambda>beatAt.
     bindS (liftS (Heartbeat lease clientID revision beatAt (rt_leaseDuration rt))) (\<lambda>updated.
     bindS (store (SaveControllerLease updated (lease_Revision lease))) (\<lambda>_.
     returnS updated))))"

definition ReleaseLease :: "('w, 'p) runtime \<Rightarrow> ID \<Rightarrow> ID \<Rightarrow> int \<Rightarrow> (('w, 'p) manager, ControllerLease) run" where
  "ReleaseLease rt sessionID clientID revision =
     bindS (load (ControllerLease_read sessionID)) (\<lambda>lease.
     bindS (now rt) (\<lambda>releasedAt.
     bindS (liftS (Release lease clientID revision releasedAt)) (\<lambda>updated.
     bindS (store (SaveControllerLease updated (lease_Revision lease))) (\<lambda>_.
     returnS updated))))"

definition requireLease :: "('w, 'p) runtime \<Rightarrow> ID \<Rightarrow> ID \<Rightarrow> int \<Rightarrow> (('w, 'p) manager, unit) run" where
  "requireLease rt sessionID clientID revision =
     bindS (load (ControllerLease_read sessionID)) (\<lambda>lease.
     bindS (now rt) (\<lambda>checkedAt.
     liftS (RequireControl lease clientID revision checkedAt)))"

section \<open>Input\<close>

definition input_key :: "InputRequest \<Rightarrow> string" where
  "input_key request = in_SessionID request @ '':'' @ in_ClientID request"

text \<open>
  The three sections of \<open>Input\<close>: the lease and the sequence number are checked; the payload is
  delivered without the mutex; the next sequence number is recorded.
\<close>

datatype 'p input_check = InputDuplicate | InputExpected int "'p option"

definition check_input :: "('w, 'p) runtime \<Rightarrow> InputRequest \<Rightarrow> (('w, 'p) manager, 'p input_check) run" where
  "check_input rt request =
     (if in_Sequence request < 1 then failS CodeInvalidArgument ''input sequence is invalid''
      else
     bindS (requireLease rt (in_SessionID request) (in_ClientID request) (in_Revision request)) (\<lambda>_.
     bindS (getS (\<lambda>s. mgr_inputSeq s (input_key request))) (\<lambda>stored.
     let expected = (if stored = 0 then 1 else stored)
     in if in_Sequence request < expected then returnS InputDuplicate
        else if expected < in_Sequence request then failS CodeConflict ''input sequence gap''
        else bindS (getS (\<lambda>s. mgr_processes s (in_SessionID request))) (\<lambda>process.
             returnS (InputExpected expected process)))))"

definition deliver_input :: "('w, 'p) runtime \<Rightarrow> InputRequest \<Rightarrow> 'p option \<Rightarrow> (('w, 'p) manager, unit) run" where
  "deliver_input rt request process =
     bindS (load (Session_read (in_SessionID request))) (\<lambda>session.
     if ses_Provider session = ProviderCodex
     then (case rt_codex rt of
             None \<Rightarrow> failS CodeProviderUnsupported ''codex runtime bridge is unavailable''
           | Some codex \<Rightarrow> cx_input codex (in_SessionID request) (in_Payload request))
     else case process of
            None \<Rightarrow> failS CodeNotFound ''session process not found''
          | Some p \<Rightarrow> world (rt_input rt p (in_Payload request)))"

definition commit_input :: "InputRequest \<Rightarrow> int \<Rightarrow> (('w, 'p) manager, InputResult) run" where
  "commit_input request expected =
     bindS (modifyS (\<lambda>s. s\<lparr>mgr_inputSeq := (mgr_inputSeq s)(input_key request := i64 (expected + 1))\<rparr>)) (\<lambda>_.
     returnS \<lparr>out_Sequence = in_Sequence request, out_Duplicate = False\<rparr>)"

definition Input :: "('w, 'p) runtime \<Rightarrow> InputRequest \<Rightarrow> (('w, 'p) manager, InputResult) run" where
  "Input rt request =
     bindS (check_input rt request) (\<lambda>check.
     case check of
       InputDuplicate \<Rightarrow> returnS \<lparr>out_Sequence = in_Sequence request, out_Duplicate = True\<rparr>
     | InputExpected expected process \<Rightarrow>
         bindS (deliver_input rt request process) (\<lambda>_. commit_input request expected))"

definition Resize :: "('w, 'p) runtime \<Rightarrow> ResizeRequest \<Rightarrow> (('w, 'p) manager, unit) run" where
  "Resize rt request =
     (if rz_Rows request \<le> 0 \<or> rz_Cols request \<le> 0 \<or> 1000 < rz_Rows request \<or> 1000 < rz_Cols request
      then failS CodeInvalidArgument ''terminal size is invalid''
      else
     bindS (requireLease rt (rz_SessionID request) (rz_ClientID request) (rz_Revision request)) (\<lambda>_.
     bindS (load (Session_read (rz_SessionID request))) (\<lambda>session.
     if ses_Provider session = ProviderCodex
     then (case rt_codex rt of
             None \<Rightarrow> failS CodeProviderUnsupported ''codex runtime bridge is unavailable''
           | Some codex \<Rightarrow> cx_resize codex (rz_SessionID request))
     else bindS (process_of (rz_SessionID request)) (\<lambda>process.
          world (rt_resize rt process (rz_Rows request) (rz_Cols request))))))"

section \<open>Ending\<close>

text \<open>
  \<open>waitTerminal\<close> polls the store until the session has ended or the context is done. What other
  goroutines do between two polls is the next element of \<open>ticks\<close>; the context is done when there
  is no further element.
\<close>

fun waitTerminal ::
  "ID \<Rightarrow> (('w, 'p) manager \<Rightarrow> ('w, 'p) manager) list \<Rightarrow> (('w, 'p) manager, Session) run" where
  "waitTerminal sessionID [] =
     bindS (load (Session_read sessionID)) (\<lambda>session.
     if Terminal (ses_Status session) then returnS session
     else throwS (WrapError CodeDeadlineExceeded ''session termination observation timed out''
                    (OtherError ''context deadline exceeded'')))"
| "waitTerminal sessionID (tick # ticks) =
     bindS (load (Session_read sessionID)) (\<lambda>session.
     if Terminal (ses_Status session) then returnS session
     else bindS (modifyS tick) (\<lambda>_. waitTerminal sessionID ticks))"

definition Stop ::
  "('w, 'p) runtime \<Rightarrow> (('w, 'p) manager \<Rightarrow> ('w, 'p) manager) list \<Rightarrow> ID \<Rightarrow> ID \<Rightarrow> int \<Rightarrow>
   (('w, 'p) manager, Session) run" where
  "Stop rt ticks sessionID clientID revision =
     bindS (requireLease rt sessionID clientID revision) (\<lambda>_.
     bindS (load (Session_read sessionID)) (\<lambda>session.
     if Terminal (ses_Status session) \<or> ses_Status session = SessionStopping then returnS session
     else if ses_Provider session = ProviderCodex
     then (case rt_codex rt of
             None \<Rightarrow> failS CodeProviderUnsupported ''codex runtime bridge is unavailable''
           | Some codex \<Rightarrow> bindS (cx_stop codex sessionID False) (\<lambda>_. load (Session_read sessionID)))
     else
     bindS (now rt) (\<lambda>stoppedAt.
     bindS (store (TransitionSession sessionID (ses_Status session) SessionStopping stoppedAt None '''')) (\<lambda>_.
     bindS (getS (\<lambda>s. mgr_processes s sessionID)) (\<lambda>entry.
     case entry of
       None \<Rightarrow> load (Session_read sessionID)
     | Some process \<Rightarrow>
         bindS (catchS (world (rt_stop rt process))
                  (\<lambda>e. if CodeOf (Some e) = Some CodeDeadlineExceeded then returnS () else throwS e)) (\<lambda>_.
         waitTerminal sessionID ticks))))))"

definition Kill :: "('w, 'p) runtime \<Rightarrow> ID \<Rightarrow> ID \<Rightarrow> int \<Rightarrow> (('w, 'p) manager, Session) run" where
  "Kill rt sessionID clientID revision =
     bindS (requireLease rt sessionID clientID revision) (\<lambda>_.
     bindS (load (Session_read sessionID)) (\<lambda>session.
     if Terminal (ses_Status session) then returnS session
     else if ses_Provider session = ProviderCodex
     then (case rt_codex rt of
             None \<Rightarrow> failS CodeProviderUnsupported ''codex runtime bridge is unavailable''
           | Some codex \<Rightarrow> bindS (cx_stop codex sessionID True) (\<lambda>_. load (Session_read sessionID)))
     else
     bindS (getS (\<lambda>s. mgr_processes s sessionID)) (\<lambda>entry.
     bindS (case entry of None \<Rightarrow> returnS () | Some process \<Rightarrow> world (rt_kill rt process)) (\<lambda>_.
     bindS (if ses_Status session = SessionStarting \<or> ses_Status session = SessionRunning \<or>
               ses_Status session = SessionStopping
            then bindS (now rt) (\<lambda>killedAt.
                 bindS (store (TransitionSession sessionID (ses_Status session) SessionKilled killedAt None ''''))
                   (\<lambda>_. returnS ()))
            else returnS ()) (\<lambda>_.
     load (Session_read sessionID))))))"

text \<open>\<open>Close\<close> kills every child it knows, in some order, and has ended the Codex bridge before.\<close>

fun kill_all :: "('w, 'p) runtime \<Rightarrow> 'p list \<Rightarrow> (('w, 'p) manager, unit) run" where
  "kill_all rt [] = returnS ()"
| "kill_all rt (p # ps) = bindS (ignoreS (world (rt_kill rt p))) (\<lambda>_. kill_all rt ps)"

end
