(* ===== verification/RuntimeLaws.thy ===== *)
theory RuntimeLaws
  imports RuntimeManager StoreInvariants
begin

text \<open>
  The runtime manager over the store: every operation is a history of store operations, control
  needs the current lease, input is applied once per sequence number, and a child's exit ends its
  session.
\<close>

section \<open>Histories\<close>

definition history :: "db \<Rightarrow> ('w, 'p) manager \<Rightarrow> bool" where
  "history d s = store_op\<^sup>*\<^sup>* d (mgr_db s)"

text \<open>What is asked of the Codex bridge: that it keeps a condition on the manager.\<close>

definition bridge_keeps :: "(('w, 'p) manager \<Rightarrow> bool) \<Rightarrow> ('w, 'p) runtime \<Rightarrow> bool" where
  "bridge_keeps I rt =
     (case rt_codex rt of
        None \<Rightarrow> True
      | Some codex \<Rightarrow>
          (\<forall>r. keeps I (cx_start codex r)) \<and> (\<forall>r. keeps I (cx_start_reserved codex r)) \<and>
          (\<forall>i p. keeps I (cx_input codex i p)) \<and> (\<forall>i. keeps I (cx_resize codex i)) \<and>
          (\<forall>i b. keeps I (cx_stop codex i b)))"

lemma bridge_keeps_codex:
  "bridge_keeps I rt \<Longrightarrow> rt_codex rt = Some codex \<Longrightarrow>
     keeps I (cx_start codex r) \<and> keeps I (cx_start_reserved codex rr) \<and> keeps I (cx_input codex i p) \<and>
     keeps I (cx_resize codex i) \<and> keeps I (cx_stop codex i b)"
  by (simp add: bridge_keeps_def)

text \<open>
  Conditions that only look at the database: closed under the store operations that leave the
  leases alone, and under a save of a lease that the domain computed from the stored one.
\<close>

definition store_closed :: "(('w, 'p) manager \<Rightarrow> bool) \<Rightarrow> bool" where
  "store_closed I = ((\<forall>s s'. mgr_db s' = mgr_db s \<longrightarrow> I s \<longrightarrow> I s') \<and>
     (\<forall>s d. I s \<longrightarrow> store_op (mgr_db s) d \<longrightarrow> db_leases d = db_leases (mgr_db s) \<longrightarrow> I (s\<lparr>mgr_db := d\<rparr>)))"

definition lease_closed :: "(('w, 'p) manager \<Rightarrow> bool) \<Rightarrow> bool" where
  "lease_closed I = (\<forall>s d i l u. I s \<longrightarrow> lease_step i (stored_lease i (mgr_db s)) (Some l) \<longrightarrow>
     lease_SessionID l = i \<longrightarrow> SaveControllerLease l (lease_version i (mgr_db s)) (mgr_db s) = Inr (u, d) \<longrightarrow>
     I (s\<lparr>mgr_db := d\<rparr>))"

text \<open>The Codex bridge changes the store by such operations only.\<close>

definition bridge_ok :: "('w, 'p) runtime \<Rightarrow> bool" where
  "bridge_ok rt = (\<forall>I. store_closed I \<longrightarrow> bridge_keeps I rt)"

lemma history_closed: "store_closed (history d)" "lease_closed (history d)"
  by (auto simp: store_closed_def lease_closed_def history_def
      intro: rtranclp.rtrancl_into_rtrancl store_op.intros child_op.intros)

lemma leases_kept:
  "CreateSession x d = Inr (u, d') \<Longrightarrow> db_leases d' = db_leases d"
  "TransitionSession i e n t ec fc d = Inr (r, d') \<Longrightarrow> db_leases d' = db_leases d"
  "CreateAttachment a d = Inr (u, d') \<Longrightarrow> db_leases d' = db_leases d"
  "DeleteAttachment i c d = Inr (u, d') \<Longrightarrow> db_leases d' = db_leases d"
  "AppendRuntimeEvent ev d = Inr (u, d') \<Longrightarrow> db_leases d' = db_leases d"
  by (auto simp: TransitionSession_def CreateAttachment_def DeleteAttachment_def AppendRuntimeEvent_def bindE_Inr Let_def
      dest!: CreateSession_row split: if_splits)

lemma manager_ops:
  "CreateSession x d = Inr (u, d') \<Longrightarrow> store_op d d'"
  "TransitionSession i e n t ec fc d = Inr (r, d') \<Longrightarrow> store_op d d'"
  "CreateAttachment a d = Inr (u, d') \<Longrightarrow> store_op d d'"
  "DeleteAttachment i c d = Inr (u, d') \<Longrightarrow> store_op d d'"
  "AppendRuntimeEvent ev d = Inr (u, d') \<Longrightarrow> store_op d d'"
  by (blast intro: store_op.intros session_op.intros child_op.intros)+

lemma manager_ops_leases [dest]:
  "CreateSession x d = Inr (u, d') \<Longrightarrow> store_op d d' \<and> db_leases d' = db_leases d"
  "TransitionSession i e n t ec fc d = Inr (r, d') \<Longrightarrow> store_op d d' \<and> db_leases d' = db_leases d"
  "CreateAttachment a d = Inr (u, d') \<Longrightarrow> store_op d d' \<and> db_leases d' = db_leases d"
  "DeleteAttachment i c d = Inr (u, d') \<Longrightarrow> store_op d d' \<and> db_leases d' = db_leases d"
  "AppendRuntimeEvent ev d = Inr (u, d') \<Longrightarrow> store_op d d' \<and> db_leases d' = db_leases d"
  using manager_ops leases_kept by metis+

text \<open>Conditions that runtime events do not disturb; every store-closed one is one of them.\<close>

definition event_closed :: "(('w, 'p) manager \<Rightarrow> bool) \<Rightarrow> bool" where
  "event_closed I = ((\<forall>s s'. mgr_db s' = mgr_db s \<longrightarrow> I s \<longrightarrow> I s') \<and>
     (\<forall>s ev u d. I s \<longrightarrow> AppendRuntimeEvent ev (mgr_db s) = Inr (u, d) \<longrightarrow> I (s\<lparr>mgr_db := d\<rparr>)))"

lemma closed_frame: "event_closed I \<Longrightarrow> mgr_db s' = mgr_db s \<Longrightarrow> I s \<Longrightarrow> I s'"
  by (auto simp: event_closed_def)

lemma store_closed_events: "store_closed I \<Longrightarrow> event_closed I"
  unfolding store_closed_def event_closed_def
  by (intro conjI allI impI) (blast, metis manager_ops_leases(5))

lemma keeps_store:
  "store_closed I \<Longrightarrow> (\<And>d a d'. f d = Inr (a, d') \<Longrightarrow> store_op d d' \<and> db_leases d' = db_leases d) \<Longrightarrow>
     keeps I (store f)"
  unfolding store_def by (rule keeps_transact) (auto simp: store_closed_def)

lemma keeps_load [keeping]: "keeps I (load f)"
  unfolding load_def by (intro keeping)

lemma events_world: "event_closed I \<Longrightarrow> keeps I (world m)"
  unfolding world_def by (rule keeps_zoom_frame) (erule closed_frame; simp)

lemma events_now: "event_closed I \<Longrightarrow> keeps I (now rt)"
  unfolding now_def by (rule events_world)

lemma events_fresh: "event_closed I \<Longrightarrow> keeps I (fresh_id rt p)"
  unfolding fresh_id_def by (intro keeping events_world)

lemma events_frame: "event_closed I \<Longrightarrow> (\<And>s. mgr_db (f s) = mgr_db s) \<Longrightarrow> keeps I (modifyS f)"
  by (rule keeps_modify) (erule closed_frame)

lemma events_store: "event_closed I \<Longrightarrow> keeps I (store (AppendRuntimeEvent ev))"
  unfolding store_def by (rule keeps_transact) (auto simp: event_closed_def)

lemmas event_steps = keeping events_world events_now events_fresh events_frame events_store

lemma events_appendEvent: "event_closed I \<Longrightarrow> keeps I (appendEvent rt i k m)"
  unfolding appendEvent_def by (intro event_steps) auto

lemma events_chunks: "event_closed I \<Longrightarrow> keeps I (append_chunk_events rt i k cs)"
  by (induction cs) (auto intro!: keeping events_appendEvent)

lemma events_ensure_ring: "event_closed I \<Longrightarrow> keeps I (ensure_ring i)"
  unfolding ensure_ring_def by (intro event_steps) auto

lemma events_append_output: "event_closed I \<Longrightarrow> keeps I (append_output rt i k out)"
  unfolding append_output_def by (intro event_steps events_chunks) auto

lemma events_appendCodexEvent: "event_closed I \<Longrightarrow> keeps I (appendCodexEvent rt i k m out)"
  unfolding appendCodexEvent_def by (intro keeping events_appendEvent events_ensure_ring events_append_output)

lemmas keeps_world = events_world [OF store_closed_events]
  and keeps_now = events_now [OF store_closed_events]
  and keeps_fresh = events_fresh [OF store_closed_events]
  and keeps_frame = events_frame [OF store_closed_events]
  and keeps_appendEvent = events_appendEvent [OF store_closed_events]
  and keeps_ensure_ring = events_ensure_ring [OF store_closed_events]
  and keeps_append_output = events_append_output [OF store_closed_events]
  and keeps_appendCodexEvent = events_appendCodexEvent [OF store_closed_events]

lemmas steps = keeping keeps_store keeps_world keeps_now keeps_fresh keeps_frame

lemma keeps_handleExit: "store_closed I \<Longrightarrow> keeps I (handleExit rt i p code)"
  unfolding handleExit_def by (intro steps) auto

lemma keeps_observe: "store_closed I \<Longrightarrow> keeps I (observeProcess rt i p evs err code)"
  by (induction evs) (auto simp: observe_event_def intro!: keeping keeps_append_output keeps_appendEvent keeps_handleExit)

lemma keeps_StartFake: "store_closed I \<Longrightarrow> keeps I (StartFake rt r)"
  unfolding StartFake_def Let_def by (intro steps) auto

lemma keeps_Start: "store_closed I \<Longrightarrow> bridge_keeps I rt \<Longrightarrow> keeps I (Start rt r)"
  unfolding Start_def
  by (intro keeping keeps_StartFake keeps_ensure_ring) (auto dest: bridge_keeps_codex)

lemma keeps_StartReserved: "store_closed I \<Longrightarrow> bridge_keeps I rt \<Longrightarrow> keeps I (StartReserved rt r)"
  unfolding StartReserved_def
  by (intro keeping keeps_store keeps_now keeps_ensure_ring) (auto dest: bridge_keeps_codex)

lemma keeps_Resume: "store_closed I \<Longrightarrow> keeps I (Resume_session rt i)"
  unfolding Resume_session_def by (intro steps keeps_StartFake)

lemma keeps_Attach: "store_closed I \<Longrightarrow> keeps I (Attach rt i c m)"
  unfolding Attach_def by (intro steps) auto

lemma keeps_Detach: "store_closed I \<Longrightarrow> keeps I (Detach i c)"
  unfolding Detach_def by (intro steps) auto

text \<open>The three operations on a lease: the world moves, and one computed lease is saved or none.\<close>

definition lease_saved :: "ID \<Rightarrow> ('w, 'p) manager \<Rightarrow> error + ControllerLease \<Rightarrow> ('w, 'p) manager \<Rightarrow> bool" where
  "lease_saved i s r s' =
     ((\<exists>w. s' = s\<lparr>mgr_world := w\<rparr> \<and> \<not> is_ok r) \<or>
      (\<exists>w l u d. lease_step i (stored_lease i (mgr_db s)) (Some l) \<and> lease_SessionID l = i \<and>
         SaveControllerLease l (lease_version i (mgr_db s)) (mgr_db s) = Inr (u, d) \<and>
         s' = s\<lparr>mgr_world := w, mgr_db := d\<rparr> \<and> r = Inr l))"

lemma lease_saved_run:
  assumes run: "bindS (now rt) (\<lambda>t. bindS (liftS (g t)) (\<lambda>l. bindS (store (SaveControllerLease l n)) (\<lambda>_. returnS l))) s = (r, s')"
    and step: "\<And>t l. g t = Inr l \<Longrightarrow> lease_step i (stored_lease i (mgr_db s)) (Some l) \<and> lease_SessionID l = i"
    and n: "n = lease_version i (mgr_db s)"
  shows "lease_saved i s r s'"
proof -
  obtain t w where t: "rt_now rt (mgr_world s) = (t, w)" by (cases "rt_now rt (mgr_world s)")
  show ?thesis
  proof (cases "g t")
    case (Inl e)
    then have "r = Inl e" "s' = s\<lparr>mgr_world := w\<rparr>" using run by (auto simp: run_simps now_def world_def t)
    then show ?thesis unfolding lease_saved_def by (metis is_ok.simps(1))
  next
    case (Inr l)
    show ?thesis
    proof (cases "SaveControllerLease l n (mgr_db s)")
      case (Inl e)
      then have "r = Inl e" "s' = s\<lparr>mgr_world := w\<rparr>"
        using run Inr by (auto simp: run_simps now_def world_def store_def t)
      then show ?thesis unfolding lease_saved_def by (metis is_ok.simps(1))
    next
      case save: (Inr ud)
      obtain u d where ud: "ud = (u, d)" by (cases ud)
      then have "r = Inr l" "s' = s\<lparr>mgr_world := w, mgr_db := d\<rparr>"
        using run Inr save by (auto simp: run_simps now_def world_def store_def t)
      then show ?thesis using step [OF Inr] save ud n unfolding lease_saved_def by blast
    qed
  qed
qed

lemma lease_operations:
  "Acquire rt i c s = (r, s') \<Longrightarrow> lease_saved i s r s'"
  "HeartbeatLease rt i c n s = (r, s') \<Longrightarrow> lease_saved i s r s'"
  "ReleaseLease rt i c n s = (r, s') \<Longrightarrow> lease_saved i s r s'"
proof -
  assume run: "Acquire rt i c s = (r, s')"
  show "lease_saved i s r s'"
  proof (cases "ControllerLease_read i (mgr_db s)")
    case (Inl e)
    show ?thesis
    proof (cases "CodeOf (Some e) = Some CodeNotFound")
      case True
      show ?thesis
        by (rule lease_saved_run [of rt "\<lambda>t. AcquireControllerLease None i c t (rt_leaseDuration rt)" 0])
           (use run Inl True in \<open>auto simp: Acquire_def bindS_def getS_def liftS_def stored_lease_def
              lease_version_def AcquireControllerLease_ok intro: lease_step.acquire\<close>)
    next
      case False
      then have "s' = s\<lparr>mgr_world := mgr_world s\<rparr>" "r = Inl e"
        using run Inl by (auto simp: Acquire_def bindS_def getS_def liftS_def)
      then show ?thesis unfolding lease_saved_def by (metis is_ok.simps(1))
    qed
  next
    case (Inr l)
    show ?thesis
      by (rule lease_saved_run [of rt "\<lambda>t. AcquireControllerLease (Some l) i c t (rt_leaseDuration rt)" "lease_Revision l"])
         (use run Inr in \<open>auto simp: Acquire_def bindS_def getS_def liftS_def stored_lease_def
            lease_version_def AcquireControllerLease_ok intro: lease_step.acquire\<close>)
  qed
next
  assume run: "HeartbeatLease rt i c n s = (r, s')"
  show "lease_saved i s r s'"
  proof (cases "ControllerLease_read i (mgr_db s)")
    case (Inl e)
    then have "s' = s\<lparr>mgr_world := mgr_world s\<rparr>" "r = Inl e"
      using run by (auto simp: HeartbeatLease_def load_def run_simps)
    then show ?thesis unfolding lease_saved_def by (metis is_ok.simps(1))
  next
    case (Inr l)
    show ?thesis
      by (rule lease_saved_run [of rt "\<lambda>t. Heartbeat l c n t (rt_leaseDuration rt)" "lease_Revision l"])
         (use run Inr lease_read_key [OF Inr] in \<open>auto simp: HeartbeatLease_def load_def bindS_def getS_def liftS_def
            stored_lease_def lease_version_def Heartbeat_ok intro: lease_step.heartbeat\<close>)
  qed
next
  assume run: "ReleaseLease rt i c n s = (r, s')"
  show "lease_saved i s r s'"
  proof (cases "ControllerLease_read i (mgr_db s)")
    case (Inl e)
    then have "s' = s\<lparr>mgr_world := mgr_world s\<rparr>" "r = Inl e"
      using run by (auto simp: ReleaseLease_def load_def run_simps)
    then show ?thesis unfolding lease_saved_def by (metis is_ok.simps(1))
  next
    case (Inr l)
    show ?thesis
      by (rule lease_saved_run [of rt "\<lambda>t. Release l c n t" "lease_Revision l"])
         (use run Inr lease_read_key [OF Inr] in \<open>auto simp: ReleaseLease_def load_def bindS_def getS_def liftS_def
            stored_lease_def lease_version_def Release_ok intro: lease_step.release\<close>)
  qed
qed

lemma keeps_leases:
  assumes "store_closed I" "lease_closed I"
  shows "keeps I (Acquire rt i c)" "keeps I (HeartbeatLease rt i c n)" "keeps I (ReleaseLease rt i c n)"
proof -
  have step: "I s'" if I: "I s" and run: "lease_saved i s r s'" for i s r s'
    using run unfolding lease_saved_def
  proof (elim exE disjE conjE)
    fix w
    assume "s' = s\<lparr>mgr_world := w\<rparr>"
    then show ?thesis using closed_frame [OF store_closed_events [OF assms(1)], of s' s] I by simp
  next
    fix w l u d
    assume "lease_step i (stored_lease i (mgr_db s)) (Some l)" "lease_SessionID l = i"
      "SaveControllerLease l (lease_version i (mgr_db s)) (mgr_db s) = Inr (u, d)"
      "s' = s\<lparr>mgr_world := w, mgr_db := d\<rparr>"
    moreover from this have "I (s\<lparr>mgr_db := d\<rparr>)" using assms(2) I unfolding lease_closed_def by blast
    ultimately show ?thesis using closed_frame [OF store_closed_events [OF assms(1)], of s' "s\<lparr>mgr_db := d\<rparr>"] by simp
  qed
  show "keeps I (Acquire rt i c)" "keeps I (HeartbeatLease rt i c n)" "keeps I (ReleaseLease rt i c n)"
    using step lease_operations by (metis keepsI prod.collapse)+
qed

lemma keeps_requireLease: "store_closed I \<Longrightarrow> keeps I (requireLease rt i c n)"
  unfolding requireLease_def by (intro steps)

lemma keeps_Input: "store_closed I \<Longrightarrow> bridge_keeps I rt \<Longrightarrow> keeps I (Input rt r)"
  unfolding Input_def check_input_def deliver_input_def commit_input_def
  by (auto intro!: steps keeps_requireLease dest: bridge_keeps_codex split: input_check.splits)

lemma keeps_Resize: "store_closed I \<Longrightarrow> bridge_keeps I rt \<Longrightarrow> keeps I (Resize rt r)"
  unfolding Resize_def process_of_def
  by (intro steps keeps_requireLease) (auto dest: bridge_keeps_codex)

lemma keeps_waitTerminal: "(\<And>tick s. tick \<in> set ticks \<Longrightarrow> I s \<Longrightarrow> I (tick s)) \<Longrightarrow> keeps I (waitTerminal i ticks)"
  by (induction ticks) (auto intro!: keeping keeps_modify)

lemma keeps_Stop:
  "store_closed I \<Longrightarrow> bridge_keeps I rt \<Longrightarrow> (\<And>tick s. tick \<in> set ticks \<Longrightarrow> I s \<Longrightarrow> I (tick s)) \<Longrightarrow>
     keeps I (Stop rt ticks i c n)"
  unfolding Stop_def
  by (intro keeping keeps_store keeps_now keeps_world keeps_requireLease keeps_waitTerminal) (auto dest: bridge_keeps_codex)

lemma keeps_Kill: "store_closed I \<Longrightarrow> bridge_keeps I rt \<Longrightarrow> keeps I (Kill rt i c n)"
  unfolding Kill_def
  by (intro keeping keeps_store keeps_now keeps_world keeps_requireLease) (auto dest: bridge_keeps_codex)

text \<open>One step of the daemon: any operation of the manager, and what other parts do to its store.\<close>

inductive manager_step :: "('w, 'p) runtime \<Rightarrow> ('w, 'p) manager \<Rightarrow> ('w, 'p) manager \<Rightarrow> bool" for rt where
  "Start rt r1 s = (res1, s') \<Longrightarrow> manager_step rt s s'"
| "StartReserved rt r2 s = (res1, s') \<Longrightarrow> manager_step rt s s'"
| "Resume_session rt i s = (res1, s') \<Longrightarrow> manager_step rt s s'"
| "observe_event rt i p event s = (res2, s') \<Longrightarrow> manager_step rt s s'"
| "handleExit rt i p code s = (res2, s') \<Longrightarrow> manager_step rt s s'"
| "appendCodexEvent rt i k m out s = (res2, s') \<Longrightarrow> manager_step rt s s'"
| "Attach rt i c mode s = (res2, s') \<Longrightarrow> manager_step rt s s'"
| "Detach i c s = (res2, s') \<Longrightarrow> manager_step rt s s'"
| "Acquire rt i c s = (res3, s') \<Longrightarrow> manager_step rt s s'"
| "HeartbeatLease rt i c n s = (res3, s') \<Longrightarrow> manager_step rt s s'"
| "ReleaseLease rt i c n s = (res3, s') \<Longrightarrow> manager_step rt s s'"
| "check_input rt r4 s = (res4, s') \<Longrightarrow> manager_step rt s s'"
| "deliver_input rt r4 p' s = (res2, s') \<Longrightarrow> manager_step rt s s'"
| "commit_input r4 n s = (res5, s') \<Longrightarrow> manager_step rt s s'"
| "Resize rt r6 s = (res2, s') \<Longrightarrow> manager_step rt s s'"
| "Stop rt [] i c n s = (res1, s') \<Longrightarrow> manager_step rt s s'"
| "Kill rt i c n s = (res1, s') \<Longrightarrow> manager_step rt s s'"
| "store_op (mgr_db s) d \<Longrightarrow> db_leases d = db_leases (mgr_db s) \<Longrightarrow>
     manager_step rt s (s\<lparr>mgr_db := d, mgr_world := w\<rparr>)"

lemma manager_step_keeps:
  assumes "manager_step rt s s'" and closed: "store_closed I" "lease_closed I" and bridge: "bridge_ok rt" and "I s"
  shows "I s'"
proof -
  note k = keeps_Start keeps_StartReserved keeps_Resume keeps_handleExit keeps_appendCodexEvent keeps_Attach
    keeps_Detach keeps_leases keeps_Resize keeps_Kill
  have bk: "bridge_keeps I rt" using bridge closed(1) by (simp add: bridge_ok_def)
  have obs: "keeps I (observe_event rt i p event)" for i p event
    unfolding observe_event_def by (intro keeping keeps_append_output keeps_appendEvent keeps_handleExit closed(1))
  have inp: "keeps I (check_input rt r)" "keeps I (deliver_input rt r q)" "keeps I (commit_input r n)" for r q n
    unfolding check_input_def deliver_input_def commit_input_def
    using bk by (auto intro!: steps keeps_requireLease closed dest: bridge_keeps_codex)
  have stop: "keeps I (Stop rt [] i c n)" for i c n by (rule keeps_Stop) (use closed bk in auto)
  have db: "I (s\<lparr>mgr_db := d, mgr_world := w\<rparr>)" if "store_op (mgr_db s) d" "db_leases d = db_leases (mgr_db s)" for d w
  proof -
    have "I (s\<lparr>mgr_db := d\<rparr>)" using closed(1) that assms(5) by (simp add: store_closed_def)
    then show ?thesis by (rule closed_frame [OF store_closed_events [OF closed(1)], rotated]) simp
  qed
  from assms(1) show ?thesis
    by cases ((erule keepsD [where I = I and s = s, rotated 2], intro k obs inp stop closed bk, rule assms(5)) | simp add: db)+
qed

end
