(* ===== verification/RuntimeOutcomes.thy ===== *)
theory RuntimeOutcomes
  imports RuntimeLaws
begin

text \<open>
  What single operations of the runtime manager do: the end of a child, the sequence numbers of
  input, and the start of a fake session.
\<close>

section \<open>The end of a child\<close>

text \<open>The Session a child leaves behind when it exits at \<open>t\<close> with \<open>code\<close>.\<close>

definition exited :: "time \<Rightarrow> int \<Rightarrow> Session \<Rightarrow> Session" where
  "exited t code ses =
     (if ses_Status ses = SessionStopping
      then ses\<lparr>ses_Status := SessionExited, ses_EndedAt := Some t, ses_ExitCode := Some code, ses_FailureCode := ''''\<rparr>
      else ses\<lparr>ses_Status := SessionFailed, ses_EndedAt := Some t, ses_ExitCode := None,
               ses_FailureCode := code_text CodeProviderFailed\<rparr>)"

lemma exited_terminal: "Terminal (ses_Status (exited t code ses))"
  by (simp add: exited_def Terminal_def)

lemma session_transitions_live:
  assumes "db_ok d" "Session_read i d = Inr ses" "\<not> Terminal (ses_Status ses)"
  shows "ses_Status ses \<in> {SessionStarting, SessionRunning, SessionStopping}"
  using update_status_row(1) [OF assms(1,2)] assms(3)
  by (cases "ses_Status ses") (simp_all add: session_status_ok_def Terminal_def)

lemma exit_stored:
  assumes "db_ok d" "Session_read i d = Inr ses" "\<not> Terminal (ses_Status ses)" "t \<noteq> 0" "ses_StartedAt ses \<le> t"
  obtains d' where
    "(if ses_Status ses = SessionStopping then TransitionSession i SessionStopping SessionExited t (Some code) '''' d
      else TransitionSession i (ses_Status ses) SessionFailed t None (code_text CodeProviderFailed) d)
     = Inr (exited t code ses, d')"
    "db_ok d'" "\<And>j. Session_read j d' = (if j = i then Inr (exited t code ses) else Session_read j d)"
proof -
  note live = session_transitions_live [OF assms(1-3)]
  have moved: "\<exists>d'. TransitionSession i (ses_Status ses) n t ec fc d = Inr (exited t code ses, d')"
    if "Transition ses n t ec fc = Inr (exited t code ses)" "n = SessionFailed \<or> fc = ''''" for n ec fc
    using that assms(2) unfolding TransitionSession_iff [OF assms(1)] by blast
  have "\<exists>d'. (if ses_Status ses = SessionStopping then TransitionSession i SessionStopping SessionExited t (Some code) '''' d
      else TransitionSession i (ses_Status ses) SessionFailed t None (code_text CodeProviderFailed) d)
     = Inr (exited t code ses, d')"
  proof (cases "ses_Status ses = SessionStopping")
    case True
    then have "Transition ses SessionExited t (Some code) '''' = Inr (exited t code ses)"
      using assms(4,5) by (simp add: Transition_ok exited_def Terminal_def)
    then show ?thesis using moved True by simp
  next
    case False
    then have "Transition ses SessionFailed t None (code_text CodeProviderFailed) = Inr (exited t code ses)"
      using assms(4,5) live by (auto simp: Transition_ok exited_def Terminal_def)
    then show ?thesis using moved False by simp
  qed
  then obtain d' where d': "(if ses_Status ses = SessionStopping then TransitionSession i SessionStopping SessionExited t (Some code) '''' d
      else TransitionSession i (ses_Status ses) SessionFailed t None (code_text CodeProviderFailed) d)
     = Inr (exited t code ses, d')" by blast
  show thesis
    by (rule that [OF d'])
       (use d' TransitionSession_db_ok [OF _ assms(1)] TransitionSession_read [OF assms(1)] in \<open>auto split: if_splits\<close>)
qed

lemma handleExit_run:
  assumes "db_ok (mgr_db s)" "Session_read i (mgr_db s) = Inr ses" "\<not> Terminal (ses_Status ses)"
    "rt_now rt (mgr_world s) = (t, w)" "t \<noteq> 0" "ses_StartedAt ses \<le> t"
  obtains d' where
    "handleExit rt i p code s = (Inr (), s\<lparr>mgr_world := w, mgr_db := d',
       mgr_processes := (if mgr_processes s i = Some p then (mgr_processes s)(i := None) else mgr_processes s)\<rparr>)"
    "db_ok d'" "\<And>j. Session_read j d' = (if j = i then Inr (exited t code ses) else Session_read j (mgr_db s))"
proof -
  obtain d' where d': "(if ses_Status ses = SessionStopping
      then TransitionSession i SessionStopping SessionExited t (Some code) '''' (mgr_db s)
      else TransitionSession i (ses_Status ses) SessionFailed t None (code_text CodeProviderFailed) (mgr_db s))
     = Inr (exited t code ses, d')"
    "db_ok d'" "\<And>j. Session_read j d' = (if j = i then Inr (exited t code ses) else Session_read j (mgr_db s))"
    by (rule exit_stored [OF assms(1-3,5,6), of code]) blast
  show thesis
    by (rule that [OF _ d'(2,3)])
       (use assms(2-4) d'(1) in \<open>simp add: handleExit_def load_def now_def world_def store_def run_simps split: if_splits\<close>)
qed

text \<open>What the stored Session of a child looks like while its events are drained, and afterwards.\<close>

definition session_known :: "ID \<Rightarrow> time \<Rightarrow> ('w, 'p) manager \<Rightarrow> bool" where
  "session_known i t0 s = (db_ok (mgr_db s) \<and> (\<exists>ses. Session_read i (mgr_db s) = Inr ses \<and> ses_StartedAt ses = t0))"

definition session_over :: "ID \<Rightarrow> ('w, 'p) manager \<Rightarrow> bool" where
  "session_over i s = (\<exists>ses. Session_read i (mgr_db s) = Inr ses \<and> Terminal (ses_Status ses))"

lemma event_sessions: "AppendRuntimeEvent ev d = Inr (u, d') \<Longrightarrow> Session_read i d' = Session_read i d"
  by (auto simp: AppendRuntimeEvent_def bindE_Inr Session_read_def split: if_splits)

lemma observed_closed: "event_closed (\<lambda>s. session_known i t0 s \<and> (over \<longrightarrow> session_over i s))"
  by (auto simp: event_closed_def session_known_def session_over_def event_sessions dest: AppendRuntimeEvent_db_ok)

lemma handleExit_over:
  assumes "session_known i t0 s" "\<And>w. fst (rt_now rt w) \<noteq> 0 \<and> t0 \<le> fst (rt_now rt w)"
  shows "session_known i t0 (snd (handleExit rt i p code s)) \<and> session_over i (snd (handleExit rt i p code s))"
proof -
  obtain ses where ses: "db_ok (mgr_db s)" "Session_read i (mgr_db s) = Inr ses" "ses_StartedAt ses = t0"
    using assms(1) by (auto simp: session_known_def)
  obtain t w where t: "rt_now rt (mgr_world s) = (t, w)" by (cases "rt_now rt (mgr_world s)")
  then have clock: "t \<noteq> 0" "t0 \<le> t" using assms(2) [of "mgr_world s"] by simp_all
  show ?thesis
  proof (cases "Terminal (ses_Status ses)")
    case True
    then show ?thesis using assms(1) ses(2) by (simp add: handleExit_def load_def run_simps session_over_def)
  next
    case False
    obtain d' where "mgr_db (snd (handleExit rt i p code s)) = d'" "db_ok d'"
      "Session_read i d' = Inr (exited t code ses)"
      by (rule handleExit_run [OF ses(1,2) False t clock(1), of p code]) (use clock(2) ses(3) in auto)
    then show ?thesis using exited_terminal ses(3) by (simp add: session_known_def session_over_def exited_def)
  qed
qed

lemma observe_event_over:
  assumes "session_known i t0 s" "\<And>w. fst (rt_now rt w) \<noteq> 0 \<and> t0 \<le> fst (rt_now rt w)"
  shows "session_known i t0 (snd (observe_event rt i p ev s)) \<and>
    (session_over i s \<or> ev_Kind ev = ''exit'' \<longrightarrow> session_over i (snd (observe_event rt i p ev s)))"
proof (cases "ev_Kind ev = ''exit''")
  case True
  then show ?thesis using handleExit_over [OF assms] by (simp add: observe_event_def)
next
  case False
  have "keeps (\<lambda>s'. session_known i t0 s' \<and> (session_over i s \<longrightarrow> session_over i s')) (observe_event rt i p ev)"
    using False unfolding observe_event_def
    by (auto intro!: keeping events_append_output events_appendEvent observed_closed)
  then show ?thesis using assms(1) False by (simp add: keeps_def)
qed

lemma events_succeed [simp]:
  "fst (appendEvent rt i k m s) = Inr ()" "fst (append_chunk_events rt i k cs s) = Inr ()"
  "fst (append_output rt i k out s) = Inr ()" "fst (handleExit rt i p code s) = Inr ()"
  "fst (observe_event rt i p ev s) = Inr ()"
proof -
  show event: "fst (appendEvent rt i k m s) = Inr ()" for k m s
    by (simp add: appendEvent_def run_simps split: sum.split)
  show chunks: "fst (append_chunk_events rt i k cs s) = Inr ()" for k cs s
  proof (induction cs arbitrary: s)
    case (Cons c cs)
    show ?case using event [of k "OutputMetadata (chunk_Sequence c) (length (chunk_Data c))" s] Cons
      by (auto simp: bindS_def split: prod.splits sum.splits)
  qed (simp add: run_simps)
  show out: "fst (append_output rt i k out s) = Inr ()" for k out s
    by (simp add: append_output_def bindS_def getS_def modifyS_def returnS_def chunks split: option.split prod.split)
  show exit: "fst (handleExit rt i p code s) = Inr ()" for code
    by (simp add: handleExit_def ignoreS_def)
  show "fst (observe_event rt i p ev s) = Inr ()"
    by (simp add: observe_event_def event out exit returnS_def)
qed

lemma observeProcess_over:
  assumes "session_known i t0 s" "\<And>w. fst (rt_now rt w) \<noteq> 0 \<and> t0 \<le> fst (rt_now rt w)"
    "session_over i s \<or> (\<exists>ev \<in> set events. ev_Kind ev = ''exit'') \<or> err \<noteq> None"
  shows "session_over i (snd (observeProcess rt i p events err code s))"
  using assms(1,3)
proof (induction events arbitrary: s)
  case Nil
  then show ?case using handleExit_over [OF Nil(1) assms(2)] by (auto simp: run_simps)
next
  case (Cons ev events)
  obtain r s1 where s1: "observe_event rt i p ev s = (r, s1)" by (cases "observe_event rt i p ev s")
  then have s1': "session_known i t0 s1" "session_over i s \<or> ev_Kind ev = ''exit'' \<longrightarrow> session_over i s1"
    using observe_event_over [OF Cons(2) assms(2), of p ev] by simp_all
  have "r = Inr ()" using events_succeed(5) [of rt i p ev s] s1 by simp
  then show ?case using Cons(1) [OF s1'(1)] s1 s1'(2) Cons(3) by (auto simp: bindS_def)
qed

section \<open>Input sequences\<close>

text \<open>The sequence number the manager wants next for a key, and what one call does to it.\<close>

definition next_input :: "string \<Rightarrow> ('w, 'p) manager \<Rightarrow> int" where
  "next_input key s = (if mgr_inputSeq s key = 0 then 1 else mgr_inputSeq s key)"

definition input_applied :: "error + InputResult \<Rightarrow> bool" where
  "input_applied res = (case res of Inl e \<Rightarrow> False | Inr r \<Rightarrow> \<not> out_Duplicate r)"

definition bridge_keeps_inputs :: "('w, 'p) runtime \<Rightarrow> bool" where
  "bridge_keeps_inputs rt =
     (\<forall>codex i payload s. rt_codex rt = Some codex \<longrightarrow> mgr_inputSeq (snd (cx_input codex i payload s)) = mgr_inputSeq s)"

lemma check_input_result:
  assumes "check_input rt r s = (res, s')"
  shows "mgr_inputSeq s' = mgr_inputSeq s \<and>
    (\<forall>n p. res = Inr (InputExpected n p) \<longrightarrow> in_Sequence r = n \<and> n = next_input (input_key r) s \<and> 1 \<le> n)"
  using assms
  by (auto simp: check_input_def requireLease_def load_def now_def world_def run_simps Let_def next_input_def
      split: if_splits prod.splits sum.splits)

lemma deliver_input_sequences:
  assumes "bridge_keeps_inputs rt" "deliver_input rt r p s = (res, s')"
  shows "mgr_inputSeq s' = mgr_inputSeq s"
proof -
  have "keeps (\<lambda>t. mgr_inputSeq t = mgr_inputSeq s) (deliver_input rt r p)"
    unfolding deliver_input_def load_def world_def
    using assms(1) by (intro keeping keeps_zoom_frame) (auto simp: keeps_def bridge_keeps_inputs_def)
  then show ?thesis using assms(2) by (auto dest: keepsD)
qed

lemma Input_sequences:
  assumes "bridge_keeps_inputs rt" "Input rt r s = (res, s')"
  shows "if input_applied res
         then in_Sequence r = next_input (input_key r) s \<and> 1 \<le> in_Sequence r \<and>
              mgr_inputSeq s' = (mgr_inputSeq s)(input_key r := i64 (in_Sequence r + 1))
         else mgr_inputSeq s' = mgr_inputSeq s"
proof -
  obtain c s1 where c: "check_input rt r s = (c, s1)" by (cases "check_input rt r s")
  note seq = check_input_result [OF c]
  show ?thesis
  proof (cases "\<exists>n p. c = Inr (InputExpected n p)")
    case True
    then obtain n p where n: "c = Inr (InputExpected n p)" by blast
    obtain d s2 where d: "deliver_input rt r p s1 = (d, s2)" by (cases "deliver_input rt r p s1")
    then show ?thesis
      using assms(2) c n seq deliver_input_sequences [OF assms(1) d]
      by (cases d) (auto simp: Input_def bindS_def commit_input_def modifyS_def returnS_def input_applied_def)
  next
    case False
    then have "s' = s1 \<and> \<not> input_applied res"
      using assms(2) c by (cases c) (auto simp: Input_def bindS_def returnS_def input_applied_def split: input_check.splits)
    then show ?thesis using seq by simp
  qed
qed

text \<open>A run of inputs: before each, the rest of the daemon does something.\<close>

fun serve_inputs ::
  "('w, 'p) runtime \<Rightarrow> ((('w, 'p) manager \<Rightarrow> ('w, 'p) manager) \<times> InputRequest) list \<Rightarrow> ('w, 'p) manager \<Rightarrow>
   (InputRequest \<times> (error + InputResult)) list \<times> ('w, 'p) manager" where
  "serve_inputs rt [] s = ([], s)"
| "serve_inputs rt ((tick, r) # rest) s =
     (case Input rt r (tick s) of (res, s1) \<Rightarrow>
        case serve_inputs rt rest s1 of (out, s2) \<Rightarrow> ((r, res) # out, s2))"

definition applied_inputs :: "string \<Rightarrow> (InputRequest \<times> (error + InputResult)) list \<Rightarrow> int list" where
  "applied_inputs key out =
     map (\<lambda>(r, res). in_Sequence r) (filter (\<lambda>(r, res). input_key r = key \<and> input_applied res) out)"

lemma serve_inputs_sequences:
  assumes "bridge_keeps_inputs rt" "\<forall>(tick, r) \<in> set calls. \<forall>s. mgr_inputSeq (tick s) = mgr_inputSeq s"
    "1 \<le> next_input key s" "next_input key s + int (length calls) < 2 ^ 63"
  shows "applied_inputs key (fst (serve_inputs rt calls s)) =
    [next_input key s .. next_input key s + int (length (applied_inputs key (fst (serve_inputs rt calls s)))) - 1]"
  using assms(2-4)
proof (induction calls arbitrary: s)
  case (Cons call rest)
  obtain tick r where call: "call = (tick, r)" by (cases call)
  obtain res s1 where res: "Input rt r (tick s) = (res, s1)" by (cases "Input rt r (tick s)")
  obtain out s2 where out: "serve_inputs rt rest s1 = (out, s2)" by (cases "serve_inputs rt rest s1")
  have tick: "mgr_inputSeq (tick s) = mgr_inputSeq s" using Cons(2) call by simp
  note step = Input_sequences [OF assms(1) res, unfolded tick]
  show ?case
  proof (cases "input_key r = key \<and> input_applied res")
    case True
    then have seq: "in_Sequence r = next_input key s" "mgr_inputSeq s1 key = i64 (in_Sequence r + 1)"
      using step tick by (simp_all add: next_input_def)
    have succ: "i64 (next_input key s + 1) = next_input key s + 1"
      using Cons(3,4) by (intro i64_id) auto
    then have nx: "next_input key s1 = next_input key s + 1" using seq Cons(3) by (simp add: next_input_def)
    then have "applied_inputs key out = [next_input key s + 1 .. next_input key s + 1 + int (length (applied_inputs key out)) - 1]"
      using Cons(1) [of s1] Cons(2-4) out by simp
    then show ?thesis using True call res out seq(1) upto_rec1 [of "next_input key s" "next_input key s + int (length (applied_inputs key out))"]
      by (simp add: applied_inputs_def)
  next
    case False
    then have "mgr_inputSeq s1 key = mgr_inputSeq s key" using step by (auto split: if_splits)
    then have "next_input key s1 = next_input key s" by (simp add: next_input_def)
    then show ?thesis using Cons(1) [of s1] Cons(2-4) False call res out by (auto simp: applied_inputs_def)
  qed
qed (simp add: applied_inputs_def)

text \<open>
  What reaches the children. \<open>seen\<close> reads off the world what was delivered so far: an input call of
  the runtime or of the bridge that succeeds adds its payload, one that fails and the clock add
  nothing. The model never looks at it.
\<close>

definition logs_deliveries :: "('w, 'p) runtime \<Rightarrow> ('w \<Rightarrow> string list) \<Rightarrow> bool" where
  "logs_deliveries rt seen \<longleftrightarrow>
     (\<forall>w. seen (snd (rt_now rt w)) = seen w) \<and>
     (\<forall>p x w. seen (snd (rt_input rt p x w)) = seen w @ (if is_ok (fst (rt_input rt p x w)) then [x] else [])) \<and>
     (\<forall>codex i x s. rt_codex rt = Some codex \<longrightarrow>
        seen (mgr_world (snd (cx_input codex i x s))) =
          seen (mgr_world s) @ (if is_ok (fst (cx_input codex i x s)) then [x] else []))"

definition applied_payloads :: "(InputRequest \<times> (error + InputResult)) list \<Rightarrow> string list" where
  "applied_payloads out = map (\<lambda>(r, res). in_Payload r) (filter (\<lambda>(r, res). input_applied res) out)"

lemma logs_deliveriesD:
  assumes "logs_deliveries rt seen"
  shows "rt_now rt w = (t, w') \<Longrightarrow> seen w' = seen w"
    and "rt_input rt p x w = (r, w') \<Longrightarrow> seen w' = seen w @ (if is_ok r then [x] else [])"
    and "rt_codex rt = Some codex \<Longrightarrow> cx_input codex i x s = (r, s') \<Longrightarrow>
      seen (mgr_world s') = seen (mgr_world s) @ (if is_ok r then [x] else [])"
  using assms unfolding logs_deliveries_def by (metis fst_conv snd_conv)+

lemma check_input_log:
  assumes "logs_deliveries rt seen"
  shows "seen (mgr_world (snd (check_input rt r s))) = seen (mgr_world s)"
proof -
  have "keeps (\<lambda>t. seen (mgr_world t) = seen (mgr_world s)) (check_input rt r)"
    unfolding check_input_def requireLease_def load_def now_def world_def Let_def
    by (intro keeping) (auto simp: keeps_def zoomS_def dest: logs_deliveriesD(1) [OF assms] split: prod.splits)
  then show ?thesis by (simp add: keeps_def)
qed

lemma deliver_input_log:
  assumes "logs_deliveries rt seen" "deliver_input rt r p s = (res, s')"
  shows "seen (mgr_world s') = seen (mgr_world s) @ (if is_ok res then [in_Payload r] else [])"
  using assms(2)
  by (auto simp: deliver_input_def load_def world_def zoomS_def bindS_def getS_def liftS_def throwS_def
      dest: logs_deliveriesD(2,3) [OF assms(1)] split: sum.splits option.splits prod.splits if_splits)

lemma Input_log:
  assumes "logs_deliveries rt seen" "Input rt r s = (res, s')"
  shows "seen (mgr_world s') = seen (mgr_world s) @ (if input_applied res then [in_Payload r] else [])"
proof -
  obtain c s1 where c: "check_input rt r s = (c, s1)" by (cases "check_input rt r s")
  then have l1: "seen (mgr_world s1) = seen (mgr_world s)" using check_input_log [OF assms(1), of r s] by simp
  show ?thesis
  proof (cases "\<exists>n p. c = Inr (InputExpected n p)")
    case True
    then obtain n p where n: "c = Inr (InputExpected n p)" by blast
    obtain d s2 where d: "deliver_input rt r p s1 = (d, s2)" by (cases "deliver_input rt r p s1")
    then show ?thesis
      using assms(2) c n l1 deliver_input_log [OF assms(1) d]
      by (cases d) (auto simp: Input_def bindS_def commit_input_def modifyS_def returnS_def input_applied_def)
  next
    case False
    then have "s' = s1 \<and> \<not> input_applied res"
      using assms(2) c by (cases c) (auto simp: Input_def bindS_def returnS_def input_applied_def split: input_check.splits)
    then show ?thesis using l1 by simp
  qed
qed

lemma serve_inputs_log:
  assumes "logs_deliveries rt seen" "\<forall>(tick, r) \<in> set calls. \<forall>s. seen (mgr_world (tick s)) = seen (mgr_world s)"
    "serve_inputs rt calls s = (out, s')"
  shows "seen (mgr_world s') = seen (mgr_world s) @ applied_payloads out"
  using assms(2,3)
proof (induction calls arbitrary: s out)
  case (Cons call rest)
  obtain tick r where call: "call = (tick, r)" by (cases call)
  obtain res s1 where res: "Input rt r (tick s) = (res, s1)" by (cases "Input rt r (tick s)")
  obtain rest_out s2 where out: "serve_inputs rt rest s1 = (rest_out, s2)" by (cases "serve_inputs rt rest s1")
  then have "out = (r, res) # rest_out" "s2 = s'" using Cons(3) call res by simp_all
  moreover have "seen (mgr_world s2) = seen (mgr_world s1) @ applied_payloads rest_out"
    using Cons(1) [of s1 rest_out] out \<open>s2 = s'\<close> Cons(2) by simp
  moreover have "seen (mgr_world (tick s)) = seen (mgr_world s)" using Cons(2) call by simp
  ultimately show ?case using Input_log [OF assms(1) res] by (simp add: applied_payloads_def)
qed (simp add: applied_payloads_def)

section \<open>A fake session starts\<close>

definition same_binding :: "Session \<Rightarrow> Session \<Rightarrow> bool" where
  "same_binding a b = (ses_ID a = ses_ID b \<and> ses_DeviceID a = ses_DeviceID b \<and> ses_Provider a = ses_Provider b \<and>
     ses_CredentialInstanceID a = ses_CredentialInstanceID b \<and>
     ses_RuntimeProfileID a = ses_RuntimeProfileID b \<and> ses_WorkspaceID a = ses_WorkspaceID b \<and>
     ses_ResumedFromSessionID a = ses_ResumedFromSessionID b \<and> ses_StartedAt a = ses_StartedAt b)"

lemma CreateSession_read:
  assumes "CreateSession x d = Inr (u, d')" "db_ok d"
  shows "\<not> is_ok (Session_read (ses_ID x) d) \<and>
    (\<exists>v. same_binding v x \<and> ses_Status v = SessionStarting \<and>
      (\<forall>j. Session_read j d' = (if j = ses_ID x then Inr v else Session_read j d)))"
proof -
  define s0 where "s0 = (if ses_Provider x = ProviderFake \<and> ses_AccountID x = ''''
    then x\<lparr>ses_AccountID := fakeAccountID (ses_DeviceID x)\<rparr> else x)"
  let ?w = "\<lambda>v c. v\<lparr>ses_CapabilitySnapshot := c, ses_EndedAt := None, ses_ExitCode := None, ses_FailureCode := ''''\<rparr>"
  from assms(1) obtain v c where v: "NewSession s0 = Inr v"
    and d': "d' = d\<lparr>db_sessions := db_sessions d @ [?w v c]\<rparr>"
    and rows: "sessions_ok d (db_sessions d @ [?w v c])"
    unfolding CreateSession_def Let_def s0_def [symmetric]
    by (auto simp: bindE_Inr bindE_opt_check sql_insert_ok simp del: if_Inl_eq_Inr split: if_splits)
  let ?v = "?w v c"
  have "same_binding s0 x" by (simp add: same_binding_def s0_def)
  then have b: "same_binding ?v x" "ses_Status ?v = SessionStarting" using v by (auto simp: NewSession_iff same_binding_def)
  then have new: "ses_ID x \<notin> ses_ID ` set (db_sessions d)" using rows by (auto simp: sessions_ok_def same_binding_def)
  then have none: "List.find (\<lambda>r. ses_ID r = ses_ID x) (db_sessions d) = None"
    using new by (metis (mono_tags, lifting) find_None_iff image_eqI)
  have read: "Session_read j d' = (if j = ses_ID x then Inr ?v else Session_read j d)" for j
    using find_key_append [of ses_ID j "db_sessions d" ?v] none b(1)
    by (auto simp: d' Session_read_def read_row_def same_binding_def split: option.splits)
  have "\<not> is_ok (Session_read (ses_ID x) d)" using none by (simp add: Session_read_def read_row_def)
  with b read show ?thesis by blast
qed

lemma Transition_binding: "Transition a n t ec fc = Inr b \<Longrightarrow> same_binding a x \<Longrightarrow> same_binding b x"
  by (auto simp: Transition_ok same_binding_def)

lemma created_then_running:
  assumes "db_ok d" "CreateSession x d = Inr (u, d1)" "TransitionSession (ses_ID x) SessionStarting SessionRunning t None '''' d1 = Inr (z, d2)"
  shows "\<not> is_ok (Session_read (ses_ID x) d) \<and> same_binding z x \<and> ses_Status z = SessionRunning \<and> db_ok d2 \<and>
    (\<forall>j. Session_read j d2 = (if j = ses_ID x then Inr z else Session_read j d))"
proof -
  have ok: "db_ok d1" by (rule CreateSession_ok [OF assms(2,1)])
  obtain v where v: "same_binding v x" "\<And>j. Session_read j d1 = (if j = ses_ID x then Inr v else Session_read j d)"
    and new: "\<not> is_ok (Session_read (ses_ID x) d)"
    using CreateSession_read [OF assms(2,1)] by auto
  obtain w where "Session_read (ses_ID x) d1 = Inr w" "Transition w SessionRunning t None '''' = Inr z"
    using assms(3) unfolding TransitionSession_iff [OF ok] by blast
  then have "same_binding z x" "ses_Status z = SessionRunning"
    using v Transition_binding [of w SessionRunning t None "''''" z x] by (auto simp: Transition_ok Terminal_def)
  then show ?thesis
    using new v(2) TransitionSession_db_ok [OF assms(3) ok] TransitionSession_read [OF ok assms(3)] by auto
qed

lemma post_world: "(\<And>a w. P a (s\<lparr>mgr_world := w\<rparr>)) \<Longrightarrow> (\<And>e w. Q e (s\<lparr>mgr_world := w\<rparr>)) \<Longrightarrow> post (world m) P Q s"
  unfolding world_def by (rule post_zoom) (auto simp: post_def split: prod.split sum.split)

lemma post_now: "(\<And>t w. P t (s\<lparr>mgr_world := w\<rparr>)) \<Longrightarrow> post (now rt) P Q s"
  by (auto simp: now_def world_def post_def zoomS_def split: prod.split)

lemma post_fresh: "(\<And>i w. P i (s\<lparr>mgr_world := w\<rparr>)) \<Longrightarrow> (\<And>e w. Q e (s\<lparr>mgr_world := w\<rparr>)) \<Longrightarrow> post (fresh_id rt p) P Q s"
  unfolding fresh_id_def by (intro wp post_world) auto

lemma post_store:
  "(\<And>a d. f (mgr_db s) = Inr (a, d) \<Longrightarrow> P a (s\<lparr>mgr_db := d\<rparr>)) \<Longrightarrow> (\<And>e. f (mgr_db s) = Inl e \<Longrightarrow> Q e s) \<Longrightarrow>
     post (store f) P Q s"
  unfolding store_def by (rule post_transact)

lemma post_load: "(\<And>a. f (mgr_db s) = Inr a \<Longrightarrow> P a s) \<Longrightarrow> (\<And>e. f (mgr_db s) = Inl e \<Longrightarrow> Q e s) \<Longrightarrow> post (load f) P Q s"
  unfolding load_def by (intro wp) auto

lemmas runtime_wp = wp post_world post_now post_fresh post_store post_load

text \<open>What a successful start leaves, and what a failed one does not touch.\<close>

definition fake_started :: "StartRequest \<Rightarrow> ('w, 'p) manager \<Rightarrow> Session \<Rightarrow> ('w, 'p) manager \<Rightarrow> bool" where
  "fake_started request s ses s' =
     (ses_Status ses = SessionRunning \<and> ses_Provider ses = ''fake'' \<and> ses_DeviceID ses = start_DeviceID request \<and>
      ses_CredentialInstanceID ses = start_CredentialInstanceID request \<and>
      ses_RuntimeProfileID ses = start_RuntimeProfileID request \<and> ses_WorkspaceID ses = start_WorkspaceID request \<and>
      ses_ResumedFromSessionID ses = start_ResumedFromSessionID request \<and>
      \<not> is_ok (Session_read (ses_ID ses) (mgr_db s)) \<and>
      (\<forall>j. Session_read j (mgr_db s') = (if j = ses_ID ses then Inr ses else Session_read j (mgr_db s))) \<and>
      (\<exists>p. mgr_processes s' = (mgr_processes s)(ses_ID ses := Some p)) \<and>
      mgr_rings s' = (mgr_rings s)(ses_ID ses := Some new_ring))"

lemma fake_started_facts:
  assumes "db_ok (mgr_db s)" "CreateSession x (mgr_db s) = Inr (u, d)"
    "TransitionSession i SessionStarting SessionRunning t None '''' d = Inr (z, d')" "ses_ID x = i"
    "ses_Provider x = ''fake''" "ses_DeviceID x = start_DeviceID request"
    "ses_CredentialInstanceID x = start_CredentialInstanceID request"
    "ses_RuntimeProfileID x = start_RuntimeProfileID request" "ses_WorkspaceID x = start_WorkspaceID request"
    "ses_ResumedFromSessionID x = start_ResumedFromSessionID request"
  shows "Session_read i d' = Inr z \<and>
    fake_started request s z (s\<lparr>mgr_world := w, mgr_db := d', mgr_processes := (mgr_processes s)(i \<mapsto> p),
      mgr_rings := (mgr_rings s)(i \<mapsto> new_ring)\<rparr>)"
  using created_then_running [of "mgr_db s" x u d t z d'] assms by (simp add: fake_started_def same_binding_def) blast

lemma StartFake_post:
  assumes "db_ok (mgr_db s)"
  shows "post (StartFake rt request) (fake_started request s)
    (\<lambda>e s'. mgr_processes s' = mgr_processes s \<and> mgr_rings s' = mgr_rings s) s"
  unfolding StartFake_def Let_def
  apply (intro runtime_wp)
  apply simp_all
  apply (drule (1) fake_started_facts [OF assms, where request = request]; simp)+
  done

section \<open>Output rings\<close>

lemma new_ring_wf: "ring_wf new_ring" "ring_next new_ring = 0"
proof -
  have "is_ok (NewRingBuffer DefaultRingBytes DefaultChunkSize)"
    by (simp add: NewRingBuffer_def DefaultRingBytes_def DefaultChunkSize_def)
  then obtain r where r: "NewRingBuffer DefaultRingBytes DefaultChunkSize = Inr r"
    by (cases "NewRingBuffer DefaultRingBytes DefaultChunkSize") simp_all
  then have "new_ring = r" by (simp add: new_ring_def NewDefaultRingBuffer_def)
  moreover have "ring_next r = 0" using r by (auto simp: NewRingBuffer_def split: if_splits)
  ultimately show "ring_wf new_ring" "ring_next new_ring = 0" using NewRingBuffer_wf [OF r] by simp_all
qed

lemma ring_append_total:
  assumes "ring_wf r" "ring_next r + int (length data) < 2 ^ 63"
  shows "Append r (map of_char data) = Some (ring_append r data)"
proof -
  obtain r' added where "Append r (map of_char data) = Some (r', added)"
    using Append_spec [OF assms(1), of "map of_char data"] assms(2) by auto
  then show ?thesis by (simp add: ring_append_def)
qed

text \<open>The events written for the chunks change no ring and no Session.\<close>

lemma chunk_events_rings:
  "mgr_rings (snd (append_chunk_events rt i k cs s)) = mgr_rings s \<and>
   Session_read j (mgr_db (snd (append_chunk_events rt i k cs s))) = Session_read j (mgr_db s)"
proof -
  have "keeps (\<lambda>t. mgr_rings t = mgr_rings s \<and> Session_read j (mgr_db t) = Session_read j (mgr_db s))
    (append_chunk_events rt i k cs)"
  proof (induction cs)
    case (Cons c cs)
    have "keeps (\<lambda>t. mgr_rings t = mgr_rings s \<and> Session_read j (mgr_db t) = Session_read j (mgr_db s)) (appendEvent rt i k m)" for m
      unfolding appendEvent_def fresh_id_def now_def world_def store_def
      by (intro keeping keeps_zoom_frame keeps_modify keeps_transact) (auto simp: event_sessions)
    then show ?case using Cons by (auto intro!: keeping)
  qed (auto intro!: keeping)
  then show ?thesis by (simp add: keeps_def)
qed

lemma append_output_ring:
  assumes "mgr_rings s i = Some ring"
  shows "mgr_rings (snd (append_output rt i k out s)) = (mgr_rings s)(i := Some (fst (ring_append ring out))) \<and>
    Session_read j (mgr_db (snd (append_output rt i k out s))) = Session_read j (mgr_db s)"
  using assms
  by (simp add: append_output_def bindS_def getS_def modifyS_def chunk_events_rings split: prod.split)

end
