(* ===== verification/RuntimeSamples.thy ===== *)
theory RuntimeSamples
  imports RuntimeOutcomes SampleRuns
begin

text \<open>
  The concrete runtime of the witnesses: a clock that advances by one at every look, no Codex
  bridge, and fake children whose input is logged.
\<close>

section \<open>A concrete runtime\<close>

record sample_world =
  sw_clock :: time
  sw_inputs :: "string list"

definition sample_runtime :: "(sample_world, nat) runtime" where
  "sample_runtime = \<lparr>rt_executable = ''/bin/desk'', rt_leaseDuration = 30,
     rt_now = (\<lambda>w. (sw_clock w, w\<lparr>sw_clock := sw_clock w + 1\<rparr>)),
     rt_random = (\<lambda>w. (Some (replicate 16 1), w)), rt_unlocked = None,
     rt_start = returnS 7, rt_ready = (\<lambda>p. returnS ()),
     rt_input = (\<lambda>p payload. modifyS (\<lambda>w. w\<lparr>sw_inputs := sw_inputs w @ [payload]\<rparr>)),
     rt_resize = (\<lambda>p r c. returnS ()), rt_stop = (\<lambda>p. returnS ()), rt_kill = (\<lambda>p. returnS ()),
     rt_event_json = (\<lambda>m. Inr ''{}''), rt_codex = None\<rparr>"

definition sample_manager :: "(sample_world, nat) manager" where
  "sample_manager = \<lparr>mgr_db = sample_db, mgr_world = \<lparr>sw_clock = 50, sw_inputs = []\<rparr>,
     mgr_processes = (\<lambda>_. None)(session_1 := Some 7), mgr_rings = (\<lambda>_. None),
     mgr_eventSeq = (\<lambda>_. 0), mgr_inputSeq = (\<lambda>_. 0)\<rparr>"

lemma sample_runtime_bridge [simp]: "bridge_ok sample_runtime" "bridge_keeps_inputs sample_runtime"
  by (simp_all add: bridge_ok_def bridge_keeps_def bridge_keeps_inputs_def sample_runtime_def)

lemma sample_manager_simps [simp]:
  "mgr_db sample_manager = sample_db" "mgr_world sample_manager = \<lparr>sw_clock = 50, sw_inputs = []\<rparr>"
  by (simp_all add: sample_manager_def)

lemma sample_now [simp]: "rt_now sample_runtime w = (sw_clock w, w\<lparr>sw_clock := sw_clock w + 1\<rparr>)"
  by (simp add: sample_runtime_def)

lemma sample_session_read: "Session_read session_1 sample_db = Inr sample_session"
  by (simp add: Session_read_def read_row_def sample_tables sample_session_def)

text \<open>A lease of the Session, held by a client.\<close>

definition held_lease :: "ID \<Rightarrow> int \<Rightarrow> ControllerLease" where
  "held_lease holder n = \<lparr>lease_SessionID = session_1, lease_HolderDeviceID = holder, lease_Revision = n,
     lease_ExpiresAt = 80, lease_LastHeartbeat = 50, lease_ReleasedAt = None\<rparr>"

definition leased_db :: "ID \<Rightarrow> int \<Rightarrow> db" where
  "leased_db holder n = sample_db\<lparr>db_leases := [held_lease holder n]\<rparr>"

lemma leased_db_ok: "db_ok (leased_db client_2 2)"
  unfolding leased_db_def
proof (rule db_ok_put_leaf(2) [OF sample_db_ok])
  show "leases_ok sample_db [held_lease client_2 2]"
    by (simp add: leases_ok_def held_lease_def sample_db_def empty_db_def references_def sample_session_def)
qed

lemma leased_read: "ControllerLease_read session_1 (leased_db h n) = Inr (held_lease h n)"
  by (simp add: ControllerLease_read_def read_row_def leased_db_def held_lease_def)

text \<open>A database for fake sessions.\<close>

definition fake_db :: db where
  "fake_db = sample_db\<lparr>
     db_accounts := map (\<lambda>r. r\<lparr>acc_Provider := ProviderFake, acc_Internal := True\<rparr>) (db_accounts sample_db),
     db_profiles := map (\<lambda>r. r\<lparr>prof_Provider := ProviderFake, prof_Internal := True\<rparr>) (db_profiles sample_db),
     db_credentials := map (\<lambda>r. r\<lparr>cred_Provider := ProviderFake, cred_AuthMethod := AuthMethodFake, cred_SecretRef := ''fake:x'',
                                  cred_AccountID := '''', cred_Status := CredentialUnknown\<rparr>) (db_credentials sample_db),
     db_sessions := [], db_approvals := [], db_enrollments := []\<rparr>"

lemma fake_db_ok: "db_ok fake_db"
proof -
  have ne: "client_1 \<noteq> client_2" by (simp add: sample_ids)
  have "between (Suc 0) 128 ''d''" "between (Suc 0) 128 ''a''" "between (Suc 0) 128 ''b''"
    "between (Suc 0) 128 ''me''" "between (Suc 0) 128 ''p''" "between (Suc 0) 32 ''work''" "between (Suc 0) 4096 ''/w''"
    "between (Suc 0) 512 ''fake:x''"
    by (simp_all add: between_def sql_length_def)
  then show ?thesis
    using sample_nonempty
    by (simp add: db_ok_def table_defs fake_db_def sample_db_def empty_db_def ne references_def
        references_or_null_def like_prefix_def has_prefix_def lower_char_def json_eval)
qed

text \<open>A start on it.\<close>

definition fake_request :: StartRequest where
  "fake_request = \<lparr>start_DeviceID = device_1, start_Provider = '''', start_AccountID = account_1,
     start_CredentialInstanceID = credential_1, start_RuntimeProfileID = profile_1,
     start_WorkspaceID = workspace_1, start_Capabilities = [], start_ResumedFromSessionID = ''''\<rparr>"

definition fake_session :: "ID \<Rightarrow> Session" where
  "fake_session i = \<lparr>ses_ID = i, ses_DeviceID = device_1, ses_AccountID = account_1, ses_Provider = ''fake'',
     ses_CredentialInstanceID = credential_1, ses_RuntimeProfileID = profile_1, ses_WorkspaceID = workspace_1,
     ses_ProviderSessionID = '''', ses_ResumedFromSessionID = '''', ses_Status = SessionStarting,
     ses_StartedAt = 50, ses_EndedAt = None, ses_ExitCode = None, ses_CapabilitySnapshot = [],
     ses_FailureCode = ''''\<rparr>"

definition fake_manager :: "(sample_world, nat) manager" where
  "fake_manager = sample_manager\<lparr>mgr_db := fake_db\<rparr>"

definition fake_id :: ID where "fake_id = ''session_01010101010101010101010101010101''"

lemma fake_id_new: "NewID ''session'' (Some (replicate 16 1)) = Inr fake_id" "valid_id fake_id"
  unfolding fake_id_def by code_simp+

lemma fake_caps: "CanonicalCapabilities [] = Inr []"
  by (simp add: CanonicalCapabilities_def validCapabilities_def)

lemma fake_created: "CreateSession (fake_session fake_id) fake_db = Inr ((), fake_db\<lparr>db_sessions := [fake_session fake_id]\<rparr>)"
proof -
  have new: "NewSession (fake_session fake_id) = Inr (fake_session fake_id)"
    using sample_nonempty fake_id_new(2)
    by (simp add: NewSession_iff session_input_ok_def fake_session_def fake_caps ProviderKnown_def)
  have links: "validateSessionLinks (fake_session fake_id) fake_db = Inr ()"
    using sample_nonempty
    by (simp add: validateSessionLinks_def validateAccountForProvider_def fake_db_def sample_db_def fake_session_def
        count_rows_def empty_db_def)
  have rows: "sessions_ok fake_db [fake_session fake_id]"
    using sample_nonempty
    by (simp add: sessions_ok_def session_row_ok_def session_status_ok_def fake_session_def fake_db_def sample_db_def
        empty_db_def references_def references_or_null_def fake_caps json_eval)
  have "db_sessions fake_db = []" by (simp add: fake_db_def)
  then show ?thesis using new links rows sample_nonempty
    by (simp add: CreateSession_def Let_def fake_session_def fake_caps sql_insert_def)
qed

end
