(* ===== verification/RuntimeProperties.thy ===== *)
theory RuntimeProperties
  imports RuntimeSamples
begin

text \<open>
  The properties of the runtime manager: it refines the store, only the current controller
  controls, input is applied once and in order, output can be replayed, a start and the end of a
  child reach the stored Session.
\<close>

section \<open>The store under the manager\<close>

text \<open>Whatever the daemon does through the runtime manager, in any order and with the clock,
  the random source and the children behaving in any way, is for the store a history of its own
  operations: the manager refines the store. So the schema holds in every state that is reached.\<close>

theorem manager_refines_store:
  assumes "(manager_step rt)\<^sup>*\<^sup>* s s'" "bridge_ok rt" "db_ok (mgr_db s)"
  shows "store_op\<^sup>*\<^sup>* (mgr_db s) (mgr_db s') \<and> db_ok (mgr_db s')"
proof -
  have "history (mgr_db s) s'"
    using assms(1)
  proof (induction rule: rtranclp_induct)
    case (step y z)
    then show ?case using manager_step_keeps [OF step(2) history_closed assms(2)] by blast
  qed (simp add: history_def)
  then show ?thesis using store_ops_db_ok assms(3) by (auto simp: history_def)
qed

lemma manager_refines_store_witness:
  "store_op\<^sup>*\<^sup>* sample_db (mgr_db (snd (Attach sample_runtime session_1 client_1 AttachmentObserver sample_manager))) \<and>
   db_ok (mgr_db (snd (Attach sample_runtime session_1 client_1 AttachmentObserver sample_manager)))"
proof -
  have "manager_step sample_runtime sample_manager (snd (Attach sample_runtime session_1 client_1 AttachmentObserver sample_manager))"
    by (rule manager_step.intros(7) [OF surjective_pairing])
  then have "(manager_step sample_runtime)\<^sup>*\<^sup>* sample_manager (snd (Attach sample_runtime session_1 client_1 AttachmentObserver sample_manager))"
    by (rule r_into_rtranclp)
  from manager_refines_store [OF this] sample_db_ok show ?thesis by simp
qed

section \<open>Control\<close>

text \<open>A revision of a Session's lease that has been passed.\<close>

definition superseded :: "ID \<Rightarrow> int \<Rightarrow> ('w, 'p) manager \<Rightarrow> bool" where
  "superseded i n s = (db_ok (mgr_db s) \<and> n < lease_version i (mgr_db s) \<and>
     0 < lease_version i (mgr_db s) \<and> lease_version i (mgr_db s) < 2 ^ 63)"

lemma lease_version_table: "db_leases d = db_leases d' \<Longrightarrow> lease_version i d = lease_version i d'"
  by (simp add: lease_version_def ControllerLease_read_def)

lemma lease_step_grows:
  assumes "lease_step i cur (Some l)" "0 < lease_revision cur" "lease_revision cur < 2 ^ 63" "1 \<le> lease_Revision l"
  shows "lease_revision cur \<le> lease_Revision l \<and> lease_Revision l < 2 ^ 63"
proof -
  have wrap: "x \<le> i64 (x + 1) \<and> i64 (x + 1) < 2 ^ 63" if "0 < x" "x < 2 ^ 63" "1 \<le> i64 (x + 1)" for x
  proof (cases "x = 2 ^ 63 - 1")
    case True
    then show ?thesis using that(3) by (simp add: i64_def)
  next
    case False
    then show ?thesis using i64_succ [of x] that by simp
  qed
  from assms(1) show ?thesis
  proof cases
    case (acquire h now d)
    then show ?thesis using assms(2-4) wrap [of "lease_revision cur"]
      by (cases cur) (simp_all add: AcquireControllerLease_ok lease_revision_def)
  next
    case (heartbeat l0 h r now d)
    then show ?thesis using assms(2,3) by (simp add: Heartbeat_ok lease_revision_def)
  next
    case (release l0 h r now)
    then show ?thesis using assms(2-4) wrap [of "lease_revision cur"] by (simp add: Release_ok lease_revision_def)
  qed
qed

lemma superseded_closed:
  "store_closed (superseded i n :: ('w, 'p) manager \<Rightarrow> bool)" "lease_closed (superseded i n :: ('w, 'p) manager \<Rightarrow> bool)"
proof -
  have kept: "superseded i n s'" if "superseded i n s" "db_leases (mgr_db s') = db_leases (mgr_db s)" "db_ok (mgr_db s')"
    for s s' :: "('w, 'p) manager"
    using that lease_version_table [OF that(2), of i] by (simp add: superseded_def)
  show "store_closed (superseded i n :: ('w, 'p) manager \<Rightarrow> bool)"
    unfolding store_closed_def
  proof (intro conjI allI impI)
    fix s s' :: "('w, 'p) manager" assume "mgr_db s' = mgr_db s" "superseded i n s"
    then show "superseded i n s'" by (simp add: superseded_def)
  next
    fix s :: "('w, 'p) manager" and d
    assume s: "superseded i n s" and d: "store_op (mgr_db s) d" "db_leases d = db_leases (mgr_db s)"
    have "db_ok d" by (rule store_op_db_ok [OF d(1)]) (use s in \<open>simp add: superseded_def\<close>)
    then show "superseded i n (s\<lparr>mgr_db := d\<rparr>)" using kept [OF s, of "s\<lparr>mgr_db := d\<rparr>"] d(2) by simp
  qed
  show "lease_closed (superseded i n :: ('w, 'p) manager \<Rightarrow> bool)"
    unfolding lease_closed_def
  proof (intro allI impI)
    fix s :: "('w, 'p) manager" and d j l u
    assume s: "superseded i n s" and step: "lease_step j (stored_lease j (mgr_db s)) (Some l)"
      and l: "lease_SessionID l = j" and save: "SaveControllerLease l (lease_version j (mgr_db s)) (mgr_db s) = Inr (u, d)"
    have ok: "db_ok (mgr_db s)" "db_ok d"
      using s SaveControllerLease_db_ok [OF save] by (auto simp: superseded_def)
    have new: "ControllerLease_read k d = (if k = j then Inr l else ControllerLease_read k (mgr_db s))" for k
      using SaveControllerLease_spec [OF ok(1) save] l by simp
    show "superseded i n (s\<lparr>mgr_db := d\<rparr>)"
    proof (cases "i = j")
      case True
      have "1 \<le> lease_Revision l" using lease_read_revision [OF ok(2), of j l] new by simp
      then have "lease_version i (mgr_db s) \<le> lease_Revision l \<and> lease_Revision l < 2 ^ 63"
        using lease_step_grows [OF step] s True by (simp add: superseded_def lease_version_stored)
      then show ?thesis using s ok True new by (simp add: superseded_def lease_version_def)
    next
      case False
      then show ?thesis using s ok new by (simp add: superseded_def lease_version_def)
    qed
  qed
qed

lemma passed_revision_refused:
  assumes "superseded i n s"
  obtains w where "requireLease rt i c n s = (fail CodeStaleLease ''controller lease revision is stale'', s\<lparr>mgr_world := w\<rparr>)"
proof -
  obtain l where l: "ControllerLease_read i (mgr_db s) = Inr l" "0 < lease_Revision l" "n < lease_Revision l"
    using assms by (auto simp: superseded_def lease_version_def split: sum.splits)
  obtain t w where "rt_now rt (mgr_world s) = (t, w)" by (cases "rt_now rt (mgr_world s)")
  then have "requireLease rt i c n s = (fail CodeStaleLease ''controller lease revision is stale'', s\<lparr>mgr_world := w\<rparr>)"
    using l by (simp add: requireLease_def load_def now_def world_def run_simps RequireControl_def lease_require_def)
  then show ?thesis by (rule that)
qed

text \<open>C7. A client that holds a passed revision of the controller lease is fenced off for good: in every
  state the daemon reaches from there, its input, resize, stop and kill are refused as stale, and
  nothing but the clock has moved: no child is touched, nothing is stored and no sequence number
  changes. The revision cannot wrap round: the table refuses a negative one.\<close>

theorem superseded_client_fenced:
  assumes "(manager_step rt)\<^sup>*\<^sup>* s s'" "bridge_ok rt" "db_ok (mgr_db s)"
    "ControllerLease_read i (mgr_db s) = Inr l" "n < lease_Revision l" "lease_Revision l < 2 ^ 63"
    "1 \<le> sq" "0 < rows" "rows \<le> 1000" "0 < cols" "cols \<le> 1000"
  shows "\<exists>w. let stale = NewError CodeStaleLease ''controller lease revision is stale''; s'' = s'\<lparr>mgr_world := w\<rparr> in
     Input rt \<lparr>in_SessionID = i, in_ClientID = c, in_Revision = n, in_Sequence = sq, in_Payload = x\<rparr> s' = (Inl stale, s'') \<and>
     Resize rt \<lparr>rz_SessionID = i, rz_ClientID = c, rz_Revision = n, rz_Rows = rows, rz_Cols = cols\<rparr> s' = (Inl stale, s'') \<and>
     Stop rt ticks i c n s' = (Inl stale, s'') \<and> Kill rt i c n s' = (Inl stale, s'')"
proof -
  have "superseded i n s"
    using assms lease_read_revision [OF assms(3,4)] by (simp add: superseded_def lease_version_def)
  with assms(1) have "superseded i n s'"
    by (induction rule: rtranclp_induct) (blast intro: manager_step_keeps [OF _ superseded_closed assms(2)])+
  then obtain w where "requireLease rt i c n s' = (fail CodeStaleLease ''controller lease revision is stale'', s'\<lparr>mgr_world := w\<rparr>)"
    by (rule passed_revision_refused)
  then show ?thesis using assms(7-11)
    by (intro exI [of _ w]) (simp add: Let_def Input_def check_input_def Resize_def Stop_def Kill_def bindS_def)
qed

lemma superseded_client_fenced_witness:
  "\<exists>w. let stale = NewError CodeStaleLease ''controller lease revision is stale'';
        m = fake_manager\<lparr>mgr_db := leased_db client_2 2\<rparr>; s'' = m\<lparr>mgr_world := w\<rparr> in
     Input sample_runtime \<lparr>in_SessionID = session_1, in_ClientID = client_1, in_Revision = 1, in_Sequence = 1, in_Payload = ''x''\<rparr> m = (Inl stale, s'') \<and>
     Kill sample_runtime session_1 client_1 1 m = (Inl stale, s'')"
proof -
  let ?m = "fake_manager\<lparr>mgr_db := leased_db client_2 2\<rparr>"
  have "ControllerLease_read session_1 (mgr_db ?m) = Inr (held_lease client_2 2)" "db_ok (mgr_db ?m)"
    using leased_read leased_db_ok by simp_all
  from superseded_client_fenced [OF rtranclp.rtrancl_refl sample_runtime_bridge(1) this(2,1), of 1 1 24 80 client_1 "''x''" "[]"]
  show ?thesis by (simp add: Let_def held_lease_def) blast
qed

section \<open>The controller lease\<close>

text \<open>An operation on the lease of a Session gives the lease that \<open>granted\<close> computes, stores it and touches
  nothing else; or it fails, with the error of \<open>granted\<close> when there is one, and stores nothing.\<close>

definition saves_lease ::
  "ID \<Rightarrow> error + ControllerLease \<Rightarrow> ('w, 'p) manager \<Rightarrow> (error + ControllerLease) \<times> ('w, 'p) manager \<Rightarrow> bool" where
  "saves_lease i granted s out =
     (case out of
        (Inr l, s') \<Rightarrow> granted = Inr l \<and> stored_lease i (mgr_db s') = Some l \<and>
          (\<forall>j. j \<noteq> i \<longrightarrow> stored_lease j (mgr_db s') = stored_lease j (mgr_db s)) \<and>
          (\<exists>w rows. s' = s\<lparr>mgr_world := w, mgr_db := (mgr_db s)\<lparr>db_leases := rows\<rparr>\<rparr>)
      | (Inl e, s') \<Rightarrow> (\<forall>e'. granted = Inl e' \<longrightarrow> e = e') \<and> (\<exists>w. s' = s\<lparr>mgr_world := w\<rparr>))"

lemma SaveControllerLease_leases:
  "SaveControllerLease l n d = Inr (u, d') \<Longrightarrow> \<exists>rows. d' = d\<lparr>db_leases := rows\<rparr>"
  by (auto simp: SaveControllerLease_def bindE_Inr split: if_splits sum.splits)

lemma saves_lease_run:
  assumes "db_ok (mgr_db s)" "\<And>l. g (fst (rt_now rt (mgr_world s))) = Inr l \<Longrightarrow> lease_SessionID l = i"
  shows "saves_lease i (g (fst (rt_now rt (mgr_world s)))) s
    (bindS (now rt) (\<lambda>t. bindS (liftS (g t)) (\<lambda>l. bindS (store (SaveControllerLease l n)) (\<lambda>_. returnS l))) s)"
proof -
  obtain t w where t: "rt_now rt (mgr_world s) = (t, w)" by (cases "rt_now rt (mgr_world s)")
  show ?thesis
  proof (cases "g t")
    case (Inl e)
    then show ?thesis by (auto simp: saves_lease_def run_simps now_def world_def t)
  next
    case (Inr l)
    then have key: "lease_SessionID l = i" using assms(2) t by simp
    show ?thesis
    proof (cases "SaveControllerLease l n (mgr_db s)")
      case (Inl e)
      then show ?thesis using Inr by (auto simp: saves_lease_def run_simps now_def world_def store_def t)
    next
      case save: (Inr ud)
      obtain u d where ud: "SaveControllerLease l n (mgr_db s) = Inr (u, d)" using save by (cases ud) auto
      have reads: "stored_lease j d = (if j = i then Some l else stored_lease j (mgr_db s))" for j
        using SaveControllerLease_spec [OF assms(1) ud, of j] key by (simp add: stored_lease_def)
      obtain rows where rows: "d = (mgr_db s)\<lparr>db_leases := rows\<rparr>" using SaveControllerLease_leases [OF ud] by blast
      have "bindS (now rt) (\<lambda>t. bindS (liftS (g t)) (\<lambda>l. bindS (store (SaveControllerLease l n)) (\<lambda>_. returnS l))) s =
          (Inr l, s\<lparr>mgr_world := w, mgr_db := d\<rparr>)"
        using Inr ud by (simp add: run_simps now_def world_def store_def t)
      then show ?thesis using Inr reads rows by (auto simp: saves_lease_def t)
    qed
  qed
qed

lemma lease_read_stored:
  "ControllerLease_read i d =
     (case stored_lease i d of None \<Rightarrow> fail CodeNotFound ''controller lease not found'' | Some l \<Rightarrow> Inr l)"
  by (simp add: stored_lease_def ControllerLease_read_def read_row_def split: option.splits)

text \<open>C22. The manager runs the lease machine on the stored lease: \<open>Acquire\<close>, \<open>HeartbeatLease\<close> and
  \<open>ReleaseLease\<close> read the lease of the Session and the clock once and succeed only with the lease that
  the domain's \<open>AcquireControllerLease\<close>, \<open>Heartbeat\<close> and \<open>Release\<close> make of it at that time; they
  store it, so that it is the lease read next, and change neither the lease of another Session nor
  anything else but the clock's world. Where the domain refuses, the operation returns its error, and
  whenever it fails nothing is stored.\<close>

theorem lease_operations_refine:
  assumes "db_ok (mgr_db s)" "t = fst (rt_now rt (mgr_world s))"
  shows "saves_lease i (AcquireControllerLease (stored_lease i (mgr_db s)) i c t (rt_leaseDuration rt)) s (Acquire rt i c s) \<and>
    saves_lease i (case stored_lease i (mgr_db s) of None \<Rightarrow> fail CodeNotFound ''controller lease not found''
                   | Some l \<Rightarrow> Heartbeat l c n t (rt_leaseDuration rt)) s (HeartbeatLease rt i c n s) \<and>
    saves_lease i (case stored_lease i (mgr_db s) of None \<Rightarrow> fail CodeNotFound ''controller lease not found''
                   | Some l \<Rightarrow> Release l c n t) s (ReleaseLease rt i c n s)"
proof -
  let ?cur = "stored_lease i (mgr_db s)"
  have key: "lease_SessionID l = i" if "?cur = Some l" for l
    using that lease_read_key by (auto simp: stored_lease_def split: sum.splits)
  have "Acquire rt i c s = bindS (now rt) (\<lambda>t. bindS (liftS (AcquireControllerLease ?cur i c t (rt_leaseDuration rt)))
      (\<lambda>l. bindS (store (SaveControllerLease l (case ?cur of None \<Rightarrow> 0 | Some c \<Rightarrow> lease_Revision c))) (\<lambda>_. returnS l))) s"
    by (cases ?cur) (simp_all add: Acquire_def bindS_def getS_def liftS_def lease_read_stored NewError_def)
  then have "saves_lease i (AcquireControllerLease ?cur i c t (rt_leaseDuration rt)) s (Acquire rt i c s)"
    using saves_lease_run [OF assms(1), of "\<lambda>t. AcquireControllerLease ?cur i c t (rt_leaseDuration rt)" rt i]
    by (simp add: assms(2) AcquireControllerLease_ok)
  moreover have "saves_lease i (case ?cur of None \<Rightarrow> fail CodeNotFound ''controller lease not found''
      | Some l \<Rightarrow> Heartbeat l c n t (rt_leaseDuration rt)) s (HeartbeatLease rt i c n s)"
  proof (cases ?cur)
    case (Some l)
    then have "HeartbeatLease rt i c n s = bindS (now rt) (\<lambda>t. bindS (liftS (Heartbeat l c n t (rt_leaseDuration rt)))
        (\<lambda>l'. bindS (store (SaveControllerLease l' (lease_Revision l))) (\<lambda>_. returnS l'))) s"
      by (simp add: HeartbeatLease_def load_def bindS_def getS_def liftS_def lease_read_stored)
    then show ?thesis
      using saves_lease_run [OF assms(1), of "\<lambda>t. Heartbeat l c n t (rt_leaseDuration rt)" rt i] key [OF Some]
      by (simp add: assms(2) Heartbeat_ok Some)
  qed (auto simp: HeartbeatLease_def load_def run_simps lease_read_stored saves_lease_def intro: exI [of _ "mgr_world s"])
  moreover have "saves_lease i (case ?cur of None \<Rightarrow> fail CodeNotFound ''controller lease not found''
      | Some l \<Rightarrow> Release l c n t) s (ReleaseLease rt i c n s)"
  proof (cases ?cur)
    case (Some l)
    then have "ReleaseLease rt i c n s = bindS (now rt) (\<lambda>t. bindS (liftS (Release l c n t))
        (\<lambda>l'. bindS (store (SaveControllerLease l' (lease_Revision l))) (\<lambda>_. returnS l'))) s"
      by (simp add: ReleaseLease_def load_def bindS_def getS_def liftS_def lease_read_stored)
    then show ?thesis
      using saves_lease_run [OF assms(1), of "\<lambda>t. Release l c n t" rt i] key [OF Some]
      by (simp add: assms(2) Release_ok Some)
  qed (auto simp: ReleaseLease_def load_def run_simps lease_read_stored saves_lease_def intro: exI [of _ "mgr_world s"])
  ultimately show ?thesis by blast
qed

lemma lease_operations_refine_witness:
  "\<exists>s'. Acquire sample_runtime session_1 client_1 sample_manager = (Inr (held_lease client_1 1), s') \<and>
     stored_lease session_1 (mgr_db s') = Some (held_lease client_1 1) \<and>
   fst (Acquire sample_runtime session_1 client_1 (sample_manager\<lparr>mgr_db := leased_db client_2 2\<rparr>)) =
     fail CodeLeaseHeld ''controller lease is already held''"
proof -
  have none: "stored_lease session_1 sample_db = None"
    by (simp add: stored_lease_def ControllerLease_read_def read_row_def sample_db_def empty_db_def)
  have granted: "AcquireControllerLease None session_1 client_1 50 30 = Inr (held_lease client_1 1)"
    using sample_valid_ids(2,8) by (simp add: AcquireControllerLease_def held_lease_def del: sample_valid_ids)
  have "leases_ok sample_db [held_lease client_1 1]"
    by (simp add: leases_ok_def held_lease_def sample_db_def empty_db_def references_def sample_session_def)
  then obtain d' where "SaveControllerLease (held_lease client_1 1) 0 sample_db = Inr ((), d')"
    by (simp add: SaveControllerLease_def sql_insert_def) (simp add: held_lease_def sample_db_def empty_db_def)
  then have ok: "fst (Acquire sample_runtime session_1 client_1 sample_manager) = Inr (held_lease client_1 1)"
    using granted none
    by (simp add: Acquire_def run_simps now_def world_def store_def lease_read_stored NewError_def) (simp add: sample_runtime_def run_simps)
  obtain s' where s': "Acquire sample_runtime session_1 client_1 sample_manager = (Inr (held_lease client_1 1), s')"
    using ok by (cases "Acquire sample_runtime session_1 client_1 sample_manager") simp
  have "db_ok (mgr_db sample_manager)" "db_ok (mgr_db (sample_manager\<lparr>mgr_db := leased_db client_2 2\<rparr>))"
    using sample_db_ok leased_db_ok by simp_all
  note refine = lease_operations_refine [OF this(1) refl, where i = session_1 and rt = sample_runtime and c = client_1]
    and held = lease_operations_refine [OF this(2) refl, where i = session_1 and rt = sample_runtime and c = client_1]
  have "AcquireControllerLease (Some (held_lease client_2 2)) session_1 client_1 50 (rt_leaseDuration sample_runtime) =
      fail CodeLeaseHeld ''controller lease is already held''"
    using sample_valid_ids(2,8)
    by (simp add: AcquireControllerLease_def held_lease_def Active_def sample_runtime_def del: sample_valid_ids)
  then have "fst (Acquire sample_runtime session_1 client_1 (sample_manager\<lparr>mgr_db := leased_db client_2 2\<rparr>)) =
     fail CodeLeaseHeld ''controller lease is already held''"
    using conjunct1 [OF held] leased_read [of client_2 2]
    by (auto simp: saves_lease_def stored_lease_def split: prod.splits sum.splits)
  with conjunct1 [OF refine] s' show ?thesis by (auto simp: saves_lease_def)
qed

section \<open>Input and output\<close>

text \<open>C23. Input calls that are made one after the other reach the child once and in order: whatever the
  calls are, with repeats, gaps and calls that fail, and whatever the rest of the daemon does between
  them, the sequence numbers that were applied for a Session and client are exactly 1, 2, 3 and so
  on, and what was delivered is exactly the payloads of the applied calls, in the order of the calls,
  once each; a duplicate or refused call delivers nothing. (Two calls that overlap are not covered:
  \<open>concurrent_input_delivered_twice\<close> shows what they do.)\<close>

theorem inputs_applied_once:
  assumes "bridge_keeps_inputs rt" "logs_deliveries rt seen"
    "\<forall>(tick, r) \<in> set calls. \<forall>s. mgr_inputSeq (tick s) = mgr_inputSeq s \<and> seen (mgr_world (tick s)) = seen (mgr_world s)"
    "mgr_inputSeq s key = 0" "int (length calls) < 2 ^ 63 - 1" "serve_inputs rt calls s = (out, s')"
  shows "applied_inputs key out = [1 .. int (length (applied_inputs key out))] \<and>
    seen (mgr_world s') = seen (mgr_world s) @ applied_payloads out"
proof -
  have ticks: "\<forall>(tick, r) \<in> set calls. \<forall>s. mgr_inputSeq (tick s) = mgr_inputSeq s"
    "\<forall>(tick, r) \<in> set calls. \<forall>s. seen (mgr_world (tick s)) = seen (mgr_world s)"
    using assms(3) by fast+
  show ?thesis
    using serve_inputs_sequences [OF assms(1) ticks(1), of key s] serve_inputs_log [OF assms(2) ticks(2) assms(6)]
      assms(4-6) by (simp add: next_input_def)
qed

definition sample_input :: "int \<Rightarrow> InputRequest" where
  "sample_input n = \<lparr>in_SessionID = session_1, in_ClientID = client_1, in_Revision = 1, in_Sequence = n, in_Payload = ''x''\<rparr>"

definition sample_key :: string where "sample_key = session_1 @ '':'' @ client_1"

lemma sample_input_key [simp]: "input_key (sample_input n) = sample_key"
  by (simp add: input_key_def sample_input_def sample_key_def)

text \<open>The manager after some inputs: the clock, how many were delivered, and the next number.\<close>

definition input_state :: "time \<Rightarrow> nat \<Rightarrow> int \<Rightarrow> (sample_world, nat) manager" where
  "input_state c k n = sample_manager\<lparr>
     mgr_db := (leased_db client_1 1)\<lparr>db_sessions := [sample_session\<lparr>ses_Provider := ProviderFake\<rparr>]\<rparr>,
     mgr_world := \<lparr>sw_clock = c, sw_inputs = replicate k ''x''\<rparr>, mgr_inputSeq := (\<lambda>_. 0)(sample_key := n)\<rparr>"

lemma input_state_reads:
  "ControllerLease_read session_1 (mgr_db (input_state c k n)) = Inr (held_lease client_1 1)"
  "Session_read session_1 (mgr_db (input_state c k n)) = Inr (sample_session\<lparr>ses_Provider := ProviderFake\<rparr>)"
  "mgr_processes (input_state c k n) session_1 = Some 7" "mgr_inputSeq (input_state c k n) sample_key = n"
  "mgr_world (input_state c k n) = \<lparr>sw_clock = c, sw_inputs = replicate k ''x''\<rparr>"
  using leased_read [of client_1 1]
  by (simp_all add: input_state_def ControllerLease_read_def Session_read_def read_row_def sample_session_def sample_manager_def)

lemma input_state_updates:
  "input_state c k n\<lparr>mgr_world := \<lparr>sw_clock = c', sw_inputs = replicate k ''x''\<rparr>\<rparr> = input_state c' k n"
  "input_state c k n\<lparr>mgr_world := \<lparr>sw_clock = c', sw_inputs = replicate k ''x'' @ [''x'']\<rparr>\<rparr> = input_state c' (Suc k) n"
  "input_state c k n\<lparr>mgr_inputSeq := (mgr_inputSeq (input_state c' k' n'))(sample_key := m)\<rparr> = input_state c k m"
  by (simp_all add: input_state_def replicate_append_same)

lemma sample_input_fields:
  "in_SessionID (sample_input m) = session_1" "in_ClientID (sample_input m) = client_1"
  "in_Revision (sample_input m) = 1" "in_Sequence (sample_input m) = m" "in_Payload (sample_input m) = ''x''"
  by (simp_all add: sample_input_def)

lemma input_state_now: "now sample_runtime (input_state c k n) = (Inr c, input_state (c + 1) k n)"
  by (simp add: now_def world_def zoomS_def input_state_reads input_state_updates)

lemma input_state_lease:
  "50 \<le> c \<Longrightarrow> c < 80 \<Longrightarrow> requireLease sample_runtime session_1 client_1 1 (input_state c k n) = (Inr (), input_state (c + 1) k n)"
  by (simp add: requireLease_def load_def bindS_def getS_def liftS_def input_state_reads input_state_now held_lease_def
      RequireControl_def lease_require_def Active_def)

lemma sample_input_check:
  assumes "50 \<le> c" "c < 80" "1 \<le> m" "0 \<le> n"
  shows "check_input sample_runtime (sample_input m) (input_state c k n) =
    (if m < n then Inr InputDuplicate
     else if max 1 n < m then fail CodeConflict ''input sequence gap'' else Inr (InputExpected m (Some 7)), input_state (c + 1) k n)"
  using assms input_state_lease [of c k n]
  by (auto simp: check_input_def bindS_def getS_def returnS_def throwS_def sample_input_fields input_state_reads Let_def max_def)

lemma sample_input_deliver:
  "deliver_input sample_runtime (sample_input m) (Some 7) (input_state c k n) = (Inr (), input_state c (Suc k) n)"
  by (simp add: deliver_input_def load_def world_def zoomS_def bindS_def getS_def liftS_def modifyS_def sample_input_fields
      input_state_reads input_state_updates) (simp add: sample_runtime_def modifyS_def input_state_updates)

lemma sample_input_commit:
  "commit_input (sample_input m) m (input_state c k n) = (Inr \<lparr>out_Sequence = m, out_Duplicate = False\<rparr>, input_state c k (i64 (m + 1)))"
  by (simp add: commit_input_def bindS_def modifyS_def returnS_def sample_input_fields input_state_updates)

lemma sample_input_run:
  assumes "50 \<le> c" "c < 80" "1 \<le> m" "0 \<le> n"
  shows "Input sample_runtime (sample_input m) (input_state c k n) =
    (if m < n then (Inr \<lparr>out_Sequence = m, out_Duplicate = True\<rparr>, input_state (c + 1) k n)
     else if max 1 n < m then (fail CodeConflict ''input sequence gap'', input_state (c + 1) k n)
     else (Inr \<lparr>out_Sequence = m, out_Duplicate = False\<rparr>, input_state (c + 1) (Suc k) (i64 (m + 1))))"
  using sample_input_check [OF assms, of k]
  by (simp add: Input_def bindS_def returnS_def sample_input_fields sample_input_deliver sample_input_commit)

lemma sample_runtime_log: "logs_deliveries sample_runtime sw_inputs"
  by (simp add: logs_deliveries_def sample_runtime_def modifyS_def)

lemma inputs_applied_once_witness:
  "\<exists>out s'. serve_inputs sample_runtime (map (\<lambda>n. (\<lambda>s. s, sample_input n)) [1, 1, 3, 2, 2, 3]) (input_state 50 0 0) = (out, s') \<and>
     applied_inputs sample_key out = [1, 2, 3] \<and> sw_inputs (mgr_world s') = [''x'', ''x'', ''x'']"
proof -
  define calls :: "(((sample_world, nat) manager \<Rightarrow> (sample_world, nat) manager) \<times> InputRequest) list"
    where "calls = map (\<lambda>n. (\<lambda>s. s, sample_input n)) [1, 1, 3, 2, 2, 3]"
  obtain out s' where run: "serve_inputs sample_runtime calls (input_state 50 0 0) = (out, s')"
    by (cases "serve_inputs sample_runtime calls (input_state 50 0 0)")
  have once: "applied_inputs sample_key out = [1 .. int (length (applied_inputs sample_key out))] \<and>
      sw_inputs (mgr_world s') = sw_inputs (mgr_world (input_state 50 0 0)) @ applied_payloads out"
    by (rule inputs_applied_once [OF sample_runtime_bridge(2) sample_runtime_log _ _ _ run])
      (simp_all add: calls_def input_state_reads)
  have "length (applied_inputs sample_key out) = 3" "applied_payloads out = [''x'', ''x'', ''x'']"
    using run by (auto simp: calls_def sample_input_run sample_input_fields i64_def applied_inputs_def applied_payloads_def input_applied_def)
  then have "applied_inputs sample_key out = [1, 2, 3]" "sw_inputs (mgr_world s') = [''x'', ''x'', ''x'']"
    using once by (simp_all add: input_state_reads upto.simps [of _ 3])
  with run show ?thesis unfolding calls_def by blast
qed

text \<open>
  The mutex is given up between the three sections of \<open>Input\<close>, and nothing reserves the sequence number in
  between: when the same input arrives on two connections of the client, both calls can pass the check
  before either has recorded its number, and the child gets the payload twice.
\<close>

lemma concurrent_input_delivered_twice:
  "\<exists>s1 s2 s3 s4 s5 s6 p.
     check_input sample_runtime (sample_input 1) (input_state 50 0 0) = (Inr (InputExpected 1 p), s1) \<and>
     check_input sample_runtime (sample_input 1) s1 = (Inr (InputExpected 1 p), s2) \<and>
     deliver_input sample_runtime (sample_input 1) p s2 = (Inr (), s3) \<and>
     deliver_input sample_runtime (sample_input 1) p s3 = (Inr (), s4) \<and>
     commit_input (sample_input 1) 1 s4 = (Inr \<lparr>out_Sequence = 1, out_Duplicate = False\<rparr>, s5) \<and>
     commit_input (sample_input 1) 1 s5 = (Inr \<lparr>out_Sequence = 1, out_Duplicate = False\<rparr>, s6) \<and>
     sw_inputs (mgr_world s6) = [''x'', ''x'']"
  by (simp add: sample_input_check sample_input_deliver sample_input_commit i64_def input_state_reads numeral_2_eq_2)

text \<open>C24. What a child writes can be replayed. Once an output is appended, a client that holds everything the
  Session had written before asks for what follows: when the output fits the capacity of the ring it
  gets exactly its bytes, as chunks numbered on from what it holds, and the number to ask for next;
  only when the output alone exceeds the capacity it gets the error \<open>replay_unavailable\<close>, marked as
  truncated, with what is left of the output after its first chunks. Neither the output nor the
  replay changes a Session.\<close>

theorem output_replayed:
  assumes "mgr_rings s i = Some ring" "ring_wf ring" "ring_next ring + int (length out) < 2 ^ 63 - 1" "out \<noteq> []"
    "Session_read i (mgr_db s) = Inr ses"
  shows "\<exists>chunks. let s' = snd (append_output rt i kind out s); n = ring_next ring + int (length chunks) in
     chunk_bytes chunks = map of_char out \<and> map chunk_Sequence chunks = [ring_next ring + 1 .. n] \<and>
     (\<forall>j. Session_read j (mgr_db s') = Session_read j (mgr_db s)) \<and>
     (if int (length out) \<le> ring_capacity ring
      then ReplaySession i (ring_next ring + 1) s' =
        (Inr (None, \<lparr>rep_Chunks = chunks, rep_Truncated = False, rep_NextSequence = n + 1\<rparr>), s')
      else \<exists>k > 0. ReplaySession i (ring_next ring + 1) s' =
        (Inr (Some (NewError CodeReplayUnavailable ''requested replay is no longer retained''),
           \<lparr>rep_Chunks = drop k chunks, rep_Truncated = True, rep_NextSequence = n + 1\<rparr>), s'))"
proof -
  define s' where "s' = snd (append_output rt i kind out s)"
  have "ring_next ring + int (length (map of_char out :: nat list)) < 2 ^ 63 - 1" "map of_char out \<noteq> ([] :: nat list)"
    using assms(3,4) by simp_all
  from Append_caught_up [OF assms(2) this] obtain r' added where
    r': "Append ring (map of_char out) = Some (r', added)" "chunk_bytes added = map of_char out"
      "map chunk_Sequence added = [ring_next ring + 1 .. ring_next r']" "ring_next r' = ring_next ring + int (length added)"
    and rep: "if int (length out) \<le> ring_capacity ring
      then ReplayFrom (Some r') (ring_next ring + 1) =
        (None, \<lparr>rep_Chunks = added, rep_Truncated = False, rep_NextSequence = ring_next r' + 1\<rparr>)
      else \<exists>k > 0. ReplayFrom (Some r') (ring_next ring + 1) =
        (Some (NewError CodeReplayUnavailable ''requested replay is no longer retained''),
         \<lparr>rep_Chunks = drop k added, rep_Truncated = True, rep_NextSequence = ring_next r' + 1\<rparr>)"
    by auto
  have "mgr_rings s' i = Some r'" "Session_read j (mgr_db s') = Session_read j (mgr_db s)" for j
    using append_output_ring [OF assms(1), of rt kind out] r'(1) by (simp_all add: s'_def ring_append_def)
  then have s': "ReplaySession i n s' = (Inr (ReplayFrom (Some r') n), s')"
    "\<forall>j. Session_read j (mgr_db s') = Session_read j (mgr_db s)" for n
    using assms(5) by (simp_all add: ReplaySession_def load_def run_simps)
  show ?thesis unfolding Let_def s'_def [symmetric]
    using r' rep s' by (intro exI [of _ added]) (simp split: if_splits)
qed

lemma output_replayed_witness:
  "let m = snd (ensure_ring session_1 sample_manager); s' = snd (append_output sample_runtime session_1 ''output'' ''hello'' m) in
   \<exists>chunks n. chunk_bytes chunks = map of_char ''hello'' \<and>
     ReplaySession session_1 1 s' = (Inr (None, \<lparr>rep_Chunks = chunks, rep_Truncated = False, rep_NextSequence = n\<rparr>), s')"
proof -
  let ?m = "snd (ensure_ring session_1 sample_manager)"
  have m: "mgr_rings ?m session_1 = Some new_ring" "mgr_db ?m = sample_db"
    by (simp_all add: ensure_ring_def modifyS_def sample_manager_def)
  have "int (length ''hello'') < 2 ^ 63 - 1" "int (length ''hello'') \<le> ring_capacity new_ring"
    by (simp_all add: new_ring_def NewDefaultRingBuffer_def NewRingBuffer_def DefaultRingBytes_def DefaultChunkSize_def)
  with output_replayed [OF m(1) new_ring_wf(1), of "''hello''" sample_session sample_runtime "''output''"]
    m(2) sample_session_read new_ring_wf(2) show ?thesis
    by (simp only: Let_def) force
qed

section \<open>Children\<close>

text \<open>A successful start of a fake session leaves a new running Session with the bindings of the request, its
  child and an empty output ring, and changes no other Session; a failed one registers no child.\<close>

theorem fake_start_runs:
  assumes "db_ok (mgr_db s)" "StartFake rt request s = (res, s')"
  shows "case res of
      Inr ses \<Rightarrow> fake_started request s ses s'
    | Inl e \<Rightarrow> mgr_processes s' = mgr_processes s \<and> mgr_rings s' = mgr_rings s"
  using StartFake_post [OF assms(1), of rt request] assms(2) by (cases res) (simp_all add: post_def)

lemma sample_fake_start:
  "\<exists>s'. StartFake sample_runtime fake_request fake_manager = (Inr ((fake_session fake_id)\<lparr>ses_Status := SessionRunning\<rparr>), s')"
proof -
  let ?d = "fake_db\<lparr>db_sessions := [fake_session fake_id]\<rparr>"
  have ok: "db_ok ?d" by (rule CreateSession_ok [OF fake_created fake_db_ok])
  have read: "Session_read fake_id ?d = Inr (fake_session fake_id)"
    by (simp add: Session_read_def read_row_def fake_session_def)
  have "Transition (fake_session fake_id) SessionRunning 51 None '''' = Inr ((fake_session fake_id)\<lparr>ses_Status := SessionRunning\<rparr>)"
    by (simp add: Transition_ok fake_session_def Terminal_def)
  then obtain d' where d': "TransitionSession fake_id SessionStarting SessionRunning 51 None '''' ?d =
      Inr ((fake_session fake_id)\<lparr>ses_Status := SessionRunning\<rparr>, d')"
    using read TransitionSession_iff [OF ok, of fake_id SessionStarting SessionRunning 51 None "''''"]
    by (auto simp: fake_session_def)
  have started: "Session_read fake_id d' = Inr ((fake_session fake_id)\<lparr>ses_Status := SessionRunning\<rparr>)"
    using TransitionSession_read [OF ok d', of fake_id] by simp
  have rt: "rt_executable sample_runtime \<noteq> ''''" "rt_unlocked sample_runtime = None"
    "rt_random sample_runtime w = (Some (replicate 16 1), w)" "rt_start sample_runtime = returnS 7"
    "rt_ready sample_runtime p = returnS ()" for w p
    by (simp_all add: sample_runtime_def)
  have create: "CreateSession \<lparr>ses_ID = fake_id, ses_DeviceID = device_1, ses_AccountID = account_1, ses_Provider = ''fake'',
     ses_CredentialInstanceID = credential_1, ses_RuntimeProfileID = profile_1, ses_WorkspaceID = workspace_1,
     ses_ProviderSessionID = '''', ses_ResumedFromSessionID = '''', ses_Status = SessionStarting,
     ses_StartedAt = 50, ses_EndedAt = None, ses_ExitCode = None, ses_CapabilitySnapshot = [],
     ses_FailureCode = ''''\<rparr> fake_db = Inr ((), ?d)"
    using fake_created by (simp add: fake_session_def)
  have world: "mgr_world fake_manager = \<lparr>sw_clock = 50, sw_inputs = []\<rparr>" "mgr_db fake_manager = fake_db"
    by (simp_all add: fake_manager_def)
  show ?thesis
    by (simp add: StartFake_def Let_def run_simps fresh_id_def now_def world_def store_def load_def rt world
        fake_request_def fake_caps fake_id_new fake_id_new(1) [unfolded One_nat_def] create d' started)
qed

lemma fake_start_runs_witness:
  "\<exists>s'. fake_started fake_request fake_manager ((fake_session fake_id)\<lparr>ses_Status := SessionRunning\<rparr>) s'"
proof -
  obtain s' where "StartFake sample_runtime fake_request fake_manager = (Inr ((fake_session fake_id)\<lparr>ses_Status := SessionRunning\<rparr>), s')"
    using sample_fake_start by blast
  from fake_start_runs [OF _ this] show ?thesis using fake_db_ok by (auto simp: fake_manager_def)
qed

text \<open>When a child exits while its Session is not yet over, the stored Session ends: a Session that was being
  stopped has exited with the child's code, any other has failed as a provider failure; no other Session
  changes, and the child is forgotten unless another one has taken its place.\<close>

theorem child_exit_ends_session:
  assumes "db_ok (mgr_db s)" "Session_read i (mgr_db s) = Inr ses" "\<not> Terminal (ses_Status ses)"
    "rt_now rt (mgr_world s) = (t, w)" "t \<noteq> 0" "ses_StartedAt ses \<le> t"
  shows "\<exists>d'. handleExit rt i p code s = (Inr (), s\<lparr>mgr_world := w, mgr_db := d',
       mgr_processes := (if mgr_processes s i = Some p then (mgr_processes s)(i := None) else mgr_processes s)\<rparr>) \<and>
     db_ok d' \<and> (\<forall>j. Session_read j d' = (if j \<noteq> i then Session_read j (mgr_db s) else Inr
       (if ses_Status ses = SessionStopping
        then ses\<lparr>ses_Status := SessionExited, ses_EndedAt := Some t, ses_ExitCode := Some code, ses_FailureCode := ''''\<rparr>
        else ses\<lparr>ses_Status := SessionFailed, ses_EndedAt := Some t, ses_ExitCode := None,
                 ses_FailureCode := code_text CodeProviderFailed\<rparr>)))"
  by (rule handleExit_run [OF assms, of p code]) (auto simp: exited_def)

lemma child_exit_ends_session_witness:
  "\<exists>s' d'. handleExit sample_runtime session_1 7 1 sample_manager = (Inr (), s') \<and> mgr_db s' = d' \<and>
     Session_read session_1 d' = Inr (sample_session\<lparr>ses_Status := SessionFailed, ses_EndedAt := Some 50,
       ses_ExitCode := None, ses_FailureCode := code_text CodeProviderFailed\<rparr>) \<and> mgr_processes s' session_1 = None"
proof -
  have "ses_Status sample_session = SessionRunning" "ses_StartedAt sample_session = 10"
    by (simp_all add: sample_session_def)
  with child_exit_ends_session [of sample_manager session_1 sample_session sample_runtime 50 _ 7 1]
    sample_db_ok sample_session_read
  obtain d' where "handleExit sample_runtime session_1 7 1 sample_manager = (Inr (), sample_manager\<lparr>mgr_world := \<lparr>sw_clock = 51, sw_inputs = []\<rparr>, mgr_db := d',
       mgr_processes := (if mgr_processes sample_manager session_1 = Some 7 then (mgr_processes sample_manager)(session_1 := None) else mgr_processes sample_manager)\<rparr>)"
    "Session_read session_1 d' = Inr (sample_session\<lparr>ses_Status := SessionFailed, ses_EndedAt := Some 50,
       ses_ExitCode := None, ses_FailureCode := code_text CodeProviderFailed\<rparr>)"
    by (auto simp: Terminal_def)
  then show ?thesis by (simp add: sample_manager_def)
qed

text \<open>C32. No child is lost: when the goroutine that drains a child's events has seen an exit, or the channel was
  closed with an error, the stored Session is over, however many other events there were and whatever the
  recording of events did (given a clock that does not go back behind the start of the Session).\<close>

theorem drained_child_is_over:
  assumes "db_ok (mgr_db s)" "Session_read i (mgr_db s) = Inr ses"
    "\<And>w. fst (rt_now rt w) \<noteq> 0 \<and> ses_StartedAt ses \<le> fst (rt_now rt w)"
    "(\<exists>ev \<in> set events. ev_Kind ev = ''exit'') \<or> err \<noteq> None"
  shows "\<exists>ended. Session_read i (mgr_db (snd (observeProcess rt i p events err code s))) = Inr ended \<and>
    Terminal (ses_Status ended)"
  using observeProcess_over [of i "ses_StartedAt ses" s rt events err p code] assms
  by (auto simp: session_known_def session_over_def)

lemma drained_child_is_over_witness:
  "\<exists>ended. Session_read session_1 (mgr_db (snd (observeProcess (sample_runtime\<lparr>rt_now := \<lambda>w. (50, w)\<rparr>) session_1 7
     [\<lparr>ev_Kind = ''ready'', ev_Payload = '''', ev_Code = 0\<rparr>] (Some (OtherError ''killed'')) 1 sample_manager))) = Inr ended \<and>
     Terminal (ses_Status ended)"
  by (rule drained_child_is_over [of _ _ sample_session])
     (simp_all add: sample_db_ok sample_session_read sample_session_def)

end
