(* ===== verification/VaultManager.thy ===== *)
theory VaultManager
  imports Frames StoreVault
begin

text \<open>
  \<open>src/internal/vault/vault.go\<close>: the vault that seals provider credentials. A persistent manager
  holds the key that encrypts the keys (\<open>kek\<close>) while it is unlocked; every credential is sealed
  with a fresh key, which is wrapped with the kek, and both bind the identity of the credential and
  its revision. Argon2, AES-GCM, SHA-256, the random source and the JSON tokenizer are the fields
  of \<open>vault_env\<close>. Bytes are numbers below 256 in an \<open>octets\<close> list, and the empty list is Go's nil
  key. What overwrites a key with zeros before it is dropped has no counterpart here.
\<close>

datatype VaultState = StateUninitialized | StateLocked | StateUnlocked | StateCorrupt

record vault_manager =
  vm_state :: VaultState
  vm_epoch :: "64 word"
  vm_persistent :: bool
  vm_kek :: octets

record 'w vault_env =
  vault_kdf :: "octets \<Rightarrow> octets \<Rightarrow> int \<Rightarrow> int \<Rightarrow> int \<Rightarrow> octets"
  gcm_seal :: "octets \<Rightarrow> octets \<Rightarrow> octets \<Rightarrow> octets \<Rightarrow> octets"
  gcm_open :: "octets \<Rightarrow> octets \<Rightarrow> octets \<Rightarrow> octets \<Rightarrow> octets option"
  vault_sum :: "octets \<Rightarrow> octets"
  vault_cpus :: int
  vault_random :: "nat \<Rightarrow> 'w \<Rightarrow> octets option \<times> 'w"
  vault_tokens :: "octets \<Rightarrow> decoder"

text \<open>The state of a call: the manager, its store, and the rest of the world.\<close>

record 'w vault_state =
  vs_manager :: vault_manager
  vs_db :: db
  vs_world :: 'w

section \<open>Keys\<close>

definition formatVersion :: int where "formatVersion = 1"
definition argonTime :: int where "argonTime = 3"
definition argonMemoryKiB :: int where "argonMemoryKiB = 64 * 1024"
definition maxPasswordSize :: nat where "maxPasswordSize = 1024"
definition maxPayloadSize :: nat where "maxPayloadSize = 64 * 1024"

definition keyCheckPlaintext :: octets where
  "keyCheckPlaintext = map of_char ''MultiAgentDesk Vault v1 key check''"

definition keyCheckAAD :: octets where
  "keyCheckAAD = map of_char ''vault_config:v1''"

definition parallelism :: "int \<Rightarrow> int" where
  "parallelism count = (if count < 1 then 1 else if 4 < count then 4 else count)"

definition deriveKEK :: "'w vault_env \<Rightarrow> octets \<Rightarrow> octets \<Rightarrow> int \<Rightarrow> int \<Rightarrow> int \<Rightarrow> octets" where
  "deriveKEK env password salt timeCost memory lanes = vault_kdf env password salt timeCost memory lanes"

text \<open>\<open>aes.NewCipher\<close> takes keys of 16, 24 or 32 bytes.\<close>

definition newGCM :: "octets \<Rightarrow> error + unit" where
  "newGCM key = (if length key \<in> {16, 24, 32} then Inr () else Inl (OtherError ''crypto/aes: invalid key size''))"

definition random_bytes :: "'w vault_env \<Rightarrow> nat \<Rightarrow> ('w vault_state, octets) run" where
  "random_bytes env count s =
     (case vault_random env count (vs_world s) of
        (None, w) \<Rightarrow> (Inl (OtherError ''random source failed''), s\<lparr>vs_world := w\<rparr>)
      | (Some bytes, w) \<Rightarrow> (Inr bytes, s\<lparr>vs_world := w\<rparr>))"

text \<open>Fields, each after its length in four big-endian bytes.\<close>

definition encode_field :: "string \<Rightarrow> octets" where
  "encode_field field = map of_char (PutUint32 (word_of_nat (length field)) @ field)"

definition encodeFields :: "string list \<Rightarrow> octets" where
  "encodeFields texts = concat (map encode_field texts)"

text \<open>\<open>strconv.FormatInt(n, 10)\<close>.\<close>

fun nat_digits :: "nat \<Rightarrow> string" where
  "nat_digits n = (if n < 10 then [char_of (48 + n)] else nat_digits (n div 10) @ [char_of (48 + n mod 10)])"

declare nat_digits.simps [simp del]

definition FormatInt :: "int \<Rightarrow> string" where
  "FormatInt n = (if n < 0 then CHR ''-'' # nat_digits (nat (- n)) else nat_digits (nat n))"

definition initRequestDigest :: "'w vault_env \<Rightarrow> ID \<Rightarrow> string \<Rightarrow> string" where
  "initRequestDigest env clientID requestKey = hex_encode (vault_sum env (encodeFields [clientID, requestKey]))"

section \<open>The state machine\<close>

definition vault_store :: "(db \<Rightarrow> error + ('a \<times> db)) \<Rightarrow> ('w vault_state, 'a) run" where
  "vault_store = transactS vs_db (\<lambda>d s. s\<lparr>vs_db := d\<rparr>)"

definition vault_load :: "(db \<Rightarrow> error + 'a) \<Rightarrow> ('w vault_state, 'a) run" where
  "vault_load f = bindS (getS (\<lambda>s. f (vs_db s))) liftS"

definition set_manager :: "(vault_manager \<Rightarrow> vault_manager) \<Rightarrow> ('w vault_state, unit) run" where
  "set_manager f = modifyS (\<lambda>s. s\<lparr>vs_manager := f (vs_manager s)\<rparr>)"

definition NewVaultManager :: vault_manager where
  "NewVaultManager = \<lparr>vm_state = StateLocked, vm_epoch = 0, vm_persistent = False, vm_kek = []\<rparr>"

definition NewPersistentManager :: "db \<Rightarrow> error + vault_manager" where
  "NewPersistentManager d =
     (let m = \<lparr>vm_state = StateUninitialized, vm_epoch = 0, vm_persistent = True, vm_kek = []\<rparr>
      in case VaultConfig_read d of
           Inr config \<Rightarrow> Inr (m\<lparr>vm_state := StateLocked\<rparr>)
         | Inl e \<Rightarrow> if CodeOf (Some e) = Some CodeNotFound then Inr m else Inl e)"

definition Initialize :: "'w vault_env \<Rightarrow> ID \<Rightarrow> string \<Rightarrow> octets \<Rightarrow> time \<Rightarrow> ('w vault_state, VaultState) run" where
  "Initialize env clientID requestKey password at_time =
     bindS (getS vs_manager) (\<lambda>m.
     if \<not> vm_persistent m \<or> ValidateID clientID \<noteq> Inr () \<or> requestKey = '''' \<or> 128 < length requestKey \<or>
        length password < 1 \<or> maxPasswordSize < length password \<or> at_time = 0
     then failS CodeInvalidArgument ''vault initialization input is invalid''
     else
     bindS (catchS (random_bytes env 16) (\<lambda>e. throwS (WrapError CodeConflict ''vault randomness failed'' e))) (\<lambda>salt.
     bindS (catchS (random_bytes env 12) (\<lambda>e. throwS (WrapError CodeConflict ''vault randomness failed'' e))) (\<lambda>nonce.
     let lanes = parallelism (vault_cpus env);
         key = deriveKEK env password salt argonTime argonMemoryKiB lanes
     in
     bindS (catchS (liftS (newGCM key)) (\<lambda>e. throwS (WrapError CodeConflict ''vault cipher failed'' e))) (\<lambda>_.
     let config = \<lparr>vc_FormatVersion = formatVersion, vc_KDFName = ''argon2id-v19'', vc_KDFSalt = salt,
           vc_ArgonTime = argonTime, vc_ArgonMemoryKiB = argonMemoryKiB, vc_ArgonParallelism = lanes,
           vc_KeyCheckNonce = nonce, vc_KeyCheckCiphertext = gcm_seal env key nonce keyCheckPlaintext keyCheckAAD,
           vc_InitializedAt = at_time, vc_InitializedByDevice = clientID,
           vc_InitRequestDigest = initRequestDigest env clientID requestKey\<rparr>
     in
     bindS (vault_store (InitializeVault config)) (\<lambda>_.
     bindS (set_manager (\<lambda>m. m\<lparr>vm_kek := [], vm_state := StateLocked\<rparr>)) (\<lambda>_.
     returnS StateLocked))))))"

text \<open>The key that a password gives under a stored configuration, if it opens the key check.\<close>

definition unlock_key :: "'w vault_env \<Rightarrow> octets \<Rightarrow> VaultConfig \<Rightarrow> error + octets" where
  "unlock_key env secret config =
     (let key = deriveKEK env secret (vc_KDFSalt config) (vc_ArgonTime config) (vc_ArgonMemoryKiB config)
                  (vc_ArgonParallelism config)
      in if \<not> is_ok (newGCM key) then fail CodeVaultUnlockFailed ''vault unlock failed''
         else case gcm_open env key (vc_KeyCheckNonce config) (vc_KeyCheckCiphertext config) keyCheckAAD of
                None \<Rightarrow> fail CodeVaultUnlockFailed ''vault unlock failed''
              | Some plain \<Rightarrow>
                  if plain \<noteq> keyCheckPlaintext then fail CodeVaultUnlockFailed ''vault unlock failed'' else Inr key)"

definition Unlock :: "'w vault_env \<Rightarrow> octets \<Rightarrow> ('w vault_state, unit) run" where
  "Unlock env secret =
     (if length secret < 1 \<or> maxPasswordSize < length secret
      then failS CodeInvalidArgument ''vault unlock input is invalid''
      else
     bindS (getS vs_manager) (\<lambda>m.
     if \<not> vm_persistent m then set_manager (\<lambda>m. m\<lparr>vm_state := StateUnlocked, vm_epoch := vm_epoch m + 1\<rparr>)
     else
     bindS (catchS (vault_load VaultConfig_read)
              (\<lambda>e. if CodeOf (Some e) = Some CodeNotFound
                   then failS CodeVaultLocked ''vault is uninitialized'' else throwS e)) (\<lambda>config.
     bindS (liftS (unlock_key env secret config)) (\<lambda>key.
     set_manager (\<lambda>m. m\<lparr>vm_kek := key, vm_state := StateUnlocked, vm_epoch := vm_epoch m + 1\<rparr>)))))"

definition Lock :: "('w vault_state, unit) run" where
  "Lock = set_manager (\<lambda>m. m\<lparr>vm_kek := [],
     vm_state := (if vm_persistent m \<and> (vm_state m = StateUninitialized \<or> vm_state m = StateCorrupt)
                  then vm_state m else StateLocked)\<rparr>)"

definition RequireUnlocked :: "vault_manager \<Rightarrow> error + unit" where
  "RequireUnlocked m = (if vm_state m \<noteq> StateUnlocked then fail CodeVaultLocked ''vault is locked'' else Inr ())"

definition currentKEK :: "vault_manager \<Rightarrow> error + octets" where
  "currentKEK m =
     (if vm_state m \<noteq> StateUnlocked \<or> length (vm_kek m) \<noteq> 32
      then fail CodeVaultLocked ''vault is locked'' else Inr (vm_kek m))"

section \<open>Sealing\<close>

text \<open>
  \<open>validateJSONObject\<close>: one object without duplicate names and nothing after it. Its readers of
  objects and values are those of \<open>src/internal/device/protocol.go\<close>.
\<close>

definition validateJSONObject :: "decoder \<Rightarrow> bool" where
  "validateJSONObject d =
     (case dec_tokens d of
        Delim c # rest \<Rightarrow> c = CHR ''{'' \<and> consume_members [] rest = Some [] \<and> dec_eof d
      | _ \<Rightarrow> False)"

record CredentialMetadata =
  cm_CredentialInstanceID :: ID
  cm_AccountID :: ID
  cm_DeviceID :: ID
  cm_Provider :: string
  cm_ExpectedRevision :: int
  cm_CreatedAt :: time
  cm_UpdatedAt :: time

definition credentialAAD :: "CredentialMetadata \<Rightarrow> int \<Rightarrow> octets" where
  "credentialAAD metadata revision =
     encodeFields [FormatInt formatVersion, cm_DeviceID metadata, cm_Provider metadata,
       cm_CredentialInstanceID metadata, cm_AccountID metadata, FormatInt revision]"

definition sealed_item ::
  "'w vault_env \<Rightarrow> CredentialMetadata \<Rightarrow> octets \<Rightarrow> octets \<Rightarrow> octets \<Rightarrow> octets \<Rightarrow> octets \<Rightarrow> VaultItem" where
  "sealed_item env metadata kek dek payloadNonce wrapNonce plaintext =
     (let nextRevision = i64 (cm_ExpectedRevision metadata + 1); aad = credentialAAD metadata nextRevision
      in \<lparr>vi_CredentialInstanceID = cm_CredentialInstanceID metadata, vi_AccountID = cm_AccountID metadata,
          vi_DeviceID = cm_DeviceID metadata, vi_Provider = ProviderCodex, vi_EnvelopeVersion = 1,
          vi_CredentialRevision = nextRevision, vi_CipherName = ''aes-256-gcm'', vi_PayloadNonce = payloadNonce,
          vi_PayloadCiphertext = gcm_seal env dek payloadNonce plaintext aad, vi_WrapName = ''aes-256-gcm'',
          vi_WrapNonce = wrapNonce, vi_WrappedDEK = gcm_seal env kek wrapNonce dek aad,
          vi_AADDigest = hex_encode (vault_sum env aad), vi_SecretDigest = hex_encode (vault_sum env plaintext),
          vi_CreatedAt = cm_CreatedAt metadata, vi_UpdatedAt = cm_UpdatedAt metadata\<rparr>)"

definition sealCredential ::
  "'w vault_env \<Rightarrow> ID \<Rightarrow> ID \<Rightarrow> string \<Rightarrow> CredentialMetadata \<Rightarrow> octets \<Rightarrow> ('w vault_state, int) run" where
  "sealCredential env enrollmentID clientID completionDigest metadata plaintext =
     bindS (getS vs_manager) (\<lambda>m.
     if \<not> vm_persistent m \<or> cm_Provider metadata \<noteq> ProviderCodex \<or> cm_ExpectedRevision metadata < 1 \<or>
        length plaintext < 2 \<or> maxPayloadSize < length plaintext \<or> cm_CreatedAt metadata = 0 \<or> cm_UpdatedAt metadata = 0
     then failS CodeInvalidArgument ''vault credential is invalid''
     else if \<not> validateJSONObject (vault_tokens env plaintext)
     then failS CodeInvalidArgument ''vault credential JSON is invalid''
     else
     bindS (liftS (currentKEK m)) (\<lambda>kek.
     bindS (random_bytes env 32) (\<lambda>dek.
     bindS (random_bytes env 12) (\<lambda>payloadNonce.
     bindS (random_bytes env 12) (\<lambda>wrapNonce.
     bindS (catchS (liftS (newGCM dek)) (\<lambda>e. throwS (WrapError CodeConflict ''vault payload cipher failed'' e))) (\<lambda>_.
     bindS (catchS (liftS (newGCM kek)) (\<lambda>e. throwS (WrapError CodeConflict ''vault wrapping cipher failed'' e))) (\<lambda>_.
     let item = sealed_item env metadata kek dek payloadNonce wrapNonce plaintext in
     bindS (vault_store (if enrollmentID \<noteq> ''''
              then ReplaceVaultItemEnrollmentCAS enrollmentID clientID completionDigest (cm_ExpectedRevision metadata)
                     item CredentialHealthy
              else ReplaceVaultItemCAS (cm_ExpectedRevision metadata) item CredentialHealthy)) (\<lambda>_.
     returnS (i64 (cm_ExpectedRevision metadata + 1))))))))))"

definition SealCredential :: "'w vault_env \<Rightarrow> CredentialMetadata \<Rightarrow> octets \<Rightarrow> ('w vault_state, int) run" where
  "SealCredential env metadata plaintext = sealCredential env '''' '''' '''' metadata plaintext"

definition SealEnrollmentCredential ::
  "'w vault_env \<Rightarrow> ID \<Rightarrow> ID \<Rightarrow> string \<Rightarrow> CredentialMetadata \<Rightarrow> octets \<Rightarrow> ('w vault_state, int) run" where
  "SealEnrollmentCredential env enrollmentID clientID completionDigest metadata plaintext =
     (if enrollmentID = '''' \<or> clientID = '''' \<or> length completionDigest \<noteq> 64
      then failS CodeInvalidArgument ''enrollment identity is required''
      else if hex_decode completionDigest = None
      then failS CodeInvalidArgument ''enrollment completion digest is invalid''
      else sealCredential env enrollmentID clientID completionDigest metadata plaintext)"

section \<open>Reading\<close>

definition item_metadata :: "VaultItem \<Rightarrow> CredentialMetadata" where
  "item_metadata item =
     \<lparr>cm_CredentialInstanceID = vi_CredentialInstanceID item, cm_AccountID = vi_AccountID item,
      cm_DeviceID = vi_DeviceID item, cm_Provider = vi_Provider item,
      cm_ExpectedRevision = i64 (vi_CredentialRevision item - 1), cm_CreatedAt = 0, cm_UpdatedAt = 0\<rparr>"

definition open_item :: "'w vault_env \<Rightarrow> octets \<Rightarrow> VaultItem \<Rightarrow> error + octets" where
  "open_item env kek item =
     (let aad = credentialAAD (item_metadata item) (vi_CredentialRevision item)
      in if hex_encode (vault_sum env aad) \<noteq> vi_AADDigest item
         then fail CodeVaultCorrupt ''vault item authentication failed''
         else if \<not> is_ok (newGCM kek) then fail CodeVaultCorrupt ''vault item cipher failed''
         else case gcm_open env kek (vi_WrapNonce item) (vi_WrappedDEK item) aad of
                None \<Rightarrow> fail CodeVaultCorrupt ''vault item authentication failed''
              | Some dek \<Rightarrow>
                  if \<not> is_ok (newGCM dek) then fail CodeVaultCorrupt ''vault item cipher failed''
                  else case gcm_open env dek (vi_PayloadNonce item) (vi_PayloadCiphertext item) aad of
                         None \<Rightarrow> fail CodeVaultCorrupt ''vault item authentication failed''
                       | Some plain \<Rightarrow>
                           if \<not> validateJSONObject (vault_tokens env plain)
                           then fail CodeVaultCorrupt ''vault item authentication failed''
                           else if hex_encode (vault_sum env plain) \<noteq> vi_SecretDigest item
                           then fail CodeVaultCorrupt ''vault item digest failed''
                           else Inr plain)"

definition ReadCredential :: "'w vault_env \<Rightarrow> ID \<Rightarrow> ('w vault_state, octets \<times> int) run" where
  "ReadCredential env credentialID =
     bindS (bindS (getS vs_manager) (\<lambda>m. liftS (currentKEK m))) (\<lambda>kek.
     bindS (vault_load (VaultItem_read credentialID)) (\<lambda>item.
     bindS (liftS (open_item env kek item)) (\<lambda>plain.
     returnS (plain, vi_CredentialRevision item))))"

end
