(* ===== verification/VaultManagerLaws.thy ===== *)
theory VaultManagerLaws
  imports VaultManager VaultLaws
begin

text \<open>
  What the vault's encodings and operations do: the encodings are injective, a sealed credential
  opens again under the key it was sealed with, and the key is held only while the vault is unlocked.
\<close>

section \<open>Encodings\<close>

definition digits_value :: "string \<Rightarrow> nat" where
  "digits_value s = foldl (\<lambda>v c. 10 * v + (of_char c - 48)) 0 s"

lemma nat_digits_value: "digits_value (nat_digits n) = n"
proof (induction n rule: nat_digits.induct)
  case (1 n)
  show ?case
  proof (cases "n < 10")
    case True
    then show ?thesis by (simp add: nat_digits.simps [of n] digits_value_def)
  next
    case False
    moreover have "n mod 10 < 10" by simp
    ultimately show ?thesis using 1 by (simp add: nat_digits.simps [of n] digits_value_def)
  qed
qed

lemma nat_digits_digits: "c \<in> set (nat_digits n) \<Longrightarrow> 48 \<le> (of_char c :: nat)"
proof (induction n rule: nat_digits.induct)
  case (1 n)
  have "n mod 10 < 10" by simp
  then show ?case using 1 by (cases "n < 10") (auto simp: nat_digits.simps [of n])
qed

lemma nat_digits_nonempty: "nat_digits n \<noteq> []"
  by (simp add: nat_digits.simps [of n])

lemma nat_digits_inject: "nat_digits m = nat_digits n \<longleftrightarrow> m = n"
  using nat_digits_value by metis

lemma nat_digits_sign: "CHR ''-'' # xs \<noteq> nat_digits n" "nat_digits n \<noteq> CHR ''-'' # xs"
  using nat_digits_digits [of "CHR ''-''" n] by (cases "nat_digits n"; auto)+

lemma FormatInt_inject [simp]: "FormatInt a = FormatInt b \<longleftrightarrow> a = b"
  by (cases "a < 0"; cases "b < 0") (auto simp: FormatInt_def nat_digits_sign nat_digits_inject)

lemma encode_field_inject:
  assumes "length f < 2 ^ 32" "length g < 2 ^ 32" "encode_field f @ r = encode_field g @ r'"
  shows "f = g \<and> r = r'"
proof -
  have head: "take 4 (encode_field h @ x) = map of_char (PutUint32 (word_of_nat (length h)))"
    "drop 4 (encode_field h @ x) = map of_char h @ x" for h and x :: octets
    by (simp_all add: encode_field_def)
  have "map of_char (PutUint32 (word_of_nat (length f))) = (map of_char (PutUint32 (word_of_nat (length g))) :: octets)"
    using head(1) [of f r] head(1) [of g r'] assms(3) by simp
  then have "PutUint32 (word_of_nat (length f)) = PutUint32 (word_of_nat (length g))"
    by (subst (asm) inj_map_eq_map) (auto intro: injI)
  then have "(word_of_nat (length f) :: 32 word) = word_of_nat (length g)"
    by (metis Uint32_PutUint32)
  then have len: "length f = length g"
    using assms(1,2) by (simp add: word_of_nat_eq_iff take_bit_nat_eq_self)
  have "map of_char f @ r = map of_char g @ r'"
    using head(2) [of f r] head(2) [of g r'] assms(3) by simp
  then have "(map of_char f :: octets) = map of_char g" "r = r'" using len by simp_all
  then show ?thesis by (simp add: inj_map_eq_map inj_on_def)
qed

lemma encodeFields_inject:
  assumes "length fs = length gs" "\<forall>f \<in> set fs. length f < 2 ^ 32" "\<forall>g \<in> set gs. length g < 2 ^ 32"
    "encodeFields fs = encodeFields gs"
  shows "fs = gs"
  using assms
proof (induction fs gs rule: list_induct2)
  case (Cons f fs g gs)
  then have "encode_field f @ encodeFields fs = encode_field g @ encodeFields gs" by (simp add: encodeFields_def)
  then have "f = g \<and> encodeFields fs = encodeFields gs" using Cons.prems by (intro encode_field_inject) simp_all
  then show ?case using Cons by simp
qed simp

lemma credentialAAD_inject:
  assumes "credentialAAD m r = credentialAAD m' r'"
    "\<forall>f \<in> {cm_DeviceID m, cm_Provider m, cm_CredentialInstanceID m, cm_AccountID m, FormatInt r}. length f < 2 ^ 32"
    "\<forall>f \<in> {cm_DeviceID m', cm_Provider m', cm_CredentialInstanceID m', cm_AccountID m', FormatInt r'}. length f < 2 ^ 32"
  shows "cm_DeviceID m = cm_DeviceID m' \<and> cm_Provider m = cm_Provider m' \<and>
    cm_CredentialInstanceID m = cm_CredentialInstanceID m' \<and> cm_AccountID m = cm_AccountID m' \<and> r = r'"
proof -
  have "length (FormatInt formatVersion) < 2 ^ 32"
    by (simp add: FormatInt_def formatVersion_def nat_digits.simps)
  then show ?thesis
    using encodeFields_inject [OF _ _ _ assms(1) [unfolded credentialAAD_def]] assms(2,3) by simp
qed

section \<open>The cipher\<close>

text \<open>What is asked of AES-GCM: what was sealed opens again, and only with the key, nonce and
  associated data it was sealed with.\<close>

definition aead_correct :: "'w vault_env \<Rightarrow> bool" where
  "aead_correct env = (\<forall>k n p a. gcm_open env k n (gcm_seal env k n p a) a = Some p)"

definition aead_binds :: "'w vault_env \<Rightarrow> bool" where
  "aead_binds env = (\<forall>k n p a k' n' a'. gcm_open env k' n' (gcm_seal env k n p a) a' \<noteq> None \<longrightarrow> k' = k \<and> n' = n \<and> a' = a)"

section \<open>Runs\<close>

lemma random_bytes_ok:
  "random_bytes env n s = (Inr b, s') \<Longrightarrow> \<exists>w. s' = s\<lparr>vs_world := w\<rparr>"
  by (auto simp: random_bytes_def split: prod.splits option.splits)

lemma random_bytes_keeps: "\<exists>w. snd (random_bytes env n s) = s\<lparr>vs_world := w\<rparr>"
  by (auto simp: random_bytes_def split: prod.splits option.splits)

lemma random_bytes_post:
  "(\<And>b w. P b (s\<lparr>vs_world := w\<rparr>)) \<Longrightarrow> (\<And>e w. Q e (s\<lparr>vs_world := w\<rparr>)) \<Longrightarrow> post (random_bytes env n) P Q s"
  by (auto simp: random_bytes_def post_def split: prod.split option.split)

lemma vault_store_post:
  "(\<And>a d. f (vs_db s) = Inr (a, d) \<Longrightarrow> P a (s\<lparr>vs_db := d\<rparr>)) \<Longrightarrow> (\<And>e. f (vs_db s) = Inl e \<Longrightarrow> Q e s) \<Longrightarrow>
     post (vault_store f) P Q s"
  unfolding vault_store_def by (rule post_transact)

lemma vault_load_post:
  "(\<And>a. f (vs_db s) = Inr a \<Longrightarrow> P a s) \<Longrightarrow> (\<And>e. f (vs_db s) = Inl e \<Longrightarrow> Q e s) \<Longrightarrow> post (vault_load f) P Q s"
  unfolding vault_load_def by (intro wp) auto

lemma set_manager_post: "P () (s\<lparr>vs_manager := f (vs_manager s)\<rparr>) \<Longrightarrow> post (set_manager f) P Q s"
  unfolding set_manager_def by (rule post_modify)

lemmas vault_wp = wp random_bytes_post vault_store_post vault_load_post set_manager_post

text \<open>The write of a seal, with or without an enrollment.\<close>

definition seal_write :: "ID \<Rightarrow> ID \<Rightarrow> string \<Rightarrow> int \<Rightarrow> VaultItem \<Rightarrow> db \<Rightarrow> error + (unit \<times> db)" where
  "seal_write enrollmentID clientID completionDigest n item =
     (if enrollmentID \<noteq> ''''
      then ReplaceVaultItemEnrollmentCAS enrollmentID clientID completionDigest n item CredentialHealthy
      else ReplaceVaultItemCAS n item CredentialHealthy)"

lemma seal_write_rows:
  assumes "seal_write e c dg n item d = Inr (u, d')"
  shows "validVaultItem item \<and> db_vault_items d' = upsert_item item (db_vault_items d)"
proof -
  have "\<exists>e' c' dg'. replaceVaultItemCAS n item CredentialHealthy e' c' dg' d = Inr (u, d')"
    using assms by (auto simp: seal_write_def ReplaceVaultItemEnrollmentCAS_def ReplaceVaultItemCAS_def split: if_splits)
  then obtain e' c' dg' where run: "replaceVaultItemCAS n item CredentialHealthy e' c' dg' d = Inr (u, d')" by blast
  then have "validVaultItem item" by (simp add: replaceVaultItemCAS_def split: if_splits)
  then show ?thesis using replaceVaultItemCAS_credentials [OF run] by blast
qed

text \<open>What a successful seal has stored.\<close>

definition credential_sealed ::
  "'w vault_env \<Rightarrow> CredentialMetadata \<Rightarrow> octets \<Rightarrow> 'w vault_state \<Rightarrow> int \<Rightarrow> 'w vault_state \<Rightarrow> bool" where
  "credential_sealed env md p s nextRev s' =
     (\<exists>kek dek payloadNonce wrapNonce w d' e c dg.
        let item = sealed_item env md kek dek payloadNonce wrapNonce p in
        currentKEK (vs_manager s) = Inr kek \<and> newGCM dek = Inr () \<and> newGCM kek = Inr () \<and>
        cm_Provider md = ProviderCodex \<and>
        validateJSONObject (vault_tokens env p) \<and> nextRev = i64 (cm_ExpectedRevision md + 1) \<and>
        seal_write e c dg (cm_ExpectedRevision md) item (vs_db s) = Inr ((), d') \<and>
        s' = s\<lparr>vs_world := w, vs_db := d'\<rparr>)"

lemma sealCredential_post:
  "post (sealCredential env e c dg md p) (credential_sealed env md p s)
     (\<lambda>_ s'. vs_manager s' = vs_manager s \<and> vs_db s' = vs_db s) s"
  unfolding sealCredential_def Let_def
  apply (intro vault_wp)
  apply (simp_all add: seal_write_def [symmetric])
  apply (auto simp: credential_sealed_def Let_def)
  apply blast
  done

section \<open>Sealed credentials open again\<close>

text \<open>An item row that a later seal of the same credential leaves in place but for its secret.\<close>

definition item_stays :: "CredentialMetadata \<Rightarrow> db \<Rightarrow> bool" where
  "item_stays md d =
     (\<forall>r \<in> set (db_vault_items d). vi_CredentialInstanceID r = cm_CredentialInstanceID md \<longrightarrow>
        vi_AccountID r = cm_AccountID md \<and> vi_DeviceID r = cm_DeviceID md \<and> vi_Provider r = ProviderCodex \<and>
        vi_EnvelopeVersion r = 1 \<and> vi_CipherName r = ''aes-256-gcm'' \<and> vi_WrapName r = ''aes-256-gcm'' \<and>
        vi_CreatedAt r = cm_CreatedAt md)"

lemma upsert_item_read:
  assumes "\<And>r. r \<in> set rows \<Longrightarrow> vi_CredentialInstanceID r = vi_CredentialInstanceID item \<Longrightarrow>
      r\<lparr>vi_CredentialRevision := vi_CredentialRevision item,
        vi_PayloadNonce := vi_PayloadNonce item, vi_PayloadCiphertext := vi_PayloadCiphertext item,
        vi_WrapNonce := vi_WrapNonce item, vi_WrappedDEK := vi_WrappedDEK item,
        vi_AADDigest := vi_AADDigest item, vi_SecretDigest := vi_SecretDigest item,
        vi_UpdatedAt := vi_UpdatedAt item\<rparr> = item"
  shows "List.find (\<lambda>r. vi_CredentialInstanceID r = vi_CredentialInstanceID item) (upsert_item item rows) = Some item"
proof (cases "list_ex (\<lambda>r. vi_CredentialInstanceID r = vi_CredentialInstanceID item) rows")
  case True
  then show ?thesis using assms
  proof (induction rows)
    case (Cons r rows)
    show ?case
    proof (cases "vi_CredentialInstanceID r = vi_CredentialInstanceID item")
      case True
      then show ?thesis using Cons(3) [of r] by (simp add: upsert_item_def update_rows_def)
    next
      case False
      then have "list_ex (\<lambda>r. vi_CredentialInstanceID r = vi_CredentialInstanceID item) rows" using Cons(2) by simp
      then show ?thesis using Cons(1) Cons(3) False by (simp add: upsert_item_def update_rows_def)
    qed
  qed simp
next
  case False
  then have "List.find (\<lambda>r. vi_CredentialInstanceID r = vi_CredentialInstanceID item) rows = None"
    by (auto simp: find_None_iff list_ex_iff)
  then show ?thesis
    using False find_key_append [of vi_CredentialInstanceID "vi_CredentialInstanceID item" rows item]
    by (simp add: upsert_item_def)
qed

lemma sealed_item_simps [simp]:
  "vi_CredentialInstanceID (sealed_item env md kek dek pn wn p) = cm_CredentialInstanceID md"
  "vi_AccountID (sealed_item env md kek dek pn wn p) = cm_AccountID md"
  "vi_DeviceID (sealed_item env md kek dek pn wn p) = cm_DeviceID md"
  "vi_Provider (sealed_item env md kek dek pn wn p) = ProviderCodex"
  "vi_CredentialRevision (sealed_item env md kek dek pn wn p) = i64 (cm_ExpectedRevision md + 1)"
  by (simp_all add: sealed_item_def Let_def)

lemma sealed_item_read:
  assumes "seal_write e c dg n (sealed_item env md kek dek pn wn p) d = Inr (u, d')" "item_stays md d"
  shows "VaultItem_read (cm_CredentialInstanceID md) d' = Inr (sealed_item env md kek dek pn wn p)"
proof -
  let ?item = "sealed_item env md kek dek pn wn p"
  have "List.find (\<lambda>r. vi_CredentialInstanceID r = vi_CredentialInstanceID ?item) (upsert_item ?item (db_vault_items d)) = Some ?item"
    by (rule upsert_item_read) (use assms(2) in \<open>simp add: item_stays_def sealed_item_def Let_def\<close>)
  then show ?thesis using seal_write_rows [OF assms(1)] by (simp add: VaultItem_read_def read_row_def)
qed

lemma open_sealed_item:
  assumes "aead_correct env" "newGCM kek = Inr ()" "newGCM dek = Inr ()" "validateJSONObject (vault_tokens env p)"
    "cm_Provider md = ProviderCodex"
  shows "open_item env kek (sealed_item env md kek dek pn wn p) = Inr p"
proof -
  have "credentialAAD (item_metadata (sealed_item env md kek dek pn wn p)) r = credentialAAD md r" for r
    using assms(5) by (simp add: credentialAAD_def item_metadata_def)
  then show ?thesis using assms(1-4)
    by (simp add: open_item_def Let_def) (simp add: sealed_item_def Let_def aead_correct_def)
qed

lemma seal_then_read:
  assumes "aead_correct env" "item_stays md (vs_db s)" "sealCredential env e c dg md p s = (Inr nextRev, s')"
    "currentKEK (vs_manager s'') = currentKEK (vs_manager s)"
    "VaultItem_read (cm_CredentialInstanceID md) (vs_db s'') = VaultItem_read (cm_CredentialInstanceID md) (vs_db s')"
  shows "ReadCredential env (cm_CredentialInstanceID md) s'' = (Inr (p, nextRev), s'')"
proof -
  from post_ok [OF sealCredential_post assms(3)]
  obtain kek dek pn wn w d' e' c' dg' where
    k: "currentKEK (vs_manager s) = Inr kek" "newGCM dek = Inr ()" "newGCM kek = Inr ()" "cm_Provider md = ProviderCodex"
      "validateJSONObject (vault_tokens env p)" "nextRev = i64 (cm_ExpectedRevision md + 1)" and
    d': "seal_write e' c' dg' (cm_ExpectedRevision md) (sealed_item env md kek dek pn wn p) (vs_db s) = Inr ((), d')"
      "s' = s\<lparr>vs_world := w, vs_db := d'\<rparr>"
    by (auto simp: credential_sealed_def Let_def)
  have "VaultItem_read (cm_CredentialInstanceID md) (vs_db s'') = Inr (sealed_item env md kek dek pn wn p)"
    using sealed_item_read [OF d'(1) assms(2)] assms(5) d'(2) by simp
  then show ?thesis using open_sealed_item [OF assms(1) k(3,2,5,4)] k(1,6) assms(4)
    by (simp add: ReadCredential_def vault_load_def run_simps)
qed

section \<open>Items are bound to their identity\<close>

lemma read_is_bound:
  assumes "aead_binds env" "ReadCredential env k s = (Inr (p, nextRev), s')" "VaultItem_read k (vs_db s) = Inr item"
    "vi_WrappedDEK item = gcm_seal env kek nonce dek (credentialAAD md r)"
    "\<forall>f \<in> {cm_DeviceID md, cm_Provider md, cm_CredentialInstanceID md, cm_AccountID md, FormatInt r}. length f < 2 ^ 32"
    "\<forall>f \<in> {vi_DeviceID item, vi_Provider item, k, vi_AccountID item, FormatInt (vi_CredentialRevision item)}. length f < 2 ^ 32"
  shows "currentKEK (vs_manager s) = Inr kek \<and> cm_CredentialInstanceID md = k \<and> cm_AccountID md = vi_AccountID item \<and>
    cm_DeviceID md = vi_DeviceID item \<and> cm_Provider md = vi_Provider item \<and> r = nextRev \<and> nextRev = vi_CredentialRevision item \<and> s' = s"
proof -
  obtain kek' where kek': "currentKEK (vs_manager s) = Inr kek'" "open_item env kek' item = Inr p"
    "nextRev = vi_CredentialRevision item" "s' = s"
    using assms(2,3) by (auto simp: ReadCredential_def vault_load_def run_simps split: sum.splits)
  have key: "vi_CredentialInstanceID item = k"
    using assms(3) read_row_key [of vi_CredentialInstanceID "db_vault_items (vs_db s)" k]
    by (auto simp: VaultItem_read_def bindE_Inr split: if_splits)
  have "gcm_open env kek' (vi_WrapNonce item) (vi_WrappedDEK item)
      (credentialAAD (item_metadata item) (vi_CredentialRevision item)) \<noteq> None"
    using kek'(2) by (auto simp: open_item_def Let_def split: if_splits option.splits)
  then have "kek' = kek \<and> vi_WrapNonce item = nonce \<and>
      credentialAAD (item_metadata item) (vi_CredentialRevision item) = credentialAAD md r"
    using assms(1) unfolding aead_binds_def assms(4) by blast
  then have "kek' = kek" "credentialAAD md r = credentialAAD (item_metadata item) (vi_CredentialRevision item)"
    by simp_all
  then show ?thesis
    using credentialAAD_inject [of md r "item_metadata item" "vi_CredentialRevision item"] assms(5,6) key kek'
    by (simp add: item_metadata_def)
qed

section \<open>Locking and unlocking\<close>

definition vault_refuses :: "'w vault_env \<Rightarrow> 'w vault_state \<Rightarrow> bool" where
  "vault_refuses env s =
     ((\<forall>k. ReadCredential env k s = (fail CodeVaultLocked ''vault is locked'', s)) \<and>
      (\<forall>e c dg md p. \<exists>err. sealCredential env e c dg md p s = (Inl err, s)) \<and>
      RequireUnlocked (vs_manager s) = fail CodeVaultLocked ''vault is locked'')"

lemma locked_refuses: "vm_state (vs_manager s) \<noteq> StateUnlocked \<Longrightarrow> vault_refuses env s"
  by (simp add: vault_refuses_def ReadCredential_def sealCredential_def currentKEK_def RequireUnlocked_def run_simps)

text \<open>The key a manager holds opens the key check of the configuration; there is one only while unlocked.\<close>

definition vault_keyed :: "'w vault_env \<Rightarrow> 'w vault_state \<Rightarrow> bool" where
  "vault_keyed env s =
     (let m = vs_manager s in vm_persistent m \<longrightarrow>
        (if vm_state m = StateUnlocked
         then \<exists>config secret. VaultConfig_read (vs_db s) = Inr config \<and> unlock_key env secret config = Inr (vm_kek m)
         else vm_kek m = []))"

definition config_kept :: "db \<Rightarrow> db \<Rightarrow> bool" where
  "config_kept d d' = (db_vault_config d' = db_vault_config d)"

lemma config_kept_read: "config_kept d d' \<Longrightarrow> VaultConfig_read d' = VaultConfig_read d"
  by (simp add: config_kept_def VaultConfig_read_def)

lemma vault_keyed_frame:
  "vault_keyed env s \<Longrightarrow> vs_manager s' = vs_manager s \<Longrightarrow> config_kept (vs_db s) (vs_db s') \<Longrightarrow> vault_keyed env s'"
  using config_kept_read [of "vs_db s" "vs_db s'"] by (auto simp: vault_keyed_def Let_def split: if_splits)

lemma vault_keyed_locked: "vm_state (vs_manager s) \<noteq> StateUnlocked \<Longrightarrow> vm_kek (vs_manager s) = [] \<Longrightarrow> vault_keyed env s"
  by (simp add: vault_keyed_def Let_def)

lemma seal_write_config: "seal_write e c dg n item d = Inr (u, d') \<Longrightarrow> config_kept d d'"
  by (auto simp: seal_write_def ReplaceVaultItemEnrollmentCAS_def ReplaceVaultItemCAS_def replaceVaultItemCAS_def
      commit_enrollment_def bindE_Inr Let_def config_kept_def split: if_splits option.splits)

lemma sealCredential_keyed:
  fixes env :: "'w vault_env"
  assumes "vault_keyed env s"
  shows "vault_keyed env (snd (sealCredential env e c dg md p s))"
proof (rule post_keep, rule post_mono [OF sealCredential_post])
  fix nextRev and t :: "'w vault_state" assume "credential_sealed env md p s nextRev t"
  then show "vault_keyed env t"
    by (auto simp: credential_sealed_def Let_def dest!: seal_write_config intro!: vault_keyed_frame [OF assms])
next
  fix err and t :: "'w vault_state" assume "vs_manager t = vs_manager s \<and> vs_db t = vs_db s"
  then show "vault_keyed env t" by (auto simp: config_kept_def intro: vault_keyed_frame [OF assms])
qed

lemma Initialize_keyed:
  assumes "vault_keyed env s"
  shows "vault_keyed env (snd (Initialize env c k pw t s))"
  unfolding Initialize_def Let_def
  apply (rule post_keep)
  apply (intro vault_wp)
  apply (simp_all add: vault_keyed_locked vault_keyed_frame [OF assms] config_kept_def)
  done

lemma Unlock_keyed:
  assumes "vault_keyed env s"
  shows "vault_keyed env (snd (Unlock env secret s))"
  unfolding Unlock_def
  apply (rule post_keep)
  apply (intro vault_wp)
  apply (simp_all add: vault_keyed_frame [OF assms] config_kept_def)
  apply (auto simp: vault_keyed_def Let_def)
  done

lemma Lock_keyed: "vault_keyed env (snd (Lock s))"
  by (simp add: Lock_def set_manager_def modifyS_def vault_keyed_def Let_def)

lemma ReadCredential_same: "snd (ReadCredential env k s) = s"
  by (auto simp: ReadCredential_def vault_load_def run_simps split: sum.splits)

text \<open>The life of a vault. Other parts of the daemon write the store, but not the vault's configuration.\<close>

inductive vault_step :: "'w vault_env \<Rightarrow> 'w vault_state \<Rightarrow> 'w vault_state \<Rightarrow> bool" for env where
  "Initialize env c k pw t s = (r1, s') \<Longrightarrow> vault_step env s s'"
| "Unlock env pw s = (r2, s') \<Longrightarrow> vault_step env s s'"
| "Lock s = (r2, s') \<Longrightarrow> vault_step env s s'"
| "SealCredential env md p s = (r3, s') \<Longrightarrow> vault_step env s s'"
| "SealEnrollmentCredential env e c dg md p s = (r3, s') \<Longrightarrow> vault_step env s s'"
| "ReadCredential env k s = (r4, s') \<Longrightarrow> vault_step env s s'"
| "config_kept (vs_db s) d \<Longrightarrow> vault_step env s (s\<lparr>vs_db := d, vs_world := w\<rparr>)"

lemma vault_step_keyed: "vault_step env s s' \<Longrightarrow> vault_keyed env s \<Longrightarrow> vault_keyed env s'"
proof (induction rule: vault_step.induct)
  case (1 c k pw t s r1 s')
  then show ?case using Initialize_keyed [of env s c k pw t] by simp
next
  case (2 pw s r2 s')
  then show ?case using Unlock_keyed [of env s pw] by simp
next
  case (3 s r2 s')
  then show ?case using Lock_keyed [of env s] by simp
next
  case (4 md p s r3 s')
  then show ?case using sealCredential_keyed [of env s "''''" "''''" "''''" md p] by (simp add: SealCredential_def)
next
  case (5 e c dg md p s r3 s')
  then show ?case using sealCredential_keyed [of env s e c dg md p]
    by (auto simp: SealEnrollmentCredential_def throwS_def split: if_splits)
next
  case (6 k s r4 s')
  then show ?case using ReadCredential_same [of env k s] by simp
next
  case (7 s d w)
  then show ?case by (auto intro: vault_keyed_frame)
qed

lemma NewPersistentManager_keyed:
  assumes "NewPersistentManager d = Inr m" "vs_manager s = m"
  shows "vault_keyed env s"
proof -
  have "vm_state m \<noteq> StateUnlocked \<and> vm_kek m = []"
    using assms(1) by (auto simp: NewPersistentManager_def Let_def split: sum.splits if_splits)
  then show ?thesis using assms(2) by (intro vault_keyed_locked) simp_all
qed

section \<open>The password\<close>

text \<open>The configuration a first initialization stores.\<close>

lemma Initialize_new:
  assumes "Initialize env c k pw t s = (Inr st, s')" "db_vault_config (vs_db s) = []"
  shows "\<exists>salt nonce w config. let key = deriveKEK env pw salt argonTime argonMemoryKiB (parallelism (vault_cpus env)) in
    newGCM key = Inr () \<and> vc_KDFSalt config = salt \<and> vc_ArgonTime config = argonTime \<and>
    vc_ArgonMemoryKiB config = argonMemoryKiB \<and> vc_ArgonParallelism config = parallelism (vault_cpus env) \<and>
    vc_KeyCheckNonce config = nonce \<and>
    vc_KeyCheckCiphertext config = gcm_seal env key nonce keyCheckPlaintext keyCheckAAD \<and>
    VaultConfig_read (vs_db s') = Inr config \<and> vs_manager s' = (vs_manager s)\<lparr>vm_kek := [], vm_state := StateLocked\<rparr> \<and>
    vm_persistent (vs_manager s) \<and> 1 \<le> length pw \<and> length pw \<le> maxPasswordSize"
proof -
  have stored: "VaultConfig_read d = Inr config" if "InitializeVault config d0 = Inr (b, d)" "db_vault_config d0 = []" for config d0 b d
    using that by (auto simp: InitializeVault_def VaultConfig_read_def bindE_Inr sql_insert_ok split: if_splits)
  have "post (Initialize env c k pw t) (\<lambda>st s'. \<exists>salt nonce w config.
    let key = deriveKEK env pw salt argonTime argonMemoryKiB (parallelism (vault_cpus env)) in
    newGCM key = Inr () \<and> vc_KDFSalt config = salt \<and> vc_ArgonTime config = argonTime \<and>
    vc_ArgonMemoryKiB config = argonMemoryKiB \<and> vc_ArgonParallelism config = parallelism (vault_cpus env) \<and>
    vc_KeyCheckNonce config = nonce \<and>
    vc_KeyCheckCiphertext config = gcm_seal env key nonce keyCheckPlaintext keyCheckAAD \<and>
    VaultConfig_read (vs_db s') = Inr config \<and> vs_manager s' = (vs_manager s)\<lparr>vm_kek := [], vm_state := StateLocked\<rparr> \<and>
    vm_persistent (vs_manager s) \<and> 1 \<le> length pw \<and> length pw \<le> maxPasswordSize) (\<lambda>_ _. True) s"
    unfolding Initialize_def Let_def
    apply (intro vault_wp)
    apply simp_all
    apply (drule stored)
     apply (simp_all add: assms(2))
    apply (simp add: Suc_le_eq)
    done
  from post_ok [OF this assms(1)] show ?thesis .
qed

end
