(* ===== verification/VaultProperties.thy ===== *)
theory VaultProperties
  imports VaultManagerLaws RuntimeSamples "HOL-Library.Countable"
begin

text \<open>
  The properties of the vault manager, and a concrete environment for their witnesses: a cipher whose
  tag is an injective code of the key, the nonce and the associated data.
\<close>

section \<open>A concrete environment\<close>

definition toy_tag :: "octets \<Rightarrow> octets \<Rightarrow> octets \<Rightarrow> octets" where
  "toy_tag k n a = to_nat (k, n, a) # replicate 15 0"

definition toy_env :: "nat vault_env" where
  "toy_env = \<lparr>vault_kdf = (\<lambda>pw salt t m lanes. take 32 (pw @ replicate 32 0)),
     gcm_seal = (\<lambda>k n p a. p @ toy_tag k n a),
     gcm_open = (\<lambda>k n c a. if length c < 16 \<or> drop (length c - 16) c \<noteq> toy_tag k n a then None
                           else Some (take (length c - 16) c)),
     vault_sum = (\<lambda>x. replicate 32 0), vault_cpus = 8,
     vault_random = (\<lambda>n w. (Some (replicate n 5), w)),
     vault_tokens = (\<lambda>p. \<lparr>dec_tokens = [Delim CHR ''{'', Delim CHR ''}''], dec_eof = True\<rparr>)\<rparr>"

lemma toy_tag_length [simp]: "length (toy_tag k n a) = 16"
  by (simp add: toy_tag_def)

lemma toy_tag_inject: "toy_tag k n a = toy_tag k' n' a' \<longleftrightarrow> k = k' \<and> n = n' \<and> a = a'"
  by (auto simp: toy_tag_def)

lemma toy_aead: "aead_correct toy_env" "aead_binds toy_env"
  by (auto simp: aead_correct_def aead_binds_def toy_env_def toy_tag_inject split: if_splits)

lemma toy_json: "validateJSONObject (vault_tokens toy_env p)"
  by (simp add: validateJSONObject_def toy_env_def consume_close)

text \<open>A seal of the sample credential.\<close>

lemma toy_digest: "hex_decode (hex_encode (replicate 32 0)) \<noteq> None" "length (hex_encode (replicate 32 0)) = 64"
  "between 64 64 (hex_encode (replicate 32 0))"
proof -
  have "hex_decode (hex_encode (replicate 32 0)) = Some (replicate 32 0)" by (rule hex_decode_encode) simp
  then show *: "hex_decode (hex_encode (replicate 32 0)) \<noteq> None" "length (hex_encode (replicate 32 0)) = 64"
    by (simp_all add: length_hex_encode)
  then show "between 64 64 (hex_encode (replicate 32 0))" by (intro between_hex)
qed

definition toy_metadata :: CredentialMetadata where
  "toy_metadata = \<lparr>cm_CredentialInstanceID = credential_1, cm_AccountID = account_1, cm_DeviceID = device_1,
     cm_Provider = ProviderCodex, cm_ExpectedRevision = 1, cm_CreatedAt = 8, cm_UpdatedAt = 8\<rparr>"

definition toy_key :: octets where "toy_key = replicate 32 1"
definition toy_secret :: octets where "toy_secret = [123, 125]"

definition toy_item :: VaultItem where
  "toy_item = sealed_item toy_env toy_metadata toy_key (replicate 32 5) (replicate 12 5) (replicate 12 5) toy_secret"

definition toy_unlocked :: "nat vault_state" where
  "toy_unlocked = \<lparr>vs_manager = \<lparr>vm_state = StateUnlocked, vm_epoch = 1, vm_persistent = True, vm_kek = toy_key\<rparr>,
     vs_db = sample_db, vs_world = 0\<rparr>"

lemma toy_item_fields [simp]:
  "vi_CredentialInstanceID toy_item = credential_1" "vi_AccountID toy_item = account_1" "vi_DeviceID toy_item = device_1"
  "vi_Provider toy_item = ProviderCodex" "vi_CredentialRevision toy_item = 2"
  "vi_SecretDigest toy_item = hex_encode (replicate 32 0)" "vi_UpdatedAt toy_item = 8"
  by (simp_all add: toy_item_def toy_metadata_def i64_def) (simp_all add: sealed_item_def Let_def toy_env_def)

lemma toy_item_valid: "validVaultItem toy_item"
  using sample_valid_ids toy_digest
  by (simp add: validVaultItem_def toy_item_def sealed_item_def toy_metadata_def toy_env_def toy_secret_def Let_def i64_def
      del: sample_valid_ids)

lemma toy_seal_write: "\<exists>d'. seal_write '''' '''' '''' 1 toy_item sample_db = Inr ((), d')"
proof -
  let ?d1 = "sample_db\<lparr>db_vault_items := [toy_item]\<rparr>"
  obtain c where c: "db_credentials sample_db = [c]" "cred_ID c = credential_1" "cred_CredentialRevision c = 1"
    "cred_AccountID c = account_1" "cred_DeviceID c = device_1" "cred_Provider c = ProviderCodex" "cred_Status c = CredentialUnknown"
    by (simp add: sample_db_def)
  have refs: "references cred_ID (db_credentials sample_db) credential_1"
    "references acc_ID (db_accounts sample_db) account_1" "references dev_ID (db_devices sample_db) device_1"
    by (simp_all add: references_def sample_db_def)
  have items: "vault_items_ok sample_db [toy_item]"
    using refs toy_digest
    by (simp add: vault_items_ok_def vault_item_row_ok_def)
       (simp add: toy_item_def sealed_item_def toy_metadata_def toy_env_def toy_secret_def Let_def)
  have creds: "credentials_ok ?d1 [sealed_credential toy_item CredentialHealthy c]"
    using sample_rows_ok(2) refs c toy_digest by (simp add: credentials_ok_def sealed_credential_def references_or_null_def)
  have "sealable 1 toy_item sample_db = Inr ()"
    using c by (simp add: sealable_def sample_tables count_rows_def i64_def sample_nonempty)
  then show ?thesis
    using toy_item_valid items creds c
    by (simp add: seal_write_def ReplaceVaultItemCAS_def replaceVaultItemCAS_def upsert_item_def sample_tables Let_def sql_update_def
        update_rows_def count_rows_def sealed_credential_def)
qed

lemma toy_seal: "\<exists>d'. sealCredential toy_env '''' '''' '''' toy_metadata toy_secret toy_unlocked = (Inr 2, toy_unlocked\<lparr>vs_db := d'\<rparr>) \<and>
    seal_write '''' '''' '''' 1 toy_item sample_db = Inr ((), d')"
proof -
  obtain d' where d': "seal_write '''' '''' '''' 1 toy_item sample_db = Inr ((), d')" using toy_seal_write by blast
  have item: "sealed_item toy_env toy_metadata toy_key (replicate 32 5) (replicate 12 5) (replicate 12 5) toy_secret = toy_item"
    by (simp add: toy_item_def)
  have rnd: "random_bytes toy_env n s = (Inr (replicate n 5), s)" for n s
    by (simp add: random_bytes_def toy_env_def)
  have md: "cm_Provider toy_metadata = ProviderCodex" "cm_ExpectedRevision toy_metadata = 1" "cm_CreatedAt toy_metadata \<noteq> 0"
    "cm_UpdatedAt toy_metadata \<noteq> 0" "length toy_secret = 2" by (simp_all add: toy_metadata_def toy_secret_def)
  have m: "vm_persistent (vs_manager toy_unlocked)" "currentKEK (vs_manager toy_unlocked) = Inr toy_key" "vs_db toy_unlocked = sample_db"
    by (simp_all add: toy_unlocked_def currentKEK_def toy_key_def)
  have "newGCM toy_key = Inr ()" "newGCM (replicate 32 5) = Inr ()" by (simp_all add: newGCM_def toy_key_def)
  then show ?thesis
    using d' m md unfolding sealCredential_def seal_write_def [symmetric]
    by (simp add: run_simps rnd toy_json item vault_store_def maxPayloadSize_def i64_def)
qed

lemma toy_item_stays: "item_stays toy_metadata sample_db"
  by (simp add: item_stays_def sample_tables)

text \<open>The first initialization of a vault.\<close>

definition toy_password :: octets where "toy_password = [1, 2]"
definition toy_password_key :: octets where "toy_password_key = take 32 (toy_password @ replicate 32 0)"

definition toy_config :: VaultConfig where
  "toy_config = \<lparr>vc_FormatVersion = 1, vc_KDFName = ''argon2id-v19'', vc_KDFSalt = replicate 16 5, vc_ArgonTime = 3,
     vc_ArgonMemoryKiB = 65536, vc_ArgonParallelism = 4, vc_KeyCheckNonce = replicate 12 5,
     vc_KeyCheckCiphertext = keyCheckPlaintext @ toy_tag toy_password_key (replicate 12 5) keyCheckAAD,
     vc_InitializedAt = 9, vc_InitializedByDevice = client_1, vc_InitRequestDigest = hex_encode (replicate 32 0)\<rparr>"

definition toy_fresh :: "nat vault_state" where
  "toy_fresh = \<lparr>vs_manager = \<lparr>vm_state = StateUninitialized, vm_epoch = 0, vm_persistent = True, vm_kek = []\<rparr>,
     vs_db = fake_db, vs_world = 0\<rparr>"

definition toy_initialized :: "nat vault_state" where
  "toy_initialized = toy_fresh\<lparr>vs_manager := (vs_manager toy_fresh)\<lparr>vm_kek := [], vm_state := StateLocked\<rparr>,
     vs_db := fake_db\<lparr>db_vault_config := [toy_config]\<rparr>\<rparr>"

lemma toy_initialize: "Initialize toy_env client_1 ''k'' toy_password 9 toy_fresh = (Inr StateLocked, toy_initialized)"
proof -
  have "length keyCheckPlaintext = 33" by (simp add: keyCheckPlaintext_def)
  then have valid: "validVaultConfig toy_config"
    using toy_digest by (simp add: validVaultConfig_def toy_config_def)
  have rows: "vault_config_ok fake_db [toy_config]"
    using \<open>length keyCheckPlaintext = 33\<close> toy_digest
    by (simp add: vault_config_ok_def toy_config_def references_def fake_db_def sample_db_def)
  have free: "vault_dependencies fake_db = 0" "db_vault_config fake_db = []"
    by (simp_all add: vault_dependencies_def count_rows_def fake_db_def sample_db_def empty_db_def)
  have init: "InitializeVault toy_config fake_db = Inr (False, fake_db\<lparr>db_vault_config := [toy_config]\<rparr>)"
    using valid rows free by (simp add: InitializeVault_def sql_insert_def)
  have rnd: "random_bytes toy_env n s = (Inr (replicate n 5), s)" for n s
    by (simp add: random_bytes_def toy_env_def)
  have key: "deriveKEK toy_env toy_password salt t m l = toy_password_key" for salt t m l
    by (simp add: deriveKEK_def toy_env_def toy_password_key_def)
  have lanes: "parallelism (vault_cpus toy_env) = 4" by (simp add: parallelism_def toy_env_def)
  have config: "\<lparr>vc_FormatVersion = formatVersion, vc_KDFName = ''argon2id-v19'', vc_KDFSalt = replicate 16 5,
           vc_ArgonTime = argonTime, vc_ArgonMemoryKiB = argonMemoryKiB, vc_ArgonParallelism = 4,
           vc_KeyCheckNonce = replicate 12 5,
           vc_KeyCheckCiphertext = gcm_seal toy_env toy_password_key (replicate 12 5) keyCheckPlaintext keyCheckAAD,
           vc_InitializedAt = 9, vc_InitializedByDevice = client_1,
           vc_InitRequestDigest = initRequestDigest toy_env client_1 ''k''\<rparr> = toy_config"
    by (simp add: toy_config_def formatVersion_def argonTime_def argonMemoryKiB_def initRequestDigest_def toy_env_def)
  have gcm: "newGCM toy_password_key = Inr ()" "length toy_password = 2"
    by (simp_all add: newGCM_def toy_password_key_def toy_password_def)
  have fresh: "vm_persistent (vs_manager toy_fresh)" "vs_db toy_fresh = fake_db" by (simp_all add: toy_fresh_def)
  show ?thesis
    by (simp add: Initialize_def Let_def run_simps rnd key lanes config vault_store_def set_manager_def gcm fresh init
        maxPasswordSize_def toy_initialized_def)
qed

section \<open>Sealing and reading\<close>

text \<open>C14. A sealed credential opens again: once a seal has succeeded, reading the credential returns exactly
  the sealed bytes and the new revision in every state where the vault holds the same key and the item has
  not been replaced, and reading changes nothing.\<close>

theorem sealed_credential_reads_back:
  assumes "aead_correct env" "item_stays md (vs_db s)" "sealCredential env e c dg md p s = (Inr rev', s')"
    "currentKEK (vs_manager s'') = currentKEK (vs_manager s)"
    "VaultItem_read (cm_CredentialInstanceID md) (vs_db s'') = VaultItem_read (cm_CredentialInstanceID md) (vs_db s')"
  shows "ReadCredential env (cm_CredentialInstanceID md) s'' = (Inr (p, rev'), s'')"
  by (rule seal_then_read [OF assms])

lemma sealed_credential_reads_back_witness:
  "\<exists>s'. sealCredential toy_env '''' '''' '''' toy_metadata toy_secret toy_unlocked = (Inr 2, s') \<and>
     ReadCredential toy_env credential_1 s' = (Inr (toy_secret, 2), s')"
proof -
  obtain d' where d': "sealCredential toy_env '''' '''' '''' toy_metadata toy_secret toy_unlocked = (Inr 2, toy_unlocked\<lparr>vs_db := d'\<rparr>)"
    using toy_seal by blast
  have "cm_CredentialInstanceID toy_metadata = credential_1" "vs_db toy_unlocked = sample_db"
    by (simp_all add: toy_metadata_def toy_unlocked_def)
  then show ?thesis
    using sealed_credential_reads_back [OF toy_aead(1) _ d', of "toy_unlocked\<lparr>vs_db := d'\<rparr>"] toy_item_stays d' by auto
qed

text \<open>C15. A stored secret is bound to its identity: when a read succeeds, the key in the item was wrapped
  under the key the vault holds now, for this very credential, account, device, provider and revision. An item
  that was copied from another credential or from an earlier revision never opens.\<close>

theorem read_credential_bound:
  assumes "aead_binds env" "ReadCredential env k s = (Inr (p, rev'), s')" "VaultItem_read k (vs_db s) = Inr item"
    "vi_WrappedDEK item = gcm_seal env kek nonce dek (credentialAAD md r)"
    "\<forall>f \<in> {cm_DeviceID md, cm_Provider md, cm_CredentialInstanceID md, cm_AccountID md, FormatInt r}. length f < 2 ^ 32"
    "\<forall>f \<in> {vi_DeviceID item, vi_Provider item, k, vi_AccountID item, FormatInt (vi_CredentialRevision item)}. length f < 2 ^ 32"
  shows "currentKEK (vs_manager s) = Inr kek \<and> cm_CredentialInstanceID md = k \<and> cm_AccountID md = vi_AccountID item \<and>
    cm_DeviceID md = vi_DeviceID item \<and> cm_Provider md = vi_Provider item \<and> r = rev' \<and> rev' = vi_CredentialRevision item \<and> s' = s"
  by (rule read_is_bound [OF assms])

lemma read_credential_bound_witness:
  "\<exists>s. ReadCredential toy_env credential_1 s = (Inr (toy_secret, 2), s) \<and> currentKEK (vs_manager s) = Inr toy_key \<and>
     VaultItem_read credential_1 (vs_db s) = Inr toy_item \<and> cm_AccountID toy_metadata = vi_AccountID toy_item"
proof -
  obtain d' where d': "seal_write '''' '''' '''' 1 toy_item sample_db = Inr ((), d')" using toy_seal_write by blast
  let ?s = "toy_unlocked\<lparr>vs_db := d'\<rparr>"
  have kek: "currentKEK (vs_manager ?s) = Inr toy_key" by (simp add: toy_unlocked_def currentKEK_def toy_key_def)
  have id: "cm_CredentialInstanceID toy_metadata = credential_1" "cm_Provider toy_metadata = ProviderCodex"
    by (simp_all add: toy_metadata_def)
  have item: "VaultItem_read credential_1 (vs_db ?s) = Inr toy_item"
    using sealed_item_read [OF d' [unfolded toy_item_def] toy_item_stays] id by (simp add: toy_item_def)
  have "open_item toy_env toy_key toy_item = Inr toy_secret"
    unfolding toy_item_def by (rule open_sealed_item) (simp_all add: toy_aead toy_json id newGCM_def toy_key_def)
  then have read: "ReadCredential toy_env credential_1 ?s = (Inr (toy_secret, 2), ?s)"
    using kek item by (simp add: ReadCredential_def vault_load_def run_simps)
  have wrapped: "vi_WrappedDEK toy_item = gcm_seal toy_env toy_key (replicate 12 5) (replicate 32 5) (credentialAAD toy_metadata 2)"
    by (simp add: toy_item_def sealed_item_def Let_def) (simp add: toy_metadata_def i64_def)
  have small: "length device_1 < 2 ^ 32" "length ProviderCodex < 2 ^ 32" "length credential_1 < 2 ^ 32"
    "length account_1 < 2 ^ 32" "length (FormatInt 2) < 2 ^ 32"
    by (simp_all add: sample_ids FormatInt_def nat_digits.simps)
  have "currentKEK (vs_manager ?s) = Inr toy_key \<and> cm_CredentialInstanceID toy_metadata = credential_1 \<and>
    cm_AccountID toy_metadata = vi_AccountID toy_item \<and> cm_DeviceID toy_metadata = vi_DeviceID toy_item \<and>
    cm_Provider toy_metadata = vi_Provider toy_item \<and> 2 = (2 :: int) \<and> 2 = vi_CredentialRevision toy_item \<and> ?s = ?s"
    by (rule read_credential_bound [OF toy_aead(2) read item wrapped]) (use small in \<open>simp_all add: toy_metadata_def\<close>)
  then show ?thesis using read item by blast
qed

section \<open>The lock\<close>

text \<open>C16. The key is in memory only while the vault is unlocked, and it is then the key of the password: in every
  state a persistent vault reaches from its start, an unlocked vault holds a key that some password gives and
  that opens the stored key check; in every other state it holds no key, reads no credential, seals none, and
  leaves the store as it is.\<close>

theorem vault_key_only_unlocked:
  assumes "NewPersistentManager d = Inr m" "vs_manager s0 = m" "(vault_step env)\<^sup>*\<^sup>* s0 s" "vm_persistent (vs_manager s)"
  shows "if vm_state (vs_manager s) = StateUnlocked
    then \<exists>config secret. VaultConfig_read (vs_db s) = Inr config \<and> unlock_key env secret config = Inr (vm_kek (vs_manager s))
    else vm_kek (vs_manager s) = [] \<and> vault_refuses env s"
proof -
  have "vault_keyed env s"
    using assms(3) NewPersistentManager_keyed [OF assms(1,2)] by (induction rule: rtranclp_induct) (auto intro: vault_step_keyed)
  then show ?thesis using assms(4) locked_refuses [of s env] by (auto simp: vault_keyed_def Let_def split: if_splits)
qed

lemma toy_started: "NewPersistentManager fake_db = Inr (vs_manager toy_fresh)"
proof -
  have "VaultConfig_read fake_db = fail CodeNotFound ''vault is uninitialized''"
    by (simp add: VaultConfig_read_def fake_db_def sample_db_def empty_db_def)
  then show ?thesis by (simp add: NewPersistentManager_def toy_fresh_def NewError_def)
qed

lemma vault_key_only_unlocked_witness:
  "vm_kek (vs_manager toy_initialized) = [] \<and> vault_refuses toy_env toy_initialized"
proof -
  have "(vault_step toy_env)\<^sup>*\<^sup>* toy_fresh toy_initialized"
    by (rule r_into_rtranclp) (rule vault_step.intros(1) [OF toy_initialize])
  from vault_key_only_unlocked [OF toy_started refl this] show ?thesis
    by (simp add: toy_initialized_def toy_fresh_def)
qed

text \<open>C33. A vault that is not unlocked refuses: reads fail as locked, seals fail, \<open>RequireUnlocked\<close> fails as
  locked, and nothing changes, neither the manager nor the store nor the random source.\<close>

theorem locked_vault_refuses:
  assumes "vm_state (vs_manager s) \<noteq> StateUnlocked"
  shows "ReadCredential env k s = (fail CodeVaultLocked ''vault is locked'', s) \<and>
    (\<exists>err. sealCredential env e c dg md p s = (Inl err, s)) \<and>
    RequireUnlocked (vs_manager s) = fail CodeVaultLocked ''vault is locked''"
  using locked_refuses [OF assms] by (simp add: vault_refuses_def)

lemma locked_vault_refuses_witness:
  "ReadCredential toy_env credential_1 toy_initialized = (fail CodeVaultLocked ''vault is locked'', toy_initialized)"
proof -
  have "vm_state (vs_manager toy_initialized) \<noteq> StateUnlocked" by (simp add: toy_initialized_def)
  then show ?thesis using locked_vault_refuses by blast
qed

text \<open>C34. After a first initialization exactly the passwords that give the same key unlock the vault: the
  password itself does, and any other one is refused as \<open>vault_unlock_failed\<close> unless the key
  derivation collides; a refused password leaves everything unchanged.\<close>

theorem initialized_vault_unlocks:
  assumes "aead_correct env" "aead_binds env" "Initialize env c k pw t s = (Inr st, s')" "db_vault_config (vs_db s) = []"
  shows "\<exists>config. VaultConfig_read (vs_db s') = Inr config \<and>
    (\<forall>pw'. 1 \<le> length pw' \<and> length pw' \<le> maxPasswordSize \<longrightarrow>
      (let key = (\<lambda>p. deriveKEK env p (vc_KDFSalt config) argonTime argonMemoryKiB (parallelism (vault_cpus env))) in
       Unlock env pw' s' =
         (if key pw' = key pw
          then (Inr (), s'\<lparr>vs_manager := (vs_manager s')\<lparr>vm_kek := key pw, vm_state := StateUnlocked,
                  vm_epoch := vm_epoch (vs_manager s') + 1\<rparr>\<rparr>)
          else (fail CodeVaultUnlockFailed ''vault unlock failed'', s'))))"
proof -
  obtain salt nonce w config where c:
    "newGCM (deriveKEK env pw salt argonTime argonMemoryKiB (parallelism (vault_cpus env))) = Inr ()"
    "vc_KDFSalt config = salt" "vc_ArgonTime config = argonTime" "vc_ArgonMemoryKiB config = argonMemoryKiB"
    "vc_ArgonParallelism config = parallelism (vault_cpus env)" "vc_KeyCheckNonce config = nonce"
    "vc_KeyCheckCiphertext config = gcm_seal env (deriveKEK env pw salt argonTime argonMemoryKiB (parallelism (vault_cpus env)))
       nonce keyCheckPlaintext keyCheckAAD"
    "VaultConfig_read (vs_db s') = Inr config" "vm_persistent (vs_manager s')"
    using Initialize_new [OF assms(3,4)] by (auto simp: Let_def)
  let ?key = "\<lambda>p. deriveKEK env p salt argonTime argonMemoryKiB (parallelism (vault_cpus env))"
  have opens: "gcm_open env (?key p) nonce (gcm_seal env (?key pw) nonce keyCheckPlaintext keyCheckAAD) keyCheckAAD =
      (if ?key p = ?key pw then Some keyCheckPlaintext else None)" for p
    using assms(1,2) unfolding aead_correct_def aead_binds_def by (metis option.exhaust)
  have unlock: "unlock_key env p config =
      (if ?key p = ?key pw then Inr (?key pw) else fail CodeVaultUnlockFailed ''vault unlock failed'')" for p
    using c(1-7) opens [of p] opens [of pw] by (cases "?key p = ?key pw") (simp_all add: unlock_key_def Let_def)
  show ?thesis
    using c(2,8,9) unlock
    by (intro exI [of _ config]) (auto simp: Unlock_def vault_load_def set_manager_def run_simps Let_def)
qed

lemma initialized_vault_unlocks_witness:
  "(\<exists>s. Unlock toy_env toy_password toy_initialized = (Inr (), s)) \<and>
   Unlock toy_env [3] toy_initialized = (fail CodeVaultUnlockFailed ''vault unlock failed'', toy_initialized)"
proof -
  have "db_vault_config (vs_db toy_fresh) = []" by (simp add: toy_fresh_def fake_db_def sample_db_def empty_db_def)
  from initialized_vault_unlocks [OF toy_aead toy_initialize this] obtain config where
    "VaultConfig_read (vs_db toy_initialized) = Inr config" and
    u: "\<forall>pw'. 1 \<le> length pw' \<and> length pw' \<le> maxPasswordSize \<longrightarrow>
      (let key = (\<lambda>p. deriveKEK toy_env p (vc_KDFSalt config) argonTime argonMemoryKiB (parallelism (vault_cpus toy_env))) in
       Unlock toy_env pw' toy_initialized =
         (if key pw' = key toy_password
          then (Inr (), toy_initialized\<lparr>vs_manager := (vs_manager toy_initialized)\<lparr>vm_kek := key toy_password, vm_state := StateUnlocked,
                  vm_epoch := vm_epoch (vs_manager toy_initialized) + 1\<rparr>\<rparr>)
          else (fail CodeVaultUnlockFailed ''vault unlock failed'', toy_initialized)))" by (elim exE conjE) (rule that)
  have differ: "deriveKEK toy_env [3] a b c e \<noteq> deriveKEK toy_env toy_password a b c e" for a b c e
    by (simp add: deriveKEK_def toy_env_def toy_password_def)
  have len: "1 \<le> length toy_password \<and> length toy_password \<le> maxPasswordSize" "1 \<le> length [3 :: nat] \<and> length [3 :: nat] \<le> maxPasswordSize"
    by (simp_all add: maxPasswordSize_def toy_password_def)
  have "Unlock toy_env [3] toy_initialized = (fail CodeVaultUnlockFailed ''vault unlock failed'', toy_initialized)"
    by (rule trans [OF u [rule_format, OF len(2), unfolded Let_def] if_not_P [OF differ]])
  moreover have "\<exists>s. Unlock toy_env toy_password toy_initialized = (Inr (), s)"
    by (rule exI) (rule trans [OF u [rule_format, OF len(1), unfolded Let_def] if_P [OF refl]])
  ultimately show ?thesis by (intro conjI)
qed

end
