(* ===== verification/Compatibility.thy ===== *)
theory Compatibility
  imports Errors
begin

text \<open>
  \<open>src/internal/providers/codex/compatibility.go\<close> and the descriptor types of \<open>types.go\<close>: which
  versions of the Codex binary are supported, with which methods, and on which platforms an
  account may be selected explicitly. A slice of a row is copied there; here lists are values.
\<close>

datatype CapabilityStatus =
    CapabilitySupported | CapabilityDowngraded | CapabilityUnsupported | OtherCapabilityStatus string

record BinaryDescriptor =
  bd_Provider :: string
  bd_Path :: string
  bd_Version :: string
  bd_Platform :: string
  bd_Architecture :: string
  bd_SchemaFingerprint :: string

record CapabilitySet =
  cap_Provider :: string
  cap_BinaryPath :: string
  cap_Version :: string
  cap_Platform :: string
  cap_Architecture :: string
  cap_SchemaFingerprint :: string
  cap_Methods :: "string list"
  cap_Experimental :: "string list"
  cap_Status :: CapabilityStatus

record CompatibilityRow =
  row_Version :: string
  row_SchemaFingerprint :: string
  row_Methods :: "string list"
  row_Experimental :: "string list"

definition ProviderName :: string where "ProviderName = ''codex''"

definition MethodAccountRead :: string where "MethodAccountRead = ''account/read''"
definition MethodAccountRateLimits :: string where "MethodAccountRateLimits = ''account/rateLimits/read''"
definition MethodAccountUsage :: string where "MethodAccountUsage = ''account/usage/read''"
definition MethodApprovalCommand :: string where "MethodApprovalCommand = ''item/commandExecution/requestApproval''"
definition MethodApprovalFileChange :: string where "MethodApprovalFileChange = ''item/fileChange/requestApproval''"
definition MethodApprovalPermissions :: string where "MethodApprovalPermissions = ''item/permissions/requestApproval''"
definition MethodRefreshAuthTokens :: string where "MethodRefreshAuthTokens = ''account/chatgptAuthTokens/refresh''"
definition MethodThreadStart :: string where "MethodThreadStart = ''thread/start''"
definition MethodTurnStart :: string where "MethodTurnStart = ''turn/start''"
definition MethodTurnInterrupt :: string where "MethodTurnInterrupt = ''turn/interrupt''"

definition compatibilityRows :: "CompatibilityRow list" where
  "compatibilityRows =
     [\<lparr>row_Version = ''0.142.5'',
       row_SchemaFingerprint = ''e29e1e39ef9a45a003170856bb95ac665e3ab06a0ae6c346fbaec854767d7c61'',
       row_Methods = [MethodAccountRead, MethodAccountRateLimits, MethodAccountUsage], row_Experimental = []\<rparr>,
      \<lparr>row_Version = ''0.143.0'',
       row_SchemaFingerprint = ''289e8c92a09b65a11cbaa32b879e43bf2e07bbab84511bdaabaa93cbd658c287'',
       row_Methods = [MethodAccountRead, MethodAccountRateLimits, MethodAccountUsage], row_Experimental = []\<rparr>,
      \<lparr>row_Version = ''0.144.2'',
       row_SchemaFingerprint = ''a1a35476587fe9bbfbe9e291b5200b8bc541df8c00241fe578d285ff26996e1c'',
       row_Methods = [MethodAccountRead, MethodAccountRateLimits, MethodAccountUsage, MethodRefreshAuthTokens,
         MethodApprovalCommand, MethodApprovalFileChange, MethodApprovalPermissions,
         MethodThreadStart, MethodTurnStart, MethodTurnInterrupt], row_Experimental = []\<rparr>]"

definition RequireSelectorPlatform :: "BinaryDescriptor \<Rightarrow> error + unit" where
  "RequireSelectorPlatform descriptor =
     (if bd_Platform descriptor = ''linux'' \<and> bd_Architecture descriptor = ''amd64'' then Inr ()
      else if bd_Platform descriptor = ''darwin''
      then fail CodeProviderIdentityPending
             ''Codex multi-account selector identity acceptance is pending on macOS''
      else if bd_Platform descriptor = ''windows''
      then fail CodeProviderPlatformUnsupported ''Codex multi-account selector is unsupported on Windows''
      else fail CodeProviderPlatformUnsupported
             ''Codex multi-account selector is supported only on Linux amd64'')"

definition described :: "BinaryDescriptor \<Rightarrow> string list \<Rightarrow> string list \<Rightarrow> CapabilityStatus \<Rightarrow> CapabilitySet" where
  "described descriptor methods experimental status =
     \<lparr>cap_Provider = ProviderName, cap_BinaryPath = bd_Path descriptor, cap_Version = bd_Version descriptor,
      cap_Platform = bd_Platform descriptor, cap_Architecture = bd_Architecture descriptor,
      cap_SchemaFingerprint = bd_SchemaFingerprint descriptor, cap_Methods = methods,
      cap_Experimental = experimental, cap_Status = status\<rparr>"

definition no_capabilities :: CapabilitySet where
  "no_capabilities = \<lparr>cap_Provider = '''', cap_BinaryPath = '''', cap_Version = '''', cap_Platform = '''',
     cap_Architecture = '''', cap_SchemaFingerprint = '''', cap_Methods = [], cap_Experimental = [],
     cap_Status = OtherCapabilityStatus ''''\<rparr>"

text \<open>The capabilities come with an error: an unsupported binary is still described.\<close>

fun capabilities_in :: "CompatibilityRow list \<Rightarrow> BinaryDescriptor \<Rightarrow> CapabilitySet \<times> error option" where
  "capabilities_in [] descriptor =
     (described descriptor [] [] CapabilityUnsupported,
      Some (NewError CodeProviderVersionUnsupported ''codex version is unsupported''))"
| "capabilities_in (row # rows) descriptor =
     (if row_Version row \<noteq> bd_Version descriptor then capabilities_in rows descriptor
      else if bd_SchemaFingerprint descriptor = '''' \<or> bd_SchemaFingerprint descriptor \<noteq> row_SchemaFingerprint row
      then (described descriptor [] [] CapabilityUnsupported,
            Some (NewError CodeProviderVersionUnsupported ''codex schema fingerprint is unsupported''))
      else (described descriptor (row_Methods row) (row_Experimental row) CapabilitySupported, None))"

definition CapabilitiesFor :: "BinaryDescriptor \<Rightarrow> CapabilitySet \<times> error option" where
  "CapabilitiesFor descriptor =
     (if bd_Provider descriptor \<noteq> '''' \<and> bd_Provider descriptor \<noteq> ProviderName
      then (no_capabilities, Some (NewError CodeInvalidArgument ''provider descriptor is not codex''))
      else if bd_Version descriptor = '''' \<or> bd_Path descriptor = ''''
      then (no_capabilities, Some (NewError CodeInvalidArgument ''provider descriptor is incomplete''))
      else capabilities_in compatibilityRows descriptor)"

definition Allows :: "CapabilitySet \<Rightarrow> string \<Rightarrow> bool" where
  "Allows c request_method = (cap_Status c = CapabilitySupported \<and> request_method \<in> set (cap_Methods c))"

text \<open>
  A binary is supported only with a listed version and the exact fingerprint of its schema; a
  binary that is not supported allows no method.
\<close>

lemma capabilities_in_supported:
  "capabilities_in rows descriptor = (c, None) \<Longrightarrow>
     \<exists>row \<in> set rows. row_Version row = bd_Version descriptor \<and>
       row_SchemaFingerprint row = bd_SchemaFingerprint descriptor \<and>
       c = described descriptor (row_Methods row) (row_Experimental row) CapabilitySupported"
  by (induction rows descriptor rule: capabilities_in.induct) (auto split: if_splits)

lemma capabilities_in_error:
  "capabilities_in rows descriptor = (c, Some e) \<Longrightarrow> cap_Status c \<noteq> CapabilitySupported"
  by (induction rows descriptor rule: capabilities_in.induct) (auto simp: described_def split: if_splits)

lemma CapabilitiesFor_supported:
  assumes "CapabilitiesFor descriptor = (c, e)"
  shows "e = None \<Longrightarrow> cap_Status c = CapabilitySupported \<and> (\<exists>row \<in> set compatibilityRows.
      row_Version row = cap_Version c \<and> row_SchemaFingerprint row = cap_SchemaFingerprint c \<and>
      cap_Methods c = row_Methods row)"
    and "e \<noteq> None \<Longrightarrow> \<not> Allows c request_method"
  using assms capabilities_in_supported [of compatibilityRows descriptor c]
    capabilities_in_error [of compatibilityRows descriptor c]
  by (auto simp: CapabilitiesFor_def Allows_def no_capabilities_def described_def split: if_splits)

end
