(* ===== verification/FilePaths.thy ===== *)
theory FilePaths
  imports Identifiers
begin

text \<open>
  What the program uses of Go's \<open>path/filepath\<close>, on Unix: \<open>Clean\<close>, \<open>Dir\<close>, \<open>Base\<close> and \<open>Join\<close>, as
  functions on the text of a path, and that the children of a clean directory are exactly the
  joins of the directory with a name. The staging directories of the daemon rest on it.
\<close>

section \<open>Paths\<close>

text \<open>The text between the separators.\<close>

fun path_segments :: "string \<Rightarrow> string list" where
  "path_segments [] = [[]]"
| "path_segments (c # cs) =
     (if c = CHR ''/'' then [] # path_segments cs
      else case path_segments cs of [] \<Rightarrow> [[c]] | s # ss \<Rightarrow> (c # s) # ss)"

fun join_segments :: "string list \<Rightarrow> string" where
  "join_segments [] = []"
| "join_segments [s] = s"
| "join_segments (s # ss) = s @ ''/'' @ join_segments ss"

text \<open>The elements that \<open>Clean\<close> keeps, the last one first in the accumulator.\<close>

fun clean_segments :: "bool \<Rightarrow> string list \<Rightarrow> string list \<Rightarrow> string list" where
  "clean_segments r kept [] = rev kept"
| "clean_segments r kept (s # ss) =
     (if s = '''' \<or> s = ''.'' then clean_segments r kept ss
      else if s = ''..''
      then (if kept \<noteq> [] \<and> hd kept \<noteq> ''..'' then clean_segments r (tl kept) ss
            else if r then clean_segments r kept ss
            else clean_segments r (s # kept) ss)
      else clean_segments r (s # kept) ss)"

definition rooted :: "string \<Rightarrow> bool" where
  "rooted path = (path \<noteq> [] \<and> hd path = CHR ''/'')"

definition clean_parts :: "string \<Rightarrow> string list" where
  "clean_parts path = clean_segments (rooted path) [] (path_segments path)"

definition Clean :: "string \<Rightarrow> string" where
  "Clean path =
     (let out = join_segments (clean_parts path)
      in if rooted path then CHR ''/'' # out else if out = '''' then ''.'' else out)"

definition Dir :: "string \<Rightarrow> string" where
  "Dir path = Clean (rev (dropWhile (\<lambda>c. c \<noteq> CHR ''/'') (rev path)))"

definition Base :: "string \<Rightarrow> string" where
  "Base path =
     (if path = '''' then ''.''
      else let bare = rev (dropWhile (\<lambda>c. c = CHR ''/'') (rev path));
               last_part = rev (takeWhile (\<lambda>c. c \<noteq> CHR ''/'') (rev bare))
           in if last_part = '''' then ''/'' else last_part)"

definition Join :: "string list \<Rightarrow> string" where
  "Join elements =
     (case dropWhile (\<lambda>e. e = '''') elements of [] \<Rightarrow> '''' | es \<Rightarrow> Clean (join_segments es))"

section \<open>Clean paths\<close>

lemma path_segments_nonempty [simp]: "path_segments p \<noteq> []"
  by (induction p) (auto split: list.splits)

lemma join_path_segments [simp]: "join_segments (path_segments p) = p"
proof (induction p)
  case (Cons c cs)
  then show ?case
    by (cases "path_segments cs") (auto, (metis join_segments.simps(2,3) list.exhaust append_Cons)+)
qed simp

lemma join_snoc: "ss \<noteq> [] \<Longrightarrow> join_segments (ss @ [s]) = join_segments ss @ ''/'' @ s"
  by (induction ss rule: join_segments.induct) auto

definition plain :: "string \<Rightarrow> bool" where
  "plain s = (CHR ''/'' \<notin> set s \<and> s \<noteq> '''' \<and> s \<noteq> ''.'' \<and> s \<noteq> ''..'')"

lemma path_segments_append:
  "CHR ''/'' \<notin> set s \<Longrightarrow> path_segments (p @ ''/'' @ s) = path_segments p @ [s]"
proof (induction p)
  case Nil
  have "path_segments s = [s]" if "CHR ''/'' \<notin> set s" for s using that by (induction s) auto
  with Nil show ?case by simp
next
  case (Cons c cs)
  then show ?case by (cases "path_segments cs") auto
qed

lemma clean_segments_append:
  "plain s \<Longrightarrow> clean_segments r kept (ss @ [s]) = clean_segments r kept ss @ [s]"
  by (induction ss arbitrary: kept) (auto simp: plain_def)

lemma path_segments_no_sep: "s \<in> set (path_segments p) \<Longrightarrow> CHR ''/'' \<notin> set s"
proof (induction p arbitrary: s)
  case (Cons c cs)
  then show ?case by (cases "path_segments cs") (auto split: if_splits)
qed simp

lemma path_segments_single: "CHR ''/'' \<notin> set s \<Longrightarrow> path_segments s = [s]"
  by (induction s) auto

lemma path_segments_join:
  "ss \<noteq> [] \<Longrightarrow> \<forall>s \<in> set ss. CHR ''/'' \<notin> set s \<Longrightarrow> path_segments (join_segments ss) = ss"
proof (induction ss rule: rev_induct)
  case (snoc s ss)
  then show ?case
    using path_segments_append [of s "join_segments ss"] by (cases "ss = []") (simp_all add: path_segments_single join_snoc)
qed simp

text \<open>What \<open>Clean\<close> leaves: plain names, after some \<open>..\<close> if the path is relative.\<close>

definition normal :: "bool \<Rightarrow> string list \<Rightarrow> bool" where
  "normal r ss = (\<exists>n qs. ss = replicate n ''..'' @ qs \<and> (r \<longrightarrow> n = 0) \<and> (\<forall>q \<in> set qs. plain q))"

lemma normal_no_sep: "normal r ss \<Longrightarrow> s \<in> set ss \<Longrightarrow> CHR ''/'' \<notin> set s \<and> s \<noteq> '''' \<and> s \<noteq> ''.''"
proof -
  assume "normal r ss" "s \<in> set ss"
  then consider n where "s \<in> set (replicate n ''..'')" | "plain s" by (auto simp only: normal_def set_append)
  then show ?thesis by cases (simp_all add: plain_def)
qed

lemma normal_snoc: "normal r ss \<Longrightarrow> plain s \<Longrightarrow> normal r (ss @ [s])"
proof -
  assume "normal r ss" "plain s"
  then obtain n qs where "ss @ [s] = replicate n ''..'' @ (qs @ [s])" "r \<longrightarrow> n = 0" "\<forall>q \<in> set (qs @ [s]). plain q"
    by (auto simp: normal_def)
  then show ?thesis unfolding normal_def by blast
qed

lemma normal_drop:
  assumes "normal r (ss @ [s])" "s \<noteq> ''..''"
  shows "normal r ss"
proof -
  obtain n qs where n: "ss @ [s] = replicate n ''..'' @ qs" "r \<longrightarrow> n = 0" "\<forall>q \<in> set qs. plain q"
    using assms(1) by (auto simp: normal_def)
  have "qs \<noteq> []"
  proof
    assume "qs = []"
    then have "s \<in> set (replicate n ''..'')" using n(1) by (metis append.right_neutral in_set_conv_decomp)
    then show False using assms(2) by simp
  qed
  then obtain qs' where "qs = qs' @ [s]" using n(1) by (metis append_butlast_last_id last_appendR last_snoc)
  with n show ?thesis by (auto simp: normal_def)
qed

lemma normal_dots: "normal False ss \<Longrightarrow> ss = [] \<or> last ss = ''..'' \<Longrightarrow> normal False (ss @ [''..''])"
proof -
  assume a: "normal False ss" "ss = [] \<or> last ss = ''..''"
  obtain n qs where n: "ss = replicate n ''..'' @ qs" "\<forall>q \<in> set qs. plain q" using a(1) by (auto simp: normal_def)
  have "qs = []" using a(2) n by (cases qs rule: rev_cases) (auto simp: plain_def)
  then have "ss @ [''..''] = replicate (Suc n) ''..'' @ []" using n by (simp add: replicate_append_same)
  then show ?thesis unfolding normal_def by fastforce
qed

lemma clean_segments_normal:
  "normal r (rev kept) \<Longrightarrow> \<forall>s \<in> set ss. CHR ''/'' \<notin> set s \<Longrightarrow> normal r (clean_segments r kept ss)"
proof (induction r kept ss rule: clean_segments.induct)
  case (2 r kept s ss)
  consider "s = '''' \<or> s = ''.''" | "s = ''..''" "kept \<noteq> []" "hd kept \<noteq> ''..''"
    | "s = ''..''" "\<not> (kept \<noteq> [] \<and> hd kept \<noteq> ''..'')" | "s \<noteq> '''' \<and> s \<noteq> ''.''" "s \<noteq> ''..''" by blast
  then show ?case
  proof cases
    case c: 2
    then obtain k ks where k: "kept = k # ks" by (cases kept) auto
    have "normal r (rev ks)" using c(3) k "2.prems"(1) by (intro normal_drop [of r "rev ks" k]) auto
    with c k "2.IH"(2) "2.prems" show ?thesis by simp
  next
    case c: 3
    show ?thesis
    proof (cases r)
      case False
      have "normal False (rev kept @ [''..''])"
        using "2.prems"(1) c(2) False by (intro normal_dots) (auto simp: last_rev)
      with c False "2.IH"(4) "2.prems" show ?thesis by auto
    qed (use c "2.IH"(3) "2.prems" in auto)
  next
    case c: 4
    have "normal r (rev kept @ [s])" using c "2.prems" by (intro normal_snoc) (auto simp: plain_def)
    with c "2.IH"(5) "2.prems" show ?thesis by simp
  qed (use "2.IH"(1) "2.prems" in auto)
qed simp

lemma clean_segments_id: "normal r ss \<Longrightarrow> clean_segments r [] ss = ss"
proof -
  assume "normal r ss"
  then obtain n qs where n: "ss = replicate n ''..'' @ qs" "r \<longrightarrow> n = 0" "\<forall>q \<in> set qs. plain q" by (auto simp: normal_def)
  have plains: "clean_segments r kept qs = rev kept @ qs" if "\<forall>q \<in> set qs. plain q" for kept qs
    using that by (induction qs arbitrary: kept) (auto simp: plain_def)
  have dots: "clean_segments r (replicate m ''..'') (replicate n ''..'' @ qs) = replicate (m + n) ''..'' @ qs" if "\<not> r" for m
  proof (induction n arbitrary: m)
    case 0
    show ?case using plains [OF n(3), of "replicate m ''..''"] that by simp
  next
    case (Suc n)
    have "replicate m ''..'' \<noteq> [] \<Longrightarrow> hd (replicate m ''..'') = ''..''" by (cases m) auto
    with Suc [of "Suc m"] that show ?case by auto
  qed
  show ?thesis using dots [of 0] plains [OF n(3), of "[]"] n by (cases r) auto
qed

lemma clean_parts_normal: "normal (rooted p) (clean_parts p)"
  unfolding clean_parts_def by (rule clean_segments_normal) (auto simp: normal_def dest: path_segments_no_sep)

lemma Clean_cases:
  "rooted p \<Longrightarrow> Clean p = CHR ''/'' # join_segments (clean_parts p)"
  "\<not> rooted p \<Longrightarrow> clean_parts p = [] \<Longrightarrow> Clean p = ''.''"
  "\<not> rooted p \<Longrightarrow> clean_parts p \<noteq> [] \<Longrightarrow> Clean p = join_segments (clean_parts p)"
proof -
  have "join_segments ss = [] \<Longrightarrow> normal r ss \<Longrightarrow> ss = []" for r ss
    by (cases ss rule: join_segments.cases) (auto dest: normal_no_sep [of _ _ "[]"])
  then show "rooted p \<Longrightarrow> Clean p = CHR ''/'' # join_segments (clean_parts p)"
    "\<not> rooted p \<Longrightarrow> clean_parts p = [] \<Longrightarrow> Clean p = ''.''"
    "\<not> rooted p \<Longrightarrow> clean_parts p \<noteq> [] \<Longrightarrow> Clean p = join_segments (clean_parts p)"
    using clean_parts_normal [of p] by (auto simp: Clean_def Let_def)
qed

text \<open>A clean path has the same root and the same parts, so cleaning again changes nothing.\<close>

lemma Clean_again: "rooted (Clean p) = rooted p \<and> clean_parts (Clean p) = clean_parts p"
proof (cases "rooted p")
  case True
  have c: "Clean p = CHR ''/'' # join_segments (clean_parts p)" and r: "rooted (Clean p)"
    by (simp_all add: Clean_cases(1) [OF True] rooted_def)
  have n: "normal True (clean_parts p)" using clean_parts_normal [of p] True by simp
  have "clean_segments True [] (path_segments (Clean p)) = clean_segments True [] (path_segments (join_segments (clean_parts p)))"
    by (simp add: c)
  also have "\<dots> = clean_parts p"
  proof (cases "clean_parts p = []")
    case False
    then show ?thesis using n by (simp add: path_segments_join normal_no_sep clean_segments_id)
  qed simp
  finally show ?thesis using True r by (simp add: clean_parts_def [of "Clean p"])
next
  case False
  show ?thesis
  proof (cases "clean_parts p = []")
    case True
    then show ?thesis using False by (simp add: Clean_cases(2) [OF False True] clean_parts_def [of "''.''"] rooted_def)
  next
    case parts: False
    have n: "normal False (clean_parts p)" using clean_parts_normal [of p] False by simp
    have "path_segments (join_segments (clean_parts p)) = clean_parts p"
      by (rule path_segments_join [OF parts]) (use normal_no_sep [OF n] in blast)
    moreover have "\<not> rooted (join_segments (clean_parts p))"
    proof -
      obtain s ss where ss: "clean_parts p = s # ss" using parts by (cases "clean_parts p") auto
      then have "s \<noteq> [] \<and> CHR ''/'' \<notin> set s" using normal_no_sep [OF n, of s] by simp
      then have "hd (join_segments (s # ss)) \<noteq> CHR ''/''" by (cases ss; cases s) auto
      then show ?thesis using ss by (simp add: rooted_def)
    qed
    ultimately show ?thesis using clean_segments_id [OF n] False
      by (simp add: Clean_cases(3) [OF False parts] clean_parts_def [of "join_segments (clean_parts p)"])
  qed
qed

lemma Clean_determined: "rooted p = rooted q \<Longrightarrow> clean_parts p = clean_parts q \<Longrightarrow> Clean p = Clean q"
  by (cases "rooted q"; cases "clean_parts q = []") (simp_all add: Clean_cases)

lemma Clean_Clean [simp]: "Clean (Clean p) = Clean p"
  using Clean_again by (intro Clean_determined) simp_all


section \<open>Children of a directory\<close>

lemma takeWhile_name: "c \<notin> set l \<Longrightarrow> takeWhile (\<lambda>x. x \<noteq> c) (rev l @ c # xs) = rev l"
  "c \<notin> set l \<Longrightarrow> dropWhile (\<lambda>x. x \<noteq> c) (rev l @ c # xs) = c # xs"
  by (subst takeWhile_append2, auto, subst dropWhile_append2, auto)

lemma Dir_child: "CHR ''/'' \<notin> set l \<Longrightarrow> Dir (d @ ''/'' @ l) = Clean (d @ ''/'')"
  by (simp add: Dir_def takeWhile_name(2))

lemma Dir_name: "CHR ''/'' \<notin> set l \<Longrightarrow> Dir l = ''.''"
proof -
  assume "CHR ''/'' \<notin> set l"
  then have "dropWhile (\<lambda>x. x \<noteq> CHR ''/'') (rev l) = []" by (auto simp: dropWhile_eq_Nil_conv)
  then show ?thesis by (simp only: Dir_def rev.simps) (simp add: Clean_def rooted_def clean_parts_def)
qed

lemma Base_strip: "CHR ''/'' \<notin> set l \<Longrightarrow> l \<noteq> [] \<Longrightarrow> dropWhile (\<lambda>c. c = CHR ''/'') (rev l @ xs) = rev l @ xs"
  by (cases l rule: rev_cases) auto

lemma Base_child: "CHR ''/'' \<notin> set l \<Longrightarrow> l \<noteq> [] \<Longrightarrow> Base (d @ ''/'' @ l) = l"
  using Base_strip [of l "CHR ''/'' # rev d"] by (simp add: Base_def Let_def takeWhile_name(1))

lemma Base_name: "CHR ''/'' \<notin> set l \<Longrightarrow> l \<noteq> [] \<Longrightarrow> Base l = l"
proof -
  assume l: "CHR ''/'' \<notin> set l" "l \<noteq> []"
  then have all: "takeWhile (\<lambda>c. c \<noteq> CHR ''/'') (rev l) = rev l" by (subst takeWhile_eq_all_conv) auto
  have strip: "dropWhile (\<lambda>c. c = CHR ''/'') (rev l) = rev l" using Base_strip [OF l, of "[]"] by (simp only: append_Nil2)
  show ?thesis by (simp only: Base_def Let_def strip rev_rev_ident all l(2) if_False)
qed

lemma clean_parts_slash: "d \<noteq> [] \<Longrightarrow> clean_parts (d @ ''/'') = clean_parts d"
proof -
  have "clean_segments r kept (ss @ [[]]) = clean_segments r kept ss" for r kept ss
    by (induction r kept ss rule: clean_segments.induct) auto
  then show "d \<noteq> [] \<Longrightarrow> ?thesis"
    using path_segments_append [of "[]" d] by (simp add: clean_parts_def rooted_def)
qed

lemma clean_parts_child: "d \<noteq> [] \<Longrightarrow> plain l \<Longrightarrow> clean_parts (d @ ''/'' @ l) = clean_parts d @ [l]"
  using path_segments_append [of l d] clean_segments_append [of l] by (simp add: clean_parts_def rooted_def plain_def)

lemma Clean_nonempty [simp]: "Clean p \<noteq> []"
  by (cases "rooted p"; cases "clean_parts p = []") (auto simp: Clean_def Let_def)

lemma Clean_slash: "Clean (Clean b @ ''/'') = Clean b"
proof -
  have "Clean (Clean b @ ''/'') = Clean (Clean b)"
    by (rule Clean_determined) (simp_all add: clean_parts_slash rooted_def)
  then show ?thesis by simp
qed

lemma Join_child: "plain l \<Longrightarrow> Join [Clean b, l] = (if clean_parts b = [] then (if rooted b then CHR ''/'' # l else l) else Clean b @ ''/'' @ l)"
proof -
  assume l: "plain l"
  let ?q = "Clean b @ ''/'' @ l"
  have q: "rooted ?q = rooted b" "clean_parts ?q = clean_parts b @ [l]"
    using Clean_again [of b] clean_parts_child [OF _ l, of "Clean b"] by (auto simp: rooted_def)
  have "join_segments (clean_parts b @ [l]) = (if clean_parts b = [] then l else join_segments (clean_parts b) @ ''/'' @ l)"
    by (simp add: join_snoc)
  moreover have "Join [Clean b, l] = Clean ?q" by (simp add: Join_def)
  ultimately show ?thesis
    using q by (cases "rooted b"; cases "clean_parts b = []") (simp_all add: Clean_cases)
qed

text \<open>The child of a clean directory: its directory and its name are the two parts it was joined of.\<close>

lemma child_path:
  assumes "plain l"
  shows "Dir (Join [Clean b, l]) = Clean b" "Base (Join [Clean b, l]) = l" "Clean (Join [Clean b, l]) = Join [Clean b, l]"
proof -
  have l: "CHR ''/'' \<notin> set l" "l \<noteq> []" using assms by (simp_all add: plain_def)
  have join: "Join [Clean b, l] = Clean (Clean b @ ''/'' @ l)" by (simp add: Join_def)
  show "Clean (Join [Clean b, l]) = Join [Clean b, l]" by (simp add: join)
  have "Dir (CHR ''/'' # l) = ''/''" "Base (CHR ''/'' # l) = l"
    using Dir_child [of l "[]"] Base_child [of l "[]"] l by (simp_all add: Clean_def rooted_def clean_parts_def)
  note root = this
  have "Dir (Join [Clean b, l]) = Clean b \<and> Base (Join [Clean b, l]) = l"
  proof (cases "clean_parts b = []")
    case True
    have "Clean b = (if rooted b then ''/'' else ''.'')" using Clean_cases(1,2) [of b] True by simp
    moreover have "Join [Clean b, l] = (if rooted b then CHR ''/'' # l else l)" by (simp only: Join_child [OF assms] True if_True simp_thms)
    ultimately show ?thesis using root Dir_name [OF l(1)] Base_name [OF l] by (cases "rooted b") simp_all
  next
    case False
    have "Join [Clean b, l] = Clean b @ ''/'' @ l" by (simp only: Join_child [OF assms] False if_False)
    then show ?thesis using Dir_child [OF l(1), of "Clean b"] Base_child [OF l, of "Clean b"] Clean_slash [of b] by argo
  qed
  then show "Dir (Join [Clean b, l]) = Clean b" "Base (Join [Clean b, l]) = l" by blast+
qed

text \<open>And every clean path whose name is plain is such a child.\<close>

lemma child_only:
  assumes "Clean p = p" "plain (Base p)"
  shows "p = Join [Dir p, Base p]"
proof -
  have n: "normal (rooted p) (clean_parts p)" by (rule clean_parts_normal)
  show ?thesis
  proof (cases "clean_parts p" rule: rev_cases)
    case Nil
    then have "p = ''/'' \<or> p = ''.''" using Clean_cases(1,2) [of p] assms(1) by (cases "rooted p") simp_all
    then show ?thesis using assms(2) by (auto simp: Base_def plain_def)
  next
    case (snoc ps l)
    have l: "CHR ''/'' \<notin> set l" "l \<noteq> []" using normal_no_sep [OF n, of l] snoc by auto
    have p: "p = (if rooted p then ''/'' else '''') @ join_segments (ps @ [l])"
      using Clean_cases(1,3) [of p] assms(1) snoc by (cases "rooted p") simp_all
    show ?thesis
    proof (cases "ps = []")
      case True
      show ?thesis
      proof (cases "rooted p")
        case True
        then have "p = [] @ ''/'' @ l" using p \<open>ps = []\<close> by simp
        then have "Base p = l" "Dir p = Clean ''/''" using Base_child [OF l, of "[]"] Dir_child [OF l(1), of "[]"] by simp_all
        then show ?thesis using \<open>p = [] @ ''/'' @ l\<close> Join_child [of l "''/''"] assms(2)
          by (simp add: clean_parts_def rooted_def)
      next
        case False
        then have "p = l" using p \<open>ps = []\<close> by simp
        then have "Base p = l" "Dir p = Clean ''.''" using Base_name [OF l] Dir_name [OF l(1)] by (simp_all add: Clean_def rooted_def clean_parts_def)
        then show ?thesis using \<open>p = l\<close> Join_child [of l "''.''"] assms(2) by (simp add: clean_parts_def rooted_def)
      qed
    next
      case False
      obtain d where e: "d = (if rooted p then ''/'' else '''') @ join_segments ps" by blast
      have d: "p = d @ ''/'' @ l" using p join_snoc [OF False, of l] e by simp
      have base: "Base p = l" "Dir p = Clean (d @ ''/'')" using Base_child [OF l, of d] Dir_child [OF l(1), of d] d by metis+
      have ne: "d \<noteq> []" using d e by (auto simp: rooted_def)
      have parts: "clean_parts d = ps"
        using clean_parts_child [OF ne, of l] d snoc assms(2) base(1) by simp
      have "rooted d = rooted p" using ne d by (simp add: rooted_def)
      then have "Join [Clean d, l] = Clean p"
        using Clean_again [of d] clean_parts_child [OF _ assms(2) [unfolded base(1)], of "Clean d"] parts snoc
        by (simp add: Join_def) (intro Clean_determined, simp_all add: rooted_def)
      moreover have "Clean (d @ ''/'') = Clean d"
        using ne by (intro Clean_determined) (simp_all add: clean_parts_slash rooted_def)
      ultimately show ?thesis using base assms(1) by simp
    qed
  qed
qed

end
