(* ===== verification/ServiceState.thy ===== *)
theory ServiceState
  imports RuntimeManager VaultManager StoreAccounts StorePreviews Compatibility FilePaths DeviceAuth
begin

text \<open>
  The state and the vocabulary of the session service, \<open>src/internal/app/session_service.go\<close> and
  \<open>account_service.go\<close>. The service shares the runtime manager's state: its store, and a world
  that holds the vault manager and the rest (the clock, the random source, the files, the Codex
  binary). What a request carries and what a response shows are here too: a Go \<open>any\<close> keeps the
  type of its value, so \<open>any\<close> has one constructor per type the service puts into a response.

  The decoders of request bodies stand for \<open>json.Decoder\<close> with \<open>DisallowUnknownFields\<close> on the
  given type, followed by the check that nothing but the value is in the text.
\<close>

section \<open>Responses\<close>

datatype any =
    AnyNil | AnyBool bool | AnyInt int | AnyFloat gofloat | AnyText string | AnyTexts "string list"
  | AnyTime time | AnyRaw string | AnyToken page_token | AnyCapabilities "Capability list"
  | AnySessionStatus SessionStatus | AnyCredentialStatus CredentialStatus | AnyAvailability Availability
  | AnyVaultState VaultState | AnyEnrollmentState EnrollmentState | AnyApprovalStatus ApprovalStatus
  | AnyResponseState ApprovalResponseState | AnyDecision ApprovalDecision | AnyUsageSource UsageSource
  | AnyUsageConfidence UsageConfidence | AnyUsageWindowKind UsageWindowKind
  | AnyUsageCapabilityStatus UsageCapabilityStatus | AnyClientStatus ClientIdentityStatus
  | AnyAttachmentMode AttachmentMode | AnyCapabilityStatus CapabilityStatus | AnyErrorCode "ErrorCode option"
  | AnyInputResult InputResult | AnyChunks "Chunk list"
  | AnyList "any list" | AnyMap "(string \<times> any) list"

text \<open>A pointer, nil as the JSON null.\<close>

definition pointer :: "('a \<Rightarrow> any) \<Rightarrow> 'a option \<Rightarrow> any" where
  "pointer f x = (case x of None \<Rightarrow> AnyNil | Some a \<Rightarrow> f a)"

section \<open>Requests\<close>

record accountCreateBody =
  acb_Provider :: string
  acb_DisplayName :: string
  acb_ProviderSubjectDigest :: string

record profileCreateBody =
  pcb_DeviceID :: ID
  pcb_AccountID :: ID
  pcb_Name :: string
  pcb_Provider :: string
  pcb_Settings :: string

record profileEditBody =
  peb_ProfileID :: ID
  peb_Name :: string
  peb_Provider :: string
  peb_AccountID :: ID
  peb_Settings :: string

record credentialBody =
  crb_CredentialID :: ID
  crb_ProfileSelector :: string

record authBeginBody =
  abb_ProfileID :: ID
  abb_ProfileSelector :: string
  abb_CredentialID :: ID
  abb_Mode :: string

record authConfirmBody =
  cfb_EnrollmentID :: ID
  cfb_ProfileSelector :: string
  cfb_Confirmed :: bool

record authStatusBody =
  asb_EnrollmentID :: ID
  asb_CredentialID :: ID
  asb_ProfileSelector :: string

record approvalResponseBody =
  arb_SessionID :: ID
  arb_ApprovalID :: ID
  arb_ProviderApprovalID :: string
  arb_Decision :: ApprovalDecision

record observeBody =
  obb_SessionID :: ID
  obb_FromSequence :: int

record attachBody =
  atb_SessionID :: ID
  atb_Mode :: string

record previewBody =
  pvb_Provider :: string
  pvb_ProfileSelector :: string
  pvb_WorkspaceID :: ID

record profileConfirmation =
  pc_Confirmed :: bool
  pc_AccountID :: ID
  pc_AccountRevision :: int
  pc_CredentialInstanceID :: ID
  pc_CredentialRevision :: int
  pc_RuntimeProfileID :: ID
  pc_ProfileRevision :: int
  pc_DeviceID :: ID
  pc_WorkspaceID :: ID
  pc_UsageSnapshotID :: ID
  pc_ProviderVersion :: string

record startBody =
  stb_DeviceID :: ID
  stb_Provider :: string
  stb_AccountID :: ID
  stb_CredentialInstanceID :: ID
  stb_RuntimeProfileID :: ID
  stb_WorkspaceID :: ID
  stb_Capabilities :: "Capability list"
  stb_ProfileSelector :: string
  stb_PreviewID :: ID
  stb_Confirmation :: "profileConfirmation option"

record inputBody =
  inb_SessionID :: ID
  inb_Sequence :: int
  inb_Payload :: string

record resizeBody =
  rzb_SessionID :: ID
  rzb_Rows :: int
  rzb_Cols :: int

record registryAccountCreateBody =
  rab_Provider :: string
  rab_Name :: string
  rab_Alias :: string
  rab_SubscriptionHint :: string

record listBody =
  lsb_Provider :: string
  lsb_AccountID :: ID
  lsb_Limit :: int
  lsb_Cursor :: page_token

record targetBody =
  tgb_Target :: string
  tgb_ExpectedRevision :: int
  tgb_Name :: "string option"
  tgb_Alias :: "string option"
  tgb_SubscriptionHint :: "string option"

record registryProfileCreateBody =
  rpb_AccountID :: ID
  rpb_Name :: string
  rpb_Alias :: string

text \<open>Bodies of one field are decoded to the field.\<close>

record bodies =
  body_session :: "string \<Rightarrow> ID option"
  body_account :: "string \<Rightarrow> ID option"
  body_account_create :: "string \<Rightarrow> accountCreateBody option"
  body_profile :: "string \<Rightarrow> ID option"
  body_profile_create :: "string \<Rightarrow> profileCreateBody option"
  body_profile_edit :: "string \<Rightarrow> profileEditBody option"
  body_credential :: "string \<Rightarrow> credentialBody option"
  body_auth_begin :: "string \<Rightarrow> authBeginBody option"
  body_enrollment :: "string \<Rightarrow> ID option"
  body_auth_confirm :: "string \<Rightarrow> authConfirmBody option"
  body_auth_status :: "string \<Rightarrow> authStatusBody option"
  body_usage :: "string \<Rightarrow> ID option"
  body_approval :: "string \<Rightarrow> approvalResponseBody option"
  body_vault :: "string \<Rightarrow> octets option"
  body_observe :: "string \<Rightarrow> observeBody option"
  body_attach :: "string \<Rightarrow> attachBody option"
  body_preview :: "string \<Rightarrow> previewBody option"
  body_start :: "string \<Rightarrow> startBody option"
  body_input :: "string \<Rightarrow> inputBody option"
  body_resize :: "string \<Rightarrow> resizeBody option"
  body_registry_account :: "string \<Rightarrow> registryAccountCreateBody option"
  body_list :: "string \<Rightarrow> listBody option"
  body_target :: "string \<Rightarrow> targetBody option"
  body_registry_profile :: "string \<Rightarrow> registryProfileCreateBody option"
  body_registry_usage :: "string \<Rightarrow> string option"

text \<open>The body of a request: an absent one is empty.\<close>

definition body_text :: "Request \<Rightarrow> string" where
  "body_text request = (case rq_Body request of None \<Rightarrow> '''' | Some body \<Rightarrow> body)"

definition decodeBody :: "(string \<Rightarrow> 'b option) \<Rightarrow> Request \<Rightarrow> error + 'b" where
  "decodeBody decode request =
     (if body_text request = '''' then fail CodeInvalidArgument ''request body is required''
      else case decode (body_text request) of
             None \<Rightarrow> fail CodeInvalidArgument ''request body is invalid''
           | Some body \<Rightarrow> Inr body)"

definition decodeOptionalBody :: "(string \<Rightarrow> 'b option) \<Rightarrow> 'b \<Rightarrow> Request \<Rightarrow> error + 'b" where
  "decodeOptionalBody decode zero request =
     (if body_text request = '''' \<or> body_text request = ''null'' then Inr zero else decodeBody decode request)"

definition requestRevision :: "Request \<Rightarrow> error + int" where
  "requestRevision request =
     (case rq_LeaseRevision request of
        None \<Rightarrow> fail CodeInvalidArgument ''lease revision is required''
      | Some revision \<Rightarrow>
          if revision < 1 then fail CodeInvalidArgument ''lease revision is required'' else Inr revision)"

section \<open>The world of the service\<close>

record 'x service_world =
  sw_vault :: vault_manager
  sw_rest :: 'x

type_synonym ('x, 'p) service_state = "('x service_world, 'p) manager"

text \<open>
  The answers of the file system: what \<open>os.Lstat\<close> says of a path, and calls that succeed or fail.
  \<open>files_protect\<close> is \<open>device.ProtectPrivateDirectory\<close>.
\<close>

datatype file_stat = StatMissing | StatFailed | StatLink | StatDirectory | StatOther

record 'x file_system =
  files_stat :: "string \<Rightarrow> 'x \<Rightarrow> file_stat \<times> 'x"
  files_mkdir :: "string \<Rightarrow> 'x \<Rightarrow> (error + bool) \<times> 'x"
  files_protect :: "string \<Rightarrow> ('x, unit) run"
  files_remove :: "string \<Rightarrow> ('x, unit) run"
  files_remove_all :: "string \<Rightarrow> ('x, unit) run"
  files_list :: "string \<Rightarrow> ('x, string list) run"

record SelectorPreflight =
  pf_ProviderVersion :: string
  pf_BinaryFingerprint :: string
  pf_SchemaFingerprint :: string
  pf_CapabilityDigest :: string
  pf_Capabilities :: "Capability list"

text \<open>What the service calls of \<open>internal/providers/codex\<close>; a probe reports capabilities with an error.\<close>

record 'x codex_tools =
  ct_discover :: "('x, BinaryDescriptor) run"
  ct_probe :: "BinaryDescriptor \<Rightarrow> 'x \<Rightarrow> (CapabilitySet \<times> error option) \<times> 'x"
  ct_fingerprint :: "BinaryDescriptor \<Rightarrow> ('x, string) run"
  ct_digest :: "CapabilitySet \<Rightarrow> string"
  ct_validate :: "BinaryDescriptor \<Rightarrow> string \<Rightarrow> ('x, unit) run"
  ct_read_auth :: "string \<Rightarrow> ('x, octets) run"

record ApprovalDispatchRequest =
  ad_SessionID :: ID
  ad_ApprovalID :: ID
  ad_ProviderApprovalID :: string
  ad_ResponderID :: ID
  ad_ResponseKey :: string
  ad_Decision :: ApprovalDecision
  ad_LeaseRevision :: int

record ('x, 'p) bridge_calls =
  bc_usage :: "ID \<Rightarrow> (('x, 'p) service_state, UsageSnapshot) run"
  bc_respond :: "ApprovalDispatchRequest \<Rightarrow> (('x, 'p) service_state, Approval) run"

text \<open>
  \<open>SessionService\<close>: its parts, and the parameters that stand for what it calls. \<open>svc_vault\<close> is
  \<open>None\<close> when the service has no vault; the Codex bridge is there when the runtime has one.
\<close>

record ('x, 'p) service =
  svc_runtime :: "('x service_world, 'p) runtime"
  svc_ticks :: "(('x, 'p) service_state \<Rightarrow> ('x, 'p) service_state) list"
  svc_vault :: "'x vault_env option"
  svc_bridge :: "('x, 'p) bridge_calls"
  svc_codex :: "'x codex_tools"
  svc_SelectorPreflight :: "('x, SelectorPreflight) run option"
  svc_SelectorPlatformGate :: "(BinaryDescriptor \<Rightarrow> error + unit) option"
  svc_files :: "'x file_system"
  svc_Path :: string
  svc_CredentialHomeRoot :: string
  svc_now :: "'x \<Rightarrow> time \<times> 'x"
  svc_random :: "'x \<Rightarrow> nat list option \<times> 'x"
  svc_sum :: "string \<Rightarrow> octets"
  svc_filter_sum :: "string \<Rightarrow> string"
  svc_expiry_key :: "ID \<Rightarrow> string"
  svc_bodies :: bodies
  svc_marshal :: "any \<Rightarrow> error + string"

text \<open>Calls on the rest of the world, and on the vault.\<close>

definition rest :: "('x, 'a) run \<Rightarrow> (('x, 'p) service_state, 'a) run" where
  "rest m = world (zoomS sw_rest (\<lambda>x w. w\<lparr>sw_rest := x\<rparr>) m)"

definition vault_part :: "('x, 'p) service_state \<Rightarrow> 'x vault_state" where
  "vault_part s = \<lparr>vs_manager = sw_vault (mgr_world s), vs_db = mgr_db s, vs_world = sw_rest (mgr_world s)\<rparr>"

definition put_vault :: "'x vault_state \<Rightarrow> ('x, 'p) service_state \<Rightarrow> ('x, 'p) service_state" where
  "put_vault v s = s\<lparr>mgr_db := vs_db v, mgr_world := \<lparr>sw_vault = vs_manager v, sw_rest = vs_world v\<rparr>\<rparr>"

definition on_vault :: "('x vault_state, 'a) run \<Rightarrow> (('x, 'p) service_state, 'a) run" where
  "on_vault m = zoomS vault_part put_vault m"

text \<open>A store operation that changes the store even when it fails.\<close>

definition store_result :: "(db \<Rightarrow> (error + 'a) \<times> db) \<Rightarrow> (('w, 'p) manager, 'a) run" where
  "store_result f = zoomS mgr_db (\<lambda>d s. s\<lparr>mgr_db := d\<rparr>) f"

definition service_now :: "('x, 'p) service \<Rightarrow> (('x, 'p) service_state, time) run" where
  "service_now svc = rest (\<lambda>x. case svc_now svc x of (t, x') \<Rightarrow> (Inr t, x'))"

definition new_id :: "('x, 'p) service \<Rightarrow> string \<Rightarrow> (('x, 'p) service_state, ID) run" where
  "new_id svc prefix =
     bindS (rest (\<lambda>x. case svc_random svc x of (r, x') \<Rightarrow> (Inr r, x'))) (\<lambda>random. liftS (NewID prefix random))"

text \<open>\<open>s.Vault == nil\<close>, and \<open>s.Vault.RequireUnlocked()\<close>.\<close>

definition the_vault :: "('x, 'p) service \<Rightarrow> (('x, 'p) service_state, 'x vault_env) run" where
  "the_vault svc =
     (case svc_vault svc of
        None \<Rightarrow> failS CodeVaultLocked ''vault is unavailable'' | Some env \<Rightarrow> returnS env)"

definition require_unlocked :: "('x, 'p) service \<Rightarrow> (('x, 'p) service_state, unit) run" where
  "require_unlocked svc =
     bindS (the_vault svc) (\<lambda>_. bindS (getS (\<lambda>s. RequireUnlocked (sw_vault (mgr_world s)))) liftS)"

text \<open>The SHA-256 of a text in hexadecimal.\<close>

definition hex_sum :: "('x, 'p) service \<Rightarrow> string \<Rightarrow> string" where
  "hex_sum svc x = hex_encode (svc_sum svc x)"

definition NUL :: string where "NUL = [char_of (0 :: nat)]"

definition request_digest :: "('x, 'p) service \<Rightarrow> Request \<Rightarrow> string" where
  "request_digest svc request =
     hex_sum svc (rq_Method request @ NUL @ rq_IdempotencyKey request @ NUL @ body_text request)"

end
