(* ===== verification/ServiceViews.thy ===== *)
theory ServiceViews
  imports ServiceState
begin

text \<open>
  What responses show of stored entities: the views of \<open>session_service.go\<close> and
  \<open>account_service.go\<close>, as maps in the order the code writes them.
\<close>

section \<open>session_service.go\<close>

definition sessionView :: "Session \<Rightarrow> any" where
  "sessionView session = AnyMap
     [(''id'', AnyText (ses_ID session)), (''device_id'', AnyText (ses_DeviceID session)),
      (''provider'', AnyText (ses_Provider session)), (''account_id'', AnyText (ses_AccountID session)),
      (''credential_instance_id'', AnyText (ses_CredentialInstanceID session)),
      (''runtime_profile_id'', AnyText (ses_RuntimeProfileID session)),
      (''workspace_id'', AnyText (ses_WorkspaceID session)),
      (''provider_session_id'', AnyText (ses_ProviderSessionID session)),
      (''resumed_from_session_id'', AnyText (ses_ResumedFromSessionID session)),
      (''status'', AnySessionStatus (ses_Status session)), (''started_at'', AnyTime (ses_StartedAt session)),
      (''ended_at'', pointer AnyTime (ses_EndedAt session)), (''exit_code'', pointer AnyInt (ses_ExitCode session)),
      (''capability_snapshot'', AnyCapabilities (ses_CapabilitySnapshot session)),
      (''failure_code'', AnyText (ses_FailureCode session))]"

definition accountView :: "Account \<Rightarrow> any" where
  "accountView account = AnyMap
     [(''id'', AnyText (acc_ID account)), (''provider'', AnyText (acc_Provider account)),
      (''display_name'', AnyText (acc_DisplayName account)),
      (''provider_subject_digest'', AnyText (acc_ProviderSubjectDigest account)),
      (''enabled'', AnyBool (acc_Enabled account)), (''created_at'', AnyTime (acc_CreatedAt account)),
      (''updated_at'', AnyTime (acc_UpdatedAt account))]"

definition profileView :: "RuntimeProfile \<Rightarrow> any" where
  "profileView profile = AnyMap
     [(''id'', AnyText (prof_ID profile)), (''device_id'', AnyText (prof_DeviceID profile)),
      (''account_id'', AnyText (prof_AccountID profile)), (''name'', AnyText (prof_Name profile)),
      (''provider'', AnyText (prof_Provider profile)), (''settings'', AnyRaw (prof_Settings profile)),
      (''created_at'', AnyTime (prof_CreatedAt profile)), (''updated_at'', AnyTime (prof_UpdatedAt profile))]"

definition credentialView :: "CredentialInstance \<Rightarrow> any" where
  "credentialView credential = AnyMap
     [(''id'', AnyText (cred_ID credential)), (''device_id'', AnyText (cred_DeviceID credential)),
      (''account_id'', AnyText (cred_AccountID credential)), (''provider'', AnyText (cred_Provider credential)),
      (''auth_method'', AnyText (cred_AuthMethod credential)), (''secret_ref'', AnyText (cred_SecretRef credential)),
      (''status'', AnyCredentialStatus (cred_Status credential)),
      (''credential_revision'', AnyInt (cred_CredentialRevision credential)),
      (''secret_digest'', AnyText (cred_SecretDigest credential)),
      (''created_at'', AnyTime (cred_CreatedAt credential)), (''updated_at'', AnyTime (cred_UpdatedAt credential))]"

definition approvalView :: "Approval \<Rightarrow> any" where
  "approvalView approval = AnyMap
     [(''id'', AnyText (app_ID approval)), (''session_id'', AnyText (app_SessionID approval)),
      (''provider_approval_id'', AnyText (app_ProviderApprovalID approval)), (''kind'', AnyText (app_Kind approval)),
      (''payload_digest'', AnyText (app_PayloadDigest approval)), (''summary'', AnyText (app_Summary approval)),
      (''status'', AnyApprovalStatus (app_Status approval)),
      (''response_state'', AnyResponseState (app_ResponseState approval)),
      (''requested_decision'', AnyDecision (app_RequestedDecision approval)),
      (''responded_by_device_id'', AnyText (app_RespondedByDeviceID approval)),
      (''idempotency_key'', AnyText (app_IdempotencyKey approval)),
      (''requested_at'', AnyTime (app_RequestedAt approval)),
      (''dispatch_started_at'', pointer AnyTime (app_DispatchStartedAt approval)),
      (''responded_at'', pointer AnyTime (app_RespondedAt approval)),
      (''dispatch_error_code'', AnyText (app_DispatchErrorCode approval))]"

definition usageView :: "UsageSnapshot \<Rightarrow> any" where
  "usageView snapshot = AnyMap
     [(''id'', AnyText (use_ID snapshot)), (''provider'', AnyText (use_Provider snapshot)),
      (''account_id'', AnyText (use_AccountID snapshot)), (''device_id'', AnyText (use_DeviceID snapshot)),
      (''source'', AnyUsageSource (use_Source snapshot)),
      (''confidence'', AnyUsageConfidence (use_Confidence snapshot)),
      (''window_kind'', AnyText (use_WindowKind snapshot)),
      (''used_value'', pointer AnyFloat (use_UsedValue snapshot)),
      (''limit_value'', pointer AnyFloat (use_LimitValue snapshot)),
      (''used_percent'', pointer AnyFloat (use_UsedPercent snapshot)),
      (''resets_at'', pointer AnyTime (use_ResetsAt snapshot)),
      (''observed_at'', AnyTime (use_ObservedAt snapshot)),
      (''raw_reference_hash'', AnyText (use_RawReferenceHash snapshot)),
      (''source_version'', AnyText (use_SourceVersion snapshot)),
      (''capability_status'', AnyUsageCapabilityStatus (use_CapabilityStatus snapshot)),
      (''error_code'', AnyText (use_ErrorCode snapshot))]"

definition leaseView :: "ControllerLease \<Rightarrow> any" where
  "leaseView lease = AnyMap
     [(''session_id'', AnyText (lease_SessionID lease)), (''holder_device_id'', AnyText (lease_HolderDeviceID lease)),
      (''revision'', AnyInt (lease_Revision lease)), (''expires_at'', AnyTime (lease_ExpiresAt lease)),
      (''last_heartbeat_at'', AnyTime (lease_LastHeartbeat lease)),
      (''released_at'', pointer AnyTime (lease_ReleasedAt lease))]"

definition clientView :: "ClientIdentity \<Rightarrow> any" where
  "clientView client = AnyMap
     [(''id'', AnyText (cli_ID client)), (''name'', AnyText (cli_Name client)),
      (''revision'', AnyInt (cli_Revision client)), (''status'', AnyClientStatus (cli_Status client)),
      (''capabilities'', AnyCapabilities (cli_Caps client)), (''created_at'', AnyTime (cli_CreatedAt client)),
      (''updated_at'', AnyTime (cli_UpdatedAt client))]"

section \<open>account_service.go\<close>

definition nullableString :: "string \<Rightarrow> any" where
  "nullableString x = (if x = '''' then AnyNil else AnyText x)"

definition nullableID :: "ID \<Rightarrow> any" where
  "nullableID x = (if x = '''' then AnyNil else AnyText x)"

text \<open>The next cursor of a page, nil when it is the empty text.\<close>

definition nullableToken :: "page_token \<Rightarrow> any" where
  "nullableToken token = (if token = NoToken then AnyNil else AnyToken token)"

text \<open>A pointer is put into a map only when it is not nil.\<close>

definition putOptional :: "string \<Rightarrow> ('a \<Rightarrow> any) \<Rightarrow> 'a option \<Rightarrow> (string \<times> any) list \<Rightarrow> (string \<times> any) list" where
  "putOptional key f x target = (case x of None \<Rightarrow> target | Some a \<Rightarrow> target @ [(key, f a)])"

definition registryAccountView :: "Account \<Rightarrow> any" where
  "registryAccountView account = AnyMap
     [(''id'', AnyText (acc_ID account)), (''provider'', AnyText (acc_Provider account)),
      (''display_name'', AnyText (acc_DisplayName account)),
      (''subscription_hint'', AnyText (acc_SubscriptionHint account)),
      (''enabled'', AnyBool (acc_Enabled account)), (''revision'', AnyInt (acc_Revision account)),
      (''created_at'', AnyTime (acc_CreatedAt account)), (''updated_at'', AnyTime (acc_UpdatedAt account))]"

definition registryProfileView :: "RuntimeProfile \<Rightarrow> CredentialInstance option \<Rightarrow> any" where
  "registryProfileView profile credential = AnyMap
     [(''id'', AnyText (prof_ID profile)), (''account_id'', AnyText (prof_AccountID profile)),
      (''device_id'', AnyText (prof_DeviceID profile)), (''name'', AnyText (prof_Name profile)),
      (''provider'', AnyText (prof_Provider profile)), (''selector'', AnyText (''@'' @ prof_SelectorAlias profile)),
      (''enabled'', AnyBool (prof_Enabled profile)), (''revision'', AnyInt (prof_Revision profile)),
      (''auth_status'', case credential of None \<Rightarrow> AnyText ''login_required'' | Some c \<Rightarrow> AnyCredentialStatus (cred_Status c)),
      (''availability'', AnyAvailability (case credential of None \<Rightarrow> AvailabilityUnknown
         | Some c \<Rightarrow> if cred_Availability c = OtherAvailability '''' then AvailabilityUnknown else cred_Availability c)),
      (''last_validated_at'', pointer AnyTime (case credential of None \<Rightarrow> None | Some c \<Rightarrow> cred_LastValidatedAt c)),
      (''created_at'', AnyTime (prof_CreatedAt profile)), (''updated_at'', AnyTime (prof_UpdatedAt profile))]"

definition bindingView :: "ProfileBinding \<Rightarrow> any" where
  "bindingView binding = AnyMap
     [(''account'', registryAccountView (bind_Account binding)),
      (''profile'', registryProfileView (bind_Profile binding) (bind_Credential binding))]"

definition windowView :: "UsageWindow \<Rightarrow> any" where
  "windowView window = AnyMap
     (putOptional ''resets_at'' AnyTime (win_ResetsAt window)
     (putOptional ''remaining_percent'' AnyFloat (win_RemainingPercent window)
     (putOptional ''used_percent'' AnyFloat (win_UsedPercent window)
     (putOptional ''limit_value'' AnyFloat (win_LimitValue window)
     (putOptional ''used_value'' AnyFloat (win_UsedValue window)
     (putOptional ''duration_seconds'' AnyInt (win_DurationSeconds window)
       [(''provider_limit_id'', AnyText (win_ProviderLimitID window)), (''kind'', AnyUsageWindowKind (win_Kind window)),
        (''label'', AnyText (win_Label window))]))))))"

definition registryUsageView :: "UsageSnapshot \<Rightarrow> time \<Rightarrow> any" where
  "registryUsageView snapshot shownAt = AnyMap
     [(''snapshot_id'', AnyText (use_ID snapshot)), (''account_id'', AnyText (use_AccountID snapshot)),
      (''credential_instance_id'', nullableID (use_CredentialInstanceID snapshot)),
      (''device_id'', AnyText (use_DeviceID snapshot)), (''provider'', AnyText (use_Provider snapshot)),
      (''provider_version'', AnyText (use_ProviderVersion snapshot)),
      (''source'', AnyUsageSource (use_Source snapshot)),
      (''confidence'', AnyUsageConfidence (use_Confidence snapshot)),
      (''availability'', AnyAvailability (use_Availability snapshot)),
      (''observed_at'', AnyTime (use_ObservedAt snapshot)), (''stale_at'', AnyTime (use_StaleAt snapshot)),
      (''stale'', AnyBool (use_StaleAt snapshot < shownAt)),
      (''windows'', AnyList (map windowView (use_Windows snapshot)))]"

end
