(* ===== verification/ServiceAccounts.thy ===== *)
theory ServiceAccounts
  imports ServiceViews
begin

text \<open>
  \<open>src/internal/app/account_service.go\<close>, the account and profile registry: \<open>handleAccountMethod\<close>
  has one definition per case of its switch, in the order of the switch.
\<close>

definition registry_methods :: "string list" where
  "registry_methods =
     [''accounts.create'', ''accounts.list'', ''accounts.show'', ''accounts.update'', ''accounts.disable'',
      ''accounts.enable'', ''accounts.delete'',
      ''profiles.create'', ''profiles.list'', ''profiles.show'', ''profiles.resolveAlias'', ''profiles.update'',
      ''profiles.disable'', ''profiles.enable'', ''profiles.delete'', ''profiles.validate'',
      ''provider.login.begin'', ''provider.login.status'', ''provider.login.cancel'', ''provider.logout'',
      ''provider.shell'', ''usage.list'', ''usage.refresh'']"

definition registryMethod :: "string \<Rightarrow> bool" where
  "registryMethod request_method = (request_method \<in> set registry_methods)"

text \<open>\<open>resolveCodexProfile\<close> of \<open>session_service.go\<close>: exactly one of a selector and an identifier.\<close>

definition resolveCodexProfile :: "string \<Rightarrow> ID \<Rightarrow> db \<Rightarrow> error + ProfileBinding" where
  "resolveCodexProfile selector profileID d =
     (if (selector = '''') = (profileID = '''')
      then fail CodeInvalidArgument ''exactly one profile selector or profile ID is required''
      else if selector \<noteq> ''''
      then bindE (ResolveProfile selector d) (\<lambda>binding.
             if prof_Provider (bind_Profile binding) \<noteq> ProviderCodex \<or> acc_Provider (bind_Account binding) \<noteq> ProviderCodex
             then fail CodeProfileBindingChanged ''profile is not a public Codex profile''
             else Inr binding)
      else
     bindE (RuntimeProfile_read profileID d) (\<lambda>profile.
     bindE (Account_read (prof_AccountID profile) d) (\<lambda>account.
     bindE (if prof_CredentialInstanceID profile \<noteq> ''''
            then bindE (CredentialInstance_read (prof_CredentialInstanceID profile) d) (\<lambda>c. Inr (Some c))
            else Inr None) (\<lambda>credential.
     if prof_Provider profile \<noteq> ProviderCodex \<or> acc_Provider account \<noteq> ProviderCodex \<or>
        prof_Internal profile \<or> acc_Internal account
     then fail CodeProfileBindingChanged ''profile is not a public Codex profile''
     else Inr \<lparr>bind_Account = account, bind_Profile = profile, bind_Credential = credential\<rparr>))))"

definition handle_accounts_create :: "('x, 'p) service \<Rightarrow> Request \<Rightarrow> (('x, 'p) service_state, any) run" where
  "handle_accounts_create svc request =
     bindS (liftS (decodeBody (body_registry_account (svc_bodies svc)) request)) (\<lambda>body.
     if \<not> PublicProvider (rab_Provider body)
     then failS CodeInvalidArgument ''public provider must be codex or claude''
     else
     bindS (load Device_read) (\<lambda>deviceRecord.
     bindS (new_id svc ''account'') (\<lambda>accountID.
     bindS (new_id svc ''profile'') (\<lambda>profileID.
     bindS (service_now svc) (\<lambda>createdAt.
     let account = \<lparr>acc_ID = accountID, acc_Provider = rab_Provider body, acc_DisplayName = rab_Name body,
           acc_ProviderSubjectDigest = '''', acc_SubscriptionHint = rab_SubscriptionHint body, acc_Internal = False,
           acc_Enabled = True, acc_Revision = 1, acc_CreatedAt = createdAt, acc_UpdatedAt = createdAt\<rparr>;
         profile = \<lparr>prof_ID = profileID, prof_DeviceID = dev_ID deviceRecord, prof_AccountID = accountID,
           prof_CredentialInstanceID = '''', prof_Name = rab_Name body, prof_Provider = rab_Provider body,
           prof_SelectorAlias = rab_Alias body, prof_SelectorKey = '''', prof_Settings = ''{}'',
           prof_Internal = False, prof_Enabled = True, prof_Revision = 1, prof_CreatedAt = createdAt,
           prof_UpdatedAt = createdAt\<rparr>
     in bindS (store (CreateAccountWithDefaultProfile account profile)) (\<lambda>(createdAccount, createdProfile).
        returnS (AnyMap [(''account'', registryAccountView createdAccount),
                         (''profile'', registryProfileView createdProfile None)])))))))"

definition handle_accounts_list :: "('x, 'p) service \<Rightarrow> Request \<Rightarrow> (('x, 'p) service_state, any) run" where
  "handle_accounts_list svc request =
     bindS (liftS (decodeOptionalBody (body_list (svc_bodies svc))
              \<lparr>lsb_Provider = '''', lsb_AccountID = '''', lsb_Limit = 0, lsb_Cursor = NoToken\<rparr> request)) (\<lambda>body.
     bindS (load (ListAccountPage (svc_filter_sum svc)
              \<lparr>alo_Provider = lsb_Provider body, alo_Limit = lsb_Limit body, alo_Cursor = lsb_Cursor body\<rparr>)) (\<lambda>page.
     returnS (AnyMap [(''items'', AnyList (map registryAccountView (ap_Items page))),
                      (''next_cursor'', nullableToken (ap_NextCursor page))])))"

definition handle_accounts_show :: "('x, 'p) service \<Rightarrow> Request \<Rightarrow> (('x, 'p) service_state, any) run" where
  "handle_accounts_show svc request =
     bindS (liftS (decodeBody (body_target (svc_bodies svc)) request)) (\<lambda>body.
     bindS (load (AccountBySelector (tgb_Target body))) (\<lambda>account.
     bindS (load (ListProfiles (svc_filter_sum svc)
              \<lparr>plo_AccountID = acc_ID account, plo_Limit = MaxPageLimit, plo_Cursor = NoToken\<rparr>)) (\<lambda>profiles.
     returnS (AnyMap [(''account'', registryAccountView account),
                      (''profiles'', AnyList (map (\<lambda>p. registryProfileView p None) (pp_Items profiles))),
                      (''next_cursor'', nullableToken (pp_NextCursor profiles))]))))"

definition handle_account_change :: "('x, 'p) service \<Rightarrow> Request \<Rightarrow> (('x, 'p) service_state, any) run" where
  "handle_account_change svc request =
     bindS (liftS (decodeBody (body_target (svc_bodies svc)) request)) (\<lambda>body.
     bindS (load (AccountBySelector (tgb_Target body))) (\<lambda>account.
     if rq_Method request = ''accounts.update''
     then bindS (service_now svc) (\<lambda>t.
          bindS (store (UpdateAccount (acc_ID account) (tgb_ExpectedRevision body)
                   \<lparr>apatch_DisplayName = tgb_Name body, apatch_SubscriptionHint = tgb_SubscriptionHint body\<rparr> t)) (\<lambda>updated.
          returnS (registryAccountView updated)))
     else if rq_Method request = ''accounts.disable'' \<or> rq_Method request = ''accounts.enable''
     then bindS (service_now svc) (\<lambda>t.
          bindS (store (SetAccountEnabledRevision (acc_ID account) (tgb_ExpectedRevision body)
                   (rq_Method request = ''accounts.enable'') t)) (\<lambda>updated.
          returnS (registryAccountView updated)))
     else bindS (service_now svc) (\<lambda>t.
          bindS (store (DeleteAccount (acc_ID account) (tgb_ExpectedRevision body) t)) (\<lambda>_.
          returnS (AnyMap [(''id'', AnyText (acc_ID account)), (''deleted'', AnyBool True)])))))"

definition handle_profiles_create :: "('x, 'p) service \<Rightarrow> Request \<Rightarrow> (('x, 'p) service_state, any) run" where
  "handle_profiles_create svc request =
     bindS (liftS (decodeBody (body_registry_profile (svc_bodies svc)) request)) (\<lambda>body.
     bindS (load (PublicAccount (rpb_AccountID body))) (\<lambda>account.
     bindS (load Device_read) (\<lambda>deviceRecord.
     bindS (new_id svc ''profile'') (\<lambda>profileID.
     bindS (service_now svc) (\<lambda>createdAt.
     bindS (store (CreateProfile account
              \<lparr>prof_ID = profileID, prof_DeviceID = dev_ID deviceRecord, prof_AccountID = acc_ID account,
               prof_CredentialInstanceID = '''', prof_Name = rpb_Name body, prof_Provider = acc_Provider account,
               prof_SelectorAlias = rpb_Alias body, prof_SelectorKey = '''', prof_Settings = ''{}'',
               prof_Internal = False, prof_Enabled = True, prof_Revision = 1, prof_CreatedAt = createdAt,
               prof_UpdatedAt = createdAt\<rparr>)) (\<lambda>profile.
     returnS (registryProfileView profile None)))))))"

definition handle_profiles_list :: "('x, 'p) service \<Rightarrow> Request \<Rightarrow> (('x, 'p) service_state, any) run" where
  "handle_profiles_list svc request =
     bindS (liftS (decodeOptionalBody (body_list (svc_bodies svc))
              \<lparr>lsb_Provider = '''', lsb_AccountID = '''', lsb_Limit = 0, lsb_Cursor = NoToken\<rparr> request)) (\<lambda>body.
     bindS (load (ListProfiles (svc_filter_sum svc)
              \<lparr>plo_AccountID = lsb_AccountID body, plo_Limit = lsb_Limit body, plo_Cursor = lsb_Cursor body\<rparr>)) (\<lambda>page.
     returnS (AnyMap [(''items'', AnyList (map (\<lambda>p. registryProfileView p None) (pp_Items page))),
                      (''next_cursor'', nullableToken (pp_NextCursor page))])))"

definition handle_profiles_show :: "('x, 'p) service \<Rightarrow> Request \<Rightarrow> (('x, 'p) service_state, any) run" where
  "handle_profiles_show svc request =
     bindS (liftS (decodeBody (body_target (svc_bodies svc)) request)) (\<lambda>body.
     bindS (load (ResolveProfileTarget (tgb_Target body))) (\<lambda>binding. returnS (bindingView binding)))"

definition handle_profiles_resolve :: "('x, 'p) service \<Rightarrow> Request \<Rightarrow> (('x, 'p) service_state, any) run" where
  "handle_profiles_resolve svc request =
     bindS (liftS (decodeBody (body_target (svc_bodies svc)) request)) (\<lambda>body.
     bindS (load (ResolveProfile (tgb_Target body))) (\<lambda>binding. returnS (bindingView binding)))"

definition handle_profile_change :: "('x, 'p) service \<Rightarrow> Request \<Rightarrow> (('x, 'p) service_state, any) run" where
  "handle_profile_change svc request =
     bindS (liftS (decodeBody (body_target (svc_bodies svc)) request)) (\<lambda>body.
     bindS (load (ResolveProfileTarget (tgb_Target body))) (\<lambda>binding.
     let profileID = prof_ID (bind_Profile binding) in
     if rq_Method request = ''profiles.update''
     then bindS (service_now svc) (\<lambda>t.
          bindS (store (UpdateProfile profileID (tgb_ExpectedRevision body)
                   \<lparr>ppatch_Name = tgb_Name body, ppatch_SelectorAlias = tgb_Alias body\<rparr> t)) (\<lambda>profile.
          returnS (registryProfileView profile (bind_Credential binding))))
     else if rq_Method request = ''profiles.disable'' \<or> rq_Method request = ''profiles.enable''
     then bindS (service_now svc) (\<lambda>t.
          bindS (store (SetProfileEnabled profileID (tgb_ExpectedRevision body)
                   (rq_Method request = ''profiles.enable'') t)) (\<lambda>profile.
          returnS (registryProfileView profile (bind_Credential binding))))
     else bindS (service_now svc) (\<lambda>t.
          bindS (store (DeleteProfile profileID (tgb_ExpectedRevision body) t)) (\<lambda>_.
          returnS (AnyMap [(''id'', AnyText profileID), (''deleted'', AnyBool True)])))))"

text \<open>The clock is read once per snapshot.\<close>

fun usage_views :: "('x, 'p) service \<Rightarrow> UsageSnapshot list \<Rightarrow> (('x, 'p) service_state, any list) run" where
  "usage_views svc [] = returnS []"
| "usage_views svc (snapshot # snapshots) =
     bindS (service_now svc) (\<lambda>t.
     bindS (usage_views svc snapshots) (\<lambda>views. returnS (registryUsageView snapshot t # views)))"

definition handle_usage_list :: "('x, 'p) service \<Rightarrow> Request \<Rightarrow> (('x, 'p) service_state, any) run" where
  "handle_usage_list svc request =
     bindS (liftS (decodeOptionalBody (body_registry_usage (svc_bodies svc)) '''' request)) (\<lambda>profile.
     bindS (if profile \<noteq> ''''
            then bindS (load (ResolveProfile profile)) (\<lambda>binding. returnS (acc_ID (bind_Account binding)))
            else returnS '''') (\<lambda>accountID.
     bindS (load (ListUsageSnapshotsWithWindows accountID)) (\<lambda>snapshots.
     bindS (usage_views svc snapshots) (\<lambda>items.
     returnS (AnyMap [(''items'', AnyList items)])))))"

definition handle_profiles_validate :: "('x, 'p) service \<Rightarrow> Request \<Rightarrow> (('x, 'p) service_state, any) run" where
  "handle_profiles_validate svc request =
     bindS (liftS (decodeBody (body_target (svc_bodies svc)) request)) (\<lambda>body.
     bindS (load (ResolveProfileTarget (tgb_Target body))) (\<lambda>_.
     failS CodeProviderUnavailable ''provider operation is not available in P1''))"

definition handle_provider_operation :: "('x, 'p) service \<Rightarrow> Request \<Rightarrow> (('x, 'p) service_state, any) run" where
  "handle_provider_operation svc request =
     bindS (liftS (decodeBody (body_target (svc_bodies svc)) request)) (\<lambda>body.
     bindS (load (ResolveProfile (tgb_Target body))) (\<lambda>_.
     failS CodeProviderUnavailable ''provider operation is not available in P1''))"

definition handle_usage_refresh :: "('x, 'p) service \<Rightarrow> Request \<Rightarrow> (('x, 'p) service_state, any) run" where
  "handle_usage_refresh svc request =
     bindS (liftS (decodeOptionalBody (body_registry_usage (svc_bodies svc)) '''' request)) (\<lambda>profile.
     if profile = '''' then failS CodeInvalidArgument ''usage refresh requires an explicit profile selector''
     else
     bindS (load (resolveCodexProfile profile '''')) (\<lambda>binding.
     if (case bind_Credential binding of None \<Rightarrow> True | Some c \<Rightarrow> cred_Status c \<noteq> CredentialHealthy)
     then failS CodeIdentityConfirmationRequired ''profile login is not confirmed''
     else if rt_codex (svc_runtime svc) = None
     then failS CodeUsageUnavailable ''codex usage is unavailable without an active supported runtime''
     else
     bindS (bc_usage (svc_bridge svc) (acc_ID (bind_Account binding))) (\<lambda>snapshot.
     bindS (service_now svc) (\<lambda>t. returnS (registryUsageView snapshot t)))))"

definition handleAccountMethod :: "('x, 'p) service \<Rightarrow> Request \<Rightarrow> (('x, 'p) service_state, any) run" where
  "handleAccountMethod svc request =
     (let is_one = (\<lambda>ms. rq_Method request \<in> set ms) in
      if rq_Method request = ''accounts.create'' then handle_accounts_create svc request
      else if rq_Method request = ''accounts.list'' then handle_accounts_list svc request
      else if rq_Method request = ''accounts.show'' then handle_accounts_show svc request
      else if is_one [''accounts.update'', ''accounts.disable'', ''accounts.enable'', ''accounts.delete'']
      then handle_account_change svc request
      else if rq_Method request = ''profiles.create'' then handle_profiles_create svc request
      else if rq_Method request = ''profiles.list'' then handle_profiles_list svc request
      else if rq_Method request = ''profiles.show'' then handle_profiles_show svc request
      else if rq_Method request = ''profiles.resolveAlias'' then handle_profiles_resolve svc request
      else if is_one [''profiles.update'', ''profiles.disable'', ''profiles.enable'', ''profiles.delete'']
      then handle_profile_change svc request
      else if rq_Method request = ''usage.list'' then handle_usage_list svc request
      else if rq_Method request = ''profiles.validate'' then handle_profiles_validate svc request
      else if is_one [''provider.login.begin'', ''provider.login.status'', ''provider.login.cancel'',
                      ''provider.logout'', ''provider.shell'']
      then handle_provider_operation svc request
      else if rq_Method request = ''usage.refresh'' then handle_usage_refresh svc request
      else failS CodeMethodNotFound ''method is not available'')"

end
