(* ===== verification/ServiceStaging.thy ===== *)
theory ServiceStaging
  imports ServiceAccounts StoreEnrollments
begin

text \<open>
  The directories of \<open>session_service.go\<close>: a login stages its files in a directory of its own,
  named by the enrollment, below \<open>enrollments\<close> next to the database; the home of a credential is
  named by the credential below the credential root. Nothing outside these is ever removed.
\<close>

definition staging_base :: "('x, 'p) service \<Rightarrow> string" where
  "staging_base svc = Clean (Join [Dir (svc_Path svc), ''enrollments''])"

definition stat_path :: "('x, 'p) service \<Rightarrow> string \<Rightarrow> (('x, 'p) service_state, file_stat) run" where
  "stat_path svc path = rest (\<lambda>x. case files_stat (svc_files svc) path x of (st, x') \<Rightarrow> (Inr st, x'))"

definition make_directory :: "('x, 'p) service \<Rightarrow> string \<Rightarrow> (('x, 'p) service_state, bool) run" where
  "make_directory svc path = rest (files_mkdir (svc_files svc) path)"

text \<open>\<open>domain.WrapError(domain.CodeConflict, message, err)\<close> around a call.\<close>

definition wrapping :: "string \<Rightarrow> ('s, 'a) run \<Rightarrow> ('s, 'a) run" where
  "wrapping message m = catchS m (\<lambda>e. throwS (WrapError CodeConflict message e))"

definition removeEnrollmentStaging :: "('x, 'p) service \<Rightarrow> string \<Rightarrow> (('x, 'p) service_state, unit) run" where
  "removeEnrollmentStaging svc path =
     (if path = '''' then failS CodeInvalidArgument ''enrollment staging path is invalid''
      else let base = staging_base svc; clean = Clean path
      in if Dir clean \<noteq> base \<or> clean = base \<or> \<not> is_ok (ValidateID (Base clean))
         then failS CodeConflict ''enrollment staging path escaped its root''
         else bindS (stat_path svc base) (\<lambda>info.
              case info of
                StatMissing \<Rightarrow> returnS ()
              | StatFailed \<Rightarrow> throwS (WrapError CodeConflict ''enrollment staging root could not be checked'' (OtherError ''lstat''))
              | StatDirectory \<Rightarrow> wrapping ''enrollment staging could not be removed'' (rest (files_remove_all (svc_files svc) clean))
              | _ \<Rightarrow> failS CodeConflict ''enrollment staging root is unsafe''))"

definition createEnrollmentStaging :: "('x, 'p) service \<Rightarrow> ID \<Rightarrow> (('x, 'p) service_state, string) run" where
  "createEnrollmentStaging svc enrollmentID =
     (if \<not> is_ok (ValidateID enrollmentID)
      then failS CodeInvalidArgument ''enrollment staging identity is invalid''
      else let base = staging_base svc; staging = Join [base, enrollmentID] in
     bindS (wrapping ''enrollment staging root could not be created'' (make_directory svc base)) (\<lambda>_.
     bindS (stat_path svc base) (\<lambda>info.
     if info \<noteq> StatDirectory then failS CodeConflict ''enrollment staging root is unsafe''
     else
     bindS (rest (files_protect (svc_files svc) base)) (\<lambda>_.
     bindS (wrapping ''enrollment staging could not be created''
              (bindS (make_directory svc staging) (\<lambda>created. if created then returnS () else throwS (OtherError ''file exists'')))) (\<lambda>_.
     bindS (catchS (rest (files_protect (svc_files svc) staging))
              (\<lambda>e. bindS (ignoreS (rest (files_remove (svc_files svc) staging))) (\<lambda>_. throwS e))) (\<lambda>_.
     returnS staging))))))"

fun remove_entries :: "('x, 'p) service \<Rightarrow> string \<Rightarrow> string list \<Rightarrow> (('x, 'p) service_state, unit) run" where
  "remove_entries svc base [] = returnS ()"
| "remove_entries svc base (name # names) =
     (let path = Join [base, name]
      in if Dir path \<noteq> base then failS CodeConflict ''enrollment staging entry escaped its root''
         else bindS (wrapping ''orphan enrollment staging could not be removed'' (rest (files_remove_all (svc_files svc) path)))
                (\<lambda>_. remove_entries svc base names))"

definition removeOrphanEnrollmentStaging :: "('x, 'p) service \<Rightarrow> (('x, 'p) service_state, unit) run" where
  "removeOrphanEnrollmentStaging svc =
     (let base = staging_base svc in
      bindS (stat_path svc base) (\<lambda>info.
      case info of
        StatMissing \<Rightarrow> returnS ()
      | StatFailed \<Rightarrow> throwS (WrapError CodeConflict ''enrollment staging root could not be checked'' (OtherError ''lstat''))
      | StatDirectory \<Rightarrow>
          bindS (wrapping ''enrollment staging root could not be listed'' (rest (files_list (svc_files svc) base)))
            (remove_entries svc base)
      | _ \<Rightarrow> failS CodeConflict ''enrollment staging root is unsafe''))"

definition removeCredentialHome :: "('x, 'p) service \<Rightarrow> ID \<Rightarrow> (('x, 'p) service_state, unit) run" where
  "removeCredentialHome svc credentialID =
     (if \<not> is_ok (ValidateID credentialID) then failS CodeInvalidArgument ''credential home identity is invalid''
      else if svc_CredentialHomeRoot svc = '''' then returnS ()
      else let base = Clean (svc_CredentialHomeRoot svc);
               home = Join [base, credentialID];
               lockPath = Join [base, credentialID @ ''.writer.lock''] in
      bindS (stat_path svc base) (\<lambda>info.
      if info = StatMissing then returnS ()
      else if info \<noteq> StatDirectory then failS CodeConflict ''credential home root is unsafe''
      else if Dir home \<noteq> base then failS CodeConflict ''credential home escaped its root''
      else
      bindS (wrapping ''credential home could not be removed'' (rest (files_remove_all (svc_files svc) home))) (\<lambda>_.
      if Dir lockPath \<noteq> base then failS CodeConflict ''credential writer lock escaped its root''
      else wrapping ''credential writer lock could not be removed'' (rest (files_remove_all (svc_files svc) lockPath)))))"

fun remove_stagings :: "('x, 'p) service \<Rightarrow> string list \<Rightarrow> (('x, 'p) service_state, unit) run" where
  "remove_stagings svc [] = returnS ()"
| "remove_stagings svc (path # paths) =
     bindS (removeEnrollmentStaging svc path) (\<lambda>_. remove_stagings svc paths)"

section \<open>Recovery\<close>

definition RecoverPendingApprovals :: "('x, 'p) service \<Rightarrow> (('x, 'p) service_state, unit) run" where
  "RecoverPendingApprovals svc =
     bindS (service_now svc) (\<lambda>t1.
     bindS (store (ExpirePendingApprovals (svc_expiry_key svc) t1)) (\<lambda>_.
     bindS (service_now svc) (\<lambda>t2.
     bindS (store (ExpireAuthEnrollments t2)) (\<lambda>paths.
     bindS (remove_stagings svc paths) (\<lambda>_.
     bindS (service_now svc) (\<lambda>t3.
     bindS (store (DeleteExpiredSessionStartPreviews t3)) (\<lambda>_.
     removeOrphanEnrollmentStaging svc)))))))"

section \<open>The Codex binary\<close>

definition requireSelectorPlatform :: "('x, 'p) service \<Rightarrow> BinaryDescriptor \<Rightarrow> error + unit" where
  "requireSelectorPlatform svc descriptor =
     (case svc_SelectorPlatformGate svc of
        Some gate \<Rightarrow> gate descriptor | None \<Rightarrow> RequireSelectorPlatform descriptor)"

definition probe :: "('x, 'p) service \<Rightarrow> BinaryDescriptor \<Rightarrow> (('x, 'p) service_state, CapabilitySet \<times> error option) run" where
  "probe svc descriptor = rest (\<lambda>x. case ct_probe (svc_codex svc) descriptor x of (r, x') \<Rightarrow> (Inr r, x'))"

definition selectorPreflight :: "('x, 'p) service \<Rightarrow> (('x, 'p) service_state, SelectorPreflight) run" where
  "selectorPreflight svc =
     (case svc_SelectorPreflight svc of
        Some preflight \<Rightarrow> rest preflight
      | None \<Rightarrow>
          bindS (rest (ct_discover (svc_codex svc))) (\<lambda>descriptor.
          bindS (liftS (requireSelectorPlatform svc descriptor)) (\<lambda>_.
          bindS (probe svc descriptor) (\<lambda>(capabilities, err).
          bindS (liftS (case err of Some e \<Rightarrow> Inl e | None \<Rightarrow> Inr ())) (\<lambda>_.
          if bd_Version descriptor \<noteq> ''0.144.2'' \<or> cap_Status capabilities \<noteq> CapabilitySupported
          then failS CodeProviderVersionUnsupported ''Codex selector compatibility is unsupported''
          else
          bindS (rest (ct_fingerprint (svc_codex svc) descriptor)) (\<lambda>binaryFingerprint.
          returnS \<lparr>pf_ProviderVersion = bd_Version descriptor, pf_BinaryFingerprint = binaryFingerprint,
            pf_SchemaFingerprint = cap_SchemaFingerprint capabilities,
            pf_CapabilityDigest = ct_digest (svc_codex svc) capabilities,
            pf_Capabilities = [CapabilityProviderUsageRead, CapabilitySessionControl]\<rparr>))))))"

definition codexDescribe :: "('x, 'p) service \<Rightarrow> (('x, 'p) service_state, (string \<times> any) list) run" where
  "codexDescribe svc =
     catchS
       (bindS (rest (ct_discover (svc_codex svc))) (\<lambda>descriptor.
        bindS (probe svc descriptor) (\<lambda>(capabilities, probeErr).
        case probeErr of
          Some e \<Rightarrow>
            let status = (if cap_Status capabilities = OtherCapabilityStatus ''''
                          then CapabilityUnsupported else cap_Status capabilities)
            in returnS [(''provider'', AnyText ProviderCodex), (''status'', AnyCapabilityStatus status), (''phase'', AnyText ''P1''),
                 (''binary_path'', AnyText (bd_Path descriptor)), (''version'', AnyText (bd_Version descriptor)),
                 (''platform'', AnyText (bd_Platform descriptor)), (''architecture'', AnyText (bd_Architecture descriptor)),
                 (''schema_fingerprint'', AnyText (bd_SchemaFingerprint descriptor)),
                 (''capabilities'', AnyTexts (cap_Methods capabilities)), (''reason'', AnyErrorCode (CodeOf (Some e)))]
        | None \<Rightarrow>
            returnS [(''provider'', AnyText ProviderCodex), (''status'', AnyCapabilityStatus (cap_Status capabilities)),
                 (''phase'', AnyText ''P1''), (''binary_path'', AnyText (cap_BinaryPath capabilities)),
                 (''version'', AnyText (cap_Version capabilities)), (''platform'', AnyText (cap_Platform capabilities)),
                 (''architecture'', AnyText (cap_Architecture capabilities)),
                 (''schema_fingerprint'', AnyText (cap_SchemaFingerprint capabilities)),
                 (''capabilities'', AnyTexts (cap_Methods capabilities)),
                 (''experimental'', AnyTexts (cap_Experimental capabilities))])))
       (\<lambda>_. returnS [(''provider'', AnyText ProviderCodex), (''status'', AnyText ''unsupported''), (''phase'', AnyText ''P1''),
               (''capabilities'', AnyTexts []), (''reason'', AnyText ''codex binary was not discovered'')])"

text \<open>\<open>describe["status"]\<close>: a missing key is nil.\<close>

definition map_value :: "(string \<times> any) list \<Rightarrow> string \<Rightarrow> any" where
  "map_value m key = (case map_of m key of None \<Rightarrow> AnyNil | Some v \<Rightarrow> v)"

end
