(* ===== verification/ServiceAuth.thy ===== *)
theory ServiceAuth
  imports ServiceStaging
begin

text \<open>
  The \<open>auth.*\<close> methods of \<open>session_service.go\<close>: a login is begun with a staging directory, completed
  by the official client there, confirmed by the client that began it, and only then sealed into
  the vault. Every failure after a claim finishes the enrollment as failed and removes its files.
\<close>

definition enrollmentAliasDigest :: "('x, 'p) service \<Rightarrow> ID \<Rightarrow> string \<Rightarrow> error + string" where
  "enrollmentAliasDigest svc enrollmentID alias =
     bindE (ParseProfileSelector alias) (\<lambda>key. Inr (hex_sum svc (''@'' @ key @ NUL @ enrollmentID)))"

definition client_digest :: "('x, 'p) service \<Rightarrow> AuthContext \<Rightarrow> Request \<Rightarrow> string" where
  "client_digest svc auth request = hex_sum svc (auth_ClientID auth @ NUL @ rq_IdempotencyKey request)"

definition minutes :: "int \<Rightarrow> duration" where
  "minutes n = n * (60 * second)"

section \<open>Begin\<close>

definition begun_view :: "ID \<Rightarrow> BinaryDescriptor \<Rightarrow> string \<Rightarrow> time \<Rightarrow> any" where
  "begun_view enrollmentID descriptor staging expires = AnyMap
     [(''enrollment_id'', AnyText enrollmentID), (''binary_path'', AnyText (bd_Path descriptor)),
      (''argv'', AnyTexts [''login'']), (''staging_path'', AnyText staging), (''expires_at'', AnyTime expires)]"

definition new_credential :: "ID \<Rightarrow> RuntimeProfile \<Rightarrow> time \<Rightarrow> time \<Rightarrow> CredentialInstance" where
  "new_credential credentialID profile createdAt updatedAt =
     \<lparr>cred_ID = credentialID, cred_DeviceID = prof_DeviceID profile, cred_AccountID = prof_AccountID profile,
      cred_Provider = ProviderCodex, cred_AuthMethod = AuthMethodInteractive,
      cred_SecretRef = ''vault:'' @ credentialID, cred_Status = CredentialUnknown, cred_CredentialRevision = 1,
      cred_SecretDigest = replicate 64 (CHR ''0''), cred_Availability = OtherAvailability '''',
      cred_LastValidatedAt = None, cred_CreatedAt = createdAt, cred_UpdatedAt = updatedAt\<rparr>"

definition new_enrollment ::
  "ID \<Rightarrow> ID \<Rightarrow> RuntimeProfile \<Rightarrow> ID \<Rightarrow> string \<Rightarrow> string \<Rightarrow> string \<Rightarrow> time \<Rightarrow> time \<Rightarrow> time \<Rightarrow> AuthEnrollment" where
  "new_enrollment enrollmentID clientID profile credentialID fingerprint staging beginDigest expires createdAt updatedAt =
     \<lparr>enr_ID = enrollmentID, enr_ClientDeviceID = clientID, enr_RuntimeProfileID = prof_ID profile,
      enr_CredentialInstanceID = credentialID, enr_BinaryFingerprint = fingerprint, enr_StagingPath = staging,
      enr_State = EnrollmentBegun, enr_IdempotencyDigest = beginDigest, enr_CompletionIdempotencyDigest = '''',
      enr_ConfirmationAccountID = '''', enr_ConfirmationAccountRevision = 0, enr_ConfirmationProfileID = '''',
      enr_ConfirmationProfileRevision = 0, enr_ConfirmationCredentialID = '''',
      enr_ConfirmationCredentialRevision = 0, enr_ConfirmationAliasDigest = '''', enr_ConfirmedByClientID = '''',
      enr_ConfirmedAt = None, enr_ExpiresAt = expires, enr_CreatedAt = createdAt, enr_UpdatedAt = updatedAt\<rparr>"

text \<open>The part after the replay check: a new enrollment, with a new credential if none was named.\<close>

definition begin_enrollment_run ::
  "('x, 'p) service \<Rightarrow> AuthContext \<Rightarrow> RuntimeProfile \<Rightarrow> BinaryDescriptor \<Rightarrow> string \<Rightarrow> string \<Rightarrow> ID \<Rightarrow>
   (('x, 'p) service_state, any) run" where
  "begin_enrollment_run svc auth profile descriptor fingerprint beginDigest namedID =
     bindS (new_id svc ''enrollment'') (\<lambda>enrollmentID.
     bindS (if namedID = ''''
            then bindS (new_id svc ''credential'') (\<lambda>credentialID.
                 bindS (service_now svc) (\<lambda>t1.
                 bindS (service_now svc) (\<lambda>t2.
                 returnS (credentialID, Some (new_credential credentialID profile t1 t2)))))
            else returnS (namedID, None)) (\<lambda>(credentialID, credential).
     bindS (createEnrollmentStaging svc enrollmentID) (\<lambda>staging.
     bindS (service_now svc) (\<lambda>t3.
     bindS (service_now svc) (\<lambda>t4.
     bindS (service_now svc) (\<lambda>t5.
     let expires = t3 + minutes 10;
         enrollment = new_enrollment enrollmentID (auth_ClientID auth) profile credentialID fingerprint staging
                        beginDigest expires t4 t5
     in catchS
          (bindS (store (BeginAuthEnrollment enrollment credential)) (\<lambda>_.
           returnS (begun_view enrollmentID descriptor staging expires)))
          (\<lambda>e. bindS (ignoreS (removeEnrollmentStaging svc staging)) (\<lambda>_.
               bindS (getS (\<lambda>s. AuthEnrollmentByBeginDigest (auth_ClientID auth) beginDigest (mgr_db s))) (\<lambda>loaded.
               case loaded of
                 Inr replayed \<Rightarrow>
                   if enr_RuntimeProfileID replayed = prof_ID profile \<and> enr_BinaryFingerprint replayed = fingerprint
                   then returnS (begun_view (enr_ID replayed) descriptor (enr_StagingPath replayed) (enr_ExpiresAt replayed))
                   else throwS e
               | Inl _ \<Rightarrow> throwS e)))))))))"

definition handle_auth_begin :: "('x, 'p) service \<Rightarrow> AuthContext \<Rightarrow> Request \<Rightarrow> (('x, 'p) service_state, any) run" where
  "handle_auth_begin svc auth request =
     bindS (liftS (decodeBody (body_auth_begin (svc_bodies svc)) request)) (\<lambda>body.
     if abb_Mode body \<noteq> '''' \<and> abb_Mode body \<noteq> AuthMethodInteractive
     then failS CodeProviderUnsupported ''Codex auth mode is disabled''
     else
     bindS (service_now svc) (\<lambda>t.
     bindS (store_result (ExpireDueAuthEnrollments t)) (\<lambda>duePaths.
     bindS (remove_stagings svc duePaths) (\<lambda>_.
     bindS (require_unlocked svc) (\<lambda>_.
     bindS (load (resolveCodexProfile (abb_ProfileSelector body) (abb_ProfileID body))) (\<lambda>binding.
     let profile = bind_Profile binding in
     if prof_Provider profile \<noteq> ProviderCodex \<or> prof_AccountID profile = ''''
     then failS CodeConflict ''profile is not Codex-auth capable''
     else
     bindS (rest (ct_discover (svc_codex svc))) (\<lambda>descriptor.
     bindS (liftS (requireSelectorPlatform svc descriptor)) (\<lambda>_.
     bindS (rest (ct_fingerprint (svc_codex svc) descriptor)) (\<lambda>fingerprint.
     let beginDigest = client_digest svc auth request in
     bindS (getS (\<lambda>s. AuthEnrollmentByBeginDigest (auth_ClientID auth) beginDigest (mgr_db s))) (\<lambda>loaded.
     case loaded of
       Inr existing \<Rightarrow>
         if enr_RuntimeProfileID existing \<noteq> prof_ID profile
         then failS CodeConflict ''auth begin idempotency key was reused for another profile''
         else if enr_BinaryFingerprint existing \<noteq> fingerprint
         then failS CodeProviderVersionUnsupported ''enrollment binary changed''
         else returnS (begun_view (enr_ID existing) descriptor (enr_StagingPath existing) (enr_ExpiresAt existing))
     | Inl e \<Rightarrow>
         if CodeOf (Some e) \<noteq> Some CodeNotFound then throwS e
         else begin_enrollment_run svc auth profile descriptor fingerprint beginDigest (abb_CredentialID body)))))))))))"

section \<open>Complete\<close>

text \<open>The \<open>fail\<close> of the code: the enrollment is finished as failed, its files go, the cause stays.\<close>

definition fail_enrollment ::
  "('x, 'p) service \<Rightarrow> AuthContext \<Rightarrow> AuthEnrollment \<Rightarrow> error \<Rightarrow> (('x, 'p) service_state, 'a) run" where
  "fail_enrollment svc auth enrollment cause =
     bindS (service_now svc) (\<lambda>t.
     bindS (ignoreS (store (FinishAuthEnrollment (enr_ID enrollment) (auth_ClientID auth) EnrollmentFailed t))) (\<lambda>_.
     bindS (ignoreS (removeEnrollmentStaging svc (enr_StagingPath enrollment))) (\<lambda>_.
     throwS cause)))"

definition completion_view :: "ID \<Rightarrow> ID \<Rightarrow> ID \<Rightarrow> ID \<Rightarrow> string \<Rightarrow> time \<Rightarrow> any" where
  "completion_view enrollmentID credentialID accountID profileID selectorAlias expires = AnyMap
     [(''enrollment_id'', AnyText enrollmentID), (''credential_id'', AnyText credentialID),
      (''account_id'', AnyText accountID), (''runtime_profile_id'', AnyText profileID),
      (''profile_selector'', AnyText (''@'' @ selectorAlias)),
      (''state'', AnyEnrollmentState EnrollmentAwaitingConfirmation), (''confirmation_expires_at'', AnyTime expires)]"

definition sealed_view :: "ID \<Rightarrow> ID \<Rightarrow> int \<Rightarrow> any" where
  "sealed_view enrollmentID credentialID revision = AnyMap
     [(''enrollment_id'', AnyText enrollmentID), (''credential_id'', AnyText credentialID),
      (''state'', AnyEnrollmentState EnrollmentSucceeded), (''credential_revision'', AnyInt revision)]"

text \<open>The validation of a claimed enrollment, up to the confirmation it then waits for.\<close>

definition validate_claimed ::
  "('x, 'p) service \<Rightarrow> AuthContext \<Rightarrow> AuthEnrollment \<Rightarrow> (('x, 'p) service_state, any) run" where
  "validate_claimed svc auth enrollment =
     bindS (rest (ct_discover (svc_codex svc))) (\<lambda>descriptor.
     bindS (liftS (requireSelectorPlatform svc descriptor)) (\<lambda>_.
     bindS (rest (ct_fingerprint (svc_codex svc) descriptor)) (\<lambda>fingerprint.
     if fingerprint \<noteq> enr_BinaryFingerprint enrollment
     then failS CodeProviderVersionUnsupported ''enrollment binary changed''
     else
     bindS (rest (ct_validate (svc_codex svc) descriptor (enr_StagingPath enrollment))) (\<lambda>_.
     bindS (rest (ct_fingerprint (svc_codex svc) descriptor)) (\<lambda>postValidationFingerprint.
     if postValidationFingerprint \<noteq> enr_BinaryFingerprint enrollment
     then failS CodeProviderVersionUnsupported ''enrollment binary changed during validation''
     else
     bindS (rest (ct_read_auth (svc_codex svc) (enr_StagingPath enrollment))) (\<lambda>_.
     bindS (load (RuntimeProfile_read (enr_RuntimeProfileID enrollment))) (\<lambda>profile.
     if prof_SelectorAlias profile = '''' \<or> prof_Internal profile \<or> \<not> prof_Enabled profile
     then failS CodeIdentityConfirmationRequired ''public profile alias is required for auth confirmation''
     else
     bindS (load (CredentialInstance_read (enr_CredentialInstanceID enrollment))) (\<lambda>credential.
     bindS (load (Account_read (prof_AccountID profile))) (\<lambda>account.
     if \<not> acc_Enabled account \<or> acc_Internal account \<or> cred_AccountID credential \<noteq> acc_ID account \<or>
        cred_DeviceID credential \<noteq> prof_DeviceID profile
     then failS CodeProfileBindingChanged ''auth profile binding changed''
     else
     bindS (liftS (enrollmentAliasDigest svc (enr_ID enrollment) (''@'' @ prof_SelectorAlias profile))) (\<lambda>aliasDigest.
     bindS (service_now svc) (\<lambda>t.
     bindS (store (AwaitAuthEnrollmentConfirmation (enr_ID enrollment) (auth_ClientID auth) (acc_ID account)
              (prof_ID profile) (cred_ID credential) (acc_Revision account) (prof_Revision profile)
              (cred_CredentialRevision credential) aliasDigest t)) (\<lambda>awaiting.
     returnS (completion_view (enr_ID awaiting) (cred_ID credential) (acc_ID account) (prof_ID profile)
                (prof_SelectorAlias profile) (enr_ExpiresAt awaiting))))))))))))))"

definition handle_auth_complete :: "('x, 'p) service \<Rightarrow> AuthContext \<Rightarrow> Request \<Rightarrow> (('x, 'p) service_state, any) run" where
  "handle_auth_complete svc auth request =
     bindS (liftS (decodeBody (body_enrollment (svc_bodies svc)) request)) (\<lambda>enrollmentID.
     bindS (service_now svc) (\<lambda>t.
     bindS (catchS (store_result (ClaimAuthEnrollment enrollmentID (auth_ClientID auth) (client_digest svc auth request) t))
              (\<lambda>e. bindS (if CodeOf (Some e) = Some CodeDeadlineExceeded
                          then bindS (getS (\<lambda>s. AuthEnrollment_read enrollmentID (mgr_db s))) (\<lambda>loaded.
                               case loaded of
                                 Inr expired \<Rightarrow>
                                   if enr_ClientDeviceID expired = auth_ClientID auth
                                   then ignoreS (removeEnrollmentStaging svc (enr_StagingPath expired)) else returnS ()
                               | Inl _ \<Rightarrow> returnS ())
                          else returnS ()) (\<lambda>_. throwS e))) (\<lambda>enrollment.
     if enr_State enrollment = EnrollmentSucceeded
     then bindS (load (CredentialInstance_read (enr_CredentialInstanceID enrollment))) (\<lambda>credential.
          bindS (removeEnrollmentStaging svc (enr_StagingPath enrollment)) (\<lambda>_.
          returnS (sealed_view (enr_ID enrollment) (cred_ID credential) (cred_CredentialRevision credential))))
     else if enr_State enrollment = EnrollmentAwaitingConfirmation
     then bindS (load (RuntimeProfile_read (enr_RuntimeProfileID enrollment))) (\<lambda>profile.
          returnS (completion_view (enr_ID enrollment) (enr_CredentialInstanceID enrollment)
                     (enr_ConfirmationAccountID enrollment) (enr_ConfirmationProfileID enrollment)
                     (prof_SelectorAlias profile) (enr_ExpiresAt enrollment)))
     else catchS (validate_claimed svc auth enrollment) (fail_enrollment svc auth enrollment))))"

section \<open>Confirm\<close>

text \<open>What the stored confirmation has to match: the binding as it is now.\<close>

definition confirmation_bound :: "AuthEnrollment \<Rightarrow> ProfileBinding \<Rightarrow> string \<Rightarrow> bool" where
  "confirmation_bound enrollment binding aliasDigest =
     (acc_ID (bind_Account binding) = enr_ConfirmationAccountID enrollment \<and>
      prof_ID (bind_Profile binding) = enr_ConfirmationProfileID enrollment \<and>
      enr_CredentialInstanceID enrollment = enr_ConfirmationCredentialID enrollment \<and>
      acc_Revision (bind_Account binding) = enr_ConfirmationAccountRevision enrollment \<and>
      prof_Revision (bind_Profile binding) = enr_ConfirmationProfileRevision enrollment \<and>
      aliasDigest = enr_ConfirmationAliasDigest enrollment)"

definition credential_unchanged :: "AuthEnrollment \<Rightarrow> ProfileBinding \<Rightarrow> CredentialInstance \<Rightarrow> bool" where
  "credential_unchanged enrollment binding credential =
     (cred_CredentialRevision credential = enr_ConfirmationCredentialRevision enrollment \<and>
      cred_AccountID credential = enr_ConfirmationAccountID enrollment \<and>
      cred_DeviceID credential = prof_DeviceID (bind_Profile binding) \<and>
      cred_Provider credential = ProviderCodex \<and>
      cred_Status credential \<noteq> CredentialRevoked \<and> cred_Status credential \<noteq> CredentialExpired)"

text \<open>The sealing of a confirmed enrollment, up to the removal of its files.\<close>

definition seal_confirmed ::
  "('x, 'p) service \<Rightarrow> AuthContext \<Rightarrow> AuthEnrollment \<Rightarrow> (('x, 'p) service_state, CredentialInstance \<times> int) run" where
  "seal_confirmed svc auth enrollment =
     bindS (the_vault svc) (\<lambda>env.
     bindS (require_unlocked svc) (\<lambda>_.
     bindS (rest (ct_discover (svc_codex svc))) (\<lambda>descriptor.
     bindS (liftS (requireSelectorPlatform svc descriptor)) (\<lambda>_.
     bindS (catchS (rest (ct_fingerprint (svc_codex svc) descriptor))
              (\<lambda>_. failS CodeProviderVersionUnsupported ''enrollment binary changed before confirmation'')) (\<lambda>fingerprint.
     if fingerprint \<noteq> enr_BinaryFingerprint enrollment
     then failS CodeProviderVersionUnsupported ''enrollment binary changed before confirmation''
     else
     bindS (rest (ct_validate (svc_codex svc) descriptor (enr_StagingPath enrollment))) (\<lambda>_.
     bindS (rest (ct_read_auth (svc_codex svc) (enr_StagingPath enrollment))) (\<lambda>credentialBytes.
     bindS (load (CredentialInstance_read (enr_CredentialInstanceID enrollment))) (\<lambda>credential.
     bindS (service_now svc) (\<lambda>t.
     bindS (on_vault (SealEnrollmentCredential env (enr_ID enrollment) (auth_ClientID auth)
              (enr_CompletionIdempotencyDigest enrollment)
              \<lparr>cm_CredentialInstanceID = cred_ID credential, cm_AccountID = cred_AccountID credential,
               cm_DeviceID = cred_DeviceID credential, cm_Provider = cred_Provider credential,
               cm_ExpectedRevision = cred_CredentialRevision credential,
               cm_CreatedAt = cred_CreatedAt credential, cm_UpdatedAt = t\<rparr> credentialBytes)) (\<lambda>revision.
     returnS (credential, revision)))))))))))"

definition handle_auth_confirm :: "('x, 'p) service \<Rightarrow> AuthContext \<Rightarrow> Request \<Rightarrow> (('x, 'p) service_state, any) run" where
  "handle_auth_confirm svc auth request =
     bindS (liftS (decodeBody (body_auth_confirm (svc_bodies svc)) request)) (\<lambda>body.
     if \<not> cfb_Confirmed body
     then failS CodeIdentityConfirmationRequired ''explicit auth confirmation is required''
     else
     bindS (load (AuthEnrollment_read (cfb_EnrollmentID body))) (\<lambda>enrollment.
     if enr_ClientDeviceID enrollment \<noteq> auth_ClientID auth
     then failS CodePermissionDenied ''auth enrollment owner is required''
     else if enr_State enrollment = EnrollmentSucceeded
     then (if enrollmentAliasDigest svc (enr_ID enrollment) (cfb_ProfileSelector body) \<noteq> Inr (enr_ConfirmationAliasDigest enrollment) \<or>
              enr_ConfirmedByClientID enrollment \<noteq> auth_ClientID auth
           then failS CodeIdentityConfirmationMismatch ''auth confirmation does not match enrollment''
           else
           bindS (load (CredentialInstance_read (enr_CredentialInstanceID enrollment))) (\<lambda>credential.
           bindS (removeEnrollmentStaging svc (enr_StagingPath enrollment)) (\<lambda>_.
           returnS (sealed_view (enr_ID enrollment) (cred_ID credential) (cred_CredentialRevision credential)))))
     else
     bindS (load (resolveCodexProfile (cfb_ProfileSelector body) '''')) (\<lambda>binding.
     bindS (liftS (enrollmentAliasDigest svc (enr_ID enrollment) (cfb_ProfileSelector body))) (\<lambda>aliasDigest.
     if \<not> confirmation_bound enrollment binding aliasDigest
     then failS CodeIdentityConfirmationMismatch ''auth confirmation does not match enrollment''
     else
     bindS (getS (\<lambda>s. CredentialInstance_read (enr_CredentialInstanceID enrollment) (mgr_db s))) (\<lambda>credentialBeforeConfirm.
     if (case credentialBeforeConfirm of Inl _ \<Rightarrow> True | Inr c \<Rightarrow> \<not> credential_unchanged enrollment binding c)
     then failS CodeProfileBindingChanged ''auth credential changed before confirmation''
     else
     bindS (service_now svc) (\<lambda>t.
     bindS (catchS (store_result (ConfirmAuthEnrollmentAttestation (enr_ID enrollment) (auth_ClientID auth) aliasDigest t))
              (\<lambda>e. bindS (if CodeOf (Some e) = Some CodeConfirmationExpired
                          then ignoreS (removeEnrollmentStaging svc (enr_StagingPath enrollment)) else returnS ())
                   (\<lambda>_. throwS e))) (\<lambda>confirmed.
     bindS (catchS (seal_confirmed svc auth confirmed) (fail_enrollment svc auth confirmed)) (\<lambda>(credential, revision).
     bindS (removeEnrollmentStaging svc (enr_StagingPath confirmed)) (\<lambda>_.
     returnS (sealed_view (enr_ID confirmed) (cred_ID credential) revision))))))))))"

section \<open>Cancel, status, logout\<close>

definition handle_auth_cancel :: "('x, 'p) service \<Rightarrow> AuthContext \<Rightarrow> Request \<Rightarrow> (('x, 'p) service_state, any) run" where
  "handle_auth_cancel svc auth request =
     bindS (liftS (decodeBody (body_enrollment (svc_bodies svc)) request)) (\<lambda>enrollmentID.
     bindS (load (AuthEnrollment_read enrollmentID)) (\<lambda>enrollment.
     if enr_ClientDeviceID enrollment \<noteq> auth_ClientID auth
     then failS CodePermissionDenied ''auth enrollment owner is required''
     else
     bindS (service_now svc) (\<lambda>t.
     bindS (store (FinishAuthEnrollment enrollmentID (auth_ClientID auth) EnrollmentCancelled t)) (\<lambda>finished.
     bindS (removeEnrollmentStaging svc (enr_StagingPath enrollment)) (\<lambda>_.
     returnS (AnyMap [(''enrollment_id'', AnyText (enr_ID finished)), (''state'', AnyEnrollmentState (enr_State finished))]))))))"

text \<open>The credential of a request that names it or its profile, but not both.\<close>

definition target_credential :: "string \<Rightarrow> ID \<Rightarrow> string \<Rightarrow> db \<Rightarrow> error + ID" where
  "target_credential operation credentialID selector d =
     bindE (if selector \<noteq> ''''
            then (if credentialID \<noteq> '''' then fail CodeInvalidArgument (''auth '' @ operation @ '' accepts one target'')
                  else bindE (resolveCodexProfile selector '''' d) (\<lambda>binding.
                       case bind_Credential binding of
                         None \<Rightarrow> fail CodeIdentityConfirmationRequired ''profile login is not confirmed''
                       | Some credential \<Rightarrow> Inr (cred_ID credential)))
            else Inr credentialID) (\<lambda>target.
     if target = '''' then fail CodeInvalidArgument (''auth '' @ operation @ '' target is required'') else Inr target)"

definition handle_auth_status :: "('x, 'p) service \<Rightarrow> AuthContext \<Rightarrow> Request \<Rightarrow> (('x, 'p) service_state, any) run" where
  "handle_auth_status svc auth request =
     bindS (liftS (decodeBody (body_auth_status (svc_bodies svc)) request)) (\<lambda>body.
     if asb_EnrollmentID body \<noteq> ''''
     then (if asb_CredentialID body \<noteq> '''' \<or> asb_ProfileSelector body \<noteq> ''''
           then failS CodeInvalidArgument ''auth status accepts one target''
           else
           bindS (load (AuthEnrollment_read (asb_EnrollmentID body))) (\<lambda>enrollment.
           if enr_ClientDeviceID enrollment \<noteq> auth_ClientID auth
           then failS CodePermissionDenied ''auth enrollment owner is required''
           else returnS (AnyMap [(''enrollment_id'', AnyText (enr_ID enrollment)),
                  (''credential_id'', AnyText (enr_CredentialInstanceID enrollment)),
                  (''state'', AnyEnrollmentState (enr_State enrollment)), (''expires_at'', AnyTime (enr_ExpiresAt enrollment))])))
     else
     bindS (load (target_credential ''status'' (asb_CredentialID body) (asb_ProfileSelector body))) (\<lambda>credentialID.
     bindS (load (CredentialInstance_read credentialID)) (\<lambda>credential.
     returnS (credentialView credential))))"

definition handle_auth_logout :: "('x, 'p) service \<Rightarrow> Request \<Rightarrow> (('x, 'p) service_state, any) run" where
  "handle_auth_logout svc request =
     bindS (liftS (decodeBody (body_credential (svc_bodies svc)) request)) (\<lambda>body.
     bindS (load (target_credential ''logout'' (crb_CredentialID body) (crb_ProfileSelector body))) (\<lambda>credentialID.
     bindS (service_now svc) (\<lambda>t1.
     bindS (store (ReserveVaultCredentialRevocation credentialID t1)) (\<lambda>_.
     bindS (removeCredentialHome svc credentialID) (\<lambda>_.
     bindS (service_now svc) (\<lambda>t2.
     bindS (store (FinalizeVaultCredentialRevocation credentialID t2)) (\<lambda>credential.
     returnS (credentialView credential))))))))"

end
