(* ===== verification/ServiceSessions.thy ===== *)
theory ServiceSessions
  imports ServiceAuth
begin

text \<open>
  The remaining methods of \<open>session_service.go\<close>: the vault, the plain lists, usage, approvals, and
  the sessions, which go through a confirmed preview unless they run the fake provider.
\<close>

section \<open>The vault\<close>

definition vault_status :: "(('x, 'p) service_state, VaultState) run" where
  "vault_status = getS (\<lambda>s. vm_state (sw_vault (mgr_world s)))"

definition handle_vault_status :: "('x, 'p) service \<Rightarrow> (('x, 'p) service_state, any) run" where
  "handle_vault_status svc =
     (case svc_vault svc of
        None \<Rightarrow> returnS (AnyMap [(''state'', AnyVaultState StateLocked)])
      | Some env \<Rightarrow> bindS vault_status (\<lambda>st. returnS (AnyMap [(''state'', AnyVaultState st)])))"

definition handle_vault_initialize :: "('x, 'p) service \<Rightarrow> AuthContext \<Rightarrow> Request \<Rightarrow> (('x, 'p) service_state, any) run" where
  "handle_vault_initialize svc auth request =
     bindS (the_vault svc) (\<lambda>env.
     bindS (liftS (decodeBody (body_vault (svc_bodies svc)) request)) (\<lambda>secret.
     bindS (service_now svc) (\<lambda>t.
     bindS (on_vault (Initialize env (auth_ClientID auth) (rq_IdempotencyKey request) secret t)) (\<lambda>st.
     returnS (AnyMap [(''state'', AnyVaultState st), (''initialized'', AnyBool True)])))))"

definition handle_vault_unlock :: "('x, 'p) service \<Rightarrow> Request \<Rightarrow> (('x, 'p) service_state, any) run" where
  "handle_vault_unlock svc request =
     bindS (the_vault svc) (\<lambda>env.
     bindS (liftS (decodeBody (body_vault (svc_bodies svc)) request)) (\<lambda>secret.
     bindS (on_vault (Unlock env secret)) (\<lambda>_.
     bindS vault_status (\<lambda>st. returnS (AnyMap [(''state'', AnyVaultState st)])))))"

definition handle_vault_lock :: "('x, 'p) service \<Rightarrow> (('x, 'p) service_state, any) run" where
  "handle_vault_lock svc =
     bindS (the_vault svc) (\<lambda>_.
     bindS (on_vault Lock) (\<lambda>_.
     bindS vault_status (\<lambda>st. returnS (AnyMap [(''state'', AnyVaultState st)]))))"

section \<open>Lists and the older registry methods\<close>

definition list_view :: "(db \<Rightarrow> error + 'r list) \<Rightarrow> ('r \<Rightarrow> any) \<Rightarrow> (('x, 'p) service_state, any) run" where
  "list_view entries view = bindS (load entries) (\<lambda>rows. returnS (AnyList (map view rows)))"

text \<open>
  The cases \<open>accounts.list\<close>, \<open>accounts.show\<close>, \<open>accounts.create\<close>, \<open>accounts.disable\<close>,
  \<open>profiles.list\<close>, \<open>profiles.create\<close> and \<open>profiles.delete\<close> of \<open>dispatch\<close>: the registry takes these
  methods before the switch is reached.
\<close>

definition legacy_registry :: "('x, 'p) service \<Rightarrow> Request \<Rightarrow> (('x, 'p) service_state, any) run" where
  "legacy_registry svc request =
     (if rq_Method request = ''accounts.list'' then list_view ListAccounts accountView
      else if rq_Method request = ''accounts.show''
      then bindS (liftS (decodeBody (body_account (svc_bodies svc)) request)) (\<lambda>accountID.
           bindS (load (Account_read accountID)) (\<lambda>account. returnS (accountView account)))
      else if rq_Method request = ''accounts.create''
      then bindS (liftS (decodeBody (body_account_create (svc_bodies svc)) request)) (\<lambda>body.
           bindS (new_id svc ''account'') (\<lambda>accountID.
           bindS (service_now svc) (\<lambda>t.
           let account = \<lparr>acc_ID = accountID, acc_Provider = acb_Provider body, acc_DisplayName = acb_DisplayName body,
                 acc_ProviderSubjectDigest = acb_ProviderSubjectDigest body, acc_SubscriptionHint = '''',
                 acc_Internal = False, acc_Enabled = True, acc_Revision = 0, acc_CreatedAt = t, acc_UpdatedAt = t\<rparr>
           in bindS (store (CreateAccount account)) (\<lambda>_. returnS (accountView account)))))
      else if rq_Method request = ''accounts.disable''
      then bindS (liftS (decodeBody (body_account (svc_bodies svc)) request)) (\<lambda>accountID.
           bindS (service_now svc) (\<lambda>t.
           bindS (store (SetAccountEnabled accountID False t)) (\<lambda>account. returnS (accountView account))))
      else if rq_Method request = ''profiles.list'' then list_view ListRuntimeProfiles profileView
      else if rq_Method request = ''profiles.create''
      then bindS (liftS (decodeBody (body_profile_create (svc_bodies svc)) request)) (\<lambda>body.
           bindS (new_id svc ''profile'') (\<lambda>profileID.
           bindS (service_now svc) (\<lambda>t.
           let profile = \<lparr>prof_ID = profileID, prof_DeviceID = pcb_DeviceID body, prof_AccountID = pcb_AccountID body,
                 prof_CredentialInstanceID = '''', prof_Name = pcb_Name body, prof_Provider = pcb_Provider body,
                 prof_SelectorAlias = '''', prof_SelectorKey = '''',
                 prof_Settings = (if pcb_Settings body = '''' then ''{}'' else pcb_Settings body),
                 prof_Internal = False, prof_Enabled = False, prof_Revision = 0, prof_CreatedAt = t, prof_UpdatedAt = t\<rparr>
           in bindS (store (CreateRuntimeProfile profile)) (\<lambda>_. returnS (profileView profile)))))
      else bindS (liftS (decodeBody (body_profile (svc_bodies svc)) request)) (\<lambda>profileID.
           bindS (store (DeleteRuntimeProfile profileID)) (\<lambda>_.
           returnS (AnyMap [(''profile_id'', AnyText profileID), (''deleted'', AnyBool True)]))))"

definition handle_profiles_edit :: "('x, 'p) service \<Rightarrow> Request \<Rightarrow> (('x, 'p) service_state, any) run" where
  "handle_profiles_edit svc request =
     bindS (liftS (decodeBody (body_profile_edit (svc_bodies svc)) request)) (\<lambda>body.
     bindS (load (RuntimeProfile_read (peb_ProfileID body))) (\<lambda>stored.
     bindS (service_now svc) (\<lambda>t.
     bindS (store (UpdateRuntimeProfile (stored\<lparr>
              prof_Name := if peb_Name body \<noteq> '''' then peb_Name body else prof_Name stored,
              prof_Provider := if peb_Provider body \<noteq> '''' then peb_Provider body else prof_Provider stored,
              prof_AccountID := if peb_AccountID body \<noteq> '''' then peb_AccountID body else prof_AccountID stored,
              prof_Settings := if peb_Settings body \<noteq> '''' then peb_Settings body else prof_Settings stored,
              prof_UpdatedAt := t\<rparr>))) (\<lambda>updated.
     returnS (profileView updated)))))"

definition handle_profile_validate :: "('x, 'p) service \<Rightarrow> Request \<Rightarrow> (('x, 'p) service_state, any) run" where
  "handle_profile_validate svc request =
     bindS (liftS (decodeBody (body_profile (svc_bodies svc)) request)) (\<lambda>profileID.
     bindS (load (RuntimeProfile_read profileID)) (\<lambda>profile.
     returnS (AnyMap [(''profile_id'', AnyText (prof_ID profile)), (''provider'', AnyText (prof_Provider profile)),
                      (''valid'', AnyBool True), (''account_id'', AnyText (prof_AccountID profile))])))"

definition handle_provider_health :: "('x, 'p) service \<Rightarrow> (('x, 'p) service_state, any) run" where
  "handle_provider_health svc =
     bindS (codexDescribe svc) (\<lambda>describe.
     returnS (AnyMap [(''provider'', AnyText ProviderCodex), (''status'', map_value describe ''status''),
                      (''version'', map_value describe ''version''),
                      (''binary_path'', map_value describe ''binary_path''), (''reason'', map_value describe ''reason'')]))"

section \<open>Usage and approvals\<close>

definition handle_usage_read :: "('x, 'p) service \<Rightarrow> Request \<Rightarrow> (('x, 'p) service_state, any) run" where
  "handle_usage_read svc request =
     bindS (liftS (if body_text request \<noteq> '''' then decodeBody (body_usage (svc_bodies svc)) request else Inr '''')) (\<lambda>accountID.
     if accountID = ''''
     then returnS (AnyMap [(''provider'', AnyText ProviderCodex), (''available'', AnyBool False),
            (''capability_status'', AnyUsageCapabilityStatus UsageUnavailable), (''snapshots'', AnyList [])])
     else
     bindS (if rt_codex (svc_runtime svc) = None then returnS UsageUnavailable
            else catchS (bindS (bc_usage (svc_bridge svc) accountID) (\<lambda>snapshot. returnS (use_CapabilityStatus snapshot)))
                   (\<lambda>e. if CodeOf (Some e) \<noteq> Some CodeUsageUnavailable then throwS e else returnS UsageUnavailable))
       (\<lambda>capabilityStatus.
     bindS (load (ListUsageSnapshots accountID)) (\<lambda>snapshots.
     returnS (AnyMap [(''provider'', AnyText ProviderCodex), (''available'', AnyBool (capabilityStatus = UsageSupported)),
            (''capability_status'', AnyUsageCapabilityStatus capabilityStatus),
            (''snapshots'', AnyList (map usageView snapshots))]))))"

definition handle_approval_list :: "('x, 'p) service \<Rightarrow> Request \<Rightarrow> (('x, 'p) service_state, any) run" where
  "handle_approval_list svc request =
     bindS (liftS (decodeBody (body_session (svc_bodies svc)) request)) (\<lambda>sessionID.
     list_view (ListApprovals sessionID) approvalView)"

definition handle_approval_respond :: "('x, 'p) service \<Rightarrow> AuthContext \<Rightarrow> Request \<Rightarrow> (('x, 'p) service_state, any) run" where
  "handle_approval_respond svc auth request =
     bindS (liftS (decodeBody (body_approval (svc_bodies svc)) request)) (\<lambda>body.
     bindS (liftS (requestRevision request)) (\<lambda>revision.
     bindS (load (Approval_read (arb_ApprovalID body))) (\<lambda>storedApproval.
     if app_SessionID storedApproval \<noteq> arb_SessionID body
     then failS CodeConflict ''approval does not belong to session''
     else
     bindS (catchS (bindS (load (ControllerLease_read (arb_SessionID body))) (\<lambda>lease.
                    bindS (service_now svc) (\<lambda>t.
                    liftS (RequireControl lease (auth_ClientID auth) revision t))))
              (\<lambda>_. failS CodeApprovalLeaseRequired ''controller lease is required for approval response'')) (\<lambda>_.
     if rt_codex (svc_runtime svc) = None
     then failS CodeProviderUnsupported ''approval dispatch requires the Codex runtime bridge''
     else
     bindS (bc_respond (svc_bridge svc) \<lparr>ad_SessionID = arb_SessionID body, ad_ApprovalID = arb_ApprovalID body,
              ad_ProviderApprovalID = arb_ProviderApprovalID body, ad_ResponderID = auth_ClientID auth,
              ad_ResponseKey = rq_IdempotencyKey request, ad_Decision = arb_Decision body,
              ad_LeaseRevision = revision\<rparr>) (\<lambda>approval.
     returnS (approvalView approval))))))"

section \<open>Starting sessions\<close>

definition handle_sessions_show :: "('x, 'p) service \<Rightarrow> Request \<Rightarrow> (('x, 'p) service_state, any) run" where
  "handle_sessions_show svc request =
     bindS (liftS (decodeBody (body_session (svc_bodies svc)) request)) (\<lambda>sessionID.
     bindS (load (Session_read sessionID)) (\<lambda>session. returnS (sessionView session)))"

definition preview_row ::
  "ID \<Rightarrow> ID \<Rightarrow> ProfileBinding \<Rightarrow> CredentialInstance \<Rightarrow> Workspace \<Rightarrow> ID \<Rightarrow> SelectorPreflight \<Rightarrow> time \<Rightarrow> time \<Rightarrow> SessionStartPreview" where
  "preview_row previewID clientID binding credential workspace usageID preflight createdAt expiresAt =
     \<lparr>prev_ID = previewID, prev_ClientID = clientID, prev_Provider = ProviderCodex,
      prev_AccountID = acc_ID (bind_Account binding), prev_AccountRevision = acc_Revision (bind_Account binding),
      prev_RuntimeProfileID = prof_ID (bind_Profile binding), prev_ProfileRevision = prof_Revision (bind_Profile binding),
      prev_CredentialInstanceID = cred_ID credential, prev_CredentialRevision = cred_CredentialRevision credential,
      prev_DeviceID = prof_DeviceID (bind_Profile binding), prev_WorkspaceID = ws_ID workspace,
      prev_WorkspaceUpdatedAt = ws_UpdatedAt workspace, prev_UsageSnapshotID = usageID,
      prev_ProviderVersion = pf_ProviderVersion preflight, prev_BinaryFingerprint = pf_BinaryFingerprint preflight,
      prev_SchemaFingerprint = pf_SchemaFingerprint preflight, prev_CapabilityDigest = pf_CapabilityDigest preflight,
      prev_CreatedAt = createdAt, prev_ExpiresAt = expiresAt, prev_ConsumedAt = None,
      prev_ConsumedRequestDigest = '''', prev_SessionID = ''''\<rparr>"

definition preview_view ::
  "SessionStartPreview \<Rightarrow> ProfileBinding \<Rightarrow> CredentialInstance \<Rightarrow> SelectorPreflight \<Rightarrow> ID \<Rightarrow> any \<Rightarrow> bool \<Rightarrow> any" where
  "preview_view preview binding credential preflight usageID usageObservedAt usageStale = AnyMap
     [(''schema_version'', AnyInt 1), (''preview_id'', AnyText (prev_ID preview)),
      (''expires_at'', AnyTime (prev_ExpiresAt preview)), (''provider'', AnyText ProviderCodex),
      (''account_id'', AnyText (acc_ID (bind_Account binding))),
      (''account_revision'', AnyInt (acc_Revision (bind_Account binding))),
      (''account_label'', AnyText (acc_DisplayName (bind_Account binding))),
      (''runtime_profile_id'', AnyText (prof_ID (bind_Profile binding))),
      (''profile_revision'', AnyInt (prof_Revision (bind_Profile binding))),
      (''profile_alias'', AnyText (prof_SelectorAlias (bind_Profile binding))),
      (''profile_label'', AnyText (prof_Name (bind_Profile binding))),
      (''credential_instance_id'', AnyText (cred_ID credential)),
      (''credential_revision'', AnyInt (cred_CredentialRevision credential)),
      (''auth_status'', AnyCredentialStatus (cred_Status credential)),
      (''device_id'', AnyText (prof_DeviceID (bind_Profile binding))),
      (''workspace_id'', AnyText (prev_WorkspaceID preview)),
      (''provider_version'', AnyText (pf_ProviderVersion preflight)),
      (''compatibility_status'', AnyText ''supported''),
      (''capability_snapshot'', AnyCapabilities (pf_Capabilities preflight)),
      (''usage_snapshot_id'', AnyText usageID), (''usage_observed_at'', usageObservedAt),
      (''usage_stale'', AnyBool usageStale)]"

definition handle_sessions_preview :: "('x, 'p) service \<Rightarrow> AuthContext \<Rightarrow> Request \<Rightarrow> (('x, 'p) service_state, any) run" where
  "handle_sessions_preview svc auth request =
     bindS (liftS (decodeBody (body_preview (svc_bodies svc)) request)) (\<lambda>body.
     if pvb_Provider body \<noteq> '''' \<and> pvb_Provider body \<noteq> ProviderCodex
     then failS CodeProfileBindingChanged ''selector preview is Codex-only''
     else
     bindS (require_unlocked svc) (\<lambda>_.
     bindS (selectorPreflight svc) (\<lambda>preflight.
     bindS (load (resolveCodexProfile (pvb_ProfileSelector body) '''')) (\<lambda>binding.
     if \<not> acc_Enabled (bind_Account binding) then failS CodeAccountDisabled ''account is disabled''
     else if \<not> prof_Enabled (bind_Profile binding) then failS CodeProfileDisabled ''profile is disabled''
     else case bind_Credential binding of
       None \<Rightarrow> failS CodeIdentityConfirmationRequired ''confirmed profile login is required''
     | Some credential \<Rightarrow>
     if cred_Status credential \<noteq> CredentialHealthy
     then failS CodeIdentityConfirmationRequired ''confirmed profile login is required''
     else
     bindS (load (Workspace_read (pvb_WorkspaceID body))) (\<lambda>workspace.
     if ws_DeviceID workspace \<noteq> prof_DeviceID (bind_Profile binding)
     then failS CodeProfileBindingChanged ''workspace does not match profile device''
     else
     bindS (load (ListUsageSnapshotsWithWindows (acc_ID (bind_Account binding)))) (\<lambda>snapshots.
     bindS (case snapshots of
              [] \<Rightarrow> returnS ('''', AnyNil, True)
            | latest # _ \<Rightarrow> bindS (service_now svc) (\<lambda>t.
                returnS (use_ID latest, AnyTime (use_ObservedAt latest), \<not> t < use_StaleAt latest)))
       (\<lambda>(usageID, usageObservedAt, usageStale).
     bindS (new_id svc ''preview'') (\<lambda>previewID.
     bindS (service_now svc) (\<lambda>t1.
     bindS (service_now svc) (\<lambda>t2.
     let preview = preview_row previewID (auth_ClientID auth) binding credential workspace usageID preflight t1 (t2 + minutes 10)
     in bindS (store (CreateSessionStartPreview preview)) (\<lambda>_.
     returnS (preview_view preview binding credential preflight usageID usageObservedAt usageStale))))))))))))"

text \<open>\<open>codexRawIDs\<close>: whether a request without a selector would run the Codex provider.\<close>

definition codex_raw_ids :: "startBody \<Rightarrow> db \<Rightarrow> error + bool" where
  "codex_raw_ids body d =
     (let named = (stb_Provider body = ProviderCodex \<or> stb_AccountID body \<noteq> '''')
      in if stb_ProfileSelector body = '''' \<and> stb_Provider body = '''' \<and> stb_RuntimeProfileID body \<noteq> ''''
         then bindE (RuntimeProfile_read (stb_RuntimeProfileID body) d) (\<lambda>profile.
                Inr (named \<or> prof_Provider profile = ProviderCodex))
         else Inr named)"

definition start_confirmation :: "profileConfirmation \<Rightarrow> SessionStartConfirmation" where
  "start_confirmation c =
     \<lparr>conf_Confirmed = pc_Confirmed c, conf_AccountID = pc_AccountID c, conf_AccountRevision = pc_AccountRevision c,
      conf_RuntimeProfileID = pc_RuntimeProfileID c, conf_ProfileRevision = pc_ProfileRevision c,
      conf_CredentialInstanceID = pc_CredentialInstanceID c, conf_CredentialRevision = pc_CredentialRevision c,
      conf_DeviceID = pc_DeviceID c, conf_WorkspaceID = pc_WorkspaceID c, conf_UsageSnapshotID = pc_UsageSnapshotID c,
      conf_ProviderVersion = pc_ProviderVersion c\<rparr>"

definition consume_request ::
  "('x, 'p) service \<Rightarrow> AuthContext \<Rightarrow> Request \<Rightarrow> startBody \<Rightarrow> profileConfirmation \<Rightarrow> SelectorPreflight \<Rightarrow>
   ProfileBinding \<Rightarrow> CredentialInstance \<Rightarrow> ID \<Rightarrow> time \<Rightarrow> time \<Rightarrow> ConsumeSessionStartPreviewRequest" where
  "consume_request svc auth request body confirmation preflight binding credential sessionID consumedAt startedAt =
     \<lparr>req_PreviewID = stb_PreviewID body, req_ClientID = auth_ClientID auth,
      req_RequestDigest = request_digest svc request, req_At = consumedAt,
      req_BinaryFingerprint = pf_BinaryFingerprint preflight, req_SchemaFingerprint = pf_SchemaFingerprint preflight,
      req_CapabilityDigest = pf_CapabilityDigest preflight, req_Confirmation = start_confirmation confirmation,
      req_Session = \<lparr>ses_ID = sessionID, ses_DeviceID = prof_DeviceID (bind_Profile binding),
        ses_AccountID = acc_ID (bind_Account binding), ses_Provider = ProviderCodex,
        ses_CredentialInstanceID = cred_ID credential, ses_RuntimeProfileID = prof_ID (bind_Profile binding),
        ses_WorkspaceID = stb_WorkspaceID body, ses_ProviderSessionID = '''', ses_ResumedFromSessionID = '''',
        ses_Status = SessionStarting, ses_StartedAt = startedAt, ses_EndedAt = None, ses_ExitCode = None,
        ses_CapabilitySnapshot = pf_Capabilities preflight, ses_FailureCode = ''''\<rparr>\<rparr>"

definition reserved_start ::
  "startBody \<Rightarrow> SelectorPreflight \<Rightarrow> ProfileBinding \<Rightarrow> CredentialInstance \<Rightarrow> ID \<Rightarrow> ReservedStartRequest" where
  "reserved_start body preflight binding credential sessionID =
     \<lparr>rs_SessionID = sessionID, rs_DeviceID = prof_DeviceID (bind_Profile binding),
      rs_AccountID = acc_ID (bind_Account binding), rs_CredentialInstanceID = cred_ID credential,
      rs_RuntimeProfileID = prof_ID (bind_Profile binding), rs_WorkspaceID = stb_WorkspaceID body,
      rs_ProviderVersion = pf_ProviderVersion preflight, rs_BinaryFingerprint = pf_BinaryFingerprint preflight,
      rs_SchemaFingerprint = pf_SchemaFingerprint preflight, rs_CapabilityDigest = pf_CapabilityDigest preflight\<rparr>"

definition start_selected ::
  "('x, 'p) service \<Rightarrow> AuthContext \<Rightarrow> Request \<Rightarrow> startBody \<Rightarrow> profileConfirmation \<Rightarrow> (('x, 'p) service_state, any) run" where
  "start_selected svc auth request body confirmation =
     bindS (selectorPreflight svc) (\<lambda>preflight.
     bindS (load (ResolveProfile (stb_ProfileSelector body))) (\<lambda>binding.
     if \<not> acc_Enabled (bind_Account binding) then failS CodeAccountDisabled ''account is disabled''
     else if \<not> prof_Enabled (bind_Profile binding) then failS CodeProfileDisabled ''profile is disabled''
     else case bind_Credential binding of
       None \<Rightarrow> failS CodeProfileBindingChanged ''profile credential changed after preview''
     | Some credential \<Rightarrow>
     bindS (new_id svc ''session'') (\<lambda>sessionID.
     bindS (service_now svc) (\<lambda>t1.
     bindS (service_now svc) (\<lambda>t2.
     bindS (store_result (ConsumeSessionStartPreview
              (consume_request svc auth request body confirmation preflight binding credential sessionID t1 t2))) (\<lambda>session.
     bindS (if ses_Status session = SessionStarting
            then StartReserved (svc_runtime svc) (reserved_start body preflight binding credential (ses_ID session))
            else returnS session) (\<lambda>started.
     returnS (sessionView started))))))))"

definition handle_sessions_start :: "('x, 'p) service \<Rightarrow> AuthContext \<Rightarrow> Request \<Rightarrow> (('x, 'p) service_state, any) run" where
  "handle_sessions_start svc auth request =
     bindS (liftS (decodeBody (body_start (svc_bodies svc)) request)) (\<lambda>body.
     bindS (load (codex_raw_ids body)) (\<lambda>codexRawIDs.
     if stb_ProfileSelector body \<noteq> '''' \<or> codexRawIDs
     then (case stb_Confirmation body of
             None \<Rightarrow> failS CodeIdentityConfirmationRequired ''daemon-issued preview and explicit confirmation are required''
           | Some confirmation \<Rightarrow>
               if stb_ProfileSelector body = '''' \<or> stb_PreviewID body = '''' \<or> \<not> pc_Confirmed confirmation
               then failS CodeIdentityConfirmationRequired ''daemon-issued preview and explicit confirmation are required''
               else start_selected svc auth request body confirmation)
     else
     bindS (Start (svc_runtime svc) \<lparr>start_DeviceID = stb_DeviceID body, start_Provider = stb_Provider body,
              start_AccountID = stb_AccountID body, start_CredentialInstanceID = stb_CredentialInstanceID body,
              start_RuntimeProfileID = stb_RuntimeProfileID body, start_WorkspaceID = stb_WorkspaceID body,
              start_Capabilities = stb_Capabilities body, start_ResumedFromSessionID = ''''\<rparr>) (\<lambda>session.
     returnS (sessionView session))))"

end
