(* ===== verification/SessionService.thy ===== *)
theory SessionService
  imports ServiceSessions StoreApprovals Frames
begin

text \<open>
  The rest of \<open>session_service.go\<close>: the methods that only pass a request on to the runtime manager,
  \<open>dispatch\<close>, and \<open>Handle\<close>, which runs a mutating method at most once per client, method and
  idempotency key.
\<close>

section \<open>Methods of the runtime manager\<close>

definition attachment_mode :: "string \<Rightarrow> AttachmentMode" where
  "attachment_mode mode =
     (if mode = '''' \<or> mode = ''observer'' then AttachmentObserver
      else if mode = ''controller'' then AttachmentController else OtherAttachmentMode mode)"

definition handle_sessions_attach :: "('x, 'p) service \<Rightarrow> AuthContext \<Rightarrow> Request \<Rightarrow> (('x, 'p) service_state, any) run" where
  "handle_sessions_attach svc auth request =
     bindS (liftS (decodeBody (body_attach (svc_bodies svc)) request)) (\<lambda>body.
     let mode = attachment_mode (atb_Mode body) in
     bindS (Attach (svc_runtime svc) (atb_SessionID body) (auth_ClientID auth) mode) (\<lambda>_.
     returnS (AnyMap [(''session_id'', AnyText (atb_SessionID body)), (''client_id'', AnyText (auth_ClientID auth)),
                      (''mode'', AnyAttachmentMode mode)])))"

definition handle_sessions_detach :: "('x, 'p) service \<Rightarrow> AuthContext \<Rightarrow> Request \<Rightarrow> (('x, 'p) service_state, any) run" where
  "handle_sessions_detach svc auth request =
     bindS (liftS (decodeBody (body_session (svc_bodies svc)) request)) (\<lambda>sessionID.
     bindS (Detach sessionID (auth_ClientID auth)) (\<lambda>_.
     returnS (AnyMap [(''session_id'', AnyText sessionID), (''client_id'', AnyText (auth_ClientID auth)),
                      (''detached'', AnyBool True)])))"

text \<open>A truncated replay is still shown; \<open>ReplaySession\<close> then carries the error with the rest.\<close>

definition handle_sessions_observe :: "('x, 'p) service \<Rightarrow> Request \<Rightarrow> (('x, 'p) service_state, any) run" where
  "handle_sessions_observe svc request =
     bindS (liftS (decodeBody (body_observe (svc_bodies svc)) request)) (\<lambda>body.
     bindS (catchS (ReplaySession (obb_SessionID body) (obb_FromSequence body))
              (\<lambda>e. if CodeOf (Some e) \<noteq> Some CodeReplayUnavailable then throwS e
                   else returnS (Some e, \<lparr>rep_Chunks = [], rep_Truncated = False, rep_NextSequence = 0\<rparr>)))
       (\<lambda>(replayErr, replay).
     case replayErr of
       Some e \<Rightarrow>
         if CodeOf (Some e) \<noteq> Some CodeReplayUnavailable then throwS e
         else returnS (AnyMap [(''session_id'', AnyText (obb_SessionID body)), (''next_sequence'', AnyInt (rep_NextSequence replay)),
                (''truncated'', AnyBool (rep_Truncated replay)), (''chunks'', AnyChunks (rep_Chunks replay))])
     | None \<Rightarrow>
         returnS (AnyMap [(''session_id'', AnyText (obb_SessionID body)), (''next_sequence'', AnyInt (rep_NextSequence replay)),
                (''truncated'', AnyBool (rep_Truncated replay)), (''chunks'', AnyChunks (rep_Chunks replay))])))"

definition handle_control_acquire :: "('x, 'p) service \<Rightarrow> AuthContext \<Rightarrow> Request \<Rightarrow> (('x, 'p) service_state, any) run" where
  "handle_control_acquire svc auth request =
     bindS (liftS (decodeBody (body_session (svc_bodies svc)) request)) (\<lambda>sessionID.
     bindS (Acquire (svc_runtime svc) sessionID (auth_ClientID auth)) (\<lambda>lease. returnS (leaseView lease)))"

definition handle_control_heartbeat :: "('x, 'p) service \<Rightarrow> AuthContext \<Rightarrow> Request \<Rightarrow> (('x, 'p) service_state, any) run" where
  "handle_control_heartbeat svc auth request =
     bindS (liftS (decodeBody (body_session (svc_bodies svc)) request)) (\<lambda>sessionID.
     bindS (liftS (requestRevision request)) (\<lambda>revision.
     bindS (HeartbeatLease (svc_runtime svc) sessionID (auth_ClientID auth) revision) (\<lambda>lease. returnS (leaseView lease))))"

definition handle_control_release :: "('x, 'p) service \<Rightarrow> AuthContext \<Rightarrow> Request \<Rightarrow> (('x, 'p) service_state, any) run" where
  "handle_control_release svc auth request =
     bindS (liftS (decodeBody (body_session (svc_bodies svc)) request)) (\<lambda>sessionID.
     bindS (liftS (requestRevision request)) (\<lambda>revision.
     bindS (ReleaseLease (svc_runtime svc) sessionID (auth_ClientID auth) revision) (\<lambda>lease. returnS (leaseView lease))))"

definition handle_terminal_input :: "('x, 'p) service \<Rightarrow> AuthContext \<Rightarrow> Request \<Rightarrow> (('x, 'p) service_state, any) run" where
  "handle_terminal_input svc auth request =
     bindS (liftS (decodeBody (body_input (svc_bodies svc)) request)) (\<lambda>body.
     bindS (liftS (requestRevision request)) (\<lambda>revision.
     bindS (Input (svc_runtime svc) \<lparr>in_SessionID = inb_SessionID body, in_ClientID = auth_ClientID auth,
              in_Revision = revision, in_Sequence = inb_Sequence body, in_Payload = inb_Payload body\<rparr>) (\<lambda>result.
     returnS (AnyInputResult result))))"

definition handle_terminal_resize :: "('x, 'p) service \<Rightarrow> AuthContext \<Rightarrow> Request \<Rightarrow> (('x, 'p) service_state, any) run" where
  "handle_terminal_resize svc auth request =
     bindS (liftS (decodeBody (body_resize (svc_bodies svc)) request)) (\<lambda>body.
     bindS (liftS (requestRevision request)) (\<lambda>revision.
     bindS (Resize (svc_runtime svc) \<lparr>rz_SessionID = rzb_SessionID body, rz_ClientID = auth_ClientID auth,
              rz_Revision = revision, rz_Rows = rzb_Rows body, rz_Cols = rzb_Cols body\<rparr>) (\<lambda>_.
     returnS (AnyMap [(''session_id'', AnyText (rzb_SessionID body)), (''rows'', AnyInt (rzb_Rows body)),
                      (''cols'', AnyInt (rzb_Cols body))]))))"

definition handle_sessions_stop :: "('x, 'p) service \<Rightarrow> AuthContext \<Rightarrow> Request \<Rightarrow> (('x, 'p) service_state, any) run" where
  "handle_sessions_stop svc auth request =
     bindS (liftS (decodeBody (body_session (svc_bodies svc)) request)) (\<lambda>sessionID.
     bindS (liftS (requestRevision request)) (\<lambda>revision.
     bindS (if rq_Method request = ''sessions.stop'' \<or> rq_Method request = ''session.stop''
            then Stop (svc_runtime svc) (svc_ticks svc) sessionID (auth_ClientID auth) revision
            else Kill (svc_runtime svc) sessionID (auth_ClientID auth) revision) (\<lambda>session.
     returnS (sessionView session))))"

definition handle_sessions_resume :: "('x, 'p) service \<Rightarrow> Request \<Rightarrow> (('x, 'p) service_state, any) run" where
  "handle_sessions_resume svc request =
     bindS (liftS (decodeBody (body_session (svc_bodies svc)) request)) (\<lambda>sessionID.
     bindS (Resume_session (svc_runtime svc) sessionID) (\<lambda>session. returnS (sessionView session)))"

section \<open>Dispatch\<close>

definition dispatch :: "('x, 'p) service \<Rightarrow> AuthContext \<Rightarrow> Request \<Rightarrow> (('x, 'p) service_state, any) run" where
  "dispatch svc auth request =
     (let m = rq_Method request in
      if registryMethod m then handleAccountMethod svc request
      else if m = ''daemon.status'' then returnS (AnyMap [(''status'', AnyText ''ok''), (''schema_version'', AnyInt 1)])
      else if m = ''vault.status'' then handle_vault_status svc
      else if m = ''vault.initialize'' then handle_vault_initialize svc auth request
      else if m = ''vault.unlock'' then handle_vault_unlock svc request
      else if m = ''vault.lock'' then handle_vault_lock svc
      else if m = ''sessions.list'' then list_view ListSessions sessionView
      else if m = ''client.list'' then list_view ListClientIdentities clientView
      else if m \<in> set [''accounts.list'', ''accounts.show'', ''accounts.create'', ''accounts.disable'',
                       ''profiles.list'', ''profiles.create'', ''profiles.delete'']
      then legacy_registry svc request
      else if m = ''profiles.edit'' then handle_profiles_edit svc request
      else if m = ''credentials.status'' then list_view ListCredentialInstances credentialView
      else if m = ''provider.describe'' then bindS (codexDescribe svc) (\<lambda>describe. returnS (AnyMap describe))
      else if m = ''provider.health'' then handle_provider_health svc
      else if m = ''profile.validate'' then handle_profile_validate svc request
      else if m = ''auth.begin'' then handle_auth_begin svc auth request
      else if m = ''auth.complete'' then handle_auth_complete svc auth request
      else if m = ''auth.confirm'' then handle_auth_confirm svc auth request
      else if m = ''auth.cancel'' then handle_auth_cancel svc auth request
      else if m = ''auth.status'' then handle_auth_status svc auth request
      else if m = ''auth.logout'' then handle_auth_logout svc request
      else if m = ''usage.read'' then handle_usage_read svc request
      else if m = ''approval.list'' \<or> m = ''approval.observe'' then handle_approval_list svc request
      else if m = ''approval.respond'' then handle_approval_respond svc auth request
      else if m = ''sessions.show'' then handle_sessions_show svc request
      else if m = ''sessions.preview'' then handle_sessions_preview svc auth request
      else if m = ''sessions.start'' \<or> m = ''session.start'' then handle_sessions_start svc auth request
      else if m = ''sessions.attach'' then handle_sessions_attach svc auth request
      else if m = ''sessions.detach'' then handle_sessions_detach svc auth request
      else if m = ''sessions.observe'' then handle_sessions_observe svc request
      else if m = ''control.acquire'' then handle_control_acquire svc auth request
      else if m = ''control.heartbeat'' then handle_control_heartbeat svc auth request
      else if m = ''control.release'' then handle_control_release svc auth request
      else if m = ''terminal.input'' \<or> m = ''session.input'' then handle_terminal_input svc auth request
      else if m = ''terminal.resize'' \<or> m = ''session.resize'' then handle_terminal_resize svc auth request
      else if m = ''sessions.stop'' \<or> m = ''session.stop'' \<or> m = ''sessions.kill'' then handle_sessions_stop svc auth request
      else if m = ''sessions.resume'' \<or> m = ''session.resume'' then handle_sessions_resume svc request
      else failS CodeMethodNotFound ''method is not available'')"

section \<open>Idempotency\<close>

definition requiresIdempotency :: "string \<Rightarrow> bool" where
  "requiresIdempotency request_method \<longleftrightarrow> request_method \<in> set
     [''sessions.start'', ''session.start'', ''sessions.attach'', ''sessions.detach'', ''control.acquire'',
      ''terminal.input'', ''terminal.resize'', ''session.input'', ''session.resize'', ''sessions.stop'',
      ''session.stop'', ''sessions.kill'', ''sessions.resume'', ''session.resume'', ''accounts.create'',
      ''accounts.disable'', ''profiles.create'', ''profiles.edit'', ''profiles.delete'', ''auth.begin'',
      ''auth.complete'', ''auth.confirm'', ''auth.cancel'', ''auth.logout'', ''approval.respond'']"

definition idempotency_record :: "('x, 'p) service \<Rightarrow> ID \<Rightarrow> Request \<Rightarrow> string \<Rightarrow> time \<Rightarrow> IdempotencyRecord" where
  "idempotency_record svc clientID request encoded createdAt =
     \<lparr>idem_ClientID = clientID, idem_Method = rq_Method request, idem_IdempotencyKey = rq_IdempotencyKey request,
      idem_RequestDigest = request_digest svc request, idem_ResponseCode = ''ok'', idem_ResponseMetadata = encoded,
      idem_CreatedAt = createdAt\<rparr>"

definition stored_response :: "ID \<Rightarrow> Request \<Rightarrow> (('x, 'p) service_state, error + IdempotencyRecord) run" where
  "stored_response clientID request =
     getS (\<lambda>s. IdempotencyRecord_read clientID (rq_Method request) (rq_IdempotencyKey request) (mgr_db s))"

text \<open>The mutex is held from the first lookup to the save.\<close>

definition withIdempotency ::
  "('x, 'p) service \<Rightarrow> ID \<Rightarrow> Request \<Rightarrow> (('x, 'p) service_state, any) run \<Rightarrow> (('x, 'p) service_state, any) run" where
  "withIdempotency svc clientID request fn =
     bindS (stored_response clientID request) (\<lambda>found.
     case found of
       Inr record \<Rightarrow>
         if idem_RequestDigest record \<noteq> request_digest svc request
         then failS CodeConflict ''idempotency key was reused with a different request''
         else returnS (AnyRaw (idem_ResponseMetadata record))
     | Inl e \<Rightarrow>
         if CodeOf (Some e) \<noteq> Some CodeNotFound then throwS e
         else
     bindS fn (\<lambda>result.
     case svc_marshal svc result of
       Inl e \<Rightarrow> failS CodeFrameTooLarge ''idempotent response exceeds limit''
     | Inr encoded \<Rightarrow>
         if MaxFrameBytes < length encoded
         then failS CodeFrameTooLarge ''idempotent response exceeds limit''
         else
     bindS (service_now svc) (\<lambda>t.
     catchS (bindS (store (SaveIdempotencyRecord (idempotency_record svc clientID request encoded t))) (\<lambda>_. returnS result))
       (\<lambda>e. if CodeOf (Some e) = Some CodeConflict
            then bindS (stored_response clientID request) (\<lambda>again.
                 case again of
                   Inr stored \<Rightarrow>
                     if idem_RequestDigest stored = request_digest svc request
                     then returnS (AnyRaw (idem_ResponseMetadata stored)) else throwS e
                 | Inl _ \<Rightarrow> throwS e)
            else throwS e))))"

definition Handle :: "('x, 'p) service \<Rightarrow> AuthContext \<Rightarrow> Request \<Rightarrow> (('x, 'p) service_state, any) run" where
  "Handle svc auth request =
     (if rq_Method request = ''vault.initialize'' \<or> rq_Method request = ''vault.unlock''
      then (if rq_IdempotencyKey request = '''' then failS CodeInvalidArgument ''idempotency key is required''
            else dispatch svc auth request)
      else if requiresIdempotency (rq_Method request)
      then (if rq_IdempotencyKey request = '''' then failS CodeInvalidArgument ''idempotency key is required''
            else withIdempotency svc (auth_ClientID auth) request (dispatch svc auth request))
      else dispatch svc auth request)"

end
