(* ===== verification/ServiceLaws.thy ===== *)
theory ServiceLaws
  imports SessionService RuntimeLaws VaultManagerLaws
begin

text \<open>
  The service over the store: whatever a request does, the store goes through a history of its own
  operations, and the answer recorded for an idempotency key is the only answer it ever gets.
\<close>

section \<open>Conditions that only look at the store\<close>

definition db_closed :: "(('w, 'p) manager \<Rightarrow> bool) \<Rightarrow> bool" where
  "db_closed I = (\<forall>s s'. I s \<longrightarrow> store_op\<^sup>*\<^sup>* (mgr_db s) (mgr_db s') \<longrightarrow> I s')"

lemma db_closedD: "db_closed I \<Longrightarrow> I s \<Longrightarrow> store_op\<^sup>*\<^sup>* (mgr_db s) (mgr_db s') \<Longrightarrow> I s'"
  by (simp add: db_closed_def)

lemma db_closed_store: "db_closed I \<Longrightarrow> store_closed I"
  unfolding store_closed_def by (auto elim!: db_closedD)

lemma db_closed_leases: "db_closed I \<Longrightarrow> lease_closed I"
  unfolding lease_closed_def by (auto elim!: db_closedD intro!: r_into_rtranclp store_op.intros(3) child_op.intros(3))

lemma db_closed_history: "db_closed (history d)"
  by (auto simp: db_closed_def history_def)

text \<open>What is asked of the calls the service makes beyond the store: that they go through it.\<close>

definition service_ok :: "('x, 'p) service \<Rightarrow> bool" where
  "service_ok svc \<longleftrightarrow> bridge_ok (svc_runtime svc) \<and>
     (\<forall>I. db_closed I \<longrightarrow> (\<forall>a. keeps I (bc_usage (svc_bridge svc) a)) \<and> (\<forall>r. keeps I (bc_respond (svc_bridge svc) r)) \<and>
        (\<forall>tick s. tick \<in> set (svc_ticks svc) \<longrightarrow> I s \<longrightarrow> I (tick s)))"

lemma keeps_db_store:
  "db_closed I \<Longrightarrow> (\<And>d a d'. f d = Inr (a, d') \<Longrightarrow> store_op d d') \<Longrightarrow> keeps I (store f)"
  unfolding store_def by (rule keeps_transact) (auto elim!: db_closedD)

lemma keeps_store_result:
  "db_closed I \<Longrightarrow> (\<And>d r d'. f d = (r, d') \<Longrightarrow> store_op d d') \<Longrightarrow> keeps I (store_result f)"
  unfolding store_result_def
  by (rule keeps_zoom) (metis (no_types, lifting) db_closedD manager.select_convs(1) manager.surjective
      manager.update_convs(1) prod.collapse r_into_rtranclp)

lemma keeps_rest: "db_closed I \<Longrightarrow> keeps I (rest m)"
  unfolding rest_def by (rule keeps_world [OF db_closed_store])

lemma keeps_service_now: "db_closed I \<Longrightarrow> keeps I (service_now svc)"
  unfolding service_now_def by (rule keeps_rest)

lemma keeps_new_id: "db_closed I \<Longrightarrow> keeps I (new_id svc p)"
  unfolding new_id_def by (intro keeping keeps_rest)

lemma keeps_vault_guards [keeping]: "keeps I (the_vault svc)" "keeps I (require_unlocked svc)"
  unfolding require_unlocked_def the_vault_def by (intro keeping)+

text \<open>A run of the vault is a history of the store too.\<close>

lemma keeps_vault_store:
  "(\<And>d a d'. f d = Inr (a, d') \<Longrightarrow> store_op d d') \<Longrightarrow> keeps (\<lambda>v. store_op\<^sup>*\<^sup>* d0 (vs_db v)) (vault_store f)"
  unfolding vault_store_def by (rule keeps_transact) (auto intro: rtranclp.rtrancl_into_rtrancl)

lemma keeps_vault_parts [keeping]:
  "keeps (\<lambda>v. store_op\<^sup>*\<^sup>* d0 (vs_db v)) (set_manager f)" "keeps (\<lambda>v. store_op\<^sup>*\<^sup>* d0 (vs_db v)) (vault_load g)"
  "keeps (\<lambda>v. store_op\<^sup>*\<^sup>* d0 (vs_db v)) (random_bytes env n)"
  by (simp_all add: keeps_def random_bytes_def set_manager_def vault_load_def modifyS_def bindS_def getS_def liftS_def
      split: prod.split option.split)

lemma vault_runs_history:
  "keeps (\<lambda>v. store_op\<^sup>*\<^sup>* d0 (vs_db v)) (Initialize env c k pw t)"
  "keeps (\<lambda>v. store_op\<^sup>*\<^sup>* d0 (vs_db v)) (Unlock env pw)"
  "keeps (\<lambda>v. store_op\<^sup>*\<^sup>* d0 (vs_db v)) Lock"
  "keeps (\<lambda>v. store_op\<^sup>*\<^sup>* d0 (vs_db v)) (SealEnrollmentCredential env e c dg md p)"
proof -
  note ops = store_op.intros(8) [OF vault_op.intros(1)] store_op.intros(8) [OF vault_op.intros(2)]
    store_op.intros(5) [OF enrollment_op.intros(8)]
  show "keeps (\<lambda>v. store_op\<^sup>*\<^sup>* d0 (vs_db v)) (Initialize env c k pw t)"
    "keeps (\<lambda>v. store_op\<^sup>*\<^sup>* d0 (vs_db v)) (Unlock env pw)"
    "keeps (\<lambda>v. store_op\<^sup>*\<^sup>* d0 (vs_db v)) Lock"
    "keeps (\<lambda>v. store_op\<^sup>*\<^sup>* d0 (vs_db v)) (SealEnrollmentCredential env e c dg md p)"
    unfolding Initialize_def Unlock_def Lock_def SealEnrollmentCredential_def sealCredential_def Let_def
    by (auto intro!: keeping keeps_vault_store intro: ops split: if_splits)
qed

lemma keeps_on_vault:
  assumes "db_closed I" "\<And>d0. keeps (\<lambda>v. store_op\<^sup>*\<^sup>* d0 (vs_db v)) m"
  shows "keeps I (on_vault m)"
  unfolding on_vault_def
proof (rule keeps_zoom)
  fix s
  assume "I s"
  moreover have "store_op\<^sup>*\<^sup>* (mgr_db s) (vs_db (snd (m (vault_part s))))"
    using assms(2) [of "mgr_db s"] by (simp add: keeps_def vault_part_def)
  ultimately show "I (put_vault (snd (m (vault_part s))) s)"
    using db_closedD [OF assms(1), of s "put_vault (snd (m (vault_part s))) s"] by (simp add: put_vault_def)
qed

section \<open>The operations of the store that the service uses\<close>

lemma keeps_service_stores:
  assumes "db_closed I"
  shows "keeps I (store (CreateAccountWithDefaultProfile a p))" "keeps I (store (UpdateAccount i n ap t))"
    "keeps I (store (SetAccountEnabledRevision i n b t))" "keeps I (store (DeleteAccount i n t))"
    "keeps I (store (CreateProfile a p))" "keeps I (store (UpdateProfile i n pp t))"
    "keeps I (store (SetProfileEnabled i n b t))" "keeps I (store (DeleteProfile i n t))"
    "keeps I (store (ExpireAuthEnrollments t))"
    "keeps I (store (DeleteExpiredSessionStartPreviews t))" "keeps I (store (BeginAuthEnrollment e cr))"
    "keeps I (store (FinishAuthEnrollment i c est t))"
    "keeps I (store (AwaitAuthEnrollmentConfirmation i c x y z n1 n2 n3 dg t))"
    "keeps I (store (ReserveVaultCredentialRevocation i t))" "keeps I (store (FinalizeVaultCredentialRevocation i t))"
    "keeps I (store (CreateAccount a))" "keeps I (store (SetAccountEnabled i b t))"
    "keeps I (store (CreateRuntimeProfile p))" "keeps I (store (UpdateRuntimeProfile p))"
    "keeps I (store (DeleteRuntimeProfile i))" "keeps I (store (CreateSessionStartPreview v))"
    "keeps I (store (SaveIdempotencyRecord ir))"
  by (rule keeps_db_store [OF assms], drule registry_op.intros account_op.intros approval_op.intros
      enrollment_op.intros preview_op.intros vault_op.intros child_op.intros, erule store_op.intros)+

lemma keeps_expire_approvals: "db_closed I \<Longrightarrow> keeps I (store (ExpirePendingApprovals g t))"
  by (erule keeps_db_store) (auto intro: store_op.intros(4) approval_op.intros)

lemma keeps_service_results:
  assumes "db_closed I"
  shows "keeps I (store_result (ExpireDueAuthEnrollments t))" "keeps I (store_result (ClaimAuthEnrollment i c dg t))"
    "keeps I (store_result (ConfirmAuthEnrollmentAttestation i c dg t))"
    "keeps I (store_result (ConsumeSessionStartPreview rq))"
  by (rule keeps_store_result [OF assms], drule enrollment_op.intros preview_op.intros, erule store_op.intros)+

lemmas service_steps = keeping keeps_service_stores keeps_expire_approvals keeps_service_results keeps_rest keeps_service_now keeps_new_id

section \<open>Every method\<close>

lemma keeps_staging:
  assumes "db_closed I"
  shows "keeps I (stat_path svc p)" "keeps I (make_directory svc p)" "keeps I (removeEnrollmentStaging svc p)"
    "keeps I (createEnrollmentStaging svc i)" "keeps I (removeCredentialHome svc i)"
    "keeps I (remove_entries svc b ns)" "keeps I (removeOrphanEnrollmentStaging svc)" "keeps I (remove_stagings svc ps)"
proof -
  show stat: "keeps I (stat_path svc p)" "keeps I (make_directory svc p)" for p
    unfolding stat_path_def make_directory_def by (intro keeps_rest assms)+
  have cases: "keeps I (case x of StatMissing \<Rightarrow> m1 | StatFailed \<Rightarrow> m2 | StatLink \<Rightarrow> m3 | StatDirectory \<Rightarrow> m4 | StatOther \<Rightarrow> m5)"
    if "keeps I m1" "keeps I m2" "keeps I m3" "keeps I m4" "keeps I m5" for x and m1 m2 m3 m4 m5 :: "(('a, 'b) service_state, unit) run"
    using that by (cases x) simp_all
  show remove: "keeps I (removeEnrollmentStaging svc p)" for p
    unfolding removeEnrollmentStaging_def wrapping_def by (intro service_steps stat cases assms)
  show "keeps I (createEnrollmentStaging svc i)"
    unfolding createEnrollmentStaging_def wrapping_def by (intro service_steps stat assms)
  show "keeps I (removeCredentialHome svc i)"
    unfolding removeCredentialHome_def wrapping_def by (intro service_steps stat assms)
  show entries: "keeps I (remove_entries svc b ns)" for b ns
    by (induction ns) (auto simp: wrapping_def Let_def intro!: service_steps assms)
  show "keeps I (removeOrphanEnrollmentStaging svc)"
    unfolding removeOrphanEnrollmentStaging_def wrapping_def by (intro service_steps stat entries cases assms)
  show "keeps I (remove_stagings svc ps)"
    by (induction ps) (auto intro!: service_steps remove assms)
qed

lemma keeps_recovery: "db_closed I \<Longrightarrow> keeps I (RecoverPendingApprovals svc)"
  unfolding RecoverPendingApprovals_def by (intro service_steps keeps_staging)

lemma keeps_probes:
  assumes "db_closed I"
  shows "keeps I (probe svc b)" "keeps I (selectorPreflight svc)" "keeps I (codexDescribe svc)"
proof -
  show probe: "keeps I (probe svc b)" for b unfolding probe_def by (intro keeps_rest assms)
  show "keeps I (selectorPreflight svc)" "keeps I (codexDescribe svc)"
    unfolding selectorPreflight_def codexDescribe_def by (intro service_steps probe assms)+
qed

lemma keeps_usage_views: "db_closed I \<Longrightarrow> keeps I (usage_views svc us)"
  by (induction us) (auto intro!: service_steps)

lemma keeps_account_methods:
  assumes "db_closed I" "service_ok svc"
  shows "keeps I (handleAccountMethod svc rq)"
proof -
  have usage: "keeps I (bc_usage (svc_bridge svc) a)" for a using assms by (simp add: service_ok_def)
  show ?thesis
    unfolding handleAccountMethod_def handle_accounts_create_def handle_accounts_list_def handle_accounts_show_def
      handle_account_change_def handle_profiles_create_def handle_profiles_list_def handle_profiles_show_def
      handle_profiles_resolve_def handle_profile_change_def handle_usage_list_def handle_profiles_validate_def
      handle_provider_operation_def handle_usage_refresh_def Let_def
    by (intro service_steps keeps_load keeps_usage_views usage assms(1))
qed

lemma keeps_auth_methods:
  assumes "db_closed I"
  shows "keeps I (handle_auth_begin svc auth rq)" "keeps I (handle_auth_complete svc auth rq)"
    "keeps I (handle_auth_confirm svc auth rq)" "keeps I (handle_auth_cancel svc auth rq)"
    "keeps I (handle_auth_status svc auth rq)" "keeps I (handle_auth_logout svc rq)"
proof -
  note steps = service_steps keeps_load keeps_staging keeps_probes assms
  have begin_run: "keeps I (begin_enrollment_run svc auth p b fp dg n)" for p b fp dg n
    unfolding begin_enrollment_run_def by (intro steps)
  show "keeps I (handle_auth_begin svc auth rq)"
    unfolding handle_auth_begin_def by (intro steps begin_run)
  have failed: "keeps I (fail_enrollment svc auth e cause)" for e cause
    unfolding fail_enrollment_def by (intro steps)
  have claimed: "keeps I (validate_claimed svc auth e)" for e
    unfolding validate_claimed_def by (intro steps)
  show "keeps I (handle_auth_complete svc auth rq)"
    unfolding handle_auth_complete_def by (intro steps claimed failed)
  have sealed: "keeps I (seal_confirmed svc auth e)" for e
    unfolding seal_confirmed_def by (intro steps keeps_on_vault vault_runs_history)
  show "keeps I (handle_auth_confirm svc auth rq)"
    unfolding handle_auth_confirm_def by (intro steps sealed failed)
  show "keeps I (handle_auth_cancel svc auth rq)" "keeps I (handle_auth_status svc auth rq)" "keeps I (handle_auth_logout svc rq)"
    unfolding handle_auth_cancel_def handle_auth_status_def handle_auth_logout_def by (intro steps)+
qed

lemma keeps_vault_methods:
  assumes "db_closed I"
  shows "keeps I (handle_vault_status svc)" "keeps I (handle_vault_initialize svc auth rq)"
    "keeps I (handle_vault_unlock svc rq)" "keeps I (handle_vault_lock svc)"
  unfolding handle_vault_status_def handle_vault_initialize_def handle_vault_unlock_def handle_vault_lock_def vault_status_def
  by (intro service_steps keeps_on_vault vault_runs_history assms)+

lemma keeps_list_view: "keeps I (list_view f g)"
  unfolding list_view_def by (intro keeping keeps_load)

lemma keeps_plain_methods:
  assumes "db_closed I" "service_ok svc"
  shows "keeps I (legacy_registry svc rq)" "keeps I (handle_profiles_edit svc rq)"
    "keeps I (handle_profile_validate svc rq)" "keeps I (handle_provider_health svc)" "keeps I (handle_usage_read svc rq)"
    "keeps I (handle_approval_list svc rq)" "keeps I (handle_approval_respond svc auth rq)"
    "keeps I (handle_sessions_show svc rq)" "keeps I (handle_sessions_preview svc auth rq)"
proof -
  have bridge: "keeps I (bc_usage (svc_bridge svc) a)" "keeps I (bc_respond (svc_bridge svc) r)" for a r
    using assms by (simp_all add: service_ok_def)
  note steps = service_steps keeps_load keeps_list_view keeps_probes bridge assms(1)
  show "keeps I (legacy_registry svc rq)"
    unfolding legacy_registry_def by (intro steps)
  show "keeps I (handle_profiles_edit svc rq)" "keeps I (handle_profile_validate svc rq)" "keeps I (handle_provider_health svc)"
    "keeps I (handle_usage_read svc rq)" "keeps I (handle_approval_respond svc auth rq)" "keeps I (handle_sessions_show svc rq)"
    unfolding handle_profiles_edit_def handle_profile_validate_def handle_provider_health_def handle_usage_read_def
      handle_approval_respond_def handle_sessions_show_def by (intro steps)+
  show "keeps I (handle_approval_list svc rq)" unfolding handle_approval_list_def by (intro steps)
  have usage: "keeps I (case x of [] \<Rightarrow> m | y # ys \<Rightarrow> h y ys)" if "keeps I m" "\<And>y ys. keeps I (h y ys)"
    for x :: "UsageSnapshot list" and m :: "(('a, 'b) service_state, ID \<times> any \<times> bool) run" and h
    using that by (cases x) simp_all
  show "keeps I (handle_sessions_preview svc auth rq)"
    unfolding handle_sessions_preview_def by (intro steps usage)
qed

lemma keeps_session_methods:
  assumes "db_closed I" "service_ok svc"
  shows "keeps I (handle_sessions_start svc auth rq)" "keeps I (handle_sessions_attach svc auth rq)"
    "keeps I (handle_sessions_detach svc auth rq)" "keeps I (handle_sessions_observe svc rq)"
    "keeps I (handle_control_acquire svc auth rq)" "keeps I (handle_control_heartbeat svc auth rq)"
    "keeps I (handle_control_release svc auth rq)" "keeps I (handle_terminal_input svc auth rq)"
    "keeps I (handle_terminal_resize svc auth rq)" "keeps I (handle_sessions_stop svc auth rq)"
    "keeps I (handle_sessions_resume svc rq)"
proof -
  have closed: "store_closed I" "lease_closed I" using assms(1) by (simp_all add: db_closed_store db_closed_leases)
  have bridge: "bridge_keeps I (svc_runtime svc)" using assms(2) closed by (simp add: service_ok_def bridge_ok_def)
  have ticks: "\<And>tick s. tick \<in> set (svc_ticks svc) \<Longrightarrow> I s \<Longrightarrow> I (tick s)" using assms unfolding service_ok_def by blast
  note steps = service_steps keeps_load keeps_probes assms(1) closed bridge
  have selected: "keeps I (start_selected svc auth rq b c)" for b c
    unfolding start_selected_def by (intro steps keeps_StartReserved)
  show "keeps I (handle_sessions_start svc auth rq)"
    unfolding handle_sessions_start_def by (intro steps selected keeps_Start)
  show "keeps I (handle_sessions_attach svc auth rq)" "keeps I (handle_sessions_detach svc auth rq)"
    unfolding handle_sessions_attach_def handle_sessions_detach_def by (intro steps keeps_Attach keeps_Detach)+
  show "keeps I (handle_sessions_observe svc rq)"
    unfolding handle_sessions_observe_def ReplaySession_def by (intro steps)
  show "keeps I (handle_control_acquire svc auth rq)" "keeps I (handle_control_heartbeat svc auth rq)"
    "keeps I (handle_control_release svc auth rq)"
    unfolding handle_control_acquire_def handle_control_heartbeat_def handle_control_release_def
    by (intro steps keeps_leases)+
  show "keeps I (handle_terminal_input svc auth rq)" "keeps I (handle_terminal_resize svc auth rq)"
    unfolding handle_terminal_input_def handle_terminal_resize_def by (intro steps keeps_Input keeps_Resize)+
  have stop: "keeps I (Stop (svc_runtime svc) (svc_ticks svc) i c n)" for i c n
    by (rule keeps_Stop [OF closed(1) bridge]) (rule ticks)
  show "keeps I (handle_sessions_stop svc auth rq)"
    unfolding handle_sessions_stop_def by (intro steps stop keeps_Kill)
  show "keeps I (handle_sessions_resume svc rq)"
    unfolding handle_sessions_resume_def by (intro steps keeps_Resume)
qed

lemma keeps_either: "keeps I m \<Longrightarrow> keeps I m' \<Longrightarrow> keeps I (if c then m else m')"
  by simp

lemma keeps_dispatch:
  assumes "db_closed I" "service_ok svc"
  shows "keeps I (dispatch svc auth rq)"
  unfolding dispatch_def Let_def
  by (intro keeps_either keeps_return keeps_throw keeps_bind keeps_account_methods keeps_auth_methods keeps_vault_methods
      keeps_list_view keeps_plain_methods keeps_session_methods keeps_probes assms)

lemma keeps_withIdempotency:
  "db_closed I \<Longrightarrow> keeps I fn \<Longrightarrow> keeps I (withIdempotency svc c rq fn)"
  unfolding withIdempotency_def stored_response_def by (intro service_steps)

lemma keeps_Handle: "db_closed I \<Longrightarrow> service_ok svc \<Longrightarrow> keeps I (Handle svc auth rq)"
  unfolding Handle_def by (intro keeping keeps_dispatch keeps_withIdempotency)

lemma service_history:
  assumes "service_ok svc" "Handle svc auth rq s = (r, s')"
  shows "store_op\<^sup>*\<^sup>* (mgr_db s) (mgr_db s')"
proof -
  have "history (mgr_db s) s'"
    by (rule keepsD [OF keeps_Handle [OF db_closed_history assms(1)] _ assms(2)]) (simp add: history_def)
  then show ?thesis by (simp add: history_def)
qed

end
