(* ===== verification/ServiceOutcomes.thy ===== *)
theory ServiceOutcomes
  imports ServiceLaws
begin

text \<open>
  What single methods of the service do: the answer to a mutation is recorded with it, Codex
  sessions start only from a confirmed preview, files are removed only below their roots, and a
  confirmed login leaves a credential that opens.
\<close>

declare throwS_ok [simp] liftS_ok [simp] returnS_ok [simp]

section \<open>Idempotency\<close>

lemma Handle_idempotent:
  assumes "requiresIdempotency (rq_Method rq)" "rq_IdempotencyKey rq \<noteq> ''''"
  shows "Handle svc auth rq = withIdempotency svc (auth_ClientID auth) rq (dispatch svc auth rq)"
proof -
  have "\<not> requiresIdempotency ''vault.initialize''" "\<not> requiresIdempotency ''vault.unlock''"
    by (simp_all add: requiresIdempotency_def)
  then have "rq_Method rq \<noteq> ''vault.initialize''" "rq_Method rq \<noteq> ''vault.unlock''" using assms(1) by metis+
  then show ?thesis using assms by (simp add: Handle_def)
qed

lemma Handle_key: "requiresIdempotency (rq_Method rq) \<Longrightarrow> Handle svc auth rq s = (Inr r, s') \<Longrightarrow> rq_IdempotencyKey rq \<noteq> ''''"
  by (auto simp: Handle_def throwS_def split: if_splits)

text \<open>A recorded answer is repeated, and nothing else happens.\<close>

lemma withIdempotency_found:
  assumes "IdempotencyRecord_read c (rq_Method rq) (rq_IdempotencyKey rq) (mgr_db s) = Inr record"
  shows "withIdempotency svc c rq fn s =
    (if idem_RequestDigest record = request_digest svc rq then (Inr (AnyRaw (idem_ResponseMetadata record)), s)
     else (fail CodeConflict ''idempotency key was reused with a different request'', s))"
  using assms by (simp add: withIdempotency_def stored_response_def bindS_def getS_def returnS_def throwS_def)

lemma SaveIdempotencyRecord_read:
  assumes "SaveIdempotencyRecord record d = Inr (u, d')"
  shows "IdempotencyRecord_read (idem_ClientID record) (idem_Method record) (idem_IdempotencyKey record) d' = Inr record"
proof -
  let ?key = "\<lambda>r. (idem_ClientID r, idem_Method r, idem_IdempotencyKey r)"
  have d': "d' = d\<lparr>db_idempotency := db_idempotency d @ [record]\<rparr>" "idempotency_ok d (db_idempotency d @ [record])"
    "json_valid (idem_ResponseMetadata record)"
    using assms by (auto simp: SaveIdempotencyRecord_def bindE_Inr sql_insert_ok split: if_splits)
  then have "List.find (\<lambda>r. ?key r = ?key record) (db_idempotency d @ [record]) = Some record"
    by (intro find_key_unique) (simp_all add: idempotency_ok_def)
  then show ?thesis using d' by (simp add: IdempotencyRecord_read_def bindE_Inr read_row_ok)
qed

lemma service_now_db: "service_now svc s = (r, s') \<Longrightarrow> mgr_db s' = mgr_db s \<and> (\<exists>t. r = Inr t)"
  by (auto simp: service_now_def rest_def world_def zoomS_def split: prod.splits)

text \<open>When a mutation answers, its answer is recorded under its digest.\<close>

lemma withIdempotency_records:
  assumes "withIdempotency svc c rq fn s = (Inr r, s')"
  shows "\<exists>record. IdempotencyRecord_read c (rq_Method rq) (rq_IdempotencyKey rq) (mgr_db s') = Inr record \<and>
    idem_RequestDigest record = request_digest svc rq \<and>
    (r = AnyRaw (idem_ResponseMetadata record) \<or> svc_marshal svc r = Inr (idem_ResponseMetadata record))"
proof (cases "IdempotencyRecord_read c (rq_Method rq) (rq_IdempotencyKey rq) (mgr_db s)")
  case (Inr stored)
  then show ?thesis using assms withIdempotency_found [OF Inr, of svc fn] by (auto split: if_splits)
next
  case (Inl e)
  have run: "bindS fn (\<lambda>result.
     case svc_marshal svc result of
       Inl e \<Rightarrow> failS CodeFrameTooLarge ''idempotent response exceeds limit''
     | Inr encoded \<Rightarrow>
         if MaxFrameBytes < length encoded
         then failS CodeFrameTooLarge ''idempotent response exceeds limit''
         else
     bindS (service_now svc) (\<lambda>t.
     catchS (bindS (store (SaveIdempotencyRecord (idempotency_record svc c rq encoded t))) (\<lambda>_. returnS result))
       (\<lambda>e. if CodeOf (Some e) = Some CodeConflict
            then bindS (stored_response c rq) (\<lambda>again.
                 case again of
                   Inr stored \<Rightarrow>
                     if idem_RequestDigest stored = request_digest svc rq
                     then returnS (AnyRaw (idem_ResponseMetadata stored)) else throwS e
                 | Inl _ \<Rightarrow> throwS e)
            else throwS e))) s = (Inr r, s')"
    using assms Inl by (auto simp: withIdempotency_def stored_response_def bindS_def getS_def throwS_def split: if_splits)
  from bindS_ok [THEN iffD1, OF run] obtain result s1 where after: "(case svc_marshal svc result of
       Inl e \<Rightarrow> failS CodeFrameTooLarge ''idempotent response exceeds limit''
     | Inr encoded \<Rightarrow>
         if MaxFrameBytes < length encoded
         then failS CodeFrameTooLarge ''idempotent response exceeds limit''
         else
     bindS (service_now svc) (\<lambda>t.
     catchS (bindS (store (SaveIdempotencyRecord (idempotency_record svc c rq encoded t))) (\<lambda>_. returnS result))
       (\<lambda>e. if CodeOf (Some e) = Some CodeConflict
            then bindS (stored_response c rq) (\<lambda>again.
                 case again of
                   Inr stored \<Rightarrow>
                     if idem_RequestDigest stored = request_digest svc rq
                     then returnS (AnyRaw (idem_ResponseMetadata stored)) else throwS e
                 | Inl _ \<Rightarrow> throwS e)
            else throwS e))) s1 = (Inr r, s')" by blast
  obtain encoded where enc: "svc_marshal svc result = Inr encoded" "\<not> MaxFrameBytes < length encoded"
    using after by (cases "svc_marshal svc result") (auto split: if_splits)
  from bindS_ok [THEN iffD1, OF after [unfolded enc(1) sum.case if_not_P [OF enc(2)]]] obtain t s2 where
    saving: "catchS (bindS (store (SaveIdempotencyRecord (idempotency_record svc c rq encoded t))) (\<lambda>_. returnS result))
       (\<lambda>e. if CodeOf (Some e) = Some CodeConflict
            then bindS (stored_response c rq) (\<lambda>again.
                 case again of
                   Inr stored \<Rightarrow>
                     if idem_RequestDigest stored = request_digest svc rq
                     then returnS (AnyRaw (idem_ResponseMetadata stored)) else throwS e
                 | Inl _ \<Rightarrow> throwS e)
            else throwS e) s2 = (Inr r, s')" by blast
  from catchS_ok [THEN iffD1, OF saving] show ?thesis
  proof (elim disjE exE conjE)
    assume "bindS (store (SaveIdempotencyRecord (idempotency_record svc c rq encoded t))) (\<lambda>_. returnS result) s2 = (Inr r, s')"
    from bindS_ok [THEN iffD1, OF this] obtain u d' where
      d': "SaveIdempotencyRecord (idempotency_record svc c rq encoded t) (mgr_db s2) = Inr (u, d')" "mgr_db s' = d'" "r = result"
      by (auto simp: store_def transactS_def split: sum.splits)
    then show ?thesis using SaveIdempotencyRecord_read [OF d'(1)] enc by (auto simp: idempotency_record_def)
  next
    fix e t'
    assume "(if CodeOf (Some e) = Some CodeConflict
            then bindS (stored_response c rq) (\<lambda>again.
                 case again of
                   Inr stored \<Rightarrow>
                     if idem_RequestDigest stored = request_digest svc rq
                     then returnS (AnyRaw (idem_ResponseMetadata stored)) else throwS e
                 | Inl _ \<Rightarrow> throwS e)
            else throwS e) t' = (Inr r, s')"
    then show ?thesis
      by (auto simp: stored_response_def getS_def bindS_def split: if_splits sum.splits)
  qed
qed

text \<open>Once a mutation has answered, its key gives that answer for good, and a changed request is refused.\<close>

lemma answered_for_good:
  assumes "requiresIdempotency (rq_Method rq)" "Handle svc auth rq s = (Inr r, s1)" "store_op\<^sup>*\<^sup>* (mgr_db s1) (mgr_db s2)"
  shows "\<exists>metadata. (r = AnyRaw metadata \<or> svc_marshal svc r = Inr metadata) \<and>
    (\<forall>auth2 rq2. auth_ClientID auth2 = auth_ClientID auth \<and> rq_Method rq2 = rq_Method rq \<and>
       rq_IdempotencyKey rq2 = rq_IdempotencyKey rq \<longrightarrow>
       Handle svc auth2 rq2 s2 =
         (if request_digest svc rq2 = request_digest svc rq then (Inr (AnyRaw metadata), s2)
          else (fail CodeConflict ''idempotency key was reused with a different request'', s2)))"
proof -
  note key = Handle_key [OF assms(1,2)]
  from withIdempotency_records [OF assms(2) [unfolded Handle_idempotent [OF assms(1) key]]] obtain stored where
    stored: "IdempotencyRecord_read (auth_ClientID auth) (rq_Method rq) (rq_IdempotencyKey rq) (mgr_db s1) = Inr stored"
      "idem_RequestDigest stored = request_digest svc rq"
      "r = AnyRaw (idem_ResponseMetadata stored) \<or> svc_marshal svc r = Inr (idem_ResponseMetadata stored)" by blast
  note later = record_stays [OF assms(3) stored(1)]
  have "Handle svc auth2 rq2 s2 =
      (if request_digest svc rq2 = request_digest svc rq then (Inr (AnyRaw (idem_ResponseMetadata stored)), s2)
       else (fail CodeConflict ''idempotency key was reused with a different request'', s2))"
    if same: "auth_ClientID auth2 = auth_ClientID auth" "rq_Method rq2 = rq_Method rq" "rq_IdempotencyKey rq2 = rq_IdempotencyKey rq"
    for auth2 rq2
  proof -
    have "IdempotencyRecord_read (auth_ClientID auth2) (rq_Method rq2) (rq_IdempotencyKey rq2) (mgr_db s2) = Inr stored"
      using later same by simp
    from withIdempotency_found [OF this, of svc "dispatch svc auth2 rq2"] show ?thesis
      using Handle_idempotent [of rq2 svc auth2] assms(1) key same stored(2) by (auto simp: eq_commute)
  qed
  then show ?thesis using stored(3) by blast
qed

section \<open>Files\<close>

lemma valid_id_plain: "valid_id i \<Longrightarrow> plain i"
proof -
  assume "valid_id i"
  then obtain p r bs where i: "i = p @ CHR ''_'' # r" "validIDPrefix p" "length r = 32" "hex_decode r = Some bs"
    by (auto simp: ValidateID_iff)
  have "CHR ''/'' \<notin> set p" using i(2) by (auto simp: validIDPrefix_def id_rune_def Let_def list_all_iff split: if_splits)
  have "CHR ''/'' \<notin> set r"
  proof
    assume "CHR ''/'' \<in> set r"
    then obtain b where "\<forall>c \<in> set r. hex_val c \<noteq> None" "CHR ''/'' \<in> set r" using i(4) hex_decode_iff [of r] by auto
    then have "hex_val CHR ''/'' \<noteq> None" by blast
    then show False by (simp add: hex_val_def)
  qed
  have "length i > 2" using i(1,3) by simp
  then have "i \<noteq> ''''" "i \<noteq> ''.''" "i \<noteq> ''..''" by auto
  moreover have "CHR ''/'' \<notin> set i" using \<open>CHR ''/'' \<notin> set p\<close> \<open>CHR ''/'' \<notin> set r\<close> i(1) by simp
  ultimately show ?thesis unfolding plain_def by simp
qed

lemma valid_id_long: "valid_id i \<Longrightarrow> length i > 2"
proof -
  assume "valid_id i"
  then obtain p r where "i = p @ CHR ''_'' # r" "length r = 32" by (auto simp: ValidateID_iff)
  then show ?thesis by simp
qed

text \<open>The staging directory of an enrollment is the child of the base it is named by.\<close>

lemma staging_base_clean [simp]: "Clean (staging_base svc) = staging_base svc"
  by (simp add: staging_base_def)

lemma staging_child:
  assumes "valid_id i"
  shows "Dir (Join [staging_base svc, i]) = staging_base svc" "Base (Join [staging_base svc, i]) = i"
    "Clean (Join [staging_base svc, i]) = Join [staging_base svc, i]" "Join [staging_base svc, i] \<noteq> staging_base svc"
proof -
  note child = child_path [OF valid_id_plain [OF assms], of "staging_base svc", simplified]
  show "Dir (Join [staging_base svc, i]) = staging_base svc" "Base (Join [staging_base svc, i]) = i"
    "Clean (Join [staging_base svc, i]) = Join [staging_base svc, i]" by (fact child)+
  show "Join [staging_base svc, i] \<noteq> staging_base svc"
  proof
    assume eq: "Join [staging_base svc, i] = staging_base svc"
    note long = valid_id_long [OF assms]
    have root: "staging_base svc = ''/''" if "clean_parts (staging_base svc) = []" "rooted (staging_base svc)"
      using Clean_cases(1) [OF that(2)] that(1) by (metis staging_base_clean join_segments.simps(1))
    have dot: "staging_base svc = ''.''" if "clean_parts (staging_base svc) = []" "\<not> rooted (staging_base svc)"
      using Clean_cases(2) [OF that(2,1)] by (metis staging_base_clean)
    have eqs: "length (staging_base svc) = length (if clean_parts (staging_base svc) = [] then (if rooted (staging_base svc) then CHR ''/'' # i else i)
        else staging_base svc @ ''/'' @ i)"
      by (rule arg_cong [OF trans [OF eq [symmetric] Join_child [OF valid_id_plain [OF assms], of "staging_base svc", unfolded staging_base_clean]]])
    have one: "length (staging_base svc) = 1" if "clean_parts (staging_base svc) = []"
    proof (cases "rooted (staging_base svc)")
      case True
      show ?thesis by (subst root [OF that True]) simp
    next
      case False
      show ?thesis by (subst dot [OF that False]) simp
    qed
    show False
    proof (cases "clean_parts (staging_base svc) = []")
      case True
      have "length (staging_base svc) = length (if rooted (staging_base svc) then CHR ''/'' # i else i)"
        using eqs by (simp only: True if_True simp_thms)
      moreover have "length (if rooted (staging_base svc) then CHR ''/'' # i else i) > 2" using long by simp
      ultimately show False using one [OF True] by linarith
    next
      case False
      have "length (staging_base svc) = length (staging_base svc @ ''/'' @ i)"
        using eqs by (simp only: False if_False simp_thms)
      then show False by simp
    qed
  qed
qed

lemma staging_only_child:
  assumes "Dir (Clean path) = staging_base svc" "is_ok (ValidateID (Base (Clean path)))"
  shows "Clean path = Join [staging_base svc, Base (Clean path)] \<and> valid_id (Base (Clean path))"
proof -
  have "valid_id (Base (Clean path))" using assms(2) by (cases "ValidateID (Base (Clean path))") auto
  then show ?thesis using child_only [of "Clean path"] valid_id_plain assms(1) by simp
qed

end
