(* ===== verification/ServiceStarts.thy ===== *)
theory ServiceStarts
  imports ServiceOutcomes
begin

text \<open>
  The service and the sessions it starts: which calls leave the store as it is, and that Codex starts
  only through a confirmed preview.
\<close>

section \<open>Calls that leave the store as it is\<close>

lemma db_rest: "keeps (\<lambda>s. mgr_db s = d) (rest m)"
  unfolding rest_def world_def by (rule keeps_zoom_frame) simp

lemma db_now: "keeps (\<lambda>s. mgr_db s = d) (service_now svc)"
  unfolding service_now_def by (rule db_rest)

lemma db_new_id: "keeps (\<lambda>s. mgr_db s = d) (new_id svc p)"
  unfolding new_id_def by (intro keeping db_rest)

lemma db_load: "keeps (\<lambda>s. mgr_db s = d) (load f)"
  unfolding load_def by (intro keeping)

lemma db_preflight: "keeps (\<lambda>s. mgr_db s = d) (selectorPreflight svc)"
  unfolding selectorPreflight_def probe_def by (intro keeping db_rest)

lemmas db_frames = keepsD [OF db_rest refl] keepsD [OF db_now refl] keepsD [OF db_new_id refl] keepsD [OF db_preflight refl]

lemma load_ok [simp]: "load f s = (Inr a, s') \<longleftrightarrow> f (mgr_db s) = Inr a \<and> s' = s"
  by (auto simp: load_def bindS_ok getS_ok)

section \<open>Starting\<close>

lemma start_selected_consumes:
  assumes "start_selected svc auth rq body c s = (Inr r, s')"
  shows "\<exists>request session d. req_PreviewID request = stb_PreviewID body \<and> req_ClientID request = auth_ClientID auth \<and>
    req_RequestDigest request = request_digest svc rq \<and> req_Confirmation request = start_confirmation c \<and>
    ConsumeSessionStartPreview request (mgr_db s) = (Inr session, d)"
proof -
  from assms obtain preflight s1 binding credential sessionID s2 t1 s3 t2 s4 session s5 where
    run: "selectorPreflight svc s = (Inr preflight, s1)" "new_id svc ''session'' s1 = (Inr sessionID, s2)"
      "service_now svc s2 = (Inr t1, s3)" "service_now svc s3 = (Inr t2, s4)"
      "store_result (ConsumeSessionStartPreview
         (consume_request svc auth rq body c preflight binding credential sessionID t1 t2)) s4 = (Inr session, s5)"
    unfolding start_selected_def by (auto simp: bindS_ok split: if_splits option.splits)
  have "mgr_db s4 = mgr_db s" using run db_frames by metis
  moreover obtain d where "ConsumeSessionStartPreview
      (consume_request svc auth rq body c preflight binding credential sessionID t1 t2) (mgr_db s4) = (Inr session, d)"
    using run(5) by (auto simp: store_result_def zoomS_ok)
  ultimately show ?thesis
    by (intro exI [of _ "consume_request svc auth rq body c preflight binding credential sessionID t1 t2"])
       (auto simp: consume_request_def)
qed

lemma Start_provider:
  assumes "Start rt request s = (Inr session, s')"
  shows "\<exists>profile. RuntimeProfile_read (start_RuntimeProfileID request) (mgr_db s) = Inr profile \<and>
    prof_Provider profile \<in> {ProviderFake, ProviderCodex} \<and>
    (start_Provider request = '''' \<or> start_Provider request = prof_Provider profile)"
  using assms unfolding Start_def by (auto simp: bindS_ok split: if_splits)

text \<open>A start that succeeds is that of the fake provider, or consumed a confirmed preview of the client.\<close>

lemma start_confirmed_or_fake:
  assumes "handle_sessions_start svc auth rq s = (Inr r, s')" "decodeBody (body_start (svc_bodies svc)) rq = Inr body"
    "list_all (\<lambda>p. prof_ID p \<noteq> '''') (db_profiles (mgr_db s))"
  shows "(\<exists>profile. RuntimeProfile_read (stb_RuntimeProfileID body) (mgr_db s) = Inr profile \<and> prof_Provider profile = ProviderFake) \<or>
    (\<exists>confirmation request session d. stb_Confirmation body = Some confirmation \<and> pc_Confirmed confirmation \<and>
       req_PreviewID request = stb_PreviewID body \<and> req_ClientID request = auth_ClientID auth \<and>
       req_RequestDigest request = request_digest svc rq \<and> req_Confirmation request = start_confirmation confirmation \<and>
       ConsumeSessionStartPreview request (mgr_db s) = (Inr session, d))"
proof -
  obtain raw where raw: "codex_raw_ids body (mgr_db s) = Inr raw"
    using assms(1,2) unfolding handle_sessions_start_def by (auto simp: bindS_ok)
  show ?thesis
  proof (cases "stb_ProfileSelector body \<noteq> '''' \<or> raw")
    case True
    then obtain confirmation where "stb_Confirmation body = Some confirmation" "pc_Confirmed confirmation"
      "start_selected svc auth rq body confirmation s = (Inr r, s')"
      using assms(1,2) raw unfolding handle_sessions_start_def
      by (auto simp: bindS_ok split: if_splits option.splits)
    then show ?thesis using start_selected_consumes by blast
  next
    case False
    obtain request session s1 where start: "Start (svc_runtime svc) request s = (Inr session, s1)"
      "start_RuntimeProfileID request = stb_RuntimeProfileID body" "start_Provider request = stb_Provider body"
      using assms(1,2) raw False unfolding handle_sessions_start_def by (auto simp: bindS_ok)
    from Start_provider [OF start(1)] obtain profile where
      profile: "RuntimeProfile_read (stb_RuntimeProfileID body) (mgr_db s) = Inr profile"
        "prof_Provider profile \<in> {ProviderFake, ProviderCodex}"
        "stb_Provider body = '''' \<or> stb_Provider body = prof_Provider profile"
      unfolding start(2,3) by blast
    have "stb_RuntimeProfileID body \<noteq> ''''"
      using profile(1) assms(3) by (auto simp: RuntimeProfile_read_def bindE_Inr list_all_iff dest: read_row_key)
    then have "prof_Provider profile \<noteq> ProviderCodex"
      using raw False profile(1,3) by (auto simp: codex_raw_ids_def bindE_Inr Let_def)
    then show ?thesis using profile(1,2) by blast
  qed
qed

end
