(* ===== verification/ServiceLogin.thy ===== *)
theory ServiceLogin
  imports ServiceStarts
begin

text \<open>
  The end of a login: when the service reports a first login as confirmed, the vault holds the
  credential that was read from the staging directory, and opens it at the reported revision.
\<close>

section \<open>The attestation\<close>

lemma if_cases: "(if b then x else y) = z \<Longrightarrow> (b \<Longrightarrow> x = z \<Longrightarrow> P) \<Longrightarrow> (\<not> b \<Longrightarrow> y = z \<Longrightarrow> P) \<Longrightarrow> P"
  by (cases b) simp_all

lemma Confirm_ok:
  assumes "ConfirmAuthEnrollmentAttestation eid c dg t d = (Inr e', d')"
  shows "\<exists>e. AuthEnrollment_read eid d = Inr e \<and> enr_ClientDeviceID e = c \<and>
    (e' = e \<or> e' = confirm_enrollment_row c t e) \<and> db_vault_items d' = db_vault_items d"
proof -
  let ?p = "\<lambda>r. enr_ID r = eid \<and> enr_ClientDeviceID r = c \<and> enr_State r = EnrollmentAwaitingConfirmation \<and>
      enr_ConfirmationAliasDigest r = dg \<and> enr_ConfirmedByClientID r = '''' \<and> text_before t (enr_ExpiresAt r)"
  let ?rows = "update_rows ?p (confirm_enrollment_row c t) (db_enrollments d)"
  let ?U = "sql_update (enrollments_ok d) ''auth confirmation could not be recorded'' ?p (confirm_enrollment_row c t) (db_enrollments d)"
  obtain U where U: "U = ?U" by blast
  note run = assms [unfolded ConfirmAuthEnrollmentAttestation_def Let_def, folded confirm_enrollment_row_def, folded U]
  obtain e where e: "AuthEnrollment_read eid d = Inr e" using run by (cases "AuthEnrollment_read eid d") (auto split: if_splits)
  have owner: "enr_ClientDeviceID e = c"
    using run unfolding e sum.case by (cases "enr_ClientDeviceID e = c") (simp_all split: if_splits)
  have "e' = e \<and> d' = d \<or> (\<exists>n rows. U = Inr (n, rows) \<and> d' = d\<lparr>db_enrollments := rows\<rparr> \<and> AuthEnrollment_read eid d' = Inr e')"
    using run unfolding e sum.case
    by (elim if_cases sum_branch prod_branch) (simp_all only: prod.inject sum.inject sum.distinct simp_thms, auto)
  then have "AuthEnrollment_read eid d = Inr e' \<and> enr_ClientDeviceID e' = c \<and> d' = d \<or>
    (\<exists>e. AuthEnrollment_read eid d = Inr e \<and> enr_ClientDeviceID e = c) \<and>
    AuthEnrollment_read eid (d\<lparr>db_enrollments := ?rows\<rparr>) = Inr e' \<and> d' = d\<lparr>db_enrollments := ?rows\<rparr>"
    using e owner unfolding U sql_update_ok by blast
  moreover have "e' = e \<or> e' = confirm_enrollment_row c t e"
    if "AuthEnrollment_read eid d = Inr e" "AuthEnrollment_read eid (d\<lparr>db_enrollments := ?rows\<rparr>) = Inr e'" for e
    using that find_update_rows [of enr_ID "confirm_enrollment_row c t" eid ?p "db_enrollments d"]
    by (auto simp: AuthEnrollment_read_def read_row_ok confirm_enrollment_row_def)
  ultimately show ?thesis by auto
qed

section \<open>The seal\<close>

lemma vault_part_put [simp]: "vault_part (put_vault v s) = v"
  by (simp add: vault_part_def put_vault_def)

definition vault_frame :: "db \<Rightarrow> vault_manager \<Rightarrow> ('x, 'p) service_state \<Rightarrow> bool" where
  "vault_frame d m s = (mgr_db s = d \<and> sw_vault (mgr_world s) = m)"

lemma frame_rest: "keeps (vault_frame d m) (rest f)"
  unfolding rest_def world_def zoomS_def by (rule keepsI) (auto simp: vault_frame_def split: prod.splits)

lemma frame_now: "keeps (vault_frame d m) (service_now svc)"
  unfolding service_now_def by (rule frame_rest)

lemma frame_load: "keeps (vault_frame d m) (load f)"
  unfolding load_def by (intro keeping)

lemma frame_stat: "keeps (vault_frame d m) (stat_path svc p)"
  unfolding stat_path_def by (rule frame_rest)

lemma frame_remove: "keeps (vault_frame d m) (removeEnrollmentStaging svc path)"
  unfolding removeEnrollmentStaging_def wrapping_def Let_def
  by (intro keeping frame_rest frame_stat file_stat.case_cong) (auto split: file_stat.splits intro!: keeping frame_rest)

lemma sealed_manager:
  assumes "sealCredential env e c dg md p s = (Inr r, s')"
  shows "vs_manager s' = vs_manager s"
  using post_ok [OF sealCredential_post assms] by (auto simp: credential_sealed_def Let_def)

lemma CredentialInstance_read_id: "CredentialInstance_read i d = Inr c \<Longrightarrow> cred_ID c = i"
  by (auto simp: CredentialInstance_read_def bindE_Inr dest: read_row_key)

text \<open>What \<open>seal_confirmed\<close> leaves: the bytes of the staging directory, opened at the new revision.\<close>

lemma seal_confirmed_reads:
  assumes run: "seal_confirmed svc auth enr s = (Inr (credential, revision), s')"
    and env: "svc_vault svc = Some env" "aead_correct env"
    and new: "\<forall>item \<in> set (db_vault_items (mgr_db s)). vi_CredentialInstanceID item \<noteq> enr_CredentialInstanceID enr"
  shows "cred_ID credential = enr_CredentialInstanceID enr \<and>
    (\<exists>bytes x x'. ct_read_auth (svc_codex svc) (enr_StagingPath enr) x = (Inr bytes, x') \<and>
       (\<forall>s''. vault_frame (mgr_db s') (sw_vault (mgr_world s')) s'' \<longrightarrow>
          ReadCredential env (enr_CredentialInstanceID enr) (vault_part s'') = (Inr (bytes, revision), vault_part s'')))"
proof -
  have the: "the_vault svc = returnS env" by (simp add: the_vault_def env)
  have unlocked: "keeps (vault_frame d m) (require_unlocked svc)" for d m
    unfolding require_unlocked_def the by (intro keeping)
  from run obtain s1 descriptor s2 f s3 s4 bytes s5 t s6 where
    chain: "require_unlocked svc s = (Inr (), s1)" "rest (ct_discover (svc_codex svc)) s1 = (Inr descriptor, s2)"
      "rest (ct_fingerprint (svc_codex svc) descriptor) s2 = (Inr f, s3)"
      "rest (ct_validate (svc_codex svc) descriptor (enr_StagingPath enr)) s3 = (Inr (), s4)"
      "rest (ct_read_auth (svc_codex svc) (enr_StagingPath enr)) s4 = (Inr bytes, s5)"
      "CredentialInstance_read (enr_CredentialInstanceID enr) (mgr_db s5) = Inr credential"
      "service_now svc s5 = (Inr t, s6)"
    and seal: "on_vault (SealEnrollmentCredential env (enr_ID enr) (auth_ClientID auth) (enr_CompletionIdempotencyDigest enr)
        \<lparr>cm_CredentialInstanceID = cred_ID credential, cm_AccountID = cred_AccountID credential,
         cm_DeviceID = cred_DeviceID credential, cm_Provider = cred_Provider credential,
         cm_ExpectedRevision = cred_CredentialRevision credential,
         cm_CreatedAt = cred_CreatedAt credential, cm_UpdatedAt = t\<rparr> bytes) s6 = (Inr revision, s')"
    unfolding seal_confirmed_def the by (auto simp: bindS_ok catchS_ok split: if_splits)
  have frame: "vault_frame (mgr_db s) (sw_vault (mgr_world s)) s6"
  proof -
    have "vault_frame (mgr_db s) (sw_vault (mgr_world s)) s" by (simp add: vault_frame_def)
    from keepsD [OF frame_now keepsD [OF frame_rest keepsD [OF frame_rest keepsD [OF frame_rest keepsD [OF frame_rest
      keepsD [OF unlocked this chain(1)] chain(2)] chain(3)] chain(4)] chain(5)] chain(7)]
    show ?thesis .
  qed
  let ?md = "\<lparr>cm_CredentialInstanceID = cred_ID credential, cm_AccountID = cred_AccountID credential,
         cm_DeviceID = cred_DeviceID credential, cm_Provider = cred_Provider credential,
         cm_ExpectedRevision = cred_CredentialRevision credential,
         cm_CreatedAt = cred_CreatedAt credential, cm_UpdatedAt = t\<rparr>"
  have id: "cred_ID credential = enr_CredentialInstanceID enr" by (rule CredentialInstance_read_id [OF chain(6)])
  obtain v where v: "sealCredential env (enr_ID enr) (auth_ClientID auth) (enr_CompletionIdempotencyDigest enr) ?md bytes
      (vault_part s6) = (Inr revision, v)" "s' = put_vault v s6"
    using seal by (auto simp: on_vault_def zoomS_ok SealEnrollmentCredential_def split: if_splits)
  have stays: "item_stays ?md (vs_db (vault_part s6))"
    using new frame id by (auto simp: item_stays_def vault_part_def vault_frame_def)
  have "ReadCredential env (enr_CredentialInstanceID enr) (vault_part s'') = (Inr (bytes, revision), vault_part s'')"
    if "vault_frame (mgr_db s') (sw_vault (mgr_world s')) s''" for s''
  proof -
    have "vs_manager (vault_part s'') = vs_manager v" "vs_db (vault_part s'') = vs_db v"
      using that v(2) by (simp_all add: vault_part_def vault_frame_def put_vault_def)
    then show ?thesis
      using seal_then_read [OF env(2) stays v(1), of "vault_part s''"] sealed_manager [OF v(1)] id by simp
  qed
  moreover obtain x x' where "ct_read_auth (svc_codex svc) (enr_StagingPath enr) x = (Inr bytes, x')"
    using chain(5) by (auto simp: rest_def world_def zoomS_ok)
  ultimately show ?thesis using id by blast
qed

text \<open>A first login that is reported as confirmed.\<close>

lemma confirm_reads:
  assumes run: "handle_auth_confirm svc auth rq s = (Inr r, s')"
    and body: "decodeBody (body_auth_confirm (svc_bodies svc)) rq = Inr body"
    and enr: "AuthEnrollment_read (cfb_EnrollmentID body) (mgr_db s) = Inr enrollment" "enr_State enrollment \<noteq> EnrollmentSucceeded"
    and env: "svc_vault svc = Some env" "aead_correct env"
    and new: "\<forall>item \<in> set (db_vault_items (mgr_db s)). vi_CredentialInstanceID item \<noteq> enr_CredentialInstanceID enrollment"
  shows "cfb_Confirmed body \<and> enr_ClientDeviceID enrollment = auth_ClientID auth \<and>
    (\<exists>bytes revision x x'. ct_read_auth (svc_codex svc) (enr_StagingPath enrollment) x = (Inr bytes, x') \<and>
       r = sealed_view (enr_ID enrollment) (enr_CredentialInstanceID enrollment) revision \<and>
       ReadCredential env (enr_CredentialInstanceID enrollment) (vault_part s') = (Inr (bytes, revision), vault_part s'))"
proof -
  have owner: "cfb_Confirmed body" "enr_ClientDeviceID enrollment = auth_ClientID auth"
    using run body enr unfolding handle_auth_confirm_def by (auto simp: bindS_ok split: if_splits)
  from run obtain digest t s1 confirmed s2 credential revision s3 where
    chain: "service_now svc s = (Inr t, s1)"
      "store_result (ConfirmAuthEnrollmentAttestation (enr_ID enrollment) (auth_ClientID auth) digest t) s1 = (Inr confirmed, s2)"
      "seal_confirmed svc auth confirmed s2 = (Inr (credential, revision), s3)"
      "removeEnrollmentStaging svc (enr_StagingPath confirmed) s3 = (Inr (), s')"
      "r = sealed_view (enr_ID confirmed) (cred_ID credential) revision"
    using body enr owner unfolding handle_auth_confirm_def
    by (auto simp: bindS_ok catchS_ok getS_ok fail_enrollment_def split: if_splits)
  have "vault_frame (mgr_db s) (sw_vault (mgr_world s)) s" by (simp add: vault_frame_def)
  from keepsD [OF frame_now this chain(1)] have s1: "mgr_db s1 = mgr_db s" by (simp add: vault_frame_def)
  obtain d where d: "ConfirmAuthEnrollmentAttestation (enr_ID enrollment) (auth_ClientID auth) digest t (mgr_db s) = (Inr confirmed, d)"
    "mgr_db s2 = d"
    using chain(2) s1 by (auto simp: store_result_def zoomS_ok)
  have id: "enr_ID enrollment = cfb_EnrollmentID body" using enr(1) by (auto simp: AuthEnrollment_read_def dest: read_row_key)
  from Confirm_ok [OF d(1)] enr(1) id have same: "enr_ID confirmed = enr_ID enrollment"
    "enr_CredentialInstanceID confirmed = enr_CredentialInstanceID enrollment"
    "enr_StagingPath confirmed = enr_StagingPath enrollment" "db_vault_items (mgr_db s2) = db_vault_items (mgr_db s)"
    using d(2) by (auto simp: confirm_enrollment_row_def)
  have "vault_frame (mgr_db s3) (sw_vault (mgr_world s3)) s3" by (simp add: vault_frame_def)
  from keepsD [OF frame_remove this chain(4)] have final: "vault_frame (mgr_db s3) (sw_vault (mgr_world s3)) s'" .
  from seal_confirmed_reads [OF chain(3) env] new same(2,4) final show ?thesis
    unfolding same chain(5) using owner by fastforce
qed

end
