(* ===== verification/ServiceFiles.thy ===== *)
theory ServiceFiles
  imports ServiceOutcomes
begin

text \<open>
  What the service itself removes: its calls of \<open>os.RemoveAll\<close> and \<open>os.Remove\<close>
  (\<open>src/internal/app/session_service.go\<close>) touch nothing but the staging directories of enrollments
  and the homes and locks of credentials. The service with other functions in their place that agree
  on these paths answers every request in the same way. What the Codex package removes on its own
  (its temporary schema directory, the materialized home) is behind the bridge and not meant here.
\<close>

definition owned_path :: "('x, 'p) service \<Rightarrow> string \<Rightarrow> bool" where
  "owned_path svc path =
     (\<exists>i. valid_id i \<and>
        (path = Join [staging_base svc, i] \<or>
         svc_CredentialHomeRoot svc \<noteq> '''' \<and>
         (path = Join [Clean (svc_CredentialHomeRoot svc), i] \<or>
          path = Join [Clean (svc_CredentialHomeRoot svc), i @ ''.writer.lock''])))"

definition removing_by ::
  "(string \<Rightarrow> ('x, unit) run) \<Rightarrow> (string \<Rightarrow> ('x, unit) run) \<Rightarrow> ('x, 'p) service \<Rightarrow> ('x, 'p) service" where
  "removing_by g h svc = svc\<lparr>svc_files := (svc_files svc)\<lparr>files_remove_all := g, files_remove := h\<rparr>\<rparr>"

definition removes_alike ::
  "(string \<Rightarrow> ('x, unit) run) \<Rightarrow> (string \<Rightarrow> ('x, unit) run) \<Rightarrow> ('x, 'p) service \<Rightarrow> bool" where
  "removes_alike g h svc = (\<forall>path. owned_path svc path \<longrightarrow>
     g path = files_remove_all (svc_files svc) path \<and> h path = files_remove (svc_files svc) path)"

lemma removes_alikeD:
  "removes_alike g h svc \<Longrightarrow> valid_id i \<Longrightarrow> g (Join [staging_base svc, i]) = files_remove_all (svc_files svc) (Join [staging_base svc, i])"
  "removes_alike g h svc \<Longrightarrow> valid_id i \<Longrightarrow> svc_CredentialHomeRoot svc \<noteq> '''' \<Longrightarrow>
     g (Join [Clean (svc_CredentialHomeRoot svc), i]) = files_remove_all (svc_files svc) (Join [Clean (svc_CredentialHomeRoot svc), i])"
  "removes_alike g h svc \<Longrightarrow> valid_id i \<Longrightarrow> svc_CredentialHomeRoot svc \<noteq> '''' \<Longrightarrow>
     g (Join [Clean (svc_CredentialHomeRoot svc), i @ ''.writer.lock'']) =
     files_remove_all (svc_files svc) (Join [Clean (svc_CredentialHomeRoot svc), i @ ''.writer.lock''])"
  "removes_alike g h svc \<Longrightarrow> valid_id i \<Longrightarrow> h (Join [staging_base svc, i]) = files_remove (svc_files svc) (Join [staging_base svc, i])"
  unfolding removes_alike_def owned_path_def by blast+

text \<open>An owned path is a child of one of the two directories.\<close>

lemma lock_plain: "valid_id i \<Longrightarrow> plain (i @ ''.writer.lock'')"
  using valid_id_plain [of i] by (auto simp: plain_def)

lemma owned_path_child:
  "owned_path svc path \<Longrightarrow> Dir path = staging_base svc \<or> svc_CredentialHomeRoot svc \<noteq> '''' \<and> Dir path = Clean (svc_CredentialHomeRoot svc)"
  unfolding owned_path_def using staging_child(1) child_path(1) [OF valid_id_plain] child_path(1) [OF lock_plain] by blast

section \<open>Operations that remove\<close>

lemmas branches = if_cong option.case_cong sum.case_cong prod.case_cong list.case_cong file_stat.case_cong


lemma removing_by_fields [simp]:
  "svc_runtime (removing_by g h svc) = svc_runtime svc" "svc_ticks (removing_by g h svc) = svc_ticks svc"
  "svc_vault (removing_by g h svc) = svc_vault svc" "svc_bridge (removing_by g h svc) = svc_bridge svc"
  "svc_codex (removing_by g h svc) = svc_codex svc" "svc_SelectorPreflight (removing_by g h svc) = svc_SelectorPreflight svc"
  "svc_SelectorPlatformGate (removing_by g h svc) = svc_SelectorPlatformGate svc" "svc_Path (removing_by g h svc) = svc_Path svc"
  "svc_CredentialHomeRoot (removing_by g h svc) = svc_CredentialHomeRoot svc" "svc_now (removing_by g h svc) = svc_now svc"
  "svc_random (removing_by g h svc) = svc_random svc" "svc_sum (removing_by g h svc) = svc_sum svc"
  "svc_filter_sum (removing_by g h svc) = svc_filter_sum svc" "svc_bodies (removing_by g h svc) = svc_bodies svc"
  "svc_marshal (removing_by g h svc) = svc_marshal svc" "files_remove_all (svc_files (removing_by g h svc)) = g"
  "files_stat (svc_files (removing_by g h svc)) = files_stat (svc_files svc)"
  "files_mkdir (svc_files (removing_by g h svc)) = files_mkdir (svc_files svc)"
  "files_protect (svc_files (removing_by g h svc)) = files_protect (svc_files svc)"
  "files_remove (svc_files (removing_by g h svc)) = h"
  by (simp_all add: removing_by_def)

lemma removing_by_parts [simp]:
  "staging_base (removing_by g h svc) = staging_base svc" "stat_path (removing_by g h svc) = stat_path svc"
  "make_directory (removing_by g h svc) = make_directory svc" "service_now (removing_by g h svc) = service_now svc"
  "new_id (removing_by g h svc) = new_id svc" "the_vault (removing_by g h svc) = the_vault svc"
  "require_unlocked (removing_by g h svc) = require_unlocked svc" "hex_sum (removing_by g h svc) = hex_sum svc"
  "request_digest (removing_by g h svc) = request_digest svc" "client_digest (removing_by g h svc) = client_digest svc"
  "enrollmentAliasDigest (removing_by g h svc) = enrollmentAliasDigest svc"
  "requireSelectorPlatform (removing_by g h svc) = requireSelectorPlatform svc" "probe (removing_by g h svc) = probe svc"
  "idempotency_record (removing_by g h svc) = idempotency_record svc"
  by (simp_all add: fun_eq_iff staging_base_def stat_path_def make_directory_def service_now_def new_id_def the_vault_def
      require_unlocked_def hex_sum_def request_digest_def client_digest_def enrollmentAliasDigest_def
      requireSelectorPlatform_def probe_def idempotency_record_def)

lemma removeEnrollmentStaging_alike:
  assumes "removes_alike g h svc"
  shows "removeEnrollmentStaging (removing_by g h svc) path = removeEnrollmentStaging svc path"
proof (cases "Dir (Clean path) \<noteq> staging_base svc \<or> Clean path = staging_base svc \<or> \<not> is_ok (ValidateID (Base (Clean path)))")
  case True
  then show ?thesis by (simp add: removeEnrollmentStaging_def cong: branches)
next
  case False
  then have "Clean path = Join [staging_base svc, Base (Clean path)]" "valid_id (Base (Clean path))"
    using staging_only_child [of path svc] by blast+
  then have "g (Clean path) = files_remove_all (svc_files svc) (Clean path)"
    using removes_alikeD(1) [OF assms] by metis
  then show ?thesis by (simp add: removeEnrollmentStaging_def cong: branches)
qed

lemma removeCredentialHome_alike:
  assumes "removes_alike g h svc"
  shows "removeCredentialHome (removing_by g h svc) i = removeCredentialHome svc i"
proof (cases "valid_id i \<and> svc_CredentialHomeRoot svc \<noteq> ''''")
  case True
  then show ?thesis using removes_alikeD(2,3) [OF assms, of i] by (simp add: removeCredentialHome_def Let_def cong: branches)
next
  case False
  then show ?thesis by (cases "ValidateID i") (auto simp: removeCredentialHome_def)
qed

lemma remove_stagings_alike:
  "removes_alike g h svc \<Longrightarrow> remove_stagings (removing_by g h svc) paths = remove_stagings svc paths"
  by (induction paths) (simp_all add: removeEnrollmentStaging_alike cong: branches)

lemma createEnrollmentStaging_alike:
  assumes "removes_alike g h svc"
  shows "createEnrollmentStaging (removing_by g h svc) i = createEnrollmentStaging svc i"
proof (cases "valid_id i")
  case True
  then show ?thesis using removes_alikeD(4) [OF assms] by (simp add: createEnrollmentStaging_def Let_def cong: branches)
next
  case False
  then show ?thesis by (cases "ValidateID i") (auto simp: createEnrollmentStaging_def)
qed

section \<open>Requests\<close>

lemma auth_alike:
  assumes "removes_alike g h svc"
  shows "handle_auth_begin (removing_by g h svc) auth rq = handle_auth_begin svc auth rq"
    "handle_auth_complete (removing_by g h svc) auth rq = handle_auth_complete svc auth rq"
    "handle_auth_confirm (removing_by g h svc) auth rq = handle_auth_confirm svc auth rq"
    "handle_auth_cancel (removing_by g h svc) auth rq = handle_auth_cancel svc auth rq"
    "handle_auth_status (removing_by g h svc) auth rq = handle_auth_status svc auth rq"
    "handle_auth_logout (removing_by g h svc) rq = handle_auth_logout svc rq"
proof -
  note alike = removeEnrollmentStaging_alike [OF assms] removeCredentialHome_alike [OF assms]
    remove_stagings_alike [OF assms] createEnrollmentStaging_alike [OF assms]
  have begin_run: "begin_enrollment_run (removing_by g h svc) = begin_enrollment_run svc"
    by (intro ext) (simp add: begin_enrollment_run_def alike Let_def cong: branches)
  have failing: "fail_enrollment (removing_by g h svc) = fail_enrollment svc"
    by (intro ext) (simp add: fail_enrollment_def alike cong: branches)
  have validating: "validate_claimed (removing_by g h svc) = validate_claimed svc"
    by (intro ext) (simp add: validate_claimed_def cong: branches)
  have sealing: "seal_confirmed (removing_by g h svc) = seal_confirmed svc"
    by (intro ext) (simp add: seal_confirmed_def cong: branches)
  show "handle_auth_begin (removing_by g h svc) auth rq = handle_auth_begin svc auth rq"
    by (simp add: handle_auth_begin_def alike begin_run Let_def cong: branches)
  show "handle_auth_complete (removing_by g h svc) auth rq = handle_auth_complete svc auth rq"
    by (simp add: handle_auth_complete_def alike failing validating cong: branches)
  show "handle_auth_confirm (removing_by g h svc) auth rq = handle_auth_confirm svc auth rq"
    by (simp add: handle_auth_confirm_def alike failing sealing cong: branches)
  show "handle_auth_cancel (removing_by g h svc) auth rq = handle_auth_cancel svc auth rq"
    "handle_auth_status (removing_by g h svc) auth rq = handle_auth_status svc auth rq"
    "handle_auth_logout (removing_by g h svc) rq = handle_auth_logout svc rq"
    by (simp_all add: handle_auth_cancel_def handle_auth_status_def handle_auth_logout_def alike cong: branches)
qed

lemma probing_alike:
  "selectorPreflight (removing_by g h svc) = selectorPreflight svc" "codexDescribe (removing_by g h svc) = codexDescribe svc"
  by (simp_all add: selectorPreflight_def codexDescribe_def cong: branches)

lemma usage_views_alike: "usage_views (removing_by g h svc) us = usage_views svc us"
  by (induction us) simp_all

lemma account_methods_alike: "handleAccountMethod (removing_by g h svc) rq = handleAccountMethod svc rq"
proof -
  have "handle_accounts_create (removing_by g h svc) rq = handle_accounts_create svc rq"
    "handle_accounts_list (removing_by g h svc) rq = handle_accounts_list svc rq"
    "handle_accounts_show (removing_by g h svc) rq = handle_accounts_show svc rq"
    "handle_account_change (removing_by g h svc) rq = handle_account_change svc rq"
    "handle_profiles_create (removing_by g h svc) rq = handle_profiles_create svc rq"
    "handle_profiles_list (removing_by g h svc) rq = handle_profiles_list svc rq"
    "handle_profiles_show (removing_by g h svc) rq = handle_profiles_show svc rq"
    "handle_profiles_resolve (removing_by g h svc) rq = handle_profiles_resolve svc rq"
    "handle_profile_change (removing_by g h svc) rq = handle_profile_change svc rq"
    "handle_usage_list (removing_by g h svc) rq = handle_usage_list svc rq"
    "handle_profiles_validate (removing_by g h svc) rq = handle_profiles_validate svc rq"
    "handle_provider_operation (removing_by g h svc) rq = handle_provider_operation svc rq"
    "handle_usage_refresh (removing_by g h svc) rq = handle_usage_refresh svc rq"
    by (simp_all add: handle_accounts_create_def handle_accounts_list_def handle_accounts_show_def
        handle_account_change_def handle_profiles_create_def handle_profiles_list_def handle_profiles_show_def
        handle_profiles_resolve_def handle_profile_change_def handle_usage_list_def handle_profiles_validate_def
        handle_provider_operation_def handle_usage_refresh_def usage_views_alike Let_def cong: branches)
  then show ?thesis by (simp add: handleAccountMethod_def cong: branches)
qed

lemma service_methods_alike:
  "handle_vault_status (removing_by g h svc) = handle_vault_status svc"
  "handle_vault_initialize (removing_by g h svc) auth rq = handle_vault_initialize svc auth rq"
  "handle_vault_unlock (removing_by g h svc) rq = handle_vault_unlock svc rq"
  "handle_vault_lock (removing_by g h svc) = handle_vault_lock svc"
  "legacy_registry (removing_by g h svc) rq = legacy_registry svc rq"
  "handle_profiles_edit (removing_by g h svc) rq = handle_profiles_edit svc rq"
  "handle_profile_validate (removing_by g h svc) rq = handle_profile_validate svc rq"
  "handle_provider_health (removing_by g h svc) = handle_provider_health svc"
  "handle_usage_read (removing_by g h svc) rq = handle_usage_read svc rq"
  "handle_approval_list (removing_by g h svc) rq = handle_approval_list svc rq"
  "handle_approval_respond (removing_by g h svc) auth rq = handle_approval_respond svc auth rq"
  "handle_sessions_show (removing_by g h svc) rq = handle_sessions_show svc rq"
  "handle_sessions_preview (removing_by g h svc) auth rq = handle_sessions_preview svc auth rq"
  by (simp_all add: handle_vault_status_def handle_vault_initialize_def handle_vault_unlock_def handle_vault_lock_def
      legacy_registry_def handle_profiles_edit_def handle_profile_validate_def handle_provider_health_def
      handle_usage_read_def handle_approval_list_def handle_approval_respond_def handle_sessions_show_def
      handle_sessions_preview_def probing_alike Let_def cong: branches)

lemma session_methods_alike:
  "handle_sessions_start (removing_by g h svc) auth rq = handle_sessions_start svc auth rq"
  "handle_sessions_attach (removing_by g h svc) auth rq = handle_sessions_attach svc auth rq"
  "handle_sessions_detach (removing_by g h svc) auth rq = handle_sessions_detach svc auth rq"
  "handle_sessions_observe (removing_by g h svc) rq = handle_sessions_observe svc rq"
  "handle_control_acquire (removing_by g h svc) auth rq = handle_control_acquire svc auth rq"
  "handle_control_heartbeat (removing_by g h svc) auth rq = handle_control_heartbeat svc auth rq"
  "handle_control_release (removing_by g h svc) auth rq = handle_control_release svc auth rq"
  "handle_terminal_input (removing_by g h svc) auth rq = handle_terminal_input svc auth rq"
  "handle_terminal_resize (removing_by g h svc) auth rq = handle_terminal_resize svc auth rq"
  "handle_sessions_stop (removing_by g h svc) auth rq = handle_sessions_stop svc auth rq"
  "handle_sessions_resume (removing_by g h svc) rq = handle_sessions_resume svc rq"
proof -
  have "consume_request (removing_by g h svc) = consume_request svc"
    by (intro ext) (simp add: consume_request_def)
  then have "start_selected (removing_by g h svc) = start_selected svc"
    by (intro ext) (simp add: start_selected_def probing_alike cong: branches)
  then show "handle_sessions_start (removing_by g h svc) auth rq = handle_sessions_start svc auth rq"
    by (simp add: handle_sessions_start_def cong: branches)
qed (simp_all add: handle_sessions_attach_def handle_sessions_detach_def handle_sessions_observe_def
       handle_control_acquire_def handle_control_heartbeat_def handle_control_release_def handle_terminal_input_def
       handle_terminal_resize_def handle_sessions_stop_def handle_sessions_resume_def cong: branches)

lemma Handle_alike:
  assumes "removes_alike g h svc"
  shows "Handle (removing_by g h svc) auth rq = Handle svc auth rq"
proof -
  have "dispatch (removing_by g h svc) auth rq = dispatch svc auth rq"
    by (simp only: dispatch_def auth_alike [OF assms] account_methods_alike service_methods_alike session_methods_alike
        probing_alike)
  moreover have "withIdempotency (removing_by g h svc) = withIdempotency svc"
    by (intro ext) (simp add: withIdempotency_def cong: branches)
  ultimately show ?thesis by (simp only: Handle_def)
qed

end
