(* ===== verification/ServiceSamples.thy ===== *)
theory ServiceSamples
  imports ServiceLogin ServiceFiles VaultProperties
begin

text \<open>
  The concrete service of the witnesses: constant clocks and digests, files that are there, a Codex
  binary of a supported version, and the vault of the sample credential.
\<close>

section \<open>A concrete service\<close>

definition toy_codex_runtime :: "(nat service_world, nat) runtime" where
  "toy_codex_runtime = \<lparr>rt_executable = ''/bin/desk'', rt_leaseDuration = 30,
     rt_now = (\<lambda>w. (50, w)), rt_random = (\<lambda>w. (Some (replicate 16 1), w)), rt_unlocked = None,
     rt_start = returnS 7, rt_ready = (\<lambda>p. returnS ()), rt_input = (\<lambda>p payload. returnS ()),
     rt_resize = (\<lambda>p r c. returnS ()), rt_stop = (\<lambda>p. returnS ()), rt_kill = (\<lambda>p. returnS ()),
     rt_event_json = (\<lambda>m. Inr ''{}''),
     rt_codex = Some \<lparr>cx_start = (\<lambda>r. throwS (OtherError ''no start'')),
       cx_start_reserved = (\<lambda>r. load (Session_read (rs_SessionID r))),
       cx_input = (\<lambda>i p. returnS ()), cx_resize = (\<lambda>i. returnS ()), cx_stop = (\<lambda>i b. returnS ())\<rparr>\<rparr>"

definition toy_descriptor :: BinaryDescriptor where
  "toy_descriptor = \<lparr>bd_Provider = ''codex'', bd_Path = ''/bin/codex'', bd_Version = ''0.144.2'',
     bd_Platform = ''linux'', bd_Architecture = ''amd64'', bd_SchemaFingerprint = ''''\<rparr>"

definition toy_start_body :: startBody where
  "toy_start_body = \<lparr>stb_DeviceID = device_1, stb_Provider = '''', stb_AccountID = '''',
     stb_CredentialInstanceID = '''', stb_RuntimeProfileID = '''', stb_WorkspaceID = workspace_1, stb_Capabilities = [],
     stb_ProfileSelector = ''@work'', stb_PreviewID = preview_1,
     stb_Confirmation = Some \<lparr>pc_Confirmed = True, pc_AccountID = account_1, pc_AccountRevision = 1,
       pc_CredentialInstanceID = credential_1, pc_CredentialRevision = 2, pc_RuntimeProfileID = profile_1,
       pc_ProfileRevision = 2, pc_DeviceID = device_1, pc_WorkspaceID = workspace_1, pc_UsageSnapshotID = '''',
       pc_ProviderVersion = ''1.0''\<rparr>\<rparr>"

definition toy_confirm_body :: authConfirmBody where
  "toy_confirm_body = \<lparr>cfb_EnrollmentID = enrollment_1, cfb_ProfileSelector = ''@work'', cfb_Confirmed = True\<rparr>"

definition toy_bodies :: bodies where
  "toy_bodies = \<lparr>body_session = (\<lambda>_. Some session_1), body_account = (\<lambda>_. None), body_account_create = (\<lambda>_. None),
     body_profile = (\<lambda>_. None), body_profile_create = (\<lambda>_. None), body_profile_edit = (\<lambda>_. None),
     body_credential = (\<lambda>_. None), body_auth_begin = (\<lambda>_. None), body_enrollment = (\<lambda>_. None),
     body_auth_confirm = (\<lambda>_. Some toy_confirm_body), body_auth_status = (\<lambda>_. None), body_usage = (\<lambda>_. None),
     body_approval = (\<lambda>_. None), body_vault = (\<lambda>_. None), body_observe = (\<lambda>_. None), body_attach = (\<lambda>_. None),
     body_preview = (\<lambda>_. None), body_start = (\<lambda>_. Some toy_start_body), body_input = (\<lambda>_. None),
     body_resize = (\<lambda>_. None), body_registry_account = (\<lambda>_. None), body_list = (\<lambda>_. None), body_target = (\<lambda>_. None),
     body_registry_profile = (\<lambda>_. None), body_registry_usage = (\<lambda>_. None)\<rparr>"

text \<open>The clock shows 20, and then 10; the random source gives the identifier of the second session.\<close>

definition toy_service :: "(nat, nat) service" where
  "toy_service = \<lparr>svc_runtime = toy_codex_runtime, svc_ticks = [], svc_vault = Some toy_env,
     svc_bridge = \<lparr>bc_usage = (\<lambda>_. throwS (OtherError ''no usage'')), bc_respond = (\<lambda>_. throwS (OtherError ''no approval''))\<rparr>,
     svc_codex = \<lparr>ct_discover = returnS toy_descriptor,
       ct_probe = (\<lambda>d x. ((no_capabilities, Some (OtherError ''no probe'')), x)),
       ct_fingerprint = (\<lambda>_. returnS digest_0), ct_digest = (\<lambda>_. digest_0), ct_validate = (\<lambda>_ _. returnS ()),
       ct_read_auth = (\<lambda>_. returnS toy_secret)\<rparr>,
     svc_SelectorPreflight = Some (returnS \<lparr>pf_ProviderVersion = ''1.0'', pf_BinaryFingerprint = digest_0,
       pf_SchemaFingerprint = digest_0, pf_CapabilityDigest = digest_0,
       pf_Capabilities = [CapabilitySessionObserve, CapabilitySessionResume]\<rparr>),
     svc_SelectorPlatformGate = None,
     svc_files = \<lparr>files_stat = (\<lambda>p x. (StatDirectory, x)), files_mkdir = (\<lambda>p x. (Inr True, x)),
       files_protect = (\<lambda>_. returnS ()), files_remove = (\<lambda>_. returnS ()), files_remove_all = (\<lambda>_. returnS ()),
       files_list = (\<lambda>_. returnS [])\<rparr>,
     svc_Path = ''/d/desk.db'', svc_CredentialHomeRoot = '''',
     svc_now = (\<lambda>x. (if x = 0 then 20 else 10, Suc x)), svc_random = (\<lambda>x. (Some (replicate 15 0 @ [2]), x)),
     svc_sum = (\<lambda>_. replicate 32 17), svc_filter_sum = (\<lambda>_. ''''), svc_expiry_key = (\<lambda>_. ''k''),
     svc_bodies = toy_bodies, svc_marshal = (\<lambda>_. Inr ''{}'')\<rparr>"

lemma toy_service_simps [simp]:
  "svc_runtime toy_service = toy_codex_runtime" "svc_ticks toy_service = []" "svc_vault toy_service = Some toy_env"
  "svc_files toy_service = \<lparr>files_stat = (\<lambda>p x. (StatDirectory, x)), files_mkdir = (\<lambda>p x. (Inr True, x)),
       files_protect = (\<lambda>_. returnS ()), files_remove = (\<lambda>_. returnS ()), files_remove_all = (\<lambda>_. returnS ()),
       files_list = (\<lambda>_. returnS [])\<rparr>"
  "svc_CredentialHomeRoot toy_service = ''''" "svc_Path toy_service = ''/d/desk.db''"
  "svc_bodies toy_service = toy_bodies" "svc_marshal toy_service r = Inr ''{}''" "svc_sum toy_service t = replicate 32 17"
  "svc_now toy_service x = (if x = 0 then 20 else 10, Suc x)"
  "svc_random toy_service x = (Some (replicate 15 0 @ [2]), x)"
  by (simp_all add: toy_service_def)

lemma toy_service_ok: "service_ok toy_service"
  by (simp add: service_ok_def bridge_ok_def bridge_keeps_def toy_codex_runtime_def load_def)
     (simp add: toy_service_def keeping)

lemma toy_hex: "hex_sum toy_service t = digest_1"
  by (simp add: hex_sum_def digest_1_def) code_simp

definition toy_state :: "db \<Rightarrow> (nat, nat) service_state" where
  "toy_state d = \<lparr>mgr_db = d,
     mgr_world = \<lparr>sw_vault = \<lparr>vm_state = StateUnlocked, vm_epoch = 1, vm_persistent = True, vm_kek = toy_key\<rparr>, sw_rest = 0\<rparr>,
     mgr_processes = (\<lambda>_. None), mgr_rings = (\<lambda>_. None), mgr_eventSeq = (\<lambda>_. 0), mgr_inputSeq = (\<lambda>_. 0)\<rparr>"

lemma toy_state_simps [simp]:
  "mgr_db (toy_state d) = d" "sw_rest (mgr_world (toy_state d)) = 0"
  "sw_vault (mgr_world (toy_state d)) = \<lparr>vm_state = StateUnlocked, vm_epoch = 1, vm_persistent = True, vm_kek = toy_key\<rparr>"
  by (simp_all add: toy_state_def)

definition toy_auth :: AuthContext where
  "toy_auth = \<lparr>auth_ClientID = client_1, auth_IdentityRevision = 1, auth_GrantedCapabilities = [],
     auth_ConnectionID = [], auth_AuthenticatedAt = 1, auth_ExpiresAt = 100\<rparr>"

definition toy_call :: "string \<Rightarrow> Request" where
  "toy_call m = \<lparr>rq_ProtocolMajor = 1, rq_ID = ''r'', rq_Method = m, rq_IdempotencyKey = ''k'', rq_LeaseRevision = None,
     rq_Body = Some ''{}''\<rparr>"

lemma toy_decode: "decodeBody (\<lambda>_. Some b) (toy_call m) = Inr b"
  by (simp add: decodeBody_def body_text_def toy_call_def)

section \<open>Requests to it\<close>

text \<open>A detach on the sample database.\<close>

definition toy_detached :: any where
  "toy_detached = AnyMap [(''session_id'', AnyText session_1), (''client_id'', AnyText client_1), (''detached'', AnyBool True)]"

lemma toy_detach: "\<exists>s1. Handle toy_service toy_auth (toy_call ''sessions.detach'') (toy_state sample_db) = (Inr toy_detached, s1)"
proof -
  let ?rq = "toy_call ''sessions.detach''"
  let ?saved = "idempotency_record toy_service client_1 ?rq ''{}'' 20"
  have rq: "rq_Method ?rq = ''sessions.detach''" "rq_IdempotencyKey ?rq = ''k''" by (simp_all add: toy_call_def)
  have auth: "auth_ClientID toy_auth = client_1" by (simp add: toy_auth_def)
  have idem: "requiresIdempotency (rq_Method ?rq)" unfolding rq requiresIdempotency_def by simp
  have digest: "request_digest toy_service ?rq = digest_1" by (simp add: request_digest_def toy_hex)
  have none: "db_idempotency sample_db = []" "db_attachments sample_db = []" by (simp_all add: sample_db_def empty_db_def)
  have "dispatch toy_service toy_auth ?rq = handle_sessions_detach toy_service toy_auth ?rq"
    by (simp add: dispatch_def rq registryMethod_def registry_methods_def)
  moreover have "handle_sessions_detach toy_service toy_auth ?rq (toy_state sample_db) = (Inr toy_detached, toy_state sample_db)"
    by (simp add: handle_sessions_detach_def toy_bodies_def toy_decode run_simps Detach_def store_def DeleteAttachment_def
        none delete_rows_def toy_detached_def auth)
  moreover have "IdempotencyRecord_read client_1 ''sessions.detach'' ''k'' sample_db =
      fail CodeNotFound ''idempotency record not found''"
    by (simp add: IdempotencyRecord_read_def read_row_def none)
  moreover have "SaveIdempotencyRecord ?saved sample_db = Inr ((), sample_db\<lparr>db_idempotency := [?saved]\<rparr>)"
  proof -
    have "between (Suc 0) 128 ''sessions.detach''" "between (Suc 0) 128 ''k''" "between (Suc 0) 64 ''ok''"
      by (simp_all add: between_def sql_length_def)
    moreover have "references cli_ID (db_clients sample_db) client_1" by (simp add: references_def sample_db_def)
    ultimately have "idempotency_ok sample_db [?saved]"
      by (simp add: idempotency_ok_def idempotency_record_def rq digest json_eval)
    then show ?thesis by (simp add: SaveIdempotencyRecord_def idempotency_record_def rq digest json_eval sql_insert_def none)
  qed
  moreover have "CodeOf (Some (NewError CodeNotFound ''idempotency record not found'')) = Some CodeNotFound"
    by (simp add: NewError_def)
  ultimately show ?thesis
    using idem
    by (simp add: Handle_def rq auth withIdempotency_def stored_response_def run_simps service_now_def rest_def
        world_def MaxFrameBytes_def store_def)
qed

text \<open>A start of the sample Session.\<close>

lemma toy_alias: "ParseProfileSelector ''@work'' = Inr ''work''"
  by (simp add: ParseProfileSelector_def CanonicalSelectorAlias_def) code_simp

lemma ready_binding: "\<exists>account profile credential. ResolveProfile ''@work'' ready_db =
    Inr \<lparr>bind_Account = account, bind_Profile = profile, bind_Credential = Some credential\<rparr> \<and>
    acc_Enabled account \<and> prof_Enabled profile \<and> acc_ID account = account_1 \<and> prof_ID profile = profile_1 \<and>
    prof_DeviceID profile = device_1 \<and> cred_ID credential = credential_1"
  using sample_nonempty
  by (simp add: ResolveProfile_def toy_alias bind_profile_def Account_read_def CredentialInstance_read_def read_row_def ready_tables
      sealed_db_def sealed_credential_def)
     (simp add: sample_db_def bind_profile_def Account_read_def CredentialInstance_read_def read_row_def ready_tables
      sealed_db_def sealed_credential_def sample_item_def)

lemma toy_start: "\<exists>s'. handle_sessions_start toy_service toy_auth (toy_call ''sessions.start'') (toy_state ready_db) =
    (Inr (sessionView started_session), s')"
proof -
  obtain account profile credential where b: "ResolveProfile ''@work'' ready_db =
      Inr \<lparr>bind_Account = account, bind_Profile = profile, bind_Credential = Some credential\<rparr>"
    "acc_Enabled account" "prof_Enabled profile" "acc_ID account = account_1" "prof_ID profile = profile_1"
    "prof_DeviceID profile = device_1" "cred_ID credential = credential_1"
    using ready_binding by blast
  have id: "NewID ''session'' (Some (replicate 15 0 @ [2])) = Inr session_2"
    unfolding session_2_def by code_simp
  have digest: "request_digest toy_service (toy_call ''sessions.start'') = digest_1" by (simp add: request_digest_def toy_hex)
  have body: "stb_ProfileSelector toy_start_body = ''@work''" "stb_PreviewID toy_start_body = preview_1"
    "stb_Provider toy_start_body = ''''" "stb_AccountID toy_start_body = ''''" "stb_WorkspaceID toy_start_body = workspace_1"
    by (simp_all add: toy_start_body_def)
  obtain c where some: "stb_Confirmation toy_start_body = Some c" by (simp add: toy_start_body_def)
  then have c: "stb_Confirmation toy_start_body = Some c" "pc_Confirmed c" "start_confirmation c = req_Confirmation sample_request"
    by (auto simp: toy_start_body_def start_confirmation_def sample_request_def)
  let ?pf = "\<lparr>pf_ProviderVersion = ''1.0'', pf_BinaryFingerprint = digest_0, pf_SchemaFingerprint = digest_0,
      pf_CapabilityDigest = digest_0, pf_Capabilities = [CapabilitySessionObserve, CapabilitySessionResume]\<rparr>"
  have pf: "selectorPreflight toy_service = rest (returnS ?pf)" by (simp add: selectorPreflight_def toy_service_def)
  let ?b = "\<lparr>bind_Account = account, bind_Profile = profile, bind_Credential = Some credential\<rparr>"
  have req: "consume_request toy_service toy_auth (toy_call ''sessions.start'') toy_start_body c ?pf ?b credential session_2 20 10 =
      sample_request"
    using b c(3) body by (simp add: consume_request_def digest toy_auth_def) (simp add: sample_request_def sample_session_def)
  have started: "Session_read session_2 started_db = Inr started_session"
    by (simp add: Session_read_def read_row_def started_db_def started_session_def sample_session_def) (simp add: sample_ids)
  have f: "ses_ID started_session = session_2" "ses_Status started_session = SessionStarting"
    "ses_DeviceID started_session = device_1" "ses_AccountID started_session = account_1"
    "ses_CredentialInstanceID started_session = credential_1" "ses_RuntimeProfileID started_session = profile_1"
    "ses_WorkspaceID started_session = workspace_1" "ses_Provider started_session = ProviderCodex"
    by (simp_all add: started_session_def sample_session_def)
  have reserved: "\<exists>s'. StartReserved toy_codex_runtime (reserved_start toy_start_body ?pf ?b credential session_2) s = (Inr started_session, s')"
    if "mgr_db s = started_db" for s :: "(nat, nat) service_state"
    using that started f b(4-7) body(5)
    by (simp add: StartReserved_def reserved_start_def run_simps load_def toy_codex_runtime_def ensure_ring_def)
  have "codex_raw_ids toy_start_body ready_db = Inr False" by (simp add: codex_raw_ids_def body)
  then show ?thesis
    using b(1-3) c(1,2) reserved [of "toy_state ready_db\<lparr>mgr_world := mgr_world (toy_state ready_db)\<lparr>sw_rest := Suc (Suc 0)\<rparr>,
      mgr_db := started_db\<rparr>"]
    by (auto simp: handle_sessions_start_def toy_bodies_def toy_decode start_selected_def body pf run_simps load_def rest_def
        world_def service_now_def new_id_def id req store_result_def consume_sample f preview_1_def)
qed

text \<open>The confirmation of the sample login, after the official client has completed it.\<close>

definition toy_enrollment :: AuthEnrollment where
  "toy_enrollment = confirmed_enrollment\<lparr>enr_StagingPath := ''/d/enrollments/'' @ enrollment_1,
     enr_ConfirmationAliasDigest := digest_1, enr_ConfirmedByClientID := '''', enr_ConfirmedAt := None\<rparr>"

definition toy_login_db :: db where
  "toy_login_db = sample_db\<lparr>db_enrollments := [toy_enrollment]\<rparr>"

definition toy_login_item :: VaultItem where
  "toy_login_item = sealed_item toy_env (toy_metadata\<lparr>cm_CreatedAt := 1, cm_UpdatedAt := 10\<rparr>) toy_key
     (replicate 32 5) (replicate 12 5) (replicate 12 5) toy_secret"

lemma toy_login_item_ok: "item_for_sample toy_login_item"
proof -
  have fields: "vi_CredentialInstanceID toy_login_item = credential_1" "vi_AccountID toy_login_item = account_1"
    "vi_DeviceID toy_login_item = device_1" "vi_CredentialRevision toy_login_item = 2"
    by (simp_all add: toy_login_item_def sealed_item_def toy_metadata_def i64_def Let_def)
  have valid: "validVaultItem toy_login_item"
    using sample_valid_ids toy_digest
    by (simp add: validVaultItem_def toy_login_item_def sealed_item_def toy_metadata_def toy_env_def toy_secret_def Let_def i64_def
        del: sample_valid_ids)
  have "references cred_ID (db_credentials sample_db) credential_1"
    "references acc_ID (db_accounts sample_db) account_1" "references dev_ID (db_devices sample_db) device_1"
    by (simp_all add: references_def sample_db_def)
  then have "vault_items_ok sample_db [toy_login_item]"
    using toy_digest fields
    by (simp add: vault_items_ok_def vault_item_row_ok_def)
       (simp add: toy_login_item_def sealed_item_def toy_metadata_def toy_env_def toy_secret_def Let_def)
  then show ?thesis using fields valid by (simp add: item_for_sample_def)
qed

lemma toy_enrollment_fields [simp]:
  "enr_ID toy_enrollment = enrollment_1" "enr_ClientDeviceID toy_enrollment = client_1"
  "enr_CredentialInstanceID toy_enrollment = credential_1" "enr_State toy_enrollment = EnrollmentAwaitingConfirmation"
  "enr_ConfirmedByClientID toy_enrollment = ''''" "enr_CompletionIdempotencyDigest toy_enrollment = digest_1"
  "enr_RuntimeProfileID toy_enrollment = profile_1" "enr_ConfirmationAliasDigest toy_enrollment = digest_1"
  "enr_ConfirmationAccountID toy_enrollment = account_1" "enr_ConfirmationAccountRevision toy_enrollment = 1"
  "enr_ConfirmationProfileID toy_enrollment = profile_1" "enr_ConfirmationProfileRevision toy_enrollment = 1"
  "enr_ConfirmationCredentialID toy_enrollment = credential_1" "enr_ConfirmationCredentialRevision toy_enrollment = 1"
  "enr_ExpiresAt toy_enrollment = 900 * second" "enr_BinaryFingerprint toy_enrollment = digest_0"
  "enr_StagingPath toy_enrollment = ''/d/enrollments/'' @ enrollment_1"
  by (simp_all add: toy_enrollment_def confirmed_enrollment_def sample_enrollment_def)

lemma toy_confirmed_row: "confirmed_sample (confirm_enrollment_row client_1 20 toy_enrollment)"
proof -
  have "enrollment_row_ok sample_db confirmed_enrollment"
    using confirmed_db_ok by (simp add: db_ok_def enrollments_ok_def confirmed_db_def enrollment_row_ok_def)
  moreover have "between (Suc 0) 4096 (''/d/enrollments/'' @ enrollment_1)"
    by (simp add: between_def sql_length_def sample_ids)
  ultimately show ?thesis
    by (simp add: confirmed_sample_def confirm_enrollment_row_def)
       (simp add: toy_enrollment_def enrollment_row_ok_def confirmation_tuple_ok_def confirmed_enrollment_def sample_enrollment_def)
qed

lemma toy_staging: "removeEnrollmentStaging toy_service (''/d/enrollments/'' @ enrollment_1) s = (Inr (), s)"
proof -
  have base: "staging_base toy_service = ''/d/enrollments''" by (simp add: staging_base_def) code_simp
  have "Clean (''/d/enrollments/'' @ enrollment_1) = ''/d/enrollments/'' @ enrollment_1"
    "Dir (''/d/enrollments/'' @ enrollment_1) = ''/d/enrollments''" "Base (''/d/enrollments/'' @ enrollment_1) = enrollment_1"
    unfolding enrollment_1_def by code_simp+
  then show ?thesis
    by (simp add: removeEnrollmentStaging_def base stat_path_def rest_def world_def wrapping_def run_simps Let_def)
qed

lemma toy_confirmation:
  "ConfirmAuthEnrollmentAttestation enrollment_1 client_1 digest_1 20 toy_login_db =
     (Inr (confirm_enrollment_row client_1 20 toy_enrollment),
      sample_db\<lparr>db_enrollments := [confirm_enrollment_row client_1 20 toy_enrollment]\<rparr>)"
proof -
  let ?row = "confirm_enrollment_row client_1 20 toy_enrollment"
  have rows: "db_enrollments toy_login_db = [toy_enrollment]" by (simp add: toy_login_db_def)
  have read: "AuthEnrollment_read enrollment_1 toy_login_db = Inr toy_enrollment"
    by (simp add: AuthEnrollment_read_def read_row_def rows)
  have "enrollment_row_ok sample_db ?row" using toy_confirmed_row by (simp add: confirmed_sample_def)
  then have ok: "enrollments_ok toy_login_db [?row]"
    by (simp add: enrollments_ok_def toy_login_db_def enrollment_row_ok_def)
  have before: "text_before 20 (900 * second)" "20 < 900 * second" by (simp_all add: text_before_def second_def)
  have fp: "validFingerprint digest_1" using digest_1_decodes by (simp add: validFingerprint_def)
  have row: "toy_enrollment\<lparr>enr_ConfirmedByClientID := client_1, enr_ConfirmedAt := Some 20, enr_UpdatedAt := 20\<rparr> = ?row"
    by (simp add: confirm_enrollment_row_def)
  have id: "enr_ID ?row = enrollment_1" by (simp add: confirm_enrollment_row_def)
  show ?thesis
    using sample_nonempty before ok fp
    by (simp add: ConfirmAuthEnrollmentAttestation_def read rows sql_update_def update_rows_def count_rows_def row
        AuthEnrollment_read_def read_row_def id Let_def)
       (simp add: toy_login_db_def)
qed

lemma toy_seal_confirmed:
  "\<exists>c s'. seal_confirmed toy_service toy_auth (confirm_enrollment_row client_1 20 toy_enrollment) s = (Inr (c, 2), s') \<and> cred_ID c = credential_1"
  if s: "mgr_db s = sample_db\<lparr>db_enrollments := [confirm_enrollment_row client_1 20 toy_enrollment]\<rparr>" "sw_rest (mgr_world s) = 1"
    "sw_vault (mgr_world s) = \<lparr>vm_state = StateUnlocked, vm_epoch = 1, vm_persistent = True, vm_kek = toy_key\<rparr>"
proof -
  let ?row = "confirm_enrollment_row client_1 20 toy_enrollment"
  have row: "enr_ID ?row = enrollment_1" "enr_CompletionIdempotencyDigest ?row = digest_1" "enr_BinaryFingerprint ?row = digest_0"
    "enr_CredentialInstanceID ?row = credential_1"
    by (simp_all add: confirm_enrollment_row_def)
  have auth: "auth_ClientID toy_auth = client_1" by (simp add: toy_auth_def)
  have codex: "ct_discover (svc_codex toy_service) = returnS toy_descriptor" "ct_fingerprint (svc_codex toy_service) d = returnS digest_0"
    "ct_validate (svc_codex toy_service) d p = returnS ()" "ct_read_auth (svc_codex toy_service) p = returnS toy_secret" for d p
    by (simp_all add: toy_service_def)
  have platform: "requireSelectorPlatform toy_service toy_descriptor = Inr ()"
    by (simp add: requireSelectorPlatform_def toy_service_def RequireSelectorPlatform_def toy_descriptor_def)
  obtain c where c: "CredentialInstance_read credential_1 (mgr_db s) = Inr c" "cred_ID c = credential_1"
    "cred_AccountID c = account_1" "cred_DeviceID c = device_1" "cred_Provider c = ProviderCodex"
    "cred_CredentialRevision c = 1" "cred_CreatedAt c = 1"
    by (simp add: s CredentialInstance_read_def read_row_def) (simp add: sample_db_def)
  let ?md = "\<lparr>cm_CredentialInstanceID = credential_1, cm_AccountID = account_1, cm_DeviceID = device_1, cm_Provider = ProviderCodex,
      cm_ExpectedRevision = 1, cm_CreatedAt = 1, cm_UpdatedAt = 10\<rparr>"
  have md: "toy_metadata\<lparr>cm_CreatedAt := 1, cm_UpdatedAt := 10\<rparr> = ?md" by (simp add: toy_metadata_def)
  have item: "sealed_item toy_env ?md toy_key (replicate 32 5) (replicate 12 5) (replicate 12 5) toy_secret = toy_login_item"
    unfolding toy_login_item_def md ..
  have rnd: "random_bytes toy_env n t = (Inr (replicate n 5), t)" for n t by (simp add: random_bytes_def toy_env_def)
  have kek: "newGCM toy_key = Inr ()" "newGCM (replicate 32 5) = Inr ()" "length toy_secret = 2"
    by (simp_all add: newGCM_def toy_key_def toy_secret_def)
  have m: "currentKEK \<lparr>vm_state = StateUnlocked, vm_epoch = 1, vm_persistent = True, vm_kek = toy_key\<rparr> = Inr toy_key"
    by (simp add: currentKEK_def toy_key_def)
  have "\<exists>v. sealCredential toy_env enrollment_1 client_1 digest_1 ?md toy_secret t = (Inr 2, v)"
    if "vs_manager t = \<lparr>vm_state = StateUnlocked, vm_epoch = 1, vm_persistent = True, vm_kek = toy_key\<rparr>"
      "vs_db t = sample_db\<lparr>db_enrollments := [?row]\<rparr>" for t
    using that kek m seal_confirmed_sample [OF toy_confirmed_row toy_login_item_ok] sample_nonempty
    by (simp add: sealCredential_def run_simps rnd toy_json item vault_store_def maxPayloadSize_def i64_def)
  then have "\<exists>v. SealEnrollmentCredential toy_env enrollment_1 client_1 digest_1 ?md toy_secret t = (Inr 2, v)"
    if "vs_manager t = \<lparr>vm_state = StateUnlocked, vm_epoch = 1, vm_persistent = True, vm_kek = toy_key\<rparr>"
      "vs_db t = sample_db\<lparr>db_enrollments := [?row]\<rparr>" for t
    using that digest_1_decodes sample_nonempty by (simp add: SealEnrollmentCredential_def)
  then obtain v where v: "SealEnrollmentCredential toy_env enrollment_1 client_1 digest_1 ?md toy_secret
      (vault_part (s\<lparr>mgr_world := mgr_world s\<lparr>sw_rest := Suc (Suc 0)\<rparr>\<rparr>)) = (Inr 2, v)"
    using s by (fastforce simp: vault_part_def)
  show ?thesis
    using c v s(2,3)
    by (simp add: seal_confirmed_def the_vault_def require_unlocked_def run_simps row auth codex platform rest_def world_def
        service_now_def load_def on_vault_def RequireUnlocked_def)
qed

text \<open>The whole confirmation.\<close>

lemma toy_confirm:
  "\<exists>s'. handle_auth_confirm toy_service toy_auth (toy_call ''auth.confirm'') (toy_state toy_login_db) =
     (Inr (sealed_view enrollment_1 credential_1 2), s')"
proof -
  have auth: "auth_ClientID toy_auth = client_1" by (simp add: toy_auth_def)
  have body: "cfb_EnrollmentID toy_confirm_body = enrollment_1" "cfb_ProfileSelector toy_confirm_body = ''@work''"
    "cfb_Confirmed toy_confirm_body" by (simp_all add: toy_confirm_body_def)
  have read: "AuthEnrollment_read enrollment_1 toy_login_db = Inr toy_enrollment"
    by (simp add: AuthEnrollment_read_def read_row_def toy_login_db_def)
  have tables: "db_profiles toy_login_db = db_profiles sample_db" "db_accounts toy_login_db = db_accounts sample_db"
    "db_credentials toy_login_db = db_credentials sample_db" by (simp_all add: toy_login_db_def)
  have digest: "enrollmentAliasDigest toy_service enrollment_1 ''@work'' = Inr digest_1"
    by (simp add: enrollmentAliasDigest_def toy_alias toy_hex)
  obtain binding credential where b: "resolveCodexProfile ''@work'' '''' toy_login_db = Inr binding"
    "confirmation_bound toy_enrollment binding digest_1" "CredentialInstance_read credential_1 toy_login_db = Inr credential"
    "credential_unchanged toy_enrollment binding credential"
    by (simp add: resolveCodexProfile_def ResolveProfile_def toy_alias bind_profile_def Account_read_def
        CredentialInstance_read_def read_row_def tables confirmation_bound_def credential_unchanged_def)
       (simp add: sample_db_def bind_profile_def Account_read_def read_row_def tables)
  let ?row = "confirm_enrollment_row client_1 20 toy_enrollment"
  obtain c s1 where seal: "seal_confirmed toy_service toy_auth ?row
      (toy_state toy_login_db\<lparr>mgr_world := mgr_world (toy_state toy_login_db)\<lparr>sw_rest := Suc 0\<rparr>,
         mgr_db := sample_db\<lparr>db_enrollments := [?row]\<rparr>\<rparr>) = (Inr (c, 2), s1)" "cred_ID c = credential_1"
    using toy_seal_confirmed [of "toy_state toy_login_db\<lparr>mgr_world := mgr_world (toy_state toy_login_db)\<lparr>sw_rest := Suc 0\<rparr>,
         mgr_db := sample_db\<lparr>db_enrollments := [?row]\<rparr>\<rparr>"] by auto
  have row: "enr_ID ?row = enrollment_1" "enr_StagingPath ?row = ''/d/enrollments/'' @ enrollment_1"
    by (simp_all add: confirm_enrollment_row_def)
  show ?thesis
    using b seal
    by (simp add: handle_auth_confirm_def toy_bodies_def toy_decode body read auth digest load_def run_simps rest_def world_def
        service_now_def store_result_def toy_confirmation row toy_staging [simplified])
qed

end
