(* ===== verification/ServiceProperties.thy ===== *)
theory ServiceProperties
  imports ServiceSamples
begin

text \<open>
  The properties of the session service, the daemon's handler of requests: it goes through the
  store's operations, answers a mutation once, starts Codex only from a confirmed preview, leaves a
  credential that opens after a confirmed login, and removes no files but its own.
\<close>

section \<open>Requests and the store\<close>

text \<open>The requests of any clients, in the order in which they are handled.\<close>

fun serve_requests :: "('x, 'p) service \<Rightarrow> (AuthContext \<times> Request) list \<Rightarrow> ('x, 'p) service_state \<Rightarrow> ('x, 'p) service_state" where
  "serve_requests svc [] s = s"
| "serve_requests svc ((auth, rq) # calls) s = serve_requests svc calls (snd (Handle svc auth rq s))"

lemma serve_requests_history:
  "service_ok svc \<Longrightarrow> store_op\<^sup>*\<^sup>* (mgr_db s) (mgr_db (serve_requests svc calls s))"
proof (induction calls arbitrary: s)
  case (Cons call calls)
  obtain auth rq where call: "call = (auth, rq)" by (cases call)
  have "store_op\<^sup>*\<^sup>* (mgr_db s) (mgr_db (snd (Handle svc auth rq s)))"
    by (rule service_history [OF Cons.prems surjective_pairing])
  also have "store_op\<^sup>*\<^sup>* (mgr_db (snd (Handle svc auth rq s))) (mgr_db (serve_requests svc (call # calls) s))"
    using Cons.IH [OF Cons.prems] by (simp add: call)
  finally show ?case .
qed simp

text \<open>Whatever requests the clients send, well-formed or not, each request handled by the service is
  for the store a history of its own operations: the service refines the store, so all keys, references and
  checks of the schema hold after any requests.\<close>

theorem service_refines_store:
  assumes "service_ok svc" "db_ok (mgr_db s)"
  shows "store_op\<^sup>*\<^sup>* (mgr_db s) (mgr_db (serve_requests svc calls s)) \<and> db_ok (mgr_db (serve_requests svc calls s))"
  using serve_requests_history [OF assms(1)] store_ops_db_ok assms(2) by blast

lemma service_refines_store_witness:
  "db_ok (mgr_db (serve_requests toy_service [(toy_auth, toy_call ''auth.confirm''), (toy_auth, toy_call ''sessions.start'')]
     (toy_state sample_db)))"
  by (rule conjunct2 [OF service_refines_store [OF toy_service_ok]]) (simp add: sample_db_ok)

section \<open>Idempotency\<close>

text \<open>C4. A mutation that has answered is never run again: whatever happens to the store meanwhile, a
  request of the same client with the same method, key and digest is answered by the recorded response and
  changes nothing; one with another body is refused as a conflict and changes nothing.\<close>

theorem mutation_answered_once:
  assumes "requiresIdempotency (rq_Method rq)" "Handle svc auth rq s = (Inr r, s1)" "store_op\<^sup>*\<^sup>* (mgr_db s1) (mgr_db s2)"
  shows "\<exists>metadata. (r = AnyRaw metadata \<or> svc_marshal svc r = Inr metadata) \<and>
    (\<forall>auth2 rq2. auth_ClientID auth2 = auth_ClientID auth \<and> rq_Method rq2 = rq_Method rq \<and>
       rq_IdempotencyKey rq2 = rq_IdempotencyKey rq \<longrightarrow>
       Handle svc auth2 rq2 s2 =
         (if request_digest svc rq2 = request_digest svc rq then (Inr (AnyRaw metadata), s2)
          else (fail CodeConflict ''idempotency key was reused with a different request'', s2)))"
  by (rule answered_for_good [OF assms])

lemma mutation_answered_once_witness:
  "\<exists>s1. Handle toy_service toy_auth (toy_call ''sessions.detach'') (toy_state sample_db) = (Inr toy_detached, s1) \<and>
     Handle toy_service toy_auth (toy_call ''sessions.detach'') s1 = (Inr (AnyRaw ''{}''), s1)"
proof -
  obtain s1 where s1: "Handle toy_service toy_auth (toy_call ''sessions.detach'') (toy_state sample_db) = (Inr toy_detached, s1)"
    using toy_detach by blast
  have "requiresIdempotency (rq_Method (toy_call ''sessions.detach''))" by (simp add: toy_call_def requiresIdempotency_def)
  from mutation_answered_once [OF this s1 rtranclp.rtrancl_refl] s1 show ?thesis by (auto simp: toy_detached_def)
qed

section \<open>Files\<close>

text \<open>C13. The service itself removes no files but the staging directories of enrollments and the homes and
  writer locks of credentials: with any other functions in the place of its \<open>os.RemoveAll\<close> and
  \<open>os.Remove\<close> that agree with them on these paths, every request does the same. Each such path is a
  child of the staging root or of the credential root, so neither root and nothing above it is ever
  given to them. (What the Codex package removes by itself, its temporary schema directory and the home
  it materialized, happens behind the bridge, which is a parameter here.)\<close>

theorem requests_remove_own_files:
  assumes "\<forall>path. owned_path svc path \<longrightarrow>
    g path = files_remove_all (svc_files svc) path \<and> h path = files_remove (svc_files svc) path"
  shows "Handle (svc\<lparr>svc_files := (svc_files svc)\<lparr>files_remove_all := g, files_remove := h\<rparr>\<rparr>) auth rq s = Handle svc auth rq s \<and>
    (\<forall>path. owned_path svc path \<longrightarrow> Dir path = staging_base svc \<or>
       svc_CredentialHomeRoot svc \<noteq> '''' \<and> Dir path = Clean (svc_CredentialHomeRoot svc))"
  using Handle_alike [of g h svc auth rq] assms owned_path_child by (auto simp: removes_alike_def removing_by_def)

lemma requests_remove_own_files_witness:
  "Handle (toy_service\<lparr>svc_files := (svc_files toy_service)\<lparr>files_remove_all :=
       (\<lambda>path. if owned_path toy_service path then returnS () else throwS (OtherError ''never removed'')),
     files_remove := (\<lambda>path. if owned_path toy_service path then returnS () else throwS (OtherError ''never removed''))\<rparr>\<rparr>)
     toy_auth (toy_call ''auth.logout'') (toy_state sample_db) =
   Handle toy_service toy_auth (toy_call ''auth.logout'') (toy_state sample_db)"
  by (rule conjunct1 [OF requests_remove_own_files]) simp

section \<open>Starting Codex\<close>

text \<open>C5. A Codex Session starts only from what its user confirmed: when \<open>sessions.start\<close> succeeds, either
  the stored profile is one of the fake provider, or the request named a preview of its own client and
  confirmed it, and the store consumed this preview for this very request: on a first consumption the
  confirmation repeats the previewed tuple, the preview has not expired, and account, profile, credential
  and usage are still the previewed ones.\<close>

theorem codex_start_confirmed:
  assumes "handle_sessions_start svc auth rq s = (Inr r, s')" "decodeBody (body_start (svc_bodies svc)) rq = Inr body"
    "db_ok (mgr_db s)" "list_all (\<lambda>p. prof_ID p \<noteq> '''') (db_profiles (mgr_db s))"
  shows "(\<exists>profile. RuntimeProfile_read (stb_RuntimeProfileID body) (mgr_db s) = Inr profile \<and> prof_Provider profile = ProviderFake) \<or>
    (\<exists>confirmation request session d. stb_Confirmation body = Some confirmation \<and> pc_Confirmed confirmation \<and>
       req_PreviewID request = stb_PreviewID body \<and> req_ClientID request = auth_ClientID auth \<and>
       req_RequestDigest request = request_digest svc rq \<and> req_Confirmation request = start_confirmation confirmation \<and>
       ConsumeSessionStartPreview request (mgr_db s) = (Inr session, d) \<and>
       (\<forall>p. SessionStartPreview_read (stb_PreviewID body) (mgr_db s) = Inr p \<and> prev_ConsumedAt p = None \<longrightarrow>
          prev_ClientID p = auth_ClientID auth \<and> req_At request < prev_ExpiresAt p \<and>
          confirmation_matches request p \<and> preview_still_bound p (mgr_db s) = Inr ()))"
  using start_confirmed_or_fake [OF assms(1,2,4)]
proof (elim disjE exE conjE)
  fix confirmation request session d
  assume request: "stb_Confirmation body = Some confirmation" "pc_Confirmed confirmation"
    "req_PreviewID request = stb_PreviewID body" "req_ClientID request = auth_ClientID auth"
    "req_RequestDigest request = request_digest svc rq" "req_Confirmation request = start_confirmation confirmation"
    and consumed: "ConsumeSessionStartPreview request (mgr_db s) = (Inr session, d)"
  have "prev_ClientID p = auth_ClientID auth \<and> req_At request < prev_ExpiresAt p \<and>
      confirmation_matches request p \<and> preview_still_bound p (mgr_db s) = Inr ()"
    if "SessionStartPreview_read (stb_PreviewID body) (mgr_db s) = Inr p" "prev_ConsumedAt p = None" for p
    using Consume_fresh [OF assms(3) consumed, of p] that request(3,4) by simp
  then show ?thesis using request consumed by blast
qed blast

lemma codex_start_confirmed_witness:
  "\<exists>s' request session d. handle_sessions_start toy_service toy_auth (toy_call ''sessions.start'') (toy_state ready_db) =
      (Inr (sessionView started_session), s') \<and>
     ConsumeSessionStartPreview request ready_db = (Inr session, d) \<and> req_ClientID request = client_1 \<and>
     confirmation_matches request sample_preview \<and> preview_still_bound sample_preview ready_db = Inr ()"
proof -
  obtain s' where run: "handle_sessions_start toy_service toy_auth (toy_call ''sessions.start'') (toy_state ready_db) =
      (Inr (sessionView started_session), s')" using toy_start by blast
  have body: "decodeBody (body_start (svc_bodies toy_service)) (toy_call ''sessions.start'') = Inr toy_start_body"
    by (simp add: toy_bodies_def toy_decode)
  have ids: "list_all (\<lambda>p. prof_ID p \<noteq> '''') (db_profiles ready_db)"
    using sample_nonempty by (simp add: ready_tables sealed_db_def) (simp add: sample_db_def)
  then have "RuntimeProfile_read '''' ready_db \<noteq> Inr profile" for profile
    by (auto simp: RuntimeProfile_read_def bindE_Inr list_all_iff dest: read_row_key)
  moreover have "stb_RuntimeProfileID toy_start_body = ''''" "stb_PreviewID toy_start_body = preview_1"
    by (simp_all add: toy_start_body_def)
  moreover have "SessionStartPreview_read preview_1 ready_db = Inr sample_preview" "prev_ConsumedAt sample_preview = None"
    by (simp_all add: SessionStartPreview_read_def read_row_def ready_tables sample_preview_def)
  moreover have "auth_ClientID toy_auth = client_1" by (simp add: toy_auth_def)
  ultimately show ?thesis
    using codex_start_confirmed [OF run body] ready_db_ok ids run by (metis toy_state_simps(1))
qed

section \<open>Logins\<close>

text \<open>C6. A first login that is reported as confirmed has left a credential that opens: the user confirmed it
  as the client that began it, and the vault opens the credential to exactly the bytes that were read from
  the staging directory, at the revision that is reported.\<close>

theorem confirmed_login_usable:
  assumes "handle_auth_confirm svc auth rq s = (Inr r, s')"
    "decodeBody (body_auth_confirm (svc_bodies svc)) rq = Inr body"
    "AuthEnrollment_read (cfb_EnrollmentID body) (mgr_db s) = Inr enrollment" "enr_State enrollment \<noteq> EnrollmentSucceeded"
    "svc_vault svc = Some env" "aead_correct env"
    "\<forall>item \<in> set (db_vault_items (mgr_db s)). vi_CredentialInstanceID item \<noteq> enr_CredentialInstanceID enrollment"
  shows "cfb_Confirmed body \<and> enr_ClientDeviceID enrollment = auth_ClientID auth \<and>
    (\<exists>bytes revision x x'. ct_read_auth (svc_codex svc) (enr_StagingPath enrollment) x = (Inr bytes, x') \<and>
       r = sealed_view (enr_ID enrollment) (enr_CredentialInstanceID enrollment) revision \<and>
       ReadCredential env (enr_CredentialInstanceID enrollment) (vault_part s') = (Inr (bytes, revision), vault_part s'))"
  by (rule confirm_reads [OF assms])

lemma confirmed_login_usable_witness:
  "\<exists>s'. handle_auth_confirm toy_service toy_auth (toy_call ''auth.confirm'') (toy_state toy_login_db) =
      (Inr (sealed_view enrollment_1 credential_1 2), s') \<and>
     (\<exists>revision. ReadCredential toy_env credential_1 (vault_part s') = (Inr (toy_secret, revision), vault_part s'))"
proof -
  obtain s' where run: "handle_auth_confirm toy_service toy_auth (toy_call ''auth.confirm'') (toy_state toy_login_db) =
      (Inr (sealed_view enrollment_1 credential_1 2), s')" using toy_confirm by blast
  have body: "decodeBody (body_auth_confirm (svc_bodies toy_service)) (toy_call ''auth.confirm'') = Inr toy_confirm_body"
    by (simp add: toy_bodies_def toy_decode)
  have read: "AuthEnrollment_read (cfb_EnrollmentID toy_confirm_body) (mgr_db (toy_state toy_login_db)) = Inr toy_enrollment"
    by (simp add: AuthEnrollment_read_def read_row_def toy_login_db_def toy_confirm_body_def)
  have auth_bytes: "ct_read_auth (svc_codex toy_service) p = returnS toy_secret" for p by (simp add: toy_service_def)
  have "db_vault_items toy_login_db = []" by (simp add: toy_login_db_def sample_tables)
  then show ?thesis
    using confirmed_login_usable [OF run body read, of toy_env] toy_aead(1) run by (auto simp: auth_bytes returnS_def)
qed

end
