(* ===== verification/DeviceAdmin.thy ===== *)
theory DeviceAdmin
  imports DeviceLaws StoreRegistry
begin

text \<open>
  Identities: \<open>src/internal/device/identity.go\<close> (bootstrap of a device root, loading and checking its
  identity files) and \<open>client_admin.go\<close> (creating, rotating and revoking clients). What the file
  system, the key generator and the random source answer is a parameter; a key pair is given by its
  private key.
\<close>

definition identitySchemaVersion :: int where "identitySchemaVersion = 1"

section \<open>Bootstrap\<close>

datatype root_state = RootExists | RootMissing | RootUnreadable error

record bootstrap_env =
  be_ctx :: bool
  be_absolute :: "error + string"
  be_root :: root_state
  be_mkdir :: "error + unit"
  be_staging :: "error + string"
  be_private_directory :: "error + unit"
  be_device_random :: "octets option"
  be_client_random :: "octets option"
  be_daemon_key :: "octets option"
  be_client_key :: "octets option"
  be_open :: "error + unit"
  be_write_daemon :: "error + unit"
  be_write_owner :: "error + unit"
  be_close :: "error + unit"
  be_rename :: "error + unit"

record device_root =
  root_store :: db
  root_daemon :: DaemonIdentity
  root_owner :: LocalIdentity

definition wrap :: "ErrorCode \<Rightarrow> string \<Rightarrow> error + 'a \<Rightarrow> error + 'a" where
  "wrap code message r = (case r of Inl e \<Rightarrow> Inl (WrapError code message e) | Inr a \<Rightarrow> Inr a)"

definition generated :: "string \<Rightarrow> octets option \<Rightarrow> error + octets" where
  "generated message key =
     wrap CodeConflict message (case key of None \<Rightarrow> Inl (OtherError ''random source failed'') | Some k \<Rightarrow> Inr k)"

text \<open>A failure removes the staging directory, so nothing of the new root stays.\<close>

definition Bootstrap :: "crypto \<Rightarrow> bootstrap_env \<Rightarrow> string \<Rightarrow> string \<Rightarrow> time \<Rightarrow> error + device_root" where
  "Bootstrap cr env path displayName now =
     (if \<not> be_ctx env \<or> path = '''' \<or> displayName = '''' \<or> 128 < length displayName \<or> now = 0
      then fail CodeInvalidArgument ''invalid bootstrap request''
      else
     bindE (wrap CodeInvalidArgument ''device root is invalid'' (be_absolute env)) (\<lambda>absolute.
     case be_root env of
       RootExists \<Rightarrow> fail CodeAlreadyExists ''device root already exists''
     | RootUnreadable e \<Rightarrow> Inl (WrapError CodeConflict ''device root could not be inspected'' e)
     | RootMissing \<Rightarrow>
     bindE (wrap CodeConflict ''device root parent could not be created'' (be_mkdir env)) (\<lambda>_.
     bindE (be_staging env) (\<lambda>staging.
     bindE (be_private_directory env) (\<lambda>_.
     bindE (NewID ''device'' (be_device_random env)) (\<lambda>deviceID.
     bindE (NewID ''client'' (be_client_random env)) (\<lambda>clientID.
     bindE (generated ''daemon identity generation failed'' (be_daemon_key env)) (\<lambda>daemonPrivate.
     bindE (generated ''client identity generation failed'' (be_client_key env)) (\<lambda>clientPrivate.
     bindE (be_open env) (\<lambda>_.
     bindE (CreateDevice \<lparr>dev_ID = deviceID, dev_Kind = DeviceKindDaemon, dev_DisplayName = displayName,
              dev_SigningPublicKey = Public cr daemonPrivate, dev_CreatedAt = now, dev_UpdatedAt = now\<rparr>
              empty_db) (\<lambda>(_, d1).
     bindE (CreateClientIdentity \<lparr>cli_ID = clientID, cli_Name = ''local-owner'',
              cli_PublicKey = Public cr clientPrivate, cli_Revision = 1, cli_Status = ClientIdentityActive,
              cli_Caps = ownerCapabilities, cli_CreatedAt = now, cli_UpdatedAt = now\<rparr> d1) (\<lambda>(_, d2).
     bindE (be_write_daemon env) (\<lambda>_.
     bindE (be_write_owner env) (\<lambda>_.
     bindE (wrap CodeConflict ''device database could not be closed'' (be_close env)) (\<lambda>_.
     bindE (wrap CodeConflict ''device root could not be committed'' (be_rename env)) (\<lambda>_.
     Inr \<lparr>root_store = d2,
          root_daemon = \<lparr>daemon_SchemaVersion = identitySchemaVersion, daemon_DeviceID = deviceID,
                         daemon_PrivateKey = daemonPrivate\<rparr>,
          root_owner = \<lparr>local_SchemaVersion = identitySchemaVersion, local_ClientID = clientID,
                        local_PrivateKey = clientPrivate, local_DaemonID = deviceID,
                        local_DaemonPublicKey = Public cr daemonPrivate\<rparr>\<rparr>))))))))))))))))"

section \<open>The identity files\<close>

text \<open>The argument is what \<open>readPrivateJSON\<close> finds in the file.\<close>

definition LoadDaemonIdentity :: "error + DaemonIdentity \<Rightarrow> error + DaemonIdentity" where
  "LoadDaemonIdentity contents =
     bindE contents (\<lambda>identity.
     if daemon_SchemaVersion identity \<noteq> identitySchemaVersion \<or>
        \<not> is_ok (ValidateID (daemon_DeviceID identity)) \<or>
        length (daemon_PrivateKey identity) \<noteq> PrivateKeySize
     then fail CodeSchemaIncompatible ''daemon identity file is invalid'' else Inr identity)"

definition LoadOwnerIdentity :: "error + LocalIdentity \<Rightarrow> error + LocalIdentity" where
  "LoadOwnerIdentity contents =
     bindE contents (\<lambda>identity.
     if local_SchemaVersion identity \<noteq> identitySchemaVersion \<or>
        \<not> is_ok (ValidateID (local_ClientID identity)) \<or> \<not> is_ok (ValidateID (local_DaemonID identity)) \<or>
        length (local_PrivateKey identity) \<noteq> PrivateKeySize \<or>
        length (local_DaemonPublicKey identity) \<noteq> PublicKeySize
     then fail CodeSchemaIncompatible ''client identity file is invalid'' else Inr identity)"

definition VerifyIdentityStore ::
  "crypto \<Rightarrow> error + DaemonIdentity \<Rightarrow> error + LocalIdentity \<Rightarrow> db \<Rightarrow> error + unit" where
  "VerifyIdentityStore cr daemonFile ownerFile d =
     bindE (LoadDaemonIdentity daemonFile) (\<lambda>daemon.
     bindE (LoadOwnerIdentity ownerFile) (\<lambda>owner.
     bindE (Device_read d) (\<lambda>deviceRecord.
     bindE (ClientIdentity_read (local_ClientID owner) d) (\<lambda>clientRecord.
     if dev_ID deviceRecord \<noteq> daemon_DeviceID daemon \<or> local_DaemonID owner \<noteq> daemon_DeviceID daemon \<or>
        dev_SigningPublicKey deviceRecord \<noteq> PublicKey cr (daemon_PrivateKey daemon) \<or>
        local_DaemonPublicKey owner \<noteq> PublicKey cr (daemon_PrivateKey daemon) \<or>
        cli_Status clientRecord \<noteq> ClientIdentityActive \<or>
        cli_PublicKey clientRecord \<noteq> PublicKey cr (local_PrivateKey owner)
     then fail CodeUnauthenticated ''identity store verification failed'' else Inr ()))))"

section \<open>Clients\<close>

definition CreateClient ::
  "crypto \<Rightarrow> octets option \<Rightarrow> octets option \<Rightarrow> string \<Rightarrow> Capability list \<Rightarrow> time \<Rightarrow> db \<Rightarrow>
   error + ((LocalIdentity \<times> ClientIdentity) \<times> db)" where
  "CreateClient cr key random name capabilities now d =
     (if name = '''' \<or> now = 0 then fail CodeInvalidArgument ''invalid client creation request''
      else
     bindE (Device_read d) (\<lambda>device.
     bindE (generated ''client identity generation failed'' key) (\<lambda>privateKey.
     bindE (NewID ''client'' random) (\<lambda>clientID.
     bindE (CanonicalCapabilities capabilities) (\<lambda>canonical.
     let client = \<lparr>cli_ID = clientID, cli_Name = name, cli_PublicKey = Public cr privateKey, cli_Revision = 1,
                   cli_Status = ClientIdentityActive, cli_Caps = canonical, cli_CreatedAt = now,
                   cli_UpdatedAt = now\<rparr> in
     bindE (CreateClientIdentity client d) (\<lambda>(_, d').
     Inr ((\<lparr>local_SchemaVersion = identitySchemaVersion, local_ClientID = clientID,
            local_PrivateKey = privateKey, local_DaemonID = dev_ID device,
            local_DaemonPublicKey = dev_SigningPublicKey device\<rparr>, client), d')))))))"

definition RotateClient ::
  "crypto \<Rightarrow> octets option \<Rightarrow> ID \<Rightarrow> int \<Rightarrow> time \<Rightarrow> db \<Rightarrow> error + ((LocalIdentity \<times> ClientIdentity) \<times> db)" where
  "RotateClient cr key cid expectedRevision now d =
     (if now = 0 then fail CodeInvalidArgument ''invalid client rotation request''
      else
     bindE (Device_read d) (\<lambda>device.
     bindE (generated ''client identity generation failed'' key) (\<lambda>privateKey.
     bindE (RotateClientIdentity cid expectedRevision (Public cr privateKey) now d) (\<lambda>(client, d').
     Inr ((\<lparr>local_SchemaVersion = identitySchemaVersion, local_ClientID = cid, local_PrivateKey = privateKey,
            local_DaemonID = dev_ID device, local_DaemonPublicKey = dev_SigningPublicKey device\<rparr>, client), d')))))"

definition RevokeClient :: "ID \<Rightarrow> int \<Rightarrow> time \<Rightarrow> db \<Rightarrow> error + (ClientIdentity \<times> db)" where
  "RevokeClient cid expectedRevision now d =
     (if now = 0 then fail CodeInvalidArgument ''invalid client revocation request''
      else RevokeClientIdentity cid expectedRevision now d)"

section \<open>A new root works\<close>

lemma wrap_ok: "wrap c m r = Inr a \<longleftrightarrow> r = Inr a"
  by (cases r) (simp_all add: wrap_def)

lemma generated_ok: "generated m key = Inr k \<longleftrightarrow> key = Some k"
  by (cases key) (simp_all add: generated_def wrap_ok)

text \<open>What the two inserts leave in the new store.\<close>

lemma bootstrap_rows:
  assumes "CreateDevice device empty_db = Inr (u, d1)" "CreateClientIdentity client d1 = Inr (v, d2)"
  shows "Device_read d2 = Inr device \<and> is_ok (ValidateID (dev_ID device)) \<and> is_ok (ValidateID (cli_ID client)) \<and>
    length (dev_SigningPublicKey device) = 32 \<and> length (cli_PublicKey client) = 32 \<and>
    (\<exists>caps. ClientIdentity_read (cli_ID client) d2 = Inr (client\<lparr>cli_Caps := caps\<rparr>) \<and>
       CanonicalCapabilities (cli_Caps client) = Inr caps) \<and> db_clients d2 \<noteq> []"
  using assms
  by (auto simp: CreateDevice_def CreateClientIdentity_def bindE_Inr sql_insert_def empty_db_def Device_read_def
      ClientIdentity_read_def read_row_def split: if_splits)

lemma Bootstrap_pairs:
  assumes "Bootstrap cr env path displayName now = Inr made"
    and keys: "\<And>key. be_daemon_key env = Some key \<or> be_client_key env = Some key \<Longrightarrow> length key = PrivateKeySize"
  shows "VerifyIdentityStore cr (Inr (root_daemon made)) (Inr (root_owner made)) (root_store made) = Inr ()"
proof -
  from assms(1) obtain u d1 v d2 deviceID clientID dk ck where
    rows: "CreateDevice \<lparr>dev_ID = deviceID, dev_Kind = DeviceKindDaemon, dev_DisplayName = displayName,
              dev_SigningPublicKey = Public cr dk, dev_CreatedAt = now, dev_UpdatedAt = now\<rparr> empty_db = Inr (u, d1)"
      "CreateClientIdentity \<lparr>cli_ID = clientID, cli_Name = ''local-owner'',
              cli_PublicKey = Public cr ck, cli_Revision = 1, cli_Status = ClientIdentityActive,
              cli_Caps = ownerCapabilities, cli_CreatedAt = now, cli_UpdatedAt = now\<rparr> d1 = Inr (v, d2)"
    and made: "made = \<lparr>root_store = d2,
          root_daemon = \<lparr>daemon_SchemaVersion = identitySchemaVersion, daemon_DeviceID = deviceID,
                         daemon_PrivateKey = dk\<rparr>,
          root_owner = \<lparr>local_SchemaVersion = identitySchemaVersion, local_ClientID = clientID,
                        local_PrivateKey = ck, local_DaemonID = deviceID,
                        local_DaemonPublicKey = Public cr dk\<rparr>\<rparr>"
    and key: "be_daemon_key env = Some dk" "be_client_key env = Some ck"
    unfolding Bootstrap_def
    by (elim branches; simp only: sum.distinct sum.inject prod.inject;
        auto simp: bindE_Inr wrap_ok generated_ok split: root_state.splits)
  show ?thesis
    using bootstrap_rows [OF rows] keys key
    by (auto simp: VerifyIdentityStore_def LoadDaemonIdentity_def LoadOwnerIdentity_def made PublicKey_def)
qed

end
