(* ===== verification/Spec2Isabelle.thy ===== *)
theory Spec2Isabelle
  imports DomainProperties StoreProperties DeviceProperties RuntimeProperties VaultProperties ServiceProperties
    DeviceAdmin JsonText
begin

text \<open>
  MultiAgentDesk: the desk daemon, a service that runs agent Sessions for local clients.

  \<^bold>\<open>The program.\<close> A client connects to the daemon over a private endpoint and proves who it is
  (\<open>internal/device\<close>); every request of the connection is checked against the identity stored for it
  (\<open>internal/app/authorization.go\<close>) and handled by the session service (\<open>internal/app\<close>). The service
  reads and writes one SQLite database through the store (\<open>internal/storage\<close>), starts and drives
  Sessions through the runtime manager (\<open>internal/runtime\<close>), and keeps provider credentials in an
  encrypted vault (\<open>internal/vault\<close>). The values all of them exchange, with their checks and state
  machines, are in \<open>internal/domain\<close>. The service and the manager reach the Codex provider
  (\<open>internal/providers/codex\<close>) through a bridge.

  \<^bold>\<open>The library.\<close> \<open>GoPrelude\<close> has the integers, times and texts of Go as the program uses them: an
  \<open>int64\<close> is an integer that wraps at its width (\<open>i64\<close>), a time is a number of nanoseconds, and times
  are compared as the database compares them, as texts (\<open>text_before\<close>). \<open>Effects\<close> has the calls that
  may fail and change a state: a call returns an error or a value, with the new state; its lemmas are
  a precondition calculus (\<open>post\<close>) and the preservation of a condition (\<open>keeps\<close>). \<open>SqlTable\<close> has
  tables as lists of rows with the statements of SQL on them. \<open>Versioned\<close> is the contract of a row
  that is replaced only at an expected revision, with the lemma that of several writes at most one
  wins; the leases, identities and credentials of the store are interpretations of it.
  \<open>JsonText\<close> decides which texts are JSON values, \<open>FilePaths\<close> has Go's functions on Unix paths.

  \<^bold>\<open>The domain.\<close> \<open>Errors\<close> (\<open>errors.go\<close>), \<open>Identifiers\<close>, \<open>Entities\<close> and \<open>Validation\<close> (\<open>types.go\<close>,
  \<open>provider.go\<close>, \<open>account.go\<close>), \<open>SessionDomain\<close> (\<open>session.go\<close>), \<open>LeaseDomain\<close> (\<open>lease.go\<close>) and
  \<open>RingBuffer\<close> (\<open>internal/runtime/ring.go\<close>). \<open>DomainProperties\<close> states that a passed lease revision is
  never valid again, that the ring keeps a bounded, gapless tail of the output, and how a Session moves.

  \<^bold>\<open>The store.\<close> \<open>StoreSchema\<close> is the database: a table for each table of \<open>migrations/device\<close>, and
  \<open>db_ok\<close>, its keys, unique indexes, references and CHECK constraints after all migrations;
  \<open>SchemaDeletes\<close> has the effect of deletions. The operations follow the files: \<open>StoreRegistry\<close>,
  \<open>StoreSessions\<close>, \<open>StoreApprovals\<close> and \<open>StoreUsage\<close> for \<open>repository.go\<close>, \<open>StoreEnrollments\<close> for
  \<open>enrollment.go\<close>, \<open>StorePreviews\<close> for \<open>session_preview.go\<close>, \<open>StoreAccounts\<close> for \<open>accounts.go\<close>, and
  \<open>StoreVault\<close> for \<open>vault_records.go\<close>. A function named after a Go method reads the database, or
  returns an error or the result with the new database; one that changes the database even when it
  fails returns both. \<open>EnrollmentLaws\<close>, \<open>VaultLaws\<close>, \<open>StorePaging\<close> and \<open>StoreInvariants\<close> have what
  the operations keep; \<open>store_op\<close> there is the step relation of one operation, and a history is its
  reflexive transitive closure. \<open>StoreProperties\<close> states the invariants over all histories, what a
  started preview, a decision, a revocation and a page show, and the refinement of the abstract
  machine of enrollments.

  \<^bold>\<open>The connection.\<close> \<open>Frames\<close> (\<open>protocol.go\<close>: frames and the rejection of duplicate names),
  \<open>DeviceAuth\<close> (\<open>auth.go\<close>: both sides of the handshake), \<open>DeviceServer\<close> (\<open>server.go\<close>, \<open>client.go\<close>: the
  loop of one connection), \<open>DeviceAdmin\<close> (\<open>identity.go\<close>, \<open>client_admin.go\<close>), \<open>Authorization\<close> with
  \<open>AuthorizationLaws\<close>. \<open>DeviceLaws\<close> follows a run of the handshake to what both sides have seen, and
  \<open>DeviceProperties\<close> states agreement, completeness, the refusal of replays and the end of a
  changed identity.

  \<^bold>\<open>The runtime manager.\<close> \<open>RuntimeManager\<close> is \<open>manager.go\<close>: its state is the database, the children,
  the rings and the input sequence numbers. \<open>RuntimeLaws\<close> shows that each call is a history of the
  store, \<open>RuntimeOutcomes\<close> what the calls leave, \<open>RuntimeProperties\<close> states that the manager runs the
  lease machine of the domain on the stored lease, the fencing of clients without the lease, the
  delivery of inputs, the replay of outputs and the end of a child.

  \<^bold>\<open>The vault.\<close> \<open>VaultManager\<close> is \<open>vault.go\<close>, \<open>VaultManagerLaws\<close> follows a seal and a read to the
  cipher, and \<open>VaultProperties\<close> states that a sealed credential opens again, only as itself, and only
  under the key of the password.

  \<^bold>\<open>The service.\<close> \<open>ServiceState\<close> has the state (the manager's, with the vault in its world), the
  bodies of requests and the values of responses; \<open>ServiceViews\<close> and \<open>ServiceAccounts\<close> are
  \<open>account_service.go\<close>; \<open>ServiceStaging\<close>, \<open>ServiceAuth\<close>, \<open>ServiceSessions\<close> and \<open>SessionService\<close> are
  \<open>session_service.go\<close>, one \<open>handle\<close> function for each case of \<open>dispatch\<close>, and \<open>Handle\<close> over them;
  \<open>Compatibility\<close> is the table of supported Codex versions. \<open>ServiceLaws\<close> shows that every request is
  a history of the store, \<open>ServiceOutcomes\<close> follows the idempotency table and the staging paths,
  \<open>ServiceStarts\<close>, \<open>ServiceLogin\<close> and \<open>ServiceFiles\<close> the start of Codex, the end of a login and the
  removal of files. \<open>ServiceProperties\<close> states the properties.

  \<^bold>\<open>Samples.\<close> \<open>Samples\<close>, \<open>SampleRuns\<close>, \<open>DeviceSamples\<close>, \<open>RuntimeSamples\<close> and \<open>ServiceSamples\<close> have a
  concrete database and concrete parameters, on which the witnesses of the properties are evaluated.

  \<^bold>\<open>Parameters and hypotheses.\<close> What is not code of the repository is an argument of the model:
  the ciphers, hashes and signatures, the random source, the clocks, the file system, the tokenizer
  and the coding of \<open>encoding/json\<close>, the child processes and the Codex bridge. The hypotheses on them
  are documented behaviour: AES-GCM opens what it sealed (\<open>aead_correct\<close>) and nothing else
  (\<open>aead_binds\<close>), Ed25519 accepts signatures of the key's holder only, and the bridge uses the
  store through its operations (\<open>bridge_ok\<close>, \<open>service_ok\<close>). \<open>logs_deliveries\<close> says only that a log
  records the input calls that succeeded, so that the delivery of inputs can be stated. Each is shown to be satisfiable by a
  concrete instance in the witnesses.

  \<^bold>\<open>Bounds.\<close> Recursions are structural, over the input that remains (the tokens of a JSON text, the
  frames of a connection, the chunks of a ring), or carry a measure. The walk over the account pages
  takes fuel: one page more than there are rows is shown to be enough. The waiting loop of
  \<open>waitTerminal\<close> runs over the list of its ticks.

  \<^bold>\<open>Not modelled.\<close> Goroutines and mutexes, except that \<open>Manager.Input\<close> is split at the points where it
  releases its mutex, and a theorem shows what two concurrent calls do. The operating system's side:
  endpoints, private files, child processes, discovery of the Codex binary, the files of a
  materialized credential. The connection to the Codex app-server, which is concurrent code around a
  child process. The opening and migration of the database, apart from the schema they produce.
  The command line. Nil receivers, contexts and the zeroing of secrets have no counterpart in the
  model. The coverage of the implementation is therefore that of the daemon's own logic.
\<close>

end
